(* ===== verification/Hub_Prelude.thy ===== *)
theory Hub_Prelude
  imports Main "HOL-Library.Word" "HOL-Library.Multiset"
begin

text \<open>
  Shared vocabulary of the development: the Go base types the hub uses (64-bit integers,
  wall-clock times, byte strings, nil-able protobuf messages, slices), errors as values, and the
  generic lemmas on lists that the component theories rely on.

  A Go method with a pointer receiver that returns \<open>(T, error)\<close> is a function into
  \<open>'s \<times> (error + 'a)\<close>: the receiver after the call, and the error or the value.
\<close>

section \<open>Collections of facts\<close>

named_theorems go_simps \<open>unfolding rules for Go-level helpers (getters, time, slices)\<close>
named_theorems handler_defs \<open>definitions of the event and command handlers\<close>

section \<open>Base types\<close>

type_synonym u64 = "64 word"
type_synonym i64 = int
type_synonym i32 = int
type_synonym bytes = "8 word list"
type_synonym carrier = "(string \<times> string) list"

text \<open>
  A protobuf message is reached through a pointer that may be nil, so a message-typed field is
  an option. The generated getters return the zero value on a nil receiver.
\<close>

definition nil_or :: "'b \<Rightarrow> ('a \<Rightarrow> 'b) \<Rightarrow> 'a option \<Rightarrow> 'b" where
  "nil_or z f m = (case m of None \<Rightarrow> z | Some x \<Rightarrow> f x)"

lemma nil_or_simps [simp]:
  "nil_or z f None = z"
  "nil_or z f (Some x) = f x"
  by (simp_all add: nil_or_def)

section \<open>Errors\<close>

text \<open>
  The gRPC status codes the modelled code uses, and errors: a status with its format string and
  arguments, a plain error, an error wrapped with a prefix, or a collection of errors.
\<close>

datatype code =
    InvalidArgument | NotFound | Internal | FailedPrecondition | PermissionDenied
  | Unauthenticated | Unavailable | Unimplemented | Canceled_code | Unknown_code

datatype error =
    GrpcStatus code string "string list"
  | Errorf string "string list"
  | Wrapf string error
  | Multierror "error list"

type_synonym 'a res = "error + 'a"

text \<open>The status found by unwrapping an error; of a collection, the first one that has a status.\<close>

fun error_code :: "error \<Rightarrow> code option" and first_code :: "error list \<Rightarrow> code option" where
  "error_code (GrpcStatus c _ _) = Some c"
| "error_code (Errorf _ _) = None"
| "error_code (Wrapf _ e) = error_code e"
| "error_code (Multierror es) = first_code es"
| "first_code [] = None"
| "first_code (e # es) = (case error_code e of None \<Rightarrow> first_code es | Some c \<Rightarrow> Some c)"

definition is_err :: "'a res \<Rightarrow> bool" where
  "is_err r = (case r of Inl _ \<Rightarrow> True | Inr _ \<Rightarrow> False)"

lemma is_err_simps [simp]: "is_err (Inl e)" "\<not> is_err (Inr x)"
  by (simp_all add: is_err_def)

lemma run_okE:
  assumes "case snd r of Inl _ \<Rightarrow> False | Inr v \<Rightarrow> P v"
  obtains s v where "r = (s, Inr v)" and "P v"
  using assms by (cases r) (auto split: sum.splits)

section \<open>64-bit signed integers and time\<close>

text \<open>Conversion to a signed 64-bit value: wrap-around into \<open>[-2^63, 2^63)\<close>.\<close>

definition to_i64 :: "int \<Rightarrow> i64" where
  "to_i64 n = (n + 2 ^ 63) mod 2 ^ 64 - 2 ^ 63"

lemma to_i64_range: "- (2 ^ 63) \<le> to_i64 n \<and> to_i64 n < 2 ^ 63"
  by (simp add: to_i64_def)

lemma to_i64_id: "- (2 ^ 63) \<le> n \<Longrightarrow> n < 2 ^ 63 \<Longrightarrow> to_i64 n = n"
  by (simp add: to_i64_def)

text \<open>
  A \<open>time.Time\<close> is the number of nanoseconds since the Unix epoch. Go's zero time is the first of
  January of year 1, which lies outside the range of \<open>time.Unix(0, n)\<close> for an \<open>int64\<close> \<open>n\<close>.
\<close>

type_synonym gotime = int

definition zero_time :: gotime where
  "zero_time = - 62135596800000000000"

definition IsZero :: "gotime \<Rightarrow> bool" where
  "IsZero t = (t = zero_time)"

definition time_UnixNano :: "gotime \<Rightarrow> i64" where
  "time_UnixNano t = to_i64 t"

text \<open>\<open>pkg/time\<close>: zero stands for "no time" in both directions.\<close>

definition pkgTime_Unix :: "i64 \<Rightarrow> i64 \<Rightarrow> gotime" where
  "pkgTime_Unix sec nsec =
     (if sec \<noteq> 0 \<or> nsec \<noteq> 0 then sec * 1000000000 + nsec else zero_time)"

definition pkgTime_UnixNano :: "gotime \<Rightarrow> i64" where
  "pkgTime_UnixNano t = (if \<not> IsZero t then time_UnixNano t else 0)"

definition pkgTime_UnixSec :: "gotime \<Rightarrow> i64" where
  "pkgTime_UnixSec t = (if \<not> IsZero t then to_i64 (t div 1000000000) else 0)"

lemmas time_defs = IsZero_def zero_time_def time_UnixNano_def pkgTime_Unix_def
  pkgTime_UnixNano_def pkgTime_UnixSec_def

lemma pkgTime_Unix_UnixNano:
  assumes "- (2 ^ 63) \<le> n" and "n < 2 ^ 63"
  shows "pkgTime_UnixNano (pkgTime_Unix 0 n) = n"
  using assms by (simp add: time_defs to_i64_id)

section \<open>Slices\<close>

text \<open>
  \<open>append(s[:i], s[i+1:]...)\<close>: the slice without its element at position \<open>i\<close>.
\<close>

definition remove_at :: "nat \<Rightarrow> 'a list \<Rightarrow> 'a list" where
  "remove_at i xs = take i xs @ drop (Suc i) xs"

lemma remove_at_simps [simp]:
  "remove_at i [] = []"
  "remove_at 0 (x # xs) = xs"
  "remove_at (Suc i) (x # xs) = x # remove_at i xs"
  by (simp_all add: remove_at_def)

lemma length_remove_at: "i < length xs \<Longrightarrow> length (remove_at i xs) = length xs - 1"
  by (simp add: remove_at_def)

lemma set_remove_at: "set (remove_at i xs) \<subseteq> set xs"
  by (auto simp: remove_at_def dest: in_set_takeD in_set_dropD)

lemma mset_remove_at: "i < length xs \<Longrightarrow> mset xs = add_mset (xs ! i) (mset (remove_at i xs))"
proof (induction xs arbitrary: i)
  case (Cons x xs)
  then show ?case by (cases i) auto
qed simp

lemma distinct_remove_at: "distinct xs \<Longrightarrow> distinct (remove_at i xs)"
proof (induction xs arbitrary: i)
  case (Cons x xs)
  have "set (remove_at j xs) \<subseteq> set xs" for j by (rule set_remove_at)
  with Cons show ?case by (cases i) auto
qed simp

lemma map_remove_at: "map f (remove_at i xs) = remove_at i (map f xs)"
  by (simp add: remove_at_def take_map drop_map)

lemma set_remove_at_distinct:
  "distinct xs \<Longrightarrow> i < length xs \<Longrightarrow> set (remove_at i xs) = set xs - {xs ! i}"
proof (induction xs arbitrary: i)
  case (Cons x xs)
  then show ?case by (cases i) auto
qed simp

lemma filter_remove_at:
  "i < length xs \<Longrightarrow> \<not> P (xs ! i) \<Longrightarrow> filter P (remove_at i xs) = filter P xs"
proof (induction xs arbitrary: i)
  case (Cons x xs)
  then show ?case by (cases i) auto
qed simp

text \<open>
  The index loops of the handlers (\<open>for i, event := range ops { if ... { return i } }; return -1\<close>):
  \<open>None\<close> is the result \<open>-1\<close>.
\<close>

fun find_index :: "('a \<Rightarrow> bool) \<Rightarrow> 'a list \<Rightarrow> nat option" where
  "find_index P [] = None"
| "find_index P (x # xs) = (if P x then Some 0 else map_option Suc (find_index P xs))"

lemma find_index_None: "find_index P xs = None \<longleftrightarrow> (\<forall>x \<in> set xs. \<not> P x)"
  by (induction xs) auto

lemma find_index_SomeD:
  "find_index P xs = Some i \<Longrightarrow> i < length xs \<and> P (xs ! i) \<and> (\<forall>j < i. \<not> P (xs ! j))"
proof (induction xs arbitrary: i)
  case (Cons x xs)
  show ?case
  proof (cases "P x")
    case True
    with Cons.prems show ?thesis by simp
  next
    case False
    with Cons.prems obtain k where "find_index P xs = Some k" and "i = Suc k" by auto
    with Cons.IH False show ?thesis by (auto simp: less_Suc_eq_0_disj)
  qed
qed simp

lemma find_index_ex: "(\<exists>i. find_index P xs = Some i) \<longleftrightarrow> (\<exists>x \<in> set xs. P x)"
  by (metis find_index_None not_None_eq)

lemma find_index_map: "find_index (P \<circ> f) xs = find_index P (map f xs)"
  by (induction xs) auto

text \<open>Removing the only element that satisfies a predicate is filtering it out.\<close>

lemma remove_at_eq_filter:
  assumes "find_index (\<lambda>x. f x = k) xs = Some i" and "distinct (map f xs)"
  shows "remove_at i xs = filter (\<lambda>x. f x \<noteq> k) xs"
  using assms
proof (induction xs arbitrary: i)
  case (Cons x xs)
  show ?case
  proof (cases "f x = k")
    case True
    with Cons.prems have "\<forall>y \<in> set xs. f y \<noteq> k" by (metis distinct.simps(2) image_eqI list.simps(9) set_map)
    with True Cons.prems show ?thesis by simp
  next
    case False
    with Cons.prems obtain j where "find_index (\<lambda>x. f x = k) xs = Some j" and "i = Suc j" by auto
    with False Cons show ?thesis by simp
  qed
qed simp

end
