(* ===== verification/Hub_Commands.thy ===== *)
theory Hub_Commands
  imports Hub_Prelude
begin

text \<open>
  The command messages of the resource aggregate and their helpers
  (\<^verbatim>\<open>resource-aggregate/commands\<close>): resource identifiers, contents, statuses,
  device connections, twin synchronization, and the requests the aggregate handles.
\<close>

section \<open>External package \<^verbatim>\<open>google/uuid\<close>\<close>

text \<open>
  The UUID package is a parameter: \<open>NewSHA1\<close> in the URL namespace rendered as a string, the nil
  UUID rendered as a string, and whether \<open>uuid.Parse\<close> accepts a string.
\<close>

record uuid_pkg =
  uuid_NewSHA1 :: "string \<Rightarrow> string"
  uuid_Nil :: string
  uuid_Parse_ok :: "string \<Rightarrow> bool"

text \<open>
  The string sets of \<^verbatim>\<open>plgd-dev/kit\<close> are a parameter too: \<open>MakeSet\<close> of the arguments (its
  elements as a list) and \<open>HasOneOf\<close>. \<open>kit_strings_ok\<close> is their documented behaviour.
\<close>

record kit_strings =
  kit_MakeSet :: "string list \<Rightarrow> string list"
  kit_HasOneOf :: "string list \<Rightarrow> string \<Rightarrow> bool"

definition kit_strings_ok :: "kit_strings \<Rightarrow> bool" where
  "kit_strings_ok S \<longleftrightarrow>
     (\<forall>xs. set (kit_MakeSet S xs) = set xs) \<and> (\<forall>s x. kit_HasOneOf S s x \<longleftrightarrow> x \<in> set s)"

lemma kit_strings_okD:
  assumes "kit_strings_ok S"
  shows "kit_MakeSet S xs = [] \<longleftrightarrow> xs = []" and "kit_HasOneOf S (kit_MakeSet S xs) x \<longleftrightarrow> x \<in> set xs"
  using assms unfolding kit_strings_ok_def by (metis set_empty)+

section \<open>Messages\<close>

record AuditContext =
  ac_UserId :: string
  ac_CorrelationId :: string
  ac_Owner :: string

record ResourceId =
  rid_DeviceId :: string
  rid_Href :: string

record Policy =
  pol_BitFlags :: i32

record EndpointInformation =
  ep_Endpoint :: string
  ep_Priority :: u64

record Resource =
  res_Href :: string
  res_DeviceId :: string
  res_ResourceTypes :: "string list"
  res_Interfaces :: "string list"
  res_Anchor :: string
  res_Title :: string
  res_SupportedContentTypes :: "string list"
  res_ValidUntil :: i64
  res_Policy :: "Policy option"
  res_EndpointInformations :: "EndpointInformation list"

record Content =
  ct_Data :: bytes
  ct_ContentType :: string
  ct_CoapContentFormat :: i32

datatype Status =
    Status_UNKNOWN | Status_OK | Status_BAD_REQUEST | Status_UNAUTHORIZED | Status_FORBIDDEN
  | Status_NOT_FOUND | Status_UNAVAILABLE | Status_NOT_IMPLEMENTED | Status_ACCEPTED | Status_ERROR
  | Status_METHOD_NOT_ALLOWED | Status_CREATED | Status_CANCELED | Status_NOT_MODIFIED

record CommandMetadata =
  cm_ConnectionId :: string
  cm_Sequence :: u64

abbreviation GetUserId :: "AuditContext option \<Rightarrow> string" where
  "GetUserId \<equiv> nil_or [] ac_UserId"
abbreviation GetCorrelationId :: "AuditContext option \<Rightarrow> string" where
  "GetCorrelationId \<equiv> nil_or [] ac_CorrelationId"
abbreviation GetOwner :: "AuditContext option \<Rightarrow> string" where
  "GetOwner \<equiv> nil_or [] ac_Owner"
abbreviation GetDeviceId :: "ResourceId option \<Rightarrow> string" where
  "GetDeviceId \<equiv> nil_or [] rid_DeviceId"
abbreviation GetHref :: "ResourceId option \<Rightarrow> string" where
  "GetHref \<equiv> nil_or [] rid_Href"
abbreviation GetConnectionId :: "CommandMetadata option \<Rightarrow> string" where
  "GetConnectionId \<equiv> nil_or [] cm_ConnectionId"
abbreviation GetSequence :: "CommandMetadata option \<Rightarrow> u64" where
  "GetSequence \<equiv> nil_or 0 cm_Sequence"
abbreviation GetContentType :: "Content option \<Rightarrow> string" where
  "GetContentType \<equiv> nil_or [] ct_ContentType"
abbreviation GetCoapContentFormat :: "Content option \<Rightarrow> i32" where
  "GetCoapContentFormat \<equiv> nil_or 0 ct_CoapContentFormat"
abbreviation GetData :: "Content option \<Rightarrow> bytes" where
  "GetData \<equiv> nil_or [] ct_Data"
abbreviation GetBitFlags :: "Policy option \<Rightarrow> i32" where
  "GetBitFlags \<equiv> nil_or 0 pol_BitFlags"

definition NewAuditContext :: "string \<Rightarrow> string \<Rightarrow> string \<Rightarrow> AuditContext" where
  "NewAuditContext userID correlationId owner =
     \<lparr>ac_UserId = userID, ac_CorrelationId = correlationId, ac_Owner = owner\<rparr>"

definition AuditContext_Clone :: "AuditContext option \<Rightarrow> AuditContext option" where
  "AuditContext_Clone c =
     (case c of None \<Rightarrow> None
      | Some x \<Rightarrow> Some (NewAuditContext (ac_UserId x) (ac_CorrelationId x) (ac_Owner x)))"

section \<open>Identifiers\<close>

definition ResourceLinksHref :: string where "ResourceLinksHref = ''/plgd/res''"
definition StatusHref :: string where "StatusHref = ''/plgd/s''"
definition ServicesResourceHref :: string where "ServicesResourceHref = ''/plgd/services''"

definition ResourceId_ToUUID :: "uuid_pkg \<Rightarrow> ResourceId option \<Rightarrow> string" where
  "ResourceId_ToUUID U r =
     (if length (GetHref r) = 0 then uuid_Nil U
      else uuid_NewSHA1 U (GetDeviceId r @ GetHref r))"

definition Resource_ToUUID :: "uuid_pkg \<Rightarrow> Resource option \<Rightarrow> string" where
  "Resource_ToUUID U r = uuid_NewSHA1 U (nil_or [] res_DeviceId r @ nil_or [] res_Href r)"

definition Resource_GetResourceID :: "Resource option \<Rightarrow> ResourceId" where
  "Resource_GetResourceID r =
     \<lparr>rid_DeviceId = nil_or [] res_DeviceId r, rid_Href = nil_or [] res_Href r\<rparr>"

definition MakeLinksResourceUUID :: "uuid_pkg \<Rightarrow> string \<Rightarrow> string" where
  "MakeLinksResourceUUID U deviceID = uuid_NewSHA1 U (deviceID @ ResourceLinksHref)"

definition MakeStatusResourceUUID :: "uuid_pkg \<Rightarrow> string \<Rightarrow> string" where
  "MakeStatusResourceUUID U deviceID = uuid_NewSHA1 U (deviceID @ StatusHref)"

definition MakeServicesResourceUUID :: "uuid_pkg \<Rightarrow> string \<Rightarrow> string" where
  "MakeServicesResourceUUID U hubID = uuid_NewSHA1 U (hubID @ ServicesResourceHref)"

definition NewResourceID :: "string \<Rightarrow> string \<Rightarrow> ResourceId" where
  "NewResourceID deviceID href = \<lparr>rid_DeviceId = deviceID, rid_Href = href\<rparr>"

fun ResourceId_Equal :: "ResourceId option \<Rightarrow> ResourceId option \<Rightarrow> bool" where
  "ResourceId_Equal None None = True"
| "ResourceId_Equal None (Some _) = False"
| "ResourceId_Equal (Some _) None = False"
| "ResourceId_Equal (Some r) (Some r1) =
     (rid_DeviceId r = rid_DeviceId r1 \<and> rid_Href r = rid_Href r1)"

definition ResourceId_ToString :: "ResourceId option \<Rightarrow> string" where
  "ResourceId_ToString r =
     (case r of None \<Rightarrow> []
      | Some x \<Rightarrow>
          if rid_DeviceId x = [] then []
          else if rid_Href x = [] then []
          else rid_DeviceId x @
            (if hd (rid_Href x) \<noteq> CHR ''/'' then CHR ''/'' # rid_Href x else rid_Href x))"

text \<open>\<open>strings.SplitN(v, "/", 2)\<close>: the parts before and after the first slash, when there is one.\<close>

definition split_slash :: "string \<Rightarrow> (string \<times> string) option" where
  "split_slash v =
     (case dropWhile (\<lambda>c. c \<noteq> CHR ''/'') v of
        [] \<Rightarrow> None
      | _ # rest \<Rightarrow> Some (takeWhile (\<lambda>c. c \<noteq> CHR ''/'') v, rest))"

definition ResourceIdFromString :: "string \<Rightarrow> ResourceId option" where
  "ResourceIdFromString v0 =
     (let v = (case v0 of [] \<Rightarrow> v0 | c # cs \<Rightarrow> if c = CHR ''/'' then cs else v0) in
      case split_slash v of
        None \<Rightarrow> None
      | Some (d, h) \<Rightarrow> Some \<lparr>rid_DeviceId = d, rid_Href = CHR ''/'' # h\<rparr>)"

section \<open>Device connection and twin synchronization\<close>

datatype Connection_Status = Connection_OFFLINE | Connection_ONLINE

datatype Connection_Protocol =
  Protocol_UNKNOWN | Protocol_COAP | Protocol_COAPS | Protocol_COAP_TCP | Protocol_COAPS_TCP

record Connection =
  cn_Status :: Connection_Status
  cn_Id :: string
  cn_ConnectedAt :: i64
  cn_Protocol :: Connection_Protocol
  cn_ServiceId :: string
  cn_LocalEndpoints :: "string list"

datatype Twin_State = Twin_OUT_OF_SYNC | Twin_DISABLED | Twin_SYNCING | Twin_IN_SYNC

record TwinSynchronization =
  ts_State :: Twin_State
  ts_SyncingAt :: i64
  ts_InSyncAt :: i64
  ts_CommandMetadata :: "CommandMetadata option"
  ts_ForceSynchronizationAt :: i64

definition empty_Connection :: Connection where
  "empty_Connection = \<lparr>cn_Status = Connection_OFFLINE, cn_Id = [], cn_ConnectedAt = 0,
     cn_Protocol = Protocol_UNKNOWN, cn_ServiceId = [], cn_LocalEndpoints = []\<rparr>"

definition empty_TwinSynchronization :: TwinSynchronization where
  "empty_TwinSynchronization = \<lparr>ts_State = Twin_OUT_OF_SYNC, ts_SyncingAt = 0, ts_InSyncAt = 0,
     ts_CommandMetadata = None, ts_ForceSynchronizationAt = 0\<rparr>"

abbreviation GetConnStatus :: "Connection option \<Rightarrow> Connection_Status" where
  "GetConnStatus \<equiv> nil_or Connection_OFFLINE cn_Status"
abbreviation GetConnId :: "Connection option \<Rightarrow> string" where
  "GetConnId \<equiv> nil_or [] cn_Id"
abbreviation GetConnectedAt :: "Connection option \<Rightarrow> i64" where
  "GetConnectedAt \<equiv> nil_or 0 cn_ConnectedAt"
abbreviation GetProtocol :: "Connection option \<Rightarrow> Connection_Protocol" where
  "GetProtocol \<equiv> nil_or Protocol_UNKNOWN cn_Protocol"
abbreviation GetServiceId :: "Connection option \<Rightarrow> string" where
  "GetServiceId \<equiv> nil_or [] cn_ServiceId"
abbreviation GetLocalEndpoints :: "Connection option \<Rightarrow> string list" where
  "GetLocalEndpoints \<equiv> nil_or [] cn_LocalEndpoints"
abbreviation GetTwinState :: "TwinSynchronization option \<Rightarrow> Twin_State" where
  "GetTwinState \<equiv> nil_or Twin_OUT_OF_SYNC ts_State"
abbreviation GetSyncingAt :: "TwinSynchronization option \<Rightarrow> i64" where
  "GetSyncingAt \<equiv> nil_or 0 ts_SyncingAt"
abbreviation GetInSyncAt :: "TwinSynchronization option \<Rightarrow> i64" where
  "GetInSyncAt \<equiv> nil_or 0 ts_InSyncAt"
abbreviation GetTwinCommandMetadata :: "TwinSynchronization option \<Rightarrow> CommandMetadata option" where
  "GetTwinCommandMetadata \<equiv> nil_or None ts_CommandMetadata"
abbreviation GetForceSynchronizationAt :: "TwinSynchronization option \<Rightarrow> i64" where
  "GetForceSynchronizationAt \<equiv> nil_or 0 ts_ForceSynchronizationAt"

definition NewConnection :: "Connection_Status \<Rightarrow> string \<Rightarrow> i64 \<Rightarrow> Connection" where
  "NewConnection st connectionID connectedAt =
     empty_Connection\<lparr>cn_Status := st, cn_Id := connectionID, cn_ConnectedAt := connectedAt\<rparr>"

definition Connection_Clone :: "Connection option \<Rightarrow> Connection option" where
  "Connection_Clone c =
     (case c of None \<Rightarrow> None
      | Some x \<Rightarrow> Some (NewConnection (cn_Status x) (cn_Id x) (cn_ConnectedAt x)))"

definition IsOnline :: "Connection option \<Rightarrow> bool" where
  "IsOnline c = (case c of None \<Rightarrow> False | Some x \<Rightarrow> cn_Status x = Connection_ONLINE)"

section \<open>Statuses\<close>

text \<open>The gRPC codes a status is translated to, the hub's extension codes included.\<close>

datatype grpc_code =
    Code_OK | Code_InvalidArgument | Code_Unauthenticated | Code_PermissionDenied | Code_NotFound
  | Code_Unavailable | Code_Unimplemented | Code_Internal | Code_Unknown
  | ExtCode_Accepted | ExtCode_MethodNotAllowed | ExtCode_Created | ExtCode_Valid

fun status2grpcCode :: "Status \<Rightarrow> grpc_code option" where
  "status2grpcCode Status_OK = Some Code_OK"
| "status2grpcCode Status_BAD_REQUEST = Some Code_InvalidArgument"
| "status2grpcCode Status_UNAUTHORIZED = Some Code_Unauthenticated"
| "status2grpcCode Status_FORBIDDEN = Some Code_PermissionDenied"
| "status2grpcCode Status_NOT_FOUND = Some Code_NotFound"
| "status2grpcCode Status_UNAVAILABLE = Some Code_Unavailable"
| "status2grpcCode Status_NOT_IMPLEMENTED = Some Code_Unimplemented"
| "status2grpcCode Status_ACCEPTED = Some ExtCode_Accepted"
| "status2grpcCode Status_ERROR = Some Code_Internal"
| "status2grpcCode Status_METHOD_NOT_ALLOWED = Some ExtCode_MethodNotAllowed"
| "status2grpcCode Status_CREATED = Some ExtCode_Created"
| "status2grpcCode Status_NOT_MODIFIED = Some ExtCode_Valid"
| "status2grpcCode _ = None"

definition ToGrpcCode :: "Status \<Rightarrow> grpc_code" where
  "ToGrpcCode s = (case status2grpcCode s of Some v \<Rightarrow> v | None \<Rightarrow> Code_Unknown)"

definition http2status :: "(int \<times> Status) list" where
  "http2status =
    [(202, Status_ACCEPTED), (304, Status_NOT_MODIFIED), (200, Status_OK), (400, Status_BAD_REQUEST),
     (404, Status_NOT_FOUND), (501, Status_NOT_IMPLEMENTED), (403, Status_FORBIDDEN),
     (401, Status_UNAUTHORIZED), (405, Status_METHOD_NOT_ALLOWED), (201, Status_CREATED),
     (204, Status_OK), (503, Status_UNAVAILABLE)]"

definition HTTPStatus2Status :: "int \<Rightarrow> Status" where
  "HTTPStatus2Status s = (case map_of http2status s of Some v \<Rightarrow> v | None \<Rightarrow> Status_UNKNOWN)"

definition status2http :: "(Status \<times> int) list" where
  "status2http =
    [(Status_ACCEPTED, 202), (Status_OK, 200), (Status_NOT_MODIFIED, 304), (Status_BAD_REQUEST, 400),
     (Status_NOT_FOUND, 404), (Status_NOT_IMPLEMENTED, 501), (Status_FORBIDDEN, 403),
     (Status_UNAUTHORIZED, 401), (Status_METHOD_NOT_ALLOWED, 405), (Status_CREATED, 201),
     (Status_UNAVAILABLE, 503), (Status_UNKNOWN, 503)]"

definition ToHTTPCode :: "Status \<Rightarrow> int" where
  "ToHTTPCode s = (case map_of status2http s of Some v \<Rightarrow> v | None \<Rightarrow> 500)"

section \<open>Copies\<close>

definition Content_Clone :: "Content option \<Rightarrow> Content option" where
  "Content_Clone c =
     (case c of None \<Rightarrow> None
      | Some x \<Rightarrow> Some \<lparr>ct_Data = ct_Data x, ct_ContentType = ct_ContentType x,
                        ct_CoapContentFormat = ct_CoapContentFormat x\<rparr>)"

definition ResourceId_Clone :: "ResourceId option \<Rightarrow> ResourceId option" where
  "ResourceId_Clone r =
     (case r of None \<Rightarrow> None
      | Some x \<Rightarrow> Some \<lparr>rid_DeviceId = rid_DeviceId x, rid_Href = rid_Href x\<rparr>)"

definition EndpointInformation_Clone :: "EndpointInformation \<Rightarrow> EndpointInformation" where
  "EndpointInformation_Clone e = \<lparr>ep_Endpoint = ep_Endpoint e, ep_Priority = ep_Priority e\<rparr>"

definition EndpointInformations_Clone :: "EndpointInformation list \<Rightarrow> EndpointInformation list" where
  "EndpointInformations_Clone e = map EndpointInformation_Clone e"

definition Resource_Clone :: "Resource \<Rightarrow> Resource" where
  "Resource_Clone r =
     \<lparr>res_Href = res_Href r, res_DeviceId = res_DeviceId r, res_ResourceTypes = res_ResourceTypes r,
      res_Interfaces = res_Interfaces r, res_Anchor = res_Anchor r, res_Title = res_Title r,
      res_SupportedContentTypes = res_SupportedContentTypes r, res_ValidUntil = res_ValidUntil r,
      res_Policy = Some \<lparr>pol_BitFlags = GetBitFlags (res_Policy r)\<rparr>,
      res_EndpointInformations = EndpointInformations_Clone (res_EndpointInformations r)\<rparr>"

section \<open>Requests\<close>

record UpdateResourceRequest =
  urq_ResourceId :: "ResourceId option"
  urq_CorrelationId :: string
  urq_Content :: "Content option"
  urq_ResourceInterface :: string
  urq_TimeToLive :: i64
  urq_CommandMetadata :: "CommandMetadata option"
  urq_Force :: bool

record RetrieveResourceRequest =
  rrq_ResourceId :: "ResourceId option"
  rrq_CorrelationId :: string
  rrq_ResourceInterface :: string
  rrq_TimeToLive :: i64
  rrq_CommandMetadata :: "CommandMetadata option"
  rrq_Etag :: "bytes list"

record DeleteResourceRequest =
  drq_ResourceId :: "ResourceId option"
  drq_CorrelationId :: string
  drq_TimeToLive :: i64
  drq_CommandMetadata :: "CommandMetadata option"
  drq_ResourceInterface :: string
  drq_Force :: bool

record CreateResourceRequest =
  crq_ResourceId :: "ResourceId option"
  crq_CorrelationId :: string
  crq_Content :: "Content option"
  crq_TimeToLive :: i64
  crq_CommandMetadata :: "CommandMetadata option"
  crq_Force :: bool

text \<open>
  The four confirmation requests have the same fields; only the retrieve confirmation carries an
  etag.
\<close>

record ConfirmRequest =
  cfm_ResourceId :: "ResourceId option"
  cfm_CorrelationId :: string
  cfm_Status :: Status
  cfm_Content :: "Content option"
  cfm_CommandMetadata :: "CommandMetadata option"

record ConfirmResourceRetrieveRequest = ConfirmRequest +
  cfm_Etag :: bytes

record NotifyResourceChangedRequest =
  nrq_ResourceId :: "ResourceId option"
  nrq_Content :: "Content option"
  nrq_CommandMetadata :: "CommandMetadata option"
  nrq_Status :: Status
  nrq_Etag :: bytes
  nrq_ResourceTypes :: "string list"

record CancelPendingCommandsRequest =
  cpc_ResourceId :: "ResourceId option"
  cpc_CorrelationIdFilter :: "string list"
  cpc_CommandMetadata :: "CommandMetadata option"

record PublishResourceLinksRequest =
  plr_Resources :: "Resource list"
  plr_DeviceId :: string
  plr_CommandMetadata :: "CommandMetadata option"

record UnpublishResourceLinksRequest =
  ulr_Hrefs :: "string list"
  ulr_DeviceId :: string
  ulr_CommandMetadata :: "CommandMetadata option"
  ulr_InstanceIds :: "i64 list"

datatype Device_Update =
    Update_None
  | Update_Connection "Connection option"
  | Update_TwinSynchronization "TwinSynchronization option"
  | Update_TwinEnabled bool
  | Update_TwinForceSynchronization bool

record UpdateDeviceMetadataRequest =
  udm_DeviceId :: string
  udm_CorrelationId :: string
  udm_Update :: Device_Update
  udm_TimeToLive :: i64
  udm_CommandMetadata :: "CommandMetadata option"

datatype Device_Confirm =
  Confirm_None | Confirm_TwinEnabled bool | Confirm_TwinForceSynchronization bool

record ConfirmDeviceMetadataUpdateRequest =
  cdm_DeviceId :: string
  cdm_CorrelationId :: string
  cdm_Status :: Status
  cdm_Confirm :: Device_Confirm
  cdm_CommandMetadata :: "CommandMetadata option"

record CancelPendingMetadataUpdatesRequest =
  cpm_DeviceId :: string
  cpm_CorrelationIdFilter :: "string list"
  cpm_CommandMetadata :: "CommandMetadata option"

record ServiceHeartbeat =
  shb_ServiceId :: string
  shb_TimeToLive :: i64
  shb_Timestamp :: i64
  shb_Register :: bool

record UpdateServiceMetadataRequest =
  usm_Heartbeat :: "ServiceHeartbeat option"

section \<open>Properties\<close>

lemma AuditContext_Clone_id [simp]: "AuditContext_Clone c = c"
  by (cases c) (auto simp: AuditContext_Clone_def NewAuditContext_def)

lemma Content_Clone_id [simp]: "Content_Clone c = c"
  by (cases c) (auto simp: Content_Clone_def)

lemma ResourceId_Clone_id [simp]: "ResourceId_Clone c = c"
  by (cases c) (auto simp: ResourceId_Clone_def)

lemma EndpointInformations_Clone_id [simp]: "EndpointInformations_Clone es = es"
  by (induction es) (auto simp: EndpointInformations_Clone_def EndpointInformation_Clone_def)

lemma ResourceId_Equal_eq: "ResourceId_Equal r s \<longleftrightarrow> r = s"
  by (cases "(r, s)" rule: ResourceId_Equal.cases) auto

lemma split_slash_append:
  assumes "CHR ''/'' \<notin> set d"
  shows "split_slash (d @ CHR ''/'' # h) = Some (d, h)"
proof -
  have "dropWhile (\<lambda>c. c \<noteq> CHR ''/'') (d @ CHR ''/'' # h) = CHR ''/'' # h"
    using assms by (induction d) auto
  moreover have "takeWhile (\<lambda>c. c \<noteq> CHR ''/'') (d @ CHR ''/'' # h) = d"
    using assms by (induction d) auto
  ultimately show ?thesis by (simp add: split_slash_def)
qed

end
