(* ===== verification/Hub_Events.thy ===== *)
theory Hub_Events
  imports Hub_Commands
begin

text \<open>
  The event messages of the resource aggregate (\<^verbatim>\<open>resource-aggregate/events\<close>): one record
  per protobuf message, the \<open>eventstore.Event\<close> methods of each, \<open>CopyData\<close>,
  \<open>CheckInitialized\<close>, expiry and the equality tests that decide whether an update is a change.
  A Go map is an association list with distinct keys (see \<^verbatim>\<open>Resource_Links\<close>).
\<close>

section \<open>Event metadata\<close>

record EventMetadata =
  em_Version :: u64
  em_Timestamp :: i64
  em_ConnectionId :: string
  em_Sequence :: u64
  em_HubId :: string

abbreviation GetVersion :: "EventMetadata option \<Rightarrow> u64" where
  "GetVersion \<equiv> nil_or 0 em_Version"
abbreviation GetTimestamp :: "EventMetadata option \<Rightarrow> i64" where
  "GetTimestamp \<equiv> nil_or 0 em_Timestamp"
abbreviation GetEmConnectionId :: "EventMetadata option \<Rightarrow> string" where
  "GetEmConnectionId \<equiv> nil_or [] em_ConnectionId"
abbreviation GetEmSequence :: "EventMetadata option \<Rightarrow> u64" where
  "GetEmSequence \<equiv> nil_or 0 em_Sequence"
abbreviation GetHubId :: "EventMetadata option \<Rightarrow> string" where
  "GetHubId \<equiv> nil_or [] em_HubId"

definition empty_EventMetadata :: EventMetadata where
  "empty_EventMetadata = \<lparr>em_Version = 0, em_Timestamp = 0, em_ConnectionId = [],
     em_Sequence = 0, em_HubId = []\<rparr>"

text \<open>\<open>now\<close> is the reading of \<open>time.Now()\<close>.\<close>

definition MakeEventMeta :: "gotime \<Rightarrow> string \<Rightarrow> u64 \<Rightarrow> u64 \<Rightarrow> string \<Rightarrow> EventMetadata" where
  "MakeEventMeta now connectionID seq version hubID =
     \<lparr>em_Version = version, em_Timestamp = time_UnixNano now, em_ConnectionId = connectionID,
      em_Sequence = seq, em_HubId = hubID\<rparr>"

definition EventMetadata_Clone :: "EventMetadata option \<Rightarrow> EventMetadata option" where
  "EventMetadata_Clone e =
     (case e of None \<Rightarrow> None
      | Some x \<Rightarrow> Some \<lparr>em_Version = em_Version x, em_Timestamp = em_Timestamp x,
          em_ConnectionId = em_ConnectionId x, em_Sequence = em_Sequence x, em_HubId = em_HubId x\<rparr>)"

section \<open>Event messages\<close>

record ResourceLinksPublished =
  rlp_DeviceId :: string
  rlp_Resources :: "Resource list"
  rlp_AuditContext :: "AuditContext option"
  rlp_EventMetadata :: "EventMetadata option"
  rlp_OpenTelemetryCarrier :: carrier

record ResourceLinksUnpublished =
  rlu_DeviceId :: string
  rlu_Hrefs :: "string list"
  rlu_AuditContext :: "AuditContext option"
  rlu_EventMetadata :: "EventMetadata option"
  rlu_OpenTelemetryCarrier :: carrier

record ResourceLinksSnapshotTaken =
  rls_DeviceId :: string
  rls_Resources :: "(string \<times> Resource) list option"
  rls_EventMetadata :: "EventMetadata option"
  rls_AuditContext :: "AuditContext option"

record ResourceChanged =
  rch_ResourceId :: "ResourceId option"
  rch_Content :: "Content option"
  rch_Status :: Status
  rch_AuditContext :: "AuditContext option"
  rch_EventMetadata :: "EventMetadata option"
  rch_Etag :: bytes
  rch_ResourceTypes :: "string list"
  rch_OpenTelemetryCarrier :: carrier

record ResourceUpdatePending =
  rup_ResourceId :: "ResourceId option"
  rup_ResourceInterface :: string
  rup_Content :: "Content option"
  rup_AuditContext :: "AuditContext option"
  rup_EventMetadata :: "EventMetadata option"
  rup_ValidUntil :: i64
  rup_ResourceTypes :: "string list"
  rup_OpenTelemetryCarrier :: carrier

record ResourceUpdated =
  rud_ResourceId :: "ResourceId option"
  rud_Status :: Status
  rud_Content :: "Content option"
  rud_AuditContext :: "AuditContext option"
  rud_EventMetadata :: "EventMetadata option"
  rud_ResourceTypes :: "string list"
  rud_OpenTelemetryCarrier :: carrier

record ResourceRetrievePending =
  rrp_ResourceId :: "ResourceId option"
  rrp_ResourceInterface :: string
  rrp_AuditContext :: "AuditContext option"
  rrp_EventMetadata :: "EventMetadata option"
  rrp_ValidUntil :: i64
  rrp_Etag :: "bytes list"
  rrp_ResourceTypes :: "string list"
  rrp_OpenTelemetryCarrier :: carrier

record ResourceRetrieved =
  rrd_ResourceId :: "ResourceId option"
  rrd_Status :: Status
  rrd_Content :: "Content option"
  rrd_AuditContext :: "AuditContext option"
  rrd_EventMetadata :: "EventMetadata option"
  rrd_Etag :: bytes
  rrd_ResourceTypes :: "string list"
  rrd_OpenTelemetryCarrier :: carrier

record ResourceDeletePending =
  rdp_ResourceId :: "ResourceId option"
  rdp_AuditContext :: "AuditContext option"
  rdp_EventMetadata :: "EventMetadata option"
  rdp_ValidUntil :: i64
  rdp_ResourceInterface :: string
  rdp_ResourceTypes :: "string list"
  rdp_OpenTelemetryCarrier :: carrier

record ResourceDeleted =
  rdd_ResourceId :: "ResourceId option"
  rdd_Status :: Status
  rdd_Content :: "Content option"
  rdd_AuditContext :: "AuditContext option"
  rdd_EventMetadata :: "EventMetadata option"
  rdd_ResourceTypes :: "string list"
  rdd_OpenTelemetryCarrier :: carrier

record ResourceCreatePending =
  rcp_ResourceId :: "ResourceId option"
  rcp_Content :: "Content option"
  rcp_AuditContext :: "AuditContext option"
  rcp_EventMetadata :: "EventMetadata option"
  rcp_ValidUntil :: i64
  rcp_ResourceTypes :: "string list"
  rcp_OpenTelemetryCarrier :: carrier

record ResourceCreated =
  rcd_ResourceId :: "ResourceId option"
  rcd_Status :: Status
  rcd_Content :: "Content option"
  rcd_AuditContext :: "AuditContext option"
  rcd_EventMetadata :: "EventMetadata option"
  rcd_ResourceTypes :: "string list"
  rcd_OpenTelemetryCarrier :: carrier

record ResourceStateSnapshotTaken =
  rs_ResourceId :: "ResourceId option"
  rs_LatestResourceChange :: "ResourceChanged option"
  rs_ResourceCreatePendings :: "ResourceCreatePending list"
  rs_ResourceRetrievePendings :: "ResourceRetrievePending list"
  rs_ResourceUpdatePendings :: "ResourceUpdatePending list"
  rs_ResourceDeletePendings :: "ResourceDeletePending list"
  rs_AuditContext :: "AuditContext option"
  rs_EventMetadata :: "EventMetadata option"
  rs_ResourceTypes :: "string list"

record DeviceMetadataUpdated =
  dmu_DeviceId :: string
  dmu_Connection :: "Connection option"
  dmu_TwinSynchronization :: "TwinSynchronization option"
  dmu_TwinEnabled :: bool
  dmu_AuditContext :: "AuditContext option"
  dmu_EventMetadata :: "EventMetadata option"
  dmu_Canceled :: bool
  dmu_OpenTelemetryCarrier :: carrier

datatype Device_UpdatePending =
  Pending_TwinEnabled bool | Pending_TwinForceSynchronization bool

record DeviceMetadataUpdatePending =
  dup_DeviceId :: string
  dup_UpdatePending :: "Device_UpdatePending option"
  dup_AuditContext :: "AuditContext option"
  dup_EventMetadata :: "EventMetadata option"
  dup_ValidUntil :: i64
  dup_OpenTelemetryCarrier :: carrier

record DeviceMetadataSnapshotTaken =
  dms_DeviceId :: string
  dms_DeviceMetadataUpdated :: "DeviceMetadataUpdated option"
  dms_UpdatePendings :: "DeviceMetadataUpdatePending list"
  dms_EventMetadata :: "EventMetadata option"

record ServicesHeartbeat_Heartbeat =
  hb_ServiceId :: string
  hb_ValidUntil :: i64

record ServicesHeartbeat =
  sh_Valid :: "ServicesHeartbeat_Heartbeat list"
  sh_Expired :: "ServicesHeartbeat_Heartbeat list"

record ServiceMetadataUpdated =
  smu_ServicesHeartbeat :: "ServicesHeartbeat option"
  smu_EventMetadata :: "EventMetadata option"
  smu_AuditContext :: "AuditContext option"
  smu_OpenTelemetryCarrier :: carrier

record ServiceMetadataSnapshotTaken =
  sms_ServiceMetadataUpdated :: "ServiceMetadataUpdated option"
  sms_EventMetadata :: "EventMetadata option"

section \<open>The \<^verbatim>\<open>eventstore.Event\<close> interface\<close>

text \<open>
  An interface value is the record of what its methods return. Every event type gives its table of
  methods; \<open>Marshal\<close> and \<open>Unmarshal\<close> delegate to the protobuf library and are not part of it.
\<close>

record ETagData =
  etag_ETag :: bytes
  etag_Timestamp :: i64

record Event =
  ev_Version :: u64
  ev_EventType :: string
  ev_AggregateID :: string
  ev_GroupID :: string
  ev_IsSnapshot :: bool
  ev_ServiceID :: "string \<times> bool"
  ev_Timestamp :: gotime
  ev_ETag :: "ETagData option"
  ev_Types :: "string list"

definition ResourceChanged_ETag :: "ResourceChanged option \<Rightarrow> ETagData option" where
  "ResourceChanged_ETag rc =
     (if length (nil_or [] rch_Etag rc) = 0 then None
      else Some \<lparr>etag_ETag = nil_or [] rch_Etag rc,
                 etag_Timestamp = GetTimestamp (nil_or None rch_EventMetadata rc)\<rparr>)"

definition ResourceLinksPublished_Event :: "uuid_pkg \<Rightarrow> ResourceLinksPublished \<Rightarrow> Event" where
  "ResourceLinksPublished_Event U e =
     \<lparr>ev_Version = GetVersion (rlp_EventMetadata e), ev_EventType = ''resourcelinkspublished'',
      ev_AggregateID = MakeLinksResourceUUID U (rlp_DeviceId e), ev_GroupID = rlp_DeviceId e,
      ev_IsSnapshot = False, ev_ServiceID = ([], False),
      ev_Timestamp = pkgTime_Unix 0 (GetTimestamp (rlp_EventMetadata e)),
      ev_ETag = None, ev_Types = []\<rparr>"

definition ResourceLinksUnpublished_Event :: "uuid_pkg \<Rightarrow> ResourceLinksUnpublished \<Rightarrow> Event" where
  "ResourceLinksUnpublished_Event U e =
     \<lparr>ev_Version = GetVersion (rlu_EventMetadata e), ev_EventType = ''resourcelinksunpublished'',
      ev_AggregateID = MakeLinksResourceUUID U (rlu_DeviceId e), ev_GroupID = rlu_DeviceId e,
      ev_IsSnapshot = False, ev_ServiceID = ([], False),
      ev_Timestamp = pkgTime_Unix 0 (GetTimestamp (rlu_EventMetadata e)),
      ev_ETag = None, ev_Types = []\<rparr>"

definition ResourceLinksSnapshotTaken_Event :: "uuid_pkg \<Rightarrow> ResourceLinksSnapshotTaken \<Rightarrow> Event" where
  "ResourceLinksSnapshotTaken_Event U e =
     \<lparr>ev_Version = GetVersion (rls_EventMetadata e), ev_EventType = ''resourcelinkssnapshottaken'',
      ev_AggregateID = MakeLinksResourceUUID U (rls_DeviceId e), ev_GroupID = rls_DeviceId e,
      ev_IsSnapshot = True, ev_ServiceID = ([], False),
      ev_Timestamp = pkgTime_Unix 0 (GetTimestamp (rls_EventMetadata e)),
      ev_ETag = None, ev_Types = []\<rparr>"

definition ResourceChanged_Event :: "uuid_pkg \<Rightarrow> ResourceChanged \<Rightarrow> Event" where
  "ResourceChanged_Event U e =
     \<lparr>ev_Version = GetVersion (rch_EventMetadata e), ev_EventType = ''resourcechanged'',
      ev_AggregateID = ResourceId_ToUUID U (rch_ResourceId e), ev_GroupID = GetDeviceId (rch_ResourceId e),
      ev_IsSnapshot = False, ev_ServiceID = ([], False),
      ev_Timestamp = pkgTime_Unix 0 (GetTimestamp (rch_EventMetadata e)),
      ev_ETag = ResourceChanged_ETag (Some e), ev_Types = rch_ResourceTypes e\<rparr>"

definition ResourceUpdatePending_Event :: "uuid_pkg \<Rightarrow> ResourceUpdatePending \<Rightarrow> Event" where
  "ResourceUpdatePending_Event U e =
     \<lparr>ev_Version = GetVersion (rup_EventMetadata e), ev_EventType = ''resourceupdatepending'',
      ev_AggregateID = ResourceId_ToUUID U (rup_ResourceId e), ev_GroupID = GetDeviceId (rup_ResourceId e),
      ev_IsSnapshot = False, ev_ServiceID = ([], False),
      ev_Timestamp = pkgTime_Unix 0 (GetTimestamp (rup_EventMetadata e)),
      ev_ETag = None, ev_Types = rup_ResourceTypes e\<rparr>"

definition ResourceUpdated_Event :: "uuid_pkg \<Rightarrow> ResourceUpdated \<Rightarrow> Event" where
  "ResourceUpdated_Event U e =
     \<lparr>ev_Version = GetVersion (rud_EventMetadata e), ev_EventType = ''resourceupdated'',
      ev_AggregateID = ResourceId_ToUUID U (rud_ResourceId e), ev_GroupID = GetDeviceId (rud_ResourceId e),
      ev_IsSnapshot = False, ev_ServiceID = ([], False),
      ev_Timestamp = pkgTime_Unix 0 (GetTimestamp (rud_EventMetadata e)),
      ev_ETag = None, ev_Types = rud_ResourceTypes e\<rparr>"

definition ResourceRetrievePending_Event :: "uuid_pkg \<Rightarrow> ResourceRetrievePending \<Rightarrow> Event" where
  "ResourceRetrievePending_Event U e =
     \<lparr>ev_Version = GetVersion (rrp_EventMetadata e), ev_EventType = ''resourceretrievepending'',
      ev_AggregateID = ResourceId_ToUUID U (rrp_ResourceId e), ev_GroupID = GetDeviceId (rrp_ResourceId e),
      ev_IsSnapshot = False, ev_ServiceID = ([], False),
      ev_Timestamp = pkgTime_Unix 0 (GetTimestamp (rrp_EventMetadata e)),
      ev_ETag = None, ev_Types = rrp_ResourceTypes e\<rparr>"

definition ResourceRetrieved_Event :: "uuid_pkg \<Rightarrow> ResourceRetrieved \<Rightarrow> Event" where
  "ResourceRetrieved_Event U e =
     \<lparr>ev_Version = GetVersion (rrd_EventMetadata e), ev_EventType = ''resourceretrieved'',
      ev_AggregateID = ResourceId_ToUUID U (rrd_ResourceId e), ev_GroupID = GetDeviceId (rrd_ResourceId e),
      ev_IsSnapshot = False, ev_ServiceID = ([], False),
      ev_Timestamp = pkgTime_Unix 0 (GetTimestamp (rrd_EventMetadata e)),
      ev_ETag = None, ev_Types = rrd_ResourceTypes e\<rparr>"

definition ResourceDeletePending_Event :: "uuid_pkg \<Rightarrow> ResourceDeletePending \<Rightarrow> Event" where
  "ResourceDeletePending_Event U e =
     \<lparr>ev_Version = GetVersion (rdp_EventMetadata e), ev_EventType = ''resourcedeletepending'',
      ev_AggregateID = ResourceId_ToUUID U (rdp_ResourceId e), ev_GroupID = GetDeviceId (rdp_ResourceId e),
      ev_IsSnapshot = False, ev_ServiceID = ([], False),
      ev_Timestamp = pkgTime_Unix 0 (GetTimestamp (rdp_EventMetadata e)),
      ev_ETag = None, ev_Types = rdp_ResourceTypes e\<rparr>"

definition ResourceDeleted_Event :: "uuid_pkg \<Rightarrow> ResourceDeleted \<Rightarrow> Event" where
  "ResourceDeleted_Event U e =
     \<lparr>ev_Version = GetVersion (rdd_EventMetadata e), ev_EventType = ''resourcedeleted'',
      ev_AggregateID = ResourceId_ToUUID U (rdd_ResourceId e), ev_GroupID = GetDeviceId (rdd_ResourceId e),
      ev_IsSnapshot = False, ev_ServiceID = ([], False),
      ev_Timestamp = pkgTime_Unix 0 (GetTimestamp (rdd_EventMetadata e)),
      ev_ETag = None, ev_Types = rdd_ResourceTypes e\<rparr>"

definition ResourceCreatePending_Event :: "uuid_pkg \<Rightarrow> ResourceCreatePending \<Rightarrow> Event" where
  "ResourceCreatePending_Event U e =
     \<lparr>ev_Version = GetVersion (rcp_EventMetadata e), ev_EventType = ''resourcecreatepending'',
      ev_AggregateID = ResourceId_ToUUID U (rcp_ResourceId e), ev_GroupID = GetDeviceId (rcp_ResourceId e),
      ev_IsSnapshot = False, ev_ServiceID = ([], False),
      ev_Timestamp = pkgTime_Unix 0 (GetTimestamp (rcp_EventMetadata e)),
      ev_ETag = None, ev_Types = rcp_ResourceTypes e\<rparr>"

definition ResourceCreated_Event :: "uuid_pkg \<Rightarrow> ResourceCreated \<Rightarrow> Event" where
  "ResourceCreated_Event U e =
     \<lparr>ev_Version = GetVersion (rcd_EventMetadata e), ev_EventType = ''resourcecreated'',
      ev_AggregateID = ResourceId_ToUUID U (rcd_ResourceId e), ev_GroupID = GetDeviceId (rcd_ResourceId e),
      ev_IsSnapshot = False, ev_ServiceID = ([], False),
      ev_Timestamp = pkgTime_Unix 0 (GetTimestamp (rcd_EventMetadata e)),
      ev_ETag = None, ev_Types = rcd_ResourceTypes e\<rparr>"

definition ResourceStateSnapshotTaken_Event :: "uuid_pkg \<Rightarrow> ResourceStateSnapshotTaken \<Rightarrow> Event" where
  "ResourceStateSnapshotTaken_Event U e =
     \<lparr>ev_Version = GetVersion (rs_EventMetadata e), ev_EventType = ''resourcestatesnapshottaken'',
      ev_AggregateID = ResourceId_ToUUID U (rs_ResourceId e), ev_GroupID = GetDeviceId (rs_ResourceId e),
      ev_IsSnapshot = True, ev_ServiceID = ([], False),
      ev_Timestamp = pkgTime_Unix 0 (GetTimestamp (rs_EventMetadata e)),
      ev_ETag = ResourceChanged_ETag (rs_LatestResourceChange e), ev_Types = rs_ResourceTypes e\<rparr>"

definition DeviceMetadataUpdated_Event :: "uuid_pkg \<Rightarrow> DeviceMetadataUpdated \<Rightarrow> Event" where
  "DeviceMetadataUpdated_Event U e =
     \<lparr>ev_Version = GetVersion (dmu_EventMetadata e), ev_EventType = ''devicemetadataupdated'',
      ev_AggregateID = MakeStatusResourceUUID U (dmu_DeviceId e), ev_GroupID = dmu_DeviceId e,
      ev_IsSnapshot = False, ev_ServiceID = (GetServiceId (dmu_Connection e), True),
      ev_Timestamp = pkgTime_Unix 0 (GetTimestamp (dmu_EventMetadata e)),
      ev_ETag = None, ev_Types = []\<rparr>"

definition DeviceMetadataUpdatePending_Event :: "uuid_pkg \<Rightarrow> DeviceMetadataUpdatePending \<Rightarrow> Event" where
  "DeviceMetadataUpdatePending_Event U e =
     \<lparr>ev_Version = GetVersion (dup_EventMetadata e), ev_EventType = ''devicemetadataupdatepending'',
      ev_AggregateID = MakeStatusResourceUUID U (dup_DeviceId e), ev_GroupID = dup_DeviceId e,
      ev_IsSnapshot = False, ev_ServiceID = ([], False),
      ev_Timestamp = pkgTime_Unix 0 (GetTimestamp (dup_EventMetadata e)),
      ev_ETag = None, ev_Types = []\<rparr>"

definition DeviceMetadataSnapshotTaken_Event :: "uuid_pkg \<Rightarrow> DeviceMetadataSnapshotTaken \<Rightarrow> Event" where
  "DeviceMetadataSnapshotTaken_Event U e =
     \<lparr>ev_Version = GetVersion (dms_EventMetadata e), ev_EventType = ''devicemetadatasnapshottaken'',
      ev_AggregateID = MakeStatusResourceUUID U (dms_DeviceId e), ev_GroupID = dms_DeviceId e,
      ev_IsSnapshot = True, ev_ServiceID = (GetServiceId (nil_or None dmu_Connection (dms_DeviceMetadataUpdated e)), True),
      ev_Timestamp = pkgTime_Unix 0 (GetTimestamp (dms_EventMetadata e)),
      ev_ETag = None, ev_Types = []\<rparr>"

definition ServiceMetadataUpdated_Event :: "uuid_pkg \<Rightarrow> ServiceMetadataUpdated \<Rightarrow> Event" where
  "ServiceMetadataUpdated_Event U e =
     \<lparr>ev_Version = GetVersion (smu_EventMetadata e), ev_EventType = ''ServiceMetadataUpdated'',
      ev_AggregateID = MakeServicesResourceUUID U (GetHubId (smu_EventMetadata e)), ev_GroupID = GetHubId (smu_EventMetadata e),
      ev_IsSnapshot = False, ev_ServiceID = ([], False),
      ev_Timestamp = pkgTime_Unix 0 (GetTimestamp (smu_EventMetadata e)),
      ev_ETag = None, ev_Types = []\<rparr>"

definition ServiceMetadataSnapshotTaken_Event :: "uuid_pkg \<Rightarrow> ServiceMetadataSnapshotTaken \<Rightarrow> Event" where
  "ServiceMetadataSnapshotTaken_Event U e =
     \<lparr>ev_Version = GetVersion (sms_EventMetadata e), ev_EventType = ''ServiceMetadataSnapshotTaken'',
      ev_AggregateID = MakeServicesResourceUUID U (GetHubId (sms_EventMetadata e)), ev_GroupID = GetHubId (sms_EventMetadata e),
      ev_IsSnapshot = True, ev_ServiceID = ([], False),
      ev_Timestamp = pkgTime_Unix 0 (GetTimestamp (sms_EventMetadata e)),
      ev_ETag = None, ev_Types = []\<rparr>"

section \<open>Copying events\<close>

text \<open>\<open>e.CopyData(event)\<close>: the receiver after the assignments.\<close>

definition ResourceLinksPublished_CopyData :: "ResourceLinksPublished \<Rightarrow> ResourceLinksPublished \<Rightarrow> ResourceLinksPublished" where
  "ResourceLinksPublished_CopyData e ev =
     e\<lparr>rlp_DeviceId := rlp_DeviceId ev,
        rlp_Resources := rlp_Resources ev,
        rlp_AuditContext := rlp_AuditContext ev,
        rlp_EventMetadata := rlp_EventMetadata ev,
        rlp_OpenTelemetryCarrier := rlp_OpenTelemetryCarrier ev\<rparr>"

definition ResourceLinksUnpublished_CopyData :: "ResourceLinksUnpublished \<Rightarrow> ResourceLinksUnpublished \<Rightarrow> ResourceLinksUnpublished" where
  "ResourceLinksUnpublished_CopyData e ev =
     e\<lparr>rlu_DeviceId := rlu_DeviceId ev,
        rlu_Hrefs := rlu_Hrefs ev,
        rlu_AuditContext := rlu_AuditContext ev,
        rlu_EventMetadata := rlu_EventMetadata ev,
        rlu_OpenTelemetryCarrier := rlu_OpenTelemetryCarrier ev\<rparr>"

definition ResourceLinksSnapshotTaken_CopyData :: "ResourceLinksSnapshotTaken \<Rightarrow> ResourceLinksSnapshotTaken \<Rightarrow> ResourceLinksSnapshotTaken" where
  "ResourceLinksSnapshotTaken_CopyData e ev =
     e\<lparr>rls_DeviceId := rls_DeviceId ev,
        rls_Resources := rls_Resources ev,
        rls_EventMetadata := rls_EventMetadata ev,
        rls_AuditContext := rls_AuditContext ev\<rparr>"

definition ResourceChanged_CopyData :: "ResourceChanged \<Rightarrow> ResourceChanged \<Rightarrow> ResourceChanged" where
  "ResourceChanged_CopyData e ev =
     e\<lparr>rch_ResourceId := rch_ResourceId ev,
        rch_Content := rch_Content ev,
        rch_Status := rch_Status ev,
        rch_AuditContext := rch_AuditContext ev,
        rch_EventMetadata := rch_EventMetadata ev,
        rch_Etag := rch_Etag ev,
        rch_ResourceTypes := rch_ResourceTypes ev,
        rch_OpenTelemetryCarrier := rch_OpenTelemetryCarrier ev\<rparr>"

definition ResourceUpdatePending_CopyData :: "ResourceUpdatePending \<Rightarrow> ResourceUpdatePending \<Rightarrow> ResourceUpdatePending" where
  "ResourceUpdatePending_CopyData e ev =
     e\<lparr>rup_ResourceId := rup_ResourceId ev,
        rup_ResourceInterface := rup_ResourceInterface ev,
        rup_Content := rup_Content ev,
        rup_AuditContext := rup_AuditContext ev,
        rup_EventMetadata := rup_EventMetadata ev,
        rup_ValidUntil := rup_ValidUntil ev,
        rup_ResourceTypes := rup_ResourceTypes ev,
        rup_OpenTelemetryCarrier := rup_OpenTelemetryCarrier ev\<rparr>"

definition ResourceUpdated_CopyData :: "ResourceUpdated \<Rightarrow> ResourceUpdated \<Rightarrow> ResourceUpdated" where
  "ResourceUpdated_CopyData e ev =
     e\<lparr>rud_ResourceId := rud_ResourceId ev,
        rud_Status := rud_Status ev,
        rud_Content := rud_Content ev,
        rud_AuditContext := rud_AuditContext ev,
        rud_EventMetadata := rud_EventMetadata ev,
        rud_ResourceTypes := rud_ResourceTypes ev,
        rud_OpenTelemetryCarrier := rud_OpenTelemetryCarrier ev\<rparr>"

definition ResourceRetrievePending_CopyData :: "ResourceRetrievePending \<Rightarrow> ResourceRetrievePending \<Rightarrow> ResourceRetrievePending" where
  "ResourceRetrievePending_CopyData e ev =
     e\<lparr>rrp_ResourceId := rrp_ResourceId ev,
        rrp_ResourceInterface := rrp_ResourceInterface ev,
        rrp_AuditContext := rrp_AuditContext ev,
        rrp_EventMetadata := rrp_EventMetadata ev,
        rrp_ValidUntil := rrp_ValidUntil ev,
        rrp_ResourceTypes := rrp_ResourceTypes ev,
        rrp_OpenTelemetryCarrier := rrp_OpenTelemetryCarrier ev\<rparr>"

definition ResourceRetrieved_CopyData :: "ResourceRetrieved \<Rightarrow> ResourceRetrieved \<Rightarrow> ResourceRetrieved" where
  "ResourceRetrieved_CopyData e ev =
     e\<lparr>rrd_ResourceId := rrd_ResourceId ev,
        rrd_Status := rrd_Status ev,
        rrd_Content := rrd_Content ev,
        rrd_AuditContext := rrd_AuditContext ev,
        rrd_EventMetadata := rrd_EventMetadata ev,
        rrd_ResourceTypes := rrd_ResourceTypes ev,
        rrd_OpenTelemetryCarrier := rrd_OpenTelemetryCarrier ev\<rparr>"

definition ResourceDeletePending_CopyData :: "ResourceDeletePending \<Rightarrow> ResourceDeletePending \<Rightarrow> ResourceDeletePending" where
  "ResourceDeletePending_CopyData e ev =
     e\<lparr>rdp_ResourceId := rdp_ResourceId ev,
        rdp_AuditContext := rdp_AuditContext ev,
        rdp_EventMetadata := rdp_EventMetadata ev,
        rdp_ValidUntil := rdp_ValidUntil ev,
        rdp_ResourceInterface := rdp_ResourceInterface ev,
        rdp_ResourceTypes := rdp_ResourceTypes ev,
        rdp_OpenTelemetryCarrier := rdp_OpenTelemetryCarrier ev\<rparr>"

definition ResourceDeleted_CopyData :: "ResourceDeleted \<Rightarrow> ResourceDeleted \<Rightarrow> ResourceDeleted" where
  "ResourceDeleted_CopyData e ev =
     e\<lparr>rdd_ResourceId := rdd_ResourceId ev,
        rdd_Status := rdd_Status ev,
        rdd_Content := rdd_Content ev,
        rdd_AuditContext := rdd_AuditContext ev,
        rdd_EventMetadata := rdd_EventMetadata ev,
        rdd_ResourceTypes := rdd_ResourceTypes ev,
        rdd_OpenTelemetryCarrier := rdd_OpenTelemetryCarrier ev\<rparr>"

definition ResourceCreatePending_CopyData :: "ResourceCreatePending \<Rightarrow> ResourceCreatePending \<Rightarrow> ResourceCreatePending" where
  "ResourceCreatePending_CopyData e ev =
     e\<lparr>rcp_ResourceId := rcp_ResourceId ev,
        rcp_Content := rcp_Content ev,
        rcp_AuditContext := rcp_AuditContext ev,
        rcp_EventMetadata := rcp_EventMetadata ev,
        rcp_ValidUntil := rcp_ValidUntil ev,
        rcp_ResourceTypes := rcp_ResourceTypes ev,
        rcp_OpenTelemetryCarrier := rcp_OpenTelemetryCarrier ev\<rparr>"

definition ResourceCreated_CopyData :: "ResourceCreated \<Rightarrow> ResourceCreated \<Rightarrow> ResourceCreated" where
  "ResourceCreated_CopyData e ev =
     e\<lparr>rcd_ResourceId := rcd_ResourceId ev,
        rcd_Status := rcd_Status ev,
        rcd_Content := rcd_Content ev,
        rcd_AuditContext := rcd_AuditContext ev,
        rcd_EventMetadata := rcd_EventMetadata ev,
        rcd_ResourceTypes := rcd_ResourceTypes ev,
        rcd_OpenTelemetryCarrier := rcd_OpenTelemetryCarrier ev\<rparr>"

definition ResourceStateSnapshotTaken_CopyData :: "ResourceStateSnapshotTaken \<Rightarrow> ResourceStateSnapshotTaken \<Rightarrow> ResourceStateSnapshotTaken" where
  "ResourceStateSnapshotTaken_CopyData e ev =
     e\<lparr>rs_ResourceId := rs_ResourceId ev,
        rs_LatestResourceChange := rs_LatestResourceChange ev,
        rs_ResourceCreatePendings := rs_ResourceCreatePendings ev,
        rs_ResourceRetrievePendings := rs_ResourceRetrievePendings ev,
        rs_ResourceUpdatePendings := rs_ResourceUpdatePendings ev,
        rs_ResourceDeletePendings := rs_ResourceDeletePendings ev,
        rs_AuditContext := rs_AuditContext ev,
        rs_EventMetadata := rs_EventMetadata ev,
        rs_ResourceTypes := rs_ResourceTypes ev\<rparr>"

definition DeviceMetadataUpdated_CopyData :: "DeviceMetadataUpdated \<Rightarrow> DeviceMetadataUpdated \<Rightarrow> DeviceMetadataUpdated" where
  "DeviceMetadataUpdated_CopyData e ev =
     e\<lparr>dmu_DeviceId := dmu_DeviceId ev,
        dmu_Connection := dmu_Connection ev,
        dmu_TwinSynchronization := dmu_TwinSynchronization ev,
        dmu_TwinEnabled := dmu_TwinEnabled ev,
        dmu_AuditContext := dmu_AuditContext ev,
        dmu_EventMetadata := dmu_EventMetadata ev,
        dmu_Canceled := dmu_Canceled ev,
        dmu_OpenTelemetryCarrier := dmu_OpenTelemetryCarrier ev\<rparr>"

definition DeviceMetadataUpdatePending_CopyData :: "DeviceMetadataUpdatePending \<Rightarrow> DeviceMetadataUpdatePending \<Rightarrow> DeviceMetadataUpdatePending" where
  "DeviceMetadataUpdatePending_CopyData e ev =
     e\<lparr>dup_DeviceId := dup_DeviceId ev,
        dup_UpdatePending := dup_UpdatePending ev,
        dup_AuditContext := dup_AuditContext ev,
        dup_EventMetadata := dup_EventMetadata ev,
        dup_ValidUntil := dup_ValidUntil ev,
        dup_OpenTelemetryCarrier := dup_OpenTelemetryCarrier ev\<rparr>"

definition DeviceMetadataSnapshotTaken_CopyData :: "DeviceMetadataSnapshotTaken \<Rightarrow> DeviceMetadataSnapshotTaken \<Rightarrow> DeviceMetadataSnapshotTaken" where
  "DeviceMetadataSnapshotTaken_CopyData e ev =
     e\<lparr>dms_DeviceId := dms_DeviceId ev,
        dms_DeviceMetadataUpdated := dms_DeviceMetadataUpdated ev,
        dms_UpdatePendings := dms_UpdatePendings ev,
        dms_EventMetadata := dms_EventMetadata ev\<rparr>"

definition ServiceMetadataUpdated_CopyData :: "ServiceMetadataUpdated \<Rightarrow> ServiceMetadataUpdated \<Rightarrow> ServiceMetadataUpdated" where
  "ServiceMetadataUpdated_CopyData e ev =
     e\<lparr>smu_ServicesHeartbeat := Some \<lparr>sh_Valid = nil_or [] sh_Valid (smu_ServicesHeartbeat ev), sh_Expired = nil_or [] sh_Expired (smu_ServicesHeartbeat ev)\<rparr>,
        smu_EventMetadata := smu_EventMetadata ev,
        smu_OpenTelemetryCarrier := smu_OpenTelemetryCarrier ev\<rparr>"

definition ServiceMetadataSnapshotTaken_CopyData :: "ServiceMetadataSnapshotTaken \<Rightarrow> ServiceMetadataSnapshotTaken \<Rightarrow> ServiceMetadataSnapshotTaken" where
  "ServiceMetadataSnapshotTaken_CopyData e ev =
     e\<lparr>sms_ServiceMetadataUpdated := sms_ServiceMetadataUpdated ev,
        sms_EventMetadata := sms_EventMetadata ev\<rparr>"

section \<open>Initialised events\<close>

definition ResourceLinksSnapshotTaken_CheckInitialized :: "ResourceLinksSnapshotTaken \<Rightarrow> bool" where
  "ResourceLinksSnapshotTaken_CheckInitialized e \<longleftrightarrow>
     rls_Resources e \<noteq> None \<and> rls_DeviceId e \<noteq> [] \<and> rls_AuditContext e \<noteq> None \<and> rls_EventMetadata e \<noteq> None"

definition ResourceChanged_CheckInitialized :: "ResourceChanged \<Rightarrow> bool" where
  "ResourceChanged_CheckInitialized e \<longleftrightarrow>
     rch_ResourceId e \<noteq> None \<and> rch_Content e \<noteq> None \<and> rch_AuditContext e \<noteq> None \<and> rch_EventMetadata e \<noteq> None \<and> rch_Status e \<noteq> Status_UNKNOWN"

definition ResourceUpdatePending_CheckInitialized :: "ResourceUpdatePending \<Rightarrow> bool" where
  "ResourceUpdatePending_CheckInitialized e \<longleftrightarrow>
     rup_ResourceId e \<noteq> None \<and> rup_ResourceInterface e \<noteq> [] \<and> rup_Content e \<noteq> None \<and> rup_AuditContext e \<noteq> None \<and> rup_EventMetadata e \<noteq> None"

definition ResourceUpdated_CheckInitialized :: "ResourceUpdated \<Rightarrow> bool" where
  "ResourceUpdated_CheckInitialized e \<longleftrightarrow>
     rud_ResourceId e \<noteq> None \<and> rud_Status e \<noteq> Status_UNKNOWN \<and> rud_Content e \<noteq> None \<and> rud_AuditContext e \<noteq> None \<and> rud_EventMetadata e \<noteq> None"

definition ResourceRetrievePending_CheckInitialized :: "ResourceRetrievePending \<Rightarrow> bool" where
  "ResourceRetrievePending_CheckInitialized e \<longleftrightarrow>
     rrp_ResourceId e \<noteq> None \<and> rrp_ResourceInterface e \<noteq> [] \<and> rrp_AuditContext e \<noteq> None \<and> rrp_EventMetadata e \<noteq> None"

definition ResourceRetrieved_CheckInitialized :: "ResourceRetrieved \<Rightarrow> bool" where
  "ResourceRetrieved_CheckInitialized e \<longleftrightarrow>
     rrd_ResourceId e \<noteq> None \<and> rrd_Content e \<noteq> None \<and> rrd_AuditContext e \<noteq> None \<and> rrd_EventMetadata e \<noteq> None \<and> rrd_Status e \<noteq> Status_UNKNOWN"

definition ResourceDeletePending_CheckInitialized :: "ResourceDeletePending \<Rightarrow> bool" where
  "ResourceDeletePending_CheckInitialized e \<longleftrightarrow>
     rdp_ResourceId e \<noteq> None \<and> rdp_AuditContext e \<noteq> None \<and> rdp_EventMetadata e \<noteq> None"

definition ResourceDeleted_CheckInitialized :: "ResourceDeleted \<Rightarrow> bool" where
  "ResourceDeleted_CheckInitialized e \<longleftrightarrow>
     rdd_ResourceId e \<noteq> None \<and> rdd_Status e \<noteq> Status_UNKNOWN \<and> rdd_Content e \<noteq> None \<and> rdd_AuditContext e \<noteq> None \<and> rdd_EventMetadata e \<noteq> None"

definition ResourceCreatePending_CheckInitialized :: "ResourceCreatePending \<Rightarrow> bool" where
  "ResourceCreatePending_CheckInitialized e \<longleftrightarrow>
     rcp_ResourceId e \<noteq> None \<and> rcp_Content e \<noteq> None \<and> rcp_AuditContext e \<noteq> None \<and> rcp_EventMetadata e \<noteq> None"

definition ResourceCreated_CheckInitialized :: "ResourceCreated \<Rightarrow> bool" where
  "ResourceCreated_CheckInitialized e \<longleftrightarrow>
     rcd_ResourceId e \<noteq> None \<and> rcd_Status e \<noteq> Status_UNKNOWN \<and> rcd_Content e \<noteq> None \<and> rcd_AuditContext e \<noteq> None \<and> rcd_EventMetadata e \<noteq> None"

definition DeviceMetadataUpdated_CheckInitialized :: "DeviceMetadataUpdated \<Rightarrow> bool" where
  "DeviceMetadataUpdated_CheckInitialized e \<longleftrightarrow>
     dmu_DeviceId e \<noteq> [] \<and> dmu_Connection e \<noteq> None \<and> dmu_AuditContext e \<noteq> None \<and> dmu_EventMetadata e \<noteq> None"

definition DeviceMetadataUpdatePending_CheckInitialized :: "DeviceMetadataUpdatePending \<Rightarrow> bool" where
  "DeviceMetadataUpdatePending_CheckInitialized e \<longleftrightarrow>
     dup_DeviceId e \<noteq> [] \<and> dup_UpdatePending e \<noteq> None \<and> dup_AuditContext e \<noteq> None \<and> dup_EventMetadata e \<noteq> None"

definition ServiceMetadataUpdated_CheckInitialized :: "ServiceMetadataUpdated \<Rightarrow> bool" where
  "ServiceMetadataUpdated_CheckInitialized e \<longleftrightarrow>
     smu_ServicesHeartbeat e \<noteq> None \<and> smu_EventMetadata e \<noteq> None"

definition ServiceMetadataSnapshotTaken_CheckInitialized :: "ServiceMetadataSnapshotTaken \<Rightarrow> bool" where
  "ServiceMetadataSnapshotTaken_CheckInitialized e \<longleftrightarrow>
     sms_ServiceMetadataUpdated e \<noteq> None \<and> sms_EventMetadata e \<noteq> None"

section \<open>Expiry of pending events\<close>

definition IsExpired :: "gotime \<Rightarrow> gotime \<Rightarrow> bool" where
  "IsExpired now validUntil = (if IsZero validUntil then False else validUntil < now)"

definition ResourceCreatePending_IsExpired :: "gotime \<Rightarrow> ResourceCreatePending \<Rightarrow> bool" where
  "ResourceCreatePending_IsExpired now e = IsExpired now (pkgTime_Unix 0 (rcp_ValidUntil e))"

definition ResourceUpdatePending_IsExpired :: "gotime \<Rightarrow> ResourceUpdatePending \<Rightarrow> bool" where
  "ResourceUpdatePending_IsExpired now e = IsExpired now (pkgTime_Unix 0 (rup_ValidUntil e))"

definition ResourceRetrievePending_IsExpired :: "gotime \<Rightarrow> ResourceRetrievePending \<Rightarrow> bool" where
  "ResourceRetrievePending_IsExpired now e = IsExpired now (pkgTime_Unix 0 (rrp_ValidUntil e))"

definition ResourceDeletePending_IsExpired :: "gotime \<Rightarrow> ResourceDeletePending \<Rightarrow> bool" where
  "ResourceDeletePending_IsExpired now e = IsExpired now (pkgTime_Unix 0 (rdp_ValidUntil e))"

definition DeviceMetadataUpdatePending_IsExpired :: "gotime \<Rightarrow> DeviceMetadataUpdatePending \<Rightarrow> bool" where
  "DeviceMetadataUpdatePending_IsExpired now e = IsExpired now (pkgTime_Unix 0 (dup_ValidUntil e))"

section \<open>Equality tests\<close>

definition EqualStringSlice :: "string list \<Rightarrow> string list \<Rightarrow> bool" where
  "EqualStringSlice x y =
     (if length x \<noteq> length y then False else list_all (\<lambda>i. x ! i = y ! i) [0..<length x])"

definition EqualResource :: "Resource \<Rightarrow> Resource \<Rightarrow> bool" where
  "EqualResource x y \<longleftrightarrow>
     res_DeviceId x = res_DeviceId y \<and>
     EqualStringSlice (res_ResourceTypes x) (res_ResourceTypes y) \<and>
     EqualStringSlice (res_Interfaces x) (res_Interfaces y) \<and>
     res_Anchor x = res_Anchor y \<and> res_Title x = res_Title y \<and>
     EqualStringSlice (res_SupportedContentTypes x) (res_SupportedContentTypes y) \<and>
     res_ValidUntil x = res_ValidUntil y \<and>
     ((res_Policy x = None \<and> res_Policy y = None) \<or>
      (res_Policy x \<noteq> None \<and> res_Policy y \<noteq> None \<and>
       GetBitFlags (res_Policy x) = GetBitFlags (res_Policy y)))"

definition ResourceChanged_Equal :: "ResourceChanged \<Rightarrow> ResourceChanged \<Rightarrow> bool" where
  "ResourceChanged_Equal rc changed =
     (if rch_Status rc \<noteq> rch_Status changed then False
      else if GetCoapContentFormat (rch_Content rc) \<noteq> GetCoapContentFormat (rch_Content changed) \<or>
              GetContentType (rch_Content rc) \<noteq> GetContentType (rch_Content changed) \<or>
              GetData (rch_Content rc) \<noteq> GetData (rch_Content changed) then False
      else if GetUserId (rch_AuditContext rc) \<noteq> GetUserId (rch_AuditContext changed) then False
      else if rch_ResourceTypes rc \<noteq> rch_ResourceTypes changed then False
      else True)"

text \<open>The receiver may be nil (no metadata yet): its getters then return zero values.\<close>

definition empty_DeviceMetadataUpdated :: DeviceMetadataUpdated where
  "empty_DeviceMetadataUpdated = \<lparr>dmu_DeviceId = [], dmu_Connection = None,
     dmu_TwinSynchronization = None, dmu_TwinEnabled = False, dmu_AuditContext = None,
     dmu_EventMetadata = None, dmu_Canceled = False, dmu_OpenTelemetryCarrier = []\<rparr>"

definition DeviceMetadataUpdated_Equal ::
    "DeviceMetadataUpdated option \<Rightarrow> DeviceMetadataUpdated \<Rightarrow> bool" where
  "DeviceMetadataUpdated_Equal d0 upd =
     (let d = (case d0 of None \<Rightarrow> empty_DeviceMetadataUpdated | Some x \<Rightarrow> x) in
      GetConnStatus (dmu_Connection d) = GetConnStatus (dmu_Connection upd) \<and>
      GetConnId (dmu_Connection d) = GetConnId (dmu_Connection upd) \<and>
      GetProtocol (dmu_Connection d) = GetProtocol (dmu_Connection upd) \<and>
      GetLocalEndpoints (dmu_Connection d) = GetLocalEndpoints (dmu_Connection upd) \<and>
      dmu_Canceled d = dmu_Canceled upd \<and>
      dmu_TwinEnabled d = dmu_TwinEnabled upd \<and>
      GetUserId (dmu_AuditContext d) = GetUserId (dmu_AuditContext upd) \<and>
      GetCorrelationId (dmu_AuditContext d) = GetCorrelationId (dmu_AuditContext upd) \<and>
      GetConnectionId (GetTwinCommandMetadata (dmu_TwinSynchronization d)) =
        GetConnectionId (GetTwinCommandMetadata (dmu_TwinSynchronization upd)) \<and>
      GetSyncingAt (dmu_TwinSynchronization d) = GetSyncingAt (dmu_TwinSynchronization upd) \<and>
      GetInSyncAt (dmu_TwinSynchronization d) = GetInSyncAt (dmu_TwinSynchronization upd) \<and>
      GetTwinState (dmu_TwinSynchronization d) = GetTwinState (dmu_TwinSynchronization upd) \<and>
      GetForceSynchronizationAt (dmu_TwinSynchronization d) =
        GetForceSynchronizationAt (dmu_TwinSynchronization upd))"

fun equalServicesHeartbeates ::
    "ServicesHeartbeat_Heartbeat list \<Rightarrow> ServicesHeartbeat_Heartbeat list \<Rightarrow> bool" where
  "equalServicesHeartbeates [] [] = True"
| "equalServicesHeartbeates (a # as) (b # bs) =
     (hb_ServiceId a = hb_ServiceId b \<and> hb_ValidUntil a = hb_ValidUntil b \<and>
      equalServicesHeartbeates as bs)"
| "equalServicesHeartbeates _ _ = False"

definition ServicesHeartbeat_Equal ::
    "ServicesHeartbeat option \<Rightarrow> ServicesHeartbeat option \<Rightarrow> bool" where
  "ServicesHeartbeat_Equal s upd \<longleftrightarrow>
     equalServicesHeartbeates (nil_or [] sh_Valid s) (nil_or [] sh_Valid upd) \<and>
     equalServicesHeartbeates (nil_or [] sh_Expired s) (nil_or [] sh_Expired upd)"

definition ServiceMetadataUpdated_Equal ::
    "ServiceMetadataUpdated option \<Rightarrow> ServiceMetadataUpdated \<Rightarrow> bool" where
  "ServiceMetadataUpdated_Equal d upd =
     (if nil_or None smu_ServicesHeartbeat d = None then False
      else ServicesHeartbeat_Equal (nil_or None smu_ServicesHeartbeat d) (smu_ServicesHeartbeat upd))"

section \<open>Clones\<close>

definition ResourceUpdated_Clone :: "ResourceUpdated option \<Rightarrow> ResourceUpdated option" where
  "ResourceUpdated_Clone e0 =
     (case e0 of None \<Rightarrow> None
      | Some e \<Rightarrow> Some \<lparr>rud_ResourceId = ResourceId_Clone (rud_ResourceId e),
          rud_Status = rud_Status e, rud_Content = Content_Clone (rud_Content e),
          rud_AuditContext = AuditContext_Clone (rud_AuditContext e),
          rud_EventMetadata = EventMetadata_Clone (rud_EventMetadata e),
          rud_ResourceTypes = rud_ResourceTypes e,
          rud_OpenTelemetryCarrier = rud_OpenTelemetryCarrier e\<rparr>)"

definition DeviceMetadataUpdated_Clone ::
    "DeviceMetadataUpdated option \<Rightarrow> DeviceMetadataUpdated option" where
  "DeviceMetadataUpdated_Clone d0 =
     (case d0 of None \<Rightarrow> None
      | Some d \<Rightarrow> Some \<lparr>dmu_DeviceId = dmu_DeviceId d,
          dmu_Connection = Connection_Clone (dmu_Connection d),
          dmu_TwinSynchronization = dmu_TwinSynchronization d,
          dmu_TwinEnabled = dmu_TwinEnabled d,
          dmu_AuditContext = AuditContext_Clone (dmu_AuditContext d),
          dmu_EventMetadata = EventMetadata_Clone (dmu_EventMetadata d),
          dmu_Canceled = dmu_Canceled d,
          dmu_OpenTelemetryCarrier = []\<rparr>)"

definition DeviceMetadataUpdatePending_Clone ::
    "DeviceMetadataUpdatePending option \<Rightarrow> DeviceMetadataUpdatePending option" where
  "DeviceMetadataUpdatePending_Clone d0 =
     (case d0 of None \<Rightarrow> None
      | Some d \<Rightarrow> Some \<lparr>dup_DeviceId = dup_DeviceId d, dup_UpdatePending = dup_UpdatePending d,
          dup_AuditContext = AuditContext_Clone (dup_AuditContext d),
          dup_EventMetadata = EventMetadata_Clone (dup_EventMetadata d),
          dup_ValidUntil = dup_ValidUntil d, dup_OpenTelemetryCarrier = []\<rparr>)"

definition DeviceMetadataSnapshotTaken_Clone ::
    "DeviceMetadataSnapshotTaken option \<Rightarrow> DeviceMetadataSnapshotTaken option" where
  "DeviceMetadataSnapshotTaken_Clone d0 =
     (case d0 of None \<Rightarrow> None
      | Some d \<Rightarrow> Some \<lparr>dms_DeviceId = dms_DeviceId d,
          dms_DeviceMetadataUpdated = DeviceMetadataUpdated_Clone (dms_DeviceMetadataUpdated d),
          dms_UpdatePendings = dms_UpdatePendings d,
          dms_EventMetadata = EventMetadata_Clone (dms_EventMetadata d)\<rparr>)"

section \<open>The events as one type\<close>

datatype any_event =
    E_ResourceLinksPublished ResourceLinksPublished
  | E_ResourceLinksUnpublished ResourceLinksUnpublished
  | E_ResourceLinksSnapshotTaken ResourceLinksSnapshotTaken
  | E_ResourceChanged ResourceChanged
  | E_ResourceUpdatePending ResourceUpdatePending
  | E_ResourceUpdated ResourceUpdated
  | E_ResourceRetrievePending ResourceRetrievePending
  | E_ResourceRetrieved ResourceRetrieved
  | E_ResourceDeletePending ResourceDeletePending
  | E_ResourceDeleted ResourceDeleted
  | E_ResourceCreatePending ResourceCreatePending
  | E_ResourceCreated ResourceCreated
  | E_ResourceStateSnapshotTaken ResourceStateSnapshotTaken
  | E_DeviceMetadataUpdated DeviceMetadataUpdated
  | E_DeviceMetadataUpdatePending DeviceMetadataUpdatePending
  | E_DeviceMetadataSnapshotTaken DeviceMetadataSnapshotTaken
  | E_ServiceMetadataUpdated ServiceMetadataUpdated
  | E_ServiceMetadataSnapshotTaken ServiceMetadataSnapshotTaken

fun as_Event :: "uuid_pkg \<Rightarrow> any_event \<Rightarrow> Event" where
  "as_Event U (E_ResourceLinksPublished e) = ResourceLinksPublished_Event U e"
| "as_Event U (E_ResourceLinksUnpublished e) = ResourceLinksUnpublished_Event U e"
| "as_Event U (E_ResourceLinksSnapshotTaken e) = ResourceLinksSnapshotTaken_Event U e"
| "as_Event U (E_ResourceChanged e) = ResourceChanged_Event U e"
| "as_Event U (E_ResourceUpdatePending e) = ResourceUpdatePending_Event U e"
| "as_Event U (E_ResourceUpdated e) = ResourceUpdated_Event U e"
| "as_Event U (E_ResourceRetrievePending e) = ResourceRetrievePending_Event U e"
| "as_Event U (E_ResourceRetrieved e) = ResourceRetrieved_Event U e"
| "as_Event U (E_ResourceDeletePending e) = ResourceDeletePending_Event U e"
| "as_Event U (E_ResourceDeleted e) = ResourceDeleted_Event U e"
| "as_Event U (E_ResourceCreatePending e) = ResourceCreatePending_Event U e"
| "as_Event U (E_ResourceCreated e) = ResourceCreated_Event U e"
| "as_Event U (E_ResourceStateSnapshotTaken e) = ResourceStateSnapshotTaken_Event U e"
| "as_Event U (E_DeviceMetadataUpdated e) = DeviceMetadataUpdated_Event U e"
| "as_Event U (E_DeviceMetadataUpdatePending e) = DeviceMetadataUpdatePending_Event U e"
| "as_Event U (E_DeviceMetadataSnapshotTaken e) = DeviceMetadataSnapshotTaken_Event U e"
| "as_Event U (E_ServiceMetadataUpdated e) = ServiceMetadataUpdated_Event U e"
| "as_Event U (E_ServiceMetadataSnapshotTaken e) = ServiceMetadataSnapshotTaken_Event U e"

lemmas event_table_defs =
  ResourceLinksPublished_Event_def ResourceLinksUnpublished_Event_def ResourceLinksSnapshotTaken_Event_def ResourceChanged_Event_def ResourceUpdatePending_Event_def ResourceUpdated_Event_def ResourceRetrievePending_Event_def ResourceRetrieved_Event_def ResourceDeletePending_Event_def ResourceDeleted_Event_def ResourceCreatePending_Event_def ResourceCreated_Event_def ResourceStateSnapshotTaken_Event_def DeviceMetadataUpdated_Event_def DeviceMetadataUpdatePending_Event_def DeviceMetadataSnapshotTaken_Event_def ServiceMetadataUpdated_Event_def ServiceMetadataSnapshotTaken_Event_def

section \<open>Stored events\<close>

text \<open>
  An event read back from the store or the bus: the envelope and the outcome of decoding the payload.
  A payload of another message type than the one asked for counts as a decoding error.
\<close>

record EventUnmarshaler =
  eu_Version :: u64
  eu_EventType :: string
  eu_AggregateID :: string
  eu_GroupID :: string
  eu_IsSnapshot :: bool
  eu_Timestamp :: gotime
  eu_Payload :: "any_event res"

definition Unmarshal_as :: "(any_event \<Rightarrow> 'a option) \<Rightarrow> EventUnmarshaler \<Rightarrow> 'a res" where
  "Unmarshal_as sel eu =
     (case eu_Payload eu of
        Inl err \<Rightarrow> Inl (GrpcStatus Internal ''%v'' [])
      | Inr ev \<Rightarrow> (case sel ev of Some s \<Rightarrow> Inr s | None \<Rightarrow> Inl (GrpcStatus Internal ''%v'' [])))"

definition sel_ResourceLinksPublished :: "any_event \<Rightarrow> ResourceLinksPublished option" where
  "sel_ResourceLinksPublished ev = (case ev of E_ResourceLinksPublished s \<Rightarrow> Some s | _ \<Rightarrow> None)"

definition sel_ResourceLinksUnpublished :: "any_event \<Rightarrow> ResourceLinksUnpublished option" where
  "sel_ResourceLinksUnpublished ev = (case ev of E_ResourceLinksUnpublished s \<Rightarrow> Some s | _ \<Rightarrow> None)"

definition sel_ResourceLinksSnapshotTaken :: "any_event \<Rightarrow> ResourceLinksSnapshotTaken option" where
  "sel_ResourceLinksSnapshotTaken ev = (case ev of E_ResourceLinksSnapshotTaken s \<Rightarrow> Some s | _ \<Rightarrow> None)"

definition sel_ResourceChanged :: "any_event \<Rightarrow> ResourceChanged option" where
  "sel_ResourceChanged ev = (case ev of E_ResourceChanged s \<Rightarrow> Some s | _ \<Rightarrow> None)"

definition sel_ResourceUpdatePending :: "any_event \<Rightarrow> ResourceUpdatePending option" where
  "sel_ResourceUpdatePending ev = (case ev of E_ResourceUpdatePending s \<Rightarrow> Some s | _ \<Rightarrow> None)"

definition sel_ResourceUpdated :: "any_event \<Rightarrow> ResourceUpdated option" where
  "sel_ResourceUpdated ev = (case ev of E_ResourceUpdated s \<Rightarrow> Some s | _ \<Rightarrow> None)"

definition sel_ResourceRetrievePending :: "any_event \<Rightarrow> ResourceRetrievePending option" where
  "sel_ResourceRetrievePending ev = (case ev of E_ResourceRetrievePending s \<Rightarrow> Some s | _ \<Rightarrow> None)"

definition sel_ResourceRetrieved :: "any_event \<Rightarrow> ResourceRetrieved option" where
  "sel_ResourceRetrieved ev = (case ev of E_ResourceRetrieved s \<Rightarrow> Some s | _ \<Rightarrow> None)"

definition sel_ResourceDeletePending :: "any_event \<Rightarrow> ResourceDeletePending option" where
  "sel_ResourceDeletePending ev = (case ev of E_ResourceDeletePending s \<Rightarrow> Some s | _ \<Rightarrow> None)"

definition sel_ResourceDeleted :: "any_event \<Rightarrow> ResourceDeleted option" where
  "sel_ResourceDeleted ev = (case ev of E_ResourceDeleted s \<Rightarrow> Some s | _ \<Rightarrow> None)"

definition sel_ResourceCreatePending :: "any_event \<Rightarrow> ResourceCreatePending option" where
  "sel_ResourceCreatePending ev = (case ev of E_ResourceCreatePending s \<Rightarrow> Some s | _ \<Rightarrow> None)"

definition sel_ResourceCreated :: "any_event \<Rightarrow> ResourceCreated option" where
  "sel_ResourceCreated ev = (case ev of E_ResourceCreated s \<Rightarrow> Some s | _ \<Rightarrow> None)"

definition sel_ResourceStateSnapshotTaken :: "any_event \<Rightarrow> ResourceStateSnapshotTaken option" where
  "sel_ResourceStateSnapshotTaken ev = (case ev of E_ResourceStateSnapshotTaken s \<Rightarrow> Some s | _ \<Rightarrow> None)"

definition sel_DeviceMetadataUpdated :: "any_event \<Rightarrow> DeviceMetadataUpdated option" where
  "sel_DeviceMetadataUpdated ev = (case ev of E_DeviceMetadataUpdated s \<Rightarrow> Some s | _ \<Rightarrow> None)"

definition sel_DeviceMetadataUpdatePending :: "any_event \<Rightarrow> DeviceMetadataUpdatePending option" where
  "sel_DeviceMetadataUpdatePending ev = (case ev of E_DeviceMetadataUpdatePending s \<Rightarrow> Some s | _ \<Rightarrow> None)"

definition sel_DeviceMetadataSnapshotTaken :: "any_event \<Rightarrow> DeviceMetadataSnapshotTaken option" where
  "sel_DeviceMetadataSnapshotTaken ev = (case ev of E_DeviceMetadataSnapshotTaken s \<Rightarrow> Some s | _ \<Rightarrow> None)"

definition sel_ServiceMetadataUpdated :: "any_event \<Rightarrow> ServiceMetadataUpdated option" where
  "sel_ServiceMetadataUpdated ev = (case ev of E_ServiceMetadataUpdated s \<Rightarrow> Some s | _ \<Rightarrow> None)"

definition sel_ServiceMetadataSnapshotTaken :: "any_event \<Rightarrow> ServiceMetadataSnapshotTaken option" where
  "sel_ServiceMetadataSnapshotTaken ev = (case ev of E_ServiceMetadataSnapshotTaken s \<Rightarrow> Some s | _ \<Rightarrow> None)"

lemmas sel_defs =
  sel_ResourceLinksPublished_def sel_ResourceLinksUnpublished_def sel_ResourceLinksSnapshotTaken_def sel_ResourceChanged_def sel_ResourceUpdatePending_def sel_ResourceUpdated_def sel_ResourceRetrievePending_def sel_ResourceRetrieved_def sel_ResourceDeletePending_def sel_ResourceDeleted_def sel_ResourceCreatePending_def sel_ResourceCreated_def sel_ResourceStateSnapshotTaken_def sel_DeviceMetadataUpdated_def sel_DeviceMetadataUpdatePending_def sel_DeviceMetadataSnapshotTaken_def sel_ServiceMetadataUpdated_def sel_ServiceMetadataSnapshotTaken_def

text \<open>
  The loop of every model's \<open>Handle(ctx, iter)\<close>: \<open>step n\<close> handles the n-th event, an event without
  a type or an event that cannot be decoded ends the loop, and at the end the iterator's error is
  returned.
\<close>

fun iterate_events ::
    "(nat \<Rightarrow> 's \<Rightarrow> EventUnmarshaler \<Rightarrow> 's \<times> unit res) \<Rightarrow> nat \<Rightarrow> 's \<Rightarrow> EventUnmarshaler list \<Rightarrow> error option
     \<Rightarrow> 's \<times> unit res" where
  "iterate_events step n e [] iterErr =
     (e, case iterErr of None \<Rightarrow> Inr () | Some err \<Rightarrow> Inl err)"
| "iterate_events step n e (eu # eus) iterErr =
     (if eu_EventType eu = [] then (e, Inl (GrpcStatus Internal ''cannot determine type of event'' []))
      else case step n e eu of
             (e', Inl err) \<Rightarrow> (e', Inl err)
           | (e', Inr _) \<Rightarrow> iterate_events step (Suc n) e' eus iterErr)"

text \<open>An event as it comes back from the store when encoding and decoding round-trip.\<close>

definition stored :: "uuid_pkg \<Rightarrow> any_event \<Rightarrow> EventUnmarshaler" where
  "stored U ev =
     \<lparr>eu_Version = ev_Version (as_Event U ev), eu_EventType = ev_EventType (as_Event U ev),
      eu_AggregateID = ev_AggregateID (as_Event U ev), eu_GroupID = ev_GroupID (as_Event U ev),
      eu_IsSnapshot = ev_IsSnapshot (as_Event U ev), eu_Timestamp = ev_Timestamp (as_Event U ev),
      eu_Payload = Inr ev\<rparr>"

section \<open>Properties\<close>

lemma iterate_events_invariant:
  assumes "I e" and "\<And>n e eu. I e \<Longrightarrow> I (fst (step n e eu))"
  shows "I (fst (iterate_events step n e eus iterErr))"
  using assms(1)
proof (induction eus arbitrary: n e)
  case (Cons eu eus)
  show ?case
  proof (cases "eu_EventType eu = []")
    case False
    obtain e' r where st: "step n e eu = (e', r)" by (cases "step n e eu")
    with assms(2) [OF Cons.prems, of n eu] have "I e'" by simp
    with st False Cons.IH show ?thesis by (cases r) auto
  qed (use Cons.prems in simp)
qed simp

lemma EventMetadata_Clone_id [simp]: "EventMetadata_Clone e = e"
  by (cases e) (auto simp: EventMetadata_Clone_def)

lemma EqualStringSlice_eq [simp]: "EqualStringSlice x y \<longleftrightarrow> x = y"
proof -
  have "EqualStringSlice x y \<longleftrightarrow> length x = length y \<and> (\<forall>i < length x. x ! i = y ! i)"
    by (simp add: EqualStringSlice_def list_all_iff Ball_def)
  then show ?thesis by (metis nth_equalityI)
qed

lemma EqualResource_refl [simp]: "EqualResource r r"
  by (auto simp: EqualResource_def)

lemma heartbeat_eq_iff:
  "(a :: ServicesHeartbeat_Heartbeat) = b \<longleftrightarrow>
     hb_ServiceId a = hb_ServiceId b \<and> hb_ValidUntil a = hb_ValidUntil b"
  by (cases a; cases b) simp

lemma equalServicesHeartbeates_eq [simp]: "equalServicesHeartbeates xs ys \<longleftrightarrow> xs = ys"
  by (induction xs ys rule: equalServicesHeartbeates.induct) (simp_all add: heartbeat_eq_iff conj_assoc)

lemma ResourceChanged_Equal_refl [simp]: "ResourceChanged_Equal rc rc"
  by (simp add: ResourceChanged_Equal_def)

text \<open>A pending event without a deadline (\<open>ValidUntil = 0\<close>) never expires.\<close>

lemma IsExpired_no_deadline [simp]: "\<not> IsExpired now (pkgTime_Unix 0 0)"
  by (simp add: IsExpired_def time_defs)

lemma IsExpired_iff:
  assumes "- (2 ^ 63) \<le> v" "v < 2 ^ 63"
  shows "IsExpired now (pkgTime_Unix 0 v) \<longleftrightarrow> v \<noteq> 0 \<and> v < now"
  using assms by (auto simp: IsExpired_def time_defs)

lemma IsExpired_mono:
  assumes "IsExpired now t" and "now \<le> now'"
  shows "IsExpired now' t"
  using assms by (auto simp: IsExpired_def split: if_splits)

end
