(* ===== verification/Pending_Commands.thy ===== *)
theory Pending_Commands
  imports Hub_Events
begin

text \<open>
  What the aggregate models share: the inputs of a command handler (clock readings and telemetry
  carrier), the contract of a queue of pending commands (locale \<open>pending_queue\<close>), the numbering of
  events, and the cancellation loop over a slice whose elements are removed while it is ranged over.
\<close>

section \<open>Inputs of a command handler\<close>

text \<open>
  Readings of the clock and the telemetry carrier are parameters collected in \<open>command_env\<close>: the
  code calls \<open>time.Now()\<close> once in \<open>MakeEventMeta\<close> (per produced event), once for the deadline
  of a pending command and once in the handler of a pending event.
\<close>

record command_env =
  env_Now_meta :: "nat \<Rightarrow> gotime"  \<comment> \<open>the reading in the n-th iteration of the command's loop\<close>
  env_Now_ttl :: gotime
  env_Now_handle :: gotime
  env_Trace :: carrier

definition errInvalidCommandMetadata :: error where
  "errInvalidCommandMetadata = GrpcStatus InvalidArgument ''invalid command metadata'' []"

definition timeToLive2ValidUntil :: "gotime \<Rightarrow> i64 \<Rightarrow> i64" where
  "timeToLive2ValidUntil now timeToLive =
     (if timeToLive = 0 then 0 else pkgTime_UnixNano (now + timeToLive))"

section \<open>Cancellation\<close>

text \<open>
  The cancel functions range over the slice of pending events while the confirmation removes the
  event from that same slice with \<open>append(s[:i], s[i+1:]...)\<close>, which shifts the elements of the
  shared backing array. The range expression is evaluated once, so the loop runs over the original
  length and reads each position of the array as it is at that moment. The loop therefore carries the
  backing array \<open>arr\<close>: after a step, the slice \<open>pend c'\<close> is its prefix and the tail is unchanged.
\<close>

definition overlay :: "'p list \<Rightarrow> 'p list \<Rightarrow> 'p list" where
  "overlay ps arr = ps @ drop (length ps) arr"

fun cancel_loop ::
    "('c \<Rightarrow> 'p list) \<Rightarrow> ('p \<Rightarrow> string) \<Rightarrow> (string \<Rightarrow> bool) \<Rightarrow>
     (nat \<Rightarrow> 'c \<Rightarrow> string \<Rightarrow> u64 \<Rightarrow> 'c \<times> any_event list res) \<Rightarrow> u64 \<Rightarrow>
     nat \<Rightarrow> nat \<Rightarrow> 'p list \<Rightarrow> 'c \<Rightarrow> any_event list \<Rightarrow> 'c \<times> any_event list" where
  "cancel_loop pend cid skip confirm newVersion 0 i arr c events = (c, events)"
| "cancel_loop pend cid skip confirm newVersion (Suc k) i arr c events =
     (let correlationID = cid (arr ! i) in
      if skip correlationID
      then cancel_loop pend cid skip confirm newVersion k (Suc i) arr c events
      else case confirm i c correlationID (newVersion + of_nat (length events)) of
             (c', Inl _) \<Rightarrow>
               cancel_loop pend cid skip confirm newVersion k (Suc i) (overlay (pend c') arr) c' events
           | (c', Inr ev) \<Rightarrow>
               cancel_loop pend cid skip confirm newVersion k (Suc i) (overlay (pend c') arr) c' (events @ ev))"

definition cancel_range ::
    "('c \<Rightarrow> 'p list) \<Rightarrow> ('p \<Rightarrow> string) \<Rightarrow> (string \<Rightarrow> bool) \<Rightarrow>
     (nat \<Rightarrow> 'c \<Rightarrow> string \<Rightarrow> u64 \<Rightarrow> 'c \<times> any_event list res) \<Rightarrow> u64 \<Rightarrow> 'c \<Rightarrow> 'c \<times> any_event list" where
  "cancel_range pend cid skip confirm newVersion c =
     cancel_loop pend cid skip confirm newVersion (length (pend c)) 0 (pend c) c []"

definition filtered_out :: "kit_strings \<Rightarrow> string list \<Rightarrow> string \<Rightarrow> bool" where
  "filtered_out S flt correlationID \<longleftrightarrow>
     (let correlationIdFilter = kit_MakeSet S flt in
      length correlationIdFilter \<noteq> 0 \<and> \<not> kit_HasOneOf S correlationIdFilter correlationID)"

section \<open>Live correlation identifiers\<close>

definition live :: "('p \<Rightarrow> bool) \<Rightarrow> ('p \<Rightarrow> string) \<Rightarrow> 'p list \<Rightarrow> string list" where
  "live expired cid ps = map cid (filter (\<lambda>p. \<not> expired p) ps)"

lemma live_simps [simp]:
  "live x f [] = []"
  "live x f (ps @ qs) = live x f ps @ live x f qs"
  "live x f [p] = (if x p then [] else [f p])"
  by (auto simp: live_def)

lemma distinct_live_mono:
  assumes "distinct (xs @ live x f ps @ ys)" and "\<And>p. x p \<Longrightarrow> x' p"
  shows "distinct (xs @ live x' f ps @ ys) \<and> set (live x' f ps) \<subseteq> set (live x f ps)"
proof -
  have sub: "set (live x' f ps) \<subseteq> set (live x f ps)" using assms(2) by (auto simp: live_def)
  have "distinct (live x f ps) \<Longrightarrow> distinct (live x' f ps)"
  proof (induction ps)
    case (Cons p ps)
    have "set (live x' f ps) \<subseteq> set (live x f ps)" using assms(2) by (auto simp: live_def)
    with Cons assms(2) show ?case by (cases "x p"; cases "x' p") (auto simp: live_def)
  qed simp
  with assms(1) sub show ?thesis by (auto simp: distinct_append)
qed

lemma live_remove_at:
  "\<exists>us. mset (live x f ps) = mset (live x f (remove_at i ps)) + us"
proof (induction ps arbitrary: i)
  case (Cons p ps)
  show ?case
  proof (cases i)
    case 0
    then show ?thesis by (auto simp: live_def)
  next
    case (Suc j)
    with Cons [of j] show ?thesis by (auto simp: live_def)
  qed
qed simp

lemma distinct_submset: "distinct xs \<Longrightarrow> mset xs = mset ys + us \<Longrightarrow> distinct ys"
  by (metis distinct_append mset_append ex_mset mset_eq_imp_distinct_iff)

section \<open>The contract of a queue of pending commands\<close>

text \<open>
  What every list of pending commands promises its users. \<open>accept\<close> handles a pending event,
  \<open>finish\<close> the event that ends it; \<open>regular\<close> singles out the ending events that finish one command
  (a successful deletion ends them all).
\<close>

locale pending_queue =
  fixes cid :: "'p \<Rightarrow> string"
    and expired :: "gotime \<Rightarrow> 'p \<Rightarrow> bool"
    and pendings :: "'s \<Rightarrow> 'p list"
    and accept :: "gotime \<Rightarrow> 's \<Rightarrow> 'p \<Rightarrow> 's \<times> unit res"
    and finish :: "'s \<Rightarrow> 'd \<Rightarrow> 's \<times> unit res"
    and done_cid :: "'d \<Rightarrow> string"
    and regular :: "'d \<Rightarrow> bool"
  assumes accept_expired: "expired now p \<Longrightarrow> snd (accept now s p) = Inr () \<and> pendings (fst (accept now s p)) = pendings s"
    and accept_live: "\<not> expired now p \<Longrightarrow> snd (accept now s p) = Inr () \<Longrightarrow>
      pendings (fst (accept now s p)) = pendings s @ [p] \<and>
      (\<forall>q \<in> set (pendings s). \<not> expired now q \<longrightarrow> cid q \<noteq> cid p)"
    and accept_error: "snd (accept now s p) = Inl err \<Longrightarrow> fst (accept now s p) = s"
    and finish_ok: "regular d \<Longrightarrow> snd (finish s d) = Inr () \<Longrightarrow>
      \<exists>i. find_index (\<lambda>p. cid p = done_cid d) (pendings s) = Some i \<and>
          pendings (fst (finish s d)) = remove_at i (pendings s)"
    and finish_error: "regular d \<Longrightarrow> snd (finish s d) = Inl err \<Longrightarrow>
      fst (finish s d) = s \<and> (\<forall>p \<in> set (pendings s). cid p \<noteq> done_cid d)"
    and expired_mono: "expired now p \<Longrightarrow> now \<le> now' \<Longrightarrow> expired now' p"
begin

text \<open>An ending event succeeds exactly when a command with its identifier is pending.\<close>

lemma finish_iff:
  assumes "regular d"
  shows "snd (finish s d) = Inr () \<longleftrightarrow> (\<exists>p \<in> set (pendings s). cid p = done_cid d)"
proof
  assume "snd (finish s d) = Inr ()"
  from finish_ok [OF assms this] obtain i where
    "find_index (\<lambda>p. cid p = done_cid d) (pendings s) = Some i" by blast
  from find_index_SomeD [OF this] show "\<exists>p \<in> set (pendings s). cid p = done_cid d"
    by (meson nth_mem)
next
  assume ex: "\<exists>p \<in> set (pendings s). cid p = done_cid d"
  show "snd (finish s d) = Inr ()"
  proof (cases "snd (finish s d)")
    case (Inl err)
    with finish_error [OF assms] ex show ?thesis by blast
  qed simp
qed

text \<open>It ends one command, the first with its identifier, and leaves the others in their order.\<close>

lemma finish_removes_one:
  assumes "regular d" and "snd (finish s d) = Inr ()"
  shows "\<exists>p \<in> set (pendings s). cid p = done_cid d \<and>
           mset (pendings s) = add_mset p (mset (pendings (fst (finish s d))))"
proof -
  from finish_ok [OF assms] obtain i where
    i: "find_index (\<lambda>p. cid p = done_cid d) (pendings s) = Some i" and
    r: "pendings (fst (finish s d)) = remove_at i (pendings s)" by blast
  from find_index_SomeD [OF i] have "i < length (pendings s)" and "cid (pendings s ! i) = done_cid d"
    by auto
  then show ?thesis using mset_remove_at r by (metis nth_mem)
qed

text \<open>Accepting a command and ending it gives the queue back, unless an expired one shadows it.\<close>

lemma accept_finish:
  assumes "\<not> expired now p" and "snd (accept now s p) = Inr ()"
    and "regular d" and "done_cid d = cid p" and "\<forall>q \<in> set (pendings s). cid q \<noteq> cid p"
  shows "snd (finish (fst (accept now s p)) d) = Inr () \<and>
         pendings (fst (finish (fst (accept now s p)) d)) = pendings s"
proof -
  let ?s = "fst (accept now s p)"
  from accept_live [OF assms(1,2)] have ps: "pendings ?s = pendings s @ [p]" by blast
  then have ok: "snd (finish ?s d) = Inr ()" using finish_iff [OF assms(3)] assms(4) by auto
  have idx: "find_index (\<lambda>q. cid q = cid p) (xs @ [p]) = Some (length xs)"
    if "\<forall>q \<in> set xs. cid q \<noteq> cid p" for xs using that by (induction xs) auto
  have rem: "remove_at (length xs) (xs @ [p]) = xs" for xs by (simp add: remove_at_def)
  from finish_ok [OF assms(3) ok] obtain i where
    "find_index (\<lambda>q. cid q = done_cid d) (pendings ?s) = Some i"
    "pendings (fst (finish ?s d)) = remove_at i (pendings ?s)" by blast
  with ps assms(4,5) idx rem have "pendings (fst (finish ?s d)) = pendings s" by auto
  with ok show ?thesis by blast
qed

text \<open>Live identifiers stay distinct.\<close>

lemma accept_distinct:
  assumes "distinct (live (expired now) cid (pendings s))"
  shows "distinct (live (expired now) cid (pendings (fst (accept now s p))))"
proof (cases "snd (accept now s p)")
  case (Inl err)
  with accept_error assms show ?thesis by metis
next
  case (Inr u)
  then have ok: "snd (accept now s p) = Inr ()" by simp
  show ?thesis
  proof (cases "expired now p")
    case True
    with accept_expired assms show ?thesis by metis
  next
    case False
    from accept_live [OF False ok] assms False show ?thesis by (auto simp: live_def)
  qed
qed

lemma finish_distinct:
  assumes "regular d" and "distinct (live (expired now) cid (pendings s))"
  shows "distinct (live (expired now) cid (pendings (fst (finish s d))))"
proof (cases "snd (finish s d)")
  case (Inl err)
  with finish_error [OF assms(1)] assms(2) show ?thesis by metis
next
  case (Inr u)
  with finish_ok [OF assms(1)] obtain i where "pendings (fst (finish s d)) = remove_at i (pendings s)"
    by fastforce
  with assms(2) live_remove_at distinct_submset show ?thesis by metis
qed

end

section \<open>The cancellation loop\<close>

lemma cancel_loop_invariant:
  assumes "I c" and "\<And>n c id v. I c \<Longrightarrow> I (fst (confirm n c id v))"
  shows "I (fst (cancel_loop pend cid skip confirm v k i arr c events))"
  using assms(1)
proof (induction k arbitrary: i arr c events)
  case (Suc k)
  show ?case
  proof (cases "skip (cid (arr ! i))")
    case False
    obtain c' r where st: "confirm i c (cid (arr ! i)) (v + of_nat (length events)) = (c', r)"
      by (cases "confirm i c (cid (arr ! i)) (v + of_nat (length events))")
    with assms(2) [OF Suc.prems, of i "cid (arr ! i)" "v + of_nat (length events)"] have "I c'" by simp
    with st False Suc.IH show ?thesis by (cases r) (auto simp: Let_def)
  qed (use Suc in \<open>simp add: Let_def\<close>)
qed simp

text \<open>Events numbered consecutively from a version.\<close>

definition numbered :: "uuid_pkg \<Rightarrow> u64 \<Rightarrow> any_event list \<Rightarrow> bool" where
  "numbered U v evs \<longleftrightarrow> (\<forall>i < length evs. ev_Version (as_Event U (evs ! i)) = v + of_nat i)"

lemma numbered_simps [simp]:
  "numbered U v []"
  "numbered U v [ev] \<longleftrightarrow> ev_Version (as_Event U ev) = v"
  by (auto simp: numbered_def)

lemma numbered_append:
  "numbered U v (xs @ ys) \<longleftrightarrow> numbered U v xs \<and> numbered U (v + of_nat (length xs)) ys"
proof
  assume n: "numbered U v (xs @ ys)"
  have "ev_Version (as_Event U (ys ! i)) = v + of_nat (length xs) + of_nat i" if "i < length ys" for i
    using n [unfolded numbered_def, rule_format, of "length xs + i"] that by (simp add: nth_append add.assoc)
  moreover have "ev_Version (as_Event U (xs ! i)) = v + of_nat i" if "i < length xs" for i
    using n [unfolded numbered_def, rule_format, of i] that by (simp add: nth_append)
  ultimately show "numbered U v xs \<and> numbered U (v + of_nat (length xs)) ys"
    by (auto simp: numbered_def)
next
  assume n: "numbered U v xs \<and> numbered U (v + of_nat (length xs)) ys"
  show "numbered U v (xs @ ys)"
    unfolding numbered_def
  proof (intro allI impI)
    fix i assume i: "i < length (xs @ ys)"
    show "ev_Version (as_Event U ((xs @ ys) ! i)) = v + of_nat i"
    proof (cases "i < length xs")
      case True
      with n show ?thesis by (auto simp: numbered_def nth_append)
    next
      case False
      with i have "i - length xs < length ys" by auto
      with n have "ev_Version (as_Event U (ys ! (i - length xs))) = v + of_nat (length xs) + of_nat (i - length xs)"
        by (auto simp: numbered_def)
      with False show ?thesis by (simp add: nth_append of_nat_diff)
    qed
  qed
qed

lemma cancel_loop_numbered:
  assumes "numbered U v events"
    and "\<And>n c id w c' evs. confirm n c id w = (c', Inr evs) \<Longrightarrow> numbered U w evs"
  shows "numbered U v (snd (cancel_loop pend cid skip confirm v k i arr c events))"
  using assms(1)
proof (induction k arbitrary: i arr c events)
  case (Suc k)
  show ?case
  proof (cases "skip (cid (arr ! i))")
    case False
    obtain c' r where st: "confirm i c (cid (arr ! i)) (v + of_nat (length events)) = (c', r)"
      by (cases "confirm i c (cid (arr ! i)) (v + of_nat (length events))")
    show ?thesis
    proof (cases r)
      case (Inl err)
      with st False Suc show ?thesis by (simp add: Let_def)
    next
      case (Inr evs)
      with st assms(2) have "numbered U (v + of_nat (length events)) evs" by blast
      with Suc.prems have "numbered U v (events @ evs)" by (simp add: numbered_append)
      with st False Inr Suc.IH show ?thesis by (simp add: Let_def)
    qed
  qed (use Suc in \<open>simp add: Let_def\<close>)
qed simp

section \<open>What a cancellation cancels\<close>

text \<open>
  The loop on correlation identifiers alone: the pending identifiers and the cancelled ones. An
  iteration cancels the identifier it reads if it passes the filter and is still pending.
\<close>

fun cancel_ids :: "(string \<Rightarrow> bool) \<Rightarrow> nat \<Rightarrow> nat \<Rightarrow> string list \<Rightarrow> string list \<Rightarrow> string list \<Rightarrow> string list \<times> string list"
where
  "cancel_ids skip 0 i arr ps rm = (ps, rm)"
| "cancel_ids skip (Suc k) i arr ps rm =
     (let x = arr ! i in
      if skip x \<or> x \<notin> set ps then cancel_ids skip k (Suc i) arr ps rm
      else let ps' = remove1 x ps in cancel_ids skip k (Suc i) (overlay ps' arr) ps' (rm @ [x]))"

lemma length_overlay: "length ps \<le> length arr \<Longrightarrow> length (overlay ps arr) = length arr"
  by (simp add: overlay_def)

lemma map_overlay: "map f (overlay ps arr) = overlay (map f ps) (map f arr)"
  by (simp add: overlay_def drop_map)

lemma overlay_prefix: "take (length ps) arr = ps \<Longrightarrow> overlay ps arr = arr"
  by (metis append_take_drop_id overlay_def)

lemma take_overlay: "take (length ps) (overlay ps arr) = ps"
  by (simp add: overlay_def)

text \<open>Refinement: the loop over events follows the loop over identifiers.\<close>

lemma cancel_loop_ids:
  assumes hit: "\<And>n c id w. id \<in> set (map cid (pend c)) \<Longrightarrow>
      \<exists>c' ev. confirm n c id w = (c', Inr [ev]) \<and> map cid (pend c') = remove1 id (map cid (pend c)) \<and> evcid ev = id"
    and miss: "\<And>n c id w. id \<notin> set (map cid (pend c)) \<Longrightarrow>
      \<exists>c' err. confirm n c id w = (c', Inl err) \<and> pend c' = pend c"
    and len: "i + k \<le> length arr" "length (pend c) \<le> length arr" "take (length (pend c)) arr = pend c"
  shows "cancel_ids skip k i (map cid arr) (map cid (pend c)) (map evcid events) =
     map_prod (map cid \<circ> pend) (map evcid) (cancel_loop pend cid skip confirm v k i arr c events)"
  using len
proof (induction k arbitrary: i arr c events)
  case (Suc k)
  let ?x = "cid (arr ! i)"
  have nth: "map cid arr ! i = ?x" using Suc.prems by simp
  show ?case
  proof (cases "skip ?x")
    case True
    with Suc nth show ?thesis by (simp add: Let_def)
  next
    case False
    let ?w = "v + of_nat (length events)"
    show ?thesis
    proof (cases "?x \<in> set (map cid (pend c))")
      case True
      from hit [OF this, of i ?w] obtain c' ev where
        c': "confirm i c ?x ?w = (c', Inr [ev])" "map cid (pend c') = remove1 ?x (map cid (pend c))" "evcid ev = ?x"
        by blast
      have "length (pend c') = length (pend c) - 1"
        using c'(2) True by (metis length_map length_remove1)
      with Suc.prems have len': "Suc i + k \<le> length (overlay (pend c') arr)" "length (pend c') \<le> length (overlay (pend c') arr)"
        by (auto simp: length_overlay)
      from Suc.IH [OF len' take_overlay, of "events @ [ev]"] c' True False nth show ?thesis
        by (simp add: Let_def map_overlay)
    next
      case False': False
      from miss [OF this, of i ?w] obtain c' err where
        c': "confirm i c ?x ?w = (c', Inl err)" "pend c' = pend c" by blast
      have ov: "overlay (pend c') arr = arr" using c'(2) Suc.prems(3) by (simp add: overlay_prefix)
      from Suc.IH [of "Suc i" arr c' events] Suc.prems c' ov False False' nth show ?thesis
        by (simp add: Let_def)
    qed
  qed
qed simp

text \<open>
  When no two matching identifiers are neighbours, the loop cancels exactly the matching ones. The
  element after a cancelled one moves into the position the loop has just left, so a matching
  neighbour would be passed over.
\<close>

fun no_adjacent :: "(string \<Rightarrow> bool) \<Rightarrow> string list \<Rightarrow> bool" where
  "no_adjacent skip (x # y # ys) \<longleftrightarrow> (skip x \<or> skip y) \<and> no_adjacent skip (y # ys)"
| "no_adjacent skip _ \<longleftrightarrow> True"

lemma no_adjacent_tl: "no_adjacent skip (x # xs) \<Longrightarrow> no_adjacent skip xs"
  by (cases xs) auto

lemma cancel_ids_done: "\<forall>x \<in> set ps. skip x \<Longrightarrow> cancel_ids skip k i arr ps rm = (ps, rm)"
  by (induction k arbitrary: i arr) (auto simp: Let_def)

lemma overlay_shift:
  "overlay (K @ R) (K @ x # R @ T) = K @ R @ last (x # R) # T"
proof -
  have "drop (length R) (x # R @ T) = last (x # R) # T"
    by (induction R arbitrary: x) auto
  then show ?thesis by (simp add: overlay_def)
qed

lemma cancel_ids_phase:
  assumes "\<forall>x \<in> set K. skip x" "distinct (K @ R)" "no_adjacent skip R"
  shows "cancel_ids skip (length R + length T) (length K) (K @ R @ T) (K @ R) rm =
           (K @ filter skip R, rm @ filter (\<lambda>x. \<not> skip x) R)"
  using assms
proof (induction R arbitrary: K T rm rule: length_induct)
  case (1 R)
  show ?case
  proof (cases R)
    case Nil
    with 1 show ?thesis by (simp add: cancel_ids_done)
  next
    case (Cons x R')
    show ?thesis
    proof (cases "skip x")
      case True
      with 1 Cons no_adjacent_tl have
        "cancel_ids skip (length R' + length T) (length (K @ [x])) ((K @ [x]) @ R' @ T) ((K @ [x]) @ R') rm =
           ((K @ [x]) @ filter skip R', rm @ filter (\<lambda>x. \<not> skip x) R')"
        by (intro "1.IH" [rule_format]) auto
      with True Cons show ?thesis by (simp add: Let_def nth_append)
    next
      case False
      with 1 Cons have xK: "x \<notin> set K" by auto
      have step: "cancel_ids skip (length R + length T) (length K) (K @ R @ T) (K @ R) rm =
          cancel_ids skip (length R' + length T) (Suc (length K)) (K @ R' @ last (x # R') # T) (K @ R') (rm @ [x])"
        using False Cons xK by (simp add: Let_def nth_append remove1_append overlay_shift)
      show ?thesis
      proof (cases R')
        case Nil
        with step 1 Cons False show ?thesis by (simp add: cancel_ids_done)
      next
        case (Cons y R'')
        with 1 \<open>R = x # R'\<close> False have y: "skip y" "no_adjacent skip R''"
          using no_adjacent_tl by auto
        let ?T = "last (x # R') # T"
        have "cancel_ids skip (length R'' + length ?T) (length (K @ [y])) ((K @ [y]) @ R'' @ ?T) ((K @ [y]) @ R'') (rm @ [x]) =
           ((K @ [y]) @ filter skip R'', (rm @ [x]) @ filter (\<lambda>x. \<not> skip x) R'')"
          using 1 \<open>R = x # R'\<close> Cons y by (intro "1.IH" [rule_format]) auto
        with step Cons y False \<open>R = x # R'\<close> show ?thesis by simp
      qed
    qed
  qed
qed

lemma cancel_ids_all:
  assumes "distinct xs" "no_adjacent skip xs"
  shows "cancel_ids skip (length xs) 0 xs xs [] = (filter skip xs, filter (\<lambda>x. \<not> skip x) xs)"
  using cancel_ids_phase [of "[]" skip xs "[]" "[]"] assms by simp

lemma no_adjacent_single: "distinct xs \<Longrightarrow> no_adjacent (\<lambda>y. y \<noteq> x) xs"
proof (induction xs)
  case (Cons a xs)
  then show ?case by (cases xs) auto
qed simp

lemma map_remove_at_remove1:
  "find_index (\<lambda>p. f p = x) ps = Some i \<Longrightarrow> map f (remove_at i ps) = remove1 x (map f ps)"
proof (induction ps arbitrary: i)
  case (Cons p ps)
  then show ?case by (cases "f p = x") auto
qed simp

lemma find_index_cases:
  obtains "find_index (\<lambda>p. f p = x) ps = None" "x \<notin> set (map f ps)"
  | i where "find_index (\<lambda>p. f p = x) ps = Some i" "x \<in> set (map f ps)"
proof (cases "find_index (\<lambda>p. f p = x) ps")
  case None
  then have "x \<notin> set (map f ps)" by (auto simp: find_index_None)
  with None that(1) show thesis by blast
next
  case (Some i)
  then have "x \<in> set (map f ps)" using find_index_SomeD nth_mem by fastforce
  with Some that(2) show thesis by blast
qed

text \<open>The whole loop on identifiers.\<close>

definition cancel_all_ids :: "(string \<Rightarrow> bool) \<Rightarrow> string list \<Rightarrow> string list \<times> string list" where
  "cancel_all_ids skip xs = cancel_ids skip (length xs) 0 xs xs []"

text \<open>Whatever the list, a cancelled command passed the filter and every other command stays.\<close>

lemma cancel_ids_sound:
  "cancel_ids skip k i arr ps rm = (ps', rm') \<Longrightarrow>
     mset ps + mset rm = mset ps' + mset rm' \<and> (\<forall>x \<in> set rm'. x \<in> set rm \<or> \<not> skip x)"
proof (induction k arbitrary: i arr ps rm)
  case (Suc k)
  let ?x = "arr ! i"
  show ?case
  proof (cases "skip ?x \<or> ?x \<notin> set ps")
    case True
    with Suc show ?thesis by (simp add: Let_def)
  next
    case False
    with Suc.prems have "cancel_ids skip k (Suc i) (overlay (remove1 ?x ps) arr) (remove1 ?x ps) (rm @ [?x]) = (ps', rm')"
      by (simp add: Let_def)
    from Suc.IH [OF this] False show ?thesis by auto
  qed
qed simp

lemma cancel_all_ids_sound:
  "mset xs = mset (fst (cancel_all_ids skip xs)) + mset (snd (cancel_all_ids skip xs)) \<and>
   (\<forall>x \<in> set (snd (cancel_all_ids skip xs)). \<not> skip x)"
  using cancel_ids_sound [of skip "length xs" 0 xs xs "[]"]
  by (cases "cancel_all_ids skip xs") (auto simp: cancel_all_ids_def)

lemma filtered_out_ok:
  assumes "kit_strings_ok S"
  shows "filtered_out S flt x \<longleftrightarrow> flt \<noteq> [] \<and> x \<notin> set flt"
  using kit_strings_okD [OF assms] by (simp add: filtered_out_def Let_def)

section \<open>Replay\<close>

text \<open>Handling decodable events one after the other is a fold over their handler.\<close>

lemma iterate_events_fold:
  assumes "\<And>eu e n. eu \<in> set eus \<Longrightarrow> eu_EventType eu \<noteq> [] \<and> snd (step n e eu) = Inr () \<and> fst (step n e eu) = g e eu"
  shows "iterate_events step n e eus None = (foldl g e eus, Inr ())"
  using assms
proof (induction eus arbitrary: n e)
  case (Cons eu eus)
  have "step n e eu = (g e eu, Inr ())" using Cons.prems [of eu n e] by (metis list.set_intros(1) prod.collapse)
  with Cons show ?case by simp
qed simp

text \<open>
  A cancellation loop whose confirmations agree with the replay of what they return, under an invariant,
  agrees with the replay of all its events.
\<close>

lemma cancel_loop_replay:
  assumes step: "\<And>n c id w c' r. I c \<Longrightarrow> confirm n c id w = (c', r) \<Longrightarrow>
      I c' \<and> snap c' = foldl g (snap c) (case r of Inl _ \<Rightarrow> [] | Inr evs \<Rightarrow> evs)"
    and start: "I c" "snap c = foldl g s events"
    and loop: "cancel_loop pend cid skip confirm v k i arr c events = (c', events')"
  shows "I c' \<and> snap c' = foldl g s events'"
  using start loop
proof (induction k arbitrary: i arr c events)
  case (Suc k)
  show ?case
  proof (cases "skip (cid (arr ! i))")
    case True
    with Suc show ?thesis by (simp add: Let_def)
  next
    case False
    obtain c1 r where st: "confirm i c (cid (arr ! i)) (v + of_nat (length events)) = (c1, r)" by fastforce
    from step [OF Suc.prems(1) st] have I1: "I c1"
      and s1: "snap c1 = foldl g (snap c) (case r of Inl _ \<Rightarrow> [] | Inr evs \<Rightarrow> evs)" by auto
    show ?thesis
    proof (cases r)
      case (Inl err)
      with Suc.IH [OF I1, of events] Suc.prems s1 st False show ?thesis by (simp add: Let_def)
    next
      case (Inr evs)
      with Suc.IH [OF I1, of "events @ evs"] Suc.prems s1 st False show ?thesis by (simp add: Let_def)
    qed
  qed
qed simp

lemma cancel_loop_events:
  assumes "\<And>n c id w c' evs. confirm n c id w = (c', Inr evs) \<Longrightarrow> list_all P evs" and "list_all P events"
  shows "list_all P (snd (cancel_loop pend cid skip confirm v k i arr c events))"
  using assms(2)
proof (induction k arbitrary: i arr c events)
  case (Suc k)
  obtain c1 r where st: "confirm i c (cid (arr ! i)) (v + of_nat (length events)) = (c1, r)" by fastforce
  show ?case
  proof (cases r)
    case (Inr evs)
    with assms(1) st have "list_all P evs" by blast
    with Suc st Inr show ?thesis by (simp add: Let_def)
  qed (use Suc st in \<open>simp add: Let_def\<close>)
qed simp

section \<open>Sample inputs\<close>

text \<open>Concrete parameters on which the theories below evaluate instances of their theorems.\<close>

definition ex_uuid :: uuid_pkg where
  "ex_uuid = \<lparr>uuid_NewSHA1 = (\<lambda>s. s), uuid_Nil = ''nil'', uuid_Parse_ok = (\<lambda>s. s \<noteq> [])\<rparr>"

definition ex_kit :: kit_strings where
  "ex_kit = \<lparr>kit_MakeSet = (\<lambda>xs. xs), kit_HasOneOf = (\<lambda>s x. List.member s x)\<rparr>"

definition ex_env :: command_env where
  "ex_env = \<lparr>env_Now_meta = (\<lambda>n. 1000 + int n), env_Now_ttl = 1000, env_Now_handle = 1000, env_Trace = []\<rparr>"

definition ex_cm :: CommandMetadata where
  "ex_cm = \<lparr>cm_ConnectionId = ''conn'', cm_Sequence = 1\<rparr>"

lemma ex_kit_ok: "kit_strings_ok ex_kit"
  by (simp add: kit_strings_ok_def ex_kit_def)

end
