(* ===== verification/Resource_State.thy ===== *)
theory Resource_State
  imports Pending_Commands
begin

text \<open>
  The state of one resource: \<^verbatim>\<open>resource-aggregate/events/resourceStateSnapshotTaken.go\<close>.
  The snapshot keeps the latest content change and four lists of pending commands (create, update,
  retrieve, delete). Event handlers fold stored events into the snapshot; command handlers validate a
  request against the snapshot, apply the resulting event to it and return the new events.
\<close>

section \<open>Parameters: codecs\<close>

text \<open>
  The codecs of \<^verbatim>\<open>plgd-dev/kit\<close> and the media types of \<^verbatim>\<open>go-coap\<close>: decoding and
  encoding of a value \<open>'v\<close>, and the printed names of media types (16-bit codes).
\<close>

record 'v codec_pkg =
  cbor_Decode :: "bytes \<Rightarrow> 'v option"
  cbor_Encode :: "'v \<Rightarrow> bytes option"
  json_Decode :: "bytes \<Rightarrow> 'v option"
  json_Encode :: "'v \<Rightarrow> bytes option"
  MediaType_String :: "int \<Rightarrow> string"
  mt_AppCBOR :: int
  mt_AppOcfCbor :: int
  mt_AppJSON :: int

definition media_type :: "'v codec_pkg \<Rightarrow> i32 \<Rightarrow> string" where
  "media_type K n = MediaType_String K (n mod 2 ^ 16)"

section \<open>State\<close>

definition NewResourceStateSnapshotTaken :: ResourceStateSnapshotTaken where
  "NewResourceStateSnapshotTaken =
     \<lparr>rs_ResourceId = None, rs_LatestResourceChange = None, rs_ResourceCreatePendings = [],
      rs_ResourceRetrievePendings = [], rs_ResourceUpdatePendings = [], rs_ResourceDeletePendings = [],
      rs_AuditContext = None, rs_EventMetadata = Some empty_EventMetadata, rs_ResourceTypes = []\<rparr>"

text \<open>
  The snapshot with the identity of the caller and, when they were loaded, the published links of the
  device.
\<close>

record ResourceStateSnapshotTakenForCommand =
  rsc_owner :: string
  rsc_hubID :: string
  rsc_userID :: string
  rsc_resourceLinks :: "ResourceLinksSnapshotTaken option"
  rsc_snap :: ResourceStateSnapshotTaken

definition NewResourceStateSnapshotTakenForCommand ::
    "string \<Rightarrow> string \<Rightarrow> string \<Rightarrow> ResourceLinksSnapshotTaken option \<Rightarrow> ResourceStateSnapshotTakenForCommand"
where
  "NewResourceStateSnapshotTakenForCommand userID owner hubID resourceLinks =
     \<lparr>rsc_owner = owner, rsc_hubID = hubID, rsc_userID = userID, rsc_resourceLinks = resourceLinks,
      rsc_snap = NewResourceStateSnapshotTaken\<rparr>"

section \<open>Correlation identifiers\<close>

abbreviation rcp_cid :: "ResourceCreatePending \<Rightarrow> string" where
  "rcp_cid p \<equiv> GetCorrelationId (rcp_AuditContext p)"
abbreviation rup_cid :: "ResourceUpdatePending \<Rightarrow> string" where
  "rup_cid p \<equiv> GetCorrelationId (rup_AuditContext p)"
abbreviation rrp_cid :: "ResourceRetrievePending \<Rightarrow> string" where
  "rrp_cid p \<equiv> GetCorrelationId (rrp_AuditContext p)"
abbreviation rdp_cid :: "ResourceDeletePending \<Rightarrow> string" where
  "rdp_cid p \<equiv> GetCorrelationId (rdp_AuditContext p)"

text \<open>
  The generic scan over a list of pending events: \<open>False\<close> when a pending event that is not expired
  has the correlation identifier.
\<close>

fun checkForDuplicityCorrelationID_list ::
    "('p \<Rightarrow> bool) \<Rightarrow> ('p \<Rightarrow> string) \<Rightarrow> 'p list \<Rightarrow> string \<Rightarrow> bool" where
  "checkForDuplicityCorrelationID_list expired cid [] correlationID = True"
| "checkForDuplicityCorrelationID_list expired cid (pe # pes) correlationID =
     (if expired pe then checkForDuplicityCorrelationID_list expired cid pes correlationID
      else if cid pe = correlationID then False
      else checkForDuplicityCorrelationID_list expired cid pes correlationID)"

definition checkForDuplicityCorrelationID ::
    "ResourceStateSnapshotTaken \<Rightarrow> string \<Rightarrow> gotime \<Rightarrow> error option" where
  "checkForDuplicityCorrelationID e correlationID now =
     (if \<not> checkForDuplicityCorrelationID_list (ResourceCreatePending_IsExpired now) rcp_cid
              (rs_ResourceCreatePendings e) correlationID
      then Some (GrpcStatus InvalidArgument ''duplicit correlationId at resource create pendings'' [correlationID])
      else if \<not> checkForDuplicityCorrelationID_list (ResourceUpdatePending_IsExpired now) rup_cid
              (rs_ResourceUpdatePendings e) correlationID
      then Some (GrpcStatus InvalidArgument ''duplicit correlationId at resource update pendings'' [correlationID])
      else if \<not> checkForDuplicityCorrelationID_list (ResourceRetrievePending_IsExpired now) rrp_cid
              (rs_ResourceRetrievePendings e) correlationID
      then Some (GrpcStatus InvalidArgument ''duplicit correlationId at resource retrieve pendings'' [correlationID])
      else if \<not> checkForDuplicityCorrelationID_list (ResourceDeletePending_IsExpired now) rdp_cid
              (rs_ResourceDeletePendings e) correlationID
      then Some (GrpcStatus InvalidArgument ''duplicit correlationId at resource delete pendings'' [correlationID])
      else None)"

definition findResourceOperationPendingIndex :: "('p \<Rightarrow> string) \<Rightarrow> string \<Rightarrow> 'p list \<Rightarrow> nat option" where
  "findResourceOperationPendingIndex cid correlationID ops =
     find_index (\<lambda>event. cid event = correlationID) ops"

section \<open>Event handlers\<close>

text \<open>
  \<open>processValidUntil\<close> on the validator's resource id, metadata and audit context: an expired pending
  event only leaves its metadata.
\<close>

definition processValidUntil ::
    "ResourceStateSnapshotTaken \<Rightarrow> bool \<Rightarrow> ResourceId option \<Rightarrow> EventMetadata option \<Rightarrow> AuditContext option
     \<Rightarrow> ResourceStateSnapshotTaken \<times> bool" where
  "processValidUntil e expired rid em ac =
     (if expired
      then (e\<lparr>rs_ResourceId := rid, rs_EventMetadata := em, rs_AuditContext := ac\<rparr>, False)
      else (e, True))"

definition setResourceTypes :: "ResourceStateSnapshotTaken \<Rightarrow> string list \<Rightarrow> ResourceStateSnapshotTaken" where
  "setResourceTypes e resourceTypes =
     (if length resourceTypes = 0 then e else e\<lparr>rs_ResourceTypes := resourceTypes\<rparr>)"

definition handleEventResourceCreatePending ::
    "gotime \<Rightarrow> ResourceStateSnapshotTaken \<Rightarrow> ResourceCreatePending \<Rightarrow> ResourceStateSnapshotTaken \<times> unit res"
where
  "handleEventResourceCreatePending now e p =
     (case processValidUntil e (ResourceCreatePending_IsExpired now p) (rcp_ResourceId p)
             (rcp_EventMetadata p) (rcp_AuditContext p) of
        (e', False) \<Rightarrow> (e', Inr ())
      | (e', True) \<Rightarrow>
          (case checkForDuplicityCorrelationID e' (rcp_cid p) now of
             Some err \<Rightarrow> (e', Inl err)
           | None \<Rightarrow>
               (setResourceTypes
                  (e'\<lparr>rs_ResourceId := rcp_ResourceId p, rs_EventMetadata := rcp_EventMetadata p,
                      rs_ResourceCreatePendings := rs_ResourceCreatePendings e' @ [p],
                      rs_AuditContext := rcp_AuditContext p\<rparr>) (rcp_ResourceTypes p), Inr ())))"

definition handleEventResourceUpdatePending ::
    "gotime \<Rightarrow> ResourceStateSnapshotTaken \<Rightarrow> ResourceUpdatePending \<Rightarrow> ResourceStateSnapshotTaken \<times> unit res"
where
  "handleEventResourceUpdatePending now e p =
     (case processValidUntil e (ResourceUpdatePending_IsExpired now p) (rup_ResourceId p)
             (rup_EventMetadata p) (rup_AuditContext p) of
        (e', False) \<Rightarrow> (e', Inr ())
      | (e', True) \<Rightarrow>
          (case checkForDuplicityCorrelationID e' (rup_cid p) now of
             Some err \<Rightarrow> (e', Inl err)
           | None \<Rightarrow>
               (setResourceTypes
                  (e'\<lparr>rs_ResourceId := rup_ResourceId p, rs_EventMetadata := rup_EventMetadata p,
                      rs_ResourceUpdatePendings := rs_ResourceUpdatePendings e' @ [p],
                      rs_AuditContext := rup_AuditContext p\<rparr>) (rup_ResourceTypes p), Inr ())))"

definition handleEventResourceRetrievePending ::
    "gotime \<Rightarrow> ResourceStateSnapshotTaken \<Rightarrow> ResourceRetrievePending \<Rightarrow> ResourceStateSnapshotTaken \<times> unit res"
where
  "handleEventResourceRetrievePending now e p =
     (case processValidUntil e (ResourceRetrievePending_IsExpired now p) (rrp_ResourceId p)
             (rrp_EventMetadata p) (rrp_AuditContext p) of
        (e', False) \<Rightarrow> (e', Inr ())
      | (e', True) \<Rightarrow>
          (case checkForDuplicityCorrelationID e' (rrp_cid p) now of
             Some err \<Rightarrow> (e', Inl err)
           | None \<Rightarrow>
               (setResourceTypes
                  (e'\<lparr>rs_ResourceId := rrp_ResourceId p, rs_EventMetadata := rrp_EventMetadata p,
                      rs_ResourceRetrievePendings := rs_ResourceRetrievePendings e' @ [p],
                      rs_AuditContext := rrp_AuditContext p\<rparr>) (rrp_ResourceTypes p), Inr ())))"

definition handleEventResourceDeletePending ::
    "gotime \<Rightarrow> ResourceStateSnapshotTaken \<Rightarrow> ResourceDeletePending \<Rightarrow> ResourceStateSnapshotTaken \<times> unit res"
where
  "handleEventResourceDeletePending now e p =
     (case processValidUntil e (ResourceDeletePending_IsExpired now p) (rdp_ResourceId p)
             (rdp_EventMetadata p) (rdp_AuditContext p) of
        (e', False) \<Rightarrow> (e', Inr ())
      | (e', True) \<Rightarrow>
          (case checkForDuplicityCorrelationID e' (rdp_cid p) now of
             Some err \<Rightarrow> (e', Inl err)
           | None \<Rightarrow>
               (setResourceTypes
                  (e'\<lparr>rs_ResourceId := rdp_ResourceId p, rs_EventMetadata := rdp_EventMetadata p,
                      rs_ResourceDeletePendings := rs_ResourceDeletePendings e' @ [p],
                      rs_AuditContext := rdp_AuditContext p\<rparr>) (rdp_ResourceTypes p), Inr ())))"

definition handleEventResourceCreated ::
    "ResourceStateSnapshotTaken \<Rightarrow> ResourceCreated \<Rightarrow> ResourceStateSnapshotTaken \<times> unit res" where
  "handleEventResourceCreated e created =
     (let cid = GetCorrelationId (rcd_AuditContext created) in
      case findResourceOperationPendingIndex rcp_cid cid (rs_ResourceCreatePendings e) of
        None \<Rightarrow> (e, Inl (GrpcStatus InvalidArgument
                  ''cannot find resource create pending event with correlationId'' [cid]))
      | Some index \<Rightarrow>
          (setResourceTypes
             (e\<lparr>rs_ResourceId := rcd_ResourceId created, rs_EventMetadata := rcd_EventMetadata created,
                rs_ResourceCreatePendings := remove_at index (rs_ResourceCreatePendings e),
                rs_AuditContext := rcd_AuditContext created\<rparr>) (rcd_ResourceTypes created), Inr ()))"

definition handleEventResourceUpdated ::
    "ResourceStateSnapshotTaken \<Rightarrow> ResourceUpdated \<Rightarrow> ResourceStateSnapshotTaken \<times> unit res" where
  "handleEventResourceUpdated e updated =
     (let cid = GetCorrelationId (rud_AuditContext updated) in
      case findResourceOperationPendingIndex rup_cid cid (rs_ResourceUpdatePendings e) of
        None \<Rightarrow> (e, Inl (GrpcStatus InvalidArgument
                  ''cannot find resource update pending event with correlationId'' [cid]))
      | Some index \<Rightarrow>
          (setResourceTypes
             (e\<lparr>rs_ResourceId := rud_ResourceId updated, rs_EventMetadata := rud_EventMetadata updated,
                rs_ResourceUpdatePendings := remove_at index (rs_ResourceUpdatePendings e),
                rs_AuditContext := rud_AuditContext updated\<rparr>) (rud_ResourceTypes updated), Inr ()))"

definition handleEventResourceRetrieved ::
    "ResourceStateSnapshotTaken \<Rightarrow> ResourceRetrieved \<Rightarrow> ResourceStateSnapshotTaken \<times> unit res" where
  "handleEventResourceRetrieved e retrieved =
     (let cid = GetCorrelationId (rrd_AuditContext retrieved) in
      case findResourceOperationPendingIndex rrp_cid cid (rs_ResourceRetrievePendings e) of
        None \<Rightarrow> (e, Inl (GrpcStatus InvalidArgument
                  ''cannot find resource retrieve pending event with correlationId'' [cid]))
      | Some index \<Rightarrow>
          (setResourceTypes
             (e\<lparr>rs_ResourceId := rrd_ResourceId retrieved, rs_EventMetadata := rrd_EventMetadata retrieved,
                rs_ResourceRetrievePendings := remove_at index (rs_ResourceRetrievePendings e),
                rs_AuditContext := rrd_AuditContext retrieved\<rparr>) (rrd_ResourceTypes retrieved), Inr ()))"

definition ValidateSequence :: "ResourceStateSnapshotTaken \<Rightarrow> EventMetadata option \<Rightarrow> bool" where
  "ValidateSequence e eventMetadata =
     (let latest = nil_or None rch_EventMetadata (rs_LatestResourceChange e) in
      if GetEmConnectionId latest \<noteq> GetEmConnectionId eventMetadata then True
      else if GetEmSequence latest < GetEmSequence eventMetadata then True
      else False)"

definition handleEventResourceChanged ::
    "ResourceStateSnapshotTaken \<Rightarrow> ResourceChanged \<Rightarrow> ResourceStateSnapshotTaken \<times> bool" where
  "handleEventResourceChanged e changed =
     (if (case rs_LatestResourceChange e of
            None \<Rightarrow> True
          | Some latest \<Rightarrow> ValidateSequence e (rch_EventMetadata changed) \<and>
                           \<not> ResourceChanged_Equal latest changed)
      then (setResourceTypes
              (e\<lparr>rs_ResourceId := rch_ResourceId changed, rs_EventMetadata := rch_EventMetadata changed,
                 rs_LatestResourceChange := Some changed, rs_AuditContext := rch_AuditContext changed\<rparr>)
              (rch_ResourceTypes changed), True)
      else (e, False))"

definition findResourceDeletePendingIndex ::
    "ResourceStateSnapshotTaken \<Rightarrow> Status \<Rightarrow> string \<Rightarrow> bool \<times> nat option" where
  "findResourceDeletePendingIndex e st correlationID =
     (if st = Status_OK \<or> st = Status_ACCEPTED then (True, None)
      else (False, findResourceOperationPendingIndex rdp_cid correlationID (rs_ResourceDeletePendings e)))"

definition handleEventResourceDeleted ::
    "ResourceStateSnapshotTaken \<Rightarrow> ResourceDeleted \<Rightarrow> ResourceStateSnapshotTaken \<times> unit res" where
  "handleEventResourceDeleted e deleted =
     (let cid = GetCorrelationId (rdd_AuditContext deleted);
          finish = (\<lambda>e'. (setResourceTypes
             (e'\<lparr>rs_ResourceId := rdd_ResourceId deleted, rs_EventMetadata := rdd_EventMetadata deleted,
                 rs_AuditContext := rdd_AuditContext deleted\<rparr>) (rdd_ResourceTypes deleted), Inr ()))
      in case findResourceDeletePendingIndex e (rdd_Status deleted) cid of
           (True, _) \<Rightarrow>
             finish (e\<lparr>rs_ResourceCreatePendings := [], rs_ResourceRetrievePendings := [],
                       rs_ResourceDeletePendings := [], rs_ResourceUpdatePendings := []\<rparr>)
         | (False, Some i) \<Rightarrow>
             finish (e\<lparr>rs_ResourceDeletePendings := remove_at i (rs_ResourceDeletePendings e)\<rparr>)
         | (False, None) \<Rightarrow>
             (e, Inl (GrpcStatus InvalidArgument
                ''cannot find resource delete pending event with correlationId'' [cid])))"

definition handleEventResourceStateSnapshotTaken ::
    "ResourceStateSnapshotTaken \<Rightarrow> ResourceStateSnapshotTaken \<Rightarrow> ResourceStateSnapshotTaken" where
  "handleEventResourceStateSnapshotTaken e snapshot = ResourceStateSnapshotTaken_CopyData e snapshot"

text \<open>
  \<open>handleByEvent\<close>: a stored event changes the snapshot; the handler's own error is discarded, only a
  decoding error is returned. Events of other types are ignored.
\<close>

definition handleByEvent ::
    "gotime \<Rightarrow> ResourceStateSnapshotTaken \<Rightarrow> EventUnmarshaler \<Rightarrow> ResourceStateSnapshotTaken \<times> unit res" where
  "handleByEvent now e eu =
     (let t = eu_EventType eu;
          run = (\<lambda>r. case r of Inl err \<Rightarrow> (e, Inl err) | Inr e' \<Rightarrow> (e', Inr ()))
      in if t = ''resourcestatesnapshottaken'' then
           run (map_sum id (handleEventResourceStateSnapshotTaken e)
                 (Unmarshal_as sel_ResourceStateSnapshotTaken eu))
         else if t = ''resourceupdatepending'' then
           run (map_sum id (\<lambda>s. fst (handleEventResourceUpdatePending now e s))
                 (Unmarshal_as sel_ResourceUpdatePending eu))
         else if t = ''resourceupdated'' then
           run (map_sum id (\<lambda>s. fst (handleEventResourceUpdated e s))
                 (Unmarshal_as sel_ResourceUpdated eu))
         else if t = ''resourcecreatepending'' then
           run (map_sum id (\<lambda>s. fst (handleEventResourceCreatePending now e s))
                 (Unmarshal_as sel_ResourceCreatePending eu))
         else if t = ''resourcecreated'' then
           run (map_sum id (\<lambda>s. fst (handleEventResourceCreated e s))
                 (Unmarshal_as sel_ResourceCreated eu))
         else if t = ''resourcechanged'' then
           run (map_sum id (\<lambda>s. fst (handleEventResourceChanged e s))
                 (Unmarshal_as sel_ResourceChanged eu))
         else if t = ''resourcedeleted'' then
           run (map_sum id (\<lambda>s. fst (handleEventResourceDeleted e s))
                 (Unmarshal_as sel_ResourceDeleted eu))
         else if t = ''resourcedeletepending'' then
           run (map_sum id (\<lambda>s. fst (handleEventResourceDeletePending now e s))
                 (Unmarshal_as sel_ResourceDeletePending eu))
         else if t = ''resourceretrieved'' then
           run (map_sum id (\<lambda>s. fst (handleEventResourceRetrieved e s))
                 (Unmarshal_as sel_ResourceRetrieved eu))
         else if t = ''resourceretrievepending'' then
           run (map_sum id (\<lambda>s. fst (handleEventResourceRetrievePending now e s))
                 (Unmarshal_as sel_ResourceRetrievePending eu))
         else (e, Inr ()))"

definition ResourceState_Handle ::
    "(nat \<Rightarrow> gotime) \<Rightarrow> ResourceStateSnapshotTaken \<Rightarrow> EventUnmarshaler list \<Rightarrow> error option
     \<Rightarrow> ResourceStateSnapshotTaken \<times> unit res" where
  "ResourceState_Handle now e eus iterErr =
     iterate_events (\<lambda>n. handleByEvent (now n)) 0 e eus iterErr"

section \<open>Command handlers\<close>

text \<open>
  \<open>convertContent\<close>: the content in the content type the resource reported last. The media type is
  only computed when the content carries no type of its own.
\<close>

definition convertContent :: "'v codec_pkg \<Rightarrow> Content option \<Rightarrow> string \<Rightarrow> Content option res" where
  "convertContent K content supported0 =
     (let contentType =
            (if 0 \<le> GetCoapContentFormat content \<and> GetContentType content = []
             then media_type K (GetCoapContentFormat content) else GetContentType content);
          supported = (if length supported0 = 0 then contentType else supported0);
          target =
            (if supported = media_type K (mt_AppCBOR K) then Some (cbor_Encode K, mt_AppCBOR K)
             else if supported = media_type K (mt_AppOcfCbor K) then Some (cbor_Encode K, mt_AppOcfCbor K)
             else if supported = media_type K (mt_AppJSON K) then Some (json_Encode K, mt_AppJSON K)
             else None);
          source =
            (if contentType = media_type K (mt_AppCBOR K) \<or> contentType = media_type K (mt_AppOcfCbor K)
             then Some (cbor_Decode K)
             else if contentType = media_type K (mt_AppJSON K) then Some (json_Decode K)
             else None)
      in if supported = contentType then Inr content
         else case target of
           None \<Rightarrow> Inl (GrpcStatus InvalidArgument ''cannot convert content-type from %v: unknown target'' [contentType])
         | Some (encode, fmt) \<Rightarrow>
             (case source of
                None \<Rightarrow> Inl (GrpcStatus InvalidArgument
                          ''cannot convert content-type from %v: unsupported source'' [contentType])
              | Some decode \<Rightarrow>
                  (case decode (GetData content) of
                     None \<Rightarrow> Inl (GrpcStatus InvalidArgument ''cannot decode content data from %v: %v'' [contentType])
                   | Some m \<Rightarrow>
                       (case encode m of
                          None \<Rightarrow> Inl (GrpcStatus InvalidArgument
                                    ''cannot encode content data to %v: %v'' [media_type K fmt])
                        | Some d \<Rightarrow> Inr (Some \<lparr>ct_Data = d, ct_ContentType = media_type K fmt,
                                              ct_CoapContentFormat = fmt\<rparr>)))))"

definition resolveResourceTypes ::
    "ResourceStateSnapshotTakenForCommand \<Rightarrow> string \<Rightarrow> string list \<Rightarrow> string list" where
  "resolveResourceTypes c href resourceTypes =
     (if length resourceTypes > 0 then resourceTypes
      else case rsc_resourceLinks c of
        None \<Rightarrow> rs_ResourceTypes (rsc_snap c)
      | Some links \<Rightarrow>
          (let resources = (case rls_Resources links of None \<Rightarrow> [] | Some m \<Rightarrow> m) in
           if length resources = 0 then rs_ResourceTypes (rsc_snap c)
           else case map_of resources href of
                  None \<Rightarrow> rs_ResourceTypes (rsc_snap c)
                | Some link \<Rightarrow> res_ResourceTypes link))"

text \<open>Metadata and audit context of an event produced by a command.\<close>

definition command_em ::
    "command_env \<Rightarrow> nat \<Rightarrow> ResourceStateSnapshotTakenForCommand \<Rightarrow> CommandMetadata option \<Rightarrow> u64 \<Rightarrow> EventMetadata"
where
  "command_em env n c cm newVersion =
     MakeEventMeta (env_Now_meta env n) (GetConnectionId cm) (GetSequence cm) newVersion (rsc_hubID c)"

definition command_ac :: "ResourceStateSnapshotTakenForCommand \<Rightarrow> string \<Rightarrow> AuditContext" where
  "command_ac c correlationId = NewAuditContext (rsc_userID c) correlationId (rsc_owner c)"

text \<open>The embedded snapshot is updated in place by the event handlers.\<close>

definition on_snap ::
    "ResourceStateSnapshotTakenForCommand \<Rightarrow> ResourceStateSnapshotTaken \<times> unit res \<Rightarrow> any_event
     \<Rightarrow> ResourceStateSnapshotTakenForCommand \<times> any_event list res" where
  "on_snap c r ev =
     (case r of (e', Inl err) \<Rightarrow> (c\<lparr>rsc_snap := e'\<rparr>, Inl err)
      | (e', Inr _) \<Rightarrow> (c\<lparr>rsc_snap := e'\<rparr>, Inr [ev]))"

type_synonym rs_result = "ResourceStateSnapshotTakenForCommand \<times> any_event list res"

definition confirmResourceUpdateRequest ::
    "command_env \<Rightarrow> nat \<Rightarrow> ResourceStateSnapshotTakenForCommand \<Rightarrow> ConfirmRequest \<Rightarrow> u64 \<Rightarrow> rs_result" where
  "confirmResourceUpdateRequest env n c req newVersion =
     (case cfm_CommandMetadata req of
        None \<Rightarrow> (c, Inl errInvalidCommandMetadata)
      | Some cm \<Rightarrow>
          (let rc = \<lparr>rud_ResourceId = cfm_ResourceId req, rud_Status = cfm_Status req,
                     rud_Content = cfm_Content req,
                     rud_AuditContext = Some (command_ac c (cfm_CorrelationId req)),
                     rud_EventMetadata = Some (command_em env n c (Some cm) newVersion),
                     rud_ResourceTypes = resolveResourceTypes c (GetHref (cfm_ResourceId req)) [],
                     rud_OpenTelemetryCarrier = env_Trace env\<rparr>
           in on_snap c (handleEventResourceUpdated (rsc_snap c) rc) (E_ResourceUpdated rc)))"

definition confirmResourceRetrieveRequest ::
    "command_env \<Rightarrow> nat \<Rightarrow> ResourceStateSnapshotTakenForCommand \<Rightarrow> ConfirmResourceRetrieveRequest \<Rightarrow> u64 \<Rightarrow> rs_result" where
  "confirmResourceRetrieveRequest env n c req newVersion =
     (case cfm_CommandMetadata req of
        None \<Rightarrow> (c, Inl errInvalidCommandMetadata)
      | Some cm \<Rightarrow>
          (let rc = \<lparr>rrd_ResourceId = cfm_ResourceId req, rrd_Status = cfm_Status req,
                     rrd_Content = cfm_Content req,
                     rrd_AuditContext = Some (command_ac c (cfm_CorrelationId req)),
                     rrd_EventMetadata = Some (command_em env n c (Some cm) newVersion),
                     rrd_Etag = cfm_Etag req, rrd_ResourceTypes = resolveResourceTypes c (GetHref (cfm_ResourceId req)) [],
                     rrd_OpenTelemetryCarrier = env_Trace env\<rparr>
           in on_snap c (handleEventResourceRetrieved (rsc_snap c) rc) (E_ResourceRetrieved rc)))"

definition confirmResourceDeleteRequest ::
    "command_env \<Rightarrow> nat \<Rightarrow> ResourceStateSnapshotTakenForCommand \<Rightarrow> ConfirmRequest \<Rightarrow> u64 \<Rightarrow> rs_result" where
  "confirmResourceDeleteRequest env n c req newVersion =
     (case cfm_CommandMetadata req of
        None \<Rightarrow> (c, Inl errInvalidCommandMetadata)
      | Some cm \<Rightarrow>
          (let rc = \<lparr>rdd_ResourceId = cfm_ResourceId req, rdd_Status = cfm_Status req,
                     rdd_Content = cfm_Content req,
                     rdd_AuditContext = Some (command_ac c (cfm_CorrelationId req)),
                     rdd_EventMetadata = Some (command_em env n c (Some cm) newVersion),
                     rdd_ResourceTypes = resolveResourceTypes c (GetHref (cfm_ResourceId req)) [],
                     rdd_OpenTelemetryCarrier = env_Trace env\<rparr>
           in on_snap c (handleEventResourceDeleted (rsc_snap c) rc) (E_ResourceDeleted rc)))"

definition confirmResourceCreateRequest ::
    "command_env \<Rightarrow> nat \<Rightarrow> ResourceStateSnapshotTakenForCommand \<Rightarrow> ConfirmRequest \<Rightarrow> u64 \<Rightarrow> rs_result" where
  "confirmResourceCreateRequest env n c req newVersion =
     (case cfm_CommandMetadata req of
        None \<Rightarrow> (c, Inl errInvalidCommandMetadata)
      | Some cm \<Rightarrow>
          (let rc = \<lparr>rcd_ResourceId = cfm_ResourceId req, rcd_Status = cfm_Status req,
                     rcd_Content = cfm_Content req,
                     rcd_AuditContext = Some (command_ac c (cfm_CorrelationId req)),
                     rcd_EventMetadata = Some (command_em env n c (Some cm) newVersion),
                     rcd_ResourceTypes = resolveResourceTypes c (GetHref (cfm_ResourceId req)) [],
                     rcd_OpenTelemetryCarrier = env_Trace env\<rparr>
           in on_snap c (handleEventResourceCreated (rsc_snap c) rc) (E_ResourceCreated rc)))"

section \<open>Cancellation\<close>

definition cancel_request :: "CancelPendingCommandsRequest \<Rightarrow> string \<Rightarrow> ConfirmRequest" where
  "cancel_request req correlationID =
     \<lparr>cfm_ResourceId = cpc_ResourceId req, cfm_CorrelationId = correlationID,
      cfm_Status = Status_CANCELED, cfm_Content = None,
      cfm_CommandMetadata = cpc_CommandMetadata req\<rparr>"

definition cancel_retrieve_request :: "CancelPendingCommandsRequest \<Rightarrow> string \<Rightarrow> ConfirmResourceRetrieveRequest" where
  "cancel_retrieve_request req correlationID =
     \<lparr>cfm_ResourceId = cpc_ResourceId req, cfm_CorrelationId = correlationID,
      cfm_Status = Status_CANCELED, cfm_Content = None,
      cfm_CommandMetadata = cpc_CommandMetadata req, cfm_Etag = []\<rparr>"

abbreviation rsc_create_pendings :: "ResourceStateSnapshotTakenForCommand \<Rightarrow> ResourceCreatePending list" where
  "rsc_create_pendings c \<equiv> rs_ResourceCreatePendings (rsc_snap c)"
abbreviation rsc_update_pendings :: "ResourceStateSnapshotTakenForCommand \<Rightarrow> ResourceUpdatePending list" where
  "rsc_update_pendings c \<equiv> rs_ResourceUpdatePendings (rsc_snap c)"
abbreviation rsc_retrieve_pendings :: "ResourceStateSnapshotTakenForCommand \<Rightarrow> ResourceRetrievePending list" where
  "rsc_retrieve_pendings c \<equiv> rs_ResourceRetrievePendings (rsc_snap c)"
abbreviation rsc_delete_pendings :: "ResourceStateSnapshotTakenForCommand \<Rightarrow> ResourceDeletePending list" where
  "rsc_delete_pendings c \<equiv> rs_ResourceDeletePendings (rsc_snap c)"

text \<open>\<open>off\<close> numbers the iterations of the preceding loops, so that every one has its own clock reading.\<close>

definition cancelResourceCreatePendings ::
    "kit_strings \<Rightarrow> command_env \<Rightarrow> nat \<Rightarrow> ResourceStateSnapshotTakenForCommand \<Rightarrow> CancelPendingCommandsRequest \<Rightarrow> u64
     \<Rightarrow> ResourceStateSnapshotTakenForCommand \<times> any_event list" where
  "cancelResourceCreatePendings S env off c req newVersion =
     cancel_range rsc_create_pendings rcp_cid (filtered_out S (cpc_CorrelationIdFilter req))
       (\<lambda>i c' cid v. confirmResourceCreateRequest env (off + i) c' (cancel_request req cid) v) newVersion c"

definition cancelResourceUpdatePendings ::
    "kit_strings \<Rightarrow> command_env \<Rightarrow> nat \<Rightarrow> ResourceStateSnapshotTakenForCommand \<Rightarrow> CancelPendingCommandsRequest \<Rightarrow> u64
     \<Rightarrow> ResourceStateSnapshotTakenForCommand \<times> any_event list" where
  "cancelResourceUpdatePendings S env off c req newVersion =
     cancel_range rsc_update_pendings rup_cid (filtered_out S (cpc_CorrelationIdFilter req))
       (\<lambda>i c' cid v. confirmResourceUpdateRequest env (off + i) c' (cancel_request req cid) v) newVersion c"

definition cancelResourceRetrievePendings ::
    "kit_strings \<Rightarrow> command_env \<Rightarrow> nat \<Rightarrow> ResourceStateSnapshotTakenForCommand \<Rightarrow> CancelPendingCommandsRequest \<Rightarrow> u64
     \<Rightarrow> ResourceStateSnapshotTakenForCommand \<times> any_event list" where
  "cancelResourceRetrievePendings S env off c req newVersion =
     cancel_range rsc_retrieve_pendings rrp_cid (filtered_out S (cpc_CorrelationIdFilter req))
       (\<lambda>i c' cid v. confirmResourceRetrieveRequest env (off + i) c' (cancel_retrieve_request req cid) v) newVersion c"

definition cancelResourceDeletePendings ::
    "kit_strings \<Rightarrow> command_env \<Rightarrow> nat \<Rightarrow> ResourceStateSnapshotTakenForCommand \<Rightarrow> CancelPendingCommandsRequest \<Rightarrow> u64
     \<Rightarrow> ResourceStateSnapshotTakenForCommand \<times> any_event list" where
  "cancelResourceDeletePendings S env off c req newVersion =
     cancel_range rsc_delete_pendings rdp_cid (filtered_out S (cpc_CorrelationIdFilter req))
       (\<lambda>i c' cid v. confirmResourceDeleteRequest env (off + i) c' (cancel_request req cid) v) newVersion c"

definition CancelPendingCommands ::
    "kit_strings \<Rightarrow> command_env \<Rightarrow> ResourceStateSnapshotTakenForCommand \<Rightarrow> CancelPendingCommandsRequest \<Rightarrow> u64 \<Rightarrow> rs_result"
where
  "CancelPendingCommands S env c req newVersion =
     (case cpc_CommandMetadata req of
        None \<Rightarrow> (c, Inl errInvalidCommandMetadata)
      | Some _ \<Rightarrow>
          (let n0 = length (rsc_create_pendings c);
               (c1, ev1) = cancelResourceCreatePendings S env 0 c req newVersion;
               n1 = n0 + length (rsc_update_pendings c1);
               (c2, ev2) = cancelResourceUpdatePendings S env n0 c1 req (newVersion + of_nat (length ev1));
               n2 = n1 + length (rsc_retrieve_pendings c2);
               (c3, ev3) = cancelResourceRetrievePendings S env n1 c2 req
                             (newVersion + of_nat (length (ev1 @ ev2)));
               (c4, ev4) = cancelResourceDeletePendings S env n2 c3 req
                             (newVersion + of_nat (length (ev1 @ ev2 @ ev3)));
               events = ev1 @ ev2 @ ev3 @ ev4
           in if length events = 0
              then (c4, Inl (GrpcStatus NotFound ''cannot find commands with correlationID(%v)''
                             (cpc_CorrelationIdFilter req)))
              else (c4, Inr events)))"

section \<open>Requests\<close>

definition handleNotifyResourceChangedRequest ::
    "command_env \<Rightarrow> ResourceStateSnapshotTakenForCommand \<Rightarrow> NotifyResourceChangedRequest \<Rightarrow> u64 \<Rightarrow> rs_result" where
  "handleNotifyResourceChangedRequest env c req newVersion =
     (case nrq_CommandMetadata req of
        None \<Rightarrow> (c, Inl errInvalidCommandMetadata)
      | Some cm \<Rightarrow>
          (let rc = \<lparr>rch_ResourceId = nrq_ResourceId req, rch_Content = nrq_Content req,
                     rch_Status = nrq_Status req, rch_AuditContext = Some (command_ac c []),
                     rch_EventMetadata = Some (command_em env 0 c (Some cm) newVersion),
                     rch_Etag = nrq_Etag req,
                     rch_ResourceTypes =
                       resolveResourceTypes c (GetHref (nrq_ResourceId req)) (nrq_ResourceTypes req),
                     rch_OpenTelemetryCarrier = env_Trace env\<rparr>
           in case handleEventResourceChanged (rsc_snap c) rc of
                (e', True) \<Rightarrow> (c\<lparr>rsc_snap := e'\<rparr>, Inr [E_ResourceChanged rc])
              | (e', False) \<Rightarrow> (c\<lparr>rsc_snap := e'\<rparr>, Inr [])))"

definition latest_content_type :: "ResourceStateSnapshotTakenForCommand \<Rightarrow> string" where
  "latest_content_type c =
     GetContentType (nil_or None rch_Content (rs_LatestResourceChange (rsc_snap c)))"

definition handleUpdateResourceRequest ::
    "'v codec_pkg \<Rightarrow> command_env \<Rightarrow> ResourceStateSnapshotTakenForCommand \<Rightarrow> UpdateResourceRequest \<Rightarrow> u64 \<Rightarrow> rs_result"
where
  "handleUpdateResourceRequest K env c req newVersion =
     (case urq_CommandMetadata req of
        None \<Rightarrow> (c, Inl errInvalidCommandMetadata)
      | Some cm \<Rightarrow>
          (case convertContent K (urq_Content req) (latest_content_type c) of
             Inl err \<Rightarrow> (c, Inl err)
           | Inr content \<Rightarrow>
               (let rc = \<lparr>rup_ResourceId = urq_ResourceId req, rup_ResourceInterface = urq_ResourceInterface req,
                          rup_Content = content,
                          rup_AuditContext = Some (command_ac c (urq_CorrelationId req)),
                          rup_EventMetadata = Some (command_em env 0 c (Some cm) newVersion),
                          rup_ValidUntil = timeToLive2ValidUntil (env_Now_ttl env) (urq_TimeToLive req),
                          rup_ResourceTypes = resolveResourceTypes c (GetHref (urq_ResourceId req)) [],
                          rup_OpenTelemetryCarrier = env_Trace env\<rparr>
                in on_snap c (handleEventResourceUpdatePending (env_Now_handle env) (rsc_snap c) rc)
                     (E_ResourceUpdatePending rc))))"

definition handleRetrieveResourceRequest ::
    "command_env \<Rightarrow> ResourceStateSnapshotTakenForCommand \<Rightarrow> RetrieveResourceRequest \<Rightarrow> u64 \<Rightarrow> rs_result" where
  "handleRetrieveResourceRequest env c req newVersion =
     (case rrq_CommandMetadata req of
        None \<Rightarrow> (c, Inl errInvalidCommandMetadata)
      | Some cm \<Rightarrow>
          (let rc = \<lparr>rrp_ResourceId = rrq_ResourceId req, rrp_ResourceInterface = rrq_ResourceInterface req,
                     rrp_AuditContext = Some (command_ac c (rrq_CorrelationId req)),
                     rrp_EventMetadata = Some (command_em env 0 c (Some cm) newVersion),
                     rrp_ValidUntil = timeToLive2ValidUntil (env_Now_ttl env) (rrq_TimeToLive req),
                     rrp_Etag = rrq_Etag req,
                     rrp_ResourceTypes = resolveResourceTypes c (GetHref (rrq_ResourceId req)) [],
                     rrp_OpenTelemetryCarrier = env_Trace env\<rparr>
           in on_snap c (handleEventResourceRetrievePending (env_Now_handle env) (rsc_snap c) rc)
                (E_ResourceRetrievePending rc)))"

definition handleDeleteResourceRequest ::
    "command_env \<Rightarrow> ResourceStateSnapshotTakenForCommand \<Rightarrow> DeleteResourceRequest \<Rightarrow> u64 \<Rightarrow> rs_result" where
  "handleDeleteResourceRequest env c req newVersion =
     (case drq_CommandMetadata req of
        None \<Rightarrow> (c, Inl errInvalidCommandMetadata)
      | Some cm \<Rightarrow>
          (let rc = \<lparr>rdp_ResourceId = drq_ResourceId req,
                     rdp_AuditContext = Some (command_ac c (drq_CorrelationId req)),
                     rdp_EventMetadata = Some (command_em env 0 c (Some cm) newVersion),
                     rdp_ValidUntil = timeToLive2ValidUntil (env_Now_ttl env) (drq_TimeToLive req),
                     rdp_ResourceInterface = drq_ResourceInterface req,
                     rdp_ResourceTypes = resolveResourceTypes c (GetHref (drq_ResourceId req)) [],
                     rdp_OpenTelemetryCarrier = env_Trace env\<rparr>
           in on_snap c (handleEventResourceDeletePending (env_Now_handle env) (rsc_snap c) rc)
                (E_ResourceDeletePending rc)))"

definition handleCreateResourceRequest ::
    "'v codec_pkg \<Rightarrow> command_env \<Rightarrow> ResourceStateSnapshotTakenForCommand \<Rightarrow> CreateResourceRequest \<Rightarrow> u64 \<Rightarrow> rs_result"
where
  "handleCreateResourceRequest K env c req newVersion =
     (case crq_CommandMetadata req of
        None \<Rightarrow> (c, Inl errInvalidCommandMetadata)
      | Some cm \<Rightarrow>
          (case convertContent K (crq_Content req) (latest_content_type c) of
             Inl err \<Rightarrow> (c, Inl err)
           | Inr content \<Rightarrow>
               (let rc = \<lparr>rcp_ResourceId = crq_ResourceId req, rcp_Content = content,
                          rcp_AuditContext = Some (command_ac c (crq_CorrelationId req)),
                          rcp_EventMetadata = Some (command_em env 0 c (Some cm) newVersion),
                          rcp_ValidUntil = timeToLive2ValidUntil (env_Now_ttl env) (crq_TimeToLive req),
                          rcp_ResourceTypes = resolveResourceTypes c (GetHref (crq_ResourceId req)) [],
                          rcp_OpenTelemetryCarrier = env_Trace env\<rparr>
                in on_snap c (handleEventResourceCreatePending (env_Now_handle env) (rsc_snap c) rc)
                     (E_ResourceCreatePending rc))))"

section \<open>\<open>HandleCommand\<close>\<close>

datatype rs_command =
    NotifyResourceChanged NotifyResourceChangedRequest
  | UpdateResource UpdateResourceRequest
  | ConfirmResourceUpdate ConfirmRequest
  | RetrieveResource RetrieveResourceRequest
  | ConfirmResourceRetrieve ConfirmResourceRetrieveRequest
  | DeleteResource DeleteResourceRequest
  | ConfirmResourceDelete ConfirmRequest
  | CreateResource CreateResourceRequest
  | ConfirmResourceCreate ConfirmRequest
  | CancelPending CancelPendingCommandsRequest
  | UnknownCommand string

definition validateCancelPendingCommandsForNotExistingResource ::
    "kit_strings \<Rightarrow> ResourceStateSnapshotTaken \<Rightarrow> CancelPendingCommandsRequest \<Rightarrow> bool" where
  "validateCancelPendingCommandsForNotExistingResource S e req =
     (if rs_ResourceUpdatePendings e = [] \<and> rs_ResourceCreatePendings e = [] \<and> rs_ResourceDeletePendings e = []
      then False
      else if length (cpc_CorrelationIdFilter req) = 0 then True
      else let correlationIdFilter = kit_MakeSet S (cpc_CorrelationIdFilter req) in
        if list_ex (\<lambda>p. kit_HasOneOf S correlationIdFilter (rup_cid p)) (rs_ResourceUpdatePendings e) then True
        else if list_ex (\<lambda>p. kit_HasOneOf S correlationIdFilter (rcp_cid p)) (rs_ResourceCreatePendings e) then True
        else if list_ex (\<lambda>p. kit_HasOneOf S correlationIdFilter (rdp_cid p)) (rs_ResourceDeletePendings e) then True
        else False)"

definition validateCommandForNotExistingResource ::
    "kit_strings \<Rightarrow> ResourceStateSnapshotTaken \<Rightarrow> rs_command \<Rightarrow> bool" where
  "validateCommandForNotExistingResource S e cmd =
     (if rs_LatestResourceChange e \<noteq> None then True
      else case cmd of
        NotifyResourceChanged _ \<Rightarrow> True
      | UpdateResource req \<Rightarrow> urq_Force req
      | ConfirmResourceUpdate req \<Rightarrow>
          findResourceOperationPendingIndex rup_cid (cfm_CorrelationId req) (rs_ResourceUpdatePendings e) \<noteq> None
      | CreateResource req \<Rightarrow> crq_Force req
      | ConfirmResourceCreate req \<Rightarrow>
          findResourceOperationPendingIndex rcp_cid (cfm_CorrelationId req) (rs_ResourceCreatePendings e) \<noteq> None
      | DeleteResource req \<Rightarrow> drq_Force req
      | ConfirmResourceDelete req \<Rightarrow>
          (case findResourceDeletePendingIndex e (cfm_Status req) (cfm_CorrelationId req) of
             (deleteResource, deletePending) \<Rightarrow> deleteResource \<or> deletePending \<noteq> None)
      | CancelPending req \<Rightarrow> validateCancelPendingCommandsForNotExistingResource S e req
      | _ \<Rightarrow> False)"

definition errResourceChangedNotExists :: error where
  "errResourceChangedNotExists = GrpcStatus NotFound ''resource changed not exists'' []"

definition ResourceState_HandleCommand ::
    "'v codec_pkg \<Rightarrow> kit_strings \<Rightarrow> command_env \<Rightarrow> ResourceStateSnapshotTakenForCommand \<Rightarrow> rs_command \<Rightarrow> u64 \<Rightarrow> rs_result"
where
  "ResourceState_HandleCommand K S env c cmd newVersion =
     (if \<not> validateCommandForNotExistingResource S (rsc_snap c) cmd
      then (c, Inl errResourceChangedNotExists)
      else case cmd of
        NotifyResourceChanged req \<Rightarrow> handleNotifyResourceChangedRequest env c req newVersion
      | UpdateResource req \<Rightarrow> handleUpdateResourceRequest K env c req newVersion
      | ConfirmResourceUpdate req \<Rightarrow> confirmResourceUpdateRequest env 0 c req newVersion
      | RetrieveResource req \<Rightarrow> handleRetrieveResourceRequest env c req newVersion
      | ConfirmResourceRetrieve req \<Rightarrow> confirmResourceRetrieveRequest env 0 c req newVersion
      | DeleteResource req \<Rightarrow> handleDeleteResourceRequest env c req newVersion
      | ConfirmResourceDelete req \<Rightarrow> confirmResourceDeleteRequest env 0 c req newVersion
      | CreateResource req \<Rightarrow> handleCreateResourceRequest K env c req newVersion
      | ConfirmResourceCreate req \<Rightarrow> confirmResourceCreateRequest env 0 c req newVersion
      | CancelPending req \<Rightarrow> CancelPendingCommands S env c req newVersion
      | UnknownCommand t \<Rightarrow> (c, Inl (Errorf ''unknown command(%T)'' [t])))"

definition ResourceState_TakeSnapshot :: "gotime \<Rightarrow> ResourceStateSnapshotTaken \<Rightarrow> u64 \<Rightarrow> ResourceStateSnapshotTaken" where
  "ResourceState_TakeSnapshot now e version =
     \<lparr>rs_ResourceId = rs_ResourceId e, rs_LatestResourceChange = rs_LatestResourceChange e,
      rs_ResourceCreatePendings = rs_ResourceCreatePendings e,
      rs_ResourceRetrievePendings = rs_ResourceRetrievePendings e,
      rs_ResourceUpdatePendings = rs_ResourceUpdatePendings e,
      rs_ResourceDeletePendings = rs_ResourceDeletePendings e,
      rs_AuditContext = rs_AuditContext e,
      rs_EventMetadata = Some (MakeEventMeta now (GetEmConnectionId (rs_EventMetadata e))
        (GetEmSequence (rs_EventMetadata e)) version (GetHubId (rs_EventMetadata e))),
      rs_ResourceTypes = rs_ResourceTypes e\<rparr>"

end
