(* ===== verification/Resource_State_Proofs.thy ===== *)
theory Resource_State_Proofs
  imports Resource_State
begin

text \<open>
  Properties of the resource state: the contract that the four kinds of pending commands share (locale
  \<open>pending_queue\<close>, interpreted for create, update, retrieve and delete), the uniqueness of live
  correlation identifiers, the agreement of a command with the replay of its events, the numbering of
  the events, and what cancellation does.
\<close>

section \<open>Automation\<close>

lemma setResourceTypes_simps [simp]:
  "rs_ResourceId (setResourceTypes e ts) = rs_ResourceId e"
  "rs_LatestResourceChange (setResourceTypes e ts) = rs_LatestResourceChange e"
  "rs_ResourceCreatePendings (setResourceTypes e ts) = rs_ResourceCreatePendings e"
  "rs_ResourceUpdatePendings (setResourceTypes e ts) = rs_ResourceUpdatePendings e"
  "rs_ResourceRetrievePendings (setResourceTypes e ts) = rs_ResourceRetrievePendings e"
  "rs_ResourceDeletePendings (setResourceTypes e ts) = rs_ResourceDeletePendings e"
  "rs_AuditContext (setResourceTypes e ts) = rs_AuditContext e"
  "rs_EventMetadata (setResourceTypes e ts) = rs_EventMetadata e"
  by (simp_all add: setResourceTypes_def)

lemmas accept_defs = handleEventResourceCreatePending_def handleEventResourceUpdatePending_def
  handleEventResourceRetrievePending_def handleEventResourceDeletePending_def
lemmas finish_defs = handleEventResourceCreated_def handleEventResourceUpdated_def
  handleEventResourceRetrieved_def handleEventResourceDeleted_def findResourceDeletePendingIndex_def
  findResourceOperationPendingIndex_def
lemmas confirm_defs = confirmResourceCreateRequest_def confirmResourceUpdateRequest_def
  confirmResourceRetrieveRequest_def confirmResourceDeleteRequest_def
lemmas request_defs = handleNotifyResourceChangedRequest_def handleUpdateResourceRequest_def
  handleRetrieveResourceRequest_def handleDeleteResourceRequest_def handleCreateResourceRequest_def

lemma processValidUntil_split:
  "P (case processValidUntil e x rid em ac of (e', False) \<Rightarrow> f e' | (e', True) \<Rightarrow> g e') \<longleftrightarrow>
     (if x then P (f (e\<lparr>rs_ResourceId := rid, rs_EventMetadata := em, rs_AuditContext := ac\<rparr>)) else P (g e))"
  by (simp add: processValidUntil_def)

section \<open>Live correlation identifiers\<close>

definition live_cids :: "gotime \<Rightarrow> ResourceStateSnapshotTaken \<Rightarrow> string list" where
  "live_cids now e =
     live (ResourceCreatePending_IsExpired now) rcp_cid (rs_ResourceCreatePendings e) @
     live (ResourceUpdatePending_IsExpired now) rup_cid (rs_ResourceUpdatePendings e) @
     live (ResourceRetrievePending_IsExpired now) rrp_cid (rs_ResourceRetrievePendings e) @
     live (ResourceDeletePending_IsExpired now) rdp_cid (rs_ResourceDeletePendings e)"

lemma dup_list_iff:
  "checkForDuplicityCorrelationID_list x f ps c \<longleftrightarrow> c \<notin> set (live x f ps)"
  by (induction ps) (auto simp: live_def)

lemma checkForDuplicity_None:
  "checkForDuplicityCorrelationID e c now = None \<longleftrightarrow> c \<notin> set (live_cids now e)"
  by (simp add: checkForDuplicityCorrelationID_def dup_list_iff live_cids_def)

definition unique_live :: "gotime \<Rightarrow> ResourceStateSnapshotTaken \<Rightarrow> bool" where
  "unique_live now e \<longleftrightarrow> distinct (live_cids now e)"

text \<open>Removing a pending command of any kind, or forgetting them all, keeps the identifiers unique.\<close>

lemma unique_live_submset:
  assumes "unique_live now e" and "mset (live_cids now e) = mset (live_cids now e') + us"
  shows "unique_live now e'"
  using assms distinct_submset unfolding unique_live_def by blast

lemma unique_live_cong:
  assumes "rs_ResourceCreatePendings e' = rs_ResourceCreatePendings e"
    "rs_ResourceUpdatePendings e' = rs_ResourceUpdatePendings e"
    "rs_ResourceRetrievePendings e' = rs_ResourceRetrievePendings e"
    "rs_ResourceDeletePendings e' = rs_ResourceDeletePendings e"
  shows "unique_live now e' = unique_live now e" and "live_cids now e' = live_cids now e"
  by (simp_all add: unique_live_def live_cids_def assms)

section \<open>The four queues of pending commands\<close>

lemma check_dup_Some_live:
  assumes "checkForDuplicityCorrelationID e c now = None"
  shows "\<forall>q \<in> set (rs_ResourceCreatePendings e). \<not> ResourceCreatePending_IsExpired now q \<longrightarrow> rcp_cid q \<noteq> c"
    and "\<forall>q \<in> set (rs_ResourceUpdatePendings e). \<not> ResourceUpdatePending_IsExpired now q \<longrightarrow> rup_cid q \<noteq> c"
    and "\<forall>q \<in> set (rs_ResourceRetrievePendings e). \<not> ResourceRetrievePending_IsExpired now q \<longrightarrow> rrp_cid q \<noteq> c"
    and "\<forall>q \<in> set (rs_ResourceDeletePendings e). \<not> ResourceDeletePending_IsExpired now q \<longrightarrow> rdp_cid q \<noteq> c"
  using assms by (auto simp: checkForDuplicity_None live_cids_def live_def)

lemmas pending_expired_defs = ResourceCreatePending_IsExpired_def ResourceUpdatePending_IsExpired_def
  ResourceRetrievePending_IsExpired_def ResourceDeletePending_IsExpired_def

interpretation create_queue: pending_queue rcp_cid ResourceCreatePending_IsExpired
  rs_ResourceCreatePendings handleEventResourceCreatePending handleEventResourceCreated
  "\<lambda>d. GetCorrelationId (rcd_AuditContext d)" "\<lambda>_. True"
  by unfold_locales
    (auto simp: accept_defs finish_defs processValidUntil_def pending_expired_defs Let_def
      split: option.splits if_splits dest: check_dup_Some_live(1) find_index_None [THEN iffD1, rule_format] IsExpired_mono)

interpretation update_queue: pending_queue rup_cid ResourceUpdatePending_IsExpired
  rs_ResourceUpdatePendings handleEventResourceUpdatePending handleEventResourceUpdated
  "\<lambda>d. GetCorrelationId (rud_AuditContext d)" "\<lambda>_. True"
  by unfold_locales
    (auto simp: accept_defs finish_defs processValidUntil_def pending_expired_defs Let_def
      split: option.splits if_splits dest: check_dup_Some_live(2) find_index_None [THEN iffD1, rule_format] IsExpired_mono)

interpretation retrieve_queue: pending_queue rrp_cid ResourceRetrievePending_IsExpired
  rs_ResourceRetrievePendings handleEventResourceRetrievePending handleEventResourceRetrieved
  "\<lambda>d. GetCorrelationId (rrd_AuditContext d)" "\<lambda>_. True"
  by unfold_locales
    (auto simp: accept_defs finish_defs processValidUntil_def pending_expired_defs Let_def
      split: option.splits if_splits dest: check_dup_Some_live(3) find_index_None [THEN iffD1, rule_format] IsExpired_mono)

interpretation delete_queue: pending_queue rdp_cid ResourceDeletePending_IsExpired
  rs_ResourceDeletePendings handleEventResourceDeletePending handleEventResourceDeleted
  "\<lambda>d. GetCorrelationId (rdd_AuditContext d)"
  "\<lambda>d. rdd_Status d \<noteq> Status_OK \<and> rdd_Status d \<noteq> Status_ACCEPTED"
  by unfold_locales
    (auto simp: accept_defs finish_defs processValidUntil_def pending_expired_defs Let_def
      split: option.splits if_splits dest: check_dup_Some_live(4) find_index_None [THEN iffD1, rule_format] IsExpired_mono)

section \<open>Event handlers keep live identifiers unique\<close>

lemma accept_unique:
  assumes "unique_live now e"
  shows "unique_live now (fst (handleEventResourceCreatePending now e p1))"
    and "unique_live now (fst (handleEventResourceUpdatePending now e p2))"
    and "unique_live now (fst (handleEventResourceRetrievePending now e p3))"
    and "unique_live now (fst (handleEventResourceDeletePending now e p4))"
  using assms checkForDuplicity_None [of e _ now]
  by (auto simp: accept_defs processValidUntil_def unique_live_def live_cids_def split: option.splits)

lemma finish_unique:
  assumes "unique_live now e"
  shows "unique_live now (fst (handleEventResourceCreated e d1))"
    and "unique_live now (fst (handleEventResourceUpdated e d2))"
    and "unique_live now (fst (handleEventResourceRetrieved e d3))"
    and "unique_live now (fst (handleEventResourceDeleted e d4))"
proof -
  note rem = live_remove_at [of _ _ "rs_ResourceCreatePendings e"] live_remove_at [of _ _ "rs_ResourceUpdatePendings e"]
    live_remove_at [of _ _ "rs_ResourceRetrievePendings e"] live_remove_at [of _ _ "rs_ResourceDeletePendings e"]
  have sub: "\<exists>us. mset (live_cids now e) = mset (live_cids now (fst (handleEventResourceCreated e d1))) + us"
    "\<exists>us. mset (live_cids now e) = mset (live_cids now (fst (handleEventResourceUpdated e d2))) + us"
    "\<exists>us. mset (live_cids now e) = mset (live_cids now (fst (handleEventResourceRetrieved e d3))) + us"
    "\<exists>us. mset (live_cids now e) = mset (live_cids now (fst (handleEventResourceDeleted e d4))) + us"
    subgoal using rem(1) by (auto simp: finish_defs Let_def live_cids_def split: option.splits; metis add.assoc add.commute)
    subgoal using rem(2) by (auto simp: finish_defs Let_def live_cids_def split: option.splits; metis add.assoc add.commute)
    subgoal using rem(3) by (auto simp: finish_defs Let_def live_cids_def split: option.splits; metis add.assoc add.commute)
    subgoal using rem(4) by (auto simp: finish_defs Let_def live_cids_def split: option.splits; metis add.assoc add.commute)
    done
  show "unique_live now (fst (handleEventResourceCreated e d1))"
    using unique_live_submset [OF assms] sub(1) by blast
  show "unique_live now (fst (handleEventResourceUpdated e d2))"
    using unique_live_submset [OF assms] sub(2) by blast
  show "unique_live now (fst (handleEventResourceRetrieved e d3))"
    using unique_live_submset [OF assms] sub(3) by blast
  show "unique_live now (fst (handleEventResourceDeleted e d4))"
    using unique_live_submset [OF assms] sub(4) by blast
qed

lemma changed_unique:
  assumes "unique_live now e"
  shows "unique_live now (fst (handleEventResourceChanged e ch))"
  using assms by (auto simp: handleEventResourceChanged_def unique_live_def live_cids_def)

lemma unique_live_later:
  assumes "unique_live now e" and "now \<le> now'"
  shows "unique_live now' e"
proof -
  have m: "\<And>p. ResourceCreatePending_IsExpired now p \<Longrightarrow> ResourceCreatePending_IsExpired now' p"
    "\<And>p. ResourceUpdatePending_IsExpired now p \<Longrightarrow> ResourceUpdatePending_IsExpired now' p"
    "\<And>p. ResourceRetrievePending_IsExpired now p \<Longrightarrow> ResourceRetrievePending_IsExpired now' p"
    "\<And>p. ResourceDeletePending_IsExpired now p \<Longrightarrow> ResourceDeletePending_IsExpired now' p"
    using assms(2) IsExpired_mono by (auto simp: pending_expired_defs)
  have sub: "mset (live x' f ps) \<subseteq># mset (live x f ps)" if "\<And>p. x p \<Longrightarrow> x' p"
    for x x' :: "'b \<Rightarrow> bool" and f and ps :: "'b list"
  proof (induction ps)
    case (Cons p ps)
    with that show ?case
      by (cases "x p"; cases "x' p") (auto simp: live_def subset_mset.add_increasing2 intro: subset_mset.order_trans)
  qed simp
  have "mset (live_cids now' e) \<subseteq># mset (live_cids now e)"
    using m by (auto simp: live_cids_def intro!: subset_mset.add_mono sub)
  then obtain us where "mset (live_cids now e) = mset (live_cids now' e) + us"
    by (metis subset_mset.add_diff_inverse)
  with assms(1) distinct_submset show ?thesis unfolding unique_live_def by blast
qed

section \<open>Commands against the replay of their events\<close>

text \<open>Events of this model, and the snapshot after replaying stored events at one time.\<close>

fun rs_event :: "any_event \<Rightarrow> bool" where
  "rs_event (E_ResourceChanged _) = True"
| "rs_event (E_ResourceUpdatePending _) = True"
| "rs_event (E_ResourceUpdated _) = True"
| "rs_event (E_ResourceRetrievePending _) = True"
| "rs_event (E_ResourceRetrieved _) = True"
| "rs_event (E_ResourceDeletePending _) = True"
| "rs_event (E_ResourceDeleted _) = True"
| "rs_event (E_ResourceCreatePending _) = True"
| "rs_event (E_ResourceCreated _) = True"
| "rs_event (E_ResourceStateSnapshotTaken _) = True"
| "rs_event _ = False"

definition rs_replay :: "uuid_pkg \<Rightarrow> gotime \<Rightarrow> ResourceStateSnapshotTaken \<Rightarrow> any_event list \<Rightarrow> ResourceStateSnapshotTaken" where
  "rs_replay U now e evs = foldl (\<lambda>e ev. fst (handleByEvent now e (stored U ev))) e evs"

lemma handleByEvent_stored [simp]:
  "handleByEvent now e (stored U (E_ResourceChanged s1)) = (fst (handleEventResourceChanged e s1), Inr ())"
  "handleByEvent now e (stored U (E_ResourceUpdatePending s2)) = (fst (handleEventResourceUpdatePending now e s2), Inr ())"
  "handleByEvent now e (stored U (E_ResourceUpdated s3)) = (fst (handleEventResourceUpdated e s3), Inr ())"
  "handleByEvent now e (stored U (E_ResourceRetrievePending s4)) = (fst (handleEventResourceRetrievePending now e s4), Inr ())"
  "handleByEvent now e (stored U (E_ResourceRetrieved s5)) = (fst (handleEventResourceRetrieved e s5), Inr ())"
  "handleByEvent now e (stored U (E_ResourceDeletePending s6)) = (fst (handleEventResourceDeletePending now e s6), Inr ())"
  "handleByEvent now e (stored U (E_ResourceDeleted s7)) = (fst (handleEventResourceDeleted e s7), Inr ())"
  "handleByEvent now e (stored U (E_ResourceCreatePending s8)) = (fst (handleEventResourceCreatePending now e s8), Inr ())"
  "handleByEvent now e (stored U (E_ResourceCreated s9)) = (fst (handleEventResourceCreated e s9), Inr ())"
  "handleByEvent now e (stored U (E_ResourceStateSnapshotTaken s10)) = (handleEventResourceStateSnapshotTaken e s10, Inr ())"
  by (simp_all add: handleByEvent_def stored_def event_table_defs Unmarshal_as_def sel_defs Let_def)

lemma stored_has_type: "eu_EventType (stored U ev) \<noteq> []"
  by (cases ev) (simp_all add: stored_def event_table_defs)

lemma rs_replay_simps [simp]:
  "rs_replay U now e [] = e"
  "rs_replay U now e (evs @ evs') = rs_replay U now (rs_replay U now e evs) evs'"
  by (simp_all add: rs_replay_def)

lemma Handle_stored:
  assumes "list_all rs_event evs"
  shows "ResourceState_Handle (\<lambda>_. now) e (map (stored U) evs) None = (rs_replay U now e evs, Inr ())"
proof -
  have "iterate_events (\<lambda>n. handleByEvent now) n e (map (stored U) evs) None = (rs_replay U now e evs, Inr ())" for n
    using assms
  proof (induction evs arbitrary: n e)
    case (Cons ev evs)
    obtain e' where "handleByEvent now e (stored U ev) = (e', Inr ())"
      using Cons.prems by (cases ev) simp_all
    with Cons show ?case by (simp add: stored_has_type rs_replay_def)
  qed simp
  then show ?thesis by (simp add: ResourceState_Handle_def)
qed

text \<open>
  A command step agrees with its events: on success the events are numbered from the new version, and
  replaying them gives the snapshot the command left; on failure the snapshot is unchanged. The caller's
  identity and links never change.
\<close>

definition same_caller :: "ResourceStateSnapshotTakenForCommand \<Rightarrow> ResourceStateSnapshotTakenForCommand \<Rightarrow> bool" where
  "same_caller c c' \<longleftrightarrow> rsc_owner c' = rsc_owner c \<and> rsc_hubID c' = rsc_hubID c \<and>
     rsc_userID c' = rsc_userID c \<and> rsc_resourceLinks c' = rsc_resourceLinks c"

definition event_ok :: "uuid_pkg \<Rightarrow> ResourceId option \<Rightarrow> any_event \<Rightarrow> bool" where
  "event_ok U rid ev \<longleftrightarrow> rs_event ev \<and> ev_AggregateID (as_Event U ev) = ResourceId_ToUUID U rid \<and>
     ev_GroupID (as_Event U ev) = GetDeviceId rid \<and> \<not> ev_IsSnapshot (as_Event U ev)"

definition agrees ::
    "uuid_pkg \<Rightarrow> gotime \<Rightarrow> ResourceId option \<Rightarrow> u64 \<Rightarrow> ResourceStateSnapshotTakenForCommand \<Rightarrow> rs_result \<Rightarrow> bool" where
  "agrees U now rid v c r \<longleftrightarrow>
     same_caller c (fst r) \<and>
     (case snd r of
        Inl _ \<Rightarrow> rsc_snap (fst r) = rsc_snap c
      | Inr evs \<Rightarrow> list_all (event_ok U rid) evs \<and> numbered U v evs \<and>
                  rsc_snap (fst r) = rs_replay U now (rsc_snap c) evs)"

lemma agreesI_error: "agrees U now rid v c (c, Inl err)"
  by (simp add: agrees_def same_caller_def)

lemma agrees_on_snap:
  assumes "event_ok U rid ev" and "ev_Version (as_Event U ev) = v"
    and "\<And>err. snd h = Inl err \<Longrightarrow> fst h = rsc_snap c"
    and "fst (handleByEvent now (rsc_snap c) (stored U ev)) = fst h"
  shows "agrees U now rid v c (on_snap c h ev)"
  using assms
  by (auto simp: agrees_def on_snap_def same_caller_def rs_replay_def split: prod.splits sum.splits)

lemmas agrees_simps = command_em_def command_ac_def MakeEventMeta_def NewAuditContext_def
  event_table_defs event_ok_def

lemma finish_error_state:
  "snd (handleEventResourceCreated e d1) = Inl err \<Longrightarrow> fst (handleEventResourceCreated e d1) = e"
  "snd (handleEventResourceUpdated e d2) = Inl err \<Longrightarrow> fst (handleEventResourceUpdated e d2) = e"
  "snd (handleEventResourceRetrieved e d3) = Inl err \<Longrightarrow> fst (handleEventResourceRetrieved e d3) = e"
  "snd (handleEventResourceDeleted e d4) = Inl err \<Longrightarrow> fst (handleEventResourceDeleted e d4) = e"
  by (auto simp: finish_defs Let_def split: option.splits if_splits)

lemma confirm_agrees:
  "agrees U now (cfm_ResourceId q1) v c (confirmResourceCreateRequest env n c q1 v)"
  "agrees U now (cfm_ResourceId q2) v c (confirmResourceUpdateRequest env n c q2 v)"
  "agrees U now (cfm_ResourceId q3) v c (confirmResourceRetrieveRequest env n c q3 v)"
  "agrees U now (cfm_ResourceId q4) v c (confirmResourceDeleteRequest env n c q4 v)"
  by (auto simp: confirm_defs Let_def agrees_simps intro!: agreesI_error agrees_on_snap
      intro: finish_error_state split: option.splits)

lemma request_agrees:
  "agrees U (env_Now_handle env) (urq_ResourceId q1) v c (handleUpdateResourceRequest K env c q1 v)"
  "agrees U (env_Now_handle env) (rrq_ResourceId q2) v c (handleRetrieveResourceRequest env c q2 v)"
  "agrees U (env_Now_handle env) (drq_ResourceId q3) v c (handleDeleteResourceRequest env c q3 v)"
  "agrees U (env_Now_handle env) (crq_ResourceId q4) v c (handleCreateResourceRequest K env c q4 v)"
  by (auto simp: request_defs Let_def agrees_simps intro!: agreesI_error agrees_on_snap
      dest: create_queue.accept_error update_queue.accept_error retrieve_queue.accept_error
        delete_queue.accept_error
      split: option.splits sum.splits)

lemma notify_agrees:
  "agrees U now (nrq_ResourceId q) v c (handleNotifyResourceChangedRequest env c q v)"
  by (auto simp: handleNotifyResourceChangedRequest_def Let_def agrees_def same_caller_def agrees_simps
      rs_replay_def handleEventResourceChanged_def split: option.splits if_splits)

text \<open>The loop of a cancellation collects steps that agree with their events.\<close>

lemma agrees_trans:
  assumes "agrees U now rid v c (c1, Inr evs)" and "agrees U now rid (v + of_nat (length evs)) c1 (c2, Inr evs')"
  shows "agrees U now rid v c (c2, Inr (evs @ evs'))"
  using assms by (auto simp: agrees_def same_caller_def numbered_append)

lemma cancel_loop_agrees:
  assumes "agrees U now rid v c0 (c, Inr events)"
    and "\<And>n c id w. agrees U now rid w c (confirm n c id w)"
  shows "agrees U now rid v c0 (map_prod id Inr (cancel_loop pend cid skip confirm v k i arr c events))"
  using assms(1)
proof (induction k arbitrary: i arr c events)
  case (Suc k)
  show ?case
  proof (cases "skip (cid (arr ! i))")
    case False
    let ?w = "v + of_nat (length events)"
    obtain c' r where st: "confirm i c (cid (arr ! i)) ?w = (c', r)"
      by (cases "confirm i c (cid (arr ! i)) ?w")
    with assms(2) [of ?w c i "cid (arr ! i)"] have step: "agrees U now rid ?w c (c', r)" by simp
    show ?thesis
    proof (cases r)
      case (Inl err)
      with step Suc.prems have "agrees U now rid v c0 (c', Inr events)"
        by (auto simp: agrees_def same_caller_def)
      with st False Inl Suc.IH show ?thesis by (simp add: Let_def)
    next
      case (Inr evs)
      with step Suc.prems have "agrees U now rid v c0 (c', Inr (events @ evs))"
        by (auto intro: agrees_trans)
      with st False Inr Suc.IH show ?thesis by (simp add: Let_def)
    qed
  qed (use Suc in \<open>simp add: Let_def\<close>)
qed simp

lemma cancel_requests [simp]:
  "cfm_ResourceId (cancel_request req x) = cpc_ResourceId req"
  "cfm_ResourceId (cancel_retrieve_request req x) = cpc_ResourceId req"
  "cfm_CorrelationId (cancel_request req x) = x"
  "cfm_CorrelationId (cancel_retrieve_request req x) = x"
  "cfm_CommandMetadata (cancel_request req x) = cpc_CommandMetadata req"
  "cfm_CommandMetadata (cancel_retrieve_request req x) = cpc_CommandMetadata req"
  "cfm_Status (cancel_request req x) = Status_CANCELED"
  "cfm_Status (cancel_retrieve_request req x) = Status_CANCELED"
  by (simp_all add: cancel_request_def cancel_retrieve_request_def)

lemma agrees_start: "agrees U now rid v c (c, Inr [])"
  by (simp add: agrees_def same_caller_def)

lemmas cancel_kind_defs = cancelResourceCreatePendings_def cancelResourceUpdatePendings_def
  cancelResourceRetrievePendings_def cancelResourceDeletePendings_def cancel_range_def

lemma cancel_kinds_agree:
  "agrees U now (cpc_ResourceId req) v c (map_prod id Inr (cancelResourceCreatePendings S env off c req v))"
  "agrees U now (cpc_ResourceId req) v c (map_prod id Inr (cancelResourceUpdatePendings S env off c req v))"
  "agrees U now (cpc_ResourceId req) v c (map_prod id Inr (cancelResourceRetrievePendings S env off c req v))"
  "agrees U now (cpc_ResourceId req) v c (map_prod id Inr (cancelResourceDeletePendings S env off c req v))"
  using confirm_agrees(1) [of U now "cancel_request req _"] confirm_agrees(2) [of U now "cancel_request req _"]
    confirm_agrees(3) [of U now "cancel_retrieve_request req _"] confirm_agrees(4) [of U now "cancel_request req _"]
  by (simp_all add: cancel_kind_defs cancel_loop_agrees [OF agrees_start])

lemma CancelPendingCommands_agrees:
  "agrees U now (cpc_ResourceId req) v c (CancelPendingCommands S env c req v)"
proof (cases "cpc_CommandMetadata req")
  case None
  then show ?thesis by (simp add: CancelPendingCommands_def agreesI_error)
next
  case (Some cm)
  let ?rid = "cpc_ResourceId req"
  let ?n0 = "length (rsc_create_pendings c)"
  obtain c1 ev1 where l1: "cancelResourceCreatePendings S env 0 c req v = (c1, ev1)" by fastforce
  let ?n1 = "?n0 + length (rsc_update_pendings c1)"
  let ?v1 = "v + of_nat (length ev1)"
  obtain c2 ev2 where l2: "cancelResourceUpdatePendings S env ?n0 c1 req ?v1 = (c2, ev2)" by fastforce
  let ?n2 = "?n1 + length (rsc_retrieve_pendings c2)"
  let ?v2 = "v + of_nat (length (ev1 @ ev2))"
  obtain c3 ev3 where l3: "cancelResourceRetrievePendings S env ?n1 c2 req ?v2 = (c3, ev3)" by fastforce
  let ?v3 = "v + of_nat (length (ev1 @ ev2 @ ev3))"
  obtain c4 ev4 where l4: "cancelResourceDeletePendings S env ?n2 c3 req ?v3 = (c4, ev4)" by fastforce
  have "agrees U now ?rid v c (c1, Inr ev1)"
    using cancel_kinds_agree(1) [of U now req v c S env 0] l1 by simp
  moreover have "agrees U now ?rid ?v1 c1 (c2, Inr ev2)"
    using cancel_kinds_agree(2) [of U now req ?v1 c1 S env ?n0] l2 by simp
  ultimately have "agrees U now ?rid v c (c2, Inr (ev1 @ ev2))" by (rule agrees_trans)
  moreover have "agrees U now ?rid ?v2 c2 (c3, Inr ev3)"
    using cancel_kinds_agree(3) [of U now req ?v2 c2 S env ?n1] l3 by simp
  ultimately have "agrees U now ?rid v c (c3, Inr ((ev1 @ ev2) @ ev3))" by (rule agrees_trans)
  then have "agrees U now ?rid v c (c3, Inr (ev1 @ ev2 @ ev3))" by simp
  moreover have "agrees U now ?rid ?v3 c3 (c4, Inr ev4)"
    using cancel_kinds_agree(4) [of U now req ?v3 c3 S env ?n2] l4 by simp
  ultimately have all: "agrees U now ?rid v c (c4, Inr ((ev1 @ ev2 @ ev3) @ ev4))" by (rule agrees_trans)
  show ?thesis
  proof (cases "ev1 @ ev2 @ ev3 @ ev4 = []")
    case True
    with all have "agrees U now ?rid v c (c4, Inl err)" for err by (simp add: agrees_def)
    with Some l1 l2 l3 l4 True show ?thesis
      by (simp add: CancelPendingCommands_def Let_def)
  next
    case False
    with Some l1 l2 l3 l4 all show ?thesis
      by (auto simp: CancelPendingCommands_def Let_def)
  qed
qed

text \<open>The resource a command is about.\<close>

fun command_rid :: "rs_command \<Rightarrow> ResourceId option" where
  "command_rid (NotifyResourceChanged q) = nrq_ResourceId q"
| "command_rid (UpdateResource q) = urq_ResourceId q"
| "command_rid (ConfirmResourceUpdate q) = cfm_ResourceId q"
| "command_rid (RetrieveResource q) = rrq_ResourceId q"
| "command_rid (ConfirmResourceRetrieve q) = cfm_ResourceId q"
| "command_rid (DeleteResource q) = drq_ResourceId q"
| "command_rid (ConfirmResourceDelete q) = cfm_ResourceId q"
| "command_rid (CreateResource q) = crq_ResourceId q"
| "command_rid (ConfirmResourceCreate q) = cfm_ResourceId q"
| "command_rid (CancelPending q) = cpc_ResourceId q"
| "command_rid (UnknownCommand _) = None"

lemma HandleCommand_agrees:
  "agrees U (env_Now_handle env) (command_rid cmd) v c (ResourceState_HandleCommand K S env c cmd v)"
  by (cases cmd) (simp_all add: ResourceState_HandleCommand_def agreesI_error confirm_agrees
      request_agrees notify_agrees CancelPendingCommands_agrees)

section \<open>Invariants over commands\<close>

lemma handleByEvent_unique:
  assumes "unique_live now e"
  shows "unique_live now (fst (handleByEvent now e (stored U ev)))
    \<or> (\<exists>s. ev = E_ResourceStateSnapshotTaken s)"
  using assms accept_unique finish_unique changed_unique
  by (cases ev) (auto simp: handleByEvent_def stored_def event_table_defs Unmarshal_as_def sel_defs)

lemma rs_replay_unique:
  assumes "unique_live now e" and "list_all (event_ok U rid) evs"
  shows "unique_live now (rs_replay U now e evs)"
  using assms
proof (induction evs arbitrary: e)
  case (Cons ev evs)
  have "\<nexists>s. ev = E_ResourceStateSnapshotTaken s"
    using Cons.prems(2) by (auto simp: event_ok_def event_table_defs)
  with handleByEvent_unique [OF Cons.prems(1), of U ev] Cons show ?case
    by (auto simp: rs_replay_def)
qed simp

lemma HandleCommand_unique:
  assumes "unique_live (env_Now_handle env) (rsc_snap c)"
  shows "unique_live (env_Now_handle env) (rsc_snap (fst (ResourceState_HandleCommand K S env c cmd v)))"
proof -
  fix U
  let ?r = "ResourceState_HandleCommand K S env c cmd v"
  have "agrees U (env_Now_handle env) (command_rid cmd) v c ?r" by (rule HandleCommand_agrees)
  with assms show ?thesis
    by (cases "snd ?r") (auto simp: agrees_def intro: rs_replay_unique)
qed

text \<open>A resource without a reported content never has pending retrievals.\<close>

definition retrieves_need_content :: "ResourceStateSnapshotTaken \<Rightarrow> bool" where
  "retrieves_need_content e \<longleftrightarrow>
     (rs_ResourceRetrievePendings e \<noteq> [] \<longrightarrow> rs_LatestResourceChange e \<noteq> None)"

lemma handlers_keep_latest:
  assumes "rs_LatestResourceChange e \<noteq> None"
  shows "rs_LatestResourceChange (fst (handleByEvent now e (stored U ev))) \<noteq> None
    \<or> (\<exists>s. ev = E_ResourceStateSnapshotTaken s)"
  using assms
  by (cases ev)
     (auto simp: handleByEvent_def stored_def event_table_defs Unmarshal_as_def sel_defs accept_defs
        finish_defs handleEventResourceChanged_def processValidUntil_def Let_def split: option.splits)

lemma rs_replay_keeps_latest:
  assumes "rs_LatestResourceChange e \<noteq> None" and "list_all (event_ok U rid) evs"
  shows "rs_LatestResourceChange (rs_replay U now e evs) \<noteq> None"
  using assms
proof (induction evs arbitrary: e)
  case (Cons ev evs)
  have "\<nexists>s. ev = E_ResourceStateSnapshotTaken s"
    using Cons.prems(2) by (auto simp: event_ok_def event_table_defs)
  with handlers_keep_latest [OF Cons.prems(1), of now U ev] Cons show ?case
    by (auto simp: rs_replay_def)
qed simp

lemma confirm_keeps_no_retrieves:
  assumes "rsc_retrieve_pendings c = []"
  shows "rsc_retrieve_pendings (fst (confirmResourceCreateRequest env n c q1 v)) = []"
    "rsc_retrieve_pendings (fst (confirmResourceUpdateRequest env n c q2 v)) = []"
    "rsc_retrieve_pendings (fst (confirmResourceRetrieveRequest env n c q3 v)) = []"
    "rsc_retrieve_pendings (fst (confirmResourceDeleteRequest env n c q4 v)) = []"
  using assms
  by (auto simp: confirm_defs finish_defs on_snap_def Let_def split: option.splits)

lemma cancel_keeps_no_retrieves:
  assumes "rsc_retrieve_pendings c = []"
  shows "rsc_retrieve_pendings (fst (CancelPendingCommands S env c req v)) = []"
proof -
  let ?I = "\<lambda>c. rsc_retrieve_pendings c = []"
  have "?I (fst (cancelResourceCreatePendings S env off c req v))"
    "?I (fst (cancelResourceUpdatePendings S env off c req v))"
    "?I (fst (cancelResourceRetrievePendings S env off c req v))"
    "?I (fst (cancelResourceDeletePendings S env off c req v))" if "?I c" for off c v
    unfolding cancel_kind_defs
    by (rule cancel_loop_invariant [where I = ?I], rule that, erule confirm_keeps_no_retrieves)+
  with assms show ?thesis
    by (auto simp: CancelPendingCommands_def Let_def split: option.splits prod.splits) (metis fst_conv)+
qed

lemma HandleCommand_retrieves:
  assumes "retrieves_need_content (rsc_snap c)"
  shows "retrieves_need_content (rsc_snap (fst (ResourceState_HandleCommand K S env c cmd v)))"
proof (cases "rs_LatestResourceChange (rsc_snap c)")
  case None
  with assms have none: "rsc_retrieve_pendings c = []" by (simp add: retrieves_need_content_def)
  have "rsc_retrieve_pendings (fst (ResourceState_HandleCommand K S env c cmd v)) = []"
    using none None cancel_keeps_no_retrieves confirm_keeps_no_retrieves
    by (cases cmd)
       (auto simp: ResourceState_HandleCommand_def validateCommandForNotExistingResource_def request_defs
         on_snap_def accept_defs processValidUntil_def handleEventResourceChanged_def Let_def
         split: option.splits sum.splits if_splits)
  then show ?thesis by (simp add: retrieves_need_content_def)
next
  case (Some ch)
  fix U
  let ?r = "ResourceState_HandleCommand K S env c cmd v"
  have "agrees U (env_Now_handle env) (command_rid cmd) v c ?r" by (rule HandleCommand_agrees)
  with Some have "rs_LatestResourceChange (rsc_snap (fst ?r)) \<noteq> None"
    by (cases "snd ?r") (auto simp: agrees_def dest: rs_replay_keeps_latest [rotated])
  then show ?thesis by (simp add: retrieves_need_content_def)
qed

section \<open>What a cancellation cancels\<close>

text \<open>The correlation identifier an ending event carries.\<close>

fun ended_cid :: "any_event \<Rightarrow> string" where
  "ended_cid (E_ResourceCreated d) = GetCorrelationId (rcd_AuditContext d)"
| "ended_cid (E_ResourceUpdated d) = GetCorrelationId (rud_AuditContext d)"
| "ended_cid (E_ResourceRetrieved d) = GetCorrelationId (rrd_AuditContext d)"
| "ended_cid (E_ResourceDeleted d) = GetCorrelationId (rdd_AuditContext d)"
| "ended_cid _ = []"

lemmas confirm_hit_simps = confirm_defs finish_defs on_snap_def command_ac_def NewAuditContext_def Let_def

lemma confirm_hit:
  assumes "cpc_CommandMetadata req = Some cm"
  shows "x \<in> set (map rcp_cid (rsc_create_pendings c)) \<Longrightarrow>
      \<exists>c' ev. confirmResourceCreateRequest env n c (cancel_request req x) w = (c', Inr [ev]) \<and>
        map rcp_cid (rsc_create_pendings c') = remove1 x (map rcp_cid (rsc_create_pendings c)) \<and> ended_cid ev = x"
    and "x \<in> set (map rup_cid (rsc_update_pendings c)) \<Longrightarrow>
      \<exists>c' ev. confirmResourceUpdateRequest env n c (cancel_request req x) w = (c', Inr [ev]) \<and>
        map rup_cid (rsc_update_pendings c') = remove1 x (map rup_cid (rsc_update_pendings c)) \<and> ended_cid ev = x"
    and "x \<in> set (map rrp_cid (rsc_retrieve_pendings c)) \<Longrightarrow>
      \<exists>c' ev. confirmResourceRetrieveRequest env n c (cancel_retrieve_request req x) w = (c', Inr [ev]) \<and>
        map rrp_cid (rsc_retrieve_pendings c') = remove1 x (map rrp_cid (rsc_retrieve_pendings c)) \<and> ended_cid ev = x"
    and "x \<in> set (map rdp_cid (rsc_delete_pendings c)) \<Longrightarrow>
      \<exists>c' ev. confirmResourceDeleteRequest env n c (cancel_request req x) w = (c', Inr [ev]) \<and>
        map rdp_cid (rsc_delete_pendings c') = remove1 x (map rdp_cid (rsc_delete_pendings c)) \<and> ended_cid ev = x"
  subgoal by (cases rule: find_index_cases [of rcp_cid x "rsc_create_pendings c"])
    (auto simp: confirm_hit_simps assms map_remove_at_remove1)
  subgoal by (cases rule: find_index_cases [of rup_cid x "rsc_update_pendings c"])
    (auto simp: confirm_hit_simps assms map_remove_at_remove1)
  subgoal by (cases rule: find_index_cases [of rrp_cid x "rsc_retrieve_pendings c"])
    (auto simp: confirm_hit_simps assms map_remove_at_remove1)
  subgoal by (cases rule: find_index_cases [of rdp_cid x "rsc_delete_pendings c"])
    (auto simp: confirm_hit_simps assms map_remove_at_remove1)
  done

lemma confirm_miss:
  assumes "cpc_CommandMetadata req = Some cm"
  shows "x \<notin> set (map rcp_cid (rsc_create_pendings c)) \<Longrightarrow>
      \<exists>c' err. confirmResourceCreateRequest env n c (cancel_request req x) w = (c', Inl err) \<and>
        rsc_create_pendings c' = rsc_create_pendings c"
    and "x \<notin> set (map rup_cid (rsc_update_pendings c)) \<Longrightarrow>
      \<exists>c' err. confirmResourceUpdateRequest env n c (cancel_request req x) w = (c', Inl err) \<and>
        rsc_update_pendings c' = rsc_update_pendings c"
    and "x \<notin> set (map rrp_cid (rsc_retrieve_pendings c)) \<Longrightarrow>
      \<exists>c' err. confirmResourceRetrieveRequest env n c (cancel_retrieve_request req x) w = (c', Inl err) \<and>
        rsc_retrieve_pendings c' = rsc_retrieve_pendings c"
    and "x \<notin> set (map rdp_cid (rsc_delete_pendings c)) \<Longrightarrow>
      \<exists>c' err. confirmResourceDeleteRequest env n c (cancel_request req x) w = (c', Inl err) \<and>
        rsc_delete_pendings c' = rsc_delete_pendings c"
  subgoal by (cases rule: find_index_cases [of rcp_cid x "rsc_create_pendings c"]) (auto simp: confirm_hit_simps assms)
  subgoal by (cases rule: find_index_cases [of rup_cid x "rsc_update_pendings c"]) (auto simp: confirm_hit_simps assms)
  subgoal by (cases rule: find_index_cases [of rrp_cid x "rsc_retrieve_pendings c"]) (auto simp: confirm_hit_simps assms)
  subgoal by (cases rule: find_index_cases [of rdp_cid x "rsc_delete_pendings c"]) (auto simp: confirm_hit_simps assms)
  done

text \<open>The four cancel functions refine the loop on identifiers.\<close>

lemma cancel_kinds_refine:
  assumes "cpc_CommandMetadata req = Some cm"
  shows "map_prod (map rcp_cid \<circ> rsc_create_pendings) (map ended_cid) (cancelResourceCreatePendings S env off c req v) =
      cancel_all_ids (filtered_out S (cpc_CorrelationIdFilter req)) (map rcp_cid (rsc_create_pendings c))"
    and "map_prod (map rup_cid \<circ> rsc_update_pendings) (map ended_cid) (cancelResourceUpdatePendings S env off c req v) =
      cancel_all_ids (filtered_out S (cpc_CorrelationIdFilter req)) (map rup_cid (rsc_update_pendings c))"
    and "map_prod (map rrp_cid \<circ> rsc_retrieve_pendings) (map ended_cid) (cancelResourceRetrievePendings S env off c req v) =
      cancel_all_ids (filtered_out S (cpc_CorrelationIdFilter req)) (map rrp_cid (rsc_retrieve_pendings c))"
    and "map_prod (map rdp_cid \<circ> rsc_delete_pendings) (map ended_cid) (cancelResourceDeletePendings S env off c req v) =
      cancel_all_ids (filtered_out S (cpc_CorrelationIdFilter req)) (map rdp_cid (rsc_delete_pendings c))"
  unfolding cancel_kind_defs cancel_all_ids_def
  using cancel_loop_ids [OF confirm_hit(1) [OF assms] confirm_miss(1) [OF assms], of 0 "length (rsc_create_pendings c)" "rsc_create_pendings c" c, where events = "[]"]
    cancel_loop_ids [OF confirm_hit(2) [OF assms] confirm_miss(2) [OF assms], of 0 "length (rsc_update_pendings c)" "rsc_update_pendings c" c, where events = "[]"]
    cancel_loop_ids [OF confirm_hit(3) [OF assms] confirm_miss(3) [OF assms], of 0 "length (rsc_retrieve_pendings c)" "rsc_retrieve_pendings c" c, where events = "[]"]
    cancel_loop_ids [OF confirm_hit(4) [OF assms] confirm_miss(4) [OF assms], of 0 "length (rsc_delete_pendings c)" "rsc_delete_pendings c" c, where events = "[]"]
  by simp_all

text \<open>The cancellation of one kind leaves the pending creations alone.\<close>

lemma confirm_frame_create:
  assumes "rsc_create_pendings c = X"
  shows "rsc_create_pendings (fst (confirmResourceUpdateRequest env n c q2 v)) = X"
    and "rsc_create_pendings (fst (confirmResourceRetrieveRequest env n c q3 v)) = X"
    and "cfm_Status q4 = Status_CANCELED \<Longrightarrow> rsc_create_pendings (fst (confirmResourceDeleteRequest env n c q4 v)) = X"
  using assms by (auto simp: confirm_defs finish_defs on_snap_def Let_def split: option.splits)

lemma cancel_frame_create:
  "rsc_create_pendings (fst (cancelResourceUpdatePendings S env off c req v)) = rsc_create_pendings c"
  "rsc_create_pendings (fst (cancelResourceRetrievePendings S env off c req v)) = rsc_create_pendings c"
  "rsc_create_pendings (fst (cancelResourceDeletePendings S env off c req v)) = rsc_create_pendings c"
  unfolding cancel_kind_defs
  by (rule cancel_loop_invariant [where I = "\<lambda>c'. rsc_create_pendings c' = rsc_create_pendings c"],
      rule refl, erule confirm_frame_create, simp?)+

lemma CancelPendingCommands_create:
  assumes "cpc_CommandMetadata req = Some cm"
  shows "rsc_create_pendings (fst (CancelPendingCommands S env c req v)) =
           rsc_create_pendings (fst (cancelResourceCreatePendings S env 0 c req v))"
    and "snd (cancelResourceCreatePendings S env 0 c req v) \<noteq> [] \<Longrightarrow>
           \<not> is_err (snd (CancelPendingCommands S env c req v))"
  using assms by (auto simp: CancelPendingCommands_def Let_def split: prod.splits)
     (metis cancel_frame_create fst_conv)+

section \<open>Reachable states\<close>

text \<open>
  The states of one resource over time: created for a caller, changed by commands at times that do not
  decrease, taken over by another caller, and stored as a snapshot and loaded again. \<open>t\<close> is the time
  of the last command.
\<close>

inductive rs_reachable ::
    "'v codec_pkg \<Rightarrow> kit_strings \<Rightarrow> gotime \<Rightarrow> ResourceStateSnapshotTakenForCommand \<Rightarrow> bool" for K S where
  start: "rs_reachable K S t (NewResourceStateSnapshotTakenForCommand userID owner hubID links)"
| command: "rs_reachable K S t c \<Longrightarrow> t \<le> env_Now_handle env \<Longrightarrow>
    rs_reachable K S (env_Now_handle env) (fst (ResourceState_HandleCommand K S env c cmd v))"
| caller: "rs_reachable K S t c \<Longrightarrow>
    rs_reachable K S t (c\<lparr>rsc_userID := u, rsc_owner := ow, rsc_hubID := h, rsc_resourceLinks := l\<rparr>)"
| reload: "rs_reachable K S t c \<Longrightarrow>
    rs_reachable K S t (c\<lparr>rsc_snap := handleEventResourceStateSnapshotTaken NewResourceStateSnapshotTaken
      (ResourceState_TakeSnapshot now (rsc_snap c) v)\<rparr>)"

lemma reload_snapshot:
  "handleEventResourceStateSnapshotTaken e0 (ResourceState_TakeSnapshot now e v) =
     e\<lparr>rs_EventMetadata := rs_EventMetadata (ResourceState_TakeSnapshot now e v)\<rparr>"
  by (simp add: handleEventResourceStateSnapshotTaken_def ResourceStateSnapshotTaken_CopyData_def
      ResourceState_TakeSnapshot_def)

lemma rs_reachable_inv:
  "rs_reachable K S t c \<Longrightarrow> unique_live t (rsc_snap c) \<and> retrieves_need_content (rsc_snap c)"
proof (induction rule: rs_reachable.induct)
  case (start t userID owner hubID links)
  show ?case
    by (simp add: NewResourceStateSnapshotTakenForCommand_def NewResourceStateSnapshotTaken_def
        unique_live_def live_cids_def retrieves_need_content_def)
next
  case (command t c env cmd v)
  then show ?case using unique_live_later HandleCommand_unique HandleCommand_retrieves by blast
next
  case (caller t c u ow h l)
  then show ?case by simp
next
  case (reload t c now v)
  then show ?case by (simp add: reload_snapshot unique_live_def live_cids_def retrieves_need_content_def)
qed

end
