(* ===== verification/Resource_State_Properties.thy ===== *)
theory Resource_State_Properties
  imports Resource_State_Proofs
begin

text \<open>
  The properties of the resource state that its users rely on, each with a concrete instance. The
  instances use one small setting: a device \<open>d\<close> with the resource \<open>/r\<close>, one caller, and codecs that
  keep the bytes.
\<close>

section \<open>The setting of the instances\<close>

definition ex_codec :: "bytes codec_pkg" where
  "ex_codec = \<lparr>cbor_Decode = Some, cbor_Encode = Some, json_Decode = Some, json_Encode = Some,
     MediaType_String = (\<lambda>n. if n = 60 then ''application/cbor'' else if n = 10000 then ''application/vnd.ocf+cbor''
        else if n = 50 then ''application/json'' else ''text/plain''),
     mt_AppCBOR = 60, mt_AppOcfCbor = 10000, mt_AppJSON = 50\<rparr>"

definition ex_rid :: ResourceId where
  "ex_rid = \<lparr>rid_DeviceId = ''d'', rid_Href = ''/r''\<rparr>"

definition ex_content :: Content where
  "ex_content = \<lparr>ct_Data = [1], ct_ContentType = ''application/json'', ct_CoapContentFormat = 50\<rparr>"

definition ex_new :: ResourceStateSnapshotTakenForCommand where
  "ex_new = NewResourceStateSnapshotTakenForCommand ''user'' ''owner'' ''hub'' None"

definition ex_create :: "string \<Rightarrow> rs_command" where
  "ex_create cid = CreateResource \<lparr>crq_ResourceId = Some ex_rid, crq_CorrelationId = cid,
     crq_Content = Some ex_content, crq_TimeToLive = 0, crq_CommandMetadata = Some ex_cm, crq_Force = True\<rparr>"

definition ex_notify :: NotifyResourceChangedRequest where
  "ex_notify = \<lparr>nrq_ResourceId = Some ex_rid, nrq_Content = Some ex_content, nrq_CommandMetadata = Some ex_cm,
     nrq_Status = Status_OK, nrq_Etag = [], nrq_ResourceTypes = [''t'']\<rparr>"

definition ex_cancel :: "string list \<Rightarrow> CancelPendingCommandsRequest" where
  "ex_cancel flt = \<lparr>cpc_ResourceId = Some ex_rid, cpc_CorrelationIdFilter = flt, cpc_CommandMetadata = Some ex_cm\<rparr>"

definition ex_step :: "ResourceStateSnapshotTakenForCommand \<Rightarrow> rs_command \<Rightarrow> ResourceStateSnapshotTakenForCommand" where
  "ex_step c cmd = fst (ResourceState_HandleCommand ex_codec ex_kit ex_env c cmd 1)"

definition ex_three :: ResourceStateSnapshotTakenForCommand where
  "ex_three = ex_step (ex_step (ex_step ex_new (ex_create ''a'')) (ex_create ''b'')) (ex_create ''c'')"

lemma ex_three_create_ids: "map rcp_cid (rsc_create_pendings ex_three) = [''a'', ''b'', ''c'']"
  by code_simp

lemma ex_cancel_meta: "cpc_CommandMetadata (ex_cancel flt) = Some ex_cm" "cpc_CorrelationIdFilter (ex_cancel flt) = flt"
  by (simp_all add: ex_cancel_def)

section \<open>Commands and events\<close>



text \<open>The events of a successful command carry consecutive versions from the new version on (64-bit
  arithmetic), belong to the aggregate and the device of the command's resource, and none is a snapshot.
\<close>

theorem resource_command_events:
  assumes "ResourceState_HandleCommand K S env c cmd newVersion = (c', Inr evs)" and "i < length evs"
  shows "ev_Version (as_Event U (evs ! i)) = newVersion + of_nat i \<and>
         ev_AggregateID (as_Event U (evs ! i)) = ResourceId_ToUUID U (command_rid cmd) \<and>
         ev_GroupID (as_Event U (evs ! i)) = GetDeviceId (command_rid cmd) \<and>
         \<not> ev_IsSnapshot (as_Event U (evs ! i))"
proof -
  have "agrees U (env_Now_handle env) (command_rid cmd) newVersion c (c', Inr evs)"
    using HandleCommand_agrees [of U env cmd newVersion c K S] assms by simp
  with assms(2) show ?thesis by (auto simp: agrees_def numbered_def list_all_length event_ok_def)
qed

theorem resource_command_events_witness:
  "\<exists>c' evs. ResourceState_HandleCommand ex_codec ex_kit ex_env ex_three (CancelPending (ex_cancel [])) 7 = (c', Inr evs) \<and>
     length evs = 2 \<and> ev_Version (as_Event ex_uuid (evs ! 1)) = 8"
proof -
  let ?r = "ResourceState_HandleCommand ex_codec ex_kit ex_env ex_three (CancelPending (ex_cancel [])) 7"
  have "case snd ?r of Inl _ \<Rightarrow> False | Inr evs \<Rightarrow> length evs = 2" by code_simp
  then obtain c' evs where r: "?r = (c', Inr evs)" and l: "length evs = 2" by (rule run_okE)
  from resource_command_events [OF r, of 1 ex_uuid] r l show ?thesis by auto
qed

text \<open>A command that fails leaves the snapshot as it was.
\<close>

theorem resource_command_error_frame:
  assumes "ResourceState_HandleCommand K S env c cmd newVersion = (c', Inl err)"
  shows "rsc_snap c' = rsc_snap c"
  using HandleCommand_agrees [of undefined env cmd newVersion c K S] assms by (simp add: agrees_def)

theorem resource_command_error_frame_witness:
  "\<exists>c' err. ResourceState_HandleCommand ex_codec ex_kit ex_env ex_three (ex_create ''b'') 7 = (c', Inl err) \<and>
     error_code err = Some InvalidArgument \<and> rsc_snap c' = rsc_snap ex_three"
proof -
  let ?r = "ResourceState_HandleCommand ex_codec ex_kit ex_env ex_three (ex_create ''b'') 7"
  have "case snd ?r of Inl e \<Rightarrow> error_code e = Some InvalidArgument | Inr _ \<Rightarrow> False" by code_simp
  then obtain c' err where r: "?r = (c', Inl err)" and e: "error_code err = Some InvalidArgument"
    by (cases ?r) (auto split: sum.splits)
  from resource_command_error_frame [OF r] r e show ?thesis by auto
qed

section \<open>Invariants\<close>

text \<open>
  C2. In every reachable state the commands that are pending and not expired have pairwise different
  correlation identifiers, across all four kinds of commands.
\<close>

theorem live_correlation_ids_unique:
  assumes "rs_reachable K S t c"
  shows "distinct (live_cids t (rsc_snap c))"
  using rs_reachable_inv [OF assms] by (simp add: unique_live_def)

theorem live_correlation_ids_unique_witness:
  "rs_reachable ex_codec ex_kit 1000 ex_three \<and> live_cids 1000 (rsc_snap ex_three) = [''a'', ''b'', ''c''] \<and>
   distinct (live_cids 1000 (rsc_snap ex_three))"
proof -
  have t: "env_Now_handle ex_env = 1000" by (simp add: ex_env_def)
  have step: "rs_reachable ex_codec ex_kit 1000 (ex_step c cmd)" if "rs_reachable ex_codec ex_kit 1000 c" for c cmd
    using rs_reachable.command [OF that, of ex_env cmd 1] t by (simp add: ex_step_def)
  have r: "rs_reachable ex_codec ex_kit 1000 ex_three"
    unfolding ex_three_def ex_new_def by (intro step rs_reachable.start)
  moreover have "live_cids 1000 (rsc_snap ex_three) = [''a'', ''b'', ''c'']" by code_simp
  ultimately show ?thesis using live_correlation_ids_unique [OF r] by blast
qed

text \<open>In every reachable state a resource that never reported a content has no pending retrievals, which
  is why the validation of a cancellation for such a resource looks at the three other kinds only.
\<close>

theorem retrievals_only_with_content:
  assumes "rs_reachable K S t c" and "rs_LatestResourceChange (rsc_snap c) = None"
  shows "rs_ResourceRetrievePendings (rsc_snap c) = []"
  using rs_reachable_inv [OF assms(1)] assms(2) by (auto simp: retrieves_need_content_def)

theorem retrievals_only_with_content_witness:
  "rs_LatestResourceChange (rsc_snap ex_new) = None \<and> rs_ResourceRetrievePendings (rsc_snap ex_new) = []"
proof -
  have "rs_reachable ex_codec ex_kit 0 ex_new" unfolding ex_new_def by (rule rs_reachable.start)
  moreover have "rs_LatestResourceChange (rsc_snap ex_new) = None" by code_simp
  ultimately show ?thesis using retrievals_only_with_content by blast
qed

section \<open>Pending commands\<close>

text \<open>A pending update that was accepted and then ended by a \<open>ResourceUpdated\<close> event with its
  correlation identifier leaves the list of pending updates as it was before.
\<close>

theorem update_pending_roundtrip:
  assumes "\<not> ResourceUpdatePending_IsExpired now p"
    and "snd (handleEventResourceUpdatePending now e p) = Inr ()"
    and "GetCorrelationId (rud_AuditContext d) = rup_cid p"
    and "\<forall>q \<in> set (rs_ResourceUpdatePendings e). rup_cid q \<noteq> rup_cid p"
  shows "snd (handleEventResourceUpdated (fst (handleEventResourceUpdatePending now e p)) d) = Inr () \<and>
         rs_ResourceUpdatePendings (fst (handleEventResourceUpdated (fst (handleEventResourceUpdatePending now e p)) d)) =
         rs_ResourceUpdatePendings e"
  using update_queue.accept_finish [OF assms(1,2) TrueI assms(3,4)] .

definition ex_update_pending :: ResourceUpdatePending where
  "ex_update_pending = \<lparr>rup_ResourceId = Some ex_rid, rup_ResourceInterface = [], rup_Content = Some ex_content,
     rup_AuditContext = Some (NewAuditContext ''u'' ''x'' ''o''), rup_EventMetadata = None, rup_ValidUntil = 0,
     rup_ResourceTypes = [], rup_OpenTelemetryCarrier = []\<rparr>"

definition ex_updated :: ResourceUpdated where
  "ex_updated = \<lparr>rud_ResourceId = Some ex_rid, rud_Status = Status_OK, rud_Content = None,
     rud_AuditContext = Some (NewAuditContext ''u'' ''x'' ''o''), rud_EventMetadata = None,
     rud_ResourceTypes = [], rud_OpenTelemetryCarrier = []\<rparr>"

theorem update_pending_roundtrip_witness:
  "rs_ResourceUpdatePendings (fst (handleEventResourceUpdatePending 5 (rsc_snap ex_new) ex_update_pending)) = [ex_update_pending] \<and>
   rs_ResourceUpdatePendings (fst (handleEventResourceUpdated
     (fst (handleEventResourceUpdatePending 5 (rsc_snap ex_new) ex_update_pending)) ex_updated)) = []"
proof -
  have "\<not> ResourceUpdatePending_IsExpired 5 ex_update_pending" by code_simp
  moreover have "snd (handleEventResourceUpdatePending 5 (rsc_snap ex_new) ex_update_pending) = Inr ()" by code_simp
  moreover have "GetCorrelationId (rud_AuditContext ex_updated) = rup_cid ex_update_pending" by code_simp
  moreover have none: "rs_ResourceUpdatePendings (rsc_snap ex_new) = []" by code_simp
  moreover have "rs_ResourceUpdatePendings (fst (handleEventResourceUpdatePending 5 (rsc_snap ex_new) ex_update_pending)) =
    [ex_update_pending]" by (simp add: accept_defs processValidUntil_def checkForDuplicityCorrelationID_def none
      ex_update_pending_def ex_new_def NewResourceStateSnapshotTakenForCommand_def NewResourceStateSnapshotTaken_def
      ResourceUpdatePending_IsExpired_def)
  ultimately show ?thesis using update_pending_roundtrip [of 5 ex_update_pending "rsc_snap ex_new" ex_updated] by auto
qed

section \<open>Cancellation\<close>

text \<open>
  C3. Cancelling one command by its correlation identifier cancels that command and no other, for each of
  the four kinds of pending commands, when the identifiers of that kind are distinct.
\<close>

theorem cancel_by_id:
  assumes "kit_strings_ok S" and "cpc_CommandMetadata req = Some cm" and "cpc_CorrelationIdFilter req = [x]"
    and "distinct (map rcp_cid (rsc_create_pendings c))" "distinct (map rup_cid (rsc_update_pendings c))"
      "distinct (map rrp_cid (rsc_retrieve_pendings c))" "distinct (map rdp_cid (rsc_delete_pendings c))"
  shows "map rcp_cid (rsc_create_pendings (fst (cancelResourceCreatePendings S env off c req v))) =
           filter (\<lambda>y. y \<noteq> x) (map rcp_cid (rsc_create_pendings c)) \<and>
         map rup_cid (rsc_update_pendings (fst (cancelResourceUpdatePendings S env off c req v))) =
           filter (\<lambda>y. y \<noteq> x) (map rup_cid (rsc_update_pendings c)) \<and>
         map rrp_cid (rsc_retrieve_pendings (fst (cancelResourceRetrievePendings S env off c req v))) =
           filter (\<lambda>y. y \<noteq> x) (map rrp_cid (rsc_retrieve_pendings c)) \<and>
         map rdp_cid (rsc_delete_pendings (fst (cancelResourceDeletePendings S env off c req v))) =
           filter (\<lambda>y. y \<noteq> x) (map rdp_cid (rsc_delete_pendings c))"
proof -
  have sk: "filtered_out S (cpc_CorrelationIdFilter req) = (\<lambda>y. y \<noteq> x)"
    using filtered_out_ok [OF assms(1)] assms(3) by auto
  have all: "fst (cancel_all_ids (\<lambda>y. y \<noteq> x) ids) = filter (\<lambda>y. y \<noteq> x) ids" if "distinct ids" for ids
    using cancel_ids_all [OF that no_adjacent_single [OF that]] by (simp add: cancel_all_ids_def)
  have pr: "f (fst r) = g" if "map_prod f h r = p" "fst p = g" for f h r p g
    using that by (cases r) auto
  note k = cancel_kinds_refine [OF assms(2), where S = S and env = env and off = off and c = c and v = v, unfolded sk]
  show ?thesis
    using pr [OF k(1) all [OF assms(4)]] pr [OF k(2) all [OF assms(5)]] pr [OF k(3) all [OF assms(6)]]
      pr [OF k(4) all [OF assms(7)]] by simp
qed

theorem cancel_by_id_witness:
  "map rcp_cid (rsc_create_pendings (fst (cancelResourceCreatePendings ex_kit ex_env 0 ex_three (ex_cancel [''b'']) 4))) =
     [''a'', ''c'']"
proof -
  have none: "rsc_update_pendings ex_three = []" "rsc_retrieve_pendings ex_three = []" "rsc_delete_pendings ex_three = []"
    by code_simp+
  show ?thesis
    using cancel_by_id [OF ex_kit_ok ex_cancel_meta, where x = "''b''" and c = ex_three and env = ex_env and off = 0 and v = 4]
    by (simp only: ex_three_create_ids none) simp
qed

text \<open>Soundness of cancellation, for each kind and any filter: the commands before are the commands left
  together with the cancelled ones, and every cancelled one passed the filter.
\<close>

theorem cancel_sound:
  assumes "kit_strings_ok S" and "cpc_CommandMetadata req = Some cm"
    and "cancelResourceCreatePendings S env off c req v = (c1, evs1)"
    and "cancelResourceUpdatePendings S env off c req v = (c2, evs2)"
    and "cancelResourceRetrievePendings S env off c req v = (c3, evs3)"
    and "cancelResourceDeletePendings S env off c req v = (c4, evs4)"
  shows "mset (map rcp_cid (rsc_create_pendings c)) = mset (map rcp_cid (rsc_create_pendings c1)) + mset (map ended_cid evs1) \<and>
         mset (map rup_cid (rsc_update_pendings c)) = mset (map rup_cid (rsc_update_pendings c2)) + mset (map ended_cid evs2) \<and>
         mset (map rrp_cid (rsc_retrieve_pendings c)) = mset (map rrp_cid (rsc_retrieve_pendings c3)) + mset (map ended_cid evs3) \<and>
         mset (map rdp_cid (rsc_delete_pendings c)) = mset (map rdp_cid (rsc_delete_pendings c4)) + mset (map ended_cid evs4) \<and>
         (\<forall>ev \<in> set (evs1 @ evs2 @ evs3 @ evs4). cpc_CorrelationIdFilter req = [] \<or>
            ended_cid ev \<in> set (cpc_CorrelationIdFilter req))"
proof -
  let ?sk = "filtered_out S (cpc_CorrelationIdFilter req)"
  have ok: "ended_cid ev \<in> set (cpc_CorrelationIdFilter req) \<or> cpc_CorrelationIdFilter req = []"
    if "\<not> ?sk (ended_cid ev)" for ev using that filtered_out_ok [OF assms(1)] by auto
  have snd: "mset ids = mset p + mset (map ended_cid evs) \<and> (\<forall>ev \<in> set evs. \<not> ?sk (ended_cid ev))"
    if "(p, map ended_cid evs) = cancel_all_ids ?sk ids" for ids p evs
    using cancel_all_ids_sound [of ids ?sk] that [symmetric] by auto
  note k = cancel_kinds_refine [OF assms(2), where S = S and env = env and off = off and c = c and v = v,
      unfolded assms(3-6) map_prod_simp comp_apply]
  from snd [OF k(1)] snd [OF k(2)] snd [OF k(3)] snd [OF k(4)] ok show ?thesis
    by (auto simp del: mset_map)
qed

theorem cancel_sound_witness:
  "\<exists>c1 evs1. cancelResourceCreatePendings ex_kit ex_env 0 ex_three (ex_cancel [''b'', ''q'']) 4 = (c1, evs1) \<and>
     mset [''a'', ''b'', ''c''] = mset (map rcp_cid (rsc_create_pendings c1)) + mset (map ended_cid evs1)"
proof -
  let ?q = "ex_cancel [''b'', ''q'']"
  obtain c1 evs1 where 1: "cancelResourceCreatePendings ex_kit ex_env 0 ex_three ?q 4 = (c1, evs1)" by fastforce
  obtain c2 evs2 where 2: "cancelResourceUpdatePendings ex_kit ex_env 0 ex_three ?q 4 = (c2, evs2)" by fastforce
  obtain c3 evs3 where 3: "cancelResourceRetrievePendings ex_kit ex_env 0 ex_three ?q 4 = (c3, evs3)" by fastforce
  obtain c4 evs4 where 4: "cancelResourceDeletePendings ex_kit ex_env 0 ex_three ?q 4 = (c4, evs4)" by fastforce
  from cancel_sound [OF ex_kit_ok ex_cancel_meta(1) 1 2 3 4] 1 show ?thesis
    by (simp only: ex_three_create_ids) blast
qed

text \<open>A cancellation without a filter, which is documented to cancel all pending commands, succeeds on a
  resource with three pending creations but cancels the first and the third only: the loop ranges over the
  slice from which each confirmation removes an element.
\<close>

theorem cancel_all_passes_over_neighbour:
  assumes "kit_strings_ok S" and "cpc_CommandMetadata req = Some cm" and "cpc_CorrelationIdFilter req = []"
    and "map rcp_cid (rsc_create_pendings c) = [x, y, z]" and "distinct [x, y, z]"
  shows "\<not> is_err (snd (CancelPendingCommands S env c req v)) \<and>
         map rcp_cid (rsc_create_pendings (fst (CancelPendingCommands S env c req v))) = [y]"
proof -
  have sk: "filtered_out S (cpc_CorrelationIdFilter req) = (\<lambda>_. False)"
    using filtered_out_ok [OF assms(1)] assms(3) by auto
  have "cancel_all_ids (\<lambda>_. False) [x, y, z] = ([y], [x, z])"
    using assms(5) by (auto simp: cancel_all_ids_def overlay_def)
  with cancel_kinds_refine(1) [OF assms(2), where S = S and c = c and env = env and off = 0 and v = v] sk assms(4)
  have "map_prod (map rcp_cid \<circ> rsc_create_pendings) (map ended_cid) (cancelResourceCreatePendings S env 0 c req v) =
     ([y], [x, z])" by simp
  then have "map rcp_cid (rsc_create_pendings (fst (cancelResourceCreatePendings S env 0 c req v))) = [y]"
    and "snd (cancelResourceCreatePendings S env 0 c req v) \<noteq> []"
    by (cases "cancelResourceCreatePendings S env 0 c req v"; auto)+
  then show ?thesis using CancelPendingCommands_create [OF assms(2)] by simp
qed

theorem cancel_all_passes_over_neighbour_witness:
  "map rcp_cid (rsc_create_pendings (fst (CancelPendingCommands ex_kit ex_env ex_three (ex_cancel []) 4))) = [''b'']"
  using cancel_all_passes_over_neighbour [OF ex_kit_ok ex_cancel_meta ex_three_create_ids, where env = ex_env and v = 4] by simp

section \<open>Content changes\<close>

text \<open>
  C4. A notification is recorded exactly when the resource has no content yet, or it is not older than the
  last one of the same connection and it changes the status, the content, the user or the resource types.
  Otherwise there is no event and the snapshot stays.
\<close>

theorem notify_recorded_iff:
  assumes "nrq_CommandMetadata req = Some cm"
    and "handleNotifyResourceChangedRequest env c req v = (c', r)"
    and "rc = \<lparr>rch_ResourceId = nrq_ResourceId req, rch_Content = nrq_Content req, rch_Status = nrq_Status req,
        rch_AuditContext = Some (command_ac c []), rch_EventMetadata = Some (command_em env 0 c (Some cm) v),
        rch_Etag = nrq_Etag req,
        rch_ResourceTypes = resolveResourceTypes c (GetHref (nrq_ResourceId req)) (nrq_ResourceTypes req),
        rch_OpenTelemetryCarrier = env_Trace env\<rparr>"
  shows "(r = Inr [E_ResourceChanged rc] \<and> rs_LatestResourceChange (rsc_snap c') = Some rc \<or> r = Inr [] \<and> c' = c) \<and>
    (r = Inr [E_ResourceChanged rc] \<longleftrightarrow>
      (case rs_LatestResourceChange (rsc_snap c) of None \<Rightarrow> True
       | Some latest \<Rightarrow>
           (GetEmConnectionId (rch_EventMetadata latest) \<noteq> cm_ConnectionId cm \<or>
            GetEmSequence (rch_EventMetadata latest) < cm_Sequence cm) \<and>
           \<not> (rch_Status latest = nrq_Status req \<and>
              GetCoapContentFormat (rch_Content latest) = GetCoapContentFormat (nrq_Content req) \<and>
              GetContentType (rch_Content latest) = GetContentType (nrq_Content req) \<and>
              GetData (rch_Content latest) = GetData (nrq_Content req) \<and>
              GetUserId (rch_AuditContext latest) = rsc_userID c \<and>
              rch_ResourceTypes latest = rch_ResourceTypes rc)))"
  using assms
  by (auto simp: handleNotifyResourceChangedRequest_def handleEventResourceChanged_def ValidateSequence_def
      ResourceChanged_Equal_def command_em_def command_ac_def MakeEventMeta_def NewAuditContext_def Let_def
      split: option.splits if_splits)

definition ex_changed :: ResourceChanged where
  "ex_changed = \<lparr>rch_ResourceId = Some ex_rid, rch_Content = Some ex_content, rch_Status = Status_OK,
     rch_AuditContext = Some (command_ac ex_new []), rch_EventMetadata = Some (command_em ex_env 0 ex_new (Some ex_cm) 3),
     rch_Etag = [], rch_ResourceTypes = [''t''], rch_OpenTelemetryCarrier = []\<rparr>"

theorem notify_recorded_iff_witness:
  "snd (handleNotifyResourceChangedRequest ex_env ex_new ex_notify 3) = Inr [E_ResourceChanged ex_changed]"
proof -
  obtain c' r where h: "handleNotifyResourceChangedRequest ex_env ex_new ex_notify 3 = (c', r)" by fastforce
  have m: "nrq_CommandMetadata ex_notify = Some ex_cm" by (simp add: ex_notify_def)
  have n: "rs_LatestResourceChange (rsc_snap ex_new) = None" by code_simp
  have rt: "resolveResourceTypes ex_new (GetHref (nrq_ResourceId ex_notify)) (nrq_ResourceTypes ex_notify) = [''t'']"
    by code_simp
  have e: "ex_changed = \<lparr>rch_ResourceId = nrq_ResourceId ex_notify, rch_Content = nrq_Content ex_notify,
      rch_Status = nrq_Status ex_notify, rch_AuditContext = Some (command_ac ex_new []),
      rch_EventMetadata = Some (command_em ex_env 0 ex_new (Some ex_cm) 3), rch_Etag = nrq_Etag ex_notify,
      rch_ResourceTypes = resolveResourceTypes ex_new (GetHref (nrq_ResourceId ex_notify)) (nrq_ResourceTypes ex_notify),
      rch_OpenTelemetryCarrier = env_Trace ex_env\<rparr>"
    unfolding rt by (simp add: ex_changed_def ex_notify_def ex_env_def)
  from notify_recorded_iff [OF m h e] n h show ?thesis by simp
qed

end
