(* ===== verification/Resource_Links.thy ===== *)
theory Resource_Links
  imports Pending_Commands "HOL-Library.AList"
begin

text \<open>
  The published links of one device: \<^verbatim>\<open>resource-aggregate/events/resourceLinksSnapshotTaken.go\<close> and
  \<^verbatim>\<open>coap-gateway/resource/getInstanceID.go\<close>. The snapshot keeps a Go map from hrefs to resources, an
  association list with distinct keys here. Where the code ranges over the map, the order is the
  parameter \<open>ord\<close>, which may be any rearrangement of the entries (\<open>map_order_ok\<close>).
\<close>

unbundle bit_operations_syntax

section \<open>Iteration over a map\<close>

type_synonym links_map = "(string \<times> Resource) list"
type_synonym map_order = "links_map \<Rightarrow> links_map"

definition map_order_ok :: "map_order \<Rightarrow> bool" where
  "map_order_ok ord \<longleftrightarrow> (\<forall>m. mset (ord m) = mset m)"

section \<open>Instance identifiers\<close>

text \<open>
  CRC-32 with the IEEE polynomial, as \<^verbatim>\<open>hash/crc32\<close> computes it: the register starts with all ones,
  every byte is added to its low end and shifted out bit by bit, the result is complemented.
\<close>

definition crc32_shift :: "32 word \<Rightarrow> 32 word" where
  "crc32_shift c = (if bit c 0 then drop_bit 1 c XOR 0xEDB88320 else drop_bit 1 c)"

definition crc32_byte :: "32 word \<Rightarrow> nat \<Rightarrow> 32 word" where
  "crc32_byte c b = (crc32_shift ^^ 8) (c XOR of_nat b)"

definition crc32_IEEE :: "nat list \<Rightarrow> 32 word" where
  "crc32_IEEE bs = NOT (foldl crc32_byte (NOT 0) bs)"

definition GetInstanceID :: "string \<Rightarrow> i64" where
  "GetInstanceID href = uint (crc32_IEEE (map of_char href))"

section \<open>State\<close>

definition NewResourceLinksSnapshotTaken :: ResourceLinksSnapshotTaken where
  "NewResourceLinksSnapshotTaken =
     \<lparr>rls_DeviceId = [], rls_Resources = Some [], rls_EventMetadata = Some empty_EventMetadata,
      rls_AuditContext = None\<rparr>"

record ResourceLinksSnapshotTakenForCommand =
  rlc_userID :: string
  rlc_owner :: string
  rlc_hubID :: string
  rlc_snap :: ResourceLinksSnapshotTaken

definition NewResourceLinksSnapshotTakenForCommand ::
    "string \<Rightarrow> string \<Rightarrow> string \<Rightarrow> ResourceLinksSnapshotTakenForCommand" where
  "NewResourceLinksSnapshotTakenForCommand userID owner hubID =
     \<lparr>rlc_userID = userID, rlc_owner = owner, rlc_hubID = hubID, rlc_snap = NewResourceLinksSnapshotTaken\<rparr>"

text \<open>A nil map reads as an empty one.\<close>

definition links_of :: "ResourceLinksSnapshotTaken \<Rightarrow> links_map" where
  "links_of e = (case rls_Resources e of None \<Rightarrow> [] | Some m \<Rightarrow> m)"

definition CloneResourcesMap :: "links_map \<Rightarrow> links_map" where
  "CloneResourcesMap m = map (\<lambda>(k, v). (k, Resource_Clone v)) m"

definition ResourceLinksSnapshotTaken_CloneData ::
    "ResourceLinksSnapshotTaken \<Rightarrow> ResourceLinksSnapshotTaken \<Rightarrow> ResourceLinksSnapshotTaken" where
  "ResourceLinksSnapshotTaken_CloneData e ev =
     e\<lparr>rls_DeviceId := rls_DeviceId ev,
       rls_Resources := Some (CloneResourcesMap (links_of ev)),
       rls_EventMetadata := EventMetadata_Clone (rls_EventMetadata ev),
       rls_AuditContext := AuditContext_Clone (rls_AuditContext ev)\<rparr>"

section \<open>Publishing\<close>

definition GetNewPublishedLinks ::
    "ResourceLinksSnapshotTaken \<Rightarrow> ResourceLinksPublished \<Rightarrow> Resource list" where
  "GetNewPublishedLinks e pub =
     (case rls_Resources e of
        None \<Rightarrow> rlp_Resources pub
      | Some m \<Rightarrow>
          filter (\<lambda>resPub. case map_of m (res_Href resPub) of
                             None \<Rightarrow> True
                           | Some resSnap \<Rightarrow> \<not> EqualResource resPub resSnap)
            (rlp_Resources pub))"

fun put_links :: "links_map option \<Rightarrow> Resource list \<Rightarrow> links_map option" where
  "put_links m [] = m"
| "put_links m (res # rest) =
     put_links (Some (AList.update (res_Href res) res (case m of None \<Rightarrow> [] | Some m' \<Rightarrow> m'))) rest"

definition HandleEventResourceLinksPublished ::
    "ResourceLinksSnapshotTaken \<Rightarrow> ResourceLinksPublished \<Rightarrow> ResourceLinksSnapshotTaken \<times> Resource list" where
  "HandleEventResourceLinksPublished e pub =
     (let published = GetNewPublishedLinks e pub
      in (e\<lparr>rls_Resources := put_links (rls_Resources e) published,
            rls_DeviceId := rlp_DeviceId pub,
            rls_EventMetadata := rlp_EventMetadata pub,
            rls_AuditContext := rlp_AuditContext pub\<rparr>, published))"

section \<open>Unpublishing\<close>

text \<open>The two deletion loops, over hrefs and over instance identifiers.\<close>

fun unpublish_hrefs :: "links_map \<Rightarrow> string list \<Rightarrow> links_map \<times> string list" where
  "unpublish_hrefs m [] = (m, [])"
| "unpublish_hrefs m (href # hrefs) =
     (if map_of m href \<noteq> None
      then case unpublish_hrefs (AList.delete href m) hrefs of (m', u) \<Rightarrow> (m', href # u)
      else unpublish_hrefs m hrefs)"

definition instance_index :: "links_map \<Rightarrow> (i64 \<times> string) list" where
  "instance_index entries = foldl (\<lambda>ix (href, _). AList.update (GetInstanceID href) href ix) [] entries"

fun unpublish_instances ::
    "(i64 \<times> string) list \<Rightarrow> links_map \<Rightarrow> i64 list \<Rightarrow> links_map \<times> string list" where
  "unpublish_instances ix m [] = (m, [])"
| "unpublish_instances ix m (insID # ids) =
     (case map_of ix insID of
        None \<Rightarrow> unpublish_instances ix m ids
      | Some href \<Rightarrow>
          (case unpublish_instances (AList.delete insID ix) (AList.delete href m) ids of
             (m', u) \<Rightarrow> (m', href # u)))"

definition unpublishResourceLinksAndUpdateCache ::
    "map_order \<Rightarrow> ResourceLinksSnapshotTaken \<Rightarrow> i64 list \<Rightarrow> ResourceLinksUnpublished
     \<Rightarrow> ResourceLinksSnapshotTaken \<times> string list" where
  "unpublishResourceLinksAndUpdateCache ord e instanceIDs upub =
     (if length (links_of e) = 0 then (e, [])
      else if length (rlu_Hrefs upub) = 0 \<and> length instanceIDs = 0
      then (e\<lparr>rls_Resources := Some []\<rparr>, map fst (ord (links_of e)))
      else case unpublish_hrefs (links_of e) (rlu_Hrefs upub) of
        (m, unpublished) \<Rightarrow>
          if length instanceIDs = 0 then (e\<lparr>rls_Resources := Some m\<rparr>, unpublished)
          else case unpublish_instances (instance_index (ord m)) m instanceIDs of
            (m', byId) \<Rightarrow> (e\<lparr>rls_Resources := Some m'\<rparr>, unpublished @ byId))"

definition HandleEventResourceLinksUnpublished ::
    "map_order \<Rightarrow> ResourceLinksSnapshotTaken \<Rightarrow> i64 list \<Rightarrow> ResourceLinksUnpublished
     \<Rightarrow> ResourceLinksSnapshotTaken \<times> string list" where
  "HandleEventResourceLinksUnpublished ord e instanceIDs upub =
     (case unpublishResourceLinksAndUpdateCache ord e instanceIDs upub of
        (e', unpublished) \<Rightarrow>
          (e'\<lparr>rls_EventMetadata := rlu_EventMetadata upub, rls_AuditContext := rlu_AuditContext upub\<rparr>,
           unpublished))"

section \<open>Events\<close>

definition HandleEventResourceLinksSnapshotTaken ::
    "ResourceLinksSnapshotTaken \<Rightarrow> ResourceLinksSnapshotTaken \<Rightarrow> ResourceLinksSnapshotTaken" where
  "HandleEventResourceLinksSnapshotTaken e s = ResourceLinksSnapshotTaken_CopyData e s"

definition ResourceLinks_handleByEvent ::
    "map_order \<Rightarrow> ResourceLinksSnapshotTaken \<Rightarrow> EventUnmarshaler \<Rightarrow> ResourceLinksSnapshotTaken \<times> unit res" where
  "ResourceLinks_handleByEvent ord e eu =
     (if eu_EventType eu = ''resourcelinkssnapshottaken'' then
        (case Unmarshal_as sel_ResourceLinksSnapshotTaken eu of
           Inl err \<Rightarrow> (e, Inl err)
         | Inr s \<Rightarrow> (HandleEventResourceLinksSnapshotTaken e s, Inr ()))
      else if eu_EventType eu = ''resourcelinkspublished'' then
        (case Unmarshal_as sel_ResourceLinksPublished eu of
           Inl err \<Rightarrow> (e, Inl err)
         | Inr s \<Rightarrow> (fst (HandleEventResourceLinksPublished e s), Inr ()))
      else if eu_EventType eu = ''resourcelinksunpublished'' then
        (case Unmarshal_as sel_ResourceLinksUnpublished eu of
           Inl err \<Rightarrow> (e, Inl err)
         | Inr s \<Rightarrow> (fst (HandleEventResourceLinksUnpublished ord e [] s), Inr ()))
      else (e, Inr ()))"

definition ResourceLinks_Handle ::
    "map_order \<Rightarrow> ResourceLinksSnapshotTaken \<Rightarrow> EventUnmarshaler list \<Rightarrow> error option
     \<Rightarrow> ResourceLinksSnapshotTaken \<times> unit res" where
  "ResourceLinks_Handle ord e eus iterErr =
     iterate_events (\<lambda>_. ResourceLinks_handleByEvent ord) 0 e eus iterErr"

section \<open>Commands\<close>

datatype links_command =
    PublishResourceLinks PublishResourceLinksRequest
  | UnpublishResourceLinks UnpublishResourceLinksRequest
  | UnknownLinksCommand string

definition errInvalidVersion :: error where
  "errInvalidVersion = GrpcStatus NotFound ''invalid version for events'' []"

definition ResourceLinks_HandleCommand ::
    "map_order \<Rightarrow> command_env \<Rightarrow> ResourceLinksSnapshotTakenForCommand \<Rightarrow> links_command \<Rightarrow> u64
     \<Rightarrow> ResourceLinksSnapshotTakenForCommand \<times> any_event list res" where
  "ResourceLinks_HandleCommand ord env c cmd newVersion =
     (case cmd of
        PublishResourceLinks req \<Rightarrow>
          (case plr_CommandMetadata req of
             None \<Rightarrow> (c, Inl errInvalidCommandMetadata)
           | Some cm \<Rightarrow>
               (let rlp = \<lparr>rlp_DeviceId = plr_DeviceId req, rlp_Resources = plr_Resources req,
                           rlp_AuditContext = Some (NewAuditContext (rlc_userID c) [] (rlc_owner c)),
                           rlp_EventMetadata = Some (MakeEventMeta (env_Now_meta env 0)
                              (cm_ConnectionId cm) (cm_Sequence cm) newVersion (rlc_hubID c)),
                           rlp_OpenTelemetryCarrier = env_Trace env\<rparr>
                in case HandleEventResourceLinksPublished (rlc_snap c) rlp of
                     (e', published) \<Rightarrow>
                       (c\<lparr>rlc_snap := e'\<rparr>,
                        if length published = 0 then Inr []
                        else Inr [E_ResourceLinksPublished (rlp\<lparr>rlp_Resources := published\<rparr>)])))
      | UnpublishResourceLinks req \<Rightarrow>
          (if newVersion = 0 then (c, Inl errInvalidVersion)
           else case ulr_CommandMetadata req of
             None \<Rightarrow> (c, Inl errInvalidCommandMetadata)
           | Some cm \<Rightarrow>
               (let rlu = \<lparr>rlu_DeviceId = ulr_DeviceId req, rlu_Hrefs = ulr_Hrefs req,
                           rlu_AuditContext = Some (NewAuditContext (rlc_userID c) [] (rlc_owner c)),
                           rlu_EventMetadata = Some (MakeEventMeta (env_Now_meta env 0)
                              (cm_ConnectionId cm) (cm_Sequence cm) newVersion (rlc_hubID c)),
                           rlu_OpenTelemetryCarrier = env_Trace env\<rparr>
                in case HandleEventResourceLinksUnpublished ord (rlc_snap c) (ulr_InstanceIds req) rlu of
                     (e', unpublished) \<Rightarrow>
                       (c\<lparr>rlc_snap := e'\<rparr>,
                        if length unpublished = 0 then Inr []
                        else Inr [E_ResourceLinksUnpublished (rlu\<lparr>rlu_Hrefs := unpublished\<rparr>)])))
      | UnknownLinksCommand t \<Rightarrow> (c, Inl (Errorf ''unknown command (%T)'' [t])))"

definition ResourceLinks_TakeSnapshot ::
    "gotime \<Rightarrow> ResourceLinksSnapshotTaken \<Rightarrow> u64 \<Rightarrow> ResourceLinksSnapshotTaken" where
  "ResourceLinks_TakeSnapshot now e version =
     \<lparr>rls_DeviceId = rls_DeviceId e,
      rls_Resources = Some (foldl (\<lambda>m (key, resource). AList.update key resource m) [] (links_of e)),
      rls_EventMetadata = Some (MakeEventMeta now (GetEmConnectionId (rls_EventMetadata e))
        (GetEmSequence (rls_EventMetadata e)) version (GetHubId (rls_EventMetadata e))),
      rls_AuditContext = rls_AuditContext e\<rparr>"

definition ToResourceLinksPublished :: "map_order \<Rightarrow> ResourceLinksSnapshotTaken \<Rightarrow> ResourceLinksPublished" where
  "ToResourceLinksPublished ord e =
     \<lparr>rlp_DeviceId = rls_DeviceId e, rlp_Resources = map snd (ord (links_of e)),
      rlp_AuditContext = rls_AuditContext e, rlp_EventMetadata = rls_EventMetadata e,
      rlp_OpenTelemetryCarrier = []\<rparr>"

section \<open>Facts about the helpers\<close>

lemma crc32_byte_unfold: "crc32_byte c b = crc32_shift (crc32_shift (crc32_shift (crc32_shift
   (crc32_shift (crc32_shift (crc32_shift (crc32_shift (c XOR of_nat b))))))))"
  by (simp add: crc32_byte_def numeral_eq_Suc)

text \<open>The published check value of CRC-32.\<close>

lemma crc32_check_value: "crc32_IEEE (map of_char ''123456789'') = 0xCBF43926"
  by (simp add: crc32_IEEE_def crc32_byte_unfold crc32_shift_def)

lemma links_of_simps [simp]:
  "links_of (e\<lparr>rls_EventMetadata := em\<rparr>) = links_of e"
  "links_of (e\<lparr>rls_AuditContext := ac\<rparr>) = links_of e"
  "links_of (e\<lparr>rls_DeviceId := d\<rparr>) = links_of e"
  "links_of (e\<lparr>rls_Resources := r\<rparr>) = (case r of None \<Rightarrow> [] | Some m \<Rightarrow> m)"
  by (simp_all add: links_of_def)

lemma map_order_okD:
  assumes "map_order_ok ord"
  shows "set (ord m) = set m" and "distinct (map fst m) \<Longrightarrow> distinct (map fst (ord m))"
proof -
  have m: "mset (ord m) = mset m" using assms by (simp add: map_order_ok_def)
  then show "set (ord m) = set m" by (rule mset_eq_setD)
  have "mset (map fst (ord m)) = mset (map fst m)" using m by (simp only: mset_map)
  then show "distinct (map fst m) \<Longrightarrow> distinct (map fst (ord m))" by (metis mset_eq_imp_distinct_iff)
qed

text \<open>The well-formed maps: one entry per href, filed under the href of its resource.\<close>

definition links_ok :: "links_map \<Rightarrow> bool" where
  "links_ok m \<longleftrightarrow> distinct (map fst m) \<and> (\<forall>(k, v) \<in> set m. res_Href v = k)"

lemma delete_filter: "AList.delete k m = filter (\<lambda>(k', _). k' \<noteq> k) m"
  by (auto simp: AList.delete_eq intro!: filter_cong)

lemma keys_delete: "fst ` set (AList.delete k m) = fst ` set m - {k}"
  by (auto simp: delete_filter image_iff)

lemma links_ok_filter: "links_ok m \<Longrightarrow> links_ok (filter P m)"
  by (auto simp: links_ok_def distinct_map_filter)

lemma set_update_subset: "set (AList.update k v m) \<subseteq> insert (k, v) (set m)"
  by (induction m) auto

lemma links_ok_put:
  assumes "links_ok (case m of None \<Rightarrow> [] | Some m' \<Rightarrow> m')"
  shows "links_ok (case put_links m rs of None \<Rightarrow> [] | Some m' \<Rightarrow> m')"
  using assms
proof (induction m rs rule: put_links.induct)
  case (2 m res rest)
  let ?m = "case m of None \<Rightarrow> [] | Some m' \<Rightarrow> m'"
  have "links_ok (AList.update (res_Href res) res ?m)"
    using "2.prems" set_update_subset [of "res_Href res" res ?m] by (auto simp: links_ok_def distinct_update)
  with "2.IH" show ?case by simp
qed simp

lemma put_links_lookup:
  "map_of (case put_links m rs of None \<Rightarrow> [] | Some m' \<Rightarrow> m') =
     map_of (case m of None \<Rightarrow> [] | Some m' \<Rightarrow> m') ++ map_of (rev (map (\<lambda>r. (res_Href r, r)) rs))"
  by (induction m rs rule: put_links.induct) (simp_all add: update_conv' map_add_def fun_eq_iff split: option.splits)

section \<open>Publishing\<close>

lemma new_links_filter:
  "GetNewPublishedLinks e pub =
     filter (\<lambda>r. case map_of (links_of e) (res_Href r) of None \<Rightarrow> True | Some s \<Rightarrow> \<not> EqualResource r s)
       (rlp_Resources pub)"
  by (auto simp: GetNewPublishedLinks_def links_of_def split: option.splits)

lemma publish_links:
  "links_of (fst (HandleEventResourceLinksPublished e pub)) =
     (case put_links (rls_Resources e) (GetNewPublishedLinks e pub) of None \<Rightarrow> [] | Some m \<Rightarrow> m)"
  by (simp add: HandleEventResourceLinksPublished_def Let_def)

lemma find_absent: "f r \<notin> f ` set rs \<Longrightarrow> List.find (\<lambda>x. f x = f r) (filter P rs) = None"
  by (induction rs) auto

lemma map_of_rev_distinct:
  assumes "distinct (map res_Href rs)"
  shows "map_of (rev (map (\<lambda>r. (res_Href r, r)) rs)) h = List.find (\<lambda>r. res_Href r = h) rs"
  using assms
proof (induction rs)
  case (Cons r rs)
  have "List.find (\<lambda>r. res_Href r = h) rs = None" if "res_Href r = h"
    using Cons.prems that find_absent [of res_Href r rs "\<lambda>_. True"] by simp
  with Cons show ?case by (auto simp: map_add_def split: option.splits)
qed simp

lemma find_filter_distinct:
  assumes "distinct (map f rs)" and "r \<in> set rs"
  shows "List.find (\<lambda>x. f x = f r) (filter P rs) = (if P r then Some r else None)"
  using assms
proof (induction rs)
  case (Cons a rs)
  show ?case
  proof (cases "a = r")
    case True
    with Cons.prems have "f r \<notin> f ` set rs" by simp
    with True find_absent [of f r rs P] show ?thesis by simp
  next
    case False
    with Cons.prems have "f a \<noteq> f r" by auto
    with Cons False show ?thesis by simp
  qed
qed simp

lemma publish_lookup:
  assumes "distinct (map res_Href (rlp_Resources pub))"
  shows "r \<in> set (rlp_Resources pub) \<Longrightarrow>
           map_of (links_of (fst (HandleEventResourceLinksPublished e pub))) (res_Href r) =
           Some (case map_of (links_of e) (res_Href r) of None \<Rightarrow> r | Some s \<Rightarrow> if EqualResource r s then s else r)"
    and "h \<notin> set (map res_Href (rlp_Resources pub)) \<Longrightarrow>
           map_of (links_of (fst (HandleEventResourceLinksPublished e pub))) h = map_of (links_of e) h"
proof -
  have d: "distinct (map res_Href (GetNewPublishedLinks e pub))"
    using assms by (simp add: new_links_filter distinct_map_filter)
  have look: "map_of (links_of (fst (HandleEventResourceLinksPublished e pub))) h =
      (case List.find (\<lambda>r. res_Href r = h) (GetNewPublishedLinks e pub) of None \<Rightarrow> map_of (links_of e) h | Some r \<Rightarrow> Some r)" for h
    unfolding publish_links put_links_lookup
    by (simp add: map_add_def map_of_rev_distinct [OF d] links_of_def split: option.split)
  show "map_of (links_of (fst (HandleEventResourceLinksPublished e pub))) (res_Href r) =
      Some (case map_of (links_of e) (res_Href r) of None \<Rightarrow> r | Some s \<Rightarrow> if EqualResource r s then s else r)"
    if "r \<in> set (rlp_Resources pub)"
    unfolding look new_links_filter find_filter_distinct [OF assms that]
    by (auto split: option.splits)
  show "map_of (links_of (fst (HandleEventResourceLinksPublished e pub))) h = map_of (links_of e) h"
    if "h \<notin> set (map res_Href (rlp_Resources pub))"
  proof -
    have "List.find (\<lambda>r. res_Href r = h) (GetNewPublishedLinks e pub) = None"
      using that by (auto simp: find_None_iff new_links_filter)
    then show ?thesis by (simp add: look)
  qed
qed

section \<open>Unpublishing\<close>

lemma unpublish_hrefs_spec:
  "unpublish_hrefs m hs = (m', u) \<Longrightarrow>
     m' = filter (\<lambda>(k, _). k \<notin> set u) m \<and> distinct u \<and> set u = set hs \<inter> fst ` set m"
proof (induction m hs arbitrary: m' u rule: unpublish_hrefs.induct)
  case (2 m href hrefs)
  show ?case
  proof (cases "map_of m href")
    case None
    with 2 show ?thesis by (auto simp: map_of_eq_None_iff)
  next
    case (Some r)
    with "2.prems" obtain u' where u: "unpublish_hrefs (AList.delete href m) hrefs = (m', u')" "u = href # u'"
      by (auto split: prod.splits)
    from Some "2.IH"(1) [OF _ u(1)] have
      ih: "m' = filter (\<lambda>(k, _). k \<notin> set u') (AList.delete href m)" "distinct u'"
        "set u' = set hrefs \<inter> fst ` set (AList.delete href m)" by auto
    have "m' = filter (\<lambda>(k, _). k \<notin> set u) m"
      unfolding ih(1) u(2) delete_filter filter_filter by (rule filter_cong) auto
    moreover have "href \<in> fst ` set m" using Some by (metis map_of_eq_None_iff option.simps(3))
    then have "distinct u" "set u = set (href # hrefs) \<inter> fst ` set m"
      using ih(2,3) u(2) by (auto simp: delete_filter)
    ultimately show ?thesis by blast
  qed
qed auto

definition index_ok :: "(i64 \<times> string) list \<Rightarrow> links_map \<Rightarrow> bool" where
  "index_ok ix m \<longleftrightarrow> (\<forall>i h. map_of ix i = Some h \<longrightarrow> GetInstanceID h = i \<and> h \<in> fst ` set m)"

definition index_put :: "(i64 \<times> string) list \<Rightarrow> string \<times> Resource \<Rightarrow> (i64 \<times> string) list" where
  "index_put ix p = AList.update (GetInstanceID (fst p)) (fst p) ix"

lemma instance_index_fold: "instance_index es = foldl index_put [] es"
  by (simp add: instance_index_def index_put_def [abs_def] case_prod_unfold)

lemma index_put_ok: "index_ok ix m \<Longrightarrow> p \<in> set m \<Longrightarrow> index_ok (index_put ix p) m"
  by (simp add: index_ok_def index_put_def update_conv')

lemma index_fold_ok: "index_ok ix m \<Longrightarrow> set es \<subseteq> set m \<Longrightarrow> index_ok (foldl index_put ix es) m"
  by (induction es arbitrary: ix) (simp_all add: index_put_ok)

lemma index_fold_dom:
  "dom (map_of (foldl index_put ix es)) = dom (map_of ix) \<union> GetInstanceID ` fst ` set es"
  by (induction es arbitrary: ix) (simp_all add: index_put_def update_conv')

lemma instance_index_ok:
  assumes "set es = set m"
  shows "index_ok (instance_index es) m"
    and "i \<in> GetInstanceID ` fst ` set m \<Longrightarrow> map_of (instance_index es) i \<noteq> None"
proof -
  have "index_ok [] m" by (simp add: index_ok_def)
  then show "index_ok (instance_index es) m"
    unfolding instance_index_fold using assms by (intro index_fold_ok) simp_all
  show "map_of (instance_index es) i \<noteq> None" if "i \<in> GetInstanceID ` fst ` set m"
    using that index_fold_dom [of "[]" es] assms unfolding instance_index_fold by blast
qed

lemma unpublish_instances_spec:
  "unpublish_instances ix m ids = (m', u) \<Longrightarrow> index_ok ix m \<Longrightarrow>
     m' = filter (\<lambda>(k, _). k \<notin> set u) m \<and> distinct u \<and>
     (\<forall>h \<in> set u. h \<in> fst ` set m \<and> GetInstanceID h \<in> set ids) \<and>
     (\<forall>i \<in> set ids. map_of ix i \<noteq> None \<longrightarrow> (\<exists>h \<in> set u. GetInstanceID h = i))"
proof (induction ix m ids arbitrary: m' u rule: unpublish_instances.induct)
  case (2 ix m insID ids)
  show ?case
  proof (cases "map_of ix insID")
    case None
    with 2 show ?thesis by auto
  next
    case (Some href)
    with "2.prems"(1) obtain u' where
      u: "unpublish_instances (AList.delete insID ix) (AList.delete href m) ids = (m', u')" "u = href # u'"
      by (auto split: prod.splits)
    from Some "2.prems"(2) have h: "GetInstanceID href = insID" "href \<in> fst ` set m" by (auto simp: index_ok_def)
    have "index_ok (AList.delete insID ix) (AList.delete href m)"
      using "2.prems"(2) h by (auto simp: index_ok_def delete_conv' keys_delete split: if_splits)
    note ih = "2.IH"(2) [OF Some u(1) this]
    have "m' = filter (\<lambda>(k, _). k \<notin> set u) m"
      unfolding ih [THEN conjunct1] u(2) delete_filter filter_filter by (rule filter_cong) auto
    moreover have "\<forall>i \<in> set (insID # ids). map_of ix i \<noteq> None \<longrightarrow> (\<exists>h \<in> set u. GetInstanceID h = i)"
    proof (intro ballI impI)
      fix i assume "i \<in> set (insID # ids)" "map_of ix i \<noteq> None"
      with ih h u(2) show "\<exists>h \<in> set u. GetInstanceID h = i"
        by (cases "i = insID") (auto simp: delete_conv')
    qed
    moreover have "distinct u" "\<forall>h \<in> set u. h \<in> fst ` set m \<and> GetInstanceID h \<in> set (insID # ids)"
      using ih h u(2) by (auto simp: delete_filter)
    ultimately show ?thesis by blast
  qed
qed auto

lemma unpublish_spec:
  assumes "map_order_ok ord" and "distinct (map fst (links_of e))"
    and "unpublishResourceLinksAndUpdateCache ord e ids upub = (e', u)"
  shows "e' = (if links_of e = [] then e else e\<lparr>rls_Resources := Some (filter (\<lambda>(k, _). k \<notin> set u) (links_of e))\<rparr>)"
    and "distinct u" and "set u \<subseteq> fst ` set (links_of e)"
    and "rlu_Hrefs upub = [] \<Longrightarrow> ids = [] \<Longrightarrow> set u = fst ` set (links_of e)"
    and "rlu_Hrefs upub \<noteq> [] \<or> ids \<noteq> [] \<Longrightarrow>
      (\<forall>h \<in> set u. h \<in> set (rlu_Hrefs upub) \<or> GetInstanceID h \<in> set ids) \<and>
      set (rlu_Hrefs upub) \<inter> fst ` set (links_of e) \<subseteq> set u \<and>
      (\<forall>i \<in> set ids. (\<exists>h \<in> fst ` set (links_of e) - set (rlu_Hrefs upub). GetInstanceID h = i) \<longrightarrow>
         (\<exists>h \<in> set u. GetInstanceID h = i))"
proof -
  let ?m = "links_of e" and ?hs = "rlu_Hrefs upub"
  let ?goal = "e' = (if ?m = [] then e else e\<lparr>rls_Resources := Some (filter (\<lambda>(k, _). k \<notin> set u) ?m)\<rparr>) \<and>
      distinct u \<and> set u \<subseteq> fst ` set ?m \<and> (?hs = [] \<longrightarrow> ids = [] \<longrightarrow> set u = fst ` set ?m) \<and>
      (?hs \<noteq> [] \<or> ids \<noteq> [] \<longrightarrow> (\<forall>h \<in> set u. h \<in> set ?hs \<or> GetInstanceID h \<in> set ids) \<and>
        set ?hs \<inter> fst ` set ?m \<subseteq> set u \<and>
        (\<forall>i \<in> set ids. (\<exists>h \<in> fst ` set ?m - set ?hs. GetInstanceID h = i) \<longrightarrow> (\<exists>h \<in> set u. GetInstanceID h = i)))"
  note d = unpublishResourceLinksAndUpdateCache_def
  consider "?m = []" | "?m \<noteq> []" "?hs = [] \<and> ids = []" | "?m \<noteq> []" "\<not> (?hs = [] \<and> ids = [])" by blast
  then have ?goal
  proof cases
    case 1
    with assms(3) show ?thesis by (simp add: d)
  next
    case 2
    with assms(3) have u: "e' = e\<lparr>rls_Resources := Some []\<rparr>" "u = map fst (ord ?m)" by (auto simp: d)
    have s: "set u = fst ` set ?m" using u(2) map_order_okD(1) [OF assms(1)] by simp
    then have "filter (\<lambda>(k, _). k \<notin> set u) ?m = []" by (auto simp: filter_empty_conv image_iff)
    with 2 u s map_order_okD(2) [OF assms(1,2)] show ?thesis by auto
  next
    case 3
    obtain m1 u1 where h: "unpublish_hrefs ?m ?hs = (m1, u1)" by fastforce
    obtain m2 u2 where i: "unpublish_instances (instance_index (ord m1)) m1 ids = (m2, u2)" by fastforce
    from 3 assms(3) h i have eu: "e' = e\<lparr>rls_Resources := Some m2\<rparr> \<and> u = u1 @ u2"
      by (cases "ids = []") (auto simp: d)
    note s1 = unpublish_hrefs_spec [OF h]
    have o: "set (ord m1) = set m1" by (rule map_order_okD(1) [OF assms(1)])
    note s2 = unpublish_instances_spec [OF i instance_index_ok(1) [OF o]]
    have k1: "fst ` set m1 = fst ` set ?m - set u1" using s1 by force
    have m2: "m2 = filter (\<lambda>(k, _). k \<notin> set u) ?m"
      using s2 [THEN conjunct1] s1 eu by (auto intro!: filter_cong)
    have ids: "\<exists>h \<in> set u. GetInstanceID h = j"
      if "j \<in> set ids" "x \<in> fst ` set ?m - set ?hs" "GetInstanceID x = j" for j x
    proof -
      from that s1 k1 have "x \<in> fst ` set m1" by blast
      with that have "map_of (instance_index (ord m1)) j \<noteq> None"
        by (intro instance_index_ok(2) [OF o]) auto
      with s2 that eu show ?thesis by auto
    qed
    show ?thesis
    proof (intro conjI impI)
      show "e' = (if ?m = [] then e else e\<lparr>rls_Resources := Some (filter (\<lambda>(k, _). k \<notin> set u) ?m)\<rparr>)"
        using eu m2 3(1) by simp
      show "distinct u" using eu s1 s2 k1 by auto
      show "set u \<subseteq> fst ` set ?m" using eu s1 s2 k1 by auto
      show "?hs = [] \<Longrightarrow> ids = [] \<Longrightarrow> set u = fst ` set ?m" using 3(2) by blast
      show "\<forall>h \<in> set u. h \<in> set ?hs \<or> GetInstanceID h \<in> set ids" using eu s1 s2 by auto
      show "set ?hs \<inter> fst ` set ?m \<subseteq> set u" using eu s1 by auto
      show "\<forall>i \<in> set ids. (\<exists>h \<in> fst ` set ?m - set ?hs. GetInstanceID h = i) \<longrightarrow> (\<exists>h \<in> set u. GetInstanceID h = i)"
        using ids by blast
    qed
  qed
  then show "e' = (if ?m = [] then e else e\<lparr>rls_Resources := Some (filter (\<lambda>(k, _). k \<notin> set u) ?m)\<rparr>)"
    and "distinct u" and "set u \<subseteq> fst ` set ?m"
    and "?hs = [] \<Longrightarrow> ids = [] \<Longrightarrow> set u = fst ` set ?m"
    and "?hs \<noteq> [] \<or> ids \<noteq> [] \<Longrightarrow> (\<forall>h \<in> set u. h \<in> set ?hs \<or> GetInstanceID h \<in> set ids) \<and>
        set ?hs \<inter> fst ` set ?m \<subseteq> set u \<and>
        (\<forall>i \<in> set ids. (\<exists>h \<in> fst ` set ?m - set ?hs. GetInstanceID h = i) \<longrightarrow> (\<exists>h \<in> set u. GetInstanceID h = i))"
    by blast+
qed

section \<open>Well-formedness of the map\<close>

abbreviation wf_links :: "ResourceLinksSnapshotTaken \<Rightarrow> bool" where
  "wf_links e \<equiv> links_ok (links_of e)"

lemma publish_wf: "wf_links e \<Longrightarrow> wf_links (fst (HandleEventResourceLinksPublished e pub))"
  unfolding publish_links by (rule links_ok_put) (simp add: links_of_def)

lemma unpublish_wf:
  assumes "map_order_ok ord" and "wf_links e"
  shows "wf_links (fst (HandleEventResourceLinksUnpublished ord e ids upub))"
proof -
  obtain e' u where r: "unpublishResourceLinksAndUpdateCache ord e ids upub = (e', u)" by fastforce
  from assms(2) have "distinct (map fst (links_of e))" by (simp add: links_ok_def)
  from unpublish_spec(1) [OF assms(1) this r] assms(2) links_ok_filter r show ?thesis
    by (auto simp: HandleEventResourceLinksUnpublished_def)
qed

lemmas links_command_defs = ResourceLinks_HandleCommand_def Let_def

lemma links_command_wf:
  assumes "map_order_ok ord" and "wf_links (rlc_snap c)"
  shows "wf_links (rlc_snap (fst (ResourceLinks_HandleCommand ord env c cmd v)))"
proof (cases cmd)
  case (PublishResourceLinks req)
  with assms publish_wf show ?thesis
    by (auto simp: links_command_defs split: option.splits prod.splits; metis fst_conv)
next
  case (UnpublishResourceLinks req)
  with assms unpublish_wf [OF assms] show ?thesis
    by (auto simp: links_command_defs split: option.splits prod.splits; metis fst_conv)
next
  case (UnknownLinksCommand t)
  with assms show ?thesis by (simp add: links_command_defs)
qed

text \<open>
  The states of the links of a device: a new snapshot, changed by commands and by the events of other
  writers, where a stored snapshot is one that was taken of such a state.
\<close>

inductive links_reachable :: "map_order \<Rightarrow> ResourceLinksSnapshotTaken \<Rightarrow> bool" for ord where
  start: "links_reachable ord NewResourceLinksSnapshotTaken"
| command: "links_reachable ord (rlc_snap c) \<Longrightarrow>
    links_reachable ord (rlc_snap (fst (ResourceLinks_HandleCommand ord env c cmd v)))"
| published: "links_reachable ord e \<Longrightarrow> links_reachable ord (fst (HandleEventResourceLinksPublished e pub))"
| unpublished: "links_reachable ord e \<Longrightarrow>
    links_reachable ord (fst (HandleEventResourceLinksUnpublished ord e [] upub))"
| reload: "links_reachable ord e \<Longrightarrow> links_reachable ord s \<Longrightarrow>
    links_reachable ord (HandleEventResourceLinksSnapshotTaken e (ResourceLinks_TakeSnapshot now s v))"

lemma update_new_key: "k \<notin> fst ` set m \<Longrightarrow> AList.update k v m = m @ [(k, v)]"
  by (induction m) auto

lemma snapshot_copy:
  "distinct (map fst (acc @ m)) \<Longrightarrow> foldl (\<lambda>m (key, resource). AList.update key resource m) acc m = acc @ m"
proof (induction m arbitrary: acc)
  case (Cons p m)
  obtain k r where p: "p = (k, r)" by (cases p)
  with Cons.prems have "k \<notin> fst ` set acc" by force
  then have "AList.update k r acc = acc @ [(k, r)]" by (rule update_new_key)
  with Cons p show ?case by simp
qed simp

lemma reload_links:
  assumes "wf_links s"
  shows "links_of (HandleEventResourceLinksSnapshotTaken e (ResourceLinks_TakeSnapshot now s v)) = links_of s"
  using snapshot_copy [of "[]" "links_of s"] assms
  by (simp add: HandleEventResourceLinksSnapshotTaken_def ResourceLinks_TakeSnapshot_def
      ResourceLinksSnapshotTaken_CopyData_def links_of_def links_ok_def)

lemma links_reachable_wf: "links_reachable ord e \<Longrightarrow> map_order_ok ord \<Longrightarrow> wf_links e"
proof (induction rule: links_reachable.induct)
  case start
  then show ?case by (simp add: NewResourceLinksSnapshotTaken_def links_of_def links_ok_def)
next
  case (reload e s now v)
  then show ?case by (simp add: reload_links)
qed (auto intro: links_command_wf publish_wf unpublish_wf)

section \<open>Commands against the replay of their events\<close>

lemma republish:
  assumes "HandleEventResourceLinksPublished e pub = (e', published)" and "published \<noteq> []"
  shows "HandleEventResourceLinksPublished e (pub\<lparr>rlp_Resources := published\<rparr>) = (e', published)"
  using assms by (auto simp: HandleEventResourceLinksPublished_def new_links_filter Let_def)

lemma all_keys_unpublish:
  assumes "unpublishResourceLinksAndUpdateCache ord e ids upub = (e', u)" and "u \<noteq> []"
    and "map_order_ok ord" and "distinct (map fst (links_of e))"
  shows "unpublishResourceLinksAndUpdateCache ord' e [] (upub\<lparr>rlu_Hrefs := u\<rparr>) = (e', u)"
proof -
  note sp = unpublish_spec [OF assms(3,4,1)]
  have ne: "links_of e \<noteq> []" using sp(3) assms(2) by auto
  obtain m1 u1 where h: "unpublish_hrefs (links_of e) u = (m1, u1)" by fastforce
  note s1 = unpublish_hrefs_spec [OF h]
  have "unpublish_hrefs m xs = (filter (\<lambda>(k, _). k \<notin> set xs) m, xs)"
    if "distinct xs" "set xs \<subseteq> fst ` set m" for xs and m :: links_map
    using that
  proof (induction xs arbitrary: m)
    case Nil
    then show ?case by (simp add: filter_True)
  next
    case (Cons x xs)
    then have "map_of m x \<noteq> None" and sub: "set xs \<subseteq> fst ` set (AList.delete x m)"
      by (auto simp: map_of_eq_None_iff keys_delete)
    moreover have "filter (\<lambda>(k, _). k \<notin> set xs) (AList.delete x m) = filter (\<lambda>(k, _). k \<notin> set (x # xs)) m"
      unfolding delete_filter filter_filter by (rule filter_cong) auto
    ultimately show ?case using Cons.IH [OF _ sub] Cons.prems by simp
  qed
  from this [OF sp(2,3)] sp(1) ne assms(2) show ?thesis
    by (simp add: unpublishResourceLinksAndUpdateCache_def)
qed

lemma reunpublish:
  assumes "HandleEventResourceLinksUnpublished ord e ids upub = (e', u)" and "u \<noteq> []"
    and "map_order_ok ord" and "distinct (map fst (links_of e))"
  shows "HandleEventResourceLinksUnpublished ord' e [] (upub\<lparr>rlu_Hrefs := u\<rparr>) = (e', u)"
proof -
  obtain e1 where r: "unpublishResourceLinksAndUpdateCache ord e ids upub = (e1, u)"
    using assms(1) by (auto simp: HandleEventResourceLinksUnpublished_def split: prod.splits)
  from all_keys_unpublish [OF r assms(2-4)] r assms(1) show ?thesis
    by (auto simp: HandleEventResourceLinksUnpublished_def)
qed

lemma links_handle_stored:
  "ResourceLinks_Handle ord e [stored U (E_ResourceLinksPublished p)] None =
     (fst (HandleEventResourceLinksPublished e p), Inr ())"
  "ResourceLinks_Handle ord e [stored U (E_ResourceLinksUnpublished q)] None =
     (fst (HandleEventResourceLinksUnpublished ord e [] q), Inr ())"
  by (simp_all add: ResourceLinks_Handle_def ResourceLinks_handleByEvent_def stored_def event_table_defs
      Unmarshal_as_def sel_defs)

section \<open>Properties\<close>

definition ex_link :: "string \<Rightarrow> string \<Rightarrow> Resource" where
  "ex_link href title = \<lparr>res_Href = href, res_DeviceId = ''d'', res_ResourceTypes = [''t''], res_Interfaces = [''if''],
     res_Anchor = [], res_Title = title, res_SupportedContentTypes = [], res_ValidUntil = 0, res_Policy = None,
     res_EndpointInformations = []\<rparr>"

definition ex_pub :: "Resource list \<Rightarrow> ResourceLinksPublished" where
  "ex_pub rs = \<lparr>rlp_DeviceId = ''d'', rlp_Resources = rs, rlp_AuditContext = None, rlp_EventMetadata = None,
     rlp_OpenTelemetryCarrier = []\<rparr>"

definition ex_unpub :: "string list \<Rightarrow> ResourceLinksUnpublished" where
  "ex_unpub hs = \<lparr>rlu_DeviceId = ''d'', rlu_Hrefs = hs, rlu_AuditContext = None, rlu_EventMetadata = None,
     rlu_OpenTelemetryCarrier = []\<rparr>"

definition ex_links :: ResourceLinksSnapshotTaken where
  "ex_links = fst (HandleEventResourceLinksPublished NewResourceLinksSnapshotTaken
     (ex_pub [ex_link ''/a'' ''one'', ex_link ''/b'' ''two'']))"

definition ex_links_cmd :: ResourceLinksSnapshotTakenForCommand where
  "ex_links_cmd = (NewResourceLinksSnapshotTakenForCommand ''user'' ''owner'' ''hub'')\<lparr>rlc_snap := ex_links\<rparr>"

lemma id_order_ok: "map_order_ok (\<lambda>m. m)"
  by (simp add: map_order_ok_def)

lemma ex_links_value: "links_of ex_links = [(''/a'', ex_link ''/a'' ''one''), (''/b'', ex_link ''/b'' ''two'')]"
  by code_simp

lemma ex_link_href [simp]: "res_Href (ex_link h t) = h"
  by (simp add: ex_link_def)

text \<open>In every reachable state of the links of a device, each href has at most one entry and every entry is
  filed under the href of its resource, whatever order Go's map iteration takes.
\<close>

theorem links_filed_under_href:
  assumes "links_reachable ord e" and "map_order_ok ord"
  shows "distinct (map fst (links_of e)) \<and> (\<forall>(href, r) \<in> set (links_of e). res_Href r = href)"
  using links_reachable_wf [OF assms] by (simp add: links_ok_def)

theorem links_filed_under_href_witness:
  "links_reachable (\<lambda>m. m) ex_links \<and> distinct (map fst (links_of ex_links)) \<and> length (links_of ex_links) = 2"
proof -
  have r: "links_reachable (\<lambda>m. m) ex_links"
    unfolding ex_links_def by (intro links_reachable.published links_reachable.start)
  from links_filed_under_href [OF r id_order_ok] r show ?thesis by (simp add: ex_links_value)
qed

text \<open>Publishing: after links with distinct hrefs are published, each of them is found under its href, as the
  old entry when that is equal up to the compared fields and as the new one otherwise; every other href keeps
  its entry.
\<close>

theorem publish_result:
  assumes "distinct (map res_Href (rlp_Resources pub))"
    and "HandleEventResourceLinksPublished e pub = (e', published)"
  shows "(\<forall>r \<in> set (rlp_Resources pub). map_of (links_of e') (res_Href r) =
            Some (case map_of (links_of e) (res_Href r) of None \<Rightarrow> r | Some s \<Rightarrow> if EqualResource r s then s else r)) \<and>
         (\<forall>h. h \<notin> set (map res_Href (rlp_Resources pub)) \<longrightarrow> map_of (links_of e') h = map_of (links_of e) h) \<and>
         set published = {r \<in> set (rlp_Resources pub). map_of (links_of e') (res_Href r) = Some r \<and>
            (\<forall>s. map_of (links_of e) (res_Href r) = Some s \<longrightarrow> \<not> EqualResource r s)}"
proof -
  have e': "e' = fst (HandleEventResourceLinksPublished e pub)"
    and p: "published = GetNewPublishedLinks e pub"
    using assms(2) by (auto simp: HandleEventResourceLinksPublished_def Let_def)
  note look = publish_lookup [OF assms(1), of _ e, folded e']
  have "r \<in> set published \<longleftrightarrow> r \<in> set (rlp_Resources pub) \<and> map_of (links_of e') (res_Href r) = Some r \<and>
      (\<forall>s. map_of (links_of e) (res_Href r) = Some s \<longrightarrow> \<not> EqualResource r s)" for r
    using look(1) [of r] by (auto simp: p new_links_filter split: option.splits)
  with look show ?thesis by blast
qed

theorem publish_result_witness:
  "map_of (links_of (fst (HandleEventResourceLinksPublished ex_links (ex_pub [ex_link ''/b'' ''new'']))))  ''/b'' =
     Some (ex_link ''/b'' ''new'') \<and>
   map_of (links_of (fst (HandleEventResourceLinksPublished ex_links (ex_pub [ex_link ''/b'' ''new''])))) ''/a'' =
     Some (ex_link ''/a'' ''one'')"
proof -
  let ?pub = "ex_pub [ex_link ''/b'' ''new'']"
  obtain e' p where r: "HandleEventResourceLinksPublished ex_links ?pub = (e', p)" by fastforce
  have rs: "rlp_Resources ?pub = [ex_link ''/b'' ''new'']" by (simp add: ex_pub_def)
  then have d: "distinct (map res_Href (rlp_Resources ?pub))" by simp
  have ne: "\<not> EqualResource (ex_link ''/b'' ''new'') (ex_link ''/b'' ''two'')" by code_simp
  from publish_result [OF d r] have
    "\<forall>r \<in> set (rlp_Resources ?pub). map_of (links_of e') (res_Href r) = Some (case map_of (links_of ex_links) (res_Href r) of
       None \<Rightarrow> r | Some s \<Rightarrow> if EqualResource r s then s else r)"
    "\<forall>h. h \<notin> set (map res_Href (rlp_Resources ?pub)) \<longrightarrow> map_of (links_of e') h = map_of (links_of ex_links) h"
    by blast+
  with r ne show ?thesis by (simp add: rs ex_links_value)
qed

text \<open>
  C6. Unpublishing removes exactly the reported links: they are distinct and were published; without a
  selection all links go; with one, every removed link was selected by its href or its instance identifier,
  every published selected href goes, and every selected instance identifier that occurs takes a link away.
\<close>

theorem unpublish_result:
  assumes "map_order_ok ord" and "distinct (map fst (links_of e))"
    and "HandleEventResourceLinksUnpublished ord e ids upub = (e', u)"
  shows "links_of e' = filter (\<lambda>(href, _). href \<notin> set u) (links_of e) \<and> distinct u \<and>
    set u \<subseteq> fst ` set (links_of e) \<and>
    (if rlu_Hrefs upub = [] \<and> ids = [] then links_of e' = []
     else (\<forall>h \<in> set u. h \<in> set (rlu_Hrefs upub) \<or> GetInstanceID h \<in> set ids) \<and>
          set (rlu_Hrefs upub) \<inter> fst ` set (links_of e) \<subseteq> set u \<and>
          (\<forall>i \<in> set ids. (\<exists>h \<in> fst ` set (links_of e) - set (rlu_Hrefs upub). GetInstanceID h = i) \<longrightarrow>
             (\<exists>h \<in> set u. GetInstanceID h = i)))"
proof -
  obtain e1 where r: "unpublishResourceLinksAndUpdateCache ord e ids upub = (e1, u)"
    and e': "links_of e' = links_of e1"
    using assms(3) by (auto simp: HandleEventResourceLinksUnpublished_def split: prod.splits)
  note sp = unpublish_spec [OF assms(1,2) r]
  have l: "links_of e' = filter (\<lambda>(href, _). href \<notin> set u) (links_of e)" using e' sp(1) by auto
  moreover have "links_of e' = []" if "rlu_Hrefs upub = [] \<and> ids = []"
    using l sp(4) that by (auto simp: filter_empty_conv image_iff)
  ultimately show ?thesis using sp(2,3,5) by auto
qed

theorem unpublish_result_witness:
  "links_of (fst (HandleEventResourceLinksUnpublished (\<lambda>m. m) ex_links [] (ex_unpub [''/a'', ''/x'']))) =
     [(''/b'', ex_link ''/b'' ''two'')] \<and>
   snd (HandleEventResourceLinksUnpublished (\<lambda>m. m) ex_links [] (ex_unpub [''/a'', ''/x''])) = [''/a'']"
proof -
  let ?r = "HandleEventResourceLinksUnpublished (\<lambda>m. m) ex_links [] (ex_unpub [''/a'', ''/x''])"
  have d: "distinct (map fst (links_of ex_links))" by (simp add: ex_links_value)
  have s: "snd ?r = [''/a'']"
    by (simp add: HandleEventResourceLinksUnpublished_def unpublishResourceLinksAndUpdateCache_def ex_links_value ex_unpub_def)
  obtain e' u where r: "?r = (e', u)" by fastforce
  from unpublish_result [OF id_order_ok d r] r s show ?thesis by (simp add: ex_links_value)
qed

text \<open>
  C5. Command handling and event sourcing agree for links: replaying the event of a successful command over
  the snapshot it started from, with any iteration order, gives the snapshot it left; a command without an
  event changed no link.
\<close>

theorem links_command_replay:
  assumes "ResourceLinks_HandleCommand ord env c cmd v = (c', Inr evs)"
    and "map_order_ok ord" and "distinct (map fst (links_of (rlc_snap c)))"
  shows "(evs \<noteq> [] \<longrightarrow> ResourceLinks_Handle ord' (rlc_snap c) (map (stored U) evs) None = (rlc_snap c', Inr ())) \<and>
         (evs = [] \<longrightarrow> links_of (rlc_snap c') = links_of (rlc_snap c)) \<and> length evs \<le> 1"
proof (cases cmd)
  case (PublishResourceLinks req)
  obtain cm where cm: "plr_CommandMetadata req = Some cm"
    using assms(1) PublishResourceLinks by (auto simp: ResourceLinks_HandleCommand_def split: option.splits)
  define pub where "pub = \<lparr>rlp_DeviceId = plr_DeviceId req, rlp_Resources = plr_Resources req,
      rlp_AuditContext = Some (NewAuditContext (rlc_userID c) [] (rlc_owner c)),
      rlp_EventMetadata = Some (MakeEventMeta (env_Now_meta env 0) (cm_ConnectionId cm) (cm_Sequence cm) v (rlc_hubID c)),
      rlp_OpenTelemetryCarrier = env_Trace env\<rparr>"
  obtain e' p where h: "HandleEventResourceLinksPublished (rlc_snap c) pub = (e', p)" by fastforce
  then have e': "rlc_snap c' = e'" and evs: "evs = (if p = [] then [] else [E_ResourceLinksPublished (pub\<lparr>rlp_Resources := p\<rparr>)])"
    using assms(1) PublishResourceLinks cm
    by (auto simp: ResourceLinks_HandleCommand_def Let_def pub_def split: prod.splits if_splits)
  have "links_of e' = links_of (rlc_snap c)" if "p = []"
    using that h publish_links [of "rlc_snap c" pub] by (auto simp: HandleEventResourceLinksPublished_def links_of_def Let_def)
  with e' evs h republish [OF h] show ?thesis by (auto simp: links_handle_stored)
next
  case (UnpublishResourceLinks req)
  obtain cm where cm: "ulr_CommandMetadata req = Some cm" and v: "v \<noteq> 0"
    using assms(1) UnpublishResourceLinks by (auto simp: ResourceLinks_HandleCommand_def split: option.splits if_splits)
  define upub where "upub = \<lparr>rlu_DeviceId = ulr_DeviceId req, rlu_Hrefs = ulr_Hrefs req,
      rlu_AuditContext = Some (NewAuditContext (rlc_userID c) [] (rlc_owner c)),
      rlu_EventMetadata = Some (MakeEventMeta (env_Now_meta env 0) (cm_ConnectionId cm) (cm_Sequence cm) v (rlc_hubID c)),
      rlu_OpenTelemetryCarrier = env_Trace env\<rparr>"
  obtain e' u where h: "HandleEventResourceLinksUnpublished ord (rlc_snap c) (ulr_InstanceIds req) upub = (e', u)" by fastforce
  then have e': "rlc_snap c' = e'" and evs: "evs = (if u = [] then [] else [E_ResourceLinksUnpublished (upub\<lparr>rlu_Hrefs := u\<rparr>)])"
    using assms(1) UnpublishResourceLinks cm v
    by (auto simp: ResourceLinks_HandleCommand_def Let_def upub_def split: prod.splits if_splits)
  obtain e1 where r: "unpublishResourceLinksAndUpdateCache ord (rlc_snap c) (ulr_InstanceIds req) upub = (e1, u)"
    and l: "links_of e' = links_of e1"
    using h by (auto simp: HandleEventResourceLinksUnpublished_def split: prod.splits)
  have "links_of e' = links_of (rlc_snap c)" if "u = []"
    using unpublish_spec(1) [OF assms(2,3) r] l that by (auto simp: case_prod_unfold)
  with e' evs h reunpublish [OF h _ assms(2,3)] show ?thesis by (auto simp: links_handle_stored)
next
  case (UnknownLinksCommand t)
  with assms show ?thesis by (simp add: ResourceLinks_HandleCommand_def)
qed

definition ex_publish_cmd :: links_command where
  "ex_publish_cmd = PublishResourceLinks \<lparr>plr_Resources = [ex_link ''/c'' ''three'', ex_link ''/a'' ''one''],
     plr_DeviceId = ''d'', plr_CommandMetadata = Some ex_cm\<rparr>"

theorem links_command_replay_witness:
  "\<exists>c' evs. ResourceLinks_HandleCommand (\<lambda>m. m) ex_env ex_links_cmd ex_publish_cmd 3 = (c', Inr evs) \<and> length evs = 1 \<and>
     ResourceLinks_Handle rev ex_links (map (stored ex_uuid) evs) None = (rlc_snap c', Inr ())"
proof -
  let ?r = "ResourceLinks_HandleCommand (\<lambda>m. m) ex_env ex_links_cmd ex_publish_cmd 3"
  have "case snd ?r of Inl _ \<Rightarrow> False | Inr evs \<Rightarrow> length evs = 1" by code_simp
  then obtain c' evs where r: "?r = (c', Inr evs)" and l: "length evs = 1" by (rule run_okE)
  have snap: "rlc_snap ex_links_cmd = ex_links" by (simp add: ex_links_cmd_def)
  then have "distinct (map fst (links_of (rlc_snap ex_links_cmd)))" by (simp add: ex_links_value)
  from links_command_replay [OF r id_order_ok this, of rev ex_uuid] l r snap show ?thesis by auto
qed

lemma put_links_fresh:
  assumes "distinct (map res_Href rs)" and "\<forall>r \<in> set rs. res_Href r \<notin> fst ` set m"
  shows "put_links (Some m) rs = Some (m @ map (\<lambda>r. (res_Href r, r)) rs)"
  using assms
proof (induction rs arbitrary: m)
  case (Cons a rs)
  have "\<forall>r \<in> set rs. res_Href r \<noteq> res_Href a" using Cons.prems(1) by (metis distinct.simps(2) image_eqI list.simps(9) set_map)
  with Cons show ?case by (simp add: update_new_key image_Un)
qed simp

lemma put_links_None: "rs \<noteq> [] \<Longrightarrow> put_links None rs = put_links (Some []) rs"
  by (cases rs) auto

lemma publish_fresh:
  assumes "distinct (map res_Href (rlp_Resources pub))" and "rlp_Resources pub \<noteq> []"
    and "\<forall>r \<in> set (rlp_Resources pub). res_Href r \<notin> fst ` set (links_of e)"
  shows "links_of (fst (HandleEventResourceLinksPublished e pub)) =
     links_of e @ map (\<lambda>r. (res_Href r, r)) (rlp_Resources pub)"
proof -
  have "GetNewPublishedLinks e pub = rlp_Resources pub"
    using assms(3) by (simp add: new_links_filter filter_id_conv map_of_eq_None_iff [THEN iffD2])
  moreover have "put_links (rls_Resources e) rs = put_links (Some (links_of e)) rs" if "rs \<noteq> []" for rs
    using that by (cases "rls_Resources e") (simp_all add: links_of_def put_links_None)
  ultimately show ?thesis
    using assms by (simp add: publish_links put_links_fresh)
qed

text \<open>Publishing links under new hrefs and unpublishing those hrefs gives the links back as they were.
\<close>

theorem publish_unpublish_roundtrip:
  assumes "map_order_ok ord" and "distinct (map fst (links_of e))"
    and "distinct (map res_Href (rlp_Resources pub))" and "rlp_Resources pub \<noteq> []"
    and "\<forall>r \<in> set (rlp_Resources pub). res_Href r \<notin> fst ` set (links_of e)"
    and "rlu_Hrefs upub = map res_Href (rlp_Resources pub)"
  shows "links_of (fst (HandleEventResourceLinksUnpublished ord (fst (HandleEventResourceLinksPublished e pub)) [] upub)) =
         links_of e"
proof -
  let ?e = "fst (HandleEventResourceLinksPublished e pub)"
  note l = publish_fresh [OF assms(3-5)]
  obtain e' u where r: "unpublishResourceLinksAndUpdateCache ord ?e [] upub = (e', u)" by fastforce
  have "distinct (map fst (links_of ?e))"
    using assms(2,3,5) by (force simp: l comp_def)
  note sp = unpublish_spec [OF assms(1) this r]
  have u: "set u = set (map res_Href (rlp_Resources pub))"
    using sp(5) assms(4,6) by (auto simp: l image_Un image_image)
  have "links_of e' = filter (\<lambda>(k, _). k \<notin> set u) (links_of ?e)" using sp(1) by auto
  also have "\<dots> = filter (\<lambda>(k, _). k \<notin> set u) (links_of e) @ filter (\<lambda>(k, _). k \<notin> set u) (map (\<lambda>r. (res_Href r, r)) (rlp_Resources pub))"
    by (simp add: l)
  also have "filter (\<lambda>(k, _). k \<notin> set u) (links_of e) = links_of e"
    using assms(5) u by (force simp: filter_id_conv)
  also have "filter (\<lambda>(k, _). k \<notin> set u) (map (\<lambda>r. (res_Href r, r)) (rlp_Resources pub)) = []"
    using u by (auto simp: filter_empty_conv)
  finally show ?thesis using r by (simp add: HandleEventResourceLinksUnpublished_def)
qed

theorem publish_unpublish_roundtrip_witness:
  "links_of (fst (HandleEventResourceLinksPublished ex_links (ex_pub [ex_link ''/c'' ''three'']))) \<noteq> links_of ex_links \<and>
   links_of (fst (HandleEventResourceLinksUnpublished (\<lambda>m. m)
     (fst (HandleEventResourceLinksPublished ex_links (ex_pub [ex_link ''/c'' ''three'']))) [] (ex_unpub [''/c'']))) =
   links_of ex_links"
proof
  let ?pub = "ex_pub [ex_link ''/c'' ''three'']"
  have rs: "rlp_Resources ?pub = [ex_link ''/c'' ''three'']" by (simp add: ex_pub_def)
  have f: "\<forall>r \<in> set (rlp_Resources ?pub). res_Href r \<notin> fst ` set (links_of ex_links)"
    by (simp add: rs ex_links_value)
  show "links_of (fst (HandleEventResourceLinksPublished ex_links ?pub)) \<noteq> links_of ex_links"
    using publish_fresh [OF _ _ f] by (simp add: rs)
  show "links_of (fst (HandleEventResourceLinksUnpublished (\<lambda>m. m)
     (fst (HandleEventResourceLinksPublished ex_links ?pub)) [] (ex_unpub [''/c'']))) = links_of ex_links"
    by (rule publish_unpublish_roundtrip [OF id_order_ok _ _ _ f]) (simp_all add: rs ex_links_value ex_unpub_def)
qed

text \<open>A link that is published again with other endpoints only is not a change: there is no event and the
  link keeps the endpoints it had.
\<close>

theorem republish_keeps_endpoints:
  assumes "plr_CommandMetadata req = Some cm" and "plr_Resources req = [old\<lparr>res_EndpointInformations := eps\<rparr>]"
    and "map_of (links_of (rlc_snap c)) (res_Href old) = Some old"
    and "ResourceLinks_HandleCommand ord env c (PublishResourceLinks req) v = (c', r)"
  shows "r = Inr [] \<and> map_of (links_of (rlc_snap c')) (res_Href old) = Some old"
proof -
  let ?pub = "\<lparr>rlp_DeviceId = plr_DeviceId req, rlp_Resources = plr_Resources req,
      rlp_AuditContext = Some (NewAuditContext (rlc_userID c) [] (rlc_owner c)),
      rlp_EventMetadata = Some (MakeEventMeta (env_Now_meta env 0) (cm_ConnectionId cm) (cm_Sequence cm) v (rlc_hubID c)),
      rlp_OpenTelemetryCarrier = env_Trace env\<rparr>"
  have "EqualResource (old\<lparr>res_EndpointInformations := eps\<rparr>) old" by (auto simp: EqualResource_def)
  then have "GetNewPublishedLinks (rlc_snap c) ?pub = []"
    using assms(2,3) by (simp add: new_links_filter)
  then have h: "HandleEventResourceLinksPublished (rlc_snap c) ?pub =
     ((rlc_snap c)\<lparr>rls_DeviceId := plr_DeviceId req, rls_EventMetadata := rlp_EventMetadata ?pub,
        rls_AuditContext := rlp_AuditContext ?pub\<rparr>, [])"
    by (simp add: HandleEventResourceLinksPublished_def Let_def)
  from assms(4) have "c' = c\<lparr>rlc_snap := (rlc_snap c)\<lparr>rls_DeviceId := plr_DeviceId req,
      rls_EventMetadata := rlp_EventMetadata ?pub, rls_AuditContext := rlp_AuditContext ?pub\<rparr>\<rparr>" and "r = Inr []"
    by (simp_all add: ResourceLinks_HandleCommand_def assms(1) h [unfolded ResourceLinksPublished.simps] Let_def)
  with assms(3) show ?thesis by simp
qed

definition ex_moved_cmd :: PublishResourceLinksRequest where
  "ex_moved_cmd = \<lparr>plr_Resources =
       [(ex_link ''/a'' ''one'')\<lparr>res_EndpointInformations := [\<lparr>ep_Endpoint = ''coap://1.1.1.1'', ep_Priority = 1\<rparr>]\<rparr>],
     plr_DeviceId = ''d'', plr_CommandMetadata = Some ex_cm\<rparr>"

theorem republish_keeps_endpoints_witness:
  "snd (ResourceLinks_HandleCommand (\<lambda>m. m) ex_env ex_links_cmd (PublishResourceLinks ex_moved_cmd) 3) = Inr [] \<and>
   map_of (links_of (rlc_snap (fst (ResourceLinks_HandleCommand (\<lambda>m. m) ex_env ex_links_cmd
     (PublishResourceLinks ex_moved_cmd) 3)))) ''/a'' = Some (ex_link ''/a'' ''one'')"
proof -
  let ?r = "ResourceLinks_HandleCommand (\<lambda>m. m) ex_env ex_links_cmd (PublishResourceLinks ex_moved_cmd) 3"
  obtain c' r where r: "?r = (c', r)" by fastforce
  have m: "plr_CommandMetadata ex_moved_cmd = Some ex_cm"
    "plr_Resources ex_moved_cmd = [(ex_link ''/a'' ''one'')\<lparr>res_EndpointInformations := [\<lparr>ep_Endpoint = ''coap://1.1.1.1'', ep_Priority = 1\<rparr>]\<rparr>]"
    by (simp_all add: ex_moved_cmd_def)
  have l: "map_of (links_of (rlc_snap ex_links_cmd)) (res_Href (ex_link ''/a'' ''one'')) = Some (ex_link ''/a'' ''one'')"
    by (simp add: ex_links_cmd_def ex_links_value)
  from republish_keeps_endpoints [OF m l r] r show ?thesis by simp
qed

end
