(* ===== verification/Device_Metadata.thy ===== *)
theory Device_Metadata
  imports Pending_Commands
begin

text \<open>
  The metadata of one device: \<^verbatim>\<open>resource-aggregate/events/deviceMetadataSnapshotTaken.go\<close>. The
  snapshot keeps the last \<open>DeviceMetadataUpdated\<close> event (connection, twin synchronization, twin
  enabled) and the pending metadata updates.

  Two kinds of sharing in the code are kept. The twin synchronization of the snapshot is reached through
  a pointer that the handlers overwrite before the event is compared with the snapshot (\<open>alias_twin\<close>).
  The connection and the twin synchronization of a request are overwritten in the request itself, so
  the handlers return the request as they leave it: a retry after a concurrency conflict starts from it.
\<close>

section \<open>State\<close>

definition NewDeviceMetadataSnapshotTaken :: DeviceMetadataSnapshotTaken where
  "NewDeviceMetadataSnapshotTaken =
     \<lparr>dms_DeviceId = [], dms_DeviceMetadataUpdated = Some (empty_DeviceMetadataUpdated\<lparr>dmu_TwinEnabled := True\<rparr>),
      dms_UpdatePendings = [], dms_EventMetadata = Some empty_EventMetadata\<rparr>"

record DeviceMetadataSnapshotTakenForCommand =
  dmc_userID :: string
  dmc_owner :: string
  dmc_hubID :: string
  dmc_snap :: DeviceMetadataSnapshotTaken

definition NewDeviceMetadataSnapshotTakenForCommand ::
    "string \<Rightarrow> string \<Rightarrow> string \<Rightarrow> DeviceMetadataSnapshotTakenForCommand" where
  "NewDeviceMetadataSnapshotTakenForCommand userID owner hubID =
     \<lparr>dmc_userID = userID, dmc_owner = owner, dmc_hubID = hubID, dmc_snap = NewDeviceMetadataSnapshotTaken\<rparr>"

text \<open>\<open>GetDeviceMetadataUpdated()\<close> followed by a getter: a nil message reads as the zero message.\<close>

definition dm_updated :: "DeviceMetadataSnapshotTaken \<Rightarrow> DeviceMetadataUpdated" where
  "dm_updated d = (case dms_DeviceMetadataUpdated d of None \<Rightarrow> empty_DeviceMetadataUpdated | Some u \<Rightarrow> u)"

abbreviation dm_connection :: "DeviceMetadataSnapshotTaken \<Rightarrow> Connection option" where
  "dm_connection d \<equiv> dmu_Connection (dm_updated d)"
abbreviation dm_twin :: "DeviceMetadataSnapshotTaken \<Rightarrow> TwinSynchronization option" where
  "dm_twin d \<equiv> dmu_TwinSynchronization (dm_updated d)"
abbreviation dup_cid :: "DeviceMetadataUpdatePending \<Rightarrow> string" where
  "dup_cid p \<equiv> GetCorrelationId (dup_AuditContext p)"
abbreviation dmu_cid :: "DeviceMetadataUpdated \<Rightarrow> string" where
  "dmu_cid u \<equiv> GetCorrelationId (dmu_AuditContext u)"

text \<open>Writing through the pointer to the snapshot's twin synchronization, when there is one.\<close>

definition alias_twin :: "DeviceMetadataSnapshotTaken \<Rightarrow> TwinSynchronization \<Rightarrow> DeviceMetadataSnapshotTaken" where
  "alias_twin d ts =
     (case dms_DeviceMetadataUpdated d of
        None \<Rightarrow> d
      | Some u \<Rightarrow>
          (case dmu_TwinSynchronization u of
             None \<Rightarrow> d
           | Some _ \<Rightarrow> d\<lparr>dms_DeviceMetadataUpdated := Some (u\<lparr>dmu_TwinSynchronization := Some ts\<rparr>)\<rparr>))"

section \<open>Event handlers\<close>

definition HandleDeviceMetadataUpdated ::
    "DeviceMetadataSnapshotTaken \<Rightarrow> DeviceMetadataUpdated \<Rightarrow> bool \<Rightarrow> DeviceMetadataSnapshotTaken \<times> bool res" where
  "HandleDeviceMetadataUpdated d upd confirm =
     (let index = find_index (\<lambda>event. dup_cid event = dmu_cid upd) (dms_UpdatePendings d) in
      if confirm \<and> index = None
      then (d, Inl (GrpcStatus InvalidArgument
              ''cannot find twin synchronization update pending event with correlationId'' [dmu_cid upd]))
      else
        let d1 = (case index of None \<Rightarrow> d
                  | Some i \<Rightarrow> d\<lparr>dms_UpdatePendings := remove_at i (dms_UpdatePendings d)\<rparr>)
        in if DeviceMetadataUpdated_Equal (dms_DeviceMetadataUpdated d1) upd then (d1, Inr False)
           else (d1\<lparr>dms_DeviceId := dmu_DeviceId upd, dms_DeviceMetadataUpdated := Some upd,
                    dms_EventMetadata := dmu_EventMetadata upd\<rparr>, Inr True))"

definition HandleDeviceMetadataSnapshotTaken ::
    "DeviceMetadataSnapshotTaken \<Rightarrow> DeviceMetadataSnapshotTaken \<Rightarrow> DeviceMetadataSnapshotTaken" where
  "HandleDeviceMetadataSnapshotTaken d s = DeviceMetadataSnapshotTaken_CopyData d s"

definition HandleDeviceMetadataUpdatePending ::
    "gotime \<Rightarrow> DeviceMetadataSnapshotTaken \<Rightarrow> DeviceMetadataUpdatePending \<Rightarrow> DeviceMetadataSnapshotTaken \<times> unit res"
where
  "HandleDeviceMetadataUpdatePending now d p =
     (if DeviceMetadataUpdatePending_IsExpired now p
      then (d\<lparr>dms_DeviceId := dup_DeviceId p, dms_EventMetadata := dup_EventMetadata p\<rparr>, Inr ())
      else if list_ex (\<lambda>event. \<not> DeviceMetadataUpdatePending_IsExpired now event \<and> dup_cid event = dup_cid p)
                (dms_UpdatePendings d)
      then (d, Inl (GrpcStatus InvalidArgument
              ''device metadata update pending with correlationId already exist'' [dup_cid p]))
      else (d\<lparr>dms_DeviceId := dup_DeviceId p, dms_EventMetadata := dup_EventMetadata p,
              dms_UpdatePendings := dms_UpdatePendings d @ [p]\<rparr>, Inr ()))"

definition DeviceMetadata_handleByEvent ::
    "gotime \<Rightarrow> DeviceMetadataSnapshotTaken \<Rightarrow> EventUnmarshaler \<Rightarrow> DeviceMetadataSnapshotTaken \<times> unit res" where
  "DeviceMetadata_handleByEvent now d eu =
     (if eu_EventType eu = ''devicemetadatasnapshottaken'' then
        (case Unmarshal_as sel_DeviceMetadataSnapshotTaken eu of
           Inl err \<Rightarrow> (d, Inl err)
         | Inr s \<Rightarrow> (HandleDeviceMetadataSnapshotTaken d s, Inr ()))
      else if eu_EventType eu = ''devicemetadataupdated'' then
        (case Unmarshal_as sel_DeviceMetadataUpdated eu of
           Inl err \<Rightarrow> (d, Inl err)
         | Inr s \<Rightarrow> (fst (HandleDeviceMetadataUpdated d s False), Inr ()))
      else if eu_EventType eu = ''devicemetadataupdatepending'' then
        (case Unmarshal_as sel_DeviceMetadataUpdatePending eu of
           Inl err \<Rightarrow> (d, Inl err)
         | Inr s \<Rightarrow> (fst (HandleDeviceMetadataUpdatePending now d s), Inr ()))
      else (d, Inr ()))"

definition DeviceMetadata_Handle ::
    "(nat \<Rightarrow> gotime) \<Rightarrow> DeviceMetadataSnapshotTaken \<Rightarrow> EventUnmarshaler list \<Rightarrow> error option
     \<Rightarrow> DeviceMetadataSnapshotTaken \<times> unit res" where
  "DeviceMetadata_Handle now d eus iterErr =
     iterate_events (\<lambda>n. DeviceMetadata_handleByEvent (now n)) 0 d eus iterErr"

section \<open>Confirmation and cancellation\<close>

type_synonym dm_outcome = "DeviceMetadataSnapshotTaken \<times> any_event list res"

text \<open>The end of the command handlers: the event is returned when it changed the snapshot.\<close>

definition emit_updated :: "DeviceMetadataSnapshotTaken \<times> bool res \<Rightarrow> DeviceMetadataUpdated \<Rightarrow> dm_outcome" where
  "emit_updated r ev =
     (case r of
        (d, Inl err) \<Rightarrow> (d, Inl err)
      | (d, Inr False) \<Rightarrow> (d, Inr [])
      | (d, Inr True) \<Rightarrow> (d, Inr [E_DeviceMetadataUpdated ev]))"

definition cancelDeviceMetadataUpdate ::
    "command_env \<Rightarrow> DeviceMetadataSnapshotTaken \<Rightarrow> ConfirmDeviceMetadataUpdateRequest \<Rightarrow> EventMetadata \<Rightarrow> AuditContext
     \<Rightarrow> dm_outcome" where
  "cancelDeviceMetadataUpdate env d req em ac =
     (let ev = \<lparr>dmu_DeviceId = cdm_DeviceId req, dmu_Connection = dm_connection d,
                dmu_TwinSynchronization = dm_twin d, dmu_TwinEnabled = dmu_TwinEnabled (dm_updated d),
                dmu_AuditContext = Some ac, dmu_EventMetadata = Some em, dmu_Canceled = True,
                dmu_OpenTelemetryCarrier = env_Trace env\<rparr>
      in emit_updated (HandleDeviceMetadataUpdated d ev True) ev)"

definition updateTwinEnabled ::
    "command_env \<Rightarrow> DeviceMetadataSnapshotTaken \<Rightarrow> ConfirmDeviceMetadataUpdateRequest \<Rightarrow> bool \<Rightarrow> EventMetadata \<Rightarrow> AuditContext
     \<Rightarrow> dm_outcome" where
  "updateTwinEnabled env d req enabled em ac =
     (let twin0 = (case dm_twin d of
                     None \<Rightarrow> empty_TwinSynchronization\<lparr>ts_State := Twin_OUT_OF_SYNC, ts_CommandMetadata := cdm_CommandMetadata req\<rparr>
                   | Some ts \<Rightarrow> ts);
          twin = (if GetConnectionId (cdm_CommandMetadata req) = GetConnectionId (GetTwinCommandMetadata (dm_twin d))
                  then (if enabled
                        then (if ts_State twin0 = Twin_DISABLED then twin0\<lparr>ts_State := Twin_OUT_OF_SYNC\<rparr> else twin0)
                        else twin0\<lparr>ts_State := Twin_DISABLED\<rparr>)
                  else twin0);
          d1 = alias_twin d twin;
          ev = \<lparr>dmu_DeviceId = cdm_DeviceId req, dmu_Connection = dm_connection d,
                dmu_TwinSynchronization = Some twin, dmu_TwinEnabled = enabled,
                dmu_AuditContext = Some ac, dmu_EventMetadata = Some em, dmu_Canceled = False,
                dmu_OpenTelemetryCarrier = env_Trace env\<rparr>
      in emit_updated (HandleDeviceMetadataUpdated d1 ev True) ev)"

definition updateTwinForceSynchronization ::
    "command_env \<Rightarrow> DeviceMetadataSnapshotTaken \<Rightarrow> ConfirmDeviceMetadataUpdateRequest \<Rightarrow> bool \<Rightarrow> EventMetadata \<Rightarrow> AuditContext
     \<Rightarrow> dm_outcome" where
  "updateTwinForceSynchronization env d req force em ac =
     (if \<not> force
      then (d, Inl (GrpcStatus InvalidArgument ''cannot update twin synchronization with invalid forceSynchronization'' []))
      else
        let twin0 = (case dm_twin d of
                       None \<Rightarrow> empty_TwinSynchronization\<lparr>ts_CommandMetadata := cdm_CommandMetadata req\<rparr>
                     | Some ts \<Rightarrow> ts);
            twin = twin0\<lparr>ts_State := Twin_OUT_OF_SYNC, ts_ForceSynchronizationAt := em_Timestamp em\<rparr>;
            d1 = alias_twin d twin;
            ev = \<lparr>dmu_DeviceId = cdm_DeviceId req, dmu_Connection = dm_connection d,
                  dmu_TwinSynchronization = Some twin, dmu_TwinEnabled = True,
                  dmu_AuditContext = Some ac, dmu_EventMetadata = Some em, dmu_Canceled = False,
                  dmu_OpenTelemetryCarrier = env_Trace env\<rparr>
        in emit_updated (HandleDeviceMetadataUpdated d1 ev True) ev)"

text \<open>A handler on the embedded snapshot.\<close>

definition on_device ::
    "DeviceMetadataSnapshotTakenForCommand \<Rightarrow> dm_outcome \<Rightarrow> DeviceMetadataSnapshotTakenForCommand \<times> any_event list res" where
  "on_device c r = (c\<lparr>dmc_snap := fst r\<rparr>, snd r)"

definition device_em ::
    "command_env \<Rightarrow> nat \<Rightarrow> DeviceMetadataSnapshotTakenForCommand \<Rightarrow> CommandMetadata \<Rightarrow> u64 \<Rightarrow> EventMetadata" where
  "device_em env n c cm newVersion =
     MakeEventMeta (env_Now_meta env n) (cm_ConnectionId cm) (cm_Sequence cm) newVersion (dmc_hubID c)"

definition ConfirmDeviceMetadataUpdate ::
    "command_env \<Rightarrow> nat \<Rightarrow> DeviceMetadataSnapshotTakenForCommand \<Rightarrow> ConfirmDeviceMetadataUpdateRequest \<Rightarrow> u64 \<Rightarrow> bool
     \<Rightarrow> DeviceMetadataSnapshotTakenForCommand \<times> any_event list res" where
  "ConfirmDeviceMetadataUpdate env n c req newVersion cancel =
     (case cdm_CommandMetadata req of
        None \<Rightarrow> (c, Inl errInvalidCommandMetadata)
      | Some cm \<Rightarrow>
          (let em = device_em env n c cm newVersion;
               ac = NewAuditContext (dmc_userID c) (cdm_CorrelationId req) (dmc_owner c)
           in if cancel then on_device c (cancelDeviceMetadataUpdate env (dmc_snap c) req em ac)
              else case cdm_Confirm req of
                Confirm_TwinEnabled b \<Rightarrow> on_device c (updateTwinEnabled env (dmc_snap c) req b em ac)
              | Confirm_TwinForceSynchronization b \<Rightarrow>
                  on_device c (updateTwinForceSynchronization env (dmc_snap c) req b em ac)
              | Confirm_None \<Rightarrow> (c, Inl (GrpcStatus InvalidArgument ''unknown confirm type(%T)'' []))))"

definition cancel_metadata_request :: "CancelPendingMetadataUpdatesRequest \<Rightarrow> string \<Rightarrow> ConfirmDeviceMetadataUpdateRequest" where
  "cancel_metadata_request req correlationID =
     \<lparr>cdm_DeviceId = cpm_DeviceId req, cdm_CorrelationId = correlationID, cdm_Status = Status_CANCELED,
      cdm_Confirm = Confirm_None, cdm_CommandMetadata = cpm_CommandMetadata req\<rparr>"

abbreviation dmc_pendings :: "DeviceMetadataSnapshotTakenForCommand \<Rightarrow> DeviceMetadataUpdatePending list" where
  "dmc_pendings c \<equiv> dms_UpdatePendings (dmc_snap c)"

definition CancelPendingMetadataUpdates ::
    "kit_strings \<Rightarrow> command_env \<Rightarrow> DeviceMetadataSnapshotTakenForCommand \<Rightarrow> CancelPendingMetadataUpdatesRequest \<Rightarrow> u64
     \<Rightarrow> DeviceMetadataSnapshotTakenForCommand \<times> any_event list res" where
  "CancelPendingMetadataUpdates S env c req newVersion =
     (case cpm_CommandMetadata req of
        None \<Rightarrow> (c, Inl errInvalidCommandMetadata)
      | Some _ \<Rightarrow>
          (case cancel_range dmc_pendings dup_cid (filtered_out S (cpm_CorrelationIdFilter req))
                  (\<lambda>i c' cid v. ConfirmDeviceMetadataUpdate env i c' (cancel_metadata_request req cid) v True)
                  newVersion c of
             (c', events) \<Rightarrow>
               if length events = 0
               then (c', Inl (GrpcStatus NotFound ''cannot find commands with correlationID(%v)'' (cpm_CorrelationIdFilter req)))
               else (c', Inr events)))"

section \<open>Connection\<close>

definition prepareTwinSynchronization :: "DeviceMetadataSnapshotTaken \<Rightarrow> TwinSynchronization" where
  "prepareTwinSynchronization d = (case dm_twin d of None \<Rightarrow> empty_TwinSynchronization | Some ts \<Rightarrow> ts)"

definition reset_twin :: "DeviceMetadataSnapshotTaken \<Rightarrow> CommandMetadata option \<Rightarrow> TwinSynchronization" where
  "reset_twin d cm =
     (prepareTwinSynchronization d)
       \<lparr>ts_State := (if dmu_TwinEnabled (dm_updated d) then Twin_OUT_OF_SYNC else Twin_DISABLED), ts_CommandMetadata := cm\<rparr>"

definition getTwinSynchronizationForConnectedDevice ::
    "DeviceMetadataSnapshotTaken \<Rightarrow> Connection \<Rightarrow> CommandMetadata option \<Rightarrow> TwinSynchronization" where
  "getTwinSynchronizationForConnectedDevice d conn cm =
     (if cn_Id conn \<noteq> GetConnId (dm_connection d) \<or> \<not> IsOnline (dm_connection d)
      then reset_twin d cm else prepareTwinSynchronization d)"

definition getTwinSynchronizationForDisconnectedDevice ::
    "DeviceMetadataSnapshotTaken \<Rightarrow> Connection \<Rightarrow> CommandMetadata option \<Rightarrow> TwinSynchronization res" where
  "getTwinSynchronizationForDisconnectedDevice d conn cm =
     (if IsOnline (dm_connection d) \<and> \<not> IsOnline (Some conn) \<and> GetConnId (dm_connection d) \<noteq> cn_Id conn
      then Inl (GrpcStatus InvalidArgument
             ''cannot update connection status online to offline: connectionId mismatch''
             [GetConnId (dm_connection d), cn_Id conn])
      else Inr (reset_twin d cm))"

text \<open>
  \<open>updateDeviceConnection\<close>: the snapshot, the connection of the request as the handler leaves it, and
  the outcome.
\<close>

definition updateDeviceConnection ::
    "command_env \<Rightarrow> DeviceMetadataSnapshotTaken \<Rightarrow> string \<Rightarrow> Connection \<Rightarrow> CommandMetadata option \<Rightarrow> EventMetadata \<Rightarrow> AuditContext
     \<Rightarrow> DeviceMetadataSnapshotTaken \<times> Connection \<times> any_event list res" where
  "updateDeviceConnection env d deviceId conn0 cm em ac =
     (let conn1 = conn0\<lparr>cn_Id := GetConnectionId cm\<rparr> in
      if cn_Id conn1 = []
      then (d, conn1, Inl (GrpcStatus InvalidArgument ''cannot update connection status for empty connectionId'' []))
      else if \<not> IsOnline (Some conn1) \<and> em_Version em = 0
      then (d, conn1, Inl (GrpcStatus InvalidArgument
              ''cannot update connection status to offline for not existing device'' [deviceId]))
      else
        let conn2 = (if \<not> IsOnline (Some conn1)
                     then conn1\<lparr>cn_ServiceId := [], cn_Protocol := GetProtocol (dm_connection d)\<rparr> else conn1);
            conn3 = (if cn_ConnectedAt conn2 < GetConnectedAt (dm_connection d)
                     then conn2\<lparr>cn_ConnectedAt := GetConnectedAt (dm_connection d)\<rparr> else conn2);
            conn = (if length (cn_LocalEndpoints conn3) = 0
                    then conn3\<lparr>cn_LocalEndpoints := GetLocalEndpoints (dm_connection d)\<rparr> else conn3)
        in case (if IsOnline (Some conn) then Inr (getTwinSynchronizationForConnectedDevice d conn cm)
                 else getTwinSynchronizationForDisconnectedDevice d conn cm) of
             Inl err \<Rightarrow> (d, conn, Inl err)
           | Inr twin \<Rightarrow>
               (let d1 = alias_twin d twin;
                    ev = \<lparr>dmu_DeviceId = deviceId, dmu_Connection = Some conn,
                          dmu_TwinSynchronization = Some twin, dmu_TwinEnabled = dmu_TwinEnabled (dm_updated d),
                          dmu_AuditContext = Some ac, dmu_EventMetadata = Some em, dmu_Canceled = False,
                          dmu_OpenTelemetryCarrier = env_Trace env\<rparr>
                in case emit_updated (HandleDeviceMetadataUpdated d1 ev False) ev of
                     (d2, r) \<Rightarrow> (d2, conn, r)))"

section \<open>Twin synchronization\<close>

definition prepareTwinSynchronizationToSyncing ::
    "DeviceMetadataSnapshotTaken \<Rightarrow> TwinSynchronization \<Rightarrow> TwinSynchronization \<times> bool res" where
  "prepareTwinSynchronizationToSyncing d ts =
     (if \<not> dmu_TwinEnabled (dm_updated d)
      then (ts, Inl (GrpcStatus InvalidArgument ''cannot update twinSynchronization to SYNCING: twin is disabled'' []))
      else if ts_SyncingAt ts \<le> 0
      then (ts, Inl (GrpcStatus InvalidArgument ''cannot update twin synchronization with invalid startedAt'' []))
      else if GetTwinState (dm_twin d) = Twin_SYNCING \<and> GetSyncingAt (dm_twin d) < ts_SyncingAt ts
      then (ts, Inr False)
      else (ts\<lparr>ts_InSyncAt := GetInSyncAt (dm_twin d)\<rparr>, Inr True))"

definition prepareTwinSynchronizationToInSync ::
    "DeviceMetadataSnapshotTaken \<Rightarrow> TwinSynchronization \<Rightarrow> TwinSynchronization \<times> bool res" where
  "prepareTwinSynchronizationToInSync d ts =
     (if \<not> dmu_TwinEnabled (dm_updated d)
      then (ts, Inl (GrpcStatus InvalidArgument ''cannot update twinSynchronization to IN_SYNC: twin is disabled'' []))
      else if ts_InSyncAt ts \<le> 0
      then (ts, Inl (GrpcStatus InvalidArgument ''cannot update twin synchronization with invalid finishAt'' []))
      else if GetTwinState (dm_twin d) = Twin_IN_SYNC \<and> ts_InSyncAt ts < GetInSyncAt (dm_twin d)
      then (ts, Inr False)
      else if GetTwinState (dm_twin d) = Twin_SYNCING \<and> ts_InSyncAt ts < GetSyncingAt (dm_twin d)
      then (ts, Inr False)
      else (ts\<lparr>ts_SyncingAt := GetSyncingAt (dm_twin d)\<rparr>, Inr True))"

definition updateDeviceTwinSynchronization ::
    "command_env \<Rightarrow> DeviceMetadataSnapshotTaken \<Rightarrow> string \<Rightarrow> TwinSynchronization \<Rightarrow> CommandMetadata option \<Rightarrow> EventMetadata \<Rightarrow> AuditContext
     \<Rightarrow> DeviceMetadataSnapshotTaken \<times> TwinSynchronization \<times> any_event list res" where
  "updateDeviceTwinSynchronization env d deviceId ts0 cm em ac =
     (if GetConnectionId cm = []
      then (d, ts0, Inl (GrpcStatus InvalidArgument ''cannot update twin synchronization for empty connectionId'' []))
      else if GetConnectionId cm \<noteq> GetConnectionId (GetTwinCommandMetadata (dm_twin d))
      then (d, ts0, Inl (GrpcStatus InvalidArgument ''cannot update twin synchronization for different connectionId''
              [GetConnectionId cm, GetConnectionId (GetTwinCommandMetadata (dm_twin d))]))
      else if em_Version em = 0
      then (d, ts0, Inl (GrpcStatus InvalidArgument ''cannot update twin synchronization for not existing device'' [deviceId]))
      else if GetSequence cm \<le> GetSequence (GetTwinCommandMetadata (dm_twin d)) then (d, ts0, Inr [])
      else
        case (case ts_State ts0 of
                Twin_OUT_OF_SYNC \<Rightarrow>
                  (ts0, Inl (GrpcStatus InvalidArgument ''cannot update twin synchronization with invalid state'' []))
              | Twin_SYNCING \<Rightarrow> prepareTwinSynchronizationToSyncing d ts0
              | Twin_IN_SYNC \<Rightarrow> prepareTwinSynchronizationToInSync d ts0
              | Twin_DISABLED \<Rightarrow> (ts0, Inr True)) of
          (ts1, Inl err) \<Rightarrow> (d, ts1, Inl err)
        | (ts1, Inr False) \<Rightarrow> (d, ts1, Inr [])
        | (ts1, Inr True) \<Rightarrow>
            (let ts = ts1\<lparr>ts_CommandMetadata := cm\<rparr>;
                 ev = \<lparr>dmu_DeviceId = deviceId, dmu_Connection = dm_connection d,
                       dmu_TwinSynchronization = Some ts, dmu_TwinEnabled = dmu_TwinEnabled (dm_updated d),
                       dmu_AuditContext = Some ac, dmu_EventMetadata = Some em, dmu_Canceled = False,
                       dmu_OpenTelemetryCarrier = env_Trace env\<rparr>
             in case emit_updated (HandleDeviceMetadataUpdated d ev False) ev of
                  (d2, r) \<Rightarrow> (d2, ts, r)))"

section \<open>Pending updates\<close>

definition accept_pending ::
    "command_env \<Rightarrow> DeviceMetadataSnapshotTaken \<Rightarrow> UpdateDeviceMetadataRequest \<Rightarrow> Device_UpdatePending \<Rightarrow> EventMetadata \<Rightarrow> AuditContext
     \<Rightarrow> dm_outcome" where
  "accept_pending env d req upd em ac =
     (let ev = \<lparr>dup_DeviceId = udm_DeviceId req, dup_UpdatePending = Some upd, dup_AuditContext = Some ac,
                dup_EventMetadata = Some em,
                dup_ValidUntil = timeToLive2ValidUntil (env_Now_ttl env) (udm_TimeToLive req),
                dup_OpenTelemetryCarrier = env_Trace env\<rparr>
      in case HandleDeviceMetadataUpdatePending (env_Now_handle env) d ev of
           (d', Inl err) \<Rightarrow> (d', Inl err)
         | (d', Inr _) \<Rightarrow> (d', Inr [E_DeviceMetadataUpdatePending ev]))"

definition updateDeviceTwinEnabled ::
    "command_env \<Rightarrow> DeviceMetadataSnapshotTaken \<Rightarrow> UpdateDeviceMetadataRequest \<Rightarrow> bool \<Rightarrow> EventMetadata \<Rightarrow> AuditContext \<Rightarrow> dm_outcome"
where
  "updateDeviceTwinEnabled env d req enabled em ac =
     (if em_Version em = 0
      then (d, Inl (GrpcStatus InvalidArgument ''cannot update twin enabled for not existing device'' [udm_DeviceId req]))
      else accept_pending env d req (Pending_TwinEnabled enabled) em ac)"

definition updateDeviceTwinForceSynchronization ::
    "command_env \<Rightarrow> DeviceMetadataSnapshotTaken \<Rightarrow> UpdateDeviceMetadataRequest \<Rightarrow> bool \<Rightarrow> EventMetadata \<Rightarrow> AuditContext \<Rightarrow> dm_outcome"
where
  "updateDeviceTwinForceSynchronization env d req force em ac =
     (if em_Version em = 0
      then (d, Inl (GrpcStatus InvalidArgument ''cannot update twin enabled for not existing device'' [udm_DeviceId req]))
      else if \<not> force
      then (d, Inl (GrpcStatus InvalidArgument ''cannot update twin force synchronization with invalid forceSynchronization'' []))
      else accept_pending env d req (Pending_TwinForceSynchronization force) em ac)"

section \<open>Commands\<close>

record UpdateDeviceToOfflineRequest =
  udo_DeviceID :: string
  udo_ServiceID :: string

datatype dm_command =
    UpdateDeviceMetadata UpdateDeviceMetadataRequest
  | UpdateDeviceToOffline UpdateDeviceToOfflineRequest
  | ConfirmDeviceMetadata ConfirmDeviceMetadataUpdateRequest
  | CancelPendingMetadata CancelPendingMetadataUpdatesRequest
  | UnknownDeviceCommand string

definition updateDeviceMetadataRequest ::
    "command_env \<Rightarrow> DeviceMetadataSnapshotTakenForCommand \<Rightarrow> UpdateDeviceMetadataRequest \<Rightarrow> u64
     \<Rightarrow> DeviceMetadataSnapshotTakenForCommand \<times> UpdateDeviceMetadataRequest \<times> any_event list res" where
  "updateDeviceMetadataRequest env c req newVersion =
     (case udm_CommandMetadata req of
        None \<Rightarrow> (c, req, Inl errInvalidCommandMetadata)
      | Some cm \<Rightarrow>
          (let em = device_em env 0 c cm newVersion;
               ac = NewAuditContext (dmc_userID c) (udm_CorrelationId req) (dmc_owner c)
           in case udm_Update req of
                Update_Connection (Some conn) \<Rightarrow>
                  (case updateDeviceConnection env (dmc_snap c) (udm_DeviceId req) conn (udm_CommandMetadata req) em ac of
                     (d, conn', r) \<Rightarrow>
                       (c\<lparr>dmc_snap := d\<rparr>, req\<lparr>udm_Update := Update_Connection (Some conn')\<rparr>, r))
              | Update_TwinSynchronization (Some ts) \<Rightarrow>
                  (case updateDeviceTwinSynchronization env (dmc_snap c) (udm_DeviceId req) ts (udm_CommandMetadata req) em ac of
                     (d, ts', r) \<Rightarrow>
                       (c\<lparr>dmc_snap := d\<rparr>, req\<lparr>udm_Update := Update_TwinSynchronization (Some ts')\<rparr>, r))
              | Update_TwinEnabled b \<Rightarrow>
                  (case on_device c (updateDeviceTwinEnabled env (dmc_snap c) req b em ac) of (c', r) \<Rightarrow> (c', req, r))
              | Update_TwinForceSynchronization b \<Rightarrow>
                  (case on_device c (updateDeviceTwinForceSynchronization env (dmc_snap c) req b em ac) of
                     (c', r) \<Rightarrow> (c', req, r))
              | _ \<Rightarrow> (c, req, Inl (GrpcStatus InvalidArgument ''unknown update type(%T)'' []))))"

definition updateToOfflineRequest ::
    "command_env \<Rightarrow> DeviceMetadataSnapshotTakenForCommand \<Rightarrow> UpdateDeviceToOfflineRequest \<Rightarrow> u64
     \<Rightarrow> DeviceMetadataSnapshotTakenForCommand \<times> any_event list res" where
  "updateToOfflineRequest env c req newVersion =
     (let d = dmc_snap c in
      if udo_DeviceID req = []
      then (c, Inl (GrpcStatus InvalidArgument ''cannot update device to offline for empty deviceId'' []))
      else if GetServiceId (dm_connection d) \<noteq> udo_ServiceID req then (c, Inr [])
      else
        let em = MakeEventMeta (env_Now_meta env 0) (GetConnId (dm_connection d)) (GetEmSequence (dms_EventMetadata d) + 1)
                   newVersion (dmc_hubID c);
            ac = NewAuditContext (dmc_userID c) [] (GetOwner (dmu_AuditContext (dm_updated d)))
        in case updateDeviceConnection env d (udo_DeviceID req) (empty_Connection\<lparr>cn_Status := Connection_OFFLINE\<rparr>)
                  (Some \<lparr>cm_ConnectionId = em_ConnectionId em, cm_Sequence = em_Sequence em\<rparr>) em ac of
             (d', _, r) \<Rightarrow> (c\<lparr>dmc_snap := d'\<rparr>, r))"

text \<open>The command comes back as the handler leaves it.\<close>

definition DeviceMetadata_HandleCommand ::
    "kit_strings \<Rightarrow> command_env \<Rightarrow> DeviceMetadataSnapshotTakenForCommand \<Rightarrow> dm_command \<Rightarrow> u64
     \<Rightarrow> DeviceMetadataSnapshotTakenForCommand \<times> dm_command \<times> any_event list res" where
  "DeviceMetadata_HandleCommand S env c cmd newVersion =
     (case cmd of
        UpdateDeviceMetadata req \<Rightarrow>
          (case updateDeviceMetadataRequest env c req newVersion of (c', req', r) \<Rightarrow> (c', UpdateDeviceMetadata req', r))
      | UpdateDeviceToOffline req \<Rightarrow>
          (case updateToOfflineRequest env c req newVersion of (c', r) \<Rightarrow> (c', cmd, r))
      | ConfirmDeviceMetadata req \<Rightarrow>
          (case ConfirmDeviceMetadataUpdate env 0 c req newVersion False of (c', r) \<Rightarrow> (c', cmd, r))
      | CancelPendingMetadata req \<Rightarrow>
          (case CancelPendingMetadataUpdates S env c req newVersion of (c', r) \<Rightarrow> (c', cmd, r))
      | UnknownDeviceCommand t \<Rightarrow> (c, cmd, Inl (Errorf ''unknown command (%T)'' [t])))"

definition DeviceMetadata_TakeSnapshot ::
    "gotime \<Rightarrow> DeviceMetadataSnapshotTaken \<Rightarrow> u64 \<Rightarrow> DeviceMetadataSnapshotTaken" where
  "DeviceMetadata_TakeSnapshot now d version =
     (DeviceMetadataSnapshotTaken_CopyData
        \<lparr>dms_DeviceId = [], dms_DeviceMetadataUpdated = None, dms_UpdatePendings = [], dms_EventMetadata = None\<rparr> d)
       \<lparr>dms_EventMetadata := Some (MakeEventMeta now (GetEmConnectionId (dms_EventMetadata d))
          (GetEmSequence (dms_EventMetadata d)) version (GetHubId (dms_EventMetadata d)))\<rparr>"

end
