(* ===== verification/Device_Metadata_Properties.thy ===== *)
theory Device_Metadata_Properties
  imports Device_Metadata
begin

text \<open>
  Properties of the device metadata: its pending updates are a \<open>pending_queue\<close>, commands agree with the
  replay of their events in spite of the shared twin synchronization, the connection obeys its ownership
  and time rules, twin synchronization is ordered by sequence numbers, and what a retried request carries.
\<close>

section \<open>The snapshot and its twin synchronization\<close>

lemma dm_updated_simps [simp]:
  "dm_updated (d\<lparr>dms_DeviceMetadataUpdated := Some u\<rparr>) = u"
  "dm_updated (d\<lparr>dms_UpdatePendings := ps\<rparr>) = dm_updated d"
  "dm_updated (d\<lparr>dms_DeviceId := x\<rparr>) = dm_updated d"
  "dm_updated (d\<lparr>dms_EventMetadata := em\<rparr>) = dm_updated d"
  by (simp_all add: dm_updated_def)

lemma alias_twin_simps [simp]:
  "dms_UpdatePendings (alias_twin d ts) = dms_UpdatePendings d"
  "dms_DeviceId (alias_twin d ts) = dms_DeviceId d"
  "dms_EventMetadata (alias_twin d ts) = dms_EventMetadata d"
  "dmu_Connection (dm_updated (alias_twin d ts)) = dmu_Connection (dm_updated d)"
  "dmu_TwinEnabled (dm_updated (alias_twin d ts)) = dmu_TwinEnabled (dm_updated d)"
  "dmu_AuditContext (dm_updated (alias_twin d ts)) = dmu_AuditContext (dm_updated d)"
  "dmu_Canceled (dm_updated (alias_twin d ts)) = dmu_Canceled (dm_updated d)"
  by (auto simp: alias_twin_def dm_updated_def split: option.splits)

text \<open>Everything of a snapshot but its twin synchronization.\<close>

definition same_but_twin :: "DeviceMetadataSnapshotTaken \<Rightarrow> DeviceMetadataSnapshotTaken \<Rightarrow> bool" where
  "same_but_twin d d' \<longleftrightarrow>
     dms_DeviceId d' = dms_DeviceId d \<and> dms_UpdatePendings d' = dms_UpdatePendings d \<and>
     dms_EventMetadata d' = dms_EventMetadata d \<and>
     (dm_updated d')\<lparr>dmu_TwinSynchronization := None\<rparr> = (dm_updated d)\<lparr>dmu_TwinSynchronization := None\<rparr>"

lemma same_but_twin_refl [simp]: "same_but_twin d d"
  by (simp add: same_but_twin_def)

lemma same_but_twin_alias [simp]: "same_but_twin d (alias_twin d ts)"
  by (auto simp: same_but_twin_def alias_twin_def dm_updated_def split: option.splits)

text \<open>
  The comparison that decides on an event sees the twin synchronization of the event itself, so it can
  only be more often true than the comparison with the snapshot before the write.
\<close>

lemma Equal_alias:
  assumes "DeviceMetadataUpdated_Equal (dms_DeviceMetadataUpdated d) ev" and "dmu_TwinSynchronization ev = Some ts"
  shows "DeviceMetadataUpdated_Equal (dms_DeviceMetadataUpdated (alias_twin d ts)) ev"
  using assms by (auto simp: DeviceMetadataUpdated_Equal_def alias_twin_def Let_def split: option.splits)

lemma HandleUpdated_pendings:
  "dms_UpdatePendings (fst (HandleDeviceMetadataUpdated d upd b)) =
     (case find_index (\<lambda>p. dup_cid p = dmu_cid upd) (dms_UpdatePendings d) of
        None \<Rightarrow> dms_UpdatePendings d | Some i \<Rightarrow> remove_at i (dms_UpdatePendings d))"
  by (auto simp: HandleDeviceMetadataUpdated_def Let_def split: option.splits)

lemma HandleUpdated_True:
  assumes "HandleDeviceMetadataUpdated d upd b = (d', Inr True)"
  shows "\<not> DeviceMetadataUpdated_Equal (dms_DeviceMetadataUpdated d) upd" and "dm_updated d' = upd"
    and "dms_DeviceMetadataUpdated d' = Some upd"
    and "dms_DeviceId d' = dmu_DeviceId upd" and "dms_EventMetadata d' = dmu_EventMetadata upd"
    and "b \<Longrightarrow> dmu_cid upd \<in> set (map dup_cid (dms_UpdatePendings d))"
proof -
  show "b \<Longrightarrow> dmu_cid upd \<in> set (map dup_cid (dms_UpdatePendings d))"
    using assms
    by (cases rule: find_index_cases [of dup_cid "dmu_cid upd" "dms_UpdatePendings d"])
      (simp_all add: HandleDeviceMetadataUpdated_def Let_def)
qed (use assms in \<open>auto simp: HandleDeviceMetadataUpdated_def Let_def split: option.splits if_splits\<close>)

text \<open>An event that changed the aliased snapshot changes the snapshot before the write to the same state.\<close>

lemma replay_updated:
  assumes "HandleDeviceMetadataUpdated (alias_twin d ts) ev b = (d', Inr True)"
    and "dmu_TwinSynchronization ev = Some ts"
  shows "fst (HandleDeviceMetadataUpdated d ev False) = d'"
proof -
  let ?p = "case find_index (\<lambda>p. dup_cid p = dmu_cid ev) (dms_UpdatePendings d) of
        None \<Rightarrow> dms_UpdatePendings d | Some i \<Rightarrow> remove_at i (dms_UpdatePendings d)"
  let ?r = "\<lparr>dms_DeviceId = dmu_DeviceId ev, dms_DeviceMetadataUpdated = Some ev, dms_UpdatePendings = ?p,
      dms_EventMetadata = dmu_EventMetadata ev\<rparr>"
  have ne: "\<not> DeviceMetadataUpdated_Equal (dms_DeviceMetadataUpdated d) ev"
    using HandleUpdated_True(1) [OF assms(1)] Equal_alias [OF _ assms(2)] by blast
  have "d' = ?r"
    using assms(1) HandleUpdated_True [OF assms(1)] HandleUpdated_pendings [of "alias_twin d ts" ev b]
    by (intro DeviceMetadataSnapshotTaken.equality) (simp_all split: option.splits)
  moreover have "fst (HandleDeviceMetadataUpdated d ev False) = ?r"
    using ne by (intro DeviceMetadataSnapshotTaken.equality)
      (auto simp: HandleDeviceMetadataUpdated_def Let_def split: option.splits)
  ultimately show ?thesis by simp
qed

lemma replay_updated_same:
  assumes "HandleDeviceMetadataUpdated d ev b = (d', Inr True)"
  shows "fst (HandleDeviceMetadataUpdated d ev False) = d'"
  using assms by (auto simp: HandleDeviceMetadataUpdated_def Let_def split: option.splits if_splits)

section \<open>The queue of pending updates\<close>

definition confirm_update :: "DeviceMetadataSnapshotTaken \<Rightarrow> DeviceMetadataUpdated \<Rightarrow> DeviceMetadataSnapshotTaken \<times> unit res" where
  "confirm_update d upd = map_prod id (map_sum id (\<lambda>_. ())) (HandleDeviceMetadataUpdated d upd True)"

interpretation device_queue: pending_queue dup_cid DeviceMetadataUpdatePending_IsExpired
  dms_UpdatePendings HandleDeviceMetadataUpdatePending confirm_update dmu_cid "\<lambda>_. True"
  by unfold_locales
    (auto simp: HandleDeviceMetadataUpdatePending_def confirm_update_def HandleDeviceMetadataUpdated_def Let_def
      DeviceMetadataUpdatePending_IsExpired_def list_ex_iff find_index_None
      split: option.splits if_splits dest: IsExpired_mono)

section \<open>Commands against the replay of their events\<close>

definition dm_step :: "uuid_pkg \<Rightarrow> gotime \<Rightarrow> DeviceMetadataSnapshotTaken \<Rightarrow> any_event \<Rightarrow> DeviceMetadataSnapshotTaken" where
  "dm_step U now d ev = fst (DeviceMetadata_handleByEvent now d (stored U ev))"

fun dm_event :: "any_event \<Rightarrow> bool" where
  "dm_event (E_DeviceMetadataUpdated _) = True"
| "dm_event (E_DeviceMetadataUpdatePending _) = True"
| "dm_event _ = False"

lemma dm_step_simps [simp]:
  "dm_step U now d (E_DeviceMetadataUpdated u) = fst (HandleDeviceMetadataUpdated d u False)"
  "dm_step U now d (E_DeviceMetadataUpdatePending p) = fst (HandleDeviceMetadataUpdatePending now d p)"
  by (simp_all add: dm_step_def DeviceMetadata_handleByEvent_def stored_def event_table_defs Unmarshal_as_def sel_defs)

lemma dm_handle_stored:
  assumes "list_all dm_event evs"
  shows "DeviceMetadata_Handle (\<lambda>_. now) d (map (stored U) evs) None = (foldl (dm_step U now) d evs, Inr ())"
proof -
  have *: "foldl (\<lambda>e eu. fst (DeviceMetadata_handleByEvent now e eu)) d (map (stored U) evs) = foldl (dm_step U now) d evs"
    by (induction evs arbitrary: d) (simp_all add: dm_step_def)
  have "iterate_events (\<lambda>n. DeviceMetadata_handleByEvent now) 0 d (map (stored U) evs) None =
      (foldl (\<lambda>e eu. fst (DeviceMetadata_handleByEvent now e eu)) d (map (stored U) evs), Inr ())"
  proof (rule iterate_events_fold)
    fix eu e n assume "eu \<in> set (map (stored U) evs)"
    then obtain ev where "dm_event ev" "eu = stored U ev" using assms by (auto simp: list_all_iff)
    then show "eu_EventType eu \<noteq> [] \<and> snd (DeviceMetadata_handleByEvent now e eu) = Inr () \<and>
        fst (DeviceMetadata_handleByEvent now e eu) = fst (DeviceMetadata_handleByEvent now e eu)"
      by (cases ev) (simp_all add: DeviceMetadata_handleByEvent_def stored_def event_table_defs Unmarshal_as_def sel_defs)
  qed
  with * show ?thesis by (simp add: DeviceMetadata_Handle_def)
qed

text \<open>
  The outcome of a handler against its starting snapshot: an error leaves all but the twin
  synchronization, and events reproduce the new snapshot, carry the version and the device.
\<close>

definition dm_agrees ::
    "uuid_pkg \<Rightarrow> gotime \<Rightarrow> string \<Rightarrow> u64 \<Rightarrow> DeviceMetadataSnapshotTaken \<Rightarrow> dm_outcome \<Rightarrow> bool" where
  "dm_agrees U now dev v d r \<longleftrightarrow>
     (case r of
        (d', Inl _) \<Rightarrow> same_but_twin d d'
      | (d', Inr evs) \<Rightarrow>
          (evs \<noteq> [] \<longrightarrow> d' = foldl (dm_step U now) d evs) \<and> list_all dm_event evs \<and> numbered U v evs \<and>
          list_all (\<lambda>ev. ev_AggregateID (as_Event U ev) = MakeStatusResourceUUID U dev \<and>
            ev_GroupID (as_Event U ev) = dev \<and> \<not> ev_IsSnapshot (as_Event U ev)) evs)"

lemma dm_agrees_emit:
  assumes "dmu_TwinSynchronization ev = Some ts" "dmu_DeviceId ev = dev" "GetVersion (dmu_EventMetadata ev) = v"
  shows "dm_agrees U now dev v d (emit_updated (HandleDeviceMetadataUpdated (alias_twin d ts) ev b) ev)"
proof -
  obtain d' r where h: "HandleDeviceMetadataUpdated (alias_twin d ts) ev b = (d', r)" by fastforce
  have err: "d' = alias_twin d ts" if "r = Inl e" for e
    using h that by (auto simp: HandleDeviceMetadataUpdated_def Let_def split: option.splits if_splits)
  show ?thesis
  proof (cases r)
    case (Inl e)
    with err [OF this] h show ?thesis by (simp add: dm_agrees_def emit_updated_def)
  next
    case (Inr changed)
    show ?thesis
    proof (cases changed)
      case True
      with h Inr have h': "HandleDeviceMetadataUpdated (alias_twin d ts) ev b = (d', Inr True)" by simp
      from replay_updated [OF h' assms(1)] h' assms show ?thesis
        by (simp add: dm_agrees_def emit_updated_def event_table_defs)
    qed (use h Inr in \<open>simp add: dm_agrees_def emit_updated_def\<close>)
  qed
qed

lemma dm_agrees_emit_plain:
  assumes "dmu_DeviceId ev = dev" "GetVersion (dmu_EventMetadata ev) = v"
  shows "dm_agrees U now dev v d (emit_updated (HandleDeviceMetadataUpdated d ev b) ev)"
proof -
  obtain d' r where h: "HandleDeviceMetadataUpdated d ev b = (d', r)" by fastforce
  have err: "d' = d" if "r = Inl e" for e
    using h that by (auto simp: HandleDeviceMetadataUpdated_def Let_def split: option.splits if_splits)
  show ?thesis
  proof (cases r)
    case (Inl e)
    with err [OF this] h show ?thesis by (simp add: dm_agrees_def emit_updated_def)
  next
    case (Inr changed)
    show ?thesis
    proof (cases changed)
      case True
      with h Inr have h': "HandleDeviceMetadataUpdated d ev b = (d', Inr True)" by simp
      from replay_updated_same [OF h'] h' assms show ?thesis
        by (simp add: dm_agrees_def emit_updated_def event_table_defs)
    qed (use h Inr in \<open>simp add: dm_agrees_def emit_updated_def\<close>)
  qed
qed

lemma dm_agrees_error [simp]: "dm_agrees U now dev v d (d, Inl err)"
  by (simp add: dm_agrees_def)

lemma dm_agrees_nothing [simp]: "dm_agrees U now dev v d (d', Inr [])"
  by (simp add: dm_agrees_def)

lemma MakeEventMeta_simps [simp]:
  "em_Version (MakeEventMeta now cid sq v hub) = v"
  "em_ConnectionId (MakeEventMeta now cid sq v hub) = cid"
  "em_Sequence (MakeEventMeta now cid sq v hub) = sq"
  by (simp_all add: MakeEventMeta_def)

lemma NewAuditContext_simps [simp]:
  "ac_CorrelationId (NewAuditContext u x w) = x"
  "ac_UserId (NewAuditContext u x w) = u"
  "ac_Owner (NewAuditContext u x w) = w"
  by (simp_all add: NewAuditContext_def)

lemma device_em_version [simp]: "em_Version (device_em env n c cm v) = v"
  by (simp add: device_em_def)

lemma confirm_handlers_agree:
  "dm_agrees U now (cdm_DeviceId req) (em_Version em) d (cancelDeviceMetadataUpdate env d req em ac)"
  "dm_agrees U now (cdm_DeviceId req) (em_Version em) d (updateTwinEnabled env d req b em ac)"
  "dm_agrees U now (cdm_DeviceId req) (em_Version em) d (updateTwinForceSynchronization env d req b em ac)"
  unfolding cancelDeviceMetadataUpdate_def updateTwinEnabled_def updateTwinForceSynchronization_def Let_def
  by (auto intro!: dm_agrees_emit dm_agrees_emit_plain)

lemma accept_pending_agrees:
  assumes "em_Version em = v"
  shows "dm_agrees U (env_Now_handle env) (udm_DeviceId req) v d (accept_pending env d req upd em ac)"
proof -
  define ev where "ev = \<lparr>dup_DeviceId = udm_DeviceId req, dup_UpdatePending = Some upd, dup_AuditContext = Some ac,
      dup_EventMetadata = Some em, dup_ValidUntil = timeToLive2ValidUntil (env_Now_ttl env) (udm_TimeToLive req),
      dup_OpenTelemetryCarrier = env_Trace env\<rparr>"
  obtain d' r where h: "HandleDeviceMetadataUpdatePending (env_Now_handle env) d ev = (d', r)" by fastforce
  have "d' = d" if "r = Inl e" for e
    using h that by (auto simp: HandleDeviceMetadataUpdatePending_def split: if_splits)
  moreover have "accept_pending env d req upd em ac =
      (case (d', r) of (d', Inl err) \<Rightarrow> (d', Inl err) | (d', Inr _) \<Rightarrow> (d', Inr [E_DeviceMetadataUpdatePending ev]))"
    unfolding accept_pending_def Let_def ev_def [symmetric] h ..
  moreover have "dup_DeviceId ev = udm_DeviceId req" "dup_EventMetadata ev = Some em" by (simp_all add: ev_def)
  ultimately show ?thesis using h assms by (cases r) (simp_all add: dm_agrees_def event_table_defs)
qed

lemma connection_agrees:
  assumes "updateDeviceConnection env d dev conn cm em ac = (d', conn', r)"
  shows "dm_agrees U now dev (em_Version em) d (d', r)"
proof -
  have em: "dm_agrees U now dev (em_Version em) d (d', r)"
    if "emit_updated (HandleDeviceMetadataUpdated (alias_twin d ts) ev False) ev = (d', r)"
      "dmu_TwinSynchronization ev = Some ts" "dmu_DeviceId ev = dev" "dmu_EventMetadata ev = Some em" for ts ev
    using dm_agrees_emit [of ev ts dev "em_Version em" U now d False] that by simp
  from assms show ?thesis
    unfolding updateDeviceConnection_def Let_def
    by (auto split: if_splits sum.splits prod.splits intro: em)
qed

lemma twin_agrees:
  assumes "updateDeviceTwinSynchronization env d dev ts cm em ac = (d', ts', r)"
  shows "dm_agrees U now dev (em_Version em) d (d', r)"
proof -
  have em: "dm_agrees U now dev (em_Version em) d (d', r)"
    if "emit_updated (HandleDeviceMetadataUpdated d ev False) ev = (d', r)"
      "dmu_DeviceId ev = dev" "dmu_EventMetadata ev = Some em" for ev
    using dm_agrees_emit_plain [of ev dev "em_Version em" U now d False] that by simp
  from assms show ?thesis
    unfolding updateDeviceTwinSynchronization_def Let_def
    by (auto split: if_splits sum.splits prod.splits bool.splits intro: em)
qed

fun dm_command_device :: "dm_command \<Rightarrow> string" where
  "dm_command_device (UpdateDeviceMetadata req) = udm_DeviceId req"
| "dm_command_device (UpdateDeviceToOffline req) = udo_DeviceID req"
| "dm_command_device (ConfirmDeviceMetadata req) = cdm_DeviceId req"
| "dm_command_device (CancelPendingMetadata req) = cpm_DeviceId req"
| "dm_command_device (UnknownDeviceCommand t) = []"

lemma confirm_agrees_device:
  assumes "ConfirmDeviceMetadataUpdate env n c req v cancel = (c', r)"
  shows "dm_agrees U now (cdm_DeviceId req) v (dmc_snap c) (dmc_snap c', r)"
proof (cases "cdm_CommandMetadata req")
  case None
  with assms show ?thesis by (auto simp: ConfirmDeviceMetadataUpdate_def)
next
  case (Some cm)
  note agree = confirm_handlers_agree [where U = U and now = now and req = req and env = env and d = "dmc_snap c"
      and em = "device_em env n c cm v"]
  from assms Some show ?thesis
    by (auto simp: ConfirmDeviceMetadataUpdate_def Let_def on_device_def agree [simplified]
        split: if_splits Device_Confirm.splits)
qed

lemma update_agrees:
  assumes "updateDeviceMetadataRequest env c req v = (c', req', r)"
  shows "dm_agrees U (env_Now_handle env) (udm_DeviceId req) v (dmc_snap c) (dmc_snap c', r)"
proof (cases "udm_CommandMetadata req")
  case None
  with assms show ?thesis by (auto simp: updateDeviceMetadataRequest_def)
next
  case (Some cm)
  let ?em = "device_em env 0 c cm v"
  let ?ac = "NewAuditContext (dmc_userID c) (udm_CorrelationId req) (dmc_owner c)"
  have conn: "dm_agrees U (env_Now_handle env) (udm_DeviceId req) v (dmc_snap c) (d, r)"
    if "updateDeviceConnection env (dmc_snap c) (udm_DeviceId req) x y ?em ?ac = (d, k, r)" for d x y k r
    using connection_agrees [OF that] by simp
  have twin: "dm_agrees U (env_Now_handle env) (udm_DeviceId req) v (dmc_snap c) (d, r)"
    if "updateDeviceTwinSynchronization env (dmc_snap c) (udm_DeviceId req) x y ?em ?ac = (d, k, r)" for d x y k r
    using twin_agrees [OF that] by simp
  from assms Some show ?thesis
    by (auto simp: updateDeviceMetadataRequest_def Let_def on_device_def updateDeviceTwinEnabled_def
        updateDeviceTwinForceSynchronization_def
        split: Device_Update.splits option.splits prod.splits if_splits intro: conn twin accept_pending_agrees [OF device_em_version])
qed

lemma offline_agrees:
  assumes "updateToOfflineRequest env c req v = (c', r)"
  shows "dm_agrees U now (udo_DeviceID req) v (dmc_snap c) (dmc_snap c', r)"
proof -
  have conn: "dm_agrees U now (udo_DeviceID req) v (dmc_snap c) (d, r)"
    if "updateDeviceConnection env (dmc_snap c) (udo_DeviceID req) x y (MakeEventMeta t i s v h) ac = (d, k, r)" for d x y k r t i s h ac
    using connection_agrees [OF that] by simp
  from assms show ?thesis
    by (auto simp: updateToOfflineRequest_def Let_def split: prod.splits if_splits intro: conn)
qed

section \<open>Cancellation\<close>

text \<open>
  The correlation identifiers of the pending updates are distinct and none is that of the last update, so
  that a cancellation of any of them is a change.
\<close>

definition fresh_pendings :: "DeviceMetadataSnapshotTaken \<Rightarrow> bool" where
  "fresh_pendings d \<longleftrightarrow> distinct (map dup_cid (dms_UpdatePendings d)) \<and>
     dmu_cid (dm_updated d) \<notin> set (map dup_cid (dms_UpdatePendings d))"

lemma cancel_confirm:
  assumes "cpm_CommandMetadata req = Some cm"
    and "ConfirmDeviceMetadataUpdate env n c (cancel_metadata_request req x) w True = (c', r)"
  shows "x \<in> set (map dup_cid (dmc_pendings c)) \<Longrightarrow> dmu_cid (dm_updated (dmc_snap c)) \<noteq> x \<Longrightarrow>
      \<exists>ev. r = Inr [E_DeviceMetadataUpdated ev] \<and> dm_updated (dmc_snap c') = ev \<and> dmu_cid ev = x \<and> dmu_Canceled ev \<and>
        map dup_cid (dmc_pendings c') = remove1 x (map dup_cid (dmc_pendings c))"
    and "x \<notin> set (map dup_cid (dmc_pendings c)) \<Longrightarrow> \<exists>err. r = Inl err \<and> c' = c"
proof -
  let ?ev = "\<lparr>dmu_DeviceId = cpm_DeviceId req, dmu_Connection = dm_connection (dmc_snap c),
      dmu_TwinSynchronization = dm_twin (dmc_snap c), dmu_TwinEnabled = dmu_TwinEnabled (dm_updated (dmc_snap c)),
      dmu_AuditContext = Some (NewAuditContext (dmc_userID c) x (dmc_owner c)),
      dmu_EventMetadata = Some (device_em env n c cm w), dmu_Canceled = True, dmu_OpenTelemetryCarrier = env_Trace env\<rparr>"
  have c': "(c', r) = on_device c (emit_updated (HandleDeviceMetadataUpdated (dmc_snap c) ?ev True) ?ev)"
    using assms by (simp add: ConfirmDeviceMetadataUpdate_def cancel_metadata_request_def cancelDeviceMetadataUpdate_def Let_def)
  have cid: "dmu_cid ?ev = x" by simp
  show "\<exists>ev. r = Inr [E_DeviceMetadataUpdated ev] \<and> dm_updated (dmc_snap c') = ev \<and> dmu_cid ev = x \<and> dmu_Canceled ev \<and>
        map dup_cid (dmc_pendings c') = remove1 x (map dup_cid (dmc_pendings c))"
    if "x \<in> set (map dup_cid (dmc_pendings c))" "dmu_cid (dm_updated (dmc_snap c)) \<noteq> x"
  proof -
    have "\<exists>p \<in> set (dmc_pendings c). dup_cid p = x" using that(1) by auto
    then obtain i where i: "find_index (\<lambda>p. dup_cid p = x) (dmc_pendings c) = Some i"
      using find_index_ex [of "\<lambda>p. dup_cid p = x" "dmc_pendings c"] by blast
    have ne: "\<not> DeviceMetadataUpdated_Equal (dms_DeviceMetadataUpdated (dmc_snap c)) ?ev"
      using that(2) by (auto simp: DeviceMetadataUpdated_Equal_def dm_updated_def Let_def split: option.splits)
    have h: "HandleDeviceMetadataUpdated (dmc_snap c) ?ev True =
        ((dmc_snap c)\<lparr>dms_UpdatePendings := remove_at i (dmc_pendings c), dms_DeviceId := cpm_DeviceId req,
           dms_DeviceMetadataUpdated := Some ?ev, dms_EventMetadata := dmu_EventMetadata ?ev\<rparr>, Inr True)"
      using ne by (simp add: HandleDeviceMetadataUpdated_def Let_def i)
    have "r = Inr [E_DeviceMetadataUpdated ?ev]" and "dm_updated (dmc_snap c') = ?ev"
      and "dmc_pendings c' = remove_at i (dmc_pendings c)"
      using c' unfolding h by (simp_all add: on_device_def emit_updated_def)
    with map_remove_at_remove1 [OF i] show ?thesis by simp
  qed
  show "\<exists>err. r = Inl err \<and> c' = c" if "x \<notin> set (map dup_cid (dmc_pendings c))"
  proof -
    have i: "find_index (\<lambda>p. dup_cid p = x) (dmc_pendings c) = None"
      using that by (auto simp: find_index_None)
    from c' show ?thesis by (simp add: HandleDeviceMetadataUpdated_def on_device_def emit_updated_def Let_def i)
  qed
qed

lemma cancel_confirm_step:
  assumes "cpm_CommandMetadata req = Some cm" and "fresh_pendings (dmc_snap c)"
    and conf: "ConfirmDeviceMetadataUpdate env n c (cancel_metadata_request req x) w True = (c', r)"
  shows "fresh_pendings (dmc_snap c') \<and>
    dmc_snap c' = foldl (dm_step U now) (dmc_snap c) (case r of Inl _ \<Rightarrow> [] | Inr evs \<Rightarrow> evs)"
proof (cases "x \<in> set (map dup_cid (dmc_pendings c))")
  case True
  with assms(2) have ne: "dmu_cid (dm_updated (dmc_snap c)) \<noteq> x" by (auto simp: fresh_pendings_def)
  from cancel_confirm(1) [OF assms(1) conf True ne] obtain ev where
    ev: "r = Inr [E_DeviceMetadataUpdated ev]" "dm_updated (dmc_snap c') = ev" "dmu_cid ev = x"
      "map dup_cid (dmc_pendings c') = remove1 x (map dup_cid (dmc_pendings c))" by blast
  have "distinct (map dup_cid (dmc_pendings c))" using assms(2) by (simp add: fresh_pendings_def)
  then have "fresh_pendings (dmc_snap c')" unfolding fresh_pendings_def ev(2,4) using ev(3) by simp
  moreover have "dm_agrees U now (cpm_DeviceId req) w (dmc_snap c) (dmc_snap c', r)"
    using confirm_agrees_device [OF conf] by (simp add: cancel_metadata_request_def)
  ultimately show ?thesis using ev(1) by (simp add: dm_agrees_def)
next
  case False
  with cancel_confirm(2) [OF assms(1) conf] assms(2) show ?thesis by auto
qed

lemma cancel_metadata_agrees:
  assumes "fresh_pendings (dmc_snap c)" and "CancelPendingMetadataUpdates S env c req v = (c', r)"
  shows "dm_agrees U now (cpm_DeviceId req) v (dmc_snap c) (dmc_snap c', r)"
proof (cases "cpm_CommandMetadata req")
  case None
  with assms(2) show ?thesis by (auto simp: CancelPendingMetadataUpdates_def)
next
  case (Some cm)
  let ?conf = "\<lambda>i c' cid v. ConfirmDeviceMetadataUpdate env i c' (cancel_metadata_request req cid) v True"
  let ?skip = "filtered_out S (cpm_CorrelationIdFilter req)"
  obtain c1 evs where l: "cancel_loop dmc_pendings dup_cid ?skip ?conf v (length (dmc_pendings c)) 0 (dmc_pendings c) c [] = (c1, evs)"
    by fastforce
  then have r: "c' = c1" "r = (if evs = [] then Inl (GrpcStatus NotFound ''cannot find commands with correlationID(%v)''
      (cpm_CorrelationIdFilter req)) else Inr evs)"
    using assms(2) Some by (auto simp: CancelPendingMetadataUpdates_def cancel_range_def split: if_splits)
  have ag: "dm_agrees U now (cpm_DeviceId req) w (dmc_snap a) (dmc_snap b, Inr es)" if "?conf n a x w = (b, Inr es)" for n a x w b es
    using confirm_agrees_device [OF that] by (simp add: cancel_metadata_request_def)
  have step: "fresh_pendings (dmc_snap b) \<and> dmc_snap b = foldl (dm_step U now) (dmc_snap a) (case q of Inl _ \<Rightarrow> [] | Inr evs \<Rightarrow> evs)"
    if "fresh_pendings (dmc_snap a)" "?conf n a x w = (b, q)" for n a x w b q
    by (rule cancel_confirm_step [OF Some that])
  have snap: "dmc_snap c1 = foldl (dm_step U now) (dmc_snap c) evs"
    using cancel_loop_replay [where I = "\<lambda>c. fresh_pendings (dmc_snap c)" and snap = dmc_snap and g = "dm_step U now" and confirm = ?conf
        and s = "dmc_snap c", OF step assms(1) _ l] by simp
  have num: "numbered U v evs"
    using cancel_loop_numbered [of U v "[]" ?conf dmc_pendings dup_cid ?skip "length (dmc_pendings c)" 0 "dmc_pendings c" c] l ag
    by (auto simp: dm_agrees_def)
  let ?P = "\<lambda>ev. dm_event ev \<and> ev_AggregateID (as_Event U ev) = MakeStatusResourceUUID U (cpm_DeviceId req) \<and>
            ev_GroupID (as_Event U ev) = cpm_DeviceId req \<and> \<not> ev_IsSnapshot (as_Event U ev)"
  have "list_all ?P es" if "?conf n a x w = (b, Inr es)" for n a x w b es
    using ag [OF that] by (auto simp: dm_agrees_def list_all_iff)
  then have "list_all ?P evs"
    using cancel_loop_events [of ?conf ?P "[]" dmc_pendings dup_cid ?skip v "length (dmc_pendings c)" 0 "dmc_pendings c" c] l by auto
  with snap num r show ?thesis by (auto simp: dm_agrees_def list_all_iff)
qed

lemma device_command_agrees:
  assumes "DeviceMetadata_HandleCommand S env c cmd v = (c', cmd', r)"
    and "\<And>req. cmd = CancelPendingMetadata req \<Longrightarrow> fresh_pendings (dmc_snap c)"
  shows "dm_agrees U (env_Now_handle env) (dm_command_device cmd) v (dmc_snap c) (dmc_snap c', r)"
  using assms
  by (cases cmd)
    (auto simp: DeviceMetadata_HandleCommand_def split: prod.splits
      intro: update_agrees offline_agrees confirm_agrees_device cancel_metadata_agrees)

section \<open>The connection under commands\<close>

lemma emit_connection:
  "dm_connection (fst (emit_updated (HandleDeviceMetadataUpdated d ev b) ev)) \<in> {dm_connection d, dmu_Connection ev}"
  by (auto simp: emit_updated_def HandleDeviceMetadataUpdated_def Let_def split: option.splits)

lemma emit_connection_kept:
  "dmu_Connection ev = dm_connection d \<Longrightarrow>
     dm_connection (fst (emit_updated (HandleDeviceMetadataUpdated d ev b) ev)) = dm_connection d"
  using emit_connection [of d ev b] by simp

lemma connection_kept:
  "dm_connection (fst (cancelDeviceMetadataUpdate env d req em ac)) = dm_connection d"
  "dm_connection (fst (updateTwinEnabled env d req b em ac)) = dm_connection d"
  "dm_connection (fst (updateTwinForceSynchronization env d req b em ac)) = dm_connection d"
  "dm_connection (fst (accept_pending env d ureq upd em ac)) = dm_connection d"
  by (simp_all add: cancelDeviceMetadataUpdate_def updateTwinEnabled_def updateTwinForceSynchronization_def
      accept_pending_def HandleDeviceMetadataUpdatePending_def Let_def emit_connection_kept)

lemma twin_connection_kept:
  assumes "updateDeviceTwinSynchronization env d dev ts cm em ac = (d', ts', r)"
  shows "dm_connection d' = dm_connection d"
proof -
  have "dm_connection d' = dm_connection d"
    if "emit_updated (HandleDeviceMetadataUpdated d ev False) ev = (d', r)" "dmu_Connection ev = dm_connection d" for ev
    using emit_connection [of d ev False] that by simp
  with assms show ?thesis
    unfolding updateDeviceTwinSynchronization_def Let_def
    by (auto split: if_splits sum.splits prod.splits bool.splits)
qed

lemma confirm_connection_kept:
  "dm_connection (dmc_snap (fst (ConfirmDeviceMetadataUpdate env n c req v b))) = dm_connection (dmc_snap c)"
  by (auto simp: ConfirmDeviceMetadataUpdate_def Let_def on_device_def connection_kept split: option.splits Device_Confirm.splits)

lemma cancel_connection_kept:
  "dm_connection (dmc_snap (fst (CancelPendingMetadataUpdates S env c req v))) = dm_connection (dmc_snap c)"
proof -
  let ?conf = "\<lambda>i c' cid v. ConfirmDeviceMetadataUpdate env i c' (cancel_metadata_request req cid) v True"
  have "dm_connection (dmc_snap (fst (cancel_range dmc_pendings dup_cid skip ?conf v c))) = dm_connection (dmc_snap c)" for skip
    unfolding cancel_range_def
    by (rule cancel_loop_invariant [where I = "\<lambda>c'. dm_connection (dmc_snap c') = dm_connection (dmc_snap c)"])
      (simp_all add: confirm_connection_kept)
  then show ?thesis
    by (auto simp: CancelPendingMetadataUpdates_def split: option.splits prod.splits; metis fst_conv)
qed

text \<open>The connection after a connection update: the old one, or the request's with the rules applied.\<close>

lemma connection_update_cases:
  assumes "updateDeviceConnection env d dev conn cm em ac = (d', conn', r)"
  shows "dm_connection d' = dm_connection d \<or>
    (dm_connection d' = Some conn' \<and> cn_Id conn' = GetConnectionId cm \<and> cn_Status conn' = cn_Status conn \<and>
     GetConnectedAt (dm_connection d) \<le> cn_ConnectedAt conn' \<and> cn_ConnectedAt conn \<le> cn_ConnectedAt conn' \<and>
     (cn_Status conn \<noteq> Connection_ONLINE \<longrightarrow> IsOnline (dm_connection d) \<longrightarrow> GetConnectionId cm = GetConnId (dm_connection d)))"
proof -
  have e: "dm_connection d' = dm_connection d \<or> dm_connection d' = dmu_Connection ev"
    if "emit_updated (HandleDeviceMetadataUpdated (alias_twin d ts) ev False) ev = (d', r)" for ts ev
    using emit_connection [of "alias_twin d ts" ev False] that by simp
  from assms show ?thesis
    unfolding updateDeviceConnection_def Let_def
    by (auto split: if_splits sum.splits prod.splits dest!: e
        simp: IsOnline_def getTwinSynchronizationForDisconnectedDevice_def)
qed

section \<open>Sample device\<close>

definition ex_conn :: "Connection_Status \<Rightarrow> Connection" where
  "ex_conn st = \<lparr>cn_Status = st, cn_Id = [], cn_ConnectedAt = 10, cn_Protocol = Protocol_COAPS_TCP,
     cn_ServiceId = ''svc'', cn_LocalEndpoints = []\<rparr>"

definition ex_connect :: "Connection_Status \<Rightarrow> string \<Rightarrow> dm_command" where
  "ex_connect st connId = UpdateDeviceMetadata \<lparr>udm_DeviceId = ''d'', udm_CorrelationId = [],
     udm_Update = Update_Connection (Some (ex_conn st)), udm_TimeToLive = 0,
     udm_CommandMetadata = Some \<lparr>cm_ConnectionId = connId, cm_Sequence = 1\<rparr>\<rparr>"

definition ex_enable :: "string \<Rightarrow> dm_command" where
  "ex_enable cid = UpdateDeviceMetadata \<lparr>udm_DeviceId = ''d'', udm_CorrelationId = cid, udm_Update = Update_TwinEnabled False,
     udm_TimeToLive = 0, udm_CommandMetadata = Some ex_cm\<rparr>"

definition ex_dev_step :: "DeviceMetadataSnapshotTakenForCommand \<Rightarrow> dm_command \<Rightarrow> DeviceMetadataSnapshotTakenForCommand" where
  "ex_dev_step c cmd = fst (DeviceMetadata_HandleCommand ex_kit ex_env c cmd 1)"

definition ex_online :: DeviceMetadataSnapshotTakenForCommand where
  "ex_online = ex_dev_step (NewDeviceMetadataSnapshotTakenForCommand ''user'' ''owner'' ''hub'') (ex_connect Connection_ONLINE ''conn'')"

definition ex_pending :: DeviceMetadataSnapshotTakenForCommand where
  "ex_pending = ex_dev_step (ex_dev_step ex_online (ex_enable ''a'')) (ex_enable ''b'')"

definition ex_cancel_metadata :: "string list \<Rightarrow> CancelPendingMetadataUpdatesRequest" where
  "ex_cancel_metadata flt = \<lparr>cpm_DeviceId = ''d'', cpm_CorrelationIdFilter = flt, cpm_CommandMetadata = Some ex_cm\<rparr>"

lemma run3_okE:
  assumes "case snd (snd r) of Inl _ \<Rightarrow> False | Inr v \<Rightarrow> P v"
  obtains s q v where "r = (s, q, Inr v)" and "P v"
  using assms by (cases r) (auto split: sum.splits)

lemma ex_pending_cids: "map dup_cid (dmc_pendings ex_pending) = [''a'', ''b'']" "fresh_pendings (dmc_snap ex_pending)"
  by code_simp+

section \<open>Properties\<close>



text \<open>A device metadata command that fails leaves the connection, the pending updates and the metadata as they
  were; only the twin synchronization of the in-memory snapshot may have been overwritten.
\<close>

theorem device_command_error_frame:
  assumes "DeviceMetadata_HandleCommand S env c cmd v = (c', cmd', Inl err)"
    and "\<And>req. cmd = CancelPendingMetadata req \<Longrightarrow> fresh_pendings (dmc_snap c)"
  shows "same_but_twin (dmc_snap c) (dmc_snap c')"
  using device_command_agrees [OF assms] by (simp add: dm_agrees_def)

theorem device_command_error_frame_witness:
  "\<exists>c' cmd' err. DeviceMetadata_HandleCommand ex_kit ex_env ex_pending (ex_enable ''a'') 5 = (c', cmd', Inl err) \<and>
     error_code err = Some InvalidArgument \<and> same_but_twin (dmc_snap ex_pending) (dmc_snap c')"
proof -
  let ?r = "DeviceMetadata_HandleCommand ex_kit ex_env ex_pending (ex_enable ''a'') 5"
  have "case snd (snd ?r) of Inl e \<Rightarrow> error_code e = Some InvalidArgument | Inr _ \<Rightarrow> False" by code_simp
  then obtain c' cmd' err where r: "?r = (c', cmd', Inl err)" and e: "error_code err = Some InvalidArgument"
    by (cases ?r) (auto split: sum.splits)
  from device_command_error_frame [OF r] r e show ?thesis by (auto simp: ex_enable_def)
qed

text \<open>No command ever moves the time of the last connection of a device back.
\<close>

theorem connected_at_monotone:
  assumes "DeviceMetadata_HandleCommand S env c cmd v = (c', cmd', r)"
  shows "GetConnectedAt (dm_connection (dmc_snap c)) \<le> GetConnectedAt (dm_connection (dmc_snap c'))"
proof -
  have conn: "GetConnectedAt (dm_connection d) \<le> GetConnectedAt (dm_connection d')"
    if "updateDeviceConnection env d dev cn cm em ac = (d', cn', q)" for d dev cn cm em ac d' cn' q
    using connection_update_cases [OF that] by auto
  show ?thesis
  proof (cases cmd)
    case (UpdateDeviceMetadata req)
    with assms show ?thesis
      by (auto simp: DeviceMetadata_HandleCommand_def updateDeviceMetadataRequest_def Let_def on_device_def
          updateDeviceTwinEnabled_def updateDeviceTwinForceSynchronization_def connection_kept twin_connection_kept
          split: option.splits prod.splits Device_Update.splits if_splits dest: conn)
  next
    case (UpdateDeviceToOffline req)
    with assms show ?thesis
      by (auto simp: DeviceMetadata_HandleCommand_def updateToOfflineRequest_def Let_def split: prod.splits if_splits dest: conn)
  next
    case (ConfirmDeviceMetadata req)
    with assms confirm_connection_kept [of env 0 c req v False] show ?thesis
      by (auto simp: DeviceMetadata_HandleCommand_def split: prod.splits)
  next
    case (CancelPendingMetadata req)
    with assms cancel_connection_kept [of S env c req v] show ?thesis
      by (auto simp: DeviceMetadata_HandleCommand_def split: prod.splits)
  next
    case (UnknownDeviceCommand t)
    with assms show ?thesis by (auto simp: DeviceMetadata_HandleCommand_def)
  qed
qed

theorem connected_at_monotone_witness:
  "GetConnectedAt (dm_connection (dmc_snap ex_online)) = 10 \<and>
   10 \<le> GetConnectedAt (dm_connection (dmc_snap (ex_dev_step ex_online
     (UpdateDeviceToOffline \<lparr>udo_DeviceID = ''d'', udo_ServiceID = ''svc''\<rparr>))))"
proof -
  let ?cmd = "UpdateDeviceToOffline \<lparr>udo_DeviceID = ''d'', udo_ServiceID = ''svc''\<rparr>"
  obtain c' cmd' r where r: "DeviceMetadata_HandleCommand ex_kit ex_env ex_online ?cmd 1 = (c', cmd', r)" by (metis prod_cases3)
  have t: "GetConnectedAt (dm_connection (dmc_snap ex_online)) = 10" by code_simp
  from connected_at_monotone [OF r] t r show ?thesis by (simp add: ex_dev_step_def)
qed

text \<open>
  C8. A device that is online goes offline only through an update sent on the connection it is online with, or
  through the expiry of the service that holds that connection.
\<close>

theorem offline_only_by_owner:
  assumes "DeviceMetadata_HandleCommand S env c cmd v = (c', cmd', r)"
    and "IsOnline (dm_connection (dmc_snap c))" and "\<not> IsOnline (dm_connection (dmc_snap c'))"
  shows "case cmd of
      UpdateDeviceMetadata req \<Rightarrow> GetConnectionId (udm_CommandMetadata req) = GetConnId (dm_connection (dmc_snap c))
    | UpdateDeviceToOffline req \<Rightarrow> udo_ServiceID req = GetServiceId (dm_connection (dmc_snap c))
    | _ \<Rightarrow> False"
proof -
  have conn: "GetConnectionId cm = GetConnId (dm_connection d)"
    if "updateDeviceConnection env d dev cn cm em ac = (d', cn', q)" "IsOnline (dm_connection d)" "\<not> IsOnline (dm_connection d')"
    for d dev cn cm em ac d' cn' q
    using connection_update_cases [OF that(1)] that(2,3) by (auto simp: IsOnline_def)
  show ?thesis
  proof (cases cmd)
    case (UpdateDeviceMetadata req)
    with assms show ?thesis
      by (auto simp: DeviceMetadata_HandleCommand_def updateDeviceMetadataRequest_def Let_def on_device_def
          updateDeviceTwinEnabled_def updateDeviceTwinForceSynchronization_def connection_kept twin_connection_kept
          split: option.splits prod.splits Device_Update.splits if_splits dest: conn)
  next
    case (UpdateDeviceToOffline req)
    with assms show ?thesis
      by (auto simp: DeviceMetadata_HandleCommand_def updateToOfflineRequest_def Let_def split: prod.splits if_splits)
  next
    case (ConfirmDeviceMetadata req)
    with assms confirm_connection_kept [of env 0 c req v False] show ?thesis
      by (auto simp: DeviceMetadata_HandleCommand_def split: prod.splits)
  next
    case (CancelPendingMetadata req)
    with assms cancel_connection_kept [of S env c req v] show ?thesis
      by (auto simp: DeviceMetadata_HandleCommand_def split: prod.splits)
  next
    case (UnknownDeviceCommand t)
    with assms show ?thesis by (auto simp: DeviceMetadata_HandleCommand_def)
  qed
qed

theorem offline_only_by_owner_witness:
  "IsOnline (dm_connection (dmc_snap ex_online)) \<and>
   \<not> IsOnline (dm_connection (dmc_snap (ex_dev_step ex_online (ex_connect Connection_OFFLINE ''conn'')))) \<and>
   ''conn'' = GetConnId (dm_connection (dmc_snap ex_online))"
proof -
  let ?cmd = "ex_connect Connection_OFFLINE ''conn''"
  obtain c' cmd' r where r: "DeviceMetadata_HandleCommand ex_kit ex_env ex_online ?cmd 1 = (c', cmd', r)" by (metis prod_cases3)
  have on: "IsOnline (dm_connection (dmc_snap ex_online))" by code_simp
  have off: "\<not> IsOnline (dm_connection (dmc_snap (ex_dev_step ex_online ?cmd)))" by code_simp
  then have "\<not> IsOnline (dm_connection (dmc_snap c'))" using r by (simp add: ex_dev_step_def)
  from offline_only_by_owner [OF r on this] on off show ?thesis by (simp add: ex_connect_def)
qed



text \<open>A metadata update that was accepted as pending and then confirmed with its correlation identifier leaves
  the pending updates as they were.
\<close>

theorem device_pending_roundtrip:
  assumes "\<not> DeviceMetadataUpdatePending_IsExpired now p"
    and "snd (HandleDeviceMetadataUpdatePending now d p) = Inr ()"
    and "dmu_cid upd = dup_cid p" and "\<forall>q \<in> set (dms_UpdatePendings d). dup_cid q \<noteq> dup_cid p"
  shows "\<not> is_err (snd (HandleDeviceMetadataUpdated (fst (HandleDeviceMetadataUpdatePending now d p)) upd True)) \<and>
    dms_UpdatePendings (fst (HandleDeviceMetadataUpdated (fst (HandleDeviceMetadataUpdatePending now d p)) upd True)) =
    dms_UpdatePendings d"
  using device_queue.accept_finish [OF assms(1,2) TrueI assms(3,4)]
  by (auto simp: confirm_update_def is_err_def split: sum.splits)

definition ex_dup :: DeviceMetadataUpdatePending where
  "ex_dup = \<lparr>dup_DeviceId = ''d'', dup_UpdatePending = Some (Pending_TwinEnabled True),
     dup_AuditContext = Some (NewAuditContext ''u'' ''x'' ''o''), dup_EventMetadata = None, dup_ValidUntil = 0,
     dup_OpenTelemetryCarrier = []\<rparr>"

theorem device_pending_roundtrip_witness:
  "dms_UpdatePendings (fst (HandleDeviceMetadataUpdated (fst (HandleDeviceMetadataUpdatePending 5 NewDeviceMetadataSnapshotTaken ex_dup))
     (empty_DeviceMetadataUpdated\<lparr>dmu_AuditContext := Some (NewAuditContext ''u'' ''x'' ''o'')\<rparr>) True)) = []"
proof -
  let ?u = "empty_DeviceMetadataUpdated\<lparr>dmu_AuditContext := Some (NewAuditContext ''u'' ''x'' ''o'')\<rparr>"
  have e: "\<not> DeviceMetadataUpdatePending_IsExpired 5 ex_dup" by code_simp
  have a: "snd (HandleDeviceMetadataUpdatePending 5 NewDeviceMetadataSnapshotTaken ex_dup) = Inr ()" by code_simp
  have n: "dms_UpdatePendings NewDeviceMetadataSnapshotTaken = []" by code_simp
  have c: "dmu_cid ?u = dup_cid ex_dup" by (simp add: ex_dup_def)
  show ?thesis using device_pending_roundtrip [OF e a c] by (simp add: n)
qed

text \<open>A correlation identifier that is used again after its cancellation cannot be cancelled again by the same
  user: the cancellation equals the last update, so it is answered with an error and without an event, although
  the handler has taken the pending update off its list.
\<close>

theorem cancel_reused_id_lost:
  assumes "kit_strings_ok S" and "cpm_CommandMetadata req = Some cm" and "cpm_CorrelationIdFilter req = [x]"
    and "map dup_cid (dmc_pendings c) = [x]"
    and "dms_DeviceMetadataUpdated (dmc_snap c) = Some u" and "dmu_Canceled u"
    and "dmu_cid u = x" and "GetUserId (dmu_AuditContext u) = dmc_userID c"
  shows "error_code (projl (snd (CancelPendingMetadataUpdates S env c req v))) = Some NotFound \<and>
    is_err (snd (CancelPendingMetadataUpdates S env c req v)) \<and>
    dmc_pendings (fst (CancelPendingMetadataUpdates S env c req v)) = []"
proof -
  obtain p where p: "dmc_pendings c = [p]" "dup_cid p = x" using assms(4) by auto
  have sk: "\<not> filtered_out S (cpm_CorrelationIdFilter req) x"
    using filtered_out_ok [OF assms(1)] assms(3) by auto
  have dm: "dm_updated (dmc_snap c) = u" using assms(5) by (simp add: dm_updated_def)
  define c1 where "c1 = c\<lparr>dmc_snap := (dmc_snap c)\<lparr>dms_UpdatePendings := []\<rparr>\<rparr>"
  have "ConfirmDeviceMetadataUpdate env 0 c (cancel_metadata_request req x) w True = (c1, Inr [])" for w
    using assms(2,5-8) p dm
    by (simp add: ConfirmDeviceMetadataUpdate_def cancel_metadata_request_def cancelDeviceMetadataUpdate_def Let_def
        HandleDeviceMetadataUpdated_def DeviceMetadataUpdated_Equal_def emit_updated_def on_device_def c1_def)
  with p sk assms(2) show ?thesis
    by (simp add: CancelPendingMetadataUpdates_def cancel_range_def Let_def c1_def)
qed

definition ex_reused :: DeviceMetadataSnapshotTakenForCommand where
  "ex_reused = ex_dev_step (ex_dev_step (ex_dev_step ex_online (ex_enable ''a''))
     (CancelPendingMetadata (ex_cancel_metadata []))) (ex_enable ''a'')"

theorem cancel_reused_id_lost_witness:
  "is_err (snd (CancelPendingMetadataUpdates ex_kit ex_env ex_reused (ex_cancel_metadata [''a'']) 5)) \<and>
   dmc_pendings (fst (CancelPendingMetadataUpdates ex_kit ex_env ex_reused (ex_cancel_metadata [''a'']) 5)) = []"
proof -
  let ?u = "dm_updated (dmc_snap ex_reused)"
  have 1: "cpm_CommandMetadata (ex_cancel_metadata [''a'']) = Some ex_cm" "cpm_CorrelationIdFilter (ex_cancel_metadata [''a'']) = [''a'']"
    by (simp_all add: ex_cancel_metadata_def)
  have 2: "map dup_cid (dmc_pendings ex_reused) = [''a'']" by code_simp
  have "dms_DeviceMetadataUpdated (dmc_snap ex_reused) \<noteq> None" by code_simp
  then have 3: "dms_DeviceMetadataUpdated (dmc_snap ex_reused) = Some ?u" by (auto simp: dm_updated_def)
  have 4: "dmu_Canceled ?u" by code_simp
  have 5: "dmu_cid ?u = ''a''" by code_simp
  have 6: "GetUserId (dmu_AuditContext ?u) = dmc_userID ex_reused" by code_simp
  show ?thesis using cancel_reused_id_lost [OF ex_kit_ok 1 2 3 4 5 6] by blast
qed

text \<open>A connection update without endpoints takes over the endpoints of the snapshot, in the request itself. So
  when the same request is handled again against another snapshot, as a retry after a concurrency conflict does,
  it keeps the endpoints of the first snapshot.
\<close>

theorem retried_request_keeps_endpoints:
  assumes "cn_Status conn = Connection_ONLINE" and "GetConnectionId cm \<noteq> []" and "cn_LocalEndpoints conn = []"
    and "GetLocalEndpoints (dm_connection d) = eps" and "eps \<noteq> []"
    and "updateDeviceConnection env d dev conn cm em ac = (d', conn', r)"
  shows "cn_LocalEndpoints (fst (snd (updateDeviceConnection env2 d2 dev conn' cm em2 ac2))) = eps \<and>
    cn_LocalEndpoints (fst (snd (updateDeviceConnection env2 d2 dev conn cm em2 ac2))) = GetLocalEndpoints (dm_connection d2)"
proof -
  have e: "cn_LocalEndpoints (fst (snd (updateDeviceConnection env d dev k cm em ac))) =
      (if cn_LocalEndpoints k = [] then GetLocalEndpoints (dm_connection d) else cn_LocalEndpoints k) \<and>
      cn_Status (fst (snd (updateDeviceConnection env d dev k cm em ac))) = Connection_ONLINE"
    if "cn_Status k = Connection_ONLINE" for env d k em ac
    using that assms(2)
    by (auto simp: updateDeviceConnection_def Let_def IsOnline_def split: prod.splits sum.splits)
  from e [OF assms(1), of env d em ac] assms(3-6) have c': "cn_LocalEndpoints conn' = eps" "cn_Status conn' = Connection_ONLINE"
    by simp_all
  from e [OF c'(2), of env2 d2 em2 ac2] e [OF assms(1), of env2 d2 em2 ac2] c'(1) assms(3,5) show ?thesis by simp
qed

definition ex_endpoints :: "string \<Rightarrow> DeviceMetadataSnapshotTaken" where
  "ex_endpoints x = NewDeviceMetadataSnapshotTaken\<lparr>dms_DeviceMetadataUpdated :=
     Some (empty_DeviceMetadataUpdated\<lparr>dmu_Connection := Some ((ex_conn Connection_ONLINE)\<lparr>cn_LocalEndpoints := [x]\<rparr>)\<rparr>)\<rparr>"

theorem retried_request_keeps_endpoints_witness:
  "\<exists>conn'. fst (snd (updateDeviceConnection ex_env (ex_endpoints ''old'') ''d'' (ex_conn Connection_ONLINE) (Some ex_cm)
       empty_EventMetadata (NewAuditContext [] [] []))) = conn' \<and>
     cn_LocalEndpoints (fst (snd (updateDeviceConnection ex_env (ex_endpoints ''new'') ''d'' conn' (Some ex_cm)
       empty_EventMetadata (NewAuditContext [] [] [])))) = [''old'']"
proof -
  obtain d' conn' r where r: "updateDeviceConnection ex_env (ex_endpoints ''old'') ''d'' (ex_conn Connection_ONLINE) (Some ex_cm)
       empty_EventMetadata (NewAuditContext [] [] []) = (d', conn', r)" by (metis prod_cases3)
  have 1: "cn_Status (ex_conn Connection_ONLINE) = Connection_ONLINE" "GetConnectionId (Some ex_cm) \<noteq> []"
    "cn_LocalEndpoints (ex_conn Connection_ONLINE) = []" by (simp_all add: ex_conn_def ex_cm_def)
  have 2: "GetLocalEndpoints (dm_connection (ex_endpoints ''old'')) = [''old'']" by code_simp
  show ?thesis using retried_request_keeps_endpoints [OF 1 2 _ r] r by simp
qed

end
