(* ===== verification/Service_Metadata.thy ===== *)
theory Service_Metadata
  imports Pending_Commands "HOL-Library.AList" "HOL-Library.Char_ord" "HOL-Library.List_Lexorder"
begin

text \<open>
  The heartbeats of the hub's services: \<^verbatim>\<open>resource-aggregate/events/serviceMetadataSnapshotTaken.go\<close>.
  The snapshot keeps an array of valid and one of expired services. The handlers rebuild both as maps from
  service identifiers and write them back sorted. A map is an association list here; it is only ever ranged
  over to be sorted by its keys, so the order of iteration is immaterial (\<open>map_to_array_order\<close>).
\<close>

section \<open>State\<close>

definition empty_ServiceMetadataUpdated :: ServiceMetadataUpdated where
  "empty_ServiceMetadataUpdated = \<lparr>smu_ServicesHeartbeat = None, smu_EventMetadata = None, smu_AuditContext = None,
     smu_OpenTelemetryCarrier = []\<rparr>"

definition NewServiceMetadataSnapshotTaken :: ServiceMetadataSnapshotTaken where
  "NewServiceMetadataSnapshotTaken =
     \<lparr>sms_ServiceMetadataUpdated = Some empty_ServiceMetadataUpdated, sms_EventMetadata = Some empty_EventMetadata\<rparr>"

record ServiceMetadataSnapshotTakenForCommand =
  smc_userID :: string
  smc_owner :: string
  smc_hubID :: string
  smc_snap :: ServiceMetadataSnapshotTaken

definition NewServiceMetadataSnapshotTakenForCommand ::
    "string \<Rightarrow> string \<Rightarrow> string \<Rightarrow> ServiceMetadataSnapshotTakenForCommand" where
  "NewServiceMetadataSnapshotTakenForCommand userID owner hubID =
     \<lparr>smc_userID = userID, smc_owner = owner, smc_hubID = hubID, smc_snap = NewServiceMetadataSnapshotTaken\<rparr>"

text \<open>\<open>GetServiceMetadataUpdated().GetServicesHeartbeat().GetValid()\<close> and \<open>GetExpired()\<close>.\<close>

definition sm_heartbeat :: "ServiceMetadataSnapshotTaken \<Rightarrow> ServicesHeartbeat option" where
  "sm_heartbeat d = nil_or None smu_ServicesHeartbeat (sms_ServiceMetadataUpdated d)"

definition sm_valid :: "ServiceMetadataSnapshotTaken \<Rightarrow> ServicesHeartbeat_Heartbeat list" where
  "sm_valid d = nil_or [] sh_Valid (sm_heartbeat d)"

definition sm_expired :: "ServiceMetadataSnapshotTaken \<Rightarrow> ServicesHeartbeat_Heartbeat list" where
  "sm_expired d = nil_or [] sh_Expired (sm_heartbeat d)"

section \<open>Maps of heartbeats\<close>

type_synonym hb_map = "(string \<times> ServicesHeartbeat_Heartbeat) list"

definition hb_put :: "hb_map \<Rightarrow> ServicesHeartbeat_Heartbeat \<Rightarrow> hb_map" where
  "hb_put m v = AList.update (hb_ServiceId v) v m"

definition hb_map_of :: "ServicesHeartbeat_Heartbeat list \<Rightarrow> hb_map" where
  "hb_map_of vs = foldl hb_put [] vs"

definition Heartbeat_CopyData :: "ServicesHeartbeat_Heartbeat \<Rightarrow> ServicesHeartbeat_Heartbeat" where
  "Heartbeat_CopyData h1 = \<lparr>hb_ServiceId = hb_ServiceId h1, hb_ValidUntil = hb_ValidUntil h1\<rparr>"

definition serviceHeartbeatMapToArray :: "hb_map \<Rightarrow> ServicesHeartbeat_Heartbeat list" where
  "serviceHeartbeatMapToArray m = sort_key hb_ServiceId (map (\<lambda>(_, v). Heartbeat_CopyData v) m)"

section \<open>Event handlers\<close>

definition HandleServiceMetadataUpdated ::
    "ServiceMetadataSnapshotTaken \<Rightarrow> ServiceMetadataUpdated \<Rightarrow> ServiceMetadataSnapshotTaken \<times> bool res" where
  "HandleServiceMetadataUpdated d upd =
     (if ServiceMetadataUpdated_Equal (sms_ServiceMetadataUpdated d) upd then (d, Inr False)
      else
        let (valid1, expired1) =
              foldl (\<lambda>(valid, expired) v. (hb_put valid v, AList.delete (hb_ServiceId v) expired))
                (hb_map_of (sm_valid d), hb_map_of (sm_expired d))
                (nil_or [] sh_Valid (smu_ServicesHeartbeat upd));
            (valid, expired) =
              foldl (\<lambda>(valid, expired) v. (AList.delete (hb_ServiceId v) valid, hb_put expired v))
                (valid1, expired1) (nil_or [] sh_Expired (smu_ServicesHeartbeat upd))
        in case List.find (\<lambda>(key, _). map_of valid key \<noteq> None) expired of
             Some (key, _) \<Rightarrow> (d, Inl (Errorf ''invalid status: service %v is valid and expired'' [key]))
           | None \<Rightarrow>
               (d\<lparr>sms_ServiceMetadataUpdated :=
                    Some \<lparr>smu_ServicesHeartbeat =
                            Some \<lparr>sh_Valid = serviceHeartbeatMapToArray valid,
                                  sh_Expired = serviceHeartbeatMapToArray expired\<rparr>,
                          smu_EventMetadata = smu_EventMetadata upd, smu_AuditContext = None,
                          smu_OpenTelemetryCarrier = smu_OpenTelemetryCarrier upd\<rparr>,
                  sms_EventMetadata := smu_EventMetadata upd\<rparr>, Inr True))"

definition HandleServiceMetadataSnapshotTaken ::
    "ServiceMetadataSnapshotTaken \<Rightarrow> ServiceMetadataSnapshotTaken \<Rightarrow> ServiceMetadataSnapshotTaken" where
  "HandleServiceMetadataSnapshotTaken d s = ServiceMetadataSnapshotTaken_CopyData d s"

definition ServiceMetadata_handleByEvent ::
    "ServiceMetadataSnapshotTaken \<Rightarrow> EventUnmarshaler \<Rightarrow> ServiceMetadataSnapshotTaken \<times> unit res" where
  "ServiceMetadata_handleByEvent d eu =
     (if eu_EventType eu = ''ServiceMetadataSnapshotTaken'' then
        (case Unmarshal_as sel_ServiceMetadataSnapshotTaken eu of
           Inl err \<Rightarrow> (d, Inl err)
         | Inr s \<Rightarrow> (HandleServiceMetadataSnapshotTaken d s, Inr ()))
      else if eu_EventType eu = ''ServiceMetadataUpdated'' then
        (case Unmarshal_as sel_ServiceMetadataUpdated eu of
           Inl err \<Rightarrow> (d, Inl err)
         | Inr s \<Rightarrow> (fst (HandleServiceMetadataUpdated d s), Inr ()))
      else (d, Inr ()))"

definition ServiceMetadata_Handle ::
    "ServiceMetadataSnapshotTaken \<Rightarrow> EventUnmarshaler list \<Rightarrow> error option \<Rightarrow> ServiceMetadataSnapshotTaken \<times> unit res" where
  "ServiceMetadata_Handle d eus iterErr = iterate_events (\<lambda>_. ServiceMetadata_handleByEvent) 0 d eus iterErr"

section \<open>Time to live\<close>

text \<open>
  \<open>now\<close> is the reading of the caller, \<open>since\<close> the one of \<open>time.Since\<close>. The sum is a 64-bit duration.
\<close>

definition two_minutes :: i64 where "two_minutes = 120000000000"

definition writeCostAgainstRead :: i64 where "writeCostAgainstRead = 10"

definition calculateTimeToLive :: "gotime \<Rightarrow> gotime \<Rightarrow> ServiceHeartbeat \<Rightarrow> i64" where
  "calculateTimeToLive now since hb =
     (let timeToLive = shb_TimeToLive hb in
      if shb_Timestamp hb \<noteq> 0 then
        (let timestamp = pkgTime_Unix 0 (shb_Timestamp hb) in
         if IsZero timestamp \<or> now < timestamp then timeToLive
         else
           let processingTime = min (since - timestamp) two_minutes
           in if 0 < processingTime then to_i64 (timeToLive + processingTime * writeCostAgainstRead) else timeToLive)
      else timeToLive)"

section \<open>Heartbeats\<close>

record service_env =
  sve_Now_meta :: gotime
  sve_Now :: gotime
  sve_Since :: gotime
  sve_Now_snapshot :: gotime
  sve_Peer :: "string option"
  sve_Trace :: carrier

definition prepareHeartbeatForService ::
    "ServiceMetadataSnapshotTaken \<Rightarrow> ServiceHeartbeat \<Rightarrow> gotime \<Rightarrow> gotime \<Rightarrow> (i64 \<times> ServicesHeartbeat_Heartbeat list) res" where
  "prepareHeartbeatForService d hb now since =
     (let action = (if shb_Register hb then ''register'' else ''update''); sid = shb_ServiceId hb;
          expired0 = hb_map_of (sm_expired d)
      in if sid = []
         then Inl (GrpcStatus InvalidArgument ''cannot %v heartbeat for service %v: invalid serviceId'' [action, sid])
         else if map_of expired0 sid \<noteq> None
         then Inl (GrpcStatus FailedPrecondition ''cannot %v heartbeat for service %v: already expired'' [action, sid])
         else
           let (valid, expired, newExpired) =
                 foldl (\<lambda>(valid, expired, newExpired) v.
                          if pkgTime_Unix 0 (hb_ValidUntil v) < now
                          then (valid, hb_put expired v, hb_put newExpired v)
                          else (hb_put valid v, expired, newExpired))
                   ([], expired0, []) (sm_valid d)
           in if shb_Register hb \<and> (map_of valid sid \<noteq> None \<or> map_of expired sid \<noteq> None)
              then Inl (GrpcStatus FailedPrecondition ''cannot %v heartbeat for service %v: already registered'' [action, sid])
              else if \<not> shb_Register hb \<and> (map_of valid sid = None \<and> map_of expired sid = None)
              then Inl (GrpcStatus FailedPrecondition ''cannot %v heartbeat for service %v: not registered'' [action, sid])
              else Inr (calculateTimeToLive now since hb, serviceHeartbeatMapToArray (AList.delete sid newExpired)))"

type_synonym sm_outcome = "ServiceMetadataSnapshotTaken \<times> any_event list res"

definition emit_service :: "ServiceMetadataSnapshotTaken \<Rightarrow> ServiceMetadataUpdated \<Rightarrow> sm_outcome" where
  "emit_service d ev =
     (case HandleServiceMetadataUpdated d ev of
        (d', Inl err) \<Rightarrow> (d', Inl err)
      | (d', Inr False) \<Rightarrow> (d', Inr [])
      | (d', Inr True) \<Rightarrow> (d', Inr [E_ServiceMetadataUpdated ev]))"

definition updateHeartbeatForService ::
    "service_env \<Rightarrow> ServiceMetadataSnapshotTaken \<Rightarrow> ServiceHeartbeat \<Rightarrow> EventMetadata \<Rightarrow> AuditContext \<Rightarrow> sm_outcome" where
  "updateHeartbeatForService env d hb em ac =
     (case prepareHeartbeatForService d hb (sve_Now env) (sve_Since env) of
        Inl err \<Rightarrow> (d, Inl err)
      | Inr (timeToLive, newExpired) \<Rightarrow>
          emit_service d
            \<lparr>smu_ServicesHeartbeat =
               Some \<lparr>sh_Valid = [\<lparr>hb_ServiceId = shb_ServiceId hb, hb_ValidUntil = time_UnixNano (sve_Now env + timeToLive)\<rparr>],
                     sh_Expired = newExpired\<rparr>,
             smu_EventMetadata = Some em, smu_AuditContext = Some ac, smu_OpenTelemetryCarrier = sve_Trace env\<rparr>)"

definition updateHeartbeatCheckExpiredServices ::
    "service_env \<Rightarrow> ServiceMetadataSnapshotTaken \<Rightarrow> EventMetadata \<Rightarrow> AuditContext \<Rightarrow> sm_outcome" where
  "updateHeartbeatCheckExpiredServices env d em ac =
     (let expired = foldl (\<lambda>m v. if pkgTime_Unix 0 (hb_ValidUntil v) < sve_Now env then hb_put m v else m) [] (sm_valid d)
      in if length expired = 0 then (d, Inr [])
         else emit_service d
            \<lparr>smu_ServicesHeartbeat = Some \<lparr>sh_Valid = [], sh_Expired = serviceHeartbeatMapToArray expired\<rparr>,
             smu_EventMetadata = Some em, smu_AuditContext = Some ac, smu_OpenTelemetryCarrier = sve_Trace env\<rparr>)"

definition updateHeartbeat ::
    "service_env \<Rightarrow> ServiceMetadataSnapshotTaken \<Rightarrow> ServiceHeartbeat \<Rightarrow> EventMetadata \<Rightarrow> AuditContext \<Rightarrow> sm_outcome" where
  "updateHeartbeat env d hb em ac =
     (if shb_ServiceId hb = [] \<and> shb_TimeToLive hb = 0
      then updateHeartbeatCheckExpiredServices env d em ac
      else updateHeartbeatForService env d hb em ac)"

section \<open>Confirmation of expired services\<close>

definition ServiceMetadata_TakeSnapshot ::
    "gotime \<Rightarrow> ServiceMetadataSnapshotTaken \<Rightarrow> u64 \<Rightarrow> ServiceMetadataSnapshotTaken" where
  "ServiceMetadata_TakeSnapshot now d version =
     \<lparr>sms_ServiceMetadataUpdated = sms_ServiceMetadataUpdated d,
      sms_EventMetadata = Some (MakeEventMeta now (GetEmConnectionId (sms_EventMetadata d))
        (GetEmSequence (sms_EventMetadata d)) version (GetHubId (sms_EventMetadata d)))\<rparr>"

record ConfirmExpiredServicesRequest =
  ces_Heartbeat :: "ServicesHeartbeat_Heartbeat list"

definition confirmExpiredServices ::
    "service_env \<Rightarrow> ServiceMetadataSnapshotTaken \<Rightarrow> ConfirmExpiredServicesRequest \<Rightarrow> EventMetadata \<Rightarrow> AuditContext \<Rightarrow> sm_outcome" where
  "confirmExpiredServices env d req em ac =
     (let (expired, exist) =
            foldl (\<lambda>(expired, exist) v.
                     if map_of expired (hb_ServiceId v) \<noteq> None
                     then (AList.delete (hb_ServiceId v) expired, True) else (expired, exist))
              (hb_map_of (sm_expired d), False) (ces_Heartbeat req)
      in if \<not> exist then (d, Inr [])
         else
           let d' = d\<lparr>sms_ServiceMetadataUpdated :=
                        Some \<lparr>smu_ServicesHeartbeat =
                                Some \<lparr>sh_Valid = sm_valid d, sh_Expired = serviceHeartbeatMapToArray expired\<rparr>,
                              smu_EventMetadata = Some em, smu_AuditContext = Some ac,
                              smu_OpenTelemetryCarrier = sve_Trace env\<rparr>,
                      sms_EventMetadata := Some em\<rparr>
           in (d', Inr [E_ServiceMetadataSnapshotTaken (ServiceMetadata_TakeSnapshot (sve_Now_snapshot env) d' (em_Version em))]))"

section \<open>Commands\<close>

datatype sm_command =
    UpdateServiceMetadata UpdateServiceMetadataRequest
  | ConfirmExpiredServices ConfirmExpiredServicesRequest
  | UnknownServiceCommand string

definition service_em :: "service_env \<Rightarrow> ServiceMetadataSnapshotTakenForCommand \<Rightarrow> u64 \<Rightarrow> EventMetadata" where
  "service_em env c newVersion =
     MakeEventMeta (sve_Now_meta env) (case sve_Peer env of None \<Rightarrow> [] | Some addr \<Rightarrow> addr) 0 newVersion (smc_hubID c)"

definition updateServiceMetadataRequest ::
    "service_env \<Rightarrow> ServiceMetadataSnapshotTakenForCommand \<Rightarrow> UpdateServiceMetadataRequest \<Rightarrow> u64
     \<Rightarrow> ServiceMetadataSnapshotTakenForCommand \<times> any_event list res" where
  "updateServiceMetadataRequest env c req newVersion =
     (let ac = NewAuditContext (smc_userID c) [] (smc_owner c) in
      case usm_Heartbeat req of
        Some hb \<Rightarrow>
          (case updateHeartbeat env (smc_snap c) hb (service_em env c newVersion) ac of (d, r) \<Rightarrow> (c\<lparr>smc_snap := d\<rparr>, r))
      | None \<Rightarrow> (c, Inl (GrpcStatus InvalidArgument ''unknown update type(%T)'' [])))"

definition confirmExpiredServicesRequest ::
    "service_env \<Rightarrow> ServiceMetadataSnapshotTakenForCommand \<Rightarrow> ConfirmExpiredServicesRequest \<Rightarrow> u64
     \<Rightarrow> ServiceMetadataSnapshotTakenForCommand \<times> any_event list res" where
  "confirmExpiredServicesRequest env c req newVersion =
     (let ac = NewAuditContext (smc_userID c) [] (smc_owner c) in
      case confirmExpiredServices env (smc_snap c) req (service_em env c newVersion) ac of (d, r) \<Rightarrow> (c\<lparr>smc_snap := d\<rparr>, r))"

definition ServiceMetadata_HandleCommand ::
    "service_env \<Rightarrow> ServiceMetadataSnapshotTakenForCommand \<Rightarrow> sm_command \<Rightarrow> u64
     \<Rightarrow> ServiceMetadataSnapshotTakenForCommand \<times> any_event list res" where
  "ServiceMetadata_HandleCommand env c cmd newVersion =
     (case cmd of
        UpdateServiceMetadata req \<Rightarrow> updateServiceMetadataRequest env c req newVersion
      | ConfirmExpiredServices req \<Rightarrow> confirmExpiredServicesRequest env c req newVersion
      | UnknownServiceCommand t \<Rightarrow> (c, Inl (Errorf ''unknown command (%T)'' [t])))"

end
