(* ===== verification/Service_Metadata_Properties.thy ===== *)
theory Service_Metadata_Properties
  imports Service_Metadata
begin

text \<open>
  Properties of the service heartbeats: the arrays stand for two disjoint maps (refinement through the
  lookup \<open>hb_at\<close>), a service is never valid and expired, an expired service stays expired until it is
  confirmed, and the bounds of the time to live.
\<close>

section \<open>Arrays as maps\<close>

abbreviation ids :: "ServicesHeartbeat_Heartbeat list \<Rightarrow> string list" where
  "ids vs \<equiv> map hb_ServiceId vs"

definition hb_at :: "ServicesHeartbeat_Heartbeat list \<Rightarrow> string \<Rightarrow> ServicesHeartbeat_Heartbeat option" where
  "hb_at vs = map_of (rev (map (\<lambda>v. (hb_ServiceId v, v)) vs))"

definition hb_ok :: "hb_map \<Rightarrow> bool" where
  "hb_ok m \<longleftrightarrow> distinct (map fst m) \<and> (\<forall>(k, v) \<in> set m. hb_ServiceId v = k)"

lemma hb_at_Nil [simp]: "hb_at [] s = None"
  by (simp add: hb_at_def)

lemma hb_at_None: "hb_at vs s = None \<longleftrightarrow> s \<notin> set (ids vs)"
  by (force simp: hb_at_def map_of_eq_None_iff)

lemma hb_put_lookup: "map_of (hb_put m v) s = (if s = hb_ServiceId v then Some v else map_of m s)"
  by (simp add: hb_put_def update_conv')

lemma set_hb_put: "set (hb_put m v) \<subseteq> insert (hb_ServiceId v, v) (set m)"
proof -
  have "set (AList.update k x m) \<subseteq> insert (k, x) (set m)" for k x
    by (induction m) auto
  then show ?thesis by (simp add: hb_put_def)
qed

lemma hb_ok_put: "hb_ok m \<Longrightarrow> hb_ok (hb_put m v)"
  using set_hb_put [of m v] by (auto simp: hb_ok_def hb_put_def distinct_update)

lemma hb_ok_Nil [simp]: "hb_ok []"
  by (simp add: hb_ok_def)

lemma set_delete_subset: "set (AList.delete k m) \<subseteq> set m"
  by (simp add: AList.delete_eq)

lemma hb_ok_delete: "hb_ok m \<Longrightarrow> hb_ok (AList.delete k m)"
  using set_delete_subset [of k m] by (auto simp: hb_ok_def distinct_delete)

lemma hb_fold_put:
  "hb_ok m \<Longrightarrow> hb_ok (foldl hb_put m vs) \<and>
     map_of (foldl hb_put m vs) = (\<lambda>s. case hb_at vs s of None \<Rightarrow> map_of m s | Some v \<Rightarrow> Some v)"
proof (induction vs arbitrary: m)
  case (Cons v vs)
  from Cons.IH [OF hb_ok_put [OF Cons.prems, of v]] show ?case
    by (auto simp: fun_eq_iff hb_put_lookup hb_at_def map_add_def split: option.splits)
qed simp

lemma hb_map_of_ok [simp]: "hb_ok (hb_map_of vs)" and hb_map_of_lookup [simp]: "map_of (hb_map_of vs) = hb_at vs"
proof -
  note f = hb_fold_put [of "[]" vs]
  show "hb_ok (hb_map_of vs)" using f by (simp add: hb_map_of_def)
  show "map_of (hb_map_of vs) = hb_at vs" using f by (auto simp: hb_map_of_def fun_eq_iff split: option.splits)
qed

section \<open>Sorted arrays\<close>

lemma Heartbeat_CopyData_id [simp]: "Heartbeat_CopyData v = v"
  by (simp add: Heartbeat_CopyData_def)

definition strictly_sorted :: "ServicesHeartbeat_Heartbeat list \<Rightarrow> bool" where
  "strictly_sorted vs \<longleftrightarrow> sorted (ids vs) \<and> distinct (ids vs)"

lemma map_to_array:
  assumes "hb_ok m"
  shows "strictly_sorted (serviceHeartbeatMapToArray m)"
    and "hb_at (serviceHeartbeatMapToArray m) = map_of m"
    and "set (serviceHeartbeatMapToArray m) = snd ` set m"
proof -
  let ?a = "serviceHeartbeatMapToArray m"
  have arr: "?a = sort_key hb_ServiceId (map snd m)"
    by (simp add: serviceHeartbeatMapToArray_def case_prod_unfold)
  show set: "set ?a = snd ` set m" by (simp add: arr)
  have fst: "map hb_ServiceId (map snd m) = map fst m"
    using assms by (auto simp: hb_ok_def)
  have "mset (ids ?a) = mset (map fst m)"
    by (metis arr fst mset_map mset_sort)
  then have d: "distinct (ids ?a)" using assms by (metis hb_ok_def mset_eq_imp_distinct_iff)
  moreover have "sorted (ids ?a)" by (simp add: arr)
  ultimately show "strictly_sorted ?a" by (simp add: strictly_sorted_def)
  have "map_of (rev (map (\<lambda>v. (hb_ServiceId v, v)) ?a)) = map_of m"
  proof (rule map_of_inject_set [THEN iffD2])
    show "distinct (map fst (rev (map (\<lambda>v. (hb_ServiceId v, v)) ?a)))" using d by (simp add: rev_map [symmetric] comp_def)
    show "distinct (map fst m)" using assms by (simp add: hb_ok_def)
    show "set (rev (map (\<lambda>v. (hb_ServiceId v, v)) ?a)) = set m"
      using assms by (force simp: set hb_ok_def image_iff)
  qed
  then show "hb_at ?a = map_of m" by (simp add: hb_at_def)
qed

text \<open>The order in which Go ranges over the map does not show in the array.\<close>

lemma map_to_array_order:
  assumes "hb_ok m" and "mset m' = mset m"
  shows "serviceHeartbeatMapToArray m' = serviceHeartbeatMapToArray m"
proof -
  have "mset (map snd m') = mset (map snd m)" using assms(2) by (simp only: mset_map)
  moreover have "inj_on hb_ServiceId (set (map snd m))"
  proof (rule inj_onI)
    fix x y assume "x \<in> set (map snd m)" "y \<in> set (map snd m)" "hb_ServiceId x = hb_ServiceId y"
    with assms(1) have "(hb_ServiceId x, x) \<in> set m" "(hb_ServiceId x, y) \<in> set m" "distinct (map fst m)"
      by (auto simp: hb_ok_def)
    then show "x = y" by (metis map_of_is_SomeI option.inject)
  qed
  ultimately have "sort_key hb_ServiceId (map snd m') = sort_key hb_ServiceId (map snd m)"
    by (intro sort_key_inj_key_eq) (simp_all, metis image_set mset_eq_setD mset_map)
  then show ?thesis by (simp add: serviceHeartbeatMapToArray_def case_prod_unfold)
qed

section \<open>Updates on maps\<close>

definition hb_del :: "hb_map \<Rightarrow> ServicesHeartbeat_Heartbeat \<Rightarrow> hb_map" where
  "hb_del m v = AList.delete (hb_ServiceId v) m"

lemma fold_put_del:
  "foldl (\<lambda>(valid, expired) v. (hb_put valid v, AList.delete (hb_ServiceId v) expired)) (va, ex) vs =
     (foldl hb_put va vs, foldl hb_del ex vs)"
  "foldl (\<lambda>(valid, expired) v. (AList.delete (hb_ServiceId v) valid, hb_put expired v)) (va, ex) vs =
     (foldl hb_del va vs, foldl hb_put ex vs)"
  by (induction vs arbitrary: va ex) (simp_all add: hb_del_def)

lemma hb_fold_del:
  "hb_ok m \<Longrightarrow> hb_ok (foldl hb_del m vs) \<and>
     map_of (foldl hb_del m vs) = (\<lambda>s. if s \<in> set (ids vs) then None else map_of m s)"
proof (induction vs arbitrary: m)
  case (Cons v vs)
  from Cons.IH [of "hb_del m v"] Cons.prems show ?case
    by (auto simp: hb_del_def hb_ok_delete delete_conv' fun_eq_iff)
qed simp

text \<open>The maps \<open>HandleServiceMetadataUpdated\<close> computes.\<close>

abbreviation upd_valid :: "ServiceMetadataUpdated \<Rightarrow> ServicesHeartbeat_Heartbeat list" where
  "upd_valid upd \<equiv> nil_or [] sh_Valid (smu_ServicesHeartbeat upd)"
abbreviation upd_expired :: "ServiceMetadataUpdated \<Rightarrow> ServicesHeartbeat_Heartbeat list" where
  "upd_expired upd \<equiv> nil_or [] sh_Expired (smu_ServicesHeartbeat upd)"

definition new_valid :: "ServiceMetadataSnapshotTaken \<Rightarrow> ServiceMetadataUpdated \<Rightarrow> hb_map" where
  "new_valid d upd = foldl hb_del (foldl hb_put (hb_map_of (sm_valid d)) (upd_valid upd)) (upd_expired upd)"

definition new_expired :: "ServiceMetadataSnapshotTaken \<Rightarrow> ServiceMetadataUpdated \<Rightarrow> hb_map" where
  "new_expired d upd = foldl hb_put (foldl hb_del (hb_map_of (sm_expired d)) (upd_valid upd)) (upd_expired upd)"

lemma new_maps_ok: "hb_ok (new_valid d upd)" "hb_ok (new_expired d upd)"
  by (simp_all add: new_valid_def new_expired_def hb_fold_put hb_fold_del)

lemma new_valid_lookup:
  "map_of (new_valid d upd) s =
     (if s \<in> set (ids (upd_expired upd)) then None
      else case hb_at (upd_valid upd) s of None \<Rightarrow> hb_at (sm_valid d) s | Some v \<Rightarrow> Some v)"
  by (simp add: new_valid_def hb_fold_put hb_fold_del split: option.split)

lemma new_expired_lookup:
  "map_of (new_expired d upd) s =
     (case hb_at (upd_expired upd) s of
        None \<Rightarrow> if s \<in> set (ids (upd_valid upd)) then None else hb_at (sm_expired d) s
      | Some v \<Rightarrow> Some v)"
  by (simp add: new_expired_def hb_fold_put hb_fold_del split: option.split)

definition sm_disjoint :: "ServiceMetadataSnapshotTaken \<Rightarrow> bool" where
  "sm_disjoint d \<longleftrightarrow> set (ids (sm_valid d)) \<inter> set (ids (sm_expired d)) = {}"

lemma new_maps_disjoint:
  assumes "sm_disjoint d"
  shows "map_of (new_valid d upd) s = None \<or> map_of (new_expired d upd) s = None"
proof (rule ccontr)
  assume "\<not> ?thesis"
  then have v: "map_of (new_valid d upd) s \<noteq> None" and e: "map_of (new_expired d upd) s \<noteq> None" by auto
  from v have ne: "s \<notin> set (ids (upd_expired upd))" by (auto simp: new_valid_lookup)
  then have ue: "hb_at (upd_expired upd) s = None" by (simp only: hb_at_None not_False_eq_True)
  with e have nv: "s \<notin> set (ids (upd_valid upd))" and x: "hb_at (sm_expired d) s \<noteq> None"
    by (auto simp: new_expired_lookup split: if_splits)
  then have uv: "hb_at (upd_valid upd) s = None" by (simp only: hb_at_None not_False_eq_True)
  with v ne have "hb_at (sm_valid d) s \<noteq> None" by (auto simp: new_valid_lookup)
  with x have "s \<in> set (ids (sm_valid d))" "s \<in> set (ids (sm_expired d))"
    by (simp_all only: hb_at_None not_not)
  with assms show False by (auto simp: sm_disjoint_def)
qed

text \<open>Without the test for contradictory states, which never fires on a consistent snapshot.\<close>

lemma HandleUpdated_form:
  assumes "sm_disjoint d"
  shows "HandleServiceMetadataUpdated d upd =
    (if ServiceMetadataUpdated_Equal (sms_ServiceMetadataUpdated d) upd then (d, Inr False)
     else (d\<lparr>sms_ServiceMetadataUpdated :=
               Some \<lparr>smu_ServicesHeartbeat =
                       Some \<lparr>sh_Valid = serviceHeartbeatMapToArray (new_valid d upd),
                             sh_Expired = serviceHeartbeatMapToArray (new_expired d upd)\<rparr>,
                     smu_EventMetadata = smu_EventMetadata upd, smu_AuditContext = None,
                     smu_OpenTelemetryCarrier = smu_OpenTelemetryCarrier upd\<rparr>,
             sms_EventMetadata := smu_EventMetadata upd\<rparr>, Inr True))"
proof -
  have "List.find (\<lambda>(key, _). map_of (new_valid d upd) key \<noteq> None) (new_expired d upd) = None"
    using new_maps_disjoint [OF assms, of upd] new_maps_ok(2) [of d upd]
    by (auto simp: find_None_iff hb_ok_def) (metis map_of_is_SomeI option.distinct(1))
  then show ?thesis
    by (simp add: HandleServiceMetadataUpdated_def fold_put_del new_valid_def [symmetric] new_expired_def [symmetric])
qed

section \<open>The invariant of the snapshot\<close>

definition sm_inv :: "ServiceMetadataSnapshotTaken \<Rightarrow> bool" where
  "sm_inv d \<longleftrightarrow> sm_disjoint d \<and> strictly_sorted (sm_valid d) \<and> strictly_sorted (sm_expired d)"

lemma sm_arrays [simp]:
  "sm_valid (d\<lparr>sms_ServiceMetadataUpdated := Some u, sms_EventMetadata := em\<rparr>) = nil_or [] sh_Valid (smu_ServicesHeartbeat u)"
  "sm_expired (d\<lparr>sms_ServiceMetadataUpdated := Some u, sms_EventMetadata := em\<rparr>) = nil_or [] sh_Expired (smu_ServicesHeartbeat u)"
  by (simp_all add: sm_valid_def sm_expired_def sm_heartbeat_def)

lemma HandleUpdated_lookup:
  assumes "sm_disjoint d" and "HandleServiceMetadataUpdated d upd = (d', Inr True)"
  shows "hb_at (sm_valid d') = map_of (new_valid d upd)" and "hb_at (sm_expired d') = map_of (new_expired d upd)"
    and "sm_inv d'"
proof -
  have d': "sm_valid d' = serviceHeartbeatMapToArray (new_valid d upd)" "sm_expired d' = serviceHeartbeatMapToArray (new_expired d upd)"
    using assms(2) by (auto simp: HandleUpdated_form [OF assms(1)] split: if_splits)
  show v: "hb_at (sm_valid d') = map_of (new_valid d upd)" and e: "hb_at (sm_expired d') = map_of (new_expired d upd)"
    by (simp_all add: d' map_to_array new_maps_ok)
  have "s \<notin> set (ids (sm_valid d')) \<or> s \<notin> set (ids (sm_expired d'))" for s
    using new_maps_disjoint [OF assms(1), of upd s] by (simp only: hb_at_None [symmetric] v e)
  then show "sm_inv d'"
    by (auto simp: sm_inv_def sm_disjoint_def d' map_to_array new_maps_ok)
qed

lemma HandleUpdated_inv:
  assumes "sm_inv d"
  shows "sm_inv (fst (HandleServiceMetadataUpdated d upd))"
proof (cases "ServiceMetadataUpdated_Equal (sms_ServiceMetadataUpdated d) upd")
  case True
  with assms show ?thesis by (simp add: HandleServiceMetadataUpdated_def)
next
  case False
  from assms have dis: "sm_disjoint d" by (simp add: sm_inv_def)
  then obtain d' where r: "HandleServiceMetadataUpdated d upd = (d', Inr True)" using False by (simp add: HandleUpdated_form)
  from HandleUpdated_lookup(3) [OF dis r] r show ?thesis by simp
qed

section \<open>Late services\<close>

definition late :: "gotime \<Rightarrow> ServicesHeartbeat_Heartbeat \<Rightarrow> bool" where
  "late now v \<longleftrightarrow> pkgTime_Unix 0 (hb_ValidUntil v) < now"

lemma fold_late:
  "foldl (\<lambda>(valid, expired, newExpired) v.
       if pkgTime_Unix 0 (hb_ValidUntil v) < now
       then (valid, hb_put expired v, hb_put newExpired v) else (hb_put valid v, expired, newExpired)) (va, ex, ne) vs =
     (foldl hb_put va (filter (\<lambda>v. \<not> late now v) vs), foldl hb_put ex (filter (late now) vs),
      foldl hb_put ne (filter (late now) vs))"
  by (induction vs arbitrary: va ex ne) (simp_all add: late_def)

lemma fold_late_map:
  "foldl (\<lambda>m v. if pkgTime_Unix 0 (hb_ValidUntil v) < now then hb_put m v else m) m vs = foldl hb_put m (filter (late now) vs)"
  by (induction vs arbitrary: m) (simp_all add: late_def)

lemma hb_at_filter:
  assumes "distinct (ids vs)"
  shows "hb_at (filter P vs) s = (case hb_at vs s of None \<Rightarrow> None | Some v \<Rightarrow> if P v then Some v else None)"
  using assms
proof (induction vs)
  case (Cons v vs)
  have "hb_at vs s = None" if "s = hb_ServiceId v"
    using Cons.prems that by (simp only: hb_at_None) simp
  with Cons show ?case by (auto simp: hb_at_def map_add_def split: option.splits)
qed (simp add: hb_at_def)

lemma prepare_form:
  assumes "sm_inv d"
  shows "prepareHeartbeatForService d hb now since =
    (let action = (if shb_Register hb then ''register'' else ''update''); sid = shb_ServiceId hb in
     if sid = [] then Inl (GrpcStatus InvalidArgument ''cannot %v heartbeat for service %v: invalid serviceId'' [action, sid])
     else if sid \<in> set (ids (sm_expired d))
     then Inl (GrpcStatus FailedPrecondition ''cannot %v heartbeat for service %v: already expired'' [action, sid])
     else if shb_Register hb \<and> sid \<in> set (ids (sm_valid d))
     then Inl (GrpcStatus FailedPrecondition ''cannot %v heartbeat for service %v: already registered'' [action, sid])
     else if \<not> shb_Register hb \<and> sid \<notin> set (ids (sm_valid d))
     then Inl (GrpcStatus FailedPrecondition ''cannot %v heartbeat for service %v: not registered'' [action, sid])
     else Inr (calculateTimeToLive now since hb,
       serviceHeartbeatMapToArray (AList.delete sid (hb_map_of (filter (late now) (sm_valid d))))))"
proof -
  let ?vs = "sm_valid d" and ?sid = "shb_ServiceId hb"
  have dist: "distinct (ids ?vs)" using assms by (simp add: sm_inv_def strictly_sorted_def)
  have ex: "map_of (foldl hb_put (hb_map_of (sm_expired d)) (filter (late now) ?vs)) s =
     (case hb_at (filter (late now) ?vs) s of None \<Rightarrow> hb_at (sm_expired d) s | Some v \<Rightarrow> Some v)" for s
    by (simp add: hb_fold_put split: option.split)
  have known: "map_of (foldl hb_put [] (filter (\<lambda>v. \<not> late now v) ?vs)) ?sid = None \<and>
       map_of (foldl hb_put (hb_map_of (sm_expired d)) (filter (late now) ?vs)) ?sid = None \<longleftrightarrow> ?sid \<notin> set (ids ?vs)"
    if "hb_at (sm_expired d) ?sid = None"
    using that hb_at_filter [OF dist] hb_at_None [of ?vs ?sid]
    by (auto simp: ex hb_fold_put simp del: set_map split: option.splits if_splits)
  show ?thesis
    using known hb_at_None [of "sm_expired d" ?sid]
    by (auto simp: prepareHeartbeatForService_def fold_late hb_map_of_def [symmetric] Let_def simp del: set_map)
qed

section \<open>Heartbeats\<close>

lemma emit_service_cases:
  assumes "sm_inv d" and "emit_service d ev = (d', r)"
  shows "(d' = d \<and> r = Inr []) \<or> (HandleServiceMetadataUpdated d ev = (d', Inr True) \<and> r = Inr [E_ServiceMetadataUpdated ev])"
  using assms by (auto simp: sm_inv_def emit_service_def HandleUpdated_form split: if_splits)

lemma sm_inv_emit: "sm_inv d \<Longrightarrow> sm_inv (fst (emit_service d ev))"
  using HandleUpdated_inv [of d ev] by (auto simp: emit_service_def split: prod.splits sum.splits bool.splits)

lemma late_array_lookup:
  assumes "sm_inv d"
  shows "hb_at (serviceHeartbeatMapToArray (AList.delete sid (hb_map_of (filter (late now) (sm_valid d))))) s =
     (if s = sid then None else case hb_at (sm_valid d) s of None \<Rightarrow> None | Some v \<Rightarrow> if late now v then Some v else None)"
    and "hb_at (serviceHeartbeatMapToArray (hb_map_of (filter (late now) (sm_valid d)))) s =
     (case hb_at (sm_valid d) s of None \<Rightarrow> None | Some v \<Rightarrow> if late now v then Some v else None)"
proof -
  have "distinct (ids (sm_valid d))" using assms by (simp add: sm_inv_def strictly_sorted_def)
  note f = hb_at_filter [OF this]
  show "hb_at (serviceHeartbeatMapToArray (AList.delete sid (hb_map_of (filter (late now) (sm_valid d))))) s =
     (if s = sid then None else case hb_at (sm_valid d) s of None \<Rightarrow> None | Some v \<Rightarrow> if late now v then Some v else None)"
    by (simp add: map_to_array hb_ok_delete delete_conv' f)
  show "hb_at (serviceHeartbeatMapToArray (hb_map_of (filter (late now) (sm_valid d)))) s =
     (case hb_at (sm_valid d) s of None \<Rightarrow> None | Some v \<Rightarrow> if late now v then Some v else None)"
    by (simp add: map_to_array f)
qed

text \<open>An update that reports one valid service, or none, and services that were late.\<close>

lemma heartbeat_update_lookup:
  assumes "sm_inv d" and "HandleServiceMetadataUpdated d ev = (d', Inr True)"
    and "\<And>s. hb_at (upd_expired ev) s =
      (if s \<in> set (ids (upd_valid ev)) then None else case hb_at (sm_valid d) s of None \<Rightarrow> None | Some v \<Rightarrow> if late now v then Some v else None)"
    and "set (ids (upd_valid ev)) \<inter> set (ids (sm_expired d)) = {}"
  shows "hb_at (sm_valid d') s =
      (case hb_at (upd_valid ev) s of Some v \<Rightarrow> Some v
       | None \<Rightarrow> (case hb_at (sm_valid d) s of None \<Rightarrow> None | Some v \<Rightarrow> if late now v then None else Some v))"
    and "hb_at (sm_expired d') s =
      (if s \<in> set (ids (upd_valid ev)) then None
       else case hb_at (sm_valid d) s of None \<Rightarrow> hb_at (sm_expired d) s
            | Some v \<Rightarrow> if late now v then Some v else hb_at (sm_expired d) s)"
proof -
  have dis: "sm_disjoint d" using assms(1) by (simp add: sm_inv_def)
  note look = HandleUpdated_lookup(1,2) [OF dis assms(2)]
  have exp: "s \<in> set (ids (upd_expired ev)) \<longleftrightarrow> hb_at (upd_expired ev) s \<noteq> None" by (simp only: hb_at_None not_not)
  have val: "s \<in> set (ids (upd_valid ev)) \<longleftrightarrow> hb_at (upd_valid ev) s \<noteq> None" by (simp only: hb_at_None not_not)
  show "hb_at (sm_valid d') s =
      (case hb_at (upd_valid ev) s of Some v \<Rightarrow> Some v
       | None \<Rightarrow> (case hb_at (sm_valid d) s of None \<Rightarrow> None | Some v \<Rightarrow> if late now v then None else Some v))"
    unfolding look(1) new_valid_lookup exp assms(3) val by (auto split: option.splits if_splits)
  show "hb_at (sm_expired d') s =
      (if s \<in> set (ids (upd_valid ev)) then None
       else case hb_at (sm_valid d) s of None \<Rightarrow> hb_at (sm_expired d) s
            | Some v \<Rightarrow> if late now v then Some v else hb_at (sm_expired d) s)"
    unfolding look(2) new_expired_lookup assms(3) val by (auto split: option.splits if_splits)
qed

lemma heartbeat_sound:
  assumes "sm_inv d" and "updateHeartbeatForService env d hb em ac = (d', r)"
  shows "(d' = d \<and> (is_err r \<or> r = Inr [])) \<or>
    (\<exists>ev. r = Inr [E_ServiceMetadataUpdated ev] \<and> HandleServiceMetadataUpdated d ev = (d', Inr True) \<and>
       upd_valid ev = [\<lparr>hb_ServiceId = shb_ServiceId hb,
         hb_ValidUntil = time_UnixNano (sve_Now env + calculateTimeToLive (sve_Now env) (sve_Since env) hb)\<rparr>] \<and>
       upd_expired ev = serviceHeartbeatMapToArray
         (AList.delete (shb_ServiceId hb) (hb_map_of (filter (late (sve_Now env)) (sm_valid d)))) \<and>
       shb_ServiceId hb \<notin> set (ids (sm_expired d)))"
proof (cases "prepareHeartbeatForService d hb (sve_Now env) (sve_Since env)")
  case (Inl err)
  with assms(2) show ?thesis by (auto simp: updateHeartbeatForService_def)
next
  case (Inr p)
  then have p: "p = (calculateTimeToLive (sve_Now env) (sve_Since env) hb, serviceHeartbeatMapToArray
      (AList.delete (shb_ServiceId hb) (hb_map_of (filter (late (sve_Now env)) (sm_valid d)))))"
    and ne: "shb_ServiceId hb \<notin> set (ids (sm_expired d))"
    by (auto simp: prepare_form [OF assms(1)] Let_def split: if_splits)
  let ?ev = "\<lparr>smu_ServicesHeartbeat = Some \<lparr>sh_Valid = [\<lparr>hb_ServiceId = shb_ServiceId hb,
      hb_ValidUntil = time_UnixNano (sve_Now env + fst p)\<rparr>], sh_Expired = snd p\<rparr>,
      smu_EventMetadata = Some em, smu_AuditContext = Some ac, smu_OpenTelemetryCarrier = sve_Trace env\<rparr>"
  have "emit_service d ?ev = (d', r)"
    using assms(2) Inr by (simp add: updateHeartbeatForService_def case_prod_unfold)
  from emit_service_cases [OF assms(1) this] p ne show ?thesis by auto
qed

lemma check_sound:
  assumes "sm_inv d" and "updateHeartbeatCheckExpiredServices env d em ac = (d', r)"
  shows "(d' = d \<and> r = Inr []) \<or>
    (\<exists>ev. r = Inr [E_ServiceMetadataUpdated ev] \<and> HandleServiceMetadataUpdated d ev = (d', Inr True) \<and> upd_valid ev = [] \<and>
       upd_expired ev = serviceHeartbeatMapToArray (hb_map_of (filter (late (sve_Now env)) (sm_valid d))))"
proof -
  let ?ev = "\<lparr>smu_ServicesHeartbeat = Some \<lparr>sh_Valid = [], sh_Expired =
      serviceHeartbeatMapToArray (hb_map_of (filter (late (sve_Now env)) (sm_valid d)))\<rparr>,
      smu_EventMetadata = Some em, smu_AuditContext = Some ac, smu_OpenTelemetryCarrier = sve_Trace env\<rparr>"
  have "(d' = d \<and> r = Inr []) \<or> emit_service d ?ev = (d', r)"
    using assms(2) by (auto simp: updateHeartbeatCheckExpiredServices_def fold_late_map hb_map_of_def Let_def split: if_splits)
  with emit_service_cases [OF assms(1), of ?ev d' r] show ?thesis by auto
qed

lemma confirm_fold:
  "foldl (\<lambda>(expired, exist) v. if map_of expired (hb_ServiceId v) \<noteq> None
        then (AList.delete (hb_ServiceId v) expired, True) else (expired, exist)) (m, b) vs =
     (foldl hb_del m vs, b \<or> (\<exists>v \<in> set vs. map_of m (hb_ServiceId v) \<noteq> None))"
proof (induction vs arbitrary: m b)
  case (Cons v vs)
  have id: "hb_del m v = m" if "map_of m (hb_ServiceId v) = None"
    using that by (simp add: hb_del_def map_of_eq_None_iff)
  show ?case
  proof (cases "map_of m (hb_ServiceId v)")
    case None
    with Cons id show ?thesis by simp
  next
    case (Some x)
    with Cons show ?thesis by (simp add: hb_del_def)
  qed
qed simp

lemma confirm_sound:
  assumes "sm_inv d" and "confirmExpiredServices env d req em ac = (d', r)"
  shows "sm_valid d' = sm_valid d"
    and "hb_at (sm_expired d') s = (if s \<in> set (ids (ces_Heartbeat req)) then None else hb_at (sm_expired d) s)"
    and "sm_inv d'"
proof -
  let ?m = "foldl hb_del (hb_map_of (sm_expired d)) (ces_Heartbeat req)"
  have m: "hb_ok ?m" "map_of ?m s = (if s \<in> set (ids (ces_Heartbeat req)) then None else hb_at (sm_expired d) s)" for s
    using hb_fold_del [OF hb_map_of_ok [of "sm_expired d"], of "ces_Heartbeat req"] by auto
  have c: "(sm_valid d' = sm_valid d \<and> sm_expired d' = serviceHeartbeatMapToArray ?m) \<or>
      (d' = d \<and> (\<forall>v \<in> set (ces_Heartbeat req). hb_at (sm_expired d) (hb_ServiceId v) = None))"
    using assms(2) unfolding confirmExpiredServices_def confirm_fold Let_def prod.case by (auto split: if_splits)
  then show v: "sm_valid d' = sm_valid d" by auto
  show e: "hb_at (sm_expired d') s = (if s \<in> set (ids (ces_Heartbeat req)) then None else hb_at (sm_expired d) s)" for s
    using c m by (auto simp: map_to_array)
  have sub: "set (ids (sm_expired d')) \<subseteq> set (ids (sm_expired d))"
  proof
    fix s assume "s \<in> set (ids (sm_expired d'))"
    then have "hb_at (sm_expired d') s \<noteq> None" by (simp only: hb_at_None not_not)
    then have "hb_at (sm_expired d) s \<noteq> None" using e by (auto split: if_splits)
    then show "s \<in> set (ids (sm_expired d))" by (simp only: hb_at_None not_not)
  qed
  have "set (ids (sm_valid d)) \<inter> set (ids (sm_expired d)) = {}" using assms(1) by (simp add: sm_inv_def sm_disjoint_def)
  with sub have "sm_disjoint d'" unfolding sm_disjoint_def v by blast
  with c m assms(1) show "sm_inv d'" by (auto simp: sm_inv_def map_to_array)
qed

section \<open>Reachable states\<close>

lemma updateHeartbeat_inv: "sm_inv d \<Longrightarrow> sm_inv (fst (updateHeartbeat env d hb em ac))"
  by (auto simp: updateHeartbeat_def updateHeartbeatCheckExpiredServices_def updateHeartbeatForService_def Let_def sm_inv_emit
      split: sum.splits)

lemma service_command_inv:
  assumes "sm_inv (smc_snap c)"
  shows "sm_inv (smc_snap (fst (ServiceMetadata_HandleCommand env c cmd v)))"
proof (cases cmd)
  case (UpdateServiceMetadata req)
  with assms updateHeartbeat_inv show ?thesis
    by (auto simp: ServiceMetadata_HandleCommand_def updateServiceMetadataRequest_def Let_def split: option.splits prod.splits; metis fst_conv)
next
  case (ConfirmExpiredServices req)
  with assms confirm_sound(3) show ?thesis
    by (fastforce simp: ServiceMetadata_HandleCommand_def confirmExpiredServicesRequest_def Let_def split: prod.splits)
next
  case (UnknownServiceCommand t)
  with assms show ?thesis by (simp add: ServiceMetadata_HandleCommand_def)
qed

inductive sm_reachable :: "ServiceMetadataSnapshotTaken \<Rightarrow> bool" where
  start: "sm_reachable NewServiceMetadataSnapshotTaken"
| command: "sm_reachable (smc_snap c) \<Longrightarrow> sm_reachable (smc_snap (fst (ServiceMetadata_HandleCommand env c cmd v)))"
| updated: "sm_reachable d \<Longrightarrow> sm_reachable (fst (HandleServiceMetadataUpdated d upd))"
| reload: "sm_reachable d \<Longrightarrow> sm_reachable s \<Longrightarrow>
    sm_reachable (HandleServiceMetadataSnapshotTaken d (ServiceMetadata_TakeSnapshot now s v))"

lemma sm_reload: "sm_inv s \<Longrightarrow> sm_inv (HandleServiceMetadataSnapshotTaken d (ServiceMetadata_TakeSnapshot now s v))"
  by (simp add: HandleServiceMetadataSnapshotTaken_def ServiceMetadata_TakeSnapshot_def ServiceMetadataSnapshotTaken_CopyData_def
      sm_inv_def sm_disjoint_def sm_valid_def sm_expired_def sm_heartbeat_def)

lemma sm_reachable_inv: "sm_reachable d \<Longrightarrow> sm_inv d"
proof (induction rule: sm_reachable.induct)
  case start
  then show ?case
    by (simp add: NewServiceMetadataSnapshotTaken_def empty_ServiceMetadataUpdated_def sm_inv_def sm_disjoint_def sm_valid_def
        sm_expired_def sm_heartbeat_def strictly_sorted_def)
qed (auto intro: service_command_inv HandleUpdated_inv sm_reload)

section \<open>Sample services\<close>

definition ex_senv :: "gotime \<Rightarrow> service_env" where
  "ex_senv now = \<lparr>sve_Now_meta = now, sve_Now = now, sve_Since = now, sve_Now_snapshot = now, sve_Peer = None, sve_Trace = []\<rparr>"

definition ex_hb :: "string \<Rightarrow> bool \<Rightarrow> ServiceHeartbeat" where
  "ex_hb s reg = \<lparr>shb_ServiceId = s, shb_TimeToLive = 100, shb_Timestamp = 0, shb_Register = reg\<rparr>"

definition ex_hb_cmd :: "string \<Rightarrow> bool \<Rightarrow> sm_command" where
  "ex_hb_cmd s reg = UpdateServiceMetadata \<lparr>usm_Heartbeat = Some (ex_hb s reg)\<rparr>"

definition ex_services :: ServiceMetadataSnapshotTakenForCommand where
  "ex_services =
     fst (ServiceMetadata_HandleCommand (ex_senv 1050)
       (fst (ServiceMetadata_HandleCommand (ex_senv 1000) (NewServiceMetadataSnapshotTakenForCommand ''user'' ''owner'' ''hub'')
         (ex_hb_cmd ''b'' True) 0)) (ex_hb_cmd ''a'' True) 1)"

definition ex_beat :: "string \<Rightarrow> i64 \<Rightarrow> ServicesHeartbeat_Heartbeat" where
  "ex_beat s t = \<lparr>hb_ServiceId = s, hb_ValidUntil = t\<rparr>"

lemma ex_services_value:
  "sm_valid (smc_snap ex_services) = [ex_beat ''a'' 1150, ex_beat ''b'' 1100]" "sm_expired (smc_snap ex_services) = []"
  by code_simp+

lemma ex_services_reachable: "sm_reachable (smc_snap ex_services)"
proof -
  have "sm_reachable (smc_snap (NewServiceMetadataSnapshotTakenForCommand ''user'' ''owner'' ''hub''))"
    by (simp add: NewServiceMetadataSnapshotTakenForCommand_def sm_reachable.start)
  then show ?thesis unfolding ex_services_def by (intro sm_reachable.command)
qed

section \<open>Properties\<close>

text \<open>
  C10. In every reachable state no service is both valid and expired, and both arrays are sorted by service
  identifier without repetition; so the handler's test for a contradictory state never fails.
\<close>

theorem service_never_valid_and_expired:
  assumes "sm_reachable d"
  shows "set (map hb_ServiceId (sm_valid d)) \<inter> set (map hb_ServiceId (sm_expired d)) = {} \<and>
    sorted (map hb_ServiceId (sm_valid d)) \<and> distinct (map hb_ServiceId (sm_valid d)) \<and>
    sorted (map hb_ServiceId (sm_expired d)) \<and> distinct (map hb_ServiceId (sm_expired d)) \<and>
    \<not> is_err (snd (HandleServiceMetadataUpdated d upd))"
proof -
  have inv: "sm_inv d" by (rule sm_reachable_inv [OF assms])
  then have "\<not> is_err (snd (HandleServiceMetadataUpdated d upd))" by (simp add: sm_inv_def HandleUpdated_form)
  with inv show ?thesis by (simp add: sm_inv_def sm_disjoint_def strictly_sorted_def)
qed

theorem service_never_valid_and_expired_witness:
  "sm_valid (smc_snap ex_services) = [ex_beat ''a'' 1150, ex_beat ''b'' 1100] \<and>
   sorted (map hb_ServiceId (sm_valid (smc_snap ex_services)))"
  using service_never_valid_and_expired [OF ex_services_reachable] ex_services_value(1) by blast

text \<open>
  C13. Handling an update merges two maps: a service is valid afterwards with the update's heartbeat or, if the
  update does not name it, its old one, unless the update reports it expired; it is expired afterwards when the
  update says so, or when it was and the update does not report it valid.
\<close>

theorem service_update_merges:
  assumes "sm_reachable d" and "HandleServiceMetadataUpdated d upd = (d', Inr True)"
  shows "hb_at (sm_valid d') s =
      (if s \<in> set (map hb_ServiceId (upd_expired upd)) then None
       else case hb_at (upd_valid upd) s of None \<Rightarrow> hb_at (sm_valid d) s | Some v \<Rightarrow> Some v) \<and>
    hb_at (sm_expired d') s =
      (case hb_at (upd_expired upd) s of
         None \<Rightarrow> if s \<in> set (map hb_ServiceId (upd_valid upd)) then None else hb_at (sm_expired d) s
       | Some v \<Rightarrow> Some v)"
proof -
  have "sm_disjoint d" using sm_reachable_inv [OF assms(1)] by (simp add: sm_inv_def)
  from HandleUpdated_lookup(1,2) [OF this assms(2)] show ?thesis
    by (simp only: new_valid_lookup new_expired_lookup)
qed

definition ex_sm_update :: ServiceMetadataUpdated where
  "ex_sm_update = empty_ServiceMetadataUpdated\<lparr>smu_ServicesHeartbeat :=
     Some \<lparr>sh_Valid = [ex_beat ''c'' 7], sh_Expired = [ex_beat ''b'' 1100]\<rparr>\<rparr>"

theorem service_update_merges_witness:
  "\<exists>d'. HandleServiceMetadataUpdated (smc_snap ex_services) ex_sm_update = (d', Inr True) \<and>
     hb_at (sm_valid d') ''b'' = None \<and> hb_at (sm_expired d') ''b'' = Some (ex_beat ''b'' 1100) \<and>
     hb_at (sm_valid d') ''a'' = Some (ex_beat ''a'' 1150)"
proof -
  let ?d = "smc_snap ex_services"
  have "snd (HandleServiceMetadataUpdated ?d ex_sm_update) = Inr True" by code_simp
  then obtain d' where r: "HandleServiceMetadataUpdated ?d ex_sm_update = (d', Inr True)" by (metis prod.collapse)
  from service_update_merges [OF ex_services_reachable r, of "''a''"] service_update_merges [OF ex_services_reachable r, of "''b''"] r
  show ?thesis by (simp add: ex_sm_update_def ex_services_value hb_at_def ex_beat_def)
qed

text \<open>
  C12. Admission of a heartbeat: it is refused, with no change, exactly when the service identifier is empty, the
  service has expired, a registration names a known service, or an update names an unknown one. An empty
  identifier is an invalid argument, the other refusals are failed preconditions.
\<close>

theorem heartbeat_admission:
  assumes "sm_reachable d" and "updateHeartbeatForService env d hb em ac = (d', r)"
  shows "(is_err r \<longleftrightarrow>
      shb_ServiceId hb = [] \<or> shb_ServiceId hb \<in> set (map hb_ServiceId (sm_expired d)) \<or>
      (shb_Register hb \<longleftrightarrow> shb_ServiceId hb \<in> set (map hb_ServiceId (sm_valid d)))) \<and>
    (is_err r \<longrightarrow> d' = d \<and>
      (\<exists>err. r = Inl err \<and> error_code err = Some (if shb_ServiceId hb = [] then InvalidArgument else FailedPrecondition)))"
proof -
  have inv: "sm_inv d" by (rule sm_reachable_inv [OF assms(1)])
  have ok: "\<not> is_err (snd (emit_service d ev))" for ev
    using emit_service_cases [OF inv, of ev] by (cases "emit_service d ev") auto
  show ?thesis
    using assms(2) ok
    by (auto simp: updateHeartbeatForService_def prepare_form [OF inv] Let_def simp del: set_map split: if_splits)
      (metis is_err_simps(1) snd_conv)+
qed

theorem heartbeat_admission_witness:
  "snd (updateHeartbeatForService (ex_senv 1060) (smc_snap ex_services) (ex_hb ''b'' True) empty_EventMetadata (NewAuditContext [] [] [])) \<noteq> Inr [] \<and>
   is_err (snd (updateHeartbeatForService (ex_senv 1060) (smc_snap ex_services) (ex_hb ''b'' True) empty_EventMetadata (NewAuditContext [] [] [])))"
proof -
  let ?u = "updateHeartbeatForService (ex_senv 1060) (smc_snap ex_services) (ex_hb ''b'' True) empty_EventMetadata (NewAuditContext [] [] [])"
  obtain d' r where r: "?u = (d', r)" by fastforce
  from heartbeat_admission [OF ex_services_reachable r] have "is_err r"
    by (simp add: ex_services_value ex_hb_def ex_beat_def)
  with r show ?thesis by auto
qed

text \<open>
  C11. An accepted heartbeat makes its service valid until the new deadline, moves every other service whose
  deadline has passed from valid to expired and leaves the rest.
\<close>

theorem heartbeat_effect:
  assumes "sm_reachable d" and "updateHeartbeatForService env d hb em ac = (d', Inr [ev])"
  shows "hb_at (sm_valid d') (shb_ServiceId hb) =
      Some \<lparr>hb_ServiceId = shb_ServiceId hb,
            hb_ValidUntil = time_UnixNano (sve_Now env + calculateTimeToLive (sve_Now env) (sve_Since env) hb)\<rparr> \<and>
    (\<forall>s. s \<noteq> shb_ServiceId hb \<longrightarrow>
       (case hb_at (sm_valid d) s of
          None \<Rightarrow> hb_at (sm_valid d') s = None \<and> hb_at (sm_expired d') s = hb_at (sm_expired d) s
        | Some v \<Rightarrow>
            if pkgTime_Unix 0 (hb_ValidUntil v) < sve_Now env
            then hb_at (sm_valid d') s = None \<and> hb_at (sm_expired d') s = Some v
            else hb_at (sm_valid d') s = Some v \<and> hb_at (sm_expired d') s = hb_at (sm_expired d) s))"
proof -
  let ?sid = "shb_ServiceId hb"
  have inv: "sm_inv d" by (rule sm_reachable_inv [OF assms(1)])
  from heartbeat_sound [OF inv assms(2)] obtain u where
    h: "HandleServiceMetadataUpdated d u = (d', Inr True)" and
    uv: "upd_valid u = [\<lparr>hb_ServiceId = ?sid,
         hb_ValidUntil = time_UnixNano (sve_Now env + calculateTimeToLive (sve_Now env) (sve_Since env) hb)\<rparr>]" and
    ue: "upd_expired u = serviceHeartbeatMapToArray (AList.delete ?sid (hb_map_of (filter (late (sve_Now env)) (sm_valid d))))" and
    ne: "?sid \<notin> set (ids (sm_expired d))" by auto
  have at: "hb_at (upd_valid u) s = (if s = ?sid then Some (hd (upd_valid u)) else None)" for s
    by (simp add: uv hb_at_def)
  note look = heartbeat_update_lookup [where now = "sve_Now env", OF inv h]
  have "hb_at (upd_expired u) s = (if s \<in> set (ids (upd_valid u)) then None
      else case hb_at (sm_valid d) s of None \<Rightarrow> None | Some v \<Rightarrow> if late (sve_Now env) v then Some v else None)" for s
    unfolding ue late_array_lookup(1) [OF inv] by (simp add: uv)
  moreover have "set (ids (upd_valid u)) \<inter> set (ids (sm_expired d)) = {}" using ne by (simp add: uv)
  ultimately show ?thesis
    using look at by (auto simp: uv late_def split: option.splits)
qed

theorem heartbeat_effect_witness:
  "\<exists>d' ev. updateHeartbeatForService (ex_senv 1120) (smc_snap ex_services) (ex_hb ''a'' False) empty_EventMetadata
       (NewAuditContext [] [] []) = (d', Inr [ev]) \<and>
     hb_at (sm_valid d') ''a'' = Some (ex_beat ''a'' 1220) \<and> hb_at (sm_expired d') ''b'' = Some (ex_beat ''b'' 1100)"
proof -
  let ?u = "updateHeartbeatForService (ex_senv 1120) (smc_snap ex_services) (ex_hb ''a'' False) empty_EventMetadata (NewAuditContext [] [] [])"
  have "case snd ?u of Inl _ \<Rightarrow> False | Inr evs \<Rightarrow> length evs = 1" by code_simp
  then obtain d' evs where u: "?u = (d', Inr evs)" and l: "length evs = 1" by (rule run_okE)
  then obtain ev where u: "?u = (d', Inr [ev])" by (cases evs) auto
  have t: "time_UnixNano (sve_Now (ex_senv 1120) + calculateTimeToLive (sve_Now (ex_senv 1120)) (sve_Since (ex_senv 1120)) (ex_hb ''a'' False)) = 1220"
    by code_simp
  from heartbeat_effect [OF ex_services_reachable u] u show ?thesis
    unfolding t by (auto simp: ex_hb_def ex_services_value hb_at_def ex_beat_def ex_senv_def time_defs dest: spec [of _ "''b''"])
qed

lemma heartbeat_cases:
  assumes "sm_inv d" and "updateHeartbeat env d hb em ac = (d', q)"
  obtains (same) "d' = d"
  | (merge) u where "HandleServiceMetadataUpdated d u = (d', Inr True)"
      "set (ids (upd_valid u)) \<inter> set (ids (sm_expired d)) = {}"
      "\<And>s. hb_at (upd_expired u) s = (if s \<in> set (ids (upd_valid u)) then None
         else case hb_at (sm_valid d) s of None \<Rightarrow> None | Some v \<Rightarrow> if late (sve_Now env) v then Some v else None)"
proof (cases "shb_ServiceId hb = [] \<and> shb_TimeToLive hb = 0")
  case True
  with assms(2) have "updateHeartbeatCheckExpiredServices env d em ac = (d', q)" by (simp add: updateHeartbeat_def)
  from check_sound [OF assms(1) this] show thesis
  proof (elim disjE exE conjE)
    fix u assume h: "HandleServiceMetadataUpdated d u = (d', Inr True)" and v: "upd_valid u = []" and
      e: "upd_expired u = serviceHeartbeatMapToArray (hb_map_of (filter (late (sve_Now env)) (sm_valid d)))"
    show thesis by (rule merge [OF h]) (simp_all add: v e late_array_lookup(2) [OF assms(1)])
  qed (auto intro: same)
next
  case False
  with assms(2) have "updateHeartbeatForService env d hb em ac = (d', q)" by (auto simp: updateHeartbeat_def)
  from heartbeat_sound [OF assms(1) this] show thesis
  proof (elim disjE exE conjE)
    fix u assume h: "HandleServiceMetadataUpdated d u = (d', Inr True)" and v: "upd_valid u = [\<lparr>hb_ServiceId = shb_ServiceId hb,
         hb_ValidUntil = time_UnixNano (sve_Now env + calculateTimeToLive (sve_Now env) (sve_Since env) hb)\<rparr>]" and
      e: "upd_expired u = serviceHeartbeatMapToArray
         (AList.delete (shb_ServiceId hb) (hb_map_of (filter (late (sve_Now env)) (sm_valid d))))" and
      n: "shb_ServiceId hb \<notin> set (ids (sm_expired d))"
    show thesis
      by (rule merge [OF h]) (use n in \<open>simp_all add: v e late_array_lookup(1) [OF assms(1)]\<close>)
  qed (auto intro: same)
qed

text \<open>An expired service stays expired under every heartbeat command, its own and those of other services; only
  a confirmation takes it off, and a confirmation takes off exactly the services it names and keeps the valid
  ones.
\<close>

theorem expired_until_confirmed:
  assumes "sm_reachable (smc_snap c)" and "ServiceMetadata_HandleCommand env c cmd v = (c', r)"
  shows "case cmd of
      ConfirmExpiredServices req \<Rightarrow>
        sm_valid (smc_snap c') = sm_valid (smc_snap c) \<and>
        hb_at (sm_expired (smc_snap c')) s =
          (if s \<in> set (map hb_ServiceId (ces_Heartbeat req)) then None else hb_at (sm_expired (smc_snap c)) s)
    | _ \<Rightarrow> hb_at (sm_expired (smc_snap c)) s = Some b \<longrightarrow> hb_at (sm_expired (smc_snap c')) s = Some b"
proof -
  let ?d = "smc_snap c"
  have inv: "sm_inv ?d" by (rule sm_reachable_inv [OF assms(1)])
  then have dis: "hb_at (sm_valid ?d) s = None" if "hb_at (sm_expired ?d) s \<noteq> None"
    using that by (auto simp: sm_inv_def sm_disjoint_def simp del: set_map simp: hb_at_None)
  show ?thesis
  proof (cases cmd)
    case (UpdateServiceMetadata req)
    have "hb_at (sm_expired d') s = Some b"
      if "updateHeartbeat env ?d hb em ac = (d', q)" "hb_at (sm_expired ?d) s = Some b" for hb em ac d' q
    proof -
      have vs: "hb_at (sm_valid ?d) s = None" using dis that(2) by simp
      have ex: "s \<in> set (ids (sm_expired ?d))" using that(2) hb_at_None [of "sm_expired ?d" s] by fastforce
      from inv that(1) show ?thesis
      proof (cases rule: heartbeat_cases)
        case same
        with that(2) show ?thesis by simp
      next
        case (merge u)
        with ex have "s \<notin> set (ids (upd_valid u))" by blast
        with heartbeat_update_lookup(2) [where now = "sve_Now env", OF inv merge(1,3,2), of s] vs that(2) show ?thesis by simp
      qed
    qed
    with assms(2) UpdateServiceMetadata show ?thesis
      by (auto simp: ServiceMetadata_HandleCommand_def updateServiceMetadataRequest_def Let_def split: option.splits prod.splits)
  next
    case (ConfirmExpiredServices req)
    then show ?thesis using assms(2) confirm_sound(1,2) [OF inv]
      by (auto simp: ServiceMetadata_HandleCommand_def confirmExpiredServicesRequest_def Let_def split: prod.splits)
  next
    case (UnknownServiceCommand t)
    with assms(2) show ?thesis by (auto simp: ServiceMetadata_HandleCommand_def)
  qed
qed

definition ex_expired :: ServiceMetadataSnapshotTakenForCommand where
  "ex_expired = fst (ServiceMetadata_HandleCommand (ex_senv 1120) ex_services (ex_hb_cmd ''a'' False) 2)"

theorem expired_until_confirmed_witness:
  "hb_at (sm_expired (smc_snap ex_expired)) ''b'' = Some (ex_beat ''b'' 1100) \<and>
   hb_at (sm_expired (smc_snap (fst (ServiceMetadata_HandleCommand (ex_senv 1130) ex_expired (ex_hb_cmd ''b'' False) 3)))) ''b'' =
     Some (ex_beat ''b'' 1100)"
proof -
  obtain c' r where r: "ServiceMetadata_HandleCommand (ex_senv 1130) ex_expired (ex_hb_cmd ''b'' False) 3 = (c', r)" by fastforce
  have reach: "sm_reachable (smc_snap ex_expired)"
    unfolding ex_expired_def by (rule sm_reachable.command [OF ex_services_reachable])
  have "sm_expired (smc_snap ex_expired) = [ex_beat ''b'' 1100]" by code_simp
  then have b: "hb_at (sm_expired (smc_snap ex_expired)) ''b'' = Some (ex_beat ''b'' 1100)" by (simp add: hb_at_def ex_beat_def)
  with expired_until_confirmed [OF reach r, of "''b''"] r show ?thesis by (simp add: ex_hb_cmd_def)
qed



text \<open>Service commands agree with event sourcing: replaying the event of a command over the snapshot before it
  gives the heartbeats after it. A confirmation is stored as a snapshot.
\<close>

theorem service_command_replay:
  assumes "ServiceMetadata_HandleCommand env c cmd v = (c', Inr evs)" and "evs \<noteq> []"
  shows "\<exists>d. ServiceMetadata_Handle (smc_snap c) (map (stored U) evs) None = (d, Inr ()) \<and>
    sms_ServiceMetadataUpdated d = sms_ServiceMetadataUpdated (smc_snap c') \<and>
    length evs = 1 \<and> ev_Version (as_Event U (hd evs)) = v \<and> ev_GroupID (as_Event U (hd evs)) = smc_hubID c"
proof -
  have upd: "ServiceMetadata_Handle d [stored U (E_ServiceMetadataUpdated u)] None = (fst (HandleServiceMetadataUpdated d u), Inr ())" for d u
    by (simp add: ServiceMetadata_Handle_def ServiceMetadata_handleByEvent_def stored_def event_table_defs Unmarshal_as_def sel_defs)
  have snap: "ServiceMetadata_Handle d [stored U (E_ServiceMetadataSnapshotTaken s)] None = (HandleServiceMetadataSnapshotTaken d s, Inr ())" for d s
    by (simp add: ServiceMetadata_Handle_def ServiceMetadata_handleByEvent_def stored_def event_table_defs Unmarshal_as_def sel_defs)
  have emit: "es = [E_ServiceMetadataUpdated u] \<and> d' = fst (HandleServiceMetadataUpdated d u)"
    if "emit_service d u = (d', Inr es)" "es \<noteq> []" for d u d' es
    using that by (auto simp: emit_service_def split: prod.splits sum.splits bool.splits)
  have em: "GetVersion (Some (service_em env c v)) = v" "GetHubId (Some (service_em env c v)) = smc_hubID c"
    by (simp_all add: service_em_def MakeEventMeta_def)
  show ?thesis
  proof (cases cmd)
    case (UpdateServiceMetadata req)
    then obtain hb d' where "usm_Heartbeat req = Some hb" and
      h: "updateHeartbeat env (smc_snap c) hb (service_em env c v) (NewAuditContext (smc_userID c) [] (smc_owner c)) = (d', Inr evs)"
      and c': "smc_snap c' = d'"
      using assms(1) by (auto simp: ServiceMetadata_HandleCommand_def updateServiceMetadataRequest_def Let_def split: option.splits prod.splits)
    obtain u where "emit_service (smc_snap c) u = (d', Inr evs)" and m: "smu_EventMetadata u = Some (service_em env c v)"
      using h assms(2) by (auto simp: updateHeartbeat_def updateHeartbeatForService_def updateHeartbeatCheckExpiredServices_def
          Let_def split: if_splits sum.splits prod.splits)
    from emit [OF this(1) assms(2)] have "evs = [E_ServiceMetadataUpdated u]" "d' = fst (HandleServiceMetadataUpdated (smc_snap c) u)"
      by auto
    with c' upd m em show ?thesis by (simp add: event_table_defs)
  next
    case (ConfirmExpiredServices req)
    then show ?thesis
      using assms em
      by (auto simp: ServiceMetadata_HandleCommand_def confirmExpiredServicesRequest_def confirmExpiredServices_def Let_def snap
          HandleServiceMetadataSnapshotTaken_def ServiceMetadataSnapshotTaken_CopyData_def ServiceMetadata_TakeSnapshot_def
          event_table_defs MakeEventMeta_def split: prod.splits if_splits)
  next
    case (UnknownServiceCommand t)
    with assms show ?thesis by (simp add: ServiceMetadata_HandleCommand_def)
  qed
qed

theorem service_command_replay_witness:
  "\<exists>c' evs d. ServiceMetadata_HandleCommand (ex_senv 1120) ex_services (ex_hb_cmd ''a'' False) 2 = (c', Inr evs) \<and>
     ServiceMetadata_Handle (smc_snap ex_services) (map (stored ex_uuid) evs) None = (d, Inr ()) \<and>
     sms_ServiceMetadataUpdated d = sms_ServiceMetadataUpdated (smc_snap c')"
proof -
  let ?r = "ServiceMetadata_HandleCommand (ex_senv 1120) ex_services (ex_hb_cmd ''a'' False) 2"
  have "case snd ?r of Inl _ \<Rightarrow> False | Inr evs \<Rightarrow> length evs = 1" by code_simp
  then obtain c' evs where r: "?r = (c', Inr evs)" and "length evs = 1" by (rule run_okE)
  then have "evs \<noteq> []" by auto
  from service_command_replay [OF r this, of ex_uuid] r show ?thesis by auto
qed

end
