(* ===== verification/Event_Store.thy ===== *)
theory Event_Store
  imports Hub_Events
begin

text \<open>
  The interface of the event store and the check every batch of events passes before it is written:
  \<^verbatim>\<open>resource-aggregate/cqrs/eventstore/eventstore.go\<close> and \<^verbatim>\<open>event.go\<close>. A nil event of a batch is
  \<open>None\<close>; the numbers in the messages of the errors are left out.
\<close>

section \<open>Queries and results\<close>

record VersionQuery =
  vq_GroupID :: string
  vq_AggregateID :: string
  vq_Version :: u64

record SnapshotQuery =
  sq_GroupID :: string
  sq_AggregateID :: string
  sq_Types :: "string list"

datatype SaveStatus = Save_Ok | ConcurrencyException | SnapshotRequired | Save_Fail

text \<open>The envelope of a loaded event with its decoder; the decoder is the outcome of decoding.\<close>

definition NewLoadedEvent ::
    "u64 \<Rightarrow> string \<Rightarrow> string \<Rightarrow> string \<Rightarrow> bool \<Rightarrow> gotime \<Rightarrow> any_event res \<Rightarrow> EventUnmarshaler" where
  "NewLoadedEvent version eventType aggregateID groupID isSnapshot timestamp dataUnmarshaler =
     \<lparr>eu_Version = version, eu_EventType = eventType, eu_AggregateID = aggregateID, eu_GroupID = groupID,
      eu_IsSnapshot = isSnapshot, eu_Timestamp = timestamp, eu_Payload = dataUnmarshaler\<rparr>"

section \<open>Validation of a batch\<close>

definition validateFirstEvent :: "uuid_pkg \<Rightarrow> Event \<Rightarrow> unit res" where
  "validateFirstEvent U event =
     (if \<not> uuid_Parse_ok U (ev_AggregateID event)
      then Inl (Errorf ''invalid events[0].AggregateID('%v'): %w'' [ev_AggregateID event])
      else if \<not> uuid_Parse_ok U (ev_GroupID event)
      then Inl (Errorf ''invalid events[0].GroupID('%v'): %w'' [ev_GroupID event])
      else if IsZero (ev_Timestamp event)
      then Inl (Errorf ''invalid zero events[0].Timestamp'' [])
      else Inr ())"

definition validateEvent ::
    "uuid_pkg \<Rightarrow> Event \<Rightarrow> nat \<Rightarrow> string \<Rightarrow> string \<Rightarrow> u64 \<Rightarrow> gotime \<Rightarrow> unit res" where
  "validateEvent U event idx aggregateID groupID version timestamp =
     (if ev_AggregateID event \<noteq> aggregateID
      then Inl (Errorf ''invalid events[%v].AggregateID('%v') != events[0].AggregateID('%v')'' [ev_AggregateID event, aggregateID])
      else if ev_GroupID event \<noteq> groupID
      then Inl (Errorf ''invalid events[%v].GroupID('%v') != events[0].GroupID('%v')'' [ev_GroupID event, groupID])
      else if ev_EventType event = []
      then Inl (Errorf ''invalid events[%v].EventType('%v')'' [ev_EventType event])
      else if IsZero (ev_Timestamp event)
      then Inl (Errorf ''invalid zero events[%v].Timestamp'' [])
      else if 0 < idx \<and> ev_Version event \<noteq> version + of_nat idx
      then Inl (Errorf ''invalid continues ascending events[%v].Version(%v))'' [])
      else if 0 < idx \<and> ev_Timestamp event < timestamp
      then Inl (Errorf ''invalid decreasing events[%v].Timestamp(%v))'' [])
      else case ev_ServiceID event of (serviceID, ok) \<Rightarrow>
        if ok \<and> serviceID \<noteq> [] \<and> \<not> uuid_Parse_ok U serviceID
        then Inl (Errorf ''invalid events[%v].ServiceID('%v'): %w'' [serviceID])
        else Inr ())"

fun validate_from ::
    "uuid_pkg \<Rightarrow> nat \<Rightarrow> string \<Rightarrow> string \<Rightarrow> u64 \<Rightarrow> gotime \<Rightarrow> Event option list \<Rightarrow> unit res" where
  "validate_from U idx aggregateID groupID version timestamp [] = Inr ()"
| "validate_from U idx aggregateID groupID version timestamp (None # events) =
     Inl (Errorf ''invalid events[%v]('%v')'' [])"
| "validate_from U idx aggregateID groupID version timestamp (Some event # events) =
     (case validateEvent U event idx aggregateID groupID version timestamp of
        Inl err \<Rightarrow> Inl err
      | Inr _ \<Rightarrow> validate_from U (Suc idx) aggregateID groupID version (ev_Timestamp event) events)"

definition ValidateEventsBeforeSave :: "uuid_pkg \<Rightarrow> Event option list \<Rightarrow> unit res" where
  "ValidateEventsBeforeSave U events =
     (case events of
        Some firstEvent # _ \<Rightarrow>
          (case validateFirstEvent U firstEvent of
             Inl err \<Rightarrow> Inl err
           | Inr _ \<Rightarrow> validate_from U 0 (ev_AggregateID firstEvent) (ev_GroupID firstEvent)
                       (ev_Version firstEvent) (ev_Timestamp firstEvent) events)
      | _ \<Rightarrow> Inl (Errorf ''invalid events('%v')'' []))"

section \<open>What the check accepts\<close>

text \<open>The prerequisites of a batch, as a predicate on the events themselves.\<close>

definition valid_event :: "uuid_pkg \<Rightarrow> string \<Rightarrow> string \<Rightarrow> Event \<Rightarrow> bool" where
  "valid_event U aggregateID groupID e \<longleftrightarrow>
     ev_AggregateID e = aggregateID \<and> ev_GroupID e = groupID \<and> ev_EventType e \<noteq> [] \<and>
     \<not> IsZero (ev_Timestamp e) \<and>
     (snd (ev_ServiceID e) \<and> fst (ev_ServiceID e) \<noteq> [] \<longrightarrow> uuid_Parse_ok U (fst (ev_ServiceID e)))"

definition valid_batch :: "uuid_pkg \<Rightarrow> Event list \<Rightarrow> bool" where
  "valid_batch U es \<longleftrightarrow>
     es \<noteq> [] \<and> uuid_Parse_ok U (ev_AggregateID (hd es)) \<and> uuid_Parse_ok U (ev_GroupID (hd es)) \<and>
     list_all (valid_event U (ev_AggregateID (hd es)) (ev_GroupID (hd es))) es \<and>
     map ev_Version es = map (\<lambda>i. ev_Version (hd es) + of_nat i) [0..<length es] \<and>
     sorted (map ev_Timestamp es)"

lemma validateEvent_ok:
  "validateEvent U e idx a g v t = Inr () \<longleftrightarrow>
     valid_event U a g e \<and> (0 < idx \<longrightarrow> ev_Version e = v + of_nat idx \<and> t \<le> ev_Timestamp e)"
  by (auto simp: validateEvent_def valid_event_def split: prod.splits)

lemma validate_from_ok:
  assumes "0 < idx"
  shows "validate_from U idx a g v t (map Some es) = Inr () \<longleftrightarrow>
     list_all (valid_event U a g) es \<and>
     map ev_Version es = map (\<lambda>i. v + of_nat i) [idx..<idx + length es] \<and>
     sorted (t # map ev_Timestamp es)"
  using assms
proof (induction es arbitrary: idx t)
  case (Cons e es)
  have range: "[idx..<idx + length (e # es)] = idx # [Suc idx..<Suc idx + length es]"
    by (simp add: upt_conv_Cons del: upt_Suc)
  show ?case
  proof (cases "validateEvent U e idx a g v t")
    case (Inl err)
    then have "\<not> (valid_event U a g e \<and> ev_Version e = v + of_nat idx \<and> t \<le> ev_Timestamp e)"
      using validateEvent_ok [of U e idx a g v t] Cons.prems by simp
    with Inl range show ?thesis by auto
  next
    case (Inr u)
    then have ok: "valid_event U a g e \<and> ev_Version e = v + of_nat idx \<and> t \<le> ev_Timestamp e"
      using validateEvent_ok [of U e idx a g v t] Cons.prems by simp
    have "validate_from U idx a g v t (map Some (e # es)) = validate_from U (Suc idx) a g v (ev_Timestamp e) (map Some es)"
      using Inr by simp
    with Cons.IH [of "Suc idx" "ev_Timestamp e"] ok range show ?thesis
      by (auto simp del: upt_Suc intro: order_trans)
  qed
qed simp

lemma validate_from_nil: "None \<in> set events \<Longrightarrow> validate_from U idx a g v t events \<noteq> Inr ()"
  by (induction U idx a g v t events rule: validate_from.induct) (auto split: sum.splits)

lemma no_nil_events: "None \<notin> set events \<Longrightarrow> \<exists>es. events = map Some es"
  by (induction events) (metis insert_iff list.simps(15) list.simps(8) list.simps(9) not_None_eq)+

lemma validate_Cons:
  "ValidateEventsBeforeSave U (map Some (e # es)) = Inr () \<longleftrightarrow> valid_batch U (e # es)"
proof -
  let ?a = "ev_AggregateID e" and ?g = "ev_GroupID e" and ?v = "ev_Version e" and ?t = "ev_Timestamp e"
  have range: "[0..<length (e # es)] = 0 # [1..<1 + length es]" by (simp add: upt_conv_Cons del: upt_Suc)
  have "ValidateEventsBeforeSave U (map Some (e # es)) = Inr () \<longleftrightarrow>
      validateFirstEvent U e = Inr () \<and> validateEvent U e 0 ?a ?g ?v ?t = Inr () \<and>
      validate_from U 1 ?a ?g ?v ?t (map Some es) = Inr ()"
    by (auto simp: ValidateEventsBeforeSave_def split: sum.splits)
  moreover have "validateFirstEvent U e = Inr () \<longleftrightarrow> uuid_Parse_ok U ?a \<and> uuid_Parse_ok U ?g \<and> \<not> IsZero ?t"
    by (auto simp: validateFirstEvent_def)
  moreover have "valid_event U ?a ?g e \<Longrightarrow> \<not> IsZero ?t" by (simp add: valid_event_def)
  ultimately show ?thesis
    unfolding valid_batch_def range by (auto simp: validateEvent_ok validate_from_ok)
qed


text \<open>
  The comment of the check also asks that only the first event be a snapshot. The position of a snapshot
  is not looked at, and the aggregate relies on that: it writes the snapshot last.
\<close>

lemma snapshot_position_unchecked:
  "valid_batch U (map (\<lambda>(e, b). e\<lparr>ev_IsSnapshot := b\<rparr>) (zip es bs)) \<longleftrightarrow> valid_batch U (map fst (zip es bs))"
proof -
  have 1: "map ev_Version (map (\<lambda>(e, b). e\<lparr>ev_IsSnapshot := b\<rparr>) xs) = map ev_Version (map fst xs)" for xs
    by (auto simp: case_prod_beta)
  have 2: "map ev_Timestamp (map (\<lambda>(e, b). e\<lparr>ev_IsSnapshot := b\<rparr>) xs) = map ev_Timestamp (map fst xs)" for xs
    by (auto simp: case_prod_beta)
  have 3: "list_all (valid_event U a g) (map (\<lambda>(e, b). e\<lparr>ev_IsSnapshot := b\<rparr>) xs) = list_all (valid_event U a g) (map fst xs)"
    for xs a g by (induction xs) (auto simp: valid_event_def)
  show ?thesis unfolding valid_batch_def 1 2 3 by (cases "zip es bs") (auto simp: case_prod_beta)
qed

end
