(* ===== verification/Projection.thy ===== *)
theory Projection
  imports Event_Store "HOL-Library.AList"
begin

text \<open>
  The projection of stored events on models: \<^verbatim>\<open>resource-aggregate/cqrs/eventstore/projection.go\<close>. The
  type of the models is a parameter \<open>'m\<close>. A model is given by the body of the loop of its \<open>Handle\<close>
  (\<open>step n\<close> for the n-th event handed out, the number standing for the clock it may read); every model of
  the hub pulls events until there is none or one fails, which is \<open>model_Handle\<close>. The source of a
  batch is the list of its events with the error the cursor reports once it is exhausted. The methods
  run one at a time, as the locks of the code make them; debug logging is left out, and so is the field
  \<open>err\<close> of the iterator, which is never read.
\<close>

section \<open>The source iterator\<close>

record source =
  src_events :: "EventUnmarshaler list"
  src_error :: "error option"
  src_done :: bool

definition source_Next :: "source \<Rightarrow> source \<times> EventUnmarshaler option" where
  "source_Next s =
     (case src_events s of
        [] \<Rightarrow> (s\<lparr>src_done := True\<rparr>, None)
      | e # es \<Rightarrow> (s\<lparr>src_events := es\<rparr>, Some e))"

definition source_Err :: "source \<Rightarrow> error option" where
  "source_Err s = (if src_done s then src_error s else None)"

definition source_of :: "EventUnmarshaler list \<Rightarrow> source" where
  "source_of es = \<lparr>src_events = es, src_error = None, src_done = False\<rparr>"

lemma source_Next_less: "source_Next s = (s', Some e) \<Longrightarrow> length (src_events s') < length (src_events s)"
  by (auto simp: source_Next_def split: list.splits)

section \<open>Versions\<close>

record 'm aggregateModel =
  am_groupID :: string
  am_aggregateID :: string
  am_model :: 'm
  am_version :: u64
  am_hasSnapshot :: bool

text \<open>The result is \<open>(ignore, reload)\<close>.\<close>

definition aggregateModel_Update ::
    "'m aggregateModel \<Rightarrow> EventUnmarshaler \<Rightarrow> 'm aggregateModel \<times> bool \<times> bool" where
  "aggregateModel_Update am e =
     (if eu_Version e = 0 \<or> eu_IsSnapshot e \<and> (\<not> am_hasSnapshot am \<or> am_version am < eu_Version e)
      then (am\<lparr>am_version := eu_Version e, am_hasSnapshot := True\<rparr>, False, False)
      else if am_version am + 1 = eu_Version e \<and> am_hasSnapshot am
      then (am\<lparr>am_version := eu_Version e\<rparr>, False, False)
      else if eu_Version e \<le> am_version am \<and> am_hasSnapshot am then (am, True, False)
      else (am, False, True))"

definition same_aggregate :: "'m aggregateModel \<Rightarrow> EventUnmarshaler \<Rightarrow> bool" where
  "same_aggregate am e \<longleftrightarrow> eu_GroupID e = am_groupID am \<and> eu_AggregateID e = am_aggregateID am"

section \<open>The iterator of one aggregate\<close>

record 'm iterator =
  i_iter :: source
  i_firstEvent :: "EventUnmarshaler option"
  i_model :: "'m aggregateModel"
  i_nextEventToProcess :: "EventUnmarshaler option"
  i_reload :: "VersionQuery option"

function RewindToSnapshot ::
    "'m iterator \<Rightarrow> 'm iterator \<times> EventUnmarshaler option \<times> EventUnmarshaler option" where
  "RewindToSnapshot i =
     (case source_Next (i_iter i) of
        (s, None) \<Rightarrow> (i\<lparr>i_iter := s\<rparr>, None, None)
      | (s, Some e) \<Rightarrow>
          if eu_IsSnapshot e \<and> same_aggregate (i_model i) e then (i\<lparr>i_iter := s\<rparr>, Some e, None)
          else if \<not> same_aggregate (i_model i) e then (i\<lparr>i_iter := s\<rparr>, None, Some e)
          else RewindToSnapshot (i\<lparr>i_iter := s\<rparr>))"
  by pat_completeness auto

termination RewindToSnapshot
  by (relation "measure (\<lambda>i. length (src_events (i_iter i)))") (auto dest: sym [THEN source_Next_less])

declare RewindToSnapshot.simps [simp del]

lemma RewindToSnapshot_less:
  "RewindToSnapshot i = (i', snap, nxt) \<Longrightarrow>
     length (src_events (i_iter i')) \<le> length (src_events (i_iter i)) \<and>
     (snap \<noteq> None \<or> nxt \<noteq> None \<longrightarrow> length (src_events (i_iter i')) < length (src_events (i_iter i)))"
proof (induction i rule: RewindToSnapshot.induct)
  case (1 i)
  show ?case
  proof (cases "src_events (i_iter i)")
    case Nil
    with "1.prems" show ?thesis by (auto simp: source_Next_def RewindToSnapshot.simps [of i])
  next
    case (Cons e es)
    then have nx: "source_Next (i_iter i) = (i_iter i\<lparr>src_events := es\<rparr>, Some e)" by (simp add: source_Next_def)
    show ?thesis
      using "1.prems" "1.IH" [OF nx [symmetric] refl] Cons
      by (auto simp: RewindToSnapshot.simps [of i] nx split: if_splits)
  qed
qed

function RewindToNextAggregateEvent :: "'m iterator \<Rightarrow> 'm iterator \<times> EventUnmarshaler option" where
  "RewindToNextAggregateEvent i =
     (case RewindToSnapshot i of
        (i', _, Some nextAggregateEvent) \<Rightarrow> (i', Some nextAggregateEvent)
      | (i', None, None) \<Rightarrow> (i', None)
      | (i', Some _, None) \<Rightarrow> RewindToNextAggregateEvent i')"
  by pat_completeness auto

termination RewindToNextAggregateEvent
  by (relation "measure (\<lambda>i. length (src_events (i_iter i)))") (auto dest: sym [THEN RewindToSnapshot_less])

declare RewindToNextAggregateEvent.simps [simp del]

function RewindIgnore :: "'m iterator \<Rightarrow> 'm iterator \<times> EventUnmarshaler option" where
  "RewindIgnore i =
     (case source_Next (i_iter i) of
        (s, None) \<Rightarrow> (i\<lparr>i_iter := s\<rparr>, None)
      | (s, Some e) \<Rightarrow>
          if \<not> same_aggregate (i_model i) e
          then (i\<lparr>i_iter := s, i_nextEventToProcess := Some e\<rparr>, None)
          else case aggregateModel_Update (i_model i) e of
            (am, ignore, _) \<Rightarrow>
              if \<not> ignore then (i\<lparr>i_iter := s, i_model := am\<rparr>, Some e)
              else RewindIgnore (i\<lparr>i_iter := s, i_model := am\<rparr>))"
  by pat_completeness auto

termination RewindIgnore
  by (relation "measure (\<lambda>i. length (src_events (i_iter i)))") (auto dest: sym [THEN source_Next_less])

declare RewindIgnore.simps [simp del]

definition iterator_Next :: "'m iterator \<Rightarrow> 'm iterator \<times> EventUnmarshaler option" where
  "iterator_Next i =
     (case i_firstEvent i of
        None \<Rightarrow> RewindIgnore i
      | Some tmp \<Rightarrow>
          (case aggregateModel_Update (i_model i) tmp of
             (am, ignore, reload) \<Rightarrow>
               (let i1 = i\<lparr>i_firstEvent := None, i_model := am\<rparr> in
                if reload then
                  (case RewindToSnapshot i1 of
                     (i2, None, nextAggregateEvent) \<Rightarrow>
                       (i2\<lparr>i_nextEventToProcess := nextAggregateEvent,
                           i_reload := Some \<lparr>vq_GroupID = eu_GroupID tmp, vq_AggregateID = eu_AggregateID tmp,
                                             vq_Version = am_version (i_model i2)\<rparr>\<rparr>, None)
                   | (i2, Some snapshot, _) \<Rightarrow>
                       (case aggregateModel_Update (i_model i2) snapshot of
                          (am', ignore', reload') \<Rightarrow>
                            (let i3 = i2\<lparr>i_model := am'\<rparr> in
                             if reload' then
                               (case RewindToNextAggregateEvent i3 of
                                  (i4, nxt) \<Rightarrow>
                                    (i4\<lparr>i_nextEventToProcess := nxt,
                                        i_reload := Some \<lparr>vq_GroupID = eu_GroupID snapshot,
                                                          vq_AggregateID = eu_AggregateID snapshot,
                                                          vq_Version = am_version (i_model i4)\<rparr>\<rparr>, None))
                             else if ignore' then RewindIgnore i3
                             else (i3, Some snapshot))))
                else if ignore then RewindIgnore i1
                else (i1, Some tmp))))"

definition iterator_Err :: "'m iterator \<Rightarrow> error option" where
  "iterator_Err i = source_Err (i_iter i)"

section \<open>The iterator always makes progress\<close>

lemma RewindIgnore_less:
  "RewindIgnore i = (i', ev) \<Longrightarrow>
     length (src_events (i_iter i')) \<le> length (src_events (i_iter i)) \<and> i_firstEvent i' = i_firstEvent i \<and>
     (ev \<noteq> None \<or> i_nextEventToProcess i = None \<and> i_nextEventToProcess i' \<noteq> None \<longrightarrow>
        length (src_events (i_iter i')) < length (src_events (i_iter i)))"
proof (induction i rule: RewindIgnore.induct)
  case (1 i)
  show ?case
  proof (cases "src_events (i_iter i)")
    case Nil
    with "1.prems" show ?thesis by (auto simp: source_Next_def RewindIgnore.simps [of i])
  next
    case (Cons e es)
    then have nx: "source_Next (i_iter i) = (i_iter i\<lparr>src_events := es\<rparr>, Some e)" by (simp add: source_Next_def)
    obtain am ign rel where up: "aggregateModel_Update (i_model i) e = (am, ign, rel)" by (metis prod_cases3)
    show ?thesis
      using "1.prems" "1.IH" [OF nx [symmetric] refl _ up [symmetric] refl] Cons
      by (auto simp: RewindIgnore.simps [of i] nx up split: if_splits)
  qed
qed

lemma RewindToNext_less:
  "RewindToNextAggregateEvent i = (i', nxt) \<Longrightarrow>
     length (src_events (i_iter i')) \<le> length (src_events (i_iter i)) \<and>
     (nxt \<noteq> None \<longrightarrow> length (src_events (i_iter i')) < length (src_events (i_iter i)))"
proof (induction i rule: RewindToNextAggregateEvent.induct)
  case (1 i)
  obtain i2 snap n where rw: "RewindToSnapshot i = (i2, snap, n)" by (metis prod_cases3)
  show ?case
  proof (cases n)
    case (Some e)
    with rw RewindToSnapshot_less [OF rw] "1.prems" show ?thesis
      by (cases snap) (auto simp: RewindToNextAggregateEvent.simps [of i])
  next
    case None
    show ?thesis
    proof (cases snap)
      case None
      with \<open>n = None\<close> rw RewindToSnapshot_less [OF rw] "1.prems" show ?thesis
        by (auto simp: RewindToNextAggregateEvent.simps [of i])
    next
      case (Some s)
      with None "1.IH" [OF rw [symmetric] refl] rw RewindToSnapshot_less [OF rw] "1.prems" show ?thesis
        by (auto simp: RewindToNextAggregateEvent.simps [of i])
    qed
  qed
qed

definition work :: "'m iterator \<Rightarrow> nat" where
  "work i = length (src_events (i_iter i)) + (if i_firstEvent i = None then 0 else 1)"

lemma RewindToSnapshot_frame:
  "RewindToSnapshot i = (i', snap, nxt) \<Longrightarrow>
     i_firstEvent i' = i_firstEvent i \<and> i_model i' = i_model i \<and> i_nextEventToProcess i' = i_nextEventToProcess i \<and>
     i_reload i' = i_reload i"
proof (induction i rule: RewindToSnapshot.induct)
  case (1 i)
  show ?case
  proof (cases "src_events (i_iter i)")
    case Nil
    with "1.prems" show ?thesis by (auto simp: source_Next_def RewindToSnapshot.simps [of i])
  next
    case (Cons e es)
    then have nx: "source_Next (i_iter i) = (i_iter i\<lparr>src_events := es\<rparr>, Some e)" by (simp add: source_Next_def)
    show ?thesis
      using "1.prems" "1.IH" [OF nx [symmetric] refl]
      by (auto simp: RewindToSnapshot.simps [of i] nx split: if_splits)
  qed
qed

lemma RewindToNext_frame:
  "RewindToNextAggregateEvent i = (i', nxt) \<Longrightarrow> i_firstEvent i' = i_firstEvent i \<and> i_model i' = i_model i \<and>
     i_nextEventToProcess i' = i_nextEventToProcess i \<and> i_reload i' = i_reload i"
proof (induction i rule: RewindToNextAggregateEvent.induct)
  case (1 i)
  obtain i2 snap n where rw: "RewindToSnapshot i = (i2, snap, n)" by (metis prod_cases3)
  show ?case
  proof (cases "n = None \<and> snap \<noteq> None")
    case True
    then obtain s where sn: "snap = Some s" "n = None" by blast
    with "1.IH" [OF rw [symmetric] refl sn(1) sn(2)] rw RewindToSnapshot_frame [OF rw] "1.prems" show ?thesis
      by (simp add: RewindToNextAggregateEvent.simps [of i])
  next
    case False
    with rw RewindToSnapshot_frame [OF rw] "1.prems" show ?thesis
      by (cases snap; cases n) (simp_all add: RewindToNextAggregateEvent.simps [of i])
  qed
qed

lemma iterator_Next_progress:
  assumes "iterator_Next i = (i', ev)"
  shows "length (src_events (i_iter i')) \<le> length (src_events (i_iter i))"
    and "i_firstEvent i' = None"
    and "ev \<noteq> None \<Longrightarrow> work i' < work i"
    and "i_nextEventToProcess i = None \<Longrightarrow> i_nextEventToProcess i' \<noteq> None \<Longrightarrow>
           length (src_events (i_iter i')) < length (src_events (i_iter i))"
proof -
  have "length (src_events (i_iter i')) \<le> length (src_events (i_iter i)) \<and> i_firstEvent i' = None \<and>
      (ev \<noteq> None \<longrightarrow> work i' < work i) \<and>
      (i_nextEventToProcess i = None \<and> i_nextEventToProcess i' \<noteq> None \<longrightarrow>
         length (src_events (i_iter i')) < length (src_events (i_iter i)))"
  proof (cases "i_firstEvent i")
    case None
    with assms show ?thesis by (auto simp: iterator_Next_def work_def dest: RewindIgnore_less)
  next
    case (Some tmp)
    obtain am ign rel where up: "aggregateModel_Update (i_model i) tmp = (am, ign, rel)" by (metis prod_cases3)
    let ?i1 = "i\<lparr>i_firstEvent := None, i_model := am\<rparr>"
    note next_def = iterator_Next_def [of i, unfolded Some option.case up prod.case Let_def]
    show ?thesis
    proof (cases rel)
      case False
      with assms Some show ?thesis by (auto simp: next_def work_def dest: RewindIgnore_less split: if_splits)
    next
      case True
      obtain i2 snap n where rw: "RewindToSnapshot ?i1 = (i2, snap, n)" by (metis prod_cases3)
      note rw_facts = RewindToSnapshot_less [OF rw] RewindToSnapshot_frame [OF rw]
      show ?thesis
      proof (cases snap)
        case None
        with assms True rw rw_facts Some show ?thesis by (auto simp: next_def work_def)
      next
        case (Some s)
        obtain am' ign' rel' where up': "aggregateModel_Update (i_model i2) s = (am', ign', rel')" by (metis prod_cases3)
        obtain i4 n4 where rn: "RewindToNextAggregateEvent (i2\<lparr>i_model := am'\<rparr>) = (i4, n4)" by fastforce
        obtain i5 e5 where ri: "RewindIgnore (i2\<lparr>i_model := am'\<rparr>) = (i5, e5)" by fastforce
        show ?thesis
          using assms True rw rw_facts Some up' \<open>i_firstEvent i = Some tmp\<close> rn ri
            RewindToNext_less [OF rn] RewindToNext_frame [OF rn] RewindIgnore_less [OF ri]
          by (auto simp: next_def work_def split: if_splits)
      qed
    qed
  qed
  then show "length (src_events (i_iter i')) \<le> length (src_events (i_iter i))" and "i_firstEvent i' = None"
    and "ev \<noteq> None \<Longrightarrow> work i' < work i"
    and "i_nextEventToProcess i = None \<Longrightarrow> i_nextEventToProcess i' \<noteq> None \<Longrightarrow>
           length (src_events (i_iter i')) < length (src_events (i_iter i))"
    by blast+
qed

section \<open>Models\<close>

text \<open>
  \<open>Handle\<close> of a model on an iterator: \<open>n\<close> counts the events handed to models so far.
\<close>

type_synonym 'm model_step = "nat \<Rightarrow> 'm \<Rightarrow> EventUnmarshaler \<Rightarrow> 'm \<times> unit res"

function model_Handle :: "'m model_step \<Rightarrow> nat \<Rightarrow> 'm iterator \<Rightarrow> nat \<times> 'm iterator \<times> unit res" where
  "model_Handle step n i =
     (case iterator_Next i of
        (i', None) \<Rightarrow> (n, i', case iterator_Err i' of None \<Rightarrow> Inr () | Some err \<Rightarrow> Inl err)
      | (i', Some e) \<Rightarrow>
          if eu_EventType e = [] then (n, i', Inl (GrpcStatus Internal ''cannot determine type of event'' []))
          else case step n (am_model (i_model i')) e of
            (m, r) \<Rightarrow>
              (let i'' = i'\<lparr>i_model := (i_model i')\<lparr>am_model := m\<rparr>\<rparr> in
               case r of Inl err \<Rightarrow> (Suc n, i'', Inl err) | Inr _ \<Rightarrow> model_Handle step (Suc n) i''))"
  by pat_completeness auto

termination model_Handle
  by (relation "measure (\<lambda>(_, _, i). work i)") (auto simp: work_def [abs_def] dest!: sym [THEN iterator_Next_progress(3)])

declare model_Handle.simps [simp del]

lemma model_Handle_progress:
  "model_Handle step n i = (n', i', r) \<Longrightarrow>
     length (src_events (i_iter i')) \<le> length (src_events (i_iter i)) \<and> i_firstEvent i' = None \<and>
     (i_nextEventToProcess i = None \<and> i_nextEventToProcess i' \<noteq> None \<longrightarrow>
        length (src_events (i_iter i')) < length (src_events (i_iter i)))"
proof (induction step n i rule: model_Handle.induct)
  case (1 step n i)
  obtain i1 ev where nx: "iterator_Next i = (i1, ev)" by fastforce
  note p = iterator_Next_progress [OF nx]
  show ?case
  proof (cases ev)
    case None
    with "1.prems" nx p show ?thesis by (auto simp: model_Handle.simps [of step n i])
  next
    case (Some e)
    obtain m r1 where st: "step n (am_model (i_model i1)) e = (m, r1)" by fastforce
    show ?thesis
    proof (cases "eu_EventType e = [] \<or> is_err r1")
      case True
      with "1.prems" nx p Some st show ?thesis
        by (auto simp: model_Handle.simps [of step n i] is_err_def split: if_splits sum.splits)
    next
      case False
      then obtain u where r1: "r1 = Inr u" by (cases r1) auto
      have "model_Handle step (Suc n) (i1\<lparr>i_model := (i_model i1)\<lparr>am_model := m\<rparr>\<rparr>) = (n', i', r)"
        using "1.prems" nx Some st r1 False by (simp add: model_Handle.simps [of step n i] Let_def)
      with "1.IH" [OF nx [symmetric] Some _ st [symmetric] refl r1] False p show ?thesis
        by (cases "i_nextEventToProcess i1") auto
    qed
  qed
qed

section \<open>The projection\<close>

type_synonym 'm model_map = "(string \<times> (string \<times> 'm aggregateModel) list) list"

record 'm Projection =
  p_aggregateModels :: "'m model_map"

definition NewProjection :: "'m Projection" where
  "NewProjection = \<lparr>p_aggregateModels = []\<rparr>"

definition lookup_model :: "'m Projection \<Rightarrow> string \<Rightarrow> string \<Rightarrow> 'm aggregateModel option" where
  "lookup_model p groupID aggregateID =
     (case map_of (p_aggregateModels p) groupID of None \<Rightarrow> None | Some g \<Rightarrow> map_of g aggregateID)"

text \<open>The map holds pointers: an update of a model is seen through the map.\<close>

definition store_model :: "'m Projection \<Rightarrow> 'm aggregateModel \<Rightarrow> 'm Projection" where
  "store_model p am =
     p\<lparr>p_aggregateModels :=
        AList.update (am_groupID am)
          (AList.update (am_aggregateID am) am
             (case map_of (p_aggregateModels p) (am_groupID am) of None \<Rightarrow> [] | Some g \<Rightarrow> g))
          (p_aggregateModels p)\<rparr>"

definition getModel ::
    "(string \<Rightarrow> string \<Rightarrow> 'm res) \<Rightarrow> 'm Projection \<Rightarrow> string \<Rightarrow> string \<Rightarrow> 'm Projection \<times> 'm aggregateModel res" where
  "getModel factoryModel p groupID aggregateID =
     (let p1 = (if map_of (p_aggregateModels p) groupID = None
                then p\<lparr>p_aggregateModels := AList.update groupID [] (p_aggregateModels p)\<rparr> else p)
      in case lookup_model p1 groupID aggregateID of
           Some apm \<Rightarrow> (p1, Inr apm)
         | None \<Rightarrow>
             (case factoryModel groupID aggregateID of
                Inl err \<Rightarrow> (p1, Inl (Wrapf ''cannot create model'' err))
              | Inr model \<Rightarrow>
                  (let apm = \<lparr>am_groupID = groupID, am_aggregateID = aggregateID, am_model = model,
                              am_version = 0, am_hasSnapshot = False\<rparr>
                   in (store_model p1 apm, Inr apm))))"

text \<open>After a model has returned, the rest of its run in the batch is skipped.\<close>

definition finish_run :: "'m iterator \<Rightarrow> 'm iterator" where
  "finish_run i =
     (if i_nextEventToProcess i = None then
        (case iterator_Next i of
           (i', None) \<Rightarrow> i'
         | (i', Some _) \<Rightarrow>
             (case RewindToNextAggregateEvent i' of (i'', nxt) \<Rightarrow> i''\<lparr>i_nextEventToProcess := nxt\<rparr>))
      else i)"

definition new_iterator :: "source \<Rightarrow> EventUnmarshaler \<Rightarrow> 'm aggregateModel \<Rightarrow> 'm iterator" where
  "new_iterator s ie am =
     \<lparr>i_iter = s, i_firstEvent = Some ie, i_model = am, i_nextEventToProcess = None, i_reload = None\<rparr>"

lemma finish_run_progress:
  assumes "model_Handle step n (new_iterator s ie am) = (n', i1, r)"
    and "i_nextEventToProcess (finish_run i1) \<noteq> None"
  shows "length (src_events (i_iter (finish_run i1))) < length (src_events s)"
proof -
  note p = model_Handle_progress [OF assms(1)]
  show ?thesis
  proof (cases "i_nextEventToProcess i1 = None")
    case False
    with p show ?thesis by (auto simp: finish_run_def new_iterator_def)
  next
    case True
    obtain i' ev where nx: "iterator_Next i1 = (i', ev)" by fastforce
    note q = iterator_Next_progress [OF nx]
    show ?thesis
    proof (cases ev)
      case None
      with True nx assms(2) p q show ?thesis by (simp add: finish_run_def new_iterator_def)
    next
      case (Some e)
      obtain i'' nxt where rn: "RewindToNextAggregateEvent i' = (i'', nxt)" by fastforce
      with True nx Some assms(2) p q RewindToNext_less [OF rn] show ?thesis
        by (simp add: finish_run_def new_iterator_def)
    qed
  qed
qed

function handle_loop ::
    "'m model_step \<Rightarrow> (string \<Rightarrow> string \<Rightarrow> 'm res) \<Rightarrow> nat \<Rightarrow> 'm Projection \<Rightarrow> source \<Rightarrow> EventUnmarshaler
     \<Rightarrow> VersionQuery list \<Rightarrow> nat \<times> 'm Projection \<times> VersionQuery list res" where
  "handle_loop step factoryModel n p s ie reloadQueries =
     (case getModel factoryModel p (eu_GroupID ie) (eu_AggregateID ie) of
        (p1, Inl err) \<Rightarrow> (n, p1, Inl (Wrapf ''cannot handle projection'' err))
      | (p1, Inr am) \<Rightarrow>
          (case model_Handle step n (new_iterator s ie am) of
             (n', i, Inl err) \<Rightarrow> (n', store_model p1 (i_model i), Inl (Wrapf ''cannot handle projection'' err))
           | (n', i, Inr _) \<Rightarrow>
               (let i' = finish_run i;
                    queries = reloadQueries @ (case i_reload i' of None \<Rightarrow> [] | Some q \<Rightarrow> [q]);
                    p2 = store_model p1 (i_model i')
                in case i_nextEventToProcess i' of
                     None \<Rightarrow> (n', p2, Inr queries)
                   | Some ie' \<Rightarrow> handle_loop step factoryModel n' p2 (i_iter i') ie' queries)))"
  by pat_completeness auto

termination handle_loop
  by (relation "measure (\<lambda>(_, _, _, _, s, _, _). length (src_events s))")
    (auto dest!: sym [THEN finish_run_progress])

declare handle_loop.simps [simp del]

definition projection_handle ::
    "'m model_step \<Rightarrow> (string \<Rightarrow> string \<Rightarrow> 'm res) \<Rightarrow> nat \<Rightarrow> 'm Projection \<Rightarrow> source
     \<Rightarrow> nat \<times> 'm Projection \<times> VersionQuery list res" where
  "projection_handle step factoryModel n p s =
     (case source_Next s of
        (s', None) \<Rightarrow> (n, p, case source_Err s' of None \<Rightarrow> Inr [] | Some err \<Rightarrow> Inl err)
      | (s', Some e) \<Rightarrow> handle_loop step factoryModel n p s' e [])"

text \<open>\<open>Handle\<close>: the queries for a reload are dropped.\<close>

definition Projection_Handle ::
    "'m model_step \<Rightarrow> (string \<Rightarrow> string \<Rightarrow> 'm res) \<Rightarrow> nat \<Rightarrow> 'm Projection \<Rightarrow> source \<Rightarrow> nat \<times> 'm Projection \<times> unit res" where
  "Projection_Handle step factoryModel n p s =
     (case projection_handle step factoryModel n p s of (n', p', r) \<Rightarrow> (n', p', map_sum id (\<lambda>_. ()) r))"

text \<open>
  A load of the event store runs one database query after another and hands the cursor of each to the
  handler: no document at all, an error of the query, or a cursor with the outcome of closing it. The
  store on MongoDB reports both an error of the handler and one of closing (\<open>Found\<close>), the one on Cassandra only the
  first of them (\<open>Scanned\<close>).
\<close>

datatype find_result = Find_ErrNilDocument | Find_error error | Found source "error option" | Scanned source "error option"

fun loadEventsQuery ::
    "('p \<Rightarrow> source \<Rightarrow> 'p \<times> unit res) \<Rightarrow> 'p \<Rightarrow> find_result list \<Rightarrow> error list \<Rightarrow> 'p \<times> unit res" where
  "loadEventsQuery eh p [] errs = (p, if errs = [] then Inr () else Inl (Multierror errs))"
| "loadEventsQuery eh p (Find_ErrNilDocument # qs) errs = loadEventsQuery eh p qs errs"
| "loadEventsQuery eh p (Find_error err # qs) errs = loadEventsQuery eh p qs (errs @ [err])"
| "loadEventsQuery eh p (Found s closeErr # qs) errs =
     (case eh p s of
        (p', r) \<Rightarrow> loadEventsQuery eh p' qs
          (errs @ (case r of Inl err \<Rightarrow> [err] | Inr _ \<Rightarrow> []) @ (case closeErr of None \<Rightarrow> [] | Some err \<Rightarrow> [err])))"
| "loadEventsQuery eh p (Scanned s closeErr # qs) errs =
     (case eh p s of
        (p', r) \<Rightarrow> loadEventsQuery eh p' qs
          (errs @ (case r of Inl err \<Rightarrow> [err] | Inr _ \<Rightarrow> (case closeErr of None \<Rightarrow> [] | Some err \<Rightarrow> [err]))))"

definition run_load ::
    "('p \<Rightarrow> source \<Rightarrow> 'p \<times> unit res) \<Rightarrow> 'p \<Rightarrow> find_result list res \<Rightarrow> 'p \<times> unit res" where
  "run_load eh p load = (case load of Inl err \<Rightarrow> (p, Inl err) | Inr qs \<Rightarrow> loadEventsQuery eh p qs [])"

definition handler_of ::
    "'m model_step \<Rightarrow> (string \<Rightarrow> string \<Rightarrow> 'm res) \<Rightarrow> nat \<times> 'm Projection \<Rightarrow> source \<Rightarrow> (nat \<times> 'm Projection) \<times> unit res" where
  "handler_of step factoryModel = (\<lambda>(n, p) s. case Projection_Handle step factoryModel n p s of (n', p', r) \<Rightarrow> ((n', p'), r))"

definition HandleWithReload ::
    "(VersionQuery list \<Rightarrow> find_result list res) \<Rightarrow> 'm model_step \<Rightarrow> (string \<Rightarrow> string \<Rightarrow> 'm res) \<Rightarrow> nat \<Rightarrow> 'm Projection
     \<Rightarrow> source \<Rightarrow> nat \<times> 'm Projection \<times> unit res" where
  "HandleWithReload LoadFromVersion step factoryModel n p s =
     (case projection_handle step factoryModel n p s of
        (n1, p1, Inl err) \<Rightarrow> (n1, p1, Inl (Wrapf ''cannot handle events with reload'' err))
      | (n1, p1, Inr reloadQueries) \<Rightarrow>
          if 0 < length reloadQueries
          then (case run_load (handler_of step factoryModel) (n1, p1) (LoadFromVersion reloadQueries) of
                  ((n2, p2), Inl err) \<Rightarrow> (n2, p2, Inl (Wrapf ''cannot reload events for db'' err))
                | ((n2, p2), Inr _) \<Rightarrow> (n2, p2, Inr ()))
          else (n1, p1, Inr ()))"

definition Project ::
    "(SnapshotQuery list \<Rightarrow> find_result list res) \<Rightarrow> 'm model_step \<Rightarrow> (string \<Rightarrow> string \<Rightarrow> 'm res) \<Rightarrow> nat \<Rightarrow> 'm Projection
     \<Rightarrow> SnapshotQuery list \<Rightarrow> (nat \<times> 'm Projection) \<times> unit res" where
  "Project LoadFromSnapshot step factoryModel n p queries =
     run_load (handler_of step factoryModel) (n, p) (LoadFromSnapshot queries)"

section \<open>Dropping and listing models\<close>

definition forget_query :: "'m model_map \<Rightarrow> SnapshotQuery \<Rightarrow> 'm model_map" where
  "forget_query models query =
     (if sq_AggregateID query = [] then AList.delete (sq_GroupID query) models
      else case map_of models (sq_GroupID query) of
        None \<Rightarrow> models
      | Some m \<Rightarrow>
          (let m' = AList.delete (sq_AggregateID query) m in
           if length m' = 0 then AList.delete (sq_GroupID query) models
           else AList.update (sq_GroupID query) m' models))"

definition Forget :: "'m Projection \<Rightarrow> SnapshotQuery list \<Rightarrow> 'm Projection" where
  "Forget p queries = p\<lparr>p_aggregateModels := foldl forget_query (p_aggregateModels p) queries\<rparr>"

text \<open>
  A callback has a state \<open>'c\<close> and says whether it wants another model. The maps are ranged over in the
  order \<open>ordG\<close> of the groups and \<open>ordA\<close> of the aggregates.
\<close>

fun range_models :: "('c \<Rightarrow> 'm \<Rightarrow> 'c \<times> bool) \<Rightarrow> 'c \<Rightarrow> 'm list \<Rightarrow> 'c \<times> bool" where
  "range_models onModel c [] = (c, True)"
| "range_models onModel c (m # ms) =
     (case onModel c m of (c', wantNext) \<Rightarrow> if \<not> wantNext then (c', False) else range_models onModel c' ms)"

definition iterateOverAllModels ::
    "('m model_map \<Rightarrow> 'm model_map) \<Rightarrow> ((string \<times> 'm aggregateModel) list \<Rightarrow> (string \<times> 'm aggregateModel) list)
     \<Rightarrow> 'm Projection \<Rightarrow> ('c \<Rightarrow> 'm \<Rightarrow> 'c \<times> bool) \<Rightarrow> 'c \<Rightarrow> 'c" where
  "iterateOverAllModels ordG ordA p onModel c =
     fst (range_models onModel c
       (concat (map (\<lambda>(_, group). map (\<lambda>(_, apm). am_model apm) (ordA group)) (ordG (p_aggregateModels p)))))"

definition iterateOverGroupModels ::
    "((string \<times> 'm aggregateModel) list \<Rightarrow> (string \<times> 'm aggregateModel) list)
     \<Rightarrow> 'm Projection \<Rightarrow> string \<Rightarrow> ('c \<Rightarrow> 'm \<Rightarrow> 'c \<times> bool) \<Rightarrow> 'c \<Rightarrow> 'c \<times> bool" where
  "iterateOverGroupModels ordA p groupID onModel c =
     (case map_of (p_aggregateModels p) groupID of
        None \<Rightarrow> (c, True)
      | Some aggregates \<Rightarrow> range_models onModel c (map (\<lambda>(_, apm). am_model apm) (ordA aggregates)))"

definition iterateOverAggregateModel ::
    "'m Projection \<Rightarrow> string \<Rightarrow> string \<Rightarrow> ('c \<Rightarrow> 'm \<Rightarrow> 'c \<times> bool) \<Rightarrow> 'c \<Rightarrow> 'c \<times> bool" where
  "iterateOverAggregateModel p groupID aggregateID onModel c =
     (case lookup_model p groupID aggregateID of
        None \<Rightarrow> (c, True)
      | Some apm \<Rightarrow> range_models onModel c [am_model apm])"

fun Models_queries ::
    "('m model_map \<Rightarrow> 'm model_map) \<Rightarrow> ((string \<times> 'm aggregateModel) list \<Rightarrow> (string \<times> 'm aggregateModel) list)
     \<Rightarrow> 'm Projection \<Rightarrow> SnapshotQuery list \<Rightarrow> ('c \<Rightarrow> 'm \<Rightarrow> 'c \<times> bool) \<Rightarrow> 'c \<Rightarrow> 'c" where
  "Models_queries ordG ordA p [] onModel c = c"
| "Models_queries ordG ordA p (query # queries) onModel c =
     (if sq_GroupID query = [] \<and> sq_AggregateID query = [] then iterateOverAllModels ordG ordA p onModel c
      else case (if sq_GroupID query \<noteq> [] \<and> sq_AggregateID query = []
                 then iterateOverGroupModels ordA p (sq_GroupID query) onModel c
                 else iterateOverAggregateModel p (sq_GroupID query) (sq_AggregateID query) onModel c) of
             (c', wantNext) \<Rightarrow> if \<not> wantNext then c' else Models_queries ordG ordA p queries onModel c')"

definition Models ::
    "('m model_map \<Rightarrow> 'm model_map) \<Rightarrow> ((string \<times> 'm aggregateModel) list \<Rightarrow> (string \<times> 'm aggregateModel) list)
     \<Rightarrow> 'm Projection \<Rightarrow> SnapshotQuery list \<Rightarrow> ('c \<Rightarrow> 'm \<Rightarrow> 'c \<times> bool) \<Rightarrow> 'c \<Rightarrow> 'c" where
  "Models ordG ordA p queries onModel c =
     (if length queries = 0 then iterateOverAllModels ordG ordA p onModel c
      else Models_queries ordG ordA p queries onModel c)"

end
