(* ===== verification/Cql_Store.thy ===== *)
theory Cql_Store
  imports Projection
begin

text \<open>
  The event store on Cassandra: \<^verbatim>\<open>resource-aggregate/cqrs/eventstore/cqldb/\<close>\<open>{save,load,eventstore}.go\<close>. A table
  has one row per aggregate, with its latest snapshot; a save is a conditional statement on the version.

  The database session and the encoding of events are parameters. A statement is given by its keys and
  values instead of the text the code assembles from them, with values typed as the columns are;
  identifiers are in the text form in which the driver reads them back. \<open>cql_session_ok\<close> is the documented
  behaviour of conditional statements: one that fails with an error may have been applied.
\<close>

section \<open>The database session\<close>

datatype cql_val = Cql_uuid string | Cql_text string | Cql_int int | Cql_blob bytes | Cql_null

type_synonym keyValues = "(string \<times> cql_val) list"
type_synonym cql_row = "string \<rightharpoonup> cql_val"
type_synonym cql_table = "string \<times> string \<rightharpoonup> cql_row"

datatype cas_result = Cas_applied | Cas_not_applied | Cas_ErrNotFound | Cas_error error

record 'db cql_session =
  cql_update_if :: "'db \<Rightarrow> keyValues \<Rightarrow> string \<Rightarrow> string \<Rightarrow> int \<Rightarrow> 'db \<times> bool res"
  cql_insert_if_not_exists :: "'db \<Rightarrow> keyValues \<Rightarrow> 'db \<times> cas_result"
  cql_select :: "'db \<Rightarrow> string \<Rightarrow> string list \<Rightarrow> cql_row list \<times> error option"

record event_codec =
  codec_marshal :: "any_event \<Rightarrow> bytes res"
  codec_unmarshal :: "bytes \<Rightarrow> any_event res"

definition codec_ok :: "event_codec \<Rightarrow> bool" where
  "codec_ok C \<longleftrightarrow> (\<forall>e b. codec_marshal C e = Inr b \<longrightarrow> codec_unmarshal C b = Inr e)"

section \<open>Columns\<close>

definition idKey :: string where "idKey = ''id''"
definition versionKey :: string where "versionKey = ''version''"
definition snapshotKey :: string where "snapshotKey = ''snapshot''"
definition serviceIDKey :: string where "serviceIDKey = ''serviceid''"
definition deviceIDKey :: string where "deviceIDKey = ''deviceid''"
definition etagKey :: string where "etagKey = ''etag''"
definition timestampKey :: string where "timestampKey = ''timestamp''"
definition etagTimestampKey :: string where "etagTimestampKey = ''etagtimestamp''"
definition eventTypeKey :: string where "eventTypeKey = ''eventtype''"

lemmas key_defs = idKey_def versionKey_def snapshotKey_def serviceIDKey_def deviceIDKey_def etagKey_def
  timestampKey_def etagTimestampKey_def eventTypeKey_def

section \<open>Saving\<close>

definition eventToKeyValues :: "Event \<Rightarrow> bool \<Rightarrow> bytes \<Rightarrow> keyValues" where
  "eventToKeyValues event isInsert data =
     (if isInsert
      then [(deviceIDKey, Cql_uuid (ev_GroupID event)), (idKey, Cql_uuid (ev_AggregateID event)),
            (eventTypeKey, Cql_text (ev_EventType event))]
      else []) @
     [(versionKey, Cql_int (uint (ev_Version event))),
      (timestampKey, Cql_int (time_UnixNano (ev_Timestamp event))),
      (snapshotKey, Cql_blob data)] @
     (case ev_ServiceID event of
        (serviceID, ok) \<Rightarrow>
          if ok then [(serviceIDKey, if serviceID = [] then Cql_null else Cql_uuid serviceID)]
          else if isInsert then [(serviceIDKey, Cql_null)] else []) @
     (case ev_ETag event of
        Some etagData \<Rightarrow> [(etagKey, Cql_blob (etag_ETag etagData)), (etagTimestampKey, Cql_int (etag_Timestamp etagData))]
      | None \<Rightarrow> [(etagKey, Cql_null), (etagTimestampKey, Cql_int 0)])"

definition getLatestEventsSnapshot ::
    "uuid_pkg \<Rightarrow> event_codec \<Rightarrow> any_event list \<Rightarrow> (Event \<times> bytes) res" where
  "getLatestEventsSnapshot U C events =
     (if length events = 0 then Inl (Errorf ''empty events'' [])
      else
        let lastEvent = events ! (length events - 1)
        in if \<not> ev_IsSnapshot (as_Event U lastEvent) then Inl (Errorf ''the last event must be a snapshot'' [])
           else case codec_marshal C lastEvent of
             Inl err \<Rightarrow> Inl (Wrapf ''cannot marshal snapshot event'' err)
           | Inr snapshot \<Rightarrow> Inr (as_Event U lastEvent, snapshot))"

definition cql_saveEvent ::
    "'db cql_session \<Rightarrow> uuid_pkg \<Rightarrow> event_codec \<Rightarrow> 'db \<Rightarrow> any_event list \<Rightarrow> 'db \<times> SaveStatus res" where
  "cql_saveEvent S U C db events =
     (case getLatestEventsSnapshot U C events of
        Inl err \<Rightarrow> (db, Inl err)
      | Inr (lastEvent, snapshotBinary) \<Rightarrow>
          (case cql_update_if S db (eventToKeyValues lastEvent False snapshotBinary) (ev_GroupID lastEvent)
                  (ev_AggregateID lastEvent) (uint (ev_Version (as_Event U (hd events)) - 1)) of
             (db', Inl err) \<Rightarrow> (db', Inl (Wrapf ''cannot update snapshot event('%v')'' err))
           | (db', Inr ok) \<Rightarrow> (db', Inr (if \<not> ok then ConcurrencyException else Save_Ok))))"

definition cql_Save ::
    "'db cql_session \<Rightarrow> uuid_pkg \<Rightarrow> event_codec \<Rightarrow> 'db \<Rightarrow> any_event list \<Rightarrow> 'db \<times> SaveStatus res" where
  "cql_Save S U C db events =
     (case ValidateEventsBeforeSave U (map (\<lambda>e. Some (as_Event U e)) events) of
        Inl err \<Rightarrow> (db, Inl err)
      | Inr _ \<Rightarrow>
          if ev_Version (as_Event U (hd events)) \<noteq> 0 then cql_saveEvent S U C db events
          else case getLatestEventsSnapshot U C events of
            Inl err \<Rightarrow> (db, Inl err)
          | Inr (lastEvent, data) \<Rightarrow>
              (case cql_insert_if_not_exists S db (eventToKeyValues lastEvent True data) of
                 (db', Cas_error err) \<Rightarrow> (db', Inl (Wrapf ''cannot insert first events('%v')'' err))
               | (db', Cas_ErrNotFound) \<Rightarrow> (db', Inr Save_Ok)
               | (db', Cas_not_applied) \<Rightarrow> (db', Inr ConcurrencyException)
               | (db', Cas_applied) \<Rightarrow> (db', Inr Save_Ok)))"

section \<open>Loading\<close>

text \<open>One row as an event; every row is a snapshot.\<close>

definition cql_Next :: "event_codec \<Rightarrow> cql_row \<Rightarrow> EventUnmarshaler res" where
  "cql_Next C ev =
     (case ev eventTypeKey of
        Some (Cql_text eventType) \<Rightarrow>
          (case ev timestampKey of
             Some (Cql_int timestamp) \<Rightarrow>
               (case ev versionKey of
                  Some (Cql_int version) \<Rightarrow>
                    (case ev idKey of
                       Some (Cql_uuid aggregateID) \<Rightarrow>
                         (case ev deviceIDKey of
                            Some (Cql_uuid groupID) \<Rightarrow>
                              (case ev snapshotKey of
                                 Some (Cql_blob snapshot) \<Rightarrow>
                                   Inr (NewLoadedEvent (word_of_int version) eventType aggregateID groupID True
                                          (pkgTime_Unix 0 timestamp) (codec_unmarshal C snapshot))
                               | _ \<Rightarrow> Inl (Errorf ''invalid data, '%v' of event %v is not a []byte but %T'' [snapshotKey, eventTypeKey]))
                          | _ \<Rightarrow> Inl (Errorf ''invalid event['%v'] data['%v'] type ('%T'), expected gocql.UUID'' [eventTypeKey, deviceIDKey]))
                     | _ \<Rightarrow> Inl (Errorf ''invalid event['%v'] data['%v'] type ('%T'), expected gocql.UUID'' [eventTypeKey, idKey]))
                | _ \<Rightarrow> Inl (Errorf ''invalid data, '%v' of event %v is not an int64 but %T'' [versionKey, eventTypeKey]))
           | _ \<Rightarrow> Inl (Errorf ''invalid data, '%v' of event %v is not an int64 but %T'' [timestampKey, eventTypeKey]))
      | _ \<Rightarrow> Inl (Errorf ''invalid data, '%v' of event is not a string but %T'' [eventTypeKey]))"

text \<open>The iterator stops at the first row it cannot read and then reports the error.\<close>

fun cql_iterator :: "event_codec \<Rightarrow> cql_row list \<Rightarrow> source" where
  "cql_iterator C [] = source_of []"
| "cql_iterator C (row # rows) =
     (case cql_Next C row of
        Inl err \<Rightarrow> \<lparr>src_events = [], src_error = Some err, src_done = False\<rparr>
      | Inr e \<Rightarrow> (let s = cql_iterator C rows in s\<lparr>src_events := e # src_events s\<rparr>))"

definition addAggregateIDsToFilter :: "uuid_pkg \<Rightarrow> SnapshotQuery list \<Rightarrow> string list" where
  "addAggregateIDsToFilter U queries =
     filter (\<lambda>a. a \<noteq> [] \<and> a \<noteq> uuid_Nil U) (map sq_AggregateID queries)"

definition loadFromSnapshotByGroup ::
    "'db cql_session \<Rightarrow> uuid_pkg \<Rightarrow> event_codec \<Rightarrow> 'db \<Rightarrow> string \<Rightarrow> SnapshotQuery list \<Rightarrow> find_result" where
  "loadFromSnapshotByGroup S U C db groupID queries =
     (if groupID \<noteq> [] \<and> \<not> uuid_Parse_ok U groupID
      then Find_error (Errorf ''invalid groupID %v: %w'' [groupID])
      else case List.find (\<lambda>q. \<not> uuid_Parse_ok U (sq_AggregateID q)) queries of
        Some q \<Rightarrow> Find_error (Errorf ''invalid aggregateID %v: %w'' [sq_AggregateID q])
      | None \<Rightarrow>
          (case cql_select S db groupID (addAggregateIDsToFilter U queries) of
             (rows, errClose) \<Rightarrow> Scanned (cql_iterator C rows) errClose))"

definition normalizeQuery_step ::
    "uuid_pkg \<Rightarrow> (string \<times> SnapshotQuery list) list \<Rightarrow> SnapshotQuery \<Rightarrow> (string \<times> SnapshotQuery list) list" where
  "normalizeQuery_step U m query =
     (if sq_AggregateID query = [] \<or> sq_AggregateID query = uuid_Nil U
      then AList.update (sq_GroupID query) [] m
      else case map_of m (sq_GroupID query) of
        None \<Rightarrow> AList.update (sq_GroupID query) [query] m
      | Some v \<Rightarrow> if length v = 0 then m else AList.update (sq_GroupID query) (v @ [query]) m)"

definition normalizeQueries :: "uuid_pkg \<Rightarrow> SnapshotQuery list \<Rightarrow> (string \<times> SnapshotQuery list) list" where
  "normalizeQueries U queries = foldl (normalizeQuery_step U) [] queries"

definition cql_LoadFromSnapshot ::
    "'db cql_session \<Rightarrow> uuid_pkg \<Rightarrow> event_codec \<Rightarrow> ((string \<times> SnapshotQuery list) list \<Rightarrow> (string \<times> SnapshotQuery list) list)
     \<Rightarrow> 'db \<Rightarrow> SnapshotQuery list \<Rightarrow> find_result list res" where
  "cql_LoadFromSnapshot S U C ord db queries =
     (let normalizedQueries = normalizeQueries U queries in
      if length normalizedQueries = 0 then Inl (GrpcStatus InvalidArgument ''invalid queries'' [])
      else Inr (map (\<lambda>(groupID, qs). loadFromSnapshotByGroup S U C db groupID qs) (ord normalizedQueries)))"

definition cql_LoadFromVersion ::
    "'db cql_session \<Rightarrow> uuid_pkg \<Rightarrow> event_codec \<Rightarrow> ((string \<times> SnapshotQuery list) list \<Rightarrow> (string \<times> SnapshotQuery list) list)
     \<Rightarrow> 'db \<Rightarrow> VersionQuery list \<Rightarrow> find_result list res" where
  "cql_LoadFromVersion S U C ord db queries =
     cql_LoadFromSnapshot S U C ord db
       (map (\<lambda>query. \<lparr>sq_GroupID = vq_GroupID query, sq_AggregateID = vq_AggregateID query, sq_Types = []\<rparr>) queries)"

section \<open>Conditional statements\<close>

text \<open>
  The documented behaviour of the session on the table it shows: an update takes place when the row is there
  with the expected version, an insert when there is no row; a statement answered with an error may have been
  applied. A selection returns the rows of the device with one of the identifiers.
\<close>

definition update_applies :: "cql_table \<Rightarrow> keyValues \<Rightarrow> string \<times> string \<Rightarrow> int \<Rightarrow> cql_table \<Rightarrow> bool" where
  "update_applies T kvs key v T' \<longleftrightarrow>
     (\<exists>row. T key = Some row \<and> row versionKey = Some (Cql_int v) \<and> T' = T(key \<mapsto> row ++ map_of kvs))"

definition insert_applies :: "cql_table \<Rightarrow> keyValues \<Rightarrow> cql_table \<Rightarrow> bool" where
  "insert_applies T kvs T' \<longleftrightarrow>
     (\<exists>d i. map_of kvs deviceIDKey = Some (Cql_uuid d) \<and> map_of kvs idKey = Some (Cql_uuid i) \<and>
            T (d, i) = None \<and> T' = T((d, i) \<mapsto> map_of kvs))"

definition update_if_ok :: "'db cql_session \<Rightarrow> ('db \<Rightarrow> cql_table) \<Rightarrow> bool" where
  "update_if_ok S tbl \<longleftrightarrow>
     (\<forall>db kvs d i v db' r. cql_update_if S db kvs d i v = (db', r) \<longrightarrow>
        (case r of
           Inr True \<Rightarrow> update_applies (tbl db) kvs (d, i) v (tbl db')
         | Inr False \<Rightarrow> tbl db' = tbl db \<and> \<not> (\<exists>row. tbl db (d, i) = Some row \<and> row versionKey = Some (Cql_int v))
         | Inl _ \<Rightarrow> tbl db' = tbl db \<or> update_applies (tbl db) kvs (d, i) v (tbl db')))"

definition insert_if_ok :: "'db cql_session \<Rightarrow> ('db \<Rightarrow> cql_table) \<Rightarrow> bool" where
  "insert_if_ok S tbl \<longleftrightarrow>
     (\<forall>db kvs db' r. cql_insert_if_not_exists S db kvs = (db', r) \<longrightarrow>
        (case r of
           Cas_applied \<Rightarrow> insert_applies (tbl db) kvs (tbl db')
         | Cas_ErrNotFound \<Rightarrow> insert_applies (tbl db) kvs (tbl db')
         | Cas_not_applied \<Rightarrow> tbl db' = tbl db
         | Cas_error _ \<Rightarrow> tbl db' = tbl db \<or> insert_applies (tbl db) kvs (tbl db')))"

definition select_ok :: "'db cql_session \<Rightarrow> ('db \<Rightarrow> cql_table) \<Rightarrow> bool" where
  "select_ok S tbl \<longleftrightarrow>
     (\<forall>db d ids rows. ids \<noteq> [] \<longrightarrow> cql_select S db d ids = (rows, None) \<longrightarrow>
        (\<exists>keys. distinct keys \<and> set keys = {i \<in> set ids. tbl db (d, i) \<noteq> None} \<and> rows = map (\<lambda>i. the (tbl db (d, i))) keys))"

definition cql_session_ok :: "'db cql_session \<Rightarrow> ('db \<Rightarrow> cql_table) \<Rightarrow> bool" where
  "cql_session_ok S tbl \<longleftrightarrow> update_if_ok S tbl \<and> insert_if_ok S tbl \<and> select_ok S tbl"

lemma select_one:
  assumes "select_ok S tbl" and "cql_select S db d [i] = (rows, None)"
  shows "rows = (case tbl db (d, i) of None \<Rightarrow> [] | Some row \<Rightarrow> [row])"
proof -
  obtain keys where k: "distinct keys" "set keys = {x \<in> set [i]. tbl db (d, x) \<noteq> None}"
      and rows: "rows = map (\<lambda>i. the (tbl db (d, i))) keys"
    using assms unfolding select_ok_def by blast
  have "keys = (if tbl db (d, i) = None then [] else [i])"
  proof (cases "tbl db (d, i) = None")
    case True
    then have "set keys = {}" using k(2) by auto
    with True show ?thesis by simp
  next
    case False
    then have "set keys = {i}" using k(2) by auto
    then have "keys = [i]" using k(1) by (cases keys) (auto simp: subset_singleton_iff)
    with False show ?thesis by simp
  qed
  with rows show ?thesis by (auto split: option.splits)
qed

section \<open>The snapshot of an aggregate\<close>

text \<open>A well-formed row of an aggregate, and the event it is read as.\<close>

definition row_ok :: "string \<Rightarrow> string \<Rightarrow> cql_row \<Rightarrow> bool" where
  "row_ok g a row \<longleftrightarrow>
     row deviceIDKey = Some (Cql_uuid g) \<and> row idKey = Some (Cql_uuid a) \<and>
     (\<exists>t ts b. row eventTypeKey = Some (Cql_text t) \<and> t \<noteq> [] \<and> row timestampKey = Some (Cql_int ts) \<and> row snapshotKey = Some (Cql_blob b)) \<and>
     (\<exists>v :: u64. row versionKey = Some (Cql_int (uint v)))"

definition table_ok :: "cql_table \<Rightarrow> bool" where
  "table_ok T \<longleftrightarrow> (\<forall>g a row. T (g, a) = Some row \<longrightarrow> row_ok g a row)"

definition cql_snapshot :: "event_codec \<Rightarrow> cql_table \<Rightarrow> string \<Rightarrow> string \<Rightarrow> EventUnmarshaler option" where
  "cql_snapshot C T g a = (case T (g, a) of None \<Rightarrow> None | Some row \<Rightarrow> (case cql_Next C row of Inl _ \<Rightarrow> None | Inr e \<Rightarrow> Some e))"

lemma cql_Next_ok:
  assumes "row_ok g a row"
  obtains e where "cql_Next C row = Inr e" and "eu_GroupID e = g" and "eu_AggregateID e = a" and "eu_IsSnapshot e"
    and "row versionKey = Some (Cql_int (uint (eu_Version e)))" and "eu_EventType e \<noteq> []"
  using assms by (auto simp: row_ok_def cql_Next_def NewLoadedEvent_def)

lemma cql_load:
  assumes "cql_session_ok S tbl" and "table_ok (tbl db)" and "uuid_Parse_ok U g" and "uuid_Parse_ok U a" and "a \<noteq> []" and "a \<noteq> uuid_Nil U"
    and "\<And>m. ord [m] = [m]"
  shows "(\<exists>s err. cql_LoadFromSnapshot S U C ord db [\<lparr>sq_GroupID = g, sq_AggregateID = a, sq_Types = ts\<rparr>] = Inr [Scanned s (Some err)]) \<or>
     cql_LoadFromSnapshot S U C ord db [\<lparr>sq_GroupID = g, sq_AggregateID = a, sq_Types = ts\<rparr>] =
       Inr [Scanned (source_of (case cql_snapshot C (tbl db) g a of None \<Rightarrow> [] | Some e \<Rightarrow> [e])) None]"
proof -
  let ?q = "\<lparr>sq_GroupID = g, sq_AggregateID = a, sq_Types = ts\<rparr>"
  obtain rows cl where sel: "cql_select S db g [a] = (rows, cl)" by fastforce
  have load: "cql_LoadFromSnapshot S U C ord db [?q] = Inr [Scanned (cql_iterator C rows) cl]"
    using assms(3-7) sel
    by (simp add: cql_LoadFromSnapshot_def normalizeQueries_def normalizeQuery_step_def loadFromSnapshotByGroup_def
        addAggregateIDsToFilter_def)
  show ?thesis
  proof (cases cl)
    case None
    have rows: "rows = (case tbl db (g, a) of None \<Rightarrow> [] | Some row \<Rightarrow> [row])"
      using select_one [OF _ sel [unfolded None]] assms(1) by (simp add: cql_session_ok_def)
    have "cql_iterator C rows = source_of (case cql_snapshot C (tbl db) g a of None \<Rightarrow> [] | Some e \<Rightarrow> [e])"
    proof (cases "tbl db (g, a)")
      case (Some row)
      then have "row_ok g a row" using assms(2) by (simp add: table_ok_def)
      then obtain e where "cql_Next C row = Inr e" by (rule cql_Next_ok)
      with Some rows show ?thesis by (simp add: cql_snapshot_def source_of_def)
    qed (use rows in \<open>simp add: cql_snapshot_def\<close>)
    with load None show ?thesis by simp
  next
    case (Some err)
    with load show ?thesis by blast
  qed
qed

end
