(* ===== verification/Aggregate.thy ===== *)
theory Aggregate
  imports Projection
begin

text \<open>
  Handling of a command by an aggregate: \<^verbatim>\<open>resource-aggregate/cqrs/aggregate/aggregate.go\<close>. The model is
  loaded from the event store, the command is handled, and its events are saved with optimistic
  concurrency; when another writer was first, the attempt is repeated until the retry function gives up.

  The type of the models \<open>'m\<close>, of the commands \<open>'cmd\<close>, of the store \<open>'st\<close> and of the state of the retry
  function \<open>'r\<close> are parameters. Two things that the code shares through pointers are made explicit:
  a command is returned as its handler leaves it, because the next attempt handles the same object, and
  the factory is given the model that the previous attempt left, because a factory may hand out the
  same object again. Other writers act between the loading and the saving of an attempt: \<open>others k\<close> is
  what they do to the store before its k-th use. The additional models of an aggregate are loaded in the
  same projection; \<open>mod_sees\<close> is what the model sees of one of them through a pointer once it is loaded.
\<close>

section \<open>Models, stores and aggregates\<close>

record ('m, 'cmd) AggregateModel =
  mod_step :: "'m model_step"
  mod_HandleCommand :: "nat \<Rightarrow> 'm \<Rightarrow> 'cmd \<Rightarrow> u64 \<Rightarrow> 'm \<times> 'cmd \<times> any_event list res"
  mod_TakeSnapshot :: "nat \<Rightarrow> 'm \<Rightarrow> u64 \<Rightarrow> any_event option"
  mod_sees :: "string \<Rightarrow> 'm \<Rightarrow> 'm \<Rightarrow> 'm"

record AdditionalModel =
  adm_GroupID :: string
  adm_AggregateID :: string

record 'st EventStore =
  es_Save :: "'st \<Rightarrow> any_event list \<Rightarrow> 'st \<times> SaveStatus res"
  es_LoadFromSnapshot :: "'st \<Rightarrow> SnapshotQuery list \<Rightarrow> find_result list res"

type_synonym 'r RetryFunc = "'r \<Rightarrow> 'r \<times> gotime res"

definition NewDefaultRetryFunc :: "gotime \<Rightarrow> int \<Rightarrow> int RetryFunc" where
  "NewDefaultRetryFunc now limit counter =
     (if limit \<le> counter then (counter, Inl (Errorf ''retry reach limit'' []))
      else (counter + 1, Inr (now + 10000000)))"

record ('m, 'st, 'r) Aggregate =
  ag_groupID :: string
  ag_aggregateID :: string
  ag_store :: "'st EventStore"
  ag_retryFunc :: "'r RetryFunc"
  ag_factoryModel :: "'m \<Rightarrow> string \<Rightarrow> string \<Rightarrow> 'm res"
  ag_additionalModels :: "AdditionalModel list"

definition NewAggregate ::
    "string \<Rightarrow> string \<Rightarrow> 'r RetryFunc option \<Rightarrow> 'st EventStore option \<Rightarrow> ('m \<Rightarrow> string \<Rightarrow> string \<Rightarrow> 'm res)
     \<Rightarrow> AdditionalModel list \<Rightarrow> ('m, 'st, 'r) Aggregate res" where
  "NewAggregate groupID aggregateID retryFunc store factoryModel additionalModels =
     (if groupID = [] then Inl (Errorf ''cannot create aggregate: invalid groupID'' [])
      else if aggregateID = [] then Inl (Errorf ''cannot create aggregate: invalid aggregateId'' [])
      else case retryFunc of
        None \<Rightarrow> Inl (Errorf ''cannot create aggregate: invalid retryFunc'' [])
      | Some rf \<Rightarrow>
          (case store of
             None \<Rightarrow> Inl (Errorf ''cannot create aggregate: invalid eventstore'' [])
           | Some s \<Rightarrow> Inr \<lparr>ag_groupID = groupID, ag_aggregateID = aggregateID, ag_store = s,
                             ag_retryFunc = rf, ag_factoryModel = factoryModel,
                             ag_additionalModels = additionalModels\<rparr>))"

section \<open>The wrapped model\<close>

record 'm AggregateModelWrapper =
  w_model :: 'm
  w_lastVersion :: u64
  w_loaded :: bool

text \<open>
  The wrapper notes the version of every event its iterator hands out. The code keeps what the last call
  of \<open>Handle\<close> has seen, here it is what has been seen since the wrapper was made; both agree when the
  store delivers the events of an aggregate in one run, as the stores of the hub do.
\<close>

definition aggrIterator_Next :: "'m AggregateModelWrapper \<Rightarrow> EventUnmarshaler \<Rightarrow> 'm AggregateModelWrapper" where
  "aggrIterator_Next w event = w\<lparr>w_lastVersion := eu_Version event, w_loaded := True\<rparr>"

definition wrapper_step :: "'m model_step \<Rightarrow> 'm AggregateModelWrapper model_step" where
  "wrapper_step step n w event =
     (let w' = aggrIterator_Next w event in
      case step n (w_model w') event of (m, r) \<Rightarrow> (w'\<lparr>w_model := m\<rparr>, r))"

fun additional_models ::
    "(string \<Rightarrow> string \<Rightarrow> 'm res) \<Rightarrow> AdditionalModel list \<Rightarrow> (AdditionalModel \<times> 'm AggregateModelWrapper) list res" where
  "additional_models factoryModel [] = Inr []"
| "additional_models factoryModel (r # rs) =
     (case factoryModel (adm_GroupID r) (adm_AggregateID r) of
        Inl err \<Rightarrow> Inl (Wrapf ''cannot create aggregate model'' err)
      | Inr model \<Rightarrow>
          (case additional_models factoryModel rs of
             Inl err \<Rightarrow> Inl err
           | Inr ms \<Rightarrow> Inr ((r, \<lparr>w_model = model, w_lastVersion = 0, w_loaded = False\<rparr>) # ms)))"

definition loaded_model :: "'m Projection \<Rightarrow> string \<Rightarrow> string \<Rightarrow> 'm \<Rightarrow> 'm" where
  "loaded_model p groupID aggregateID m =
     (case lookup_model p groupID aggregateID of None \<Rightarrow> m | Some am \<Rightarrow> am_model am)"

text \<open>Additional models are wrapped too, only to give all models of the projection one type.\<close>

definition NewAggregateModel ::
    "('m, 'st, 'r) Aggregate \<Rightarrow> ('m, 'cmd) AggregateModel \<Rightarrow> 'm \<Rightarrow> 'st \<Rightarrow> 'm AggregateModelWrapper res" where
  "NewAggregateModel a M cell st =
     (case ag_factoryModel a cell (ag_groupID a) (ag_aggregateID a) of
        Inl err \<Rightarrow> Inl (Wrapf ''cannot create aggregate model'' err)
      | Inr model \<Rightarrow>
     (case additional_models (ag_factoryModel a cell) (ag_additionalModels a) of
        Inl err \<Rightarrow> Inl err
      | Inr ms \<Rightarrow>
          (let amodel = \<lparr>w_model = model, w_lastVersion = 0, w_loaded = False\<rparr>;
               factory = (\<lambda>_ projectionAggregateID.
                            if projectionAggregateID = ag_aggregateID a then Inr amodel
                            else case map_of (rev (map (\<lambda>(r, m). (adm_AggregateID r, m)) ms)) projectionAggregateID of
                              Some m \<Rightarrow> Inr m
                            | None \<Rightarrow> Inl (Errorf ''cannot create aggregate model for %v %v : not found''
                                            [ag_groupID a, ag_aggregateID a]));
               q = \<lparr>sq_GroupID = ag_groupID a, sq_AggregateID = ag_aggregateID a, sq_Types = []\<rparr> #
                   map (\<lambda>(r, _). \<lparr>sq_GroupID = adm_GroupID r, sq_AggregateID = adm_AggregateID r, sq_Types = []\<rparr>) ms
           in case Project (es_LoadFromSnapshot (ag_store a) st) (wrapper_step (mod_step M)) factory 0 NewProjection q of
                (_, Inl err) \<Rightarrow> Inl (Wrapf ''cannot load aggregate model'' err)
              | ((_, p), Inr _) \<Rightarrow>
                  Inr (foldl (\<lambda>w (r, m). w\<lparr>w_model := mod_sees M (adm_AggregateID r)
                                             (w_model (loaded_model p (adm_GroupID r) (adm_AggregateID r) m)) (w_model w)\<rparr>)
                         (loaded_model p (ag_groupID a) (ag_aggregateID a) amodel) ms))))"

section \<open>One attempt\<close>

definition newVersion_of :: "'m AggregateModelWrapper \<Rightarrow> u64" where
  "newVersion_of w = (if w_loaded w then w_lastVersion w + 1 else w_lastVersion w)"

text \<open>The store, the model and the command after the attempt; the events and whether another writer was first.\<close>

definition HandleCommandWithAggregateModelWrapper ::
    "('m, 'st, 'r) Aggregate \<Rightarrow> ('m, 'cmd) AggregateModel \<Rightarrow> nat \<Rightarrow> 'st \<Rightarrow> 'cmd \<Rightarrow> 'm AggregateModelWrapper
     \<Rightarrow> 'st \<times> 'm \<times> 'cmd \<times> (any_event list \<times> bool) res" where
  "HandleCommandWithAggregateModelWrapper a M k st cmd w =
     (let newVersion = newVersion_of w in
      case mod_HandleCommand M k (w_model w) cmd newVersion of
        (m, cmd', Inl err) \<Rightarrow> (st, m, cmd', Inl (Wrapf ''error occurred during command handling'' err))
      | (m, cmd', Inr newEvents) \<Rightarrow>
          if length newEvents = 0 then (st, m, cmd', Inr ([], False))
          else case mod_TakeSnapshot M k m (newVersion + of_nat (length newEvents - 1)) of
            None \<Rightarrow> (st, m, cmd', Inl (Errorf ''cannot take snapshot'' []))
          | Some snapshot \<Rightarrow>
              (let saveEvents = take (length newEvents - 1) newEvents @ [snapshot] in
               case es_Save (ag_store a) st saveEvents of
                 (st', Inl err) \<Rightarrow> (st', m, cmd', Inl (Wrapf ''cannot save events'' err))
               | (st', Inr Save_Ok) \<Rightarrow> (st', m, cmd', Inr (newEvents, False))
               | (st', Inr SnapshotRequired) \<Rightarrow>
                   (st', m, cmd', Inl (Errorf ''cannot create snapshot during save events[%v] that contains last snapshot event'' []))
               | (st', Inr ConcurrencyException) \<Rightarrow> (st', m, cmd', Inr ([], True))
               | (st', Inr Save_Fail) \<Rightarrow> (st', m, cmd', Inl (Errorf ''cannot save events[%v]: %w'' []))))"

section \<open>The retry loop\<close>

text \<open>\<open>canceled\<close> tells whether the context ends while the retry waits.\<close>

definition HandleRetry :: "'r RetryFunc \<Rightarrow> bool \<Rightarrow> 'r \<Rightarrow> 'r \<times> unit res" where
  "HandleRetry retryFunc canceled r =
     (case retryFunc r of
        (r', Inl err) \<Rightarrow> (r', Inl (Wrapf ''cannot retry'' err))
      | (r', Inr _) \<Rightarrow> (r', if canceled then Inl (Errorf ''retry canceled'' []) else Inr ()))"

definition errHandleCommand :: "error \<Rightarrow> error" where
  "errHandleCommand err = Wrapf ''aggregate model cannot handle command'' err"

text \<open>
  An attempt from its load to its outcome: the store, the model it leaves behind, the command, and either the final
  result or \<open>None\<close> when it has to be repeated.
\<close>

definition attempt ::
    "('m, 'st, 'r) Aggregate \<Rightarrow> ('m, 'cmd) AggregateModel \<Rightarrow> (nat \<Rightarrow> 'st \<Rightarrow> 'st) \<Rightarrow> nat \<Rightarrow> 'st \<Rightarrow> 'm \<Rightarrow> 'cmd
     \<Rightarrow> 'st \<times> 'm \<times> 'cmd \<times> any_event list res option" where
  "attempt a M others k st cell cmd =
     (let st0 = others (2 * k) st in
      case NewAggregateModel a M cell st0 of
        Inl err \<Rightarrow> (st0, cell, cmd, Some (Inl (errHandleCommand err)))
      | Inr w \<Rightarrow>
          (let st1 = others (2 * k + 1) st0 in
           case HandleCommandWithAggregateModelWrapper a M k st1 cmd w of
             (st', m, cmd', Inl err) \<Rightarrow> (st', m, cmd', Some (Inl (errHandleCommand err)))
           | (st', m, cmd', Inr (events, concurrencyException)) \<Rightarrow>
               (st', m, cmd', if concurrencyException then None else Some (Inr events))))"

partial_function (option) HandleCommand_from ::
    "('m, 'st, 'r) Aggregate \<Rightarrow> ('m, 'cmd) AggregateModel \<Rightarrow> (nat \<Rightarrow> 'st \<Rightarrow> 'st) \<Rightarrow> (nat \<Rightarrow> bool) \<Rightarrow> nat \<Rightarrow> 'r \<Rightarrow> 'st \<Rightarrow> 'm \<Rightarrow> 'cmd
     \<Rightarrow> ('st \<times> 'm \<times> any_event list res) option" where
  "HandleCommand_from a M others canceled k r st cell cmd =
     (case (if k = 0 then (r, Inr ()) else HandleRetry (ag_retryFunc a) (canceled k) r) of
        (r', retry) \<Rightarrow>
          (case retry of
             Inl err \<Rightarrow> Some (st, cell, Inl (errHandleCommand err))
           | Inr _ \<Rightarrow>
               (case attempt a M others k st cell cmd of
                  (st', m, cmd', outcome) \<Rightarrow>
                    (case outcome of
                       Some res \<Rightarrow> Some (st', m, res)
                     | None \<Rightarrow> HandleCommand_from a M others canceled (Suc k) r' st' m cmd'))))"

declare HandleCommand_from.simps [code]

text \<open>The caller may still hold the model through its factory, so it is given besides the result.\<close>

definition HandleCommand_model ::
    "('m, 'st, 'r) Aggregate \<Rightarrow> ('m, 'cmd) AggregateModel \<Rightarrow> (nat \<Rightarrow> 'st \<Rightarrow> 'st) \<Rightarrow> (nat \<Rightarrow> bool) \<Rightarrow> 'r \<Rightarrow> 'st \<Rightarrow> 'm \<Rightarrow> 'cmd
     \<Rightarrow> ('st \<times> 'm \<times> any_event list res) option" where
  "HandleCommand_model a M others canceled r st cell cmd = HandleCommand_from a M others canceled 0 r st cell cmd"

definition HandleCommand ::
    "('m, 'st, 'r) Aggregate \<Rightarrow> ('m, 'cmd) AggregateModel \<Rightarrow> (nat \<Rightarrow> 'st \<Rightarrow> 'st) \<Rightarrow> (nat \<Rightarrow> bool) \<Rightarrow> 'r \<Rightarrow> 'st \<Rightarrow> 'm \<Rightarrow> 'cmd
     \<Rightarrow> ('st \<times> any_event list res) option" where
  "HandleCommand a M others canceled r st cell cmd =
     map_option (\<lambda>(st', _, res). (st', res)) (HandleCommand_model a M others canceled r st cell cmd)"

section \<open>The loop ends\<close>

lemma HandleCommand_model_returns:
  assumes "ag_retryFunc a = NewDefaultRetryFunc now limit"
  shows "\<exists>st' m r. HandleCommand_model a M others canceled counter st cell cmd = Some (st', m, r)"
proof -
  have "\<exists>st' m r. HandleCommand_from a M others canceled k counter st cell cmd = Some (st', m, r)" for k counter st cell cmd
  proof (induction "nat (limit - counter) + (if k = 0 then 1 else 0)" arbitrary: k counter st cell cmd rule: less_induct)
    case less
    obtain st1 m1 cmd1 out where at: "attempt a M others k st cell cmd = (st1, m1, cmd1, out)" by (metis prod_cases4)
    note unfold = HandleCommand_from.simps [of a M others canceled k counter st cell cmd]
    show ?case
    proof (cases "k = 0")
      case True
      with less.hyps [of counter "Suc k" st1 m1 cmd1] at show ?thesis by (subst unfold) (auto split: option.splits)
    next
      case False
      show ?thesis
      proof (cases "limit \<le> counter \<or> canceled k")
        case True
        with False assms show ?thesis
          by (subst unfold) (auto simp: HandleRetry_def NewDefaultRetryFunc_def)
      next
        case go: False
        with False less.hyps [of "counter + 1" "Suc k" st1 m1 cmd1] at assms show ?thesis
          by (subst unfold) (auto simp: HandleRetry_def NewDefaultRetryFunc_def split: option.splits)
      qed
    qed
  qed
  then show ?thesis by (simp add: HandleCommand_model_def)
qed

text \<open>
  C20. With the default retry function the loop always returns a result or an error, whatever the other
  writers do to the store between its uses.
\<close>

theorem HandleCommand_returns:
  assumes "ag_retryFunc a = NewDefaultRetryFunc now limit"
  shows "\<exists>st' r. HandleCommand a M others canceled counter st cell cmd = Some (st', r)"
  using HandleCommand_model_returns [OF assms, of M others canceled counter st cell cmd] by (auto simp: HandleCommand_def)

text \<open>Induction over the attempts of a command that is answered with events.\<close>

lemma HandleCommand_attempts:
  fixes r :: 'r
  assumes "HandleCommand_from a M others canceled k r st cell cmd = Some (st', m', Inr evs)"
    and last: "\<And>k st cell cmd cmd'. attempt a M others k st cell cmd = (st', m', cmd', Some (Inr evs)) \<Longrightarrow> P k st cell cmd"
    and again: "\<And>k st cell cmd st1 m cmd'. attempt a M others k st cell cmd = (st1, m, cmd', None) \<Longrightarrow> P (Suc k) st1 m cmd' \<Longrightarrow>
       P k st cell cmd"
  shows "P k st cell cmd"
proof -
  define Q where "Q = (\<lambda>a' M' others' (_ :: nat \<Rightarrow> bool) k (_ :: 'r) st cell cmd y.
      a' = a \<and> M' = M \<and> others' = others \<and> y = (st', m', Inr evs :: any_event list res) \<longrightarrow> P k st cell cmd)"
  have step: "Q a' M' others' canceled' k r st cell cmd y"
    if IH: "\<And>a' M' others' canceled' k r st cell cmd y. rec a' M' others' canceled' k r st cell cmd = Some y \<Longrightarrow>
        Q a' M' others' canceled' k r st cell cmd y"
      and body: "(case if k = 0 then (r, Inr ()) else HandleRetry (ag_retryFunc a') (canceled' k) r of
          (r', Inl err) \<Rightarrow> Some (st, cell, Inl (errHandleCommand err))
        | (r', Inr x) \<Rightarrow>
            (case attempt a' M' others' k st cell cmd of
               (st', m, cmd', None) \<Rightarrow> rec a' M' others' canceled' (Suc k) r' st' m cmd'
             | (st', m, cmd', Some res) \<Rightarrow> Some (st', m, res))) = Some y"
    for rec a' M' others' canceled' k r st cell cmd y
  proof (unfold Q_def, intro impI, elim conjE)
    assume eq: "a' = a" "M' = M" "others' = others" "y = (st', m', Inr evs)"
    obtain st1 m cmd' out where at: "attempt a M others k st cell cmd = (st1, m, cmd', out)" by (metis prod_cases4)
    show "P k st cell cmd"
    proof (cases out)
      case None
      with body at eq obtain r' where "rec a M others canceled' (Suc k) r' st1 m cmd' = Some (st', m', Inr evs)"
        by (auto split: prod.splits sum.splits)
      with IH [unfolded Q_def] have "P (Suc k) st1 m cmd'" by blast
      with at None show ?thesis by (blast intro: again)
    next
      case (Some res)
      with body at eq have "st1 = st' \<and> m = m' \<and> res = Inr evs" by (auto split: prod.splits sum.splits)
      with at Some show ?thesis by (blast intro: last)
    qed
  qed
  have "Q a M others canceled k r st cell cmd (st', m', Inr evs)"
    by (rule HandleCommand_from.raw_induct [of Q, OF step assms(1)])
  then show ?thesis by (simp add: Q_def)
qed

end
