(* ===== verification/Projection_Properties.thy ===== *)
theory Projection_Properties
  imports Projection
begin

text \<open>
  What a projection does with a batch. Handling a batch through the pulling iterators refines the
  application of its events one by one; delivered events are ignored when they come again; a gap before
  the first event of an aggregate asks for a reload, which closes it.
\<close>

section \<open>Specification: one event at a time\<close>

definition apply_event ::
    "'m model_step \<Rightarrow> (string \<Rightarrow> string \<Rightarrow> 'm res) \<Rightarrow> nat \<times> 'm Projection \<Rightarrow> EventUnmarshaler \<Rightarrow> (nat \<times> 'm Projection) option" where
  "apply_event step factoryModel np e =
     (case np of (n, p) \<Rightarrow>
        case getModel factoryModel p (eu_GroupID e) (eu_AggregateID e) of
          (p1, Inl _) \<Rightarrow> None
        | (p1, Inr am) \<Rightarrow>
            (case aggregateModel_Update am e of
               (am', ignore, reload) \<Rightarrow>
                 if reload then None
                 else if ignore then Some (n, store_model p1 am')
                 else if eu_EventType e = [] then None
                 else case step n (am_model am') e of
                        (m, Inl _) \<Rightarrow> None
                      | (m, Inr _) \<Rightarrow> Some (Suc n, store_model p1 (am'\<lparr>am_model := m\<rparr>))))"

fun apply_events ::
    "'m model_step \<Rightarrow> (string \<Rightarrow> string \<Rightarrow> 'm res) \<Rightarrow> nat \<times> 'm Projection \<Rightarrow> EventUnmarshaler list \<Rightarrow> (nat \<times> 'm Projection) option" where
  "apply_events step factoryModel np [] = Some np"
| "apply_events step factoryModel np (e # es) =
     (case apply_event step factoryModel np e of None \<Rightarrow> None | Some np' \<Rightarrow> apply_events step factoryModel np' es)"

section \<open>The map of models\<close>

lemma AList_update_idem [simp]: "AList.update k v (AList.update k w xs) = AList.update k v xs"
  by (induction xs) auto

lemma AList_update_same: "map_of xs k = Some v \<Longrightarrow> AList.update k v xs = xs"
  by (induction xs) (auto split: if_splits)

lemma store_model_twice [simp]:
  "am_groupID am' = am_groupID am \<Longrightarrow> am_aggregateID am' = am_aggregateID am \<Longrightarrow>
     store_model (store_model p am) am' = store_model p am'"
  by (simp add: store_model_def update_conv')

lemma lookup_store [simp]:
  "lookup_model (store_model p am) g a =
     (if g = am_groupID am \<and> a = am_aggregateID am then Some am else lookup_model p g a)"
  by (auto simp: lookup_model_def store_model_def update_conv' split: option.splits)

text \<open>In every state of a projection a model is filed under its own identifiers.\<close>

definition models_filed :: "'m Projection \<Rightarrow> bool" where
  "models_filed p \<longleftrightarrow> (\<forall>g a am. lookup_model p g a = Some am \<longrightarrow> am_groupID am = g \<and> am_aggregateID am = a)"

lemma models_filed_store: "models_filed p \<Longrightarrow> models_filed (store_model p am)"
  by (auto simp: models_filed_def)

lemma store_model_lookup:
  assumes "lookup_model p (am_groupID am) (am_aggregateID am) = Some am"
  shows "store_model p am = p"
proof -
  obtain g where g: "map_of (p_aggregateModels p) (am_groupID am) = Some g" and "map_of g (am_aggregateID am) = Some am"
    using assms by (auto simp: lookup_model_def split: option.splits)
  then show ?thesis by (simp add: store_model_def AList_update_same)
qed

lemma getModel_known:
  assumes "lookup_model p g a = Some am"
  shows "getModel f p g a = (p, Inr am)"
  using assms by (auto simp: getModel_def lookup_model_def split: option.splits)

lemma getModel_ok:
  assumes "getModel f p g a = (p1, Inr am)" and "models_filed p"
  shows "lookup_model p1 g a = Some am" and "am_groupID am = g" and "am_aggregateID am = a" and "models_filed p1"
proof -
  let ?p0 = "if map_of (p_aggregateModels p) g = None
    then p\<lparr>p_aggregateModels := AList.update g [] (p_aggregateModels p)\<rparr> else p"
  have lk: "lookup_model ?p0 g' a' = lookup_model p g' a'" for g' a'
    by (auto simp: lookup_model_def update_conv' split: option.splits)
  then have f0: "models_filed ?p0" using assms(2) by (simp add: models_filed_def)
  have "lookup_model p1 g a = Some am \<and> am_groupID am = g \<and> am_aggregateID am = a \<and> models_filed p1"
  proof (cases "lookup_model p g a")
    case None
    with assms(1) lk f0 show ?thesis
      by (auto simp: getModel_def Let_def models_filed_store split: sum.splits if_splits)
  next
    case (Some am0)
    with assms lk f0 show ?thesis
      by (auto simp: getModel_def Let_def models_filed_def split: sum.splits if_splits)
  qed
  then show "lookup_model p1 g a = Some am" and "am_groupID am = g" and "am_aggregateID am = a" and "models_filed p1"
    by auto
qed

section \<open>The iterator on a run of one aggregate\<close>

lemma Update_ids:
  assumes "aggregateModel_Update am e = (am', ign, rel)"
  shows "am_groupID am' = am_groupID am" and "am_aggregateID am' = am_aggregateID am" and "am_model am' = am_model am"
  using assms by (auto simp: aggregateModel_Update_def split: if_splits)

lemma Update_ignore: "aggregateModel_Update am e = (am', True, rel) \<Longrightarrow> am' = am \<and> \<not> rel"
  by (auto simp: aggregateModel_Update_def split: if_splits)

text \<open>The first event of a run is treated as any other unless it asks for a reload.\<close>

lemma Next_first:
  assumes "aggregateModel_Update am e = (am', ign, False)" and "same_aggregate am e"
  shows "iterator_Next (new_iterator s e am) =
         iterator_Next (new_iterator (s\<lparr>src_events := e # src_events s\<rparr>) e am\<lparr>i_firstEvent := None\<rparr>)"
proof -
  let ?i = "new_iterator (s\<lparr>src_events := e # src_events s\<rparr>) e am\<lparr>i_firstEvent := None\<rparr>"
  have "iterator_Next ?i = RewindIgnore ?i" by (simp add: iterator_Next_def)
  also have "\<dots> = (if \<not> ign then (new_iterator s e am\<lparr>i_firstEvent := None, i_model := am'\<rparr>, Some e)
                   else RewindIgnore (new_iterator s e am\<lparr>i_firstEvent := None, i_model := am'\<rparr>))"
    using assms by (subst RewindIgnore.simps) (simp add: new_iterator_def source_Next_def)
  also have "\<dots> = iterator_Next (new_iterator s e am)"
    using assms by (simp add: iterator_Next_def new_iterator_def Let_def)
  finally show ?thesis by simp
qed

lemma Handle_first:
  assumes "aggregateModel_Update am e = (am', ign, False)" and "same_aggregate am e"
  shows "model_Handle step n (new_iterator s e am) =
         model_Handle step n (new_iterator (s\<lparr>src_events := e # src_events s\<rparr>) e am\<lparr>i_firstEvent := None\<rparr>)"
  by (subst (1 2) model_Handle.simps) (simp add: Next_first [OF assms])

definition run_iterator :: "source \<Rightarrow> 'm aggregateModel \<Rightarrow> 'm iterator" where
  "run_iterator s am =
     \<lparr>i_iter = s, i_firstEvent = None, i_model = am, i_nextEventToProcess = None, i_reload = None\<rparr>"

lemma run_iterator_simps [simp]:
  "i_iter (run_iterator s am) = s" "i_model (run_iterator s am) = am" "i_reload (run_iterator s am) = None"
  "i_nextEventToProcess (run_iterator s am) = None"
  by (simp_all add: run_iterator_def)

lemma new_iterator_run [simp]: "new_iterator s e am\<lparr>i_firstEvent := None\<rparr> = run_iterator s am"
  by (simp add: new_iterator_def run_iterator_def)

text \<open>One turn of the model on a run: an ignored event, or one that is handed out.\<close>

lemma run_ignored:
  assumes "same_aggregate am e" and "aggregateModel_Update am e = (am', True, rel)"
  shows "model_Handle step n (run_iterator (source_of (e # es)) am) = model_Handle step n (run_iterator (source_of es) am)"
proof -
  have "am' = am" using Update_ignore [OF assms(2)] by simp
  with assms have "RewindIgnore (run_iterator (source_of (e # es)) am) = RewindIgnore (run_iterator (source_of es) am)"
    by (subst RewindIgnore.simps) (simp add: run_iterator_def source_of_def source_Next_def)
  then have "iterator_Next (run_iterator (source_of (e # es)) am) = iterator_Next (run_iterator (source_of es) am)"
    by (simp add: iterator_Next_def run_iterator_def)
  then show ?thesis by (subst (1 2) model_Handle.simps) simp
qed

lemma run_handed:
  assumes "same_aggregate am e" and "aggregateModel_Update am e = (am', False, rel)"
    and "eu_EventType e \<noteq> []" and "step n (am_model am') e = (m, Inr u)"
  shows "model_Handle step n (run_iterator (source_of (e # es)) am) =
         model_Handle step (Suc n) (run_iterator (source_of es) (am'\<lparr>am_model := m\<rparr>))"
proof -
  have "iterator_Next (run_iterator (source_of (e # es)) am) = (run_iterator (source_of es) am', Some e)"
    using assms(1,2)
    by (simp add: iterator_Next_def run_iterator_def) (subst RewindIgnore.simps, simp add: source_of_def source_Next_def)
  with assms(3,4) show ?thesis by (subst model_Handle.simps) (simp add: run_iterator_def)
qed

lemma run_end:
  "model_Handle step n (run_iterator (source_of []) am) =
     (n, run_iterator (source_of []\<lparr>src_done := True\<rparr>) am, Inr ())"
  by (subst model_Handle.simps, simp add: iterator_Next_def run_iterator_def, subst RewindIgnore.simps)
    (simp add: source_of_def source_Next_def iterator_Err_def source_Err_def)

lemma run_other:
  assumes "\<not> same_aggregate am e"
  shows "model_Handle step n (run_iterator (source_of (e # es)) am) =
     (n, run_iterator (source_of es) am\<lparr>i_nextEventToProcess := Some e\<rparr>, Inr ())"
  using assms
  by (subst model_Handle.simps, simp add: iterator_Next_def run_iterator_def, subst RewindIgnore.simps)
    (simp add: source_of_def source_Next_def iterator_Err_def source_Err_def)

lemma finish_end [simp]:
  "finish_run (run_iterator (source_of []\<lparr>src_done := True\<rparr>) am) = run_iterator (source_of []\<lparr>src_done := True\<rparr>) am"
  by (simp add: finish_run_def iterator_Next_def run_iterator_def, subst RewindIgnore.simps)
    (simp add: source_of_def source_Next_def)

lemma finish_other [simp]:
  "finish_run (run_iterator s am\<lparr>i_nextEventToProcess := Some e\<rparr>) = run_iterator s am\<lparr>i_nextEventToProcess := Some e\<rparr>"
  by (simp add: finish_run_def)

section \<open>A batch is applied event by event\<close>

definition continue_loop ::
    "'m model_step \<Rightarrow> (string \<Rightarrow> string \<Rightarrow> 'm res) \<Rightarrow> 'm Projection \<Rightarrow> VersionQuery list \<Rightarrow> nat \<times> 'm iterator \<times> unit res
     \<Rightarrow> nat \<times> 'm Projection \<times> VersionQuery list res" where
  "continue_loop step f p1 qs hr =
     (case hr of
        (n', i, Inl err) \<Rightarrow> (n', store_model p1 (i_model i), Inl (Wrapf ''cannot handle projection'' err))
      | (n', i, Inr _) \<Rightarrow>
          (let i' = finish_run i; queries = qs @ (case i_reload i' of None \<Rightarrow> [] | Some q \<Rightarrow> [q]);
               p2 = store_model p1 (i_model i')
           in case i_nextEventToProcess i' of
                None \<Rightarrow> (n', p2, Inr queries)
              | Some ie' \<Rightarrow> handle_loop step f n' p2 (i_iter i') ie' queries))"

lemma handle_loop_continue:
  assumes "getModel f p (eu_GroupID ie) (eu_AggregateID ie) = (p1, Inr am)"
  shows "handle_loop step f n p s ie qs = continue_loop step f p1 qs (model_Handle step n (new_iterator s ie am))"
  using assms by (simp add: handle_loop.simps [of step f n p] continue_loop_def split: prod.splits sum.splits)

lemma continue_end [simp]:
  "continue_loop step f p qs (n, run_iterator (source_of []\<lparr>src_done := True\<rparr>) am, Inr ()) = (n, store_model p am, Inr qs)"
  by (simp add: continue_loop_def Let_def)

lemma continue_other [simp]:
  "continue_loop step f p qs (n, run_iterator s am\<lparr>i_nextEventToProcess := Some e\<rparr>, Inr ()) =
     handle_loop step f n (store_model p am) s e qs"
  by (simp add: continue_loop_def Let_def)

text \<open>What the specification says of an event whose model is known.\<close>

lemma apply_event_known:
  assumes "lookup_model p (eu_GroupID e) (eu_AggregateID e) = Some am" and "apply_event step f (n, p) e = Some np"
  obtains (ignored) "aggregateModel_Update am e = (am, True, False)" and "np = (n, store_model p am)"
  | (handed) am' m u where "aggregateModel_Update am e = (am', False, False)" and "eu_EventType e \<noteq> []"
      and "step n (am_model am') e = (m, Inr u)" and "np = (Suc n, store_model p (am'\<lparr>am_model := m\<rparr>))"
proof -
  obtain am' ign rel where up: "aggregateModel_Update am e = (am', ign, rel)" by (metis prod_cases3)
  obtain m r where st: "step n (am_model am') e = (m, r)" by fastforce
  show thesis
  proof (cases ign)
    case True
    then have "am' = am \<and> \<not> rel" using Update_ignore [of am e am' rel] up by simp
    with True up assms that(1) show thesis by (simp add: apply_event_def getModel_known)
  next
    case False
    with up st assms that(2) show thesis
      by (auto simp: apply_event_def getModel_known split: if_splits sum.splits)
  qed
qed

lemma run_step:
  assumes same: "same_aggregate am e" and spec: "apply_event step f (n, store_model p am) e = Some np"
    and IH: "\<And>n am. np = (n, store_model p am) \<Longrightarrow>
       continue_loop step f p qs (model_Handle step n (run_iterator (source_of es) am)) = res"
  shows "continue_loop step f p qs (model_Handle step n (run_iterator (source_of (e # es)) am)) = res"
proof -
  have lk: "lookup_model (store_model p am) (eu_GroupID e) (eu_AggregateID e) = Some am"
    using same by (simp add: same_aggregate_def)
  from lk spec show ?thesis
  proof (cases rule: apply_event_known)
    case ignored
    have "np = (n, store_model p am)" using ignored(2) by simp
    then show ?thesis using IH run_ignored [OF same ignored(1)] by simp
  next
    case (handed am' m u)
    have "np = (Suc n, store_model p (am'\<lparr>am_model := m\<rparr>))"
      using handed(4) Update_ids [OF handed(1)] by simp
    then show ?thesis using IH run_handed [where step = step, OF same handed(1-3)] by simp
  qed
qed

text \<open>The specification does not depend on whether the model has been created yet.\<close>

lemma apply_event_created:
  assumes "getModel f p (eu_GroupID e) (eu_AggregateID e) = (p1, Inr am)" and "models_filed p"
  shows "apply_event step f (n, p) e = apply_event step f (n, p1) e" and "store_model p1 am = p1" and "same_aggregate am e"
proof -
  note ok = getModel_ok [OF assms]
  then show "apply_event step f (n, p) e = apply_event step f (n, p1) e"
    using assms(1) getModel_known [OF ok(1), of f] by (simp add: apply_event_def)
  show "store_model p1 am = p1" using ok by (simp add: store_model_lookup)
  show "same_aggregate am e" using ok by (simp add: same_aggregate_def)
qed

lemma models_filed_apply:
  assumes "apply_event step f (n, p) e = Some (n', p')" and "models_filed p"
  shows "models_filed p'"
proof -
  obtain p1 r where gm: "getModel f p (eu_GroupID e) (eu_AggregateID e) = (p1, r)" by fastforce
  then obtain am where r: "r = Inr am" using assms(1) by (auto simp: apply_event_def split: sum.splits)
  have "models_filed p1" using getModel_ok(4) gm r assms(2) by blast
  with gm r assms(1) show ?thesis
    by (auto simp: apply_event_def models_filed_store split: prod.splits if_splits sum.splits)
qed

lemma handle_loop_from_run:
  assumes filed: "models_filed p" and spec: "apply_events step f (n, p) (e # es) = Some (n', p')"
    and IH: "\<And>n am p. models_filed (store_model p am) \<Longrightarrow> apply_events step f (n, store_model p am) es = Some (n', p') \<Longrightarrow>
       continue_loop step f p qs (model_Handle step n (run_iterator (source_of es) am)) = (n', p', Inr qs)"
  shows "handle_loop step f n p (source_of es) e qs = (n', p', Inr qs)"
proof -
  obtain np where ae: "apply_event step f (n, p) e = Some np" and rest: "apply_events step f np es = Some (n', p')"
    using spec by (auto split: option.splits)
  obtain p1 r where gm: "getModel f p (eu_GroupID e) (eu_AggregateID e) = (p1, r)" by fastforce
  then obtain am where r: "r = Inr am" using ae by (auto simp: apply_event_def split: sum.splits)
  note gm = gm [unfolded r]
  note cr = apply_event_created [OF gm filed]
  have filed': "models_filed (snd np)" using models_filed_apply [OF _ filed, of step f n e "fst np" "snd np"] ae by simp
  obtain am' ign rel where up: "aggregateModel_Update am e = (am', ign, rel)" by (metis prod_cases3)
  have "\<not> rel" using ae gm up by (auto simp: apply_event_def)
  then have first: "model_Handle step n (new_iterator (source_of es) e am) =
      model_Handle step n (run_iterator (source_of (e # es)) am)"
    using Handle_first [of am e am' ign step n "source_of es"] up cr(3) by (simp add: source_of_def)
  have "apply_event step f (n, store_model p1 am) e = Some np" using ae cr(1,2) by simp
  then have "continue_loop step f p1 qs (model_Handle step n (run_iterator (source_of (e # es)) am)) = (n', p', Inr qs)"
    by (rule run_step [OF cr(3)]) (use IH filed' rest in simp)
  then show ?thesis by (simp add: handle_loop_continue [OF gm] first)
qed

lemma continue_run_refines:
  "models_filed (store_model p am) \<Longrightarrow> apply_events step f (n, store_model p am) es = Some (n', p') \<Longrightarrow>
     continue_loop step f p qs (model_Handle step n (run_iterator (source_of es) am)) = (n', p', Inr qs)"
proof (induction es arbitrary: n am p)
  case Nil
  then show ?case by (simp add: run_end)
next
  case (Cons e es)
  obtain np where ae: "apply_event step f (n, store_model p am) e = Some np" and rest: "apply_events step f np es = Some (n', p')"
    using Cons.prems(2) by (auto split: option.splits)
  have filed': "models_filed (snd np)"
    using models_filed_apply [OF _ Cons.prems(1), of step f n e "fst np" "snd np"] ae by simp
  show ?case
  proof (cases "same_aggregate am e")
    case True
    show ?thesis by (rule run_step [OF True ae]) (use Cons.IH filed' rest in simp)
  next
    case False
    show ?thesis
      using handle_loop_from_run [OF Cons.prems Cons.IH] by (simp add: run_other [OF False])
  qed
qed

lemma projection_handle_Cons:
  "projection_handle step f n p (source_of (e # es)) = handle_loop step f n p (source_of es) e []"
  by (simp add: projection_handle_def source_of_def source_Next_def)

lemma batch_refines:
  assumes "models_filed p" and "apply_events step factoryModel (n, p) es = Some (n', p')"
  shows "projection_handle step factoryModel n p (source_of es) = (n', p', Inr [])"
proof (cases es)
  case Nil
  with assms show ?thesis by (simp add: projection_handle_def source_of_def source_Next_def source_Err_def)
next
  case (Cons e es')
  show ?thesis
    using handle_loop_from_run [OF assms(1) assms(2) [unfolded Cons] continue_run_refines]
    by (simp add: Cons projection_handle_Cons)
qed

text \<open>
  C16. Handling a batch through the iterators of the projection does what applying its events one by one
  does, for any interleaving of aggregates: whenever no event leaves a gap and no model fails, every event
  is handed once to the model of its aggregate or ignored as known, and no reload is asked for.
\<close>

theorem projection_refines_one_by_one:
  assumes "models_filed p" and "apply_events step factoryModel (n, p) es = Some (n', p')"
  shows "projection_handle step factoryModel n p (source_of es) = (n', p', Inr [])"
  by (rule batch_refines [OF assms])

section \<open>Known and new events\<close>

text \<open>An event is known to a model that has its version or a later one; version 0 is always taken again.\<close>

definition known_to :: "'m aggregateModel \<Rightarrow> EventUnmarshaler \<Rightarrow> bool" where
  "known_to am e \<longleftrightarrow> same_aggregate am e \<and> 0 < eu_Version e \<and> eu_Version e \<le> am_version am"

lemma word_le_not_Suc: "(v :: 64 word) \<le> w \<Longrightarrow> 0 < v \<Longrightarrow> w + 1 \<noteq> v"
proof
  assume le: "v \<le> w" and pos: "0 < v" and eq: "w + 1 = v"
  then have "1 + w \<noteq> 0" by (simp add: add.commute)
  then have "unat v = Suc (unat w)" using unatSuc [of w] eq by (simp add: add.commute)
  with le show False by (simp add: word_le_nat_alt)
qed

lemma Update_known: "known_to am e \<Longrightarrow> am_hasSnapshot am \<Longrightarrow> aggregateModel_Update am e = (am, True, False)"
  using word_le_not_Suc [of "eu_Version e" "am_version am"]
  by (auto simp: aggregateModel_Update_def known_to_def)

lemma Update_next:
  "am_hasSnapshot am \<Longrightarrow> eu_Version e = am_version am + 1 \<Longrightarrow>
     aggregateModel_Update am e = (am\<lparr>am_version := am_version am + 1\<rparr>, False, False)"
  by (auto simp: aggregateModel_Update_def)

lemma apply_known:
  assumes "lookup_model p (am_groupID am) (am_aggregateID am) = Some am" and "am_hasSnapshot am"
    and "list_all (known_to am) old"
  shows "apply_events step f (n, p) old = Some (n, p)"
  using assms(3)
proof (induction old)
  case (Cons e old)
  then have "known_to am e" by simp
  then have "apply_event step f (n, p) e = Some (n, p)"
    using assms(1) Update_known [OF _ assms(2)]
    by (simp add: apply_event_def getModel_known known_to_def same_aggregate_def store_model_lookup)
  with Cons show ?case by simp
qed simp

text \<open>The new events of an aggregate: typed, with the versions that follow the one of the model.\<close>

fun follows :: "'m aggregateModel \<Rightarrow> EventUnmarshaler list \<Rightarrow> bool" where
  "follows am [] = True"
| "follows am (e # es) \<longleftrightarrow>
     same_aggregate am e \<and> eu_EventType e \<noteq> [] \<and> eu_Version e = am_version am + 1 \<and>
     follows (am\<lparr>am_version := am_version am + 1\<rparr>) es"

lemma follows_model [simp]: "follows (am\<lparr>am_model := m\<rparr>) es = follows am es"
proof (induction es arbitrary: am)
  case (Cons e es)
  show ?case using Cons.IH [of "am\<lparr>am_version := am_version am + 1\<rparr>"] by (cases am) (simp add: same_aggregate_def)
qed simp

lemma apply_follows:
  assumes "follows am es" and "am_hasSnapshot am" and "iterate_events step n (am_model am) es None = (m, Inr ())"
  shows "apply_events step f (n, store_model p am) es =
     Some (n + length es, store_model p (am\<lparr>am_model := m, am_version := am_version am + of_nat (length es)\<rparr>))"
  using assms
proof (induction es arbitrary: n am)
  case Nil
  then have "am\<lparr>am_model := m\<rparr> = am" by (cases am) simp
  then show ?case by simp
next
  case (Cons e es)
  let ?am = "am\<lparr>am_version := am_version am + 1\<rparr>"
  obtain m1 where st: "step n (am_model am) e = (m1, Inr ())" and rest: "iterate_events step (Suc n) m1 es None = (m, Inr ())"
    using Cons.prems(1,3) by (auto split: prod.splits sum.splits)
  have up: "aggregateModel_Update am e = (?am, False, False)" using Cons.prems by (auto intro: Update_next)
  have "apply_event step f (n, store_model p am) e = Some (Suc n, store_model p (?am\<lparr>am_model := m1\<rparr>))"
    using Cons.prems(1) up st by (simp add: apply_event_def getModel_known same_aggregate_def)
  moreover have "follows (?am\<lparr>am_model := m1\<rparr>) es" using Cons.prems(1) by (simp only: follows_model) simp
  ultimately show ?case
    using Cons.IH [of "?am\<lparr>am_model := m1\<rparr>" "Suc n"] Cons.prems(2) rest
    by (simp add: add.commute add.left_commute)
qed

lemma apply_events_append:
  "apply_events step f np (xs @ ys) =
     (case apply_events step f np xs of None \<Rightarrow> None | Some np' \<Rightarrow> apply_events step f np' ys)"
  by (induction step f np xs rule: apply_events.induct) (auto split: option.splits)

lemma catch_up:
  assumes "models_filed p" and "lookup_model p g a = Some am" and "am_hasSnapshot am"
    and "list_all (known_to am) old" and "follows am new"
    and "iterate_events step n (am_model am) new None = (m, Inr ())"
  shows "projection_handle step factoryModel n p (source_of (old @ new)) =
     (n + length new, store_model p (am\<lparr>am_model := m, am_version := am_version am + of_nat (length new)\<rparr>), Inr [])"
proof -
  have lk: "lookup_model p (am_groupID am) (am_aggregateID am) = Some am"
    using assms(1,2) by (simp add: models_filed_def)
  have "apply_events step factoryModel (n, p) (old @ new) =
      Some (n + length new, store_model p (am\<lparr>am_model := m, am_version := am_version am + of_nat (length new)\<rparr>))"
    using apply_known [OF lk assms(3,4), of step factoryModel n] apply_follows [OF assms(5,3,6), of factoryModel p]
    by (simp add: apply_events_append store_model_lookup [OF lk])
  then show ?thesis by (rule batch_refines [OF assms(1)])
qed


section \<open>Gaps\<close>

lemma RewindToSnapshot_none:
  "list_all (\<lambda>e. same_aggregate am e \<and> \<not> eu_IsSnapshot e) es \<Longrightarrow>
     RewindToSnapshot (run_iterator (source_of es) am) = (run_iterator (source_of []\<lparr>src_done := True\<rparr>) am, None, None)"
proof (induction es)
  case Nil
  show ?case by (subst RewindToSnapshot.simps) (simp add: run_iterator_def source_of_def source_Next_def)
next
  case (Cons e es)
  have "RewindToSnapshot (run_iterator (source_of (e # es)) am) = RewindToSnapshot (run_iterator (source_of es) am)"
    using Cons.prems by (subst RewindToSnapshot.simps) (simp add: run_iterator_def source_of_def source_Next_def)
  with Cons show ?case by simp
qed

lemma gap_Next:
  assumes "aggregateModel_Update am e = (am', ign, True)"
    and "list_all (\<lambda>x. same_aggregate am x \<and> \<not> eu_IsSnapshot x) es"
  shows "iterator_Next (new_iterator (source_of es) e am) =
     (run_iterator (source_of []\<lparr>src_done := True\<rparr>) am
        \<lparr>i_reload := Some \<lparr>vq_GroupID = eu_GroupID e, vq_AggregateID = eu_AggregateID e, vq_Version = am_version am\<rparr>\<rparr>, None)"
proof -
  have "am' = am" using assms(1) by (auto simp: aggregateModel_Update_def split: if_splits)
  then have "new_iterator (source_of es) e am\<lparr>i_firstEvent := None, i_model := am'\<rparr> = run_iterator (source_of es) am"
    by (simp add: new_iterator_def run_iterator_def)
  with assms(1) RewindToSnapshot_none [OF assms(2), unfolded run_iterator_def] \<open>am' = am\<close> show ?thesis
    by (simp add: iterator_Next_def new_iterator_def run_iterator_def Let_def)
qed

lemma finish_reload:
  "finish_run (run_iterator (source_of []\<lparr>src_done := True\<rparr>) am\<lparr>i_reload := q\<rparr>) =
     run_iterator (source_of []\<lparr>src_done := True\<rparr>) am\<lparr>i_reload := q\<rparr>"
  by (simp add: finish_run_def iterator_Next_def run_iterator_def, subst RewindIgnore.simps)
    (simp add: source_of_def source_Next_def)

definition leaves_gap :: "'m aggregateModel \<Rightarrow> EventUnmarshaler \<Rightarrow> bool" where
  "leaves_gap am e \<longleftrightarrow> same_aggregate am e \<and> \<not> eu_IsSnapshot e \<and> am_version am < eu_Version e \<and> eu_Version e \<noteq> am_version am + 1"

lemma Update_gap: "leaves_gap am e \<Longrightarrow> aggregateModel_Update am e = (am, False, True)"
  by (auto simp: aggregateModel_Update_def leaves_gap_def)

lemma gap_handle:
  assumes "models_filed p" and "lookup_model p g a = Some am" and "leaves_gap am e"
    and "list_all (\<lambda>x. same_aggregate am x \<and> \<not> eu_IsSnapshot x) es"
  shows "projection_handle step factoryModel n p (source_of (e # es)) =
     (n, p, Inr [\<lparr>vq_GroupID = g, vq_AggregateID = a, vq_Version = am_version am\<rparr>])"
proof -
  have ids: "eu_GroupID e = g" "eu_AggregateID e = a" "am_groupID am = g" "am_aggregateID am = a"
    using assms(1-3) by (auto simp: leaves_gap_def same_aggregate_def models_filed_def)
  let ?q = "\<lparr>vq_GroupID = g, vq_AggregateID = a, vq_Version = am_version am\<rparr>"
  have "model_Handle step n (new_iterator (source_of es) e am) =
      (n, run_iterator (source_of []\<lparr>src_done := True\<rparr>) am\<lparr>i_reload := Some ?q\<rparr>, Inr ())"
    using gap_Next [OF Update_gap [OF assms(3)] assms(4)] ids
    by (subst model_Handle.simps) (simp add: iterator_Err_def source_Err_def source_of_def)
  moreover have "getModel factoryModel p (eu_GroupID e) (eu_AggregateID e) = (p, Inr am)"
    using assms(2) ids by (simp add: getModel_known)
  moreover have "store_model p am = p" using assms(2) ids by (simp add: store_model_lookup)
  ultimately show ?thesis
    by (simp add: projection_handle_Cons handle_loop_continue continue_loop_def finish_reload Let_def)
qed


text \<open>A gap inside a run of a batch is not noticed: after an event that follows the model, one that leaves
  a gap is handed to the model all the same. The version of the model stays behind and no reload is asked for.
\<close>

theorem gap_inside_run_applied:
  assumes "models_filed p" and "lookup_model p g a = Some am" and "am_hasSnapshot am" and "follows am [e1]"
    and "leaves_gap (am\<lparr>am_version := eu_Version e1\<rparr>) e2" and "eu_EventType e2 \<noteq> []"
    and "iterate_events step n (am_model am) [e1, e2] None = (m, Inr ())"
  shows "projection_handle step factoryModel n p (source_of [e1, e2]) =
           (n + 2, store_model p (am\<lparr>am_model := m, am_version := eu_Version e1\<rparr>), Inr [])"
proof -
  let ?am = "am\<lparr>am_version := eu_Version e1\<rparr>"
  have ids: "eu_GroupID e1 = g" "eu_AggregateID e1 = a" "am_groupID am = g" "am_aggregateID am = a" "same_aggregate am e1"
    using assms(1,2,4) by (auto simp: same_aggregate_def models_filed_def)
  have up1: "aggregateModel_Update am e1 = (?am, False, False)" using assms(3,4) Update_next [of am e1] by simp
  obtain m1 where st1: "step n (am_model am) e1 = (m1, Inr ())" and st2: "step (Suc n) m1 e2 = (m, Inr ())"
    using assms(4,6,7) by (auto split: prod.splits sum.splits)
  have up2: "aggregateModel_Update (?am\<lparr>am_model := m1\<rparr>) e2 = (?am\<lparr>am_model := m1\<rparr>, False, True)"
    using assms(5) by (intro Update_gap) (simp add: leaves_gap_def same_aggregate_def)
  have same2: "same_aggregate (?am\<lparr>am_model := m1\<rparr>) e2" using assms(5) by (simp add: leaves_gap_def same_aggregate_def)
  have "model_Handle step n (new_iterator (source_of [e2]) e1 am) = model_Handle step n (run_iterator (source_of [e1, e2]) am)"
    using Handle_first [OF up1 ids(5), of step n "source_of [e2]"] by (simp add: source_of_def)
  also have "\<dots> = model_Handle step (Suc n) (run_iterator (source_of [e2]) (?am\<lparr>am_model := m1\<rparr>))"
    using run_handed [where step = step, OF ids(5) up1] assms(4) st1 by simp
  also have "\<dots> = model_Handle step (Suc (Suc n)) (run_iterator (source_of []) (?am\<lparr>am_model := m\<rparr>))"
    using run_handed [where step = step, OF same2 up2] assms(6) st2 by simp
  finally have "model_Handle step n (new_iterator (source_of [e2]) e1 am) =
      (Suc (Suc n), run_iterator (source_of []\<lparr>src_done := True\<rparr>) (?am\<lparr>am_model := m\<rparr>), Inr ())"
    by (simp add: run_end)
  moreover have "getModel factoryModel p (eu_GroupID e1) (eu_AggregateID e1) = (p, Inr am)"
    using assms(2) ids by (simp add: getModel_known)
  moreover have "?am\<lparr>am_model := m\<rparr> = am\<lparr>am_model := m, am_version := eu_Version e1\<rparr>" by simp
  ultimately show ?thesis
    by (simp add: projection_handle_Cons handle_loop_continue)
qed

section \<open>Sample inputs\<close>

text \<open>A model that records the versions it is handed, with one aggregate at version 3.\<close>

definition ex_step :: "u64 list model_step" where
  "ex_step n m e = (m @ [eu_Version e], Inr ())"

definition ex_factory :: "string \<Rightarrow> string \<Rightarrow> u64 list res" where
  "ex_factory g a = Inr []"

definition ex_eu :: "string \<Rightarrow> u64 \<Rightarrow> bool \<Rightarrow> EventUnmarshaler" where
  "ex_eu a v snap = \<lparr>eu_Version = v, eu_EventType = ''resourcechanged'', eu_AggregateID = a, eu_GroupID = ''g'',
     eu_IsSnapshot = snap, eu_Timestamp = 1, eu_Payload = Inl (Errorf ''no payload'' [])\<rparr>"

definition ex_am :: "u64 list aggregateModel" where
  "ex_am = \<lparr>am_groupID = ''g'', am_aggregateID = ''a'', am_model = [3], am_version = 3, am_hasSnapshot = True\<rparr>"

definition ex_projection :: "u64 list Projection" where
  "ex_projection = \<lparr>p_aggregateModels = [(''g'', [(''a'', ex_am)])]\<rparr>"

lemma ex_filed: "models_filed ex_projection"
  by (auto simp: models_filed_def lookup_model_def ex_projection_def ex_am_def split: if_splits option.splits)

lemmas ex_projection_defs = ex_step_def ex_factory_def ex_eu_def ex_am_def ex_projection_def apply_event_def getModel_def
  lookup_model_def store_model_def aggregateModel_Update_def known_to_def leaves_gap_def same_aggregate_def Let_def

theorem projection_refines_one_by_one_witness:
  "projection_handle ex_step ex_factory 0 ex_projection
     (source_of [ex_eu ''a'' 4 False, ex_eu ''b'' 0 True, ex_eu ''a'' 2 False, ex_eu ''b'' 1 False]) =
   (3, \<lparr>p_aggregateModels = [(''g'', [(''a'', ex_am\<lparr>am_model := [3, 4], am_version := 4\<rparr>),
      (''b'', \<lparr>am_groupID = ''g'', am_aggregateID = ''b'', am_model = [0, 1], am_version = 1, am_hasSnapshot = True\<rparr>)])]\<rparr>, Inr [])"
  by (rule projection_refines_one_by_one [OF ex_filed]) (simp add: ex_projection_defs)



theorem gap_inside_run_applied_witness:
  "projection_handle ex_step ex_factory 0 ex_projection (source_of [ex_eu ''a'' 4 False, ex_eu ''a'' 6 False]) =
     (0 + 2, store_model ex_projection (ex_am\<lparr>am_model := [3, 4, 6], am_version := eu_Version (ex_eu ''a'' 4 False)\<rparr>), Inr [])"
  by (rule gap_inside_run_applied [OF ex_filed, of "''g''" "''a''"]) (simp_all add: ex_projection_defs)

end
