(* ===== verification/Aggregate_Properties.thy ===== *)
theory Aggregate_Properties
  imports Aggregate Projection_Properties
begin

text \<open>
  Optimistic concurrency. The contract \<open>snapshot_store\<close> says what the event stores promise about the
  latest snapshot of an aggregate, \<open>aggregate_model\<close> what the models promise about the versions they are
  given. Under both, a command that is answered with events has been handled on the state that was in the store when they were
  saved, whatever other writers did meanwhile.
\<close>

section \<open>Loading one snapshot\<close>

definition wrapper_of :: "'m model_step \<Rightarrow> 'm \<Rightarrow> EventUnmarshaler option \<Rightarrow> 'm AggregateModelWrapper" where
  "wrapper_of step model s =
     (let w = \<lparr>w_model = model, w_lastVersion = 0, w_loaded = False\<rparr> in
      case s of None \<Rightarrow> w | Some e \<Rightarrow> fst (wrapper_step step 0 w e))"

lemma getModel_new:
  assumes "f g a = Inr m"
  shows "getModel f NewProjection g a =
     (store_model (\<lparr>p_aggregateModels = [(g, [])]\<rparr>)
        \<lparr>am_groupID = g, am_aggregateID = a, am_model = m, am_version = 0, am_hasSnapshot = False\<rparr>,
      Inr \<lparr>am_groupID = g, am_aggregateID = a, am_model = m, am_version = 0, am_hasSnapshot = False\<rparr>)"
  using assms by (simp add: getModel_def NewProjection_def lookup_model_def Let_def)

lemma models_filed_new: "models_filed NewProjection"
  by (simp add: models_filed_def NewProjection_def lookup_model_def)

lemma project_none:
  "projection_handle step f n p (source_of []) = (n, p, Inr [])"
  by (simp add: projection_handle_def source_of_def source_Next_def source_Err_def)

lemma project_snapshot:
  assumes "f (eu_GroupID e) (eu_AggregateID e) = Inr m" and "eu_IsSnapshot e"
    and "projection_handle step f n NewProjection (source_of [e]) = (n', p', Inr qs)"
  shows "\<exists>m' u. step n m e = (m', Inr u) \<and>
     lookup_model p' (eu_GroupID e) (eu_AggregateID e) =
       Some \<lparr>am_groupID = eu_GroupID e, am_aggregateID = eu_AggregateID e, am_model = m',
             am_version = eu_Version e, am_hasSnapshot = True\<rparr>"
proof -
  let ?g = "eu_GroupID e" and ?a = "eu_AggregateID e"
  let ?am = "\<lparr>am_groupID = ?g, am_aggregateID = ?a, am_model = m, am_version = 0, am_hasSnapshot = False\<rparr>"
  let ?am1 = "?am\<lparr>am_version := eu_Version e, am_hasSnapshot := True\<rparr>"
  let ?p = "store_model (\<lparr>p_aggregateModels = [(?g, [])]\<rparr>) ?am"
  note gm = getModel_new [of f ?g ?a, OF assms(1)]
  have up: "aggregateModel_Update ?am e = (?am1, False, False)" using assms(2) by (simp add: aggregateModel_Update_def)
  have same: "same_aggregate ?am e" by (simp add: same_aggregate_def)
  have nx: "iterator_Next (run_iterator (source_of [e]) ?am) = (run_iterator (source_of []) ?am1, Some e)"
    using up same by (simp add: iterator_Next_def run_iterator_def)
      (subst RewindIgnore.simps, simp add: source_of_def source_Next_def)
  have "model_Handle step n (new_iterator (source_of []) e ?am) = model_Handle step n (run_iterator (source_of [e]) ?am)"
    using Handle_first [OF up same, of step n "source_of []"] by (simp add: source_of_def)
  then have handle: "projection_handle step f n NewProjection (source_of [e]) =
      continue_loop step f ?p [] (model_Handle step n (run_iterator (source_of [e]) ?am))"
    by (simp add: projection_handle_Cons handle_loop_continue [OF gm])
  obtain m' r where st: "step n m e = (m', r)" by fastforce
  have typed: "eu_EventType e \<noteq> []"
    using assms(3) handle nx by (auto simp: model_Handle.simps [of step n] continue_loop_def)
  show ?thesis
  proof (cases r)
    case (Inl err)
    with assms(3) handle nx st typed show ?thesis
      by (simp add: model_Handle.simps [of step n] continue_loop_def)
  next
    case (Inr u)
    then have "model_Handle step n (run_iterator (source_of [e]) ?am) =
        model_Handle step (Suc n) (run_iterator (source_of []) (?am1\<lparr>am_model := m'\<rparr>))"
      using run_handed [where step = step, OF same up typed] st by simp
    with handle assms(3) Inr st show ?thesis by (auto simp: run_end)
  qed
qed

section \<open>Other writers\<close>

text \<open>
  What the other writers may do: keep the snapshot of the aggregate or replace it by one with a greater
  version. An aggregate that is deleted meanwhile is out of this contract.
\<close>

definition advances ::
    "('st \<Rightarrow> string \<Rightarrow> string \<Rightarrow> EventUnmarshaler option) \<Rightarrow> string \<Rightarrow> string \<Rightarrow> 'st \<Rightarrow> 'st \<Rightarrow> bool" where
  "advances snap g a st st' \<longleftrightarrow>
     snap st' g a = snap st g a \<or>
     (\<exists>e'. snap st' g a = Some e' \<and> (case snap st g a of None \<Rightarrow> True | Some e \<Rightarrow> eu_Version e < eu_Version e'))"

definition fair ::
    "('st \<Rightarrow> bool) \<Rightarrow> ('st \<Rightarrow> string \<Rightarrow> string \<Rightarrow> EventUnmarshaler option) \<Rightarrow> string \<Rightarrow> string \<Rightarrow> (nat \<Rightarrow> 'st \<Rightarrow> 'st) \<Rightarrow> bool" where
  "fair good snap g a others \<longleftrightarrow> (\<forall>k st. good st \<longrightarrow> good (others k st) \<and> advances snap g a st (others k st))"

lemma fairD: "fair good snap g a others \<Longrightarrow> good st \<Longrightarrow> good (others k st) \<and> advances snap g a st (others k st)"
  by (simp add: fair_def)

section \<open>What a store promises\<close>

text \<open>
  \<open>snap st g a\<close> is the latest snapshot of an aggregate as it would be loaded, \<open>good\<close> an invariant of the
  store, \<open>known\<close> the identifiers it accepts.
\<close>

locale snapshot_store =
  fixes store :: "'st EventStore"
    and snap :: "'st \<Rightarrow> string \<Rightarrow> string \<Rightarrow> EventUnmarshaler option"
    and good :: "'st \<Rightarrow> bool"
    and known :: "string \<Rightarrow> string \<Rightarrow> bool"
    and U :: uuid_pkg
  assumes load_snap: "good st \<Longrightarrow> known g a \<Longrightarrow>
      (\<exists>s err. es_LoadFromSnapshot store st [\<lparr>sq_GroupID = g, sq_AggregateID = a, sq_Types = []\<rparr>] = Inr [Scanned s (Some err)]) \<or>
      es_LoadFromSnapshot store st [\<lparr>sq_GroupID = g, sq_AggregateID = a, sq_Types = []\<rparr>] =
        Inr [Scanned (source_of (case snap st g a of None \<Rightarrow> [] | Some e \<Rightarrow> [e])) None]"
    and snap_event: "good st \<Longrightarrow> snap st g a = Some e \<Longrightarrow> eu_GroupID e = g \<and> eu_AggregateID e = a \<and> eu_IsSnapshot e"
    and save_good: "good st \<Longrightarrow> es_Save store st evs = (st', r) \<Longrightarrow> good st'"
    and save_ok: "good st \<Longrightarrow> es_Save store st evs = (st', Inr Save_Ok) \<Longrightarrow>
      ev_GroupID (as_Event U (last evs)) = g \<Longrightarrow> ev_AggregateID (as_Event U (last evs)) = a \<Longrightarrow>
      evs \<noteq> [] \<and>
      (case snap st g a of
         None \<Rightarrow> ev_Version (as_Event U (hd evs)) = 0
       | Some e \<Rightarrow> ev_Version (as_Event U (hd evs)) \<noteq> 0 \<and> eu_Version e = ev_Version (as_Event U (hd evs)) - 1) \<and>
      (\<exists>e. snap st' g a = Some e \<and> eu_Version e = ev_Version (as_Event U (last evs)) \<and> eu_Payload e = Inr (last evs))"
    and save_refused: "good st \<Longrightarrow> es_Save store st evs = (st', Inr status) \<Longrightarrow> status \<noteq> Save_Ok \<Longrightarrow> snap st' = snap st"
begin

text \<open>Between a load and a save that succeeds the snapshot has not changed.\<close>

lemma same_snapshot:
  assumes "good st1" and "advances snap g a st0 st1" and "es_Save store st1 evs = (st', Inr Save_Ok)"
    and "ev_GroupID (as_Event U (last evs)) = g" and "ev_AggregateID (as_Event U (last evs)) = a"
    and "ev_Version (as_Event U (hd evs)) = (case snap st0 g a of None \<Rightarrow> 0 | Some e \<Rightarrow> eu_Version e + 1)"
  shows "snap st1 g a = snap st0 g a"
  using save_ok [OF assms(1,3-5)] assms(2,6)
  by (auto simp: advances_def split: option.splits)

lemma loaded_wrapper:
  assumes "good st" and "known (ag_groupID ag) (ag_aggregateID ag)" and "ag_store ag = store"
    and "ag_factoryModel ag cell (ag_groupID ag) (ag_aggregateID ag) = Inr model"
    and "NewAggregateModel ag M cell st = Inr w" and "ag_additionalModels ag = []"
  shows "w = wrapper_of (mod_step M) model (snap st (ag_groupID ag) (ag_aggregateID ag))"
proof -
  let ?g = "ag_groupID ag" and ?a = "ag_aggregateID ag"
  let ?w = "\<lparr>w_model = model, w_lastVersion = 0, w_loaded = False\<rparr>"
  let ?f = "\<lambda>(_ :: string) x. if x = ?a then Inr ?w else
      Inl (Errorf ''cannot create aggregate model for %v %v : not found'' [?g, ?a])"
  let ?load = "es_LoadFromSnapshot store st [\<lparr>sq_GroupID = ?g, sq_AggregateID = ?a, sq_Types = []\<rparr>]"
  let ?run = "run_load (handler_of (wrapper_step (mod_step M)) ?f) (0, NewProjection) ?load"
  have result: "case ?run of (_, Inl err) \<Rightarrow> False
      | ((_, p), Inr _) \<Rightarrow> w = (case lookup_model p ?g ?a of None \<Rightarrow> ?w | Some am \<Rightarrow> am_model am)"
    using assms(3-6) by (auto simp: NewAggregateModel_def loaded_model_def Project_def Let_def cong: if_cong split: prod.splits sum.splits)
  have "\<not> (\<exists>s err. ?load = Inr [Scanned s (Some err)])"
    using result by (auto simp: run_load_def split: prod.splits sum.splits)
  then have load: "?load = Inr [Scanned (source_of (case snap st ?g ?a of None \<Rightarrow> [] | Some e \<Rightarrow> [e])) None]"
    using load_snap [OF assms(1,2)] by blast
  show ?thesis
  proof (cases "snap st ?g ?a")
    case None
    with result load show ?thesis
      by (simp add: run_load_def handler_of_def Projection_Handle_def project_none wrapper_of_def NewProjection_def lookup_model_def)
  next
    case (Some e)
    note ids = snap_event [OF assms(1) Some]
    obtain n' p' r where ph: "projection_handle (wrapper_step (mod_step M)) ?f 0 NewProjection (source_of [e]) = (n', p', r)"
      by (metis prod_cases3)
    obtain qs where r: "r = Inr qs"
      using result load Some ph by (cases r) (auto simp: run_load_def handler_of_def Projection_Handle_def)
    obtain w' u where st: "wrapper_step (mod_step M) 0 ?w e = (w', Inr u)"
        and lk: "lookup_model p' ?g ?a = Some \<lparr>am_groupID = ?g, am_aggregateID = ?a, am_model = w', am_version = eu_Version e, am_hasSnapshot = True\<rparr>"
      using project_snapshot [of ?f e ?w "wrapper_step (mod_step M)" 0 n' p' qs] ids ph r by auto
    have "w = w'"
      using result load Some ph r lk by (simp add: run_load_def handler_of_def Projection_Handle_def)
    with st Some show ?thesis by (simp add: wrapper_of_def)
  qed
qed

end

section \<open>What a model promises\<close>

text \<open>
  For commands \<open>cmd_ok\<close> on models \<open>mine\<close>: the first event of an answer has the version the handler was
  given, and the snapshot taken after it the version it was asked for and the identifiers of the aggregate.
\<close>

locale aggregate_model =
  fixes M :: "('m, 'cmd) AggregateModel"
    and g :: string and a :: string
    and mine :: "'m \<Rightarrow> bool" and cmd_ok :: "'cmd \<Rightarrow> bool"
    and U :: uuid_pkg
  assumes step_mine: "mine m \<Longrightarrow> mine (fst (mod_step M n m e))"
    and command_mine: "mine m \<Longrightarrow> cmd_ok cmd \<Longrightarrow> mod_HandleCommand M k m cmd v = (m', cmd', r) \<Longrightarrow> mine m' \<and> cmd_ok cmd'"
    and command_version: "mine m \<Longrightarrow> cmd_ok cmd \<Longrightarrow> mod_HandleCommand M k m cmd v = (m', cmd', Inr evs) \<Longrightarrow> evs \<noteq> [] \<Longrightarrow>
      ev_Version (as_Event U (hd evs)) = v"
    and snapshot_of: "mine m \<Longrightarrow> cmd_ok cmd \<Longrightarrow> mod_HandleCommand M k m cmd v = (m', cmd', Inr evs) \<Longrightarrow> evs \<noteq> [] \<Longrightarrow>
      mod_TakeSnapshot M k m' version = Some s \<Longrightarrow>
      ev_GroupID (as_Event U s) = g \<and> ev_AggregateID (as_Event U s) = a \<and> ev_Version (as_Event U s) = version"
begin

lemma wrapper_mine: "mine model \<Longrightarrow> mine (w_model (wrapper_of (mod_step M) model s))"
  using step_mine [of model 0]
  by (auto simp: wrapper_of_def wrapper_step_def aggrIterator_Next_def Let_def split: option.splits prod.splits)
    (metis fst_conv)

text \<open>The version of the first event that is saved.\<close>

lemma saved_version:
  assumes "mine m" and "cmd_ok cmd" and "mod_HandleCommand M k m cmd v = (m', cmd', Inr evs)" and "evs \<noteq> []"
    and "mod_TakeSnapshot M k m' (v + of_nat (length evs - 1)) = Some s"
  shows "ev_Version (as_Event U (hd (take (length evs - 1) evs @ [s]))) = v"
proof (cases "length evs = 1")
  case True
  with snapshot_of [OF assms] show ?thesis by simp
next
  case False
  then have "hd (take (length evs - 1) evs @ [s]) = hd evs"
    using assms(4) by (cases evs) (auto simp: neq_Nil_conv)
  with command_version [OF assms(1-4)] show ?thesis by simp
qed

end

section \<open>Commands are handled one after the other\<close>

lemma newVersion_wrapper:
  "newVersion_of (wrapper_of step model s) = (case s of None \<Rightarrow> 0 | Some e \<Rightarrow> eu_Version e + 1)"
  by (auto simp: newVersion_of_def wrapper_of_def wrapper_step_def aggrIterator_Next_def Let_def split: option.splits prod.splits)

text \<open>
  A command is committed from \<open>st1\<close> to \<open>st'\<close>: it is handled on the model loaded from the snapshot that is in the store
  when its events are saved, and the snapshot taken after it replaces that one.
\<close>

definition commits ::
    "('m, 'cmd) AggregateModel \<Rightarrow> 'm \<Rightarrow> EventUnmarshaler option \<Rightarrow> nat \<Rightarrow> 'cmd \<Rightarrow> any_event list \<Rightarrow> EventUnmarshaler option \<Rightarrow> bool" where
  "commits M model before k cmd evs after \<longleftrightarrow>
     (\<exists>m cmd' s e.
        mod_HandleCommand M k (w_model (wrapper_of (mod_step M) model before)) cmd
          (case before of None \<Rightarrow> 0 | Some e \<Rightarrow> eu_Version e + 1) = (m, cmd', Inr evs) \<and>
        mod_TakeSnapshot M k m ((case before of None \<Rightarrow> 0 | Some e \<Rightarrow> eu_Version e + 1) + of_nat (length evs - 1)) = Some s \<and>
        after = Some e \<and> eu_Payload e = Inr s \<and>
        eu_Version e = (case before of None \<Rightarrow> 0 | Some e \<Rightarrow> eu_Version e + 1) + of_nat (length evs - 1))"

locale optimistic_aggregate = snapshot_store store snap good known U + aggregate_model M g a mine cmd_ok U
  for store :: "'st EventStore" and snap good known U and M :: "('m, 'cmd) AggregateModel" and g a mine cmd_ok +
  assumes known: "known g a"
begin

lemma attempt_commits:
  assumes "ag_store ag = store" and "ag_groupID ag = g" and "ag_aggregateID ag = a" and alone: "ag_additionalModels ag = []"
    and factory: "ag_factoryModel ag cell g a = Inr model" and "mine model" and "cmd_ok cmd"
    and "good st" and fair: "fair good snap g a others"
    and run: "attempt ag M others k st cell cmd = (st', m, cmd', Some (Inr evs))" and "evs \<noteq> []"
  shows "\<exists>st1 saved. good st1 \<and> es_Save store st1 saved = (st', Inr Save_Ok) \<and>
     commits M model (snap st1 g a) k cmd evs (snap st' g a)"
proof -
  let ?st0 = "others (2 * k) st" and ?st1 = "others (2 * k + 1) (others (2 * k) st)"
  have good: "good ?st0" "good ?st1" and adv: "advances snap g a ?st0 ?st1"
    using fairD [OF fair] \<open>good st\<close> by blast+
  obtain w where w: "NewAggregateModel ag M cell ?st0 = Inr w"
    using run by (auto simp: attempt_def Let_def split: sum.splits)
  have wo: "w = wrapper_of (mod_step M) model (snap ?st0 g a)"
    using loaded_wrapper [OF good(1) _ assms(1), of cell model M w] known factory w assms(2,3) alone by simp
  let ?v = "newVersion_of w"
  have hc: "HandleCommandWithAggregateModelWrapper ag M k ?st1 cmd w = (st', m, cmd', Inr (evs, False))"
    using run w by (auto simp: attempt_def Let_def split: prod.splits sum.splits if_splits)
  obtain s where cmd: "mod_HandleCommand M k (w_model w) cmd ?v = (m, cmd', Inr evs)"
      and snapshot: "mod_TakeSnapshot M k m (?v + of_nat (length evs - 1)) = Some s"
      and save: "es_Save store ?st1 (take (length evs - 1) evs @ [s]) = (st', Inr Save_Ok)"
    using hc \<open>evs \<noteq> []\<close> assms(1)
    by (auto simp: HandleCommandWithAggregateModelWrapper_def Let_def split: prod.splits sum.splits if_splits option.splits SaveStatus.splits)
  have mine: "mine (w_model w)" using wrapper_mine [OF \<open>mine model\<close>] wo by simp
  note s = snapshot_of [OF mine \<open>cmd_ok cmd\<close> cmd \<open>evs \<noteq> []\<close> snapshot]
  have v: "?v = (case snap ?st0 g a of None \<Rightarrow> 0 | Some e \<Rightarrow> eu_Version e + 1)" by (simp add: wo newVersion_wrapper)
  have same: "snap ?st1 g a = snap ?st0 g a"
    using same_snapshot [OF good(2) adv save] s v saved_version [OF mine \<open>cmd_ok cmd\<close> cmd \<open>evs \<noteq> []\<close> snapshot] by simp
  obtain e where "snap st' g a = Some e" and "eu_Version e = ev_Version (as_Event U s)" and "eu_Payload e = Inr s"
    using save_ok [OF good(2) save, of g a] s by auto
  then have "commits M model (snap ?st1 g a) k cmd evs (snap st' g a)"
    unfolding commits_def same v [symmetric] using cmd snapshot s wo by auto
  with good(2) save show ?thesis by blast
qed

text \<open>An attempt that is repeated leaves a store in order and a command of the same kind.\<close>

lemma attempt_again:
  assumes "ag_store ag = store" and "ag_groupID ag = g" and "ag_aggregateID ag = a" and alone: "ag_additionalModels ag = []"
    and factory: "ag_factoryModel ag cell g a = Inr model" and "mine model" and "cmd_ok cmd"
    and "good st" and fair: "fair good snap g a others"
    and run: "attempt ag M others k st cell cmd = (st', m, cmd', None)"
  shows "good st' \<and> cmd_ok cmd'"
proof -
  let ?st0 = "others (2 * k) st" and ?st1 = "others (2 * k + 1) (others (2 * k) st)"
  have good: "good ?st0" "good ?st1" using fairD [OF fair] \<open>good st\<close> by blast+
  obtain w where w: "NewAggregateModel ag M cell ?st0 = Inr w"
    using run by (auto simp: attempt_def Let_def split: sum.splits)
  have "w = wrapper_of (mod_step M) model (snap ?st0 g a)"
    using loaded_wrapper [OF good(1) _ assms(1), of cell model M w] known factory w assms(2,3) alone by simp
  then have mine: "mine (w_model w)" using wrapper_mine [OF \<open>mine model\<close>] by simp
  obtain evs where hc: "HandleCommandWithAggregateModelWrapper ag M k ?st1 cmd w = (st', m, cmd', Inr (evs, True))"
    using run w by (auto simp: attempt_def Let_def split: prod.splits sum.splits if_splits)
  obtain r evs' status where cmd: "mod_HandleCommand M k (w_model w) cmd (newVersion_of w) = (m, cmd', r)"
      and save: "es_Save store ?st1 evs' = (st', Inr status)"
    using hc assms(1)
    by (auto simp: HandleCommandWithAggregateModelWrapper_def Let_def split: prod.splits sum.splits if_splits option.splits SaveStatus.splits)
  show ?thesis using save_good [OF good(2) save] command_mine [OF mine \<open>cmd_ok cmd\<close> cmd] by simp
qed

text \<open>
  The same for the loop: whichever attempt is the last one, the command as the attempts before left it is
  committed on the current snapshot. The factory gives a model of the aggregate for every model an attempt may leave.
\<close>

lemma loop_commits:
  assumes ag: "ag_store ag = store" "ag_groupID ag = g" "ag_aggregateID ag = a" "ag_additionalModels ag = []"
    and factory: "\<And>cell. \<exists>model. ag_factoryModel ag cell g a = Inr model \<and> mine model"
    and fair: "fair good snap g a others"
    and "HandleCommand ag M others canceled r st cell cmd = Some (st', Inr evs)" and "evs \<noteq> []"
    and "cmd_ok cmd" and "good st"
  shows "\<exists>st1 saved model k cmd'. good st1 \<and> es_Save store st1 saved = (st', Inr Save_Ok) \<and> (\<exists>cell. ag_factoryModel ag cell g a = Inr model) \<and> cmd_ok cmd' \<and> commits M model (snap st1 g a) k cmd' evs (snap st' g a)"
proof -
  obtain m' where run: "HandleCommand_model ag M others canceled r st cell cmd = Some (st', m', Inr evs)"
    using assms(7) by (auto simp: HandleCommand_def)
  have "cmd_ok cmd \<and> good st \<longrightarrow>
      (\<exists>st1 saved model k cmd'. good st1 \<and> es_Save store st1 saved = (st', Inr Save_Ok) \<and> (\<exists>cell. ag_factoryModel ag cell g a = Inr model) \<and> cmd_ok cmd' \<and> commits M model (snap st1 g a) k cmd' evs (snap st' g a))"
    using run unfolding HandleCommand_model_def
  proof (rule HandleCommand_attempts)
    fix k st cell cmd cmd'
    assume run: "attempt ag M others k st cell cmd = (st', m', cmd', Some (Inr evs))"
    obtain model where "ag_factoryModel ag cell g a = Inr model" and "mine model" using factory by blast
    then show "cmd_ok cmd \<and> good st \<longrightarrow>
      (\<exists>st1 saved model k cmd'. good st1 \<and> es_Save store st1 saved = (st', Inr Save_Ok) \<and> (\<exists>cell. ag_factoryModel ag cell g a = Inr model) \<and> cmd_ok cmd' \<and> commits M model (snap st1 g a) k cmd' evs (snap st' g a))"
      using attempt_commits [OF ag _ _ _ _ fair run \<open>evs \<noteq> []\<close>] by blast
  next
    fix k st cell cmd st1 m cmd'
    assume run: "attempt ag M others k st cell cmd = (st1, m, cmd', None)"
      and IH: "cmd_ok cmd' \<and> good st1 \<longrightarrow>
      (\<exists>st1 saved model k cmd'. good st1 \<and> es_Save store st1 saved = (st', Inr Save_Ok) \<and> (\<exists>cell. ag_factoryModel ag cell g a = Inr model) \<and> cmd_ok cmd' \<and> commits M model (snap st1 g a) k cmd' evs (snap st' g a))"
    obtain model where "ag_factoryModel ag cell g a = Inr model" and "mine model" using factory by blast
    then have "cmd_ok cmd \<and> good st \<longrightarrow> cmd_ok cmd' \<and> good st1"
      using attempt_again [OF ag _ _ _ _ fair run] by blast
    with IH show "cmd_ok cmd \<and> good st \<longrightarrow>
      (\<exists>st1 saved model k cmd'. good st1 \<and> es_Save store st1 saved = (st', Inr Save_Ok) \<and> (\<exists>cell. ag_factoryModel ag cell g a = Inr model) \<and> cmd_ok cmd' \<and> commits M model (snap st1 g a) k cmd' evs (snap st' g a))"
      by blast
  qed
  with assms(9,10) show ?thesis by blast
qed

end

end
