(* ===== verification/Cql_Store_Properties.thy ===== *)
theory Cql_Store_Properties
  imports Cql_Store Aggregate_Properties Pending_Commands
begin

text \<open>
  The store on Cassandra keeps the contract of the event store, for every session that behaves as documented:
  a save replaces the snapshot of the aggregate when it still has the preceding version, and a load returns the
  snapshot that was saved last.
\<close>

section \<open>The columns of a saved event\<close>

lemma kvs_lookup [simp]:
  "map_of (eventToKeyValues e b data) versionKey = Some (Cql_int (uint (ev_Version e)))"
  "map_of (eventToKeyValues e b data) timestampKey = Some (Cql_int (time_UnixNano (ev_Timestamp e)))"
  "map_of (eventToKeyValues e b data) snapshotKey = Some (Cql_blob data)"
  "map_of (eventToKeyValues e b data) deviceIDKey = (if b then Some (Cql_uuid (ev_GroupID e)) else None)"
  "map_of (eventToKeyValues e b data) idKey = (if b then Some (Cql_uuid (ev_AggregateID e)) else None)"
  "map_of (eventToKeyValues e b data) eventTypeKey = (if b then Some (Cql_text (ev_EventType e)) else None)"
  by (auto simp: eventToKeyValues_def key_defs split: prod.splits option.splits)

lemma row_ok_update:
  assumes "row_ok g a row"
  shows "row_ok g a (row ++ map_of (eventToKeyValues e False data))"
  using assms unfolding row_ok_def map_add_def by auto

lemma row_ok_insert:
  assumes "ev_EventType e \<noteq> []"
  shows "row_ok (ev_GroupID e) (ev_AggregateID e) (map_of (eventToKeyValues e True data))"
  using assms unfolding row_ok_def by auto

lemma table_ok_update:
  "table_ok T \<Longrightarrow> update_applies T (eventToKeyValues e False data) (g, a) v T' \<Longrightarrow> table_ok T'"
  by (auto simp: table_ok_def update_applies_def row_ok_update split: if_splits)

lemma table_ok_insert:
  assumes "table_ok T" and "insert_applies T (eventToKeyValues e True data) T'" and "ev_EventType e \<noteq> []"
  shows "table_ok T'"
  using assms row_ok_insert [OF assms(3)] by (auto simp: table_ok_def insert_applies_def)

text \<open>What is read back from a row that was just written.\<close>

lemma snapshot_of_row:
  assumes "T (g, a) = Some row" and "row_ok g a row"
    and "row versionKey = Some (Cql_int (uint v))" and "row snapshotKey = Some (Cql_blob data)"
  shows "\<exists>e. cql_snapshot C T g a = Some e \<and> eu_Version e = v \<and> eu_Payload e = codec_unmarshal C data"
  using assms by (auto simp: cql_snapshot_def cql_Next_def row_ok_def NewLoadedEvent_def word_uint_eq_iff)

lemma snapshot_version:
  assumes "T (g, a) = Some row" and "row_ok g a row" and "row versionKey = Some (Cql_int (uint v))"
  shows "\<exists>e. cql_snapshot C T g a = Some e \<and> eu_Version e = v"
proof -
  obtain data where "row snapshotKey = Some (Cql_blob data)" using assms(2) unfolding row_ok_def by blast
  from snapshot_of_row [of T g a row, OF assms this] show ?thesis by blast
qed

section \<open>One save\<close>

lemma getLatest_ok:
  assumes "getLatestEventsSnapshot U C evs = Inr (e, data)"
  shows "evs \<noteq> []" and "e = as_Event U (last evs)" and "codec_marshal C (last evs) = Inr data"
  using assms by (auto simp: getLatestEventsSnapshot_def Let_def last_conv_nth split: if_splits sum.splits)

lemma validated:
  assumes "ValidateEventsBeforeSave U (map (\<lambda>e. Some (as_Event U e)) evs) = Inr ()"
  shows "evs \<noteq> []" and "e \<in> set evs \<Longrightarrow> ev_EventType (as_Event U e) \<noteq> []"
proof -
  have "map (\<lambda>e. Some (as_Event U e)) evs = map Some (map (as_Event U) evs)" by simp
  with assms have ok: "evs \<noteq> [] \<and> valid_batch U (map (as_Event U) evs)"
    by (cases evs) (simp_all add: validate_Cons ValidateEventsBeforeSave_def [of U "[]"] del: map_map list.map(2),
        metis list.simps(9) validate_Cons)
  then show "evs \<noteq> []" and "e \<in> set evs \<Longrightarrow> ev_EventType (as_Event U e) \<noteq> []"
    by (auto simp: valid_batch_def list_all_iff valid_event_def)
qed

lemma save_cases:
  assumes "cql_Save S U C db evs = (db', r)" and "cql_session_ok S tbl" and "table_ok (tbl db)"
  obtains (unchanged) "tbl db' = tbl db" and "r \<noteq> Inr Save_Ok"
  | (insert) data where "insert_applies (tbl db) (eventToKeyValues (as_Event U (last evs)) True data) (tbl db')"
      and "codec_marshal C (last evs) = Inr data" and "evs \<noteq> []" and "ev_EventType (as_Event U (last evs)) \<noteq> []"
      and "ev_Version (as_Event U (hd evs)) = 0" and "is_err r \<or> r = Inr Save_Ok"
  | (update) data where "update_applies (tbl db) (eventToKeyValues (as_Event U (last evs)) False data)
        (ev_GroupID (as_Event U (last evs)), ev_AggregateID (as_Event U (last evs)))
        (uint (ev_Version (as_Event U (hd evs)) - 1)) (tbl db')"
      and "codec_marshal C (last evs) = Inr data" and "evs \<noteq> []"
      and "ev_Version (as_Event U (hd evs)) \<noteq> 0" and "is_err r \<or> r = Inr Save_Ok"
proof (cases "ValidateEventsBeforeSave U (map (\<lambda>e. Some (as_Event U e)) evs)")
  case (Inl err)
  with assms(1) that(1) show thesis by (auto simp: cql_Save_def)
next
  case (Inr u)
  then have ok: "ValidateEventsBeforeSave U (map (\<lambda>e. Some (as_Event U e)) evs) = Inr ()" by simp
  note v = validated [OF ok]
  have upd: "update_if_ok S tbl" and ins: "insert_if_ok S tbl" using assms(2) by (simp_all add: cql_session_ok_def)
  show thesis
  proof (cases "getLatestEventsSnapshot U C evs")
    case (Inl err)
    with assms(1) ok that(1) show thesis by (auto simp: cql_Save_def cql_saveEvent_def split: if_splits)
  next
    case (Inr ed)
    then obtain e data where ed: "getLatestEventsSnapshot U C evs = Inr (e, data)" by (cases ed) simp
    note l = getLatest_ok [OF ed]
    show thesis
    proof (cases "ev_Version (as_Event U (hd evs)) = 0")
      case True
      obtain db1 c where c: "cql_insert_if_not_exists S db (eventToKeyValues e True data) = (db1, c)" by fastforce
      have "case c of Cas_applied \<Rightarrow> insert_applies (tbl db) (eventToKeyValues e True data) (tbl db1)
         | Cas_ErrNotFound \<Rightarrow> insert_applies (tbl db) (eventToKeyValues e True data) (tbl db1)
         | Cas_not_applied \<Rightarrow> tbl db1 = tbl db
         | Cas_error _ \<Rightarrow> tbl db1 = tbl db \<or> insert_applies (tbl db) (eventToKeyValues e True data) (tbl db1)"
        using ins c unfolding insert_if_ok_def by blast
      moreover have "last evs \<in> set evs" using v(1) by simp
      ultimately show thesis
        using assms(1) ok True ed c l v that(1,2) by (cases c) (auto simp: cql_Save_def)
    next
      case False
      obtain db1 c where c: "cql_update_if S db (eventToKeyValues e False data) (ev_GroupID e) (ev_AggregateID e)
          (uint (ev_Version (as_Event U (hd evs)) - 1)) = (db1, c)" by fastforce
      have "case c of Inr True \<Rightarrow> update_applies (tbl db) (eventToKeyValues e False data) (ev_GroupID e, ev_AggregateID e)
              (uint (ev_Version (as_Event U (hd evs)) - 1)) (tbl db1)
         | Inr False \<Rightarrow> tbl db1 = tbl db \<and> \<not> (\<exists>row. tbl db (ev_GroupID e, ev_AggregateID e) = Some row \<and>
              row versionKey = Some (Cql_int (uint (ev_Version (as_Event U (hd evs)) - 1))))
         | Inl _ \<Rightarrow> tbl db1 = tbl db \<or> update_applies (tbl db) (eventToKeyValues e False data) (ev_GroupID e, ev_AggregateID e)
              (uint (ev_Version (as_Event U (hd evs)) - 1)) (tbl db1)"
        using upd c unfolding update_if_ok_def by blast
      then show thesis
        using assms(1) ok False ed c l v that(1,3)
        by (cases c) (auto simp: cql_Save_def cql_saveEvent_def split: bool.splits)
    qed
  qed
qed

section \<open>The contract of the store\<close>

definition cql_store ::
    "'db cql_session \<Rightarrow> uuid_pkg \<Rightarrow> event_codec \<Rightarrow> ((string \<times> SnapshotQuery list) list \<Rightarrow> (string \<times> SnapshotQuery list) list)
     \<Rightarrow> 'db EventStore" where
  "cql_store S U C ord = \<lparr>es_Save = cql_Save S U C, es_LoadFromSnapshot = cql_LoadFromSnapshot S U C ord\<rparr>"

definition known_ids :: "uuid_pkg \<Rightarrow> string \<Rightarrow> string \<Rightarrow> bool" where
  "known_ids U g a \<longleftrightarrow> uuid_Parse_ok U g \<and> uuid_Parse_ok U a \<and> a \<noteq> [] \<and> a \<noteq> uuid_Nil U"

locale cassandra =
  fixes S :: "'db cql_session" and tbl :: "'db \<Rightarrow> cql_table" and C :: event_codec and U :: uuid_pkg
    and ord :: "(string \<times> SnapshotQuery list) list \<Rightarrow> (string \<times> SnapshotQuery list) list"
  assumes session: "cql_session_ok S tbl" and codec: "codec_ok C" and order: "ord [q] = [q]"
begin

lemma saved_good:
  assumes "table_ok (tbl db)" and "cql_Save S U C db evs = (db', r)"
  shows "table_ok (tbl db')"
  using assms(2) session assms(1)
proof (cases rule: save_cases)
  case (insert data)
  then show ?thesis using assms(1) table_ok_insert by blast
next
  case (update data)
  then show ?thesis using assms(1) table_ok_update by blast
qed (use assms(1) in simp)

lemma saved_snapshot:
  assumes good: "table_ok (tbl db)" and save: "cql_Save S U C db evs = (db', Inr Save_Ok)"
    and ids: "ev_GroupID (as_Event U (last evs)) = g" "ev_AggregateID (as_Event U (last evs)) = a"
  shows "evs \<noteq> [] \<and>
      (case cql_snapshot C (tbl db) g a of
         None \<Rightarrow> ev_Version (as_Event U (hd evs)) = 0
       | Some e \<Rightarrow> ev_Version (as_Event U (hd evs)) \<noteq> 0 \<and> eu_Version e = ev_Version (as_Event U (hd evs)) - 1) \<and>
      (\<exists>e. cql_snapshot C (tbl db') g a = Some e \<and> eu_Version e = ev_Version (as_Event U (last evs)) \<and> eu_Payload e = Inr (last evs))"
proof -
  have good': "table_ok (tbl db')" by (rule saved_good [OF good save])
  from save session good show ?thesis
  proof (cases rule: save_cases)
    case (insert data)
    have row: "tbl db' (g, a) = Some (map_of (eventToKeyValues (as_Event U (last evs)) True data))" and "tbl db (g, a) = None"
      using insert(1) ids by (auto simp: insert_applies_def)
    moreover have "codec_unmarshal C data = Inr (last evs)" using codec insert(2) by (simp add: codec_ok_def)
    ultimately show ?thesis
      using insert(3,5) good' snapshot_of_row [of "tbl db'" g a, OF row, of _ data C]
      by (auto simp: cql_snapshot_def [of C "tbl db"] table_ok_def)
  next
    case (update data)
    obtain row where old: "tbl db (g, a) = Some row" "row versionKey = Some (Cql_int (uint (ev_Version (as_Event U (hd evs)) - 1)))"
        and row: "tbl db' (g, a) = Some (row ++ map_of (eventToKeyValues (as_Event U (last evs)) False data))"
      using update(1) ids by (auto simp: update_applies_def)
    have "row_ok g a row" using good old(1) by (simp add: table_ok_def)
    then have "\<exists>e. cql_snapshot C (tbl db) g a = Some e \<and> eu_Version e = ev_Version (as_Event U (hd evs)) - 1"
      by (rule snapshot_version [of "tbl db" g a, OF old(1) _ old(2)])
    moreover have "codec_unmarshal C data = Inr (last evs)" using codec update(2) by (simp add: codec_ok_def)
    moreover have "row_ok g a (row ++ map_of (eventToKeyValues (as_Event U (last evs)) False data))"
      using good' row by (simp add: table_ok_def)
    ultimately show ?thesis
      using update(3,4) snapshot_of_row [of "tbl db'" g a, OF row, of "ev_Version (as_Event U (last evs))" data C]
      by (auto simp: map_add_def)
  qed simp
qed

sublocale snapshot_store "cql_store S U C ord" "\<lambda>db. cql_snapshot C (tbl db)" "\<lambda>db. table_ok (tbl db)" "known_ids U" U
proof (standard, goal_cases)
  case (1 st g a)
  then show ?case
    using cql_load [OF session, of st U g a ord C "[]"] order by (simp add: cql_store_def known_ids_def)
next
  case (2 st g a e)
  then obtain row where "tbl st (g, a) = Some row" and "cql_Next C row = Inr e"
    by (auto simp: cql_snapshot_def split: option.splits sum.splits)
  moreover then have "row_ok g a row" using 2(1) by (simp add: table_ok_def)
  ultimately show ?case by (metis cql_Next_ok sum.inject(2))
next
  case (3 st evs st' r)
  then show ?case using saved_good by (simp add: cql_store_def)
next
  case (4 st evs st' g a)
  then show ?case using saved_snapshot by (simp add: cql_store_def)
next
  case (5 st evs st' status)
  then have "cql_Save S U C st evs = (st', Inr status)" by (simp add: cql_store_def)
  from this session 5(1) show ?case by (cases rule: save_cases) (use 5(3) in simp_all)
qed

end

section \<open>A session in memory\<close>

text \<open>A session that keeps its table in memory behaves as documented; a codec for one event round-trips.\<close>

definition memory_session :: "cql_table cql_session" where
  "memory_session =
     \<lparr>cql_update_if = (\<lambda>T kvs d i v.
        case T (d, i) of
          None \<Rightarrow> (T, Inr False)
        | Some row \<Rightarrow> if row versionKey = Some (Cql_int v) then (T((d, i) \<mapsto> row ++ map_of kvs), Inr True) else (T, Inr False)),
      cql_insert_if_not_exists = (\<lambda>T kvs.
        case (map_of kvs deviceIDKey, map_of kvs idKey) of
          (Some (Cql_uuid d), Some (Cql_uuid i)) \<Rightarrow>
            if T (d, i) = None then (T((d, i) \<mapsto> map_of kvs), Cas_applied) else (T, Cas_not_applied)
        | _ \<Rightarrow> (T, Cas_error (Errorf ''missing primary key'' []))),
      cql_select = (\<lambda>T d ids. (map (\<lambda>i. the (T (d, i))) (filter (\<lambda>i. T (d, i) \<noteq> None) (remdups ids)), None))\<rparr>"

definition one_codec :: "any_event \<Rightarrow> event_codec" where
  "one_codec e0 =
     \<lparr>codec_marshal = (\<lambda>e. if e = e0 then Inr [1] else Inl (Errorf ''not encodable'' [])),
      codec_unmarshal = (\<lambda>b. if b = [1] then Inr e0 else Inl (Errorf ''not decodable'' []))\<rparr>"

lemma one_codec_ok: "codec_ok (one_codec e0)"
  by (simp add: codec_ok_def one_codec_def)

lemma memory_session_ok: "cql_session_ok memory_session id"
proof -
  have "update_if_ok memory_session id"
    by (auto simp: update_if_ok_def memory_session_def update_applies_def split: option.splits if_splits)
  moreover have "insert_if_ok memory_session id"
    by (auto simp: insert_if_ok_def memory_session_def insert_applies_def split: option.splits cql_val.splits if_splits)
  moreover have "select_ok memory_session id"
    unfolding select_ok_def memory_session_def
    by (auto intro!: exI [of _ "filter (\<lambda>i. _ (_, i) \<noteq> None) (remdups _)"])
  ultimately show ?thesis by (simp add: cql_session_ok_def)
qed

interpretation memory: cassandra memory_session id "one_codec e0" ex_uuid id
  by unfold_locales (simp_all add: memory_session_ok one_codec_ok)

section \<open>Saving and loading\<close>

text \<open>
  C21. A save on Cassandra that succeeds found the aggregate absent, for a first event of version 0, or at the version before the
  first event, and a load afterwards returns exactly the last event of the batch, with its version.
\<close>

theorem cql_save_load_roundtrip:
  assumes "cql_session_ok S tbl" and "codec_ok C" and "\<forall>q. ord [q] = [q]" and "table_ok (tbl db)"
    and "cql_Save S U C db evs = (db', Inr Save_Ok)"
    and "ev_GroupID (as_Event U (last evs)) = g" and "ev_AggregateID (as_Event U (last evs)) = a" and "known_ids U g a"
    and "snd (cql_select S db' g [a]) = None"
  shows "(case cql_snapshot C (tbl db) g a of
            None \<Rightarrow> ev_Version (as_Event U (hd evs)) = 0
          | Some e \<Rightarrow> ev_Version (as_Event U (hd evs)) \<noteq> 0 \<and> eu_Version e = ev_Version (as_Event U (hd evs)) - 1) \<and>
         (\<exists>e. cql_LoadFromSnapshot S U C ord db' [\<lparr>sq_GroupID = g, sq_AggregateID = a, sq_Types = []\<rparr>] =
                Inr [Scanned (source_of [e]) None] \<and>
              eu_Version e = ev_Version (as_Event U (last evs)) \<and> eu_Payload e = Inr (last evs))"
proof -
  have cas: "cassandra S tbl C ord" using assms(1-3) by unfold_locales auto
  have good': "table_ok (tbl db')" by (rule cassandra.saved_good [OF cas assms(4,5)])
  note saved = cassandra.saved_snapshot [OF cas assms(4-7)]
  have "cql_LoadFromSnapshot S U C ord db' [\<lparr>sq_GroupID = g, sq_AggregateID = a, sq_Types = []\<rparr>] =
      Inr [Scanned (source_of (case cql_snapshot C (tbl db') g a of None \<Rightarrow> [] | Some e \<Rightarrow> [e])) None]"
    using cql_load [OF assms(1) good', of U g a ord C "[]"] assms(3,8,9)
    by (auto simp: known_ids_def cql_LoadFromSnapshot_def normalizeQueries_def normalizeQuery_step_def
        loadFromSnapshotByGroup_def addAggregateIDsToFilter_def split: prod.splits)
  with saved show ?thesis by auto
qed

end
