(* ===== verification/Service_Concurrency.thy ===== *)
theory Service_Concurrency
  imports Service_Metadata_Properties Cql_Store_Properties
begin

text \<open>
  The heartbeats of all hub services go to one aggregate, so their commands compete. The service metadata model
  keeps the contract of a model, and on the Cassandra store every accepted heartbeat is handled on the snapshot
  that its own replaces (\<^verbatim>\<open>resource-aggregate/service/aggregate.go\<close>, \<open>NewServicesMetadataFactoryModel\<close>).
\<close>

section \<open>The model as an aggregate\<close>

definition NewServicesMetadataFactoryModel ::
    "string \<Rightarrow> string \<Rightarrow> string \<Rightarrow> ServiceMetadataSnapshotTakenForCommand \<Rightarrow> string \<Rightarrow> string \<Rightarrow> ServiceMetadataSnapshotTakenForCommand res" where
  "NewServicesMetadataFactoryModel userID owner hubID = (\<lambda>_ _ _. Inr (NewServiceMetadataSnapshotTakenForCommand userID owner hubID))"

text \<open>\<open>env k\<close> is what the handler reads from the clock and the context in the k-th attempt.\<close>

definition service_model ::
    "(nat \<Rightarrow> service_env) \<Rightarrow> (ServiceMetadataSnapshotTakenForCommand, sm_command) AggregateModel" where
  "service_model env =
     \<lparr>mod_step = (\<lambda>_ c e. case ServiceMetadata_handleByEvent (smc_snap c) e of (d, r) \<Rightarrow> (c\<lparr>smc_snap := d\<rparr>, r)),
      mod_HandleCommand = (\<lambda>k c cmd v. case ServiceMetadata_HandleCommand (env k) c cmd v of (c', r) \<Rightarrow> (c', cmd, r)),
      mod_TakeSnapshot = (\<lambda>k c v. Some (E_ServiceMetadataSnapshotTaken
         (ServiceMetadata_TakeSnapshot (sve_Now_snapshot (env k)) (smc_snap c) v))),
      mod_sees = (\<lambda>_ _ c. c)\<rparr>"

lemma command_hub:
  "ServiceMetadata_HandleCommand env c cmd v = (c', r) \<Longrightarrow> smc_hubID c' = smc_hubID c"
  by (auto simp: ServiceMetadata_HandleCommand_def updateServiceMetadataRequest_def confirmExpiredServicesRequest_def Let_def
      split: sm_command.splits option.splits prod.splits)

text \<open>Every event of an answer carries the version and the hub of the command, and so does the snapshot afterwards.\<close>

definition stamped :: "string \<Rightarrow> u64 \<Rightarrow> ServiceMetadataSnapshotTaken \<Rightarrow> any_event \<Rightarrow> bool" where
  "stamped hub v d ev \<longleftrightarrow> GetHubId (sms_EventMetadata d) = hub \<and>
     (\<exists>em. GetHubId (Some em) = hub \<and> GetVersion (Some em) = v \<and>
        ((\<exists>u. ev = E_ServiceMetadataUpdated u \<and> smu_EventMetadata u = Some em) \<or>
         (\<exists>s. ev = E_ServiceMetadataSnapshotTaken s \<and> sms_EventMetadata s = Some em)))"

lemma emit_stamped:
  assumes "emit_service d ev = (d', Inr evs)" and "evs \<noteq> []" and "smu_EventMetadata ev = Some em"
    and "GetHubId (Some em) = hub" and "GetVersion (Some em) = v"
  shows "stamped hub v d' (hd evs)"
  using assms by (auto simp: emit_service_def HandleServiceMetadataUpdated_def stamped_def Let_def
      split: if_splits prod.splits sum.splits bool.splits option.splits)

lemma service_em_stamp: "GetHubId (Some (service_em env c v)) = smc_hubID c" "GetVersion (Some (service_em env c v)) = v"
  by (simp_all add: service_em_def MakeEventMeta_def)

lemma command_stamped:
  assumes "ServiceMetadata_HandleCommand env c cmd v = (c', Inr evs)" and "evs \<noteq> []"
  shows "stamped (smc_hubID c) v (smc_snap c') (hd evs)"
proof (cases cmd)
  case (UpdateServiceMetadata req)
  then obtain hb d where "usm_Heartbeat req = Some hb" and c': "c' = c\<lparr>smc_snap := d\<rparr>"
      and up: "updateHeartbeat env (smc_snap c) hb (service_em env c v) (NewAuditContext (smc_userID c) [] (smc_owner c)) = (d, Inr evs)"
    using assms by (auto simp: ServiceMetadata_HandleCommand_def updateServiceMetadataRequest_def Let_def
        split: option.splits prod.splits)
  have "stamped (smc_hubID c) v d (hd evs)"
    using up assms(2) service_em_stamp [of env c v]
    by (auto simp: updateHeartbeat_def updateHeartbeatForService_def updateHeartbeatCheckExpiredServices_def Let_def
        intro: emit_stamped split: if_splits sum.splits prod.splits)
  with c' show ?thesis by simp
next
  case (ConfirmExpiredServices req)
  with assms service_em_stamp [of env c v] show ?thesis
    by (auto simp: ServiceMetadata_HandleCommand_def confirmExpiredServicesRequest_def confirmExpiredServices_def stamped_def
        ServiceMetadata_TakeSnapshot_def MakeEventMeta_def Let_def
        split: if_splits prod.splits)
qed (use assms in \<open>simp add: ServiceMetadata_HandleCommand_def\<close>)

interpretation service_aggregate: aggregate_model "service_model env" hub "MakeServicesResourceUUID U hub"
  "\<lambda>c. smc_hubID c = hub" "(=) cmd" U
proof (standard, goal_cases)
  case (1 m n e)
  then show ?case by (simp add: service_model_def split: prod.splits)
next
  case (2 m cmd k v m' cmd' r)
  then show ?case using command_hub by (auto simp: service_model_def split: prod.splits)
next
  case (3 m cmd k v m' cmd' evs)
  then have "stamped hub v (smc_snap m') (hd evs)"
    using command_stamped by (fastforce simp: service_model_def split: prod.splits)
  then show ?case by (auto simp: stamped_def event_table_defs)
next
  case (4 m cmd k v m' cmd' evs version s)
  then have "stamped hub v (smc_snap m') (hd evs)"
    using command_stamped by (fastforce simp: service_model_def split: prod.splits)
  with 4(5) show ?case
    by (auto simp: stamped_def service_model_def event_table_defs ServiceMetadata_TakeSnapshot_def MakeEventMeta_def
       )
qed

section \<open>The services aggregate on Cassandra\<close>

locale cassandra_services = cassandra S tbl C U ord
  for S :: "'db cql_session" and tbl C U ord +
  fixes hub :: string and env :: "nat \<Rightarrow> service_env" and cmd :: sm_command
  assumes ids: "known_ids U hub (MakeServicesResourceUUID U hub)"
begin

sublocale optimistic_aggregate "cql_store S U C ord" "\<lambda>db. cql_snapshot C (tbl db)" "\<lambda>db. table_ok (tbl db)" "known_ids U" U
  "service_model env" hub "MakeServicesResourceUUID U hub" "\<lambda>c. smc_hubID c = hub" "(=) cmd"
  by unfold_locales (rule ids)

lemma services_commit:
  assumes "NewAggregate hub (MakeServicesResourceUUID U hub) (Some retry) (Some (cql_store S U C ord))
           (NewServicesMetadataFactoryModel userID owner hub) [] = Inr ag"
    and "fair (\<lambda>db. table_ok (tbl db)) (\<lambda>db. cql_snapshot C (tbl db)) hub (MakeServicesResourceUUID U hub) others"
    and "table_ok (tbl db)"
    and "HandleCommand ag (service_model env) others canceled r db cell cmd = Some (db', Inr evs)" and "evs \<noteq> []"
  shows "\<exists>db1 saved k. cql_Save S U C db1 saved = (db', Inr Save_Ok) \<and>
     commits (service_model env) (NewServiceMetadataSnapshotTakenForCommand userID owner hub)
       (cql_snapshot C (tbl db1) hub (MakeServicesResourceUUID U hub)) k cmd evs
       (cql_snapshot C (tbl db') hub (MakeServicesResourceUUID U hub))"
proof -
  have ag: "ag_store ag = cql_store S U C ord" "ag_groupID ag = hub" "ag_aggregateID ag = MakeServicesResourceUUID U hub"
      "ag_factoryModel ag = NewServicesMetadataFactoryModel userID owner hub" "ag_additionalModels ag = []"
    using assms(1) by (auto simp: NewAggregate_def split: if_splits)
  then have "ag_factoryModel ag cell hub (MakeServicesResourceUUID U hub) = Inr (NewServiceMetadataSnapshotTakenForCommand userID owner hub)" for cell
    by (simp add: NewServicesMetadataFactoryModel_def)
  then show ?thesis
    using loop_commits [OF ag(1-3,5) _ assms(2,4,5) refl assms(3)]
    by (auto simp: cql_store_def NewServiceMetadataSnapshotTakenForCommand_def)
qed

end

section \<open>No heartbeat is lost\<close>

text \<open>A first registration on an empty table, as a sample.\<close>

definition ex_registered :: ServiceMetadataSnapshotTakenForCommand where
  "ex_registered = fst (ServiceMetadata_HandleCommand (ex_senv 1000)
     (NewServiceMetadataSnapshotTakenForCommand ''user'' ''owner'' ''hub'') (ex_hb_cmd ''b'' True) 0)"

definition ex_registration :: any_event where
  "ex_registration = E_ServiceMetadataUpdated
     \<lparr>smu_ServicesHeartbeat = Some \<lparr>sh_Valid = [ex_beat ''b'' 1100], sh_Expired = []\<rparr>,
      smu_EventMetadata = Some (MakeEventMeta 1000 [] 0 0 ''hub''), smu_AuditContext = Some (NewAuditContext ''user'' [] ''owner''),
      smu_OpenTelemetryCarrier = []\<rparr>"

definition ex_first_snapshot :: any_event where
  "ex_first_snapshot = E_ServiceMetadataSnapshotTaken (ServiceMetadata_TakeSnapshot 1000 (smc_snap ex_registered) 0)"

definition ex_service_aggregate :: "(ServiceMetadataSnapshotTakenForCommand, cql_table, int) Aggregate" where
  "ex_service_aggregate =
     \<lparr>ag_groupID = ''hub'', ag_aggregateID = MakeServicesResourceUUID ex_uuid ''hub'',
      ag_store = cql_store memory_session ex_uuid (one_codec ex_first_snapshot) id,
      ag_retryFunc = NewDefaultRetryFunc 0 8, ag_factoryModel = NewServicesMetadataFactoryModel ''user'' ''owner'' ''hub'',
      ag_additionalModels = []\<rparr>"

definition ex_first_table :: cql_table where
  "ex_first_table = fst (cql_Save memory_session ex_uuid (one_codec ex_first_snapshot) (\<lambda>_. None) [ex_first_snapshot])"

lemma ex_registered_events:
  "ServiceMetadata_HandleCommand (ex_senv 1000) (NewServiceMetadataSnapshotTakenForCommand ''user'' ''owner'' ''hub'')
     (ex_hb_cmd ''b'' True) 0 = (ex_registered, Inr [ex_registration])"
proof -
  have "snd (ServiceMetadata_HandleCommand (ex_senv 1000) (NewServiceMetadataSnapshotTakenForCommand ''user'' ''owner'' ''hub'')
     (ex_hb_cmd ''b'' True) 0) = Inr [ex_registration]" by code_simp
  then show ?thesis unfolding ex_registered_def by (metis prod.collapse)
qed

lemma ex_first_event:
  "as_Event ex_uuid ex_first_snapshot =
     \<lparr>ev_Version = 0, ev_EventType = ''ServiceMetadataSnapshotTaken'', ev_AggregateID = MakeServicesResourceUUID ex_uuid ''hub'',
      ev_GroupID = ''hub'', ev_IsSnapshot = True, ev_ServiceID = ([], False), ev_Timestamp = 1000, ev_ETag = None, ev_Types = []\<rparr>"
  by code_simp

lemma ex_first_save:
  "cql_Save memory_session ex_uuid (one_codec ex_first_snapshot) (\<lambda>_. None) [ex_first_snapshot] = (ex_first_table, Inr Save_Ok)"
proof -
  have "ValidateEventsBeforeSave ex_uuid (map (\<lambda>e. Some (as_Event ex_uuid e)) [ex_first_snapshot]) = Inr ()"
    by code_simp
  then have "snd (cql_Save memory_session ex_uuid (one_codec ex_first_snapshot) (\<lambda>_. None) [ex_first_snapshot]) = Inr Save_Ok"
    by (simp add: cql_Save_def getLatestEventsSnapshot_def ex_first_event one_codec_def memory_session_def)
  then show ?thesis unfolding ex_first_table_def by (metis prod.collapse)
qed

lemma ex_ids: "known_ids ex_uuid ''hub'' (MakeServicesResourceUUID ex_uuid ''hub'')"
  by (simp add: known_ids_def ex_uuid_def MakeServicesResourceUUID_def ServicesResourceHref_def)

interpretation memory_services: cassandra_services memory_session id "one_codec e0" ex_uuid id "''hub''"
  "\<lambda>_. ex_senv 1000" "ex_hb_cmd ''b'' True"
  by unfold_locales (rule ex_ids)

lemma ex_loaded:
  "NewAggregateModel ex_service_aggregate (service_model (\<lambda>_. ex_senv 1000)) cell (\<lambda>_. None) =
     Inr \<lparr>w_model = NewServiceMetadataSnapshotTakenForCommand ''user'' ''owner'' ''hub'', w_lastVersion = 0, w_loaded = False\<rparr>"
proof -
  have "cql_LoadFromSnapshot memory_session ex_uuid (one_codec ex_first_snapshot) id (\<lambda>_. None)
      [\<lparr>sq_GroupID = ''hub'', sq_AggregateID = MakeServicesResourceUUID ex_uuid ''hub'', sq_Types = []\<rparr>] =
      Inr [Scanned (source_of []) None]"
    using ex_ids by (simp add: known_ids_def cql_LoadFromSnapshot_def normalizeQueries_def normalizeQuery_step_def
        loadFromSnapshotByGroup_def addAggregateIDsToFilter_def memory_session_def)
  then show ?thesis
    by (simp add: NewAggregateModel_def loaded_model_def ex_service_aggregate_def NewServicesMetadataFactoryModel_def cql_store_def Project_def
        run_load_def handler_of_def Projection_Handle_def project_none NewProjection_def lookup_model_def)
qed

lemma ex_handled:
  "HandleCommand ex_service_aggregate (service_model (\<lambda>_. ex_senv 1000)) (\<lambda>_. id) (\<lambda>_. False) 0 (\<lambda>_. None) cell
     (ex_hb_cmd ''b'' True) = Some (ex_first_table, Inr [ex_registration])"
proof -
  have "sve_Now_snapshot (ex_senv 1000) = 1000" by (simp add: ex_senv_def)
  then have "HandleCommandWithAggregateModelWrapper ex_service_aggregate (service_model (\<lambda>_. ex_senv 1000)) 0 (\<lambda>_. None) (ex_hb_cmd ''b'' True)
      \<lparr>w_model = NewServiceMetadataSnapshotTakenForCommand ''user'' ''owner'' ''hub'', w_lastVersion = 0, w_loaded = False\<rparr> =
      (ex_first_table, ex_registered, ex_hb_cmd ''b'' True, Inr ([ex_registration], False))"
    using ex_registered_events ex_first_save
    by (simp add: HandleCommandWithAggregateModelWrapper_def newVersion_of_def service_model_def ex_service_aggregate_def cql_store_def
        ex_first_snapshot_def [symmetric] Let_def)
  then show ?thesis
    by (simp add: HandleCommand_def HandleCommand_model_def HandleCommand_from.simps [of _ _ _ _ 0] attempt_def ex_loaded Let_def)
qed

text \<open>
  C19. A heartbeat or confirmation that is answered with events was handled on the snapshot that was in the
  Cassandra store at the moment its events were saved, with the version after it, and its own snapshot replaced
  that one: no update of another service in between is overwritten. This holds for every session that behaves
  as documented and for other writers that only move the aggregate forward.
\<close>

theorem heartbeats_serialized:
  assumes "cql_session_ok S tbl" and "codec_ok C" and "\<forall>q. ord [q] = [q]" and "known_ids U hub (MakeServicesResourceUUID U hub)"
    and "NewAggregate hub (MakeServicesResourceUUID U hub) (Some retry) (Some (cql_store S U C ord))
           (NewServicesMetadataFactoryModel userID owner hub) [] = Inr ag"
    and "fair (\<lambda>db. table_ok (tbl db)) (\<lambda>db. cql_snapshot C (tbl db)) hub (MakeServicesResourceUUID U hub) others"
    and "table_ok (tbl db)"
    and "HandleCommand ag (service_model env) others canceled r db cell cmd = Some (db', Inr evs)" and "evs \<noteq> []"
  shows "\<exists>db1 saved k. cql_Save S U C db1 saved = (db', Inr Save_Ok) \<and>
     commits (service_model env) (NewServiceMetadataSnapshotTakenForCommand userID owner hub)
       (cql_snapshot C (tbl db1) hub (MakeServicesResourceUUID U hub)) k cmd evs
       (cql_snapshot C (tbl db') hub (MakeServicesResourceUUID U hub))"
proof -
  have "cassandra_services S tbl C U ord hub" using assms(1-4) by unfold_locales auto
  from cassandra_services.services_commit [OF this assms(5-9)] show ?thesis .
qed

theorem heartbeats_serialized_witness:
  "\<exists>db1 saved k. cql_Save memory_session ex_uuid (one_codec ex_first_snapshot) db1 saved = (ex_first_table, Inr Save_Ok) \<and>
     commits (service_model (\<lambda>_. ex_senv 1000)) (NewServiceMetadataSnapshotTakenForCommand ''user'' ''owner'' ''hub'')
       (cql_snapshot (one_codec ex_first_snapshot) (id db1) ''hub'' (MakeServicesResourceUUID ex_uuid ''hub'')) k (ex_hb_cmd ''b'' True)
       [ex_registration]
       (cql_snapshot (one_codec ex_first_snapshot) (id ex_first_table) ''hub'' (MakeServicesResourceUUID ex_uuid ''hub''))"
  by (rule heartbeats_serialized [OF memory_session_ok one_codec_ok _ ex_ids _ _ _ ex_handled, of id])
    (simp_all add: NewAggregate_def ex_service_aggregate_def fair_def advances_def table_ok_def MakeServicesResourceUUID_def
      ex_uuid_def ServicesResourceHref_def)

theorem cql_save_load_roundtrip_witness:
  "(case cql_snapshot (one_codec ex_first_snapshot) (id (\<lambda>_. None)) ''hub'' (MakeServicesResourceUUID ex_uuid ''hub'') of
      None \<Rightarrow> ev_Version (as_Event ex_uuid (hd [ex_first_snapshot])) = 0
    | Some e \<Rightarrow> ev_Version (as_Event ex_uuid (hd [ex_first_snapshot])) \<noteq> 0 \<and>
        eu_Version e = ev_Version (as_Event ex_uuid (hd [ex_first_snapshot])) - 1) \<and>
   (\<exists>e. cql_LoadFromSnapshot memory_session ex_uuid (one_codec ex_first_snapshot) id ex_first_table
          [\<lparr>sq_GroupID = ''hub'', sq_AggregateID = MakeServicesResourceUUID ex_uuid ''hub'', sq_Types = []\<rparr>] =
          Inr [Scanned (source_of [e]) None] \<and>
        eu_Version e = ev_Version (as_Event ex_uuid (last [ex_first_snapshot])) \<and> eu_Payload e = Inr (last [ex_first_snapshot]))"
  by (rule cql_save_load_roundtrip [OF memory_session_ok one_codec_ok _ _ ex_first_save _ _ ex_ids])
    (simp_all add: table_ok_def ex_first_event memory_session_def)

text \<open>A writer that wins every race: the loop still returns.\<close>

theorem HandleCommand_returns_witness:
  "\<exists>st' r. HandleCommand ex_service_aggregate (service_model (\<lambda>_. ex_senv 1000)) (\<lambda>k db. if odd k then ex_first_table else db) (\<lambda>_. False) 0
     (\<lambda>_. None) (NewServiceMetadataSnapshotTakenForCommand ''user'' ''owner'' ''hub'') (ex_hb_cmd ''b'' True) = Some (st', r)"
  by (rule HandleCommand_returns) (simp add: ex_service_aggregate_def)

end
