(* ===== verification/Pkg_Strings_Properties.thy ===== *)
theory Pkg_Strings_Properties
  imports Pkg_Strings
begin

text \<open>
  Sorted slices implement finite sets of strings: the bisection finds the first element that is not
  smaller, and on strictly increasing slices the index loops compute difference, intersection and
  inclusion. The removal computes the difference as long as the last element is asked for at most
  once; the exact effect of asking for it twice is stated as well.
\<close>

section \<open>Bisection\<close>

lemma search_from_eq:
  assumes "i \<le> k" "k \<le> j" "\<And>m. i \<le> m \<Longrightarrow> m < k \<Longrightarrow> \<not> f m" "\<And>m. k \<le> m \<Longrightarrow> m < j \<Longrightarrow> f m"
  shows "search_from f i j = k"
  using assms
proof (induction f i j rule: search_from.induct)
  case (1 f i j)
  let ?h = "(i + j) div 2"
  show ?case
  proof (cases "i < j")
    case True
    show ?thesis
    proof (cases "f ?h")
      case h: True
      moreover have "i \<le> ?h" using True by simp
      ultimately have "k \<le> ?h" using 1(5) [of ?h] by (meson linorder_not_less)
      then show ?thesis using 1 True h by (subst search_from.simps) (simp add: Let_def)
    next
      case h: False
      moreover have "?h < j" using True by simp
      ultimately have "?h < k" using 1(6) [of ?h] by (meson linorder_not_less)
      then show ?thesis using 1 True h by (subst search_from.simps) (simp add: Let_def)
    qed
  next
    case False
    then show ?thesis using 1(3,4) by (subst search_from.simps) simp
  qed
qed

lemma SearchStrings_eq:
  assumes "sorted a"
  shows "SearchStrings a x = length (takeWhile (\<lambda>y. y < x) a)"
  unfolding SearchStrings_def
proof (rule search_from_eq)
  let ?k = "length (takeWhile (\<lambda>y. y < x) a)"
  fix m
  show "\<not> x \<le> a ! m" if "m < ?k"
  proof -
    have "a ! m = takeWhile (\<lambda>y. y < x) a ! m" using that by (simp add: takeWhile_nth)
    then show ?thesis using nth_mem [OF that] set_takeWhileD by fastforce
  qed
  show "x \<le> a ! m" if "?k \<le> m" "m < length a"
  proof -
    have "x \<le> a ! ?k" using nth_length_takeWhile [of "\<lambda>y. y < x" a] that by simp
    also have "\<dots> \<le> a ! m" using sorted_nth_mono [OF assms that] .
    finally show ?thesis .
  qed
qed (auto simp: length_takeWhile_le)

lemma takeWhile_split:
  assumes "x \<in> set xs" "sorted xs"
  obtains zs where "xs = takeWhile (\<lambda>y. y < x) xs @ x # zs" "x \<notin> set (takeWhile (\<lambda>y. y < x) xs)"
proof -
  let ?P = "\<lambda>y. y < x"
  have "dropWhile ?P xs \<noteq> []" using assms(1) by (auto simp: dropWhile_eq_Nil_conv)
  then obtain y zs where d: "dropWhile ?P xs = y # zs" by (meson neq_Nil_conv)
  have y: "\<not> y < x" using d by (metis dropWhile_eq_Cons_conv)
  have xs: "xs = takeWhile ?P xs @ y # zs" using d by (metis takeWhile_dropWhile_id)
  have "x \<in> set (y # zs)" using assms(1) xs by (metis UnE order_less_irrefl set_append set_takeWhileD)
  moreover have "sorted (y # zs)" using assms(2) xs by (metis sorted_append)
  ultimately have "y = x" using y by auto
  then show ?thesis using that xs by (metis order_less_irrefl set_takeWhileD)
qed

lemma Contains_iff:
  assumes "sorted a"
  shows "SortedSlice_Contains a x \<longleftrightarrow> x \<in> set a"
proof
  assume "x \<in> set a"
  with assms obtain zs where "a = takeWhile (\<lambda>y. y < x) a @ x # zs" by (blast elim: takeWhile_split)
  then show "SortedSlice_Contains a x"
    unfolding SortedSlice_Contains_def Let_def SearchStrings_eq [OF assms]
    by (metis (no_types, lifting) add_Suc_right length_Cons length_append less_add_Suc1 nth_append_length)
next
  assume "SortedSlice_Contains a x"
  then show "x \<in> set a" unfolding SortedSlice_Contains_def Let_def by (metis nth_mem)
qed

section \<open>Construction\<close>

lemma foldl_append_new:
  "acc \<noteq> [] \<Longrightarrow> foldl append_new acc xs = butlast acc @ remdups_adj (last acc # xs)"
proof (induction xs arbitrary: acc)
  case Nil
  then show ?case by simp
next
  case (Cons x xs)
  then show ?case by (cases "last acc = x") (simp_all add: append_new_def)
qed

lemma foldl_append_new_Nil: "foldl append_new [] xs = remdups_adj xs"
  by (cases xs) (simp_all add: append_new_def foldl_append_new)

lemma sorted_remdups_adj_less:
  "sorted xs \<Longrightarrow> sorted_wrt (<) (remdups_adj (xs :: 'a :: linorder list))"
proof (induction xs rule: remdups_adj.induct)
  case (3 x y xs)
  then show ?case by (cases "x = y") auto
qed simp_all

lemma MakeSortedSlice_sorted: "sorted_wrt (<) (MakeSortedSlice xs)"
proof (cases "length xs \<le> 1")
  case True
  then show ?thesis by (cases xs) (auto simp: MakeSortedSlice_def)
next
  case False
  then show ?thesis by (simp add: MakeSortedSlice_def foldl_append_new_Nil sorted_remdups_adj_less)
qed

lemma MakeSortedSlice_set: "set (MakeSortedSlice xs) = set xs"
  by (simp add: MakeSortedSlice_def foldl_append_new_Nil)

lemma Equal_iff: "SortedSlice_Equal xs ys \<longleftrightarrow> xs = ys"
  unfolding SortedSlice_Equal_def list_all_iff list_eq_iff_nth_eq [of xs ys] by auto

section \<open>Index loops\<close>

lemma skip_less_drop:
  "j \<le> length s \<Longrightarrow> drop (skip_less s x j) s = dropWhile (\<lambda>y. y < x) (drop j s) \<and> skip_less s x j \<le> length s"
proof (induction s x j rule: skip_less.induct)
  case (1 s x j)
  show ?case
  proof (cases "j < length s \<and> s ! j < x")
    case True
    then have "skip_less s x j = skip_less s x (j + 1)" by (subst skip_less.simps) simp
    moreover have "drop j s = s ! j # drop (j + 1) s" using True by (simp add: Cons_nth_drop_Suc)
    ultimately show ?thesis using 1 True by simp
  next
    case False
    then have k: "skip_less s x j = j" by (subst skip_less.simps) (rule if_not_P)
    have "dropWhile (\<lambda>y. y < x) (drop j s) = drop j s"
    proof (cases "j < length s")
      case True
      then have "drop j s = s ! j # drop (j + 1) s" by (simp add: Cons_nth_drop_Suc)
      then show ?thesis using False True by simp
    qed simp
    then show ?thesis using 1(2) k by simp
  qed
qed

lemma dropWhile_less_mem:
  assumes "x \<le> y"
  shows "y \<in> set (dropWhile (\<lambda>z. z < x) xs) \<longleftrightarrow> y \<in> set (xs :: 'a :: linorder list)"
  using assms by (induction xs) auto

lemma skip_less_mem:
  assumes "j \<le> length s" "x \<le> y"
  shows "y \<in> set (drop (skip_less s x j) s) \<longleftrightarrow> y \<in> set (drop j s)"
  using skip_less_drop [OF assms(1)] dropWhile_less_mem [OF assms(2)] by simp

lemma skip_less_hit:
  assumes "j \<le> length s" "sorted s" "skip_less s x j \<noteq> length s"
  shows "s ! skip_less s x j = x \<longleftrightarrow> x \<in> set (drop j s)"
proof -
  let ?k = "skip_less s x j"
  have k: "?k < length s" using skip_less_drop [OF assms(1), of x] assms(3) by simp
  then have d: "drop ?k s = s ! ?k # drop (?k + 1) s" by (simp add: Cons_nth_drop_Suc)
  then have "\<not> s ! ?k < x"
    using skip_less_drop [OF assms(1), of x] by (metis dropWhile_eq_Cons_conv)
  moreover have "sorted (drop ?k s)" using assms(2) by (rule sorted_wrt_drop)
  ultimately have "x \<in> set (drop ?k s) \<longleftrightarrow> s ! ?k = x" unfolding d by auto
  then show ?thesis using skip_less_mem [OF assms(1), of x x] by simp
qed

lemma skip_less_le: "j \<le> length s \<Longrightarrow> skip_less s x j \<le> length s"
  by (simp add: skip_less_drop)

lemma skip_less_rest:
  assumes "j \<le> length s" "sorted_wrt (<) (x # xs)" "y \<in> set (x # xs)"
  shows "y \<in> set (drop (skip_less s x j) s) \<longleftrightarrow> y \<in> set (drop j s)"
  using assms by (intro skip_less_mem) auto

lemma Difference_loop_eq:
  assumes "sorted s" "sorted_wrt (<) xs" "j \<le> length s"
  shows "Difference_loop s j xs = filter (\<lambda>x. x \<notin> set (drop j s)) xs"
  using assms(2,3)
proof (induction xs arbitrary: j)
  case (Cons x xs)
  let ?k = "skip_less s x j"
  note k = skip_less_le [OF Cons.prems(2), of x] and m = skip_less_rest [OF Cons.prems(2,1)]
  show ?case
  proof (cases "?k = length s")
    case True
    then have "filter (\<lambda>x. x \<notin> set (drop j s)) (x # xs) = x # xs"
      using m by (simp add: filter_id_conv del: filter.simps)
    then show ?thesis using True by (simp del: filter.simps)
  next
    case False
    have "Difference_loop s ?k xs = filter (\<lambda>x. x \<notin> set (drop j s)) xs"
      using Cons.IH [OF _ k] Cons.prems(1) m by (auto cong: filter_cong)
    then show ?thesis using False skip_less_hit [OF Cons.prems(2) assms(1) False]
      by (simp add: Let_def)
  qed
qed simp

lemma Intersection_loop_eq:
  assumes "sorted s" "sorted_wrt (<) xs" "j \<le> length s"
  shows "Intersection_loop s j xs = filter (\<lambda>x. x \<in> set (drop j s)) xs"
  using assms(2,3)
proof (induction xs arbitrary: j)
  case (Cons x xs)
  let ?k = "skip_less s x j"
  note k = skip_less_le [OF Cons.prems(2), of x] and m = skip_less_rest [OF Cons.prems(2,1)]
  show ?case
  proof (cases "?k = length s")
    case True
    then have "filter (\<lambda>x. x \<in> set (drop j s)) (x # xs) = []"
      using m by (simp add: filter_empty_conv del: filter.simps)
    then show ?thesis using True by (simp del: filter.simps)
  next
    case False
    have "Intersection_loop s ?k xs = filter (\<lambda>x. x \<in> set (drop j s)) xs"
      using Cons.IH [OF _ k] Cons.prems(1) m by (auto cong: filter_cong)
    then show ?thesis using False skip_less_hit [OF Cons.prems(2) assms(1) False]
      by (simp add: Let_def)
  qed
qed simp

lemma IsSubslice_loop_eq:
  assumes "sorted s" "sorted_wrt (<) xs" "j \<le> length s"
  shows "IsSubslice_loop s j xs \<longleftrightarrow> set xs \<subseteq> set (drop j s)"
  using assms(2,3)
proof (induction xs arbitrary: j)
  case (Cons x xs)
  let ?k = "skip_less s x j"
  note k = skip_less_le [OF Cons.prems(2), of x] and m = skip_less_rest [OF Cons.prems(2,1)]
  show ?case
  proof (cases "?k = length s")
    case True
    then show ?thesis using m [of x] by (simp add: Let_def)
  next
    case False
    have "IsSubslice_loop s ?k xs \<longleftrightarrow> set xs \<subseteq> set (drop j s)"
      using Cons.IH [OF _ k] Cons.prems(1) m by auto
    then show ?thesis using False skip_less_hit [OF Cons.prems(2) assms(1) False]
      by (auto simp add: Let_def)
  qed
qed simp

section \<open>Insertion\<close>

lemma strict_sorted: "sorted_wrt (<) xs \<Longrightarrow> sorted (xs :: 'a :: linorder list)"
  by (simp add: strict_sorted_iff)

lemma insert_at:
  assumes "i \<le> length sl"
  shows "(go_copy (sl @ [e]) (i + 1) (drop i (sl @ [e])))[i := v] = take i sl @ v # drop i sl"
proof -
  have "go_copy (sl @ [e]) (i + 1) (drop i (sl @ [e])) = take (i + 1) (sl @ [e]) @ drop i sl"
    using assms by (auto simp: go_copy_def Let_def min_def)
  moreover have "take (i + 1) (sl @ [e]) = take i sl @ [(sl @ [e]) ! i]"
    using assms take_Suc_conv_app_nth [of i "sl @ [e]"] by simp
  ultimately have "go_copy (sl @ [e]) (i + 1) (drop i (sl @ [e])) = take i sl @ (sl @ [e]) ! i # drop i sl"
    by (simp only: append_assoc append_Cons append_Nil)
  then show ?thesis using assms by (simp only: list_update_append length_take min_absorb2) simp
qed

lemma insert_sorted_mid:
  assumes "sorted_wrt (<) sl" "(v :: 'a :: linorder) \<notin> set sl"
  shows "sorted_wrt (<) (takeWhile (\<lambda>y. y < v) sl @ v # dropWhile (\<lambda>y. y < v) sl)"
  using assms
proof (induction sl)
  case (Cons x sl)
  show ?case
  proof (cases "x < v")
    case True
    then show ?thesis using Cons by (auto dest: set_takeWhileD set_dropWhileD)
  next
    case False
    then have "v < x" using Cons.prems(2) by auto
    then show ?thesis using Cons.prems(1) by auto
  qed
qed simp

lemma Insert_Cons:
  assumes "sorted_wrt (<) sl"
  shows "SortedSlice_Insert sl (v # es) =
    SortedSlice_Insert (if v \<in> set sl then sl
                        else takeWhile (\<lambda>y. y < v) sl @ v # dropWhile (\<lambda>y. y < v) sl) es"
proof -
  let ?i = "length (takeWhile (\<lambda>y. y < v) sl)"
  have i: "SearchStrings sl v = ?i" using SearchStrings_eq [OF strict_sorted [OF assms]] .
  have "take ?i sl = takeWhile (\<lambda>y. y < v) sl" "drop ?i sl = dropWhile (\<lambda>y. y < v) sl"
    by (simp_all add: takeWhile_eq_take [symmetric] dropWhile_eq_drop [symmetric])
  then show ?thesis
    using Contains_iff [OF strict_sorted [OF assms]] insert_at [OF length_takeWhile_le, of sl "''''" "\<lambda>y. y < v" v]
    by (simp add: Let_def i)
qed

lemma Insert_eq:
  assumes "sorted_wrt (<) sl"
  shows "sorted_wrt (<) (SortedSlice_Insert sl es) \<and> set (SortedSlice_Insert sl es) = set sl \<union> set es"
  using assms
proof (induction es arbitrary: sl)
  case (Cons v es)
  let ?m = "takeWhile (\<lambda>y. y < v) sl @ v # dropWhile (\<lambda>y. y < v) sl"
  have "set ?m = insert v (set sl)"
    by (metis Un_insert_right list.simps(15) set_append takeWhile_dropWhile_id)
  then show ?case
    using Cons.IH [OF Cons.prems] Cons.IH [of ?m] insert_sorted_mid [OF Cons.prems, of v]
    by (auto simp only: Insert_Cons [OF Cons.prems] if_True if_False list.set split: if_split)
qed simp

section \<open>Removal\<close>

lemma go_copy_shift:
  assumes "i < length sl"
  shows "go_copy sl i (drop (i + 1) sl) = take i sl @ drop (i + 1) sl @ [last sl]"
proof -
  have "drop (length sl - 1) sl = [last sl]"
    using assms by (metis append_butlast_last_id append_eq_conv_conj length_butlast list.size(3) not_less_zero)
  then show ?thesis using assms by (simp add: go_copy_def Let_def min_def)
qed

lemma Remove_step:
  assumes "sorted_wrt (<) t" "v \<in> set t" "\<forall>x \<in> set t. x \<le> m" "k = 0 \<longrightarrow> last t = m"
  shows "Remove_loop (t @ replicate k m) d (v # es) =
         Remove_loop (filter (\<lambda>x. x \<noteq> v) t @ replicate (k + 1) m) (d + 1) es"
proof -
  let ?a = "t @ replicate k m"
  have sa: "sorted ?a" using assms(1,3) by (auto simp: sorted_append strict_sorted)
  obtain zs where t: "t = takeWhile (\<lambda>y. y < v) t @ v # zs"
    using takeWhile_split [OF assms(2) strict_sorted [OF assms(1)]] by blast
  define us where "us = takeWhile (\<lambda>y. y < v) t"
  have t': "t = us @ v # zs" using t us_def by simp
  have "takeWhile (\<lambda>y. y < v) ?a = us" unfolding us_def using assms(2) by (metis order_less_irrefl takeWhile_append1)
  then have i: "SearchStrings ?a v = length us" using SearchStrings_eq [OF sa] by simp
  have "last ?a = m" using assms(4) by (cases k) (simp_all add: last_append)
  then have "go_copy ?a (length us) (drop (length us + 1) ?a) = us @ zs @ replicate k m @ [m]"
    using go_copy_shift [of "length us" ?a] by (simp add: t')
  moreover have "filter (\<lambda>x. x \<noteq> v) t = us @ zs"
    using assms(1) unfolding t' by (fastforce simp: sorted_wrt_append filter_id_conv intro!: arg_cong2 [where f = append])
  ultimately show ?thesis using i by (simp add: Let_def t' replicate_append_same)
qed

lemma Remove_skip:
  assumes "v \<notin> set sl"
  shows "Remove_loop sl d (v # es) = Remove_loop sl d es"
proof -
  have "sl ! SearchStrings sl v \<noteq> v" if "SearchStrings sl v < length sl"
    using nth_mem [OF that] assms by auto
  then show ?thesis by (auto simp: Let_def not_le)
qed

lemma Remove_loop_eq:
  assumes "sorted_wrt (<) t" "\<forall>x \<in> set t. x \<le> m" "k = 0 \<longrightarrow> t \<noteq> [] \<and> last t = m"
    and "count_list es m \<le> (if m \<in> set t then 1 else 0)"
  shows "\<exists>k'. Remove_loop (t @ replicate k m) k es = (filter (\<lambda>x. x \<notin> set es) t @ replicate k' m, k')"
  using assms
proof (induction es arbitrary: t k)
  case (Cons v es)
  show ?case
  proof (cases "v \<in> set t")
    case True
    let ?t = "filter (\<lambda>x. x \<noteq> v) t"
    have "count_list es m \<le> (if m \<in> set ?t then 1 else 0)"
      using Cons.prems(4) True by (auto split: if_splits)
    then have "\<exists>k'. Remove_loop (?t @ replicate (k + 1) m) (k + 1) es = (filter (\<lambda>x. x \<notin> set es) ?t @ replicate k' m, k')"
      using Cons.prems by (intro Cons.IH) (auto simp: sorted_wrt_filter)
    moreover have "filter (\<lambda>x. x \<notin> set es) ?t = filter (\<lambda>x. x \<notin> set (v # es)) t"
      by (auto intro: filter_cong)
    ultimately show ?thesis using Remove_step [OF Cons.prems(1) True Cons.prems(2)] Cons.prems(3) by simp
  next
    case False
    have "v \<noteq> m"
      using Cons.prems(4) False by (auto split: if_splits)
    then have "Remove_loop (t @ replicate k m) k (v # es) = Remove_loop (t @ replicate k m) k es"
      using False by (intro Remove_skip) auto
    moreover have "filter (\<lambda>x. x \<notin> set (v # es)) t = filter (\<lambda>x. x \<notin> set es) t"
      using False by (auto intro: filter_cong)
    ultimately show ?thesis using Cons.IH [OF Cons.prems(1-3)] Cons.prems(4) \<open>v \<noteq> m\<close> by simp
  qed
qed auto

text \<open>Whatever is asked for, what the removal leaves is a part of the slice, in order.\<close>

lemma Remove_again:
  assumes "sorted_wrt (<) t" "\<forall>x \<in> set t. x < m" "k > 0"
  shows "Remove_loop (t @ replicate k m) d (m # es) = Remove_loop (t @ replicate k m) (d + 1) es"
proof -
  let ?a = "t @ replicate k m"
  obtain j where k: "k = Suc j" using assms(3) by (cases k) auto
  have "sorted ?a" using assms(1,2) by (auto simp: sorted_append strict_sorted less_imp_le)
  moreover have "takeWhile (\<lambda>y. y < m) ?a = t" using assms(2) k by (simp add: takeWhile_append2)
  ultimately have i: "SearchStrings ?a m = length t" using SearchStrings_eq by metis
  have "go_copy ?a (length t) (drop (length t + 1) ?a) = ?a"
    using go_copy_shift [of "length t" ?a] k by (simp add: replicate_append_same)
  then show ?thesis using i k by (simp add: Let_def nth_append)
qed

lemma Remove_loop_part:
  assumes "sorted_wrt (<) t" "\<forall>x \<in> set t. x \<le> m" "k = 0 \<longrightarrow> t \<noteq> [] \<and> last t = m" "k \<le> d"
  shows "\<exists>k' d'. k' \<le> d' \<and> Remove_loop (t @ replicate k m) d es = (filter (\<lambda>x. x \<notin> set es) t @ replicate k' m, d')"
  using assms
proof (induction es arbitrary: t k d)
  case (Cons v es)
  consider "v \<in> set t" | "v \<notin> set t" "v = m" "k > 0" | "v \<notin> set (t @ replicate k m)"
    using Cons.prems(3) by (cases "k = 0") auto
  then show ?case
  proof cases
    case 1
    let ?t = "filter (\<lambda>x. x \<noteq> v) t"
    have s: "Remove_loop (t @ replicate k m) d (v # es) = Remove_loop (?t @ replicate (k + 1) m) (d + 1) es"
      by (rule Remove_step [OF Cons.prems(1) 1 Cons.prems(2)]) (use Cons.prems(3) in simp)
    have f: "filter (\<lambda>x. x \<notin> set (v # es)) t = filter (\<lambda>x. x \<notin> set es) ?t" by simp
    show ?thesis unfolding s f
    proof (rule Cons.IH)
      show "sorted_wrt (<) ?t" using Cons.prems(1) by (rule sorted_wrt_filter)
    qed (use Cons.prems in simp_all)
  next
    case 2
    then have "\<forall>x \<in> set t. x < m" using Cons.prems(2) by (metis order_le_imp_less_or_eq)
    moreover have "filter (\<lambda>x. x \<notin> set (v # es)) t = filter (\<lambda>x. x \<notin> set es) t"
      using 2 by (auto intro: filter_cong)
    ultimately show ?thesis
      using Cons.IH [OF Cons.prems(1-3), of "d + 1"] Remove_again [OF Cons.prems(1)] 2 Cons.prems(4) by simp
  next
    case 3
    then have "filter (\<lambda>x. x \<notin> set (v # es)) t = filter (\<lambda>x. x \<notin> set es) t"
      by (auto intro: filter_cong)
    then show ?thesis using Cons.IH [OF Cons.prems] Remove_skip [OF 3] by simp
  qed
qed auto

lemma Remove_Nil: "SortedSlice_Remove [] es = Some []"
proof -
  have "Remove_loop [] 0 es = ([], 0)" by (induction es) simp_all
  then show ?thesis by (simp add: SortedSlice_Remove_def)
qed

lemma sorted_last_max: "sorted_wrt (<) (sl :: 'a :: linorder list) \<Longrightarrow> x \<in> set sl \<Longrightarrow> x \<le> last sl"
  by (induction sl) (auto intro: less_imp_le)

lemma Remove_eq:
  assumes "sorted_wrt (<) sl" and "sl \<noteq> [] \<longrightarrow> count_list es (last sl) \<le> 1"
  shows "SortedSlice_Remove sl es = Some (filter (\<lambda>x. x \<notin> set es) sl)"
proof (cases "sl = []")
  case True
  then show ?thesis by (simp add: Remove_Nil)
next
  case False
  obtain k where "Remove_loop sl 0 es = (filter (\<lambda>x. x \<notin> set es) sl @ replicate k (last sl), k)"
    using Remove_loop_eq [OF assms(1), of "last sl" 0 es] sorted_last_max [OF assms(1)] False assms(2) by auto
  then show ?thesis by (simp add: SortedSlice_Remove_def)
qed

lemma Remove_part:
  assumes "sorted_wrt (<) sl" "SortedSlice_Remove sl es = Some r"
  shows "sorted_wrt (<) r \<and> set r \<subseteq> set sl - set es"
proof (cases "sl = []")
  case True
  then show ?thesis using assms(2) by (simp add: Remove_Nil)
next
  case False
  let ?t = "filter (\<lambda>x. x \<notin> set es) sl"
  obtain k d where kd: "k \<le> d" "Remove_loop sl 0 es = (?t @ replicate k (last sl), d)"
    using Remove_loop_part [OF assms(1), of "last sl" 0 0 es] sorted_last_max [OF assms(1)] False by auto
  then have "r = ?t \<or> (\<exists>n. r = take n ?t)"
    using assms(2) by (cases "d = 0") (auto simp: SortedSlice_Remove_def split: if_splits)
  then show ?thesis using assms(1) by (auto simp: sorted_wrt_take sorted_wrt_filter dest: in_set_takeD)
qed

section \<open>The set interface\<close>

text \<open>
  What the clients of sorted slices rely on: the operations compute those of finite sets and keep
  the representation. The removal is only asked to work on arguments without repetitions.
\<close>

locale string_set =
  fixes mk :: "string list \<Rightarrow> 's"
    and ins :: "'s \<Rightarrow> string list \<Rightarrow> 's"
    and del :: "'s \<Rightarrow> string list \<Rightarrow> 's option"
    and diff :: "'s \<Rightarrow> 's \<Rightarrow> 's"
    and inter :: "'s \<Rightarrow> 's \<Rightarrow> 's"
    and sub :: "'s \<Rightarrow> 's \<Rightarrow> bool"
    and wf :: "'s \<Rightarrow> bool"
    and els :: "'s \<Rightarrow> string set"
  assumes mk: "wf (mk xs)" "els (mk xs) = set xs"
    and ins: "wf s \<Longrightarrow> wf (ins s xs)" "wf s \<Longrightarrow> els (ins s xs) = els s \<union> set xs"
    and del: "wf s \<Longrightarrow> distinct xs \<Longrightarrow> \<exists>t. del s xs = Some t \<and> wf t \<and> els t = els s - set xs"
    and diff: "wf s \<Longrightarrow> wf t \<Longrightarrow> wf (diff s t)" "wf s \<Longrightarrow> wf t \<Longrightarrow> els (diff s t) = els s - els t"
    and inter: "wf s \<Longrightarrow> wf t \<Longrightarrow> wf (inter s t)" "wf s \<Longrightarrow> wf t \<Longrightarrow> els (inter s t) = els s \<inter> els t"
    and sub: "wf s \<Longrightarrow> wf t \<Longrightarrow> sub s t \<longleftrightarrow> els s \<subseteq> els t"
begin

text \<open>The two differences that lead from the old set to the set of the elements \<open>xs\<close>.\<close>

lemma delta:
  assumes "wf old"
  shows "(els old \<union> els (diff (mk xs) old)) - els (diff old (mk xs)) = set xs"
    "els (diff (mk xs) old) \<inter> els old = {}" "els (diff old (mk xs)) \<subseteq> els old"
  using diff(2) [OF mk(1) assms] diff(2) [OF assms mk(1)] by (auto simp: mk)

text \<open>An event that adds elements and removes others.\<close>

lemma add_remove:
  assumes "wf s" "distinct ys"
  shows "\<exists>t. del (ins s xs) ys = Some t \<and> wf t \<and> els t = (els s \<union> set xs) - set ys"
  using del [OF ins(1) [OF assms(1)] assms(2)] ins(2) [OF assms(1)] by simp

lemma subset_request: "wf s \<Longrightarrow> sub (mk xs) s \<longleftrightarrow> set xs \<subseteq> els s"
  by (simp add: mk sub)

lemma select: "wf s \<Longrightarrow> els (inter s (mk xs)) = els s \<inter> set xs"
  by (simp add: mk inter)

end

lemma IsSubslice_iff:
  assumes "sorted_wrt (<) xs" "sorted_wrt (<) s"
  shows "SortedSlice_IsSubslice xs s \<longleftrightarrow> set xs \<subseteq> set s"
proof -
  note s = strict_sorted [OF assms(2)]
  have long: "\<not> set xs \<subseteq> set s" if "length xs > length s"
    using card_mono [of "set s" "set xs"] that assms
    by (auto simp: strict_sorted_iff distinct_card not_le dest!: distinct_card [symmetric])
  show ?thesis
  proof (cases "length xs > length s \<or> length xs \<le> 1")
    case True
    then show ?thesis using long Contains_iff [OF s]
      by (cases xs) (auto simp: SortedSlice_IsSubslice_def)
  next
    case False
    then obtain x ys where xs: "xs = x # ys" by (cases xs) auto
    let ?k = "SearchStrings s x"
    have k: "?k = length (takeWhile (\<lambda>y. y < x) s)" by (rule SearchStrings_eq [OF s])
    then have "drop ?k s = dropWhile (\<lambda>y. y < x) s" by (simp add: dropWhile_eq_drop)
    then have "set xs \<subseteq> set (drop ?k s) \<longleftrightarrow> set xs \<subseteq> set s"
      using assms(1) xs by (auto simp: dropWhile_less_mem less_imp_le)
    then show ?thesis
      using False xs IsSubslice_loop_eq [OF s assms(1), of ?k] k length_takeWhile_le [of _ s]
      by (simp add: SortedSlice_IsSubslice_def)
  qed
qed

interpretation sorted_slices: string_set MakeSortedSlice SortedSlice_Insert SortedSlice_Remove
  SortedSlice_Difference SortedSlice_Intersection SortedSlice_IsSubslice "sorted_wrt (<)" set
proof (unfold_locales, goal_cases)
  case (5 s xs)
  have "count_list xs (last s) \<le> 1" using 5(2) by (induction xs) (auto simp: count_list_0_iff)
  then show ?case using Remove_eq [OF 5(1), of xs] 5(1) by (auto simp: sorted_wrt_filter)
qed (auto simp: MakeSortedSlice_sorted MakeSortedSlice_set Insert_eq strict_sorted IsSubslice_iff
  SortedSlice_Difference_def SortedSlice_Intersection_def Difference_loop_eq Intersection_loop_eq
  sorted_wrt_filter)

section \<open>Properties\<close>

text \<open>The methods of sorted slices compute the set operations, on strictly increasing slices
  and any arguments: construction and insertion give strictly increasing slices with the elements
  asked for, difference and intersection list the right elements of the first slice in order,
  \<open>Contains\<close> and \<open>IsSubslice\<close> decide membership and inclusion, \<open>Equal\<close> is equality.\<close>

theorem sorted_slice_set_operations:
  assumes "sorted_wrt (<) s" "sorted_wrt (<) t"
  shows "sorted_wrt (<) (MakeSortedSlice xs) \<and> set (MakeSortedSlice xs) = set xs
    \<and> sorted_wrt (<) (SortedSlice_Insert s xs) \<and> set (SortedSlice_Insert s xs) = set s \<union> set xs
    \<and> SortedSlice_Difference s t = filter (\<lambda>x. x \<notin> set t) s
    \<and> SortedSlice_Intersection s t = filter (\<lambda>x. x \<in> set t) s
    \<and> (SortedSlice_Contains s x \<longleftrightarrow> x \<in> set s)
    \<and> (SortedSlice_IsSubslice s t \<longleftrightarrow> set s \<subseteq> set t)
    \<and> (SortedSlice_IsSuperslice s t \<longleftrightarrow> set t \<subseteq> set s)
    \<and> (SortedSlice_Equal s t \<longleftrightarrow> set s = set t)"
  using assms
  by (auto simp: MakeSortedSlice_sorted MakeSortedSlice_set Insert_eq SortedSlice_Difference_def
      SortedSlice_Intersection_def Difference_loop_eq Intersection_loop_eq strict_sorted Contains_iff
      IsSubslice_iff SortedSlice_IsSuperslice_def Equal_iff strict_sorted_equal)

theorem sorted_slice_set_operations_witness:
  "SortedSlice_Difference [''a'', ''b'', ''d''] [''b'', ''c''] = [''a'', ''d'']
   \<and> SortedSlice_Intersection [''a'', ''b'', ''d''] [''b'', ''c''] = [''b'']
   \<and> SortedSlice_Contains [''a'', ''b'', ''d''] ''d''
   \<and> \<not> SortedSlice_IsSubslice [''a'', ''b'', ''d''] [''b'', ''c'']"
  using sorted_slice_set_operations [of "[''a'', ''b'', ''d'']" "[''b'', ''c'']" "[]" "''d''"] by simp

lemma filter_last:
  "sorted_wrt (<) s \<Longrightarrow> s \<noteq> [] \<Longrightarrow> filter (\<lambda>x. x \<noteq> last s) s @ [last s] = (s :: 'a :: linorder list)"
  by (induction s) (auto dest: last_in_set)

lemma Remove_last_loop:
  assumes "sorted_wrt (<) s" "s \<noteq> []"
  shows "Remove_loop s d (replicate n (last s)) = (s, d + n)"
proof (induction n arbitrary: d)
  case (Suc n)
  have "Remove_loop s d (last s # replicate n (last s)) = Remove_loop s (d + 1) (replicate n (last s))"
    using Remove_step [OF assms(1), of "last s" "last s" 0 d] sorted_last_max [OF assms(1)] assms
      filter_last [OF assms] by simp
  then show ?case using Suc by simp
qed simp

text \<open>Removing elements gives the slice without them whenever its last element is among the
  arguments at most once. Asked for \<open>n\<close> times, the last element takes \<open>n\<close> elements from the end of
  the slice with it, and the call panics when the slice is shorter than that.\<close>

theorem sorted_slice_remove:
  assumes "sorted_wrt (<) s" "s \<noteq> []"
  shows "(count_list es (last s) \<le> 1 \<longrightarrow> SortedSlice_Remove s es = Some (filter (\<lambda>x. x \<notin> set es) s))
    \<and> SortedSlice_Remove s (replicate n (last s)) =
        (if n \<le> length s then Some (take (length s - n) s) else None)"
  using Remove_eq [OF assms(1)] Remove_last_loop [OF assms, of 0 n] by (simp add: SortedSlice_Remove_def)

theorem sorted_slice_remove_witness:
  "SortedSlice_Remove [''a'', ''b'', ''c''] [''c'', ''x'', ''a''] = Some [''b'']
   \<and> SortedSlice_Remove [''a'', ''b'', ''c''] [''c'', ''c''] = Some [''a'']
   \<and> SortedSlice_Remove [''a''] [''a'', ''a''] = None"
  using sorted_slice_remove [of "[''a'', ''b'', ''c'']" "[''c'', ''x'', ''a'']" 2]
    sorted_slice_remove [of "[''a'']" "[]" 2]
  by (simp add: numeral_2_eq_2)

lemma strings_Intersection_mark_eq:
  "strings_Intersection_mark s1 hash = (\<lambda>e. if e \<in> set s1 then Some False else hash e)"
  by (induction s1 arbitrary: hash) auto

lemma strings_Intersection_collect_eq:
  "set (strings_Intersection_collect s2 hash) = {e \<in> set s2. hash e = Some False}
   \<and> distinct (strings_Intersection_collect s2 hash)"
proof (induction s2 arbitrary: hash)
  case (Cons e s2)
  then show ?case by (cases "hash e") (auto split: if_splits)
qed simp

lemma UniqueStable_loop_eq:
  "set (UniqueStable_loop s m) = set s - m \<and> distinct (UniqueStable_loop s m)"
  by (induction s arbitrary: m) auto

text \<open>
  The unordered helpers: intersection without repetitions, the two halves of a split, and the two
  ways to drop repetitions.
\<close>

theorem strings_slices:
  "set (strings_Intersection s1 s2) = set s1 \<inter> set s2 \<and> distinct (strings_Intersection s1 s2)
   \<and> strings_Split s1 f = (filter f s1, filter (\<lambda>v. \<not> f v) s1)
   \<and> sorted_wrt (<) (snd (strings_Unique s1)) \<and> set (snd (strings_Unique s1)) = set s1
   \<and> length (fst (strings_Unique s1)) = length s1
   \<and> set (UniqueStable s1) = set s1 \<and> distinct (UniqueStable s1)"
proof -
  have "strings_Split s1 f = (filter f s1, filter (\<lambda>v. \<not> f v) s1)" by (induction s1) auto
  moreover have "length (remdups_adj (sort s1)) \<le> length s1"
    using remdups_adj_length [of "sort s1"] by simp
  ultimately show ?thesis
    by (auto simp: strings_Intersection_def strings_Intersection_collect_eq strings_Intersection_mark_eq
        strings_Unique_def Let_def sorted_remdups_adj_less UniqueStable_def UniqueStable_loop_eq)
qed

end
