(* ===== verification/Kit_Sync.thy ===== *)
theory Kit_Sync
  imports Hub_Prelude
begin

text \<open>
  What the caches of the hub share: the synchronized map of \<^verbatim>\<open>plgd-dev/kit\<close>, a parameter whose
  documented behaviour is \<open>kit_map_ok\<close>, and the numbering of handlers with an atomic 64-bit counter.
  The values of the map are pointers, natural numbers here; the objects live in a heap of the cache.
\<close>

section \<open>The synchronized map\<close>

text \<open>
  \<open>LoadOrStoreWithFunc\<close> gives the stored pointer, or stores the one that the create function returns;
  \<open>ReplaceWithFunc\<close> calls its function once with the old value and stores or deletes; the function
  works on a state \<open>'s\<close>. \<open>Range\<close> visits every entry once, in some order.
\<close>

record ('m, 's) kit_sync_map =
  km_NewMap :: 'm
  km_Load :: "'m \<Rightarrow> string \<Rightarrow> nat option"
  km_LoadOrStoreWithFunc :: "'m \<Rightarrow> string \<Rightarrow> nat \<Rightarrow> 'm \<times> nat \<times> bool"
  km_ReplaceWithFunc :: "'m \<Rightarrow> string \<Rightarrow> (nat option \<Rightarrow> 's \<Rightarrow> 's \<times> nat option) \<Rightarrow> 's \<Rightarrow> 'm \<times> 's"
  km_Range :: "'m \<Rightarrow> (string \<times> nat) list"

definition kit_map_ok :: "('m, 's) kit_sync_map \<Rightarrow> bool" where
  "kit_map_ok K \<longleftrightarrow>
     (\<forall>k. km_Load K (km_NewMap K) k = None)
   \<and> (\<forall>m k p m' q loaded. km_LoadOrStoreWithFunc K m k p = (m', q, loaded) \<longrightarrow>
        (case km_Load K m k of
           Some p0 \<Rightarrow> loaded \<and> q = p0 \<and> km_Load K m' = km_Load K m
         | None \<Rightarrow> \<not> loaded \<and> q = p \<and> km_Load K m' = (km_Load K m)(k \<mapsto> p)))
   \<and> (\<forall>m k f s m' s' s1 r. km_ReplaceWithFunc K m k f s = (m', s') \<longrightarrow> f (km_Load K m k) s = (s1, r) \<longrightarrow>
        s' = s1 \<and> km_Load K m' = (km_Load K m)(k := r))
   \<and> (\<forall>m. distinct (map fst (km_Range K m)) \<and> (\<forall>k p. (k, p) \<in> set (km_Range K m) \<longleftrightarrow> km_Load K m k = Some p))"

lemma kit_map_Load_New: "kit_map_ok K \<Longrightarrow> km_Load K (km_NewMap K) k = None"
  by (simp add: kit_map_ok_def)

lemma kit_map_LoadOrStore:
  assumes "kit_map_ok K" "km_LoadOrStoreWithFunc K m k p = (m', q, loaded)"
  shows "(case km_Load K m k of
           Some p0 \<Rightarrow> loaded \<and> q = p0 \<and> km_Load K m' = km_Load K m
         | None \<Rightarrow> \<not> loaded \<and> q = p \<and> km_Load K m' = (km_Load K m)(k \<mapsto> p))"
  using assms unfolding kit_map_ok_def by blast

lemma kit_map_Replace:
  assumes "kit_map_ok K" "km_ReplaceWithFunc K m k f s = (m', s')" "f (km_Load K m k) s = (s1, r)"
  shows "s' = s1" "km_Load K m' = (km_Load K m)(k := r)"
  using assms unfolding kit_map_ok_def by blast+

lemma kit_map_Range:
  assumes "kit_map_ok K"
  shows "distinct (map fst (km_Range K m))" "(k, p) \<in> set (km_Range K m) \<longleftrightarrow> km_Load K m k = Some p"
  using assms by (simp_all add: kit_map_ok_def)

text \<open>An implementation on association lists: the behaviour asked for can be had.\<close>

definition alist_map :: "((string \<times> nat) list, 's) kit_sync_map" where
  "alist_map = \<lparr> km_NewMap = [],
     km_Load = (\<lambda>m k. map_of m k),
     km_LoadOrStoreWithFunc = (\<lambda>m k p. case map_of m k of Some q \<Rightarrow> (m, q, True) | None \<Rightarrow> ((k, p) # m, p, False)),
     km_ReplaceWithFunc = (\<lambda>m k f s. case f (map_of m k) s of
        (s', None) \<Rightarrow> (filter (\<lambda>e. fst e \<noteq> k) m, s')
      | (s', Some p) \<Rightarrow> ((k, p) # filter (\<lambda>e. fst e \<noteq> k) m, s')),
     km_Range = (\<lambda>m. map (\<lambda>k. (k, the (map_of m k))) (remdups (map fst m))) \<rparr>"

lemma map_of_filter_ne: "map_of (filter (\<lambda>e. fst e \<noteq> k) m) = (map_of m)(k := None)"
  by (rule ext) (induction m, auto)

lemma alist_map_ok: "kit_map_ok alist_map"
  unfolding kit_map_ok_def
proof (intro conjI allI)
  fix m :: "(string \<times> nat) list" and k :: string and p
  have "comp fst (\<lambda>k. (k, the (map_of m k))) = id" by auto
  then show "distinct (map fst (km_Range alist_map m))" by (simp add: alist_map_def)
  have "map_of m k = Some p \<Longrightarrow> k \<in> fst ` set m" by (metis domI dom_map_of_conv_image_fst)
  moreover have "k \<in> fst ` set m \<Longrightarrow> map_of m k = Some (the (map_of m k))"
    by (metis domD dom_map_of_conv_image_fst option.sel)
  ultimately show "(k, p) \<in> set (km_Range alist_map m) \<longleftrightarrow> km_Load alist_map m k = Some p"
    by (auto simp: alist_map_def)
qed (auto simp: alist_map_def map_of_filter_ne split: option.splits prod.splits)

section \<open>Numbering of handlers\<close>

text \<open>
  A table of handlers by number, and the loop that draws numbers from the counter of the cache until
  the table accepts one. The loop ends as soon as one of the numbers of 64 bits is free.
\<close>

type_synonym 'h handlers = "(u64 \<times> 'h) list"

definition AddHandlerLocked :: "'h handlers \<Rightarrow> u64 \<Rightarrow> 'h \<Rightarrow> 'h handlers \<times> bool" where
  "AddHandlerLocked hs i h =
     (case map_of hs i of None \<Rightarrow> ((i, h) # hs, True) | Some _ \<Rightarrow> (hs, False))"

definition RemoveHandlerLocked :: "'h handlers \<Rightarrow> u64 \<Rightarrow> 'h handlers" where
  "RemoveHandlerLocked hs v = filter (\<lambda>e. fst e \<noteq> v) hs"

partial_function (option) add_handler :: "'h handlers \<Rightarrow> 'h \<Rightarrow> u64 \<Rightarrow> ('h handlers \<times> u64) option" where
  [code]: "add_handler hs h handlerID =
     (let handlerID = handlerID + 1 in
      case AddHandlerLocked hs handlerID h of
        (hs', added) \<Rightarrow> if added then Some (hs', handlerID) else add_handler hs h handlerID)"

lemma add_handler_after:
  "map_of hs (c + 1 + of_nat n) = None \<Longrightarrow>
   \<exists>i. add_handler hs h c = Some ((i, h) # hs, i) \<and> map_of hs i = None"
proof (induction n arbitrary: c)
  case 0
  then show ?case by (subst add_handler.simps) (simp add: AddHandlerLocked_def Let_def)
next
  case (Suc n)
  show ?case
  proof (cases "map_of hs (c + 1)")
    case None
    then show ?thesis by (subst add_handler.simps) (simp add: AddHandlerLocked_def Let_def)
  next
    case (Some x)
    have "\<exists>i. add_handler hs h (c + 1) = Some ((i, h) # hs, i) \<and> map_of hs i = None"
      using Suc by (intro Suc.IH) (simp add: ac_simps)
    then show ?thesis using Some by (subst add_handler.simps) (simp add: AddHandlerLocked_def Let_def)
  qed
qed

lemma add_handler_ends:
  assumes "length hs < 2 ^ 64"
  shows "\<exists>i. add_handler hs h c = Some ((i, h) # hs, i) \<and> map_of hs i = None"
proof -
  have "card (fst ` set hs) < card (UNIV :: u64 set)"
    using assms card_image_le [of "set hs" fst] card_length [of hs] by (simp add: card_word)
  then obtain i where "i \<notin> fst ` set hs" by (metis UNIV_eq_I less_irrefl)
  then have "map_of hs (c + 1 + of_nat (unat (i - (c + 1)))) = None"
    by (simp add: map_of_eq_None_iff)
  then show ?thesis by (rule add_handler_after)
qed

lemma RemoveHandler_distinct:
  "distinct (map fst hs) \<Longrightarrow> distinct (map fst (RemoveHandlerLocked hs v))"
  unfolding RemoveHandlerLocked_def by (induction hs) auto

end
