(* ===== verification/Owner_Cache.thy ===== *)
theory Owner_Cache
  imports Pkg_Strings_Properties Kit_Sync
begin

text \<open>
  The cache of the devices of owners, \<^verbatim>\<open>identity-store/client/ownerCache.go\<close>, which the gateways, the
  resource aggregate and the resource directory use to authorize requests. Each owner has a subject:
  a pointer in the synchronized map, with the object in the heap of the cache. A subject carries the
  handlers of its subscribers, the NATS subscription and the sorted slice of device ids.

  Parameters: the NATS connection (\<open>subscribe\<close>, \<open>unsubscribe\<close>), the stream of the identity store
  (\<open>is_client\<close>), the decoding of messages, the owner named by the token of a request, and the clock,
  read at numbered points of a call. Each method runs to its end between the locks of its subject;
  \<open>errFunc\<close> appends to the list of reported errors.
\<close>

section \<open>Registration events\<close>

record is_EventMetadata =
  ism_HubId :: string

record DevicesRegistered =
  dr_Owner :: string
  dr_DeviceIds :: "string list"
  dr_UserId :: string
  dr_Timestamp :: i64
  dr_EventMetadata :: "is_EventMetadata option"
  dr_OpenTelemetryCarrier :: carrier

record DevicesUnregistered =
  du_Owner :: string
  du_DeviceIds :: "string list"
  du_UserId :: string
  du_Timestamp :: i64
  du_EventMetadata :: "is_EventMetadata option"
  du_OpenTelemetryCarrier :: carrier

text \<open>The message \<open>Event\<close> with its \<open>oneof\<close>.\<close>

datatype is_Event =
    Event_DevicesRegistered DevicesRegistered
  | Event_DevicesUnregistered DevicesUnregistered
  | Event_none

definition registered_ids :: "is_Event \<Rightarrow> string list" where
  "registered_ids e = (case e of Event_DevicesRegistered r \<Rightarrow> dr_DeviceIds r | _ \<Rightarrow> [])"

definition unregistered_ids :: "is_Event \<Rightarrow> string list" where
  "unregistered_ids e = (case e of Event_DevicesUnregistered r \<Rightarrow> du_DeviceIds r | _ \<Rightarrow> [])"

text \<open>\<open>utils.Unmarshal\<close> of a registration event: the snappy decoder and the protobuf decoder are parameters.\<close>

definition utils_Unmarshal :: "(bytes \<Rightarrow> bytes res) \<Rightarrow> (bytes \<Rightarrow> 'e res) \<Rightarrow> bytes \<Rightarrow> 'e res" where
  "utils_Unmarshal snappy unm b =
     (case snappy b of
        Inl err \<Rightarrow> Inl (Wrapf ''cannot decode buffer'' err)
      | Inr dst \<Rightarrow> unm dst)"

text \<open>\<open>kitNetGrpc.ForwardFromError\<close>: the code of the error, if it has one, else the given code.\<close>

definition ForwardFromError :: "code \<Rightarrow> error \<Rightarrow> error" where
  "ForwardFromError c err =
     GrpcStatus (case error_code err of Some c' \<Rightarrow> c' | None \<Rightarrow> c) ''%v'' []"

text \<open>\<open>status.Convert(err).Code()\<close>.\<close>

definition status_code :: "error \<Rightarrow> code" where
  "status_code err = (case error_code err of Some c \<Rightarrow> c | None \<Rightarrow> Unknown_code)"

section \<open>Subjects of owners\<close>

record 'h ownerSubject =
  os_handlers :: "'h handlers"
  os_subscription :: "nat option"
  os_devices :: SortedSlice
  os_validUntil :: gotime
  os_devicesSynced :: bool

definition newOwnerSubject :: "gotime \<Rightarrow> 'h ownerSubject" where
  "newOwnerSubject validUntil =
     \<lparr> os_handlers = [], os_subscription = None, os_devices = [], os_validUntil = validUntil,
       os_devicesSynced = False \<rparr>"

text \<open>
  A message: the subject after it, and the error or the handlers that were called with the event
  (Go visits the map in any order, so they are a multiset). \<open>None\<close> is the panic of the removal.
\<close>

definition ownerSubject_Handle ::
    "(bytes \<Rightarrow> is_Event res) \<Rightarrow> 'h ownerSubject \<Rightarrow> bytes
     \<Rightarrow> ('h ownerSubject \<times> (is_Event \<times> 'h multiset) res) option" where
  "ownerSubject_Handle unm d msg =
     (case unm msg of
        Inl err \<Rightarrow> Some (d, Inl err)
      | Inr e \<Rightarrow>
          (let synced =
             (if os_devicesSynced d then
                let devices = SortedSlice_Insert (os_devices d) (registered_ids e)
                in map_option (\<lambda>devices. d\<lparr>os_devices := devices\<rparr>)
                     (SortedSlice_Remove devices (unregistered_ids e))
              else Some d)
           in map_option (\<lambda>d. (d, Inr (e, mset (map snd (os_handlers d))))) synced))"

definition updateDevicesLocked ::
    "'h ownerSubject \<Rightarrow> string list \<Rightarrow> 'h ownerSubject \<times> string list \<times> string list" where
  "updateDevicesLocked d devices =
     (let deviceIDs = MakeSortedSlice devices;
          added = SortedSlice_Difference deviceIDs (os_devices d);
          removed = SortedSlice_Difference (os_devices d) deviceIDs
      in (d\<lparr>os_devices := deviceIDs, os_devicesSynced := True\<rparr>, added, removed))"

definition subscribeLocked :: "(string \<Rightarrow> nat res) \<Rightarrow> 'h ownerSubject \<Rightarrow> string \<Rightarrow> 'h ownerSubject \<times> unit res" where
  "subscribeLocked subscribe d subject =
     (if os_subscription d = None then
        case subscribe subject of
          Inl err \<Rightarrow> (d, Inl err)
        | Inr sub \<Rightarrow> (d\<lparr>os_subscription := Some sub\<rparr>, Inr ())
      else (d, Inr ()))"

text \<open>
  The stream of \<open>GetDevices\<close>: the call, what \<open>Recv\<close> returns one after the other until the end of the
  stream, and the error of closing the send direction, which is only reported.
\<close>

record is_client =
  ic_GetDevices :: "unit res"
  ic_Recv :: "string res list"
  ic_CloseSend :: "error option"

fun recv_devices :: "string res list \<Rightarrow> string list \<Rightarrow> string list res" where
  "recv_devices [] ownerDevices = Inr ownerDevices"
| "recv_devices (Inl err # _) ownerDevices =
     Inl (GrpcStatus (status_code err) ''cannot receive owners devices: %v'' [])"
| "recv_devices (Inr device # rest) ownerDevices = recv_devices rest (ownerDevices @ [device])"

definition getOwnerDevices :: "is_client \<Rightarrow> error list \<times> string list res" where
  "getOwnerDevices c =
     (case ic_GetDevices c of
        Inl err \<Rightarrow> ([], Inl (GrpcStatus (status_code err) ''cannot get owners devices: %v'' []))
      | Inr _ \<Rightarrow>
          ((case ic_CloseSend c of
              None \<Rightarrow> []
            | Some err \<Rightarrow> [Wrapf ''cannot close send direction of get owners devices stream'' err]),
           recv_devices (ic_Recv c) []))"

section \<open>The cache\<close>

record ('m, 'h) OwnerCache =
  oc_owners :: 'm
  oc_heap :: "nat \<Rightarrow> 'h ownerSubject"
  oc_next :: nat
  oc_ownerClaim :: string
  oc_expiration :: int
  oc_handlerID :: u64
  oc_errors :: "error list"

text \<open>The environment of a call: the connection, the identity store, the owner of the token and the clock.\<close>

record oc_env =
  oe_subscribe :: "string \<Rightarrow> nat res"
  oe_unsubscribe :: "nat \<Rightarrow> error option"
  oe_subject :: "string \<Rightarrow> string"
  oe_client :: is_client
  oe_owner :: "string res"
  oe_clock :: "nat \<Rightarrow> gotime"

text \<open>The state the functions given to \<open>ReplaceWithFunc\<close> work on: the heap and the subscription found.\<close>

type_synonym 'h oc_replace = "(nat \<Rightarrow> 'h ownerSubject) \<times> nat option"

definition NewOwnerCache ::
    "('m, 'h oc_replace) kit_sync_map \<Rightarrow> (nat \<Rightarrow> 'h ownerSubject) \<Rightarrow> string \<Rightarrow> int \<Rightarrow> ('m, 'h) OwnerCache" where
  "NewOwnerCache K heap ownerClaim expiration =
     \<lparr> oc_owners = km_NewMap K, oc_heap = heap, oc_next = 0, oc_ownerClaim = ownerClaim,
       oc_expiration = expiration, oc_handlerID = 0, oc_errors = [] \<rparr>"

definition syncDevicesLocked ::
    "oc_env \<Rightarrow> ('m, 'h) OwnerCache \<Rightarrow> string \<Rightarrow> 'h ownerSubject
     \<Rightarrow> ('m, 'h) OwnerCache \<times> 'h ownerSubject \<times> (string list \<times> string list) res" where
  "syncDevicesLocked E cache owner d =
     (case subscribeLocked (oe_subscribe E) d (oe_subject E owner) of
        (d, Inl err) \<Rightarrow> (cache, d, Inl (ForwardFromError InvalidArgument err))
      | (d, Inr _) \<Rightarrow>
          (let now = oe_clock E 2 in
           case getOwnerDevices (oe_client E) of
             (reported, Inl err) \<Rightarrow>
               (cache\<lparr>oc_errors := oc_errors cache @ reported\<rparr>, d, Inl (ForwardFromError InvalidArgument err))
           | (reported, Inr devices) \<Rightarrow>
               (case updateDevicesLocked (d\<lparr>os_validUntil := now + oc_expiration cache\<rparr>) devices of
                  (d, added, removed) \<Rightarrow>
                    (cache\<lparr>oc_errors := oc_errors cache @ reported\<rparr>, d, Inr (added, removed)))))"

definition executeOnLockedOwnerSubject ::
    "('m, 'h oc_replace) kit_sync_map \<Rightarrow> oc_env \<Rightarrow> ('m, 'h) OwnerCache \<Rightarrow> string
     \<Rightarrow> (('m, 'h) OwnerCache \<Rightarrow> 'h ownerSubject \<Rightarrow> ('m, 'h) OwnerCache \<times> 'h ownerSubject \<times> 'a)
     \<Rightarrow> ('m, 'h) OwnerCache \<times> 'a" where
  "executeOnLockedOwnerSubject K E c owner fn =
     (case km_LoadOrStoreWithFunc K (oc_owners c) owner (oc_next c) of (m, p, loaded) \<Rightarrow>
        let c = (if loaded then c\<lparr>oc_owners := m\<rparr>
                 else c\<lparr>oc_owners := m, oc_next := oc_next c + 1,
                        oc_heap := (oc_heap c)(p := newOwnerSubject (oe_clock E 1 + oc_expiration c))\<rparr>)
        in case fn c (oc_heap c p) of (c, s, r) \<Rightarrow> (c\<lparr>oc_heap := (oc_heap c)(p := s)\<rparr>, r))"

text \<open>The closure of \<open>makeCloseFunc\<close> is the owner and the number of the handler; this is its call.\<close>

definition close_subject :: "int \<Rightarrow> gotime \<Rightarrow> u64 \<Rightarrow> 'h ownerSubject \<Rightarrow> 'h ownerSubject" where
  "close_subject expiration now i s =
     (let s = s\<lparr>os_handlers := RemoveHandlerLocked (os_handlers s) i\<rparr>
      in if length (os_handlers s) = 0 \<and> os_validUntil s > now
         then s\<lparr>os_validUntil := now + expiration\<rparr> else s)"

definition close_fn :: "int \<Rightarrow> gotime \<Rightarrow> u64 \<Rightarrow> nat option \<Rightarrow> 'h oc_replace \<Rightarrow> 'h oc_replace \<times> nat option" where
  "close_fn expiration now i oldValue hs =
     (case oldValue of
        None \<Rightarrow> (hs, None)
      | Some p \<Rightarrow> (((fst hs)(p := close_subject expiration now i (fst hs p)), snd hs), Some p))"

definition closeFunc ::
    "('m, 'h oc_replace) kit_sync_map \<Rightarrow> ('m, 'h) OwnerCache \<Rightarrow> gotime \<Rightarrow> string \<Rightarrow> u64 \<Rightarrow> ('m, 'h) OwnerCache" where
  "closeFunc K c now owner i =
     (case km_ReplaceWithFunc K (oc_owners c) owner (close_fn (oc_expiration c) now i) (oc_heap c, None)
      of (m, heap, _) \<Rightarrow> c\<lparr>oc_owners := m, oc_heap := heap\<rparr>)"

text \<open>
  \<open>Subscribe\<close>: \<open>None\<close> if the search for a handler number never ends. The result is the error or the
  close function, which does nothing when no handler was given.
\<close>

definition subscribe_fn ::
    "oc_env \<Rightarrow> string \<Rightarrow> 'h option \<Rightarrow> ('m, 'h) OwnerCache \<Rightarrow> 'h ownerSubject
     \<Rightarrow> ('m, 'h) OwnerCache \<times> 'h ownerSubject \<times> (u64 option \<times> unit res) option" where
  "subscribe_fn E owner onEvent c s =
     (let added = (case onEvent of
                     None \<Rightarrow> Some (c, s, None)
                   | Some h \<Rightarrow>
                       map_option (\<lambda>(hs, i). (c\<lparr>oc_handlerID := i\<rparr>, s\<lparr>os_handlers := hs\<rparr>, Some i))
                         (add_handler (os_handlers s) h (oc_handlerID c)))
      in case added of
           None \<Rightarrow> (c, s, None)
         | Some (c, s, i) \<Rightarrow>
             (if os_subscription s = None then
                case subscribeLocked (oe_subscribe E) s (oe_subject E owner) of
                  (s, r) \<Rightarrow> (c, s, Some (i, r))
              else (c, s, Some (i, Inr ()))))"

definition OwnerCache_Subscribe ::
    "('m, 'h oc_replace) kit_sync_map \<Rightarrow> oc_env \<Rightarrow> ('m, 'h) OwnerCache \<Rightarrow> string \<Rightarrow> 'h option
     \<Rightarrow> (('m, 'h) OwnerCache \<times> u64 option res) option" where
  "OwnerCache_Subscribe K E c owner onEvent =
     (case executeOnLockedOwnerSubject K E c owner (subscribe_fn E owner onEvent) of
        (c, None) \<Rightarrow> None
      | (c, Some (i, Inl err)) \<Rightarrow>
          Some (case i of None \<Rightarrow> c | Some i \<Rightarrow> closeFunc K c (oe_clock E 3) owner i, Inl err)
      | (c, Some (i, Inr _)) \<Rightarrow> Some (c, Inr i))"

definition OwnerCache_Update ::
    "('m, 'h oc_replace) kit_sync_map \<Rightarrow> oc_env \<Rightarrow> ('m, 'h) OwnerCache
     \<Rightarrow> ('m, 'h) OwnerCache \<times> (string list \<times> string list) res" where
  "OwnerCache_Update K E c =
     (case oe_owner E of
        Inl err \<Rightarrow> (c, Inl (ForwardFromError InvalidArgument err))
      | Inr owner \<Rightarrow> executeOnLockedOwnerSubject K E c owner (\<lambda>c s. syncDevicesLocked E c owner s))"

text \<open>The common part of the queries: synchronize the subject unless it is, then look at its devices.\<close>

definition synced_fn ::
    "oc_env \<Rightarrow> string \<Rightarrow> ('h ownerSubject \<Rightarrow> 'h ownerSubject) \<Rightarrow> ('h ownerSubject \<Rightarrow> 'a)
     \<Rightarrow> ('m, 'h) OwnerCache \<Rightarrow> 'h ownerSubject \<Rightarrow> ('m, 'h) OwnerCache \<times> 'h ownerSubject \<times> 'a res" where
  "synced_fn E owner touch look c s =
     (if \<not> os_devicesSynced s then
        case syncDevicesLocked E c owner s of
          (c, s, Inl err) \<Rightarrow> (c, s, Inl err)
        | (c, s, Inr _) \<Rightarrow> (c, s, Inr (look s))
      else let s = touch s in (c, s, Inr (look s)))"

definition OwnerCache_GetDevices ::
    "('m, 'h oc_replace) kit_sync_map \<Rightarrow> oc_env \<Rightarrow> ('m, 'h) OwnerCache
     \<Rightarrow> ('m, 'h) OwnerCache \<times> string list res" where
  "OwnerCache_GetDevices K E c =
     (case oe_owner E of
        Inl err \<Rightarrow> (c, Inl (ForwardFromError InvalidArgument err))
      | Inr owner \<Rightarrow>
          (let now = oe_clock E 0 in
           executeOnLockedOwnerSubject K E c owner
             (synced_fn E owner (\<lambda>s. s\<lparr>os_validUntil := now + oc_expiration c\<rparr>) os_devices)))"

definition OwnerCache_GetSelectedDevices ::
    "('m, 'h oc_replace) kit_sync_map \<Rightarrow> oc_env \<Rightarrow> ('m, 'h) OwnerCache \<Rightarrow> string list
     \<Rightarrow> ('m, 'h) OwnerCache \<times> string list res" where
  "OwnerCache_GetSelectedDevices K E c devices =
     (case oe_owner E of
        Inl err \<Rightarrow> (c, Inl (ForwardFromError InvalidArgument err))
      | Inr owner \<Rightarrow>
          (let deviceIds = MakeSortedSlice devices in
           executeOnLockedOwnerSubject K E c owner
             (synced_fn E owner id (\<lambda>s. SortedSlice_Intersection (os_devices s) deviceIds))))"

definition OwnerCache_OwnsDevices ::
    "('m, 'h oc_replace) kit_sync_map \<Rightarrow> oc_env \<Rightarrow> ('m, 'h) OwnerCache \<Rightarrow> string list
     \<Rightarrow> ('m, 'h) OwnerCache \<times> bool res" where
  "OwnerCache_OwnsDevices K E c devices =
     (case oe_owner E of
        Inl err \<Rightarrow> (c, Inl (ForwardFromError InvalidArgument err))
      | Inr owner \<Rightarrow>
          (let deviceIds = MakeSortedSlice devices in
           executeOnLockedOwnerSubject K E c owner
             (synced_fn E owner id (\<lambda>s. SortedSlice_IsSuperslice (os_devices s) deviceIds))))"

definition OwnerCache_OwnsDevice ::
    "('m, 'h oc_replace) kit_sync_map \<Rightarrow> oc_env \<Rightarrow> ('m, 'h) OwnerCache \<Rightarrow> string
     \<Rightarrow> ('m, 'h) OwnerCache \<times> bool res" where
  "OwnerCache_OwnsDevice K E c deviceID = OwnerCache_OwnsDevices K E c [deviceID]"

section \<open>Expiration\<close>

fun expire_subjects ::
    "gotime \<Rightarrow> (string \<times> nat) list \<Rightarrow> (nat \<Rightarrow> 'h ownerSubject) \<Rightarrow> (nat \<Rightarrow> 'h ownerSubject) \<times> string list" where
  "expire_subjects t [] heap = (heap, [])"
| "expire_subjects t ((key, p) # entries) heap =
     (let s = heap p in
      if length (os_handlers s) > 0 then
        expire_subjects t entries
          (if os_validUntil s < t then heap(p := s\<lparr>os_devices := [], os_devicesSynced := False\<rparr>) else heap)
      else if os_validUntil s < t then apsnd ((#) key) (expire_subjects t entries heap)
      else expire_subjects t entries heap)"

definition getExpiredOwnerSubjects ::
    "('m, 'h oc_replace) kit_sync_map \<Rightarrow> ('m, 'h) OwnerCache \<Rightarrow> gotime \<Rightarrow> ('m, 'h) OwnerCache \<times> string list" where
  "getExpiredOwnerSubjects K c t =
     (case expire_subjects t (km_Range K (oc_owners c)) (oc_heap c) of
        (heap, expired) \<Rightarrow> (c\<lparr>oc_heap := heap\<rparr>, expired))"

definition expire_fn :: "gotime \<Rightarrow> nat option \<Rightarrow> 'h oc_replace \<Rightarrow> 'h oc_replace \<times> nat option" where
  "expire_fn now oldValue hs =
     (case oldValue of
        None \<Rightarrow> (hs, None)
      | Some p \<Rightarrow>
          (let s = fst hs p in
           if length (os_handlers s) > 0 then (hs, Some p)
           else if os_validUntil s < now then ((fst hs, os_subscription s), None)
           else (hs, Some p)))"

definition expire_owner ::
    "('m, 'h oc_replace) kit_sync_map \<Rightarrow> oc_env \<Rightarrow> gotime \<Rightarrow> ('m, 'h) OwnerCache \<Rightarrow> string \<Rightarrow> ('m, 'h) OwnerCache" where
  "expire_owner K E now c owner =
     (case km_ReplaceWithFunc K (oc_owners c) owner (expire_fn now) (oc_heap c, None)
      of (m, heap, sub) \<Rightarrow>
        c\<lparr>oc_owners := m, oc_heap := heap,
          oc_errors := oc_errors c @
            (case sub of None \<Rightarrow> [] | Some h \<Rightarrow>
               (case oe_unsubscribe E h of
                  None \<Rightarrow> [] | Some err \<Rightarrow> [Wrapf ''cannot unsubscribe owner('%v')'' err]))\<rparr>)"

definition checkExpiration ::
    "('m, 'h oc_replace) kit_sync_map \<Rightarrow> oc_env \<Rightarrow> ('m, 'h) OwnerCache \<Rightarrow> ('m, 'h) OwnerCache" where
  "checkExpiration K E c =
     (let now = oe_clock E 0 in
      case getExpiredOwnerSubjects K c now of
        (c, expiredOwners) \<Rightarrow> foldl (expire_owner K E now) c expiredOwners)"

end
