(* ===== verification/Owner_Cache_Properties.thy ===== *)
theory Owner_Cache_Properties
  imports Owner_Cache
begin

text \<open>
  The cache as a table of owners: \<open>subject_of\<close> reads the subject of an owner through the map and the
  heap, and each method changes at most the entry of its owner (\<open>execute_view\<close>, \<open>closeFunc_view\<close>,
  \<open>checkExpiration_view\<close>). On this table the answers are those of a set of device ids.
\<close>

section \<open>The table of owners\<close>

definition subject_of ::
    "('m, 'h oc_replace) kit_sync_map \<Rightarrow> ('m, 'h) OwnerCache \<Rightarrow> string \<Rightarrow> 'h ownerSubject option" where
  "subject_of K c owner = map_option (oc_heap c) (km_Load K (oc_owners c) owner)"

definition subject_ok :: "'h ownerSubject \<Rightarrow> bool" where
  "subject_ok s \<longleftrightarrow>
     sorted_wrt (<) (os_devices s) \<and> (\<not> os_devicesSynced s \<longrightarrow> os_devices s = [])
   \<and> distinct (map fst (os_handlers s))"

definition oc_inv :: "('m, 'h oc_replace) kit_sync_map \<Rightarrow> ('m, 'h) OwnerCache \<Rightarrow> bool" where
  "oc_inv K c \<longleftrightarrow>
     (\<forall>o1 p. km_Load K (oc_owners c) o1 = Some p \<longrightarrow>
        p < oc_next c \<and> (\<forall>o2. km_Load K (oc_owners c) o2 = Some p \<longrightarrow> o2 = o1))
   \<and> (\<forall>p < oc_next c. subject_ok (oc_heap c p))"

text \<open>A body that works on its subject, the counter and the reported errors only.\<close>

definition quiet ::
    "(('m, 'h) OwnerCache \<Rightarrow> 'h ownerSubject \<Rightarrow> ('m, 'h) OwnerCache \<times> 'h ownerSubject \<times> 'a) \<Rightarrow> bool" where
  "quiet fn \<longleftrightarrow> (\<forall>c s c' s' r. fn c s = (c', s', r) \<longrightarrow>
     oc_owners c' = oc_owners c \<and> oc_heap c' = oc_heap c \<and> oc_next c' = oc_next c)"

definition subject_or_new ::
    "('m, 'h oc_replace) kit_sync_map \<Rightarrow> oc_env \<Rightarrow> ('m, 'h) OwnerCache \<Rightarrow> string \<Rightarrow> 'h ownerSubject" where
  "subject_or_new K E c owner =
     (case subject_of K c owner of
        Some s \<Rightarrow> s | None \<Rightarrow> newOwnerSubject (oe_clock E 1 + oc_expiration c))"

lemma newOwnerSubject_ok [simp]: "subject_ok (newOwnerSubject t)"
  by (simp add: newOwnerSubject_def subject_ok_def)

lemma oc_inv_subject_ok: "oc_inv K c \<Longrightarrow> subject_of K c owner = Some s \<Longrightarrow> subject_ok s"
  by (auto simp: oc_inv_def subject_of_def)

lemma subject_or_new_ok: "oc_inv K c \<Longrightarrow> subject_ok (subject_or_new K E c owner)"
  by (auto simp: subject_or_new_def oc_inv_subject_ok split: option.splits)

lemma map_option_upd_other: "(\<And>q. x = Some q \<Longrightarrow> q \<noteq> p) \<Longrightarrow> map_option (h(p := v)) x = map_option h x"
  by (cases x) auto

text \<open>Writing through the pointer of an owner changes its entry and no other.\<close>

lemma write_subject:
  assumes "oc_inv K c" "km_Load K (oc_owners c) owner = Some p" "subject_ok s"
    "oc_owners c' = oc_owners c" "oc_next c' = oc_next c" "oc_heap c' = (oc_heap c)(p := s)"
  shows "oc_inv K c'" "subject_of K c' = (subject_of K c)(owner \<mapsto> s)"
proof -
  show "oc_inv K c'" using assms by (auto simp: oc_inv_def)
  have "p' \<noteq> p" if "km_Load K (oc_owners c) o' = Some p'" "o' \<noteq> owner" for o' p'
    using that assms(1,2) unfolding oc_inv_def by metis
  then have "subject_of K c' o' = ((subject_of K c)(owner \<mapsto> s)) o'" for o'
    using assms(2,4,6) by (cases "o' = owner") (auto simp: subject_of_def intro: map_option_upd_other)
  then show "subject_of K c' = (subject_of K c)(owner \<mapsto> s)" by blast
qed

lemma execute_view:
  assumes K: "kit_map_ok K" and inv: "oc_inv K c" and q: "quiet fn"
    and ok: "\<And>c s c' s' r. fn c s = (c', s', r) \<Longrightarrow> subject_ok s \<Longrightarrow> subject_ok s'"
    and ex: "executeOnLockedOwnerSubject K E c owner fn = (c', r)"
  obtains c1 c2 s' where "fn c1 (subject_or_new K E c owner) = (c2, s', r)"
    "oc_expiration c1 = oc_expiration c" "oc_handlerID c1 = oc_handlerID c"
    "oc_inv K c'" "subject_of K c' = (subject_of K c)(owner \<mapsto> s')"
proof -
  obtain m p loaded where l: "km_LoadOrStoreWithFunc K (oc_owners c) owner (oc_next c) = (m, p, loaded)"
    by (metis prod_cases3)
  note km = kit_map_LoadOrStore [OF K l]
  define c1 where "c1 = (if loaded then c\<lparr>oc_owners := m\<rparr>
    else c\<lparr>oc_owners := m, oc_next := oc_next c + 1,
           oc_heap := (oc_heap c)(p := newOwnerSubject (oe_clock E 1 + oc_expiration c))\<rparr>)"
  have c1: "oc_inv K c1 \<and> km_Load K (oc_owners c1) owner = Some p \<and>
      oc_heap c1 p = subject_or_new K E c owner \<and> (\<forall>o'. o' \<noteq> owner \<longrightarrow> subject_of K c1 o' = subject_of K c o')"
  proof (cases "km_Load K (oc_owners c) owner")
    case None
    have fresh: "p' \<noteq> oc_next c" if "km_Load K (oc_owners c) o' = Some p'" for o' p'
      using that inv by (auto simp: oc_inv_def)
    have "subject_of K c1 o' = subject_of K c o'" if "o' \<noteq> owner" for o'
      using None km fresh that by (auto simp: c1_def subject_of_def intro: map_option_upd_other)
    then show ?thesis
      using None km inv fresh by (auto simp: c1_def oc_inv_def subject_or_new_def subject_of_def less_Suc_eq)
  next
    case (Some p0)
    then show ?thesis using km inv
      by (auto simp: c1_def oc_inv_def subject_or_new_def subject_of_def)
  qed
  obtain c2 s' where f: "fn c1 (oc_heap c1 p) = (c2, s', r)" and c': "c' = c2\<lparr>oc_heap := (oc_heap c2)(p := s')\<rparr>"
    using ex by (auto simp: executeOnLockedOwnerSubject_def l c1_def Let_def split: prod.splits)
  have same: "oc_owners c2 = oc_owners c1" "oc_heap c2 = oc_heap c1" "oc_next c2 = oc_next c1"
    using q f unfolding quiet_def by blast+
  have s': "subject_ok s'" using ok [OF f] c1 subject_or_new_ok [OF inv] by metis
  have w: "oc_inv K c'" "subject_of K c' = (subject_of K c1)(owner \<mapsto> s')"
    using write_subject [of K c1 owner p s' c'] c1 s' same by (simp_all add: c')
  have "(subject_of K c1)(owner \<mapsto> s') = (subject_of K c)(owner \<mapsto> s')" using c1 by auto
  moreover have "oc_expiration c1 = oc_expiration c" "oc_handlerID c1 = oc_handlerID c"
    by (simp_all add: c1_def)
  ultimately show ?thesis using that f w c1 by metis
qed

lemma close_subject_ok: "subject_ok s \<Longrightarrow> subject_ok (close_subject e now i s)"
  by (auto simp: close_subject_def subject_ok_def Let_def RemoveHandler_distinct)

lemma closeFunc_view:
  assumes K: "kit_map_ok K" and inv: "oc_inv K c"
  shows "oc_inv K (closeFunc K c now owner i)
     \<and> subject_of K (closeFunc K c now owner i) = (subject_of K c)
         (owner := map_option (close_subject (oc_expiration c) now i) (subject_of K c owner))"
proof -
  let ?c = "closeFunc K c now owner i" and ?f = "close_fn (oc_expiration c) now i"
  obtain m h where r: "km_ReplaceWithFunc K (oc_owners c) owner ?f (oc_heap c, None) = (m, h)" by (metis surj_pair)
  then have c': "?c = c\<lparr>oc_owners := m, oc_heap := fst h\<rparr>"
    unfolding closeFunc_def by (simp add: case_prod_unfold)
  show ?thesis
  proof (cases "km_Load K (oc_owners c) owner")
    case None
    then have "?f (km_Load K (oc_owners c) owner) (oc_heap c, None) = ((oc_heap c, None), None)"
      by (simp add: close_fn_def)
    from kit_map_Replace [OF K r this] have "h = (oc_heap c, None)" "km_Load K m = km_Load K (oc_owners c)"
      using None by auto
    then show ?thesis using inv None by (auto simp: c' oc_inv_def subject_of_def)
  next
    case (Some p)
    let ?s = "close_subject (oc_expiration c) now i (oc_heap c p)"
    have "?f (km_Load K (oc_owners c) owner) (oc_heap c, None) = (((oc_heap c)(p := ?s), None), Some p)"
      using Some by (simp add: close_fn_def)
    from kit_map_Replace [OF K r this] have h: "h = ((oc_heap c)(p := ?s), None)"
      and m: "km_Load K m = km_Load K (oc_owners c)" using Some by auto
    have ok: "subject_ok ?s" using inv Some by (auto simp: oc_inv_def intro: close_subject_ok)
    let ?d = "c\<lparr>oc_heap := (oc_heap c)(p := ?s)\<rparr>"
    have e: "oc_inv K ?c = oc_inv K ?d" "subject_of K ?c = subject_of K ?d"
      using m h by (simp_all add: c' oc_inv_def subject_of_def fun_eq_iff)
    have "subject_of K c owner = Some (oc_heap c p)" using Some by (simp add: subject_of_def)
    then have "subject_of K ?d = (subject_of K c)(owner :=
        map_option (close_subject (oc_expiration c) now i) (subject_of K c owner))" "oc_inv K ?d"
      using write_subject [OF inv Some ok, of ?d] by simp_all
    then show ?thesis using e by (simp only:)
  qed
qed

definition expired :: "gotime \<Rightarrow> 'h ownerSubject \<Rightarrow> bool" where
  "expired now s \<longleftrightarrow> os_handlers s = [] \<and> os_validUntil s < now"

definition unsync :: "gotime \<Rightarrow> 'h ownerSubject \<Rightarrow> 'h ownerSubject" where
  "unsync now s = (if os_handlers s \<noteq> [] \<and> os_validUntil s < now
                   then s\<lparr>os_devices := [], os_devicesSynced := False\<rparr> else s)"

lemma unsync_ok: "subject_ok s \<Longrightarrow> subject_ok (unsync now s)"
  by (simp add: unsync_def subject_ok_def)

lemma expired_unsync: "expired now (unsync now s) \<longleftrightarrow> expired now s"
  by (simp add: unsync_def expired_def)

lemma expire_subjects_eq:
  "distinct (map snd es) \<Longrightarrow>
   expire_subjects t es heap =
     ((\<lambda>p. if p \<in> snd ` set es then unsync t (heap p) else heap p),
      map fst (filter (\<lambda>e. expired t (heap (snd e))) es))"
proof (induction es arbitrary: heap)
  case (Cons e es)
  obtain key p where e: "e = (key, p)" by force
  have other: "q \<noteq> p" if "(k, q) \<in> set es" for k q using that Cons.prems e by force
  let ?h = "if os_handlers (heap p) \<noteq> [] \<and> os_validUntil (heap p) < t
    then heap(p := (heap p)\<lparr>os_devices := [], os_devicesSynced := False\<rparr>) else heap"
  have h: "?h = heap(p := unsync t (heap p))" by (auto simp: unsync_def)
  have f: "filter (\<lambda>e. expired t (?h (snd e))) es = filter (\<lambda>e. expired t (heap (snd e))) es"
    by (rule filter_cong) (auto simp: other dest!: other)
  have "expire_subjects t (e # es) heap =
    (if expired t (heap p) then apsnd ((#) key) (expire_subjects t es ?h) else expire_subjects t es ?h)"
    by (auto simp: e Let_def expired_def)
  also have "expire_subjects t es ?h =
     ((\<lambda>q. if q \<in> snd ` set es then unsync t (?h q) else ?h q),
      map fst (filter (\<lambda>e. expired t (heap (snd e))) es))"
    using Cons f by simp
  also have "(\<lambda>q. if q \<in> snd ` set es then unsync t (?h q) else ?h q) =
    (\<lambda>q. if q \<in> snd ` set (e # es) then unsync t (heap q) else heap q)"
    unfolding h using other by (force simp: e fun_eq_iff)
  finally show ?case by (simp add: e)
qed simp

lemma expire_owner_view:
  assumes K: "kit_map_ok K" and inv: "oc_inv K c"
  shows "oc_inv K (expire_owner K E now c owner)
     \<and> subject_of K (expire_owner K E now c owner) = (subject_of K c)
         (owner := (case subject_of K c owner of None \<Rightarrow> None | Some s \<Rightarrow> if expired now s then None else Some s))"
proof -
  let ?c = "expire_owner K E now c owner"
  obtain m h where r: "km_ReplaceWithFunc K (oc_owners c) owner (expire_fn now) (oc_heap c, None) = (m, h)"
    by (metis surj_pair)
  obtain s1 p' where f: "expire_fn now (km_Load K (oc_owners c) owner) (oc_heap c, None) = (s1, p')"
    by (metis surj_pair)
  note km = kit_map_Replace [OF K r f]
  have s1: "fst s1 = oc_heap c" and p': "p' = (case km_Load K (oc_owners c) owner of None \<Rightarrow> None
      | Some p \<Rightarrow> if expired now (oc_heap c p) then None else Some p)"
    using f by (auto simp: expire_fn_def expired_def Let_def split: option.splits if_splits)
  have "oc_owners ?c = m" "oc_heap ?c = oc_heap c" "oc_next ?c = oc_next c"
    using r km s1 unfolding expire_owner_def by (simp_all add: case_prod_unfold)
  moreover have "km_Load K m = (km_Load K (oc_owners c))(owner := p')" by (rule km(2))
  ultimately show ?thesis using inv p'
    by (auto simp: oc_inv_def subject_of_def split: option.splits if_splits)
qed

lemma expire_owners_view:
  assumes K: "kit_map_ok K"
  shows "oc_inv K c \<Longrightarrow> oc_inv K (foldl (expire_owner K E now) c os)
     \<and> subject_of K (foldl (expire_owner K E now) c os) =
         (\<lambda>o'. if o' \<in> set os then (case subject_of K c o' of None \<Rightarrow> None | Some s \<Rightarrow> if expired now s then None else Some s)
              else subject_of K c o')"
proof (induction os arbitrary: c)
  case (Cons owner os)
  note v = expire_owner_view [OF K Cons.prems, of E now owner]
  show ?case using Cons.IH [of "expire_owner K E now c owner"] v
    by (auto simp: fun_eq_iff split: option.splits)
qed simp

lemma checkExpiration_view:
  assumes K: "kit_map_ok K" and inv: "oc_inv K c" and now_def: "now = oe_clock E 0"
  shows "oc_inv K (checkExpiration K E c)
     \<and> subject_of K (checkExpiration K E c) =
         (\<lambda>o'. case subject_of K c o' of None \<Rightarrow> None
              | Some s \<Rightarrow> if expired now s then None else Some (unsync now s))"
proof -
  let ?es = "km_Range K (oc_owners c)" and ?L = "km_Load K (oc_owners c)"
  note range = kit_map_Range [OF K, where m = "oc_owners c"]
  have "inj_on snd (set ?es)"
    using inv by (auto simp: inj_on_def range(2) oc_inv_def)
  then have d: "distinct (map snd ?es)" using range(1) by (simp add: distinct_map)
  have mem: "p \<in> snd ` set ?es \<longleftrightarrow> (\<exists>o'. ?L o' = Some p)" for p
    by (metis (no_types, lifting) range(2) image_iff prod.collapse snd_conv)
  let ?cu = "c\<lparr>oc_heap := (\<lambda>p. if p \<in> snd ` set ?es then unsync now (oc_heap c p) else oc_heap c p)\<rparr>"
  let ?os = "map fst (filter (\<lambda>e. expired now (oc_heap c (snd e))) ?es)"
  have ck: "checkExpiration K E c = foldl (expire_owner K E now) ?cu ?os"
    by (simp add: checkExpiration_def getExpiredOwnerSubjects_def expire_subjects_eq [OF d] now_def [symmetric] Let_def)
  have inv1: "oc_inv K ?cu" using inv by (auto simp: oc_inv_def unsync_ok)
  have v1: "subject_of K ?cu = (\<lambda>o'. map_option (unsync now) (subject_of K c o'))"
    by (auto simp: subject_of_def fun_eq_iff mem option.map_comp comp_def intro!: option.map_cong)
  have os: "o' \<in> set ?os \<longleftrightarrow> (\<exists>s. subject_of K c o' = Some s \<and> expired now s)" for o'
  proof -
    have "o' \<in> set ?os \<longleftrightarrow> (\<exists>p. (o', p) \<in> set ?es \<and> expired now (oc_heap c p))" by force
    also have "\<dots> \<longleftrightarrow> (\<exists>s. subject_of K c o' = Some s \<and> expired now s)" by (auto simp: range(2) subject_of_def)
    finally show ?thesis .
  qed
  show ?thesis unfolding ck using expire_owners_view [OF K inv1, of E now ?os] unfolding v1 os
    by (auto simp: fun_eq_iff expired_unsync split: option.splits)
qed

section \<open>Bodies of the methods\<close>

lemma subscribeLocked_frame:
  assumes "subscribeLocked sub d subj = (d', r)"
  shows "os_devices d' = os_devices d \<and> os_handlers d' = os_handlers d \<and> os_devicesSynced d' = os_devicesSynced d
    \<and> os_validUntil d' = os_validUntil d"
  using assms by (auto simp: subscribeLocked_def split: if_splits sum.splits)

lemma updateDevicesLocked_ok: "subject_ok d \<Longrightarrow> updateDevicesLocked d ds = (d', r) \<Longrightarrow> subject_ok d'"
  by (auto simp: updateDevicesLocked_def subject_ok_def Let_def MakeSortedSlice_sorted)

lemma syncDevicesLocked_cases:
  assumes "syncDevicesLocked E c owner d = (c', d', r)"
  shows "oc_owners c' = oc_owners c \<and> oc_heap c' = oc_heap c \<and> oc_next c' = oc_next c \<and> os_handlers d' = os_handlers d"
    and "(\<exists>err. r = Inl err \<and> os_devices d' = os_devices d \<and> os_devicesSynced d' = os_devicesSynced d)
       \<or> (\<exists>ds. snd (getOwnerDevices (oe_client E)) = Inr ds \<and> os_devicesSynced d' \<and> os_devices d' = MakeSortedSlice ds
            \<and> r = Inr (SortedSlice_Difference (MakeSortedSlice ds) (os_devices d),
                       SortedSlice_Difference (os_devices d) (MakeSortedSlice ds)))"
proof -
  obtain d1 r1 where s: "subscribeLocked (oe_subscribe E) d (oe_subject E owner) = (d1, r1)" by fastforce
  obtain rep r2 where g: "getOwnerDevices (oe_client E) = (rep, r2)" by fastforce
  note f = subscribeLocked_frame [OF s]
  show "oc_owners c' = oc_owners c \<and> oc_heap c' = oc_heap c \<and> oc_next c' = oc_next c \<and> os_handlers d' = os_handlers d"
    using assms f by (auto simp: syncDevicesLocked_def s g Let_def updateDevicesLocked_def split: sum.splits)
  show "(\<exists>err. r = Inl err \<and> os_devices d' = os_devices d \<and> os_devicesSynced d' = os_devicesSynced d)
       \<or> (\<exists>ds. snd (getOwnerDevices (oe_client E)) = Inr ds \<and> os_devicesSynced d' \<and> os_devices d' = MakeSortedSlice ds
            \<and> r = Inr (SortedSlice_Difference (MakeSortedSlice ds) (os_devices d),
                       SortedSlice_Difference (os_devices d) (MakeSortedSlice ds)))"
    using assms f by (auto simp: syncDevicesLocked_def s g Let_def updateDevicesLocked_def split: sum.splits)
qed

lemma syncDevicesLocked_ok:
  assumes "syncDevicesLocked E c owner d = (c', d', r)" "subject_ok d"
  shows "subject_ok d'"
  using syncDevicesLocked_cases [OF assms(1)] assms(2) by (auto simp: subject_ok_def MakeSortedSlice_sorted)

lemma sync_quiet: "quiet (\<lambda>c s. syncDevicesLocked E c owner s)"
  unfolding quiet_def using syncDevicesLocked_cases(1) by metis

definition only_time :: "('h ownerSubject \<Rightarrow> 'h ownerSubject) \<Rightarrow> bool" where
  "only_time touch \<longleftrightarrow> (\<forall>s. os_devices (touch s) = os_devices s \<and> os_handlers (touch s) = os_handlers s
      \<and> os_devicesSynced (touch s) = os_devicesSynced s)"

lemma synced_fn_cases:
  assumes "synced_fn E owner touch look c s = (c', s', r)"
  obtains (sync) r1 where "\<not> os_devicesSynced s" "syncDevicesLocked E c owner s = (c', s', r1)"
      "r = (case r1 of Inl err \<Rightarrow> Inl err | Inr _ \<Rightarrow> Inr (look s'))"
  | (synced) "os_devicesSynced s" "c' = c" "s' = touch s" "r = Inr (look (touch s))"
  using assms that by (auto simp: synced_fn_def Let_def split: if_splits prod.splits sum.splits)

lemma synced_fn_ok:
  assumes "synced_fn E owner touch look c s = (c', s', r)" "only_time touch"
  shows "subject_ok s \<Longrightarrow> subject_ok s'"
    and "oc_owners c' = oc_owners c \<and> oc_heap c' = oc_heap c \<and> oc_next c' = oc_next c"
    and "os_devicesSynced s \<Longrightarrow> r = Inr (look (touch s)) \<and> s' = touch s"
    and "r = Inr v \<Longrightarrow> os_devicesSynced s' \<and> v = look s'"
proof -
  show "subject_ok s'" if "subject_ok s" using assms(1)
  proof (cases rule: synced_fn_cases)
    case (sync r1)
    then show ?thesis using syncDevicesLocked_ok that by blast
  next
    case synced
    then show ?thesis using that assms(2) by (simp add: subject_ok_def only_time_def)
  qed
  show "oc_owners c' = oc_owners c \<and> oc_heap c' = oc_heap c \<and> oc_next c' = oc_next c" using assms(1)
    by (cases rule: synced_fn_cases) (use syncDevicesLocked_cases(1) in blast, simp)
  show "r = Inr (look (touch s)) \<and> s' = touch s" if "os_devicesSynced s" using assms(1) that
    by (cases rule: synced_fn_cases) auto
  show "os_devicesSynced s' \<and> v = look s'" if "r = Inr v" using assms(1)
  proof (cases rule: synced_fn_cases)
    case (sync r1)
    then show ?thesis using that syncDevicesLocked_cases(2) [OF sync(2)] by (auto split: sum.splits)
  next
    case synced
    then show ?thesis using that assms(2) by (simp add: only_time_def)
  qed
qed

lemma synced_fn_quiet: "only_time touch \<Longrightarrow> quiet (synced_fn E owner touch look)"
  unfolding quiet_def using synced_fn_ok(2) by metis

lemma subscribe_fn_cases:
  assumes "subscribe_fn E owner onEvent c s = (c', s', r)"
  shows "oc_owners c' = oc_owners c \<and> oc_heap c' = oc_heap c \<and> oc_next c' = oc_next c"
    and "os_devices s' = os_devices s \<and> os_devicesSynced s' = os_devicesSynced s"
    and "case onEvent of
          None \<Rightarrow> os_handlers s' = os_handlers s \<and> (\<exists>e. r = Some (None, e))
        | Some h \<Rightarrow>
           (case add_handler (os_handlers s) h (oc_handlerID c) of
              None \<Rightarrow> r = None \<and> os_handlers s' = os_handlers s
            | Some (hs, i) \<Rightarrow> os_handlers s' = hs \<and> (\<exists>e. r = Some (Some i, e)))"
proof -
  have sub: "subscribeLocked (oe_subscribe E) d (oe_subject E owner) = (d', r') \<Longrightarrow>
      os_devices d' = os_devices d \<and> os_handlers d' = os_handlers d \<and> os_devicesSynced d' = os_devicesSynced d"
    for d d' :: "'h ownerSubject" and r' using subscribeLocked_frame by blast
  show "oc_owners c' = oc_owners c \<and> oc_heap c' = oc_heap c \<and> oc_next c' = oc_next c"
    "os_devices s' = os_devices s \<and> os_devicesSynced s' = os_devicesSynced s"
    "case onEvent of
          None \<Rightarrow> os_handlers s' = os_handlers s \<and> (\<exists>e. r = Some (None, e))
        | Some h \<Rightarrow>
           (case add_handler (os_handlers s) h (oc_handlerID c) of
              None \<Rightarrow> r = None \<and> os_handlers s' = os_handlers s
            | Some (hs, i) \<Rightarrow> os_handlers s' = hs \<and> (\<exists>e. r = Some (Some i, e)))"
    using assms
    by (auto simp: subscribe_fn_def Let_def split: option.splits if_splits prod.splits dest!: sub)
qed

lemma subscribe_quiet: "quiet (subscribe_fn E owner onEvent)"
  unfolding quiet_def using subscribe_fn_cases(1) by metis

lemma add_handler_result:
  assumes "add_handler hs h c = Some (hs', i)"
  shows "hs' = (i, h) # hs \<and> map_of hs i = None"
proof -
  have "fst (hs', i) = (snd (hs', i), h) # hs \<and> map_of hs (snd (hs', i)) = None"
    by (rule add_handler.raw_induct [where P = "\<lambda>hs h c r. fst r = (snd r, h) # hs \<and> map_of hs (snd r) = None", OF _ assms])
      (auto simp: Let_def AddHandlerLocked_def split: if_splits option.splits)
  then show ?thesis by simp
qed

lemma subscribe_fn_ok:
  assumes "subscribe_fn E owner onEvent c s = (c', s', r)" "subject_ok s"
  shows "subject_ok s'"
  using subscribe_fn_cases [OF assms(1)] assms(2)
  by (auto simp: subject_ok_def map_of_eq_None_iff dest!: add_handler_result split: option.splits)

section \<open>Reachable caches\<close>

lemma Handle_ok:
  assumes "subject_ok d" "ownerSubject_Handle unm d msg = Some (d', r)"
  shows "subject_ok d'"
proof (cases "unm msg")
  case (Inr e)
  let ?i = "SortedSlice_Insert (os_devices d) (registered_ids e)"
  have i: "sorted_wrt (<) ?i" using assms(1) Insert_eq by (auto simp: subject_ok_def)
  show ?thesis
  proof (cases "os_devicesSynced d")
    case True
    then obtain t where t: "SortedSlice_Remove ?i (unregistered_ids e) = Some t" "d' = d\<lparr>os_devices := t\<rparr>"
      using assms(2) Inr by (auto simp: ownerSubject_Handle_def Let_def split: option.splits)
    then show ?thesis using assms(1) True Remove_part [OF i t(1)] by (simp add: subject_ok_def)
  next
    case False
    then show ?thesis using assms Inr by (auto simp: ownerSubject_Handle_def)
  qed
qed (use assms in \<open>auto simp: ownerSubject_Handle_def\<close>)

text \<open>A step is a call of a method or the arrival of a message at a subject, which may be one that the
  map no longer holds.\<close>

inductive oc_step ::
    "('m, 'h oc_replace) kit_sync_map \<Rightarrow> ('m, 'h) OwnerCache \<Rightarrow> ('m, 'h) OwnerCache \<Rightarrow> bool" for K where
  update: "oc_step K c (fst (OwnerCache_Update K E c))"
| get_devices: "oc_step K c (fst (OwnerCache_GetDevices K E c))"
| get_selected: "oc_step K c (fst (OwnerCache_GetSelectedDevices K E c ds))"
| owns: "oc_step K c (fst (OwnerCache_OwnsDevices K E c ds))"
| subscribe: "OwnerCache_Subscribe K E c owner h = Some (c', r) \<Longrightarrow> oc_step K c c'"
| close: "oc_step K c (closeFunc K c now owner i)"
| expire: "oc_step K c (checkExpiration K E c)"
| message: "p < oc_next c \<Longrightarrow> ownerSubject_Handle unm (oc_heap c p) msg = Some (s, r) \<Longrightarrow>
    oc_step K c (c\<lparr>oc_heap := (oc_heap c)(p := s)\<rparr>)"

inductive oc_reachable :: "('m, 'h oc_replace) kit_sync_map \<Rightarrow> ('m, 'h) OwnerCache \<Rightarrow> bool" for K where
  new: "oc_reachable K (NewOwnerCache K heap claim expiration)"
| step: "oc_reachable K c \<Longrightarrow> oc_step K c c' \<Longrightarrow> oc_reachable K c'"

lemma only_time_simps [simp]: "only_time id" "only_time (\<lambda>s. s\<lparr>os_validUntil := t\<rparr>)"
  by (simp_all add: only_time_def)

lemma query_view:
  assumes K: "kit_map_ok (K :: ('m, 'h oc_replace) kit_sync_map)" and inv: "oc_inv K c" and t: "only_time touch"
    and ex: "executeOnLockedOwnerSubject K E c owner (synced_fn E owner touch look) = (c', r)"
  obtains s' where "oc_inv K c'" "subject_of K c' = (subject_of K c)(owner \<mapsto> s')"
    "\<And>s. subject_of K c owner = Some s \<Longrightarrow> os_devicesSynced s \<Longrightarrow> r = Inr (look (touch s)) \<and> s' = touch s"
    "\<And>v. r = Inr v \<Longrightarrow> os_devicesSynced s' \<and> v = look s'"
proof -
  obtain c1 c2 :: "('m, 'h) OwnerCache" and s' where f: "synced_fn E owner touch look c1 (subject_or_new K E c owner) = (c2, s', r)"
    and "oc_expiration c1 = oc_expiration c" "oc_handlerID c1 = oc_handlerID c"
    and v: "oc_inv K c'" "subject_of K c' = (subject_of K c)(owner \<mapsto> s')"
    by (rule execute_view [OF K inv synced_fn_quiet [OF t] synced_fn_ok(1) [OF _ t] ex])
  show ?thesis using that [OF v] synced_fn_ok(3,4) [OF f t] by (simp add: subject_or_new_def)
qed

lemma query_inv:
  assumes "kit_map_ok K" "oc_inv K c" "only_time touch"
  shows "oc_inv K (fst (executeOnLockedOwnerSubject K E c owner (synced_fn E owner touch look)))"
  by (rule query_view [OF assms prod.collapse [symmetric]])

lemma query_synced:
  assumes "kit_map_ok K" "oc_inv K c" "only_time touch" "subject_of K c owner = Some s" "os_devicesSynced s"
  shows "snd (executeOnLockedOwnerSubject K E c owner (synced_fn E owner touch look)) = Inr (look (touch s))"
    and "o' \<noteq> owner \<Longrightarrow>
      subject_of K (fst (executeOnLockedOwnerSubject K E c owner (synced_fn E owner touch look))) o' = subject_of K c o'"
proof -
  obtain c' r where ex: "executeOnLockedOwnerSubject K E c owner (synced_fn E owner touch look) = (c', r)"
    by fastforce
  obtain s' where "subject_of K c' = (subject_of K c)(owner \<mapsto> s')" "r = Inr (look (touch s))"
    by (rule query_view [OF assms(1-3) ex]) (use assms(4,5) in blast)
  then show "snd (executeOnLockedOwnerSubject K E c owner (synced_fn E owner touch look)) = Inr (look (touch s))"
    and "o' \<noteq> owner \<Longrightarrow>
      subject_of K (fst (executeOnLockedOwnerSubject K E c owner (synced_fn E owner touch look))) o' = subject_of K c o'"
    by (simp_all add: ex)
qed

lemma oc_step_inv:
  assumes K: "kit_map_ok K" and inv: "oc_inv K c" and st: "oc_step K c c'"
  shows "oc_inv K c'"
  using st
proof cases
  case (update E)
  show ?thesis
  proof (cases "oe_owner E")
    case (Inr owner)
    obtain r where ex: "executeOnLockedOwnerSubject K E c owner (\<lambda>c s. syncDevicesLocked E c owner s) = (c', r)"
      using update Inr by (cases "executeOnLockedOwnerSubject K E c owner (\<lambda>c s. syncDevicesLocked E c owner s)")
        (simp add: OwnerCache_Update_def)
    show ?thesis by (rule execute_view [OF K inv sync_quiet syncDevicesLocked_ok ex])
  qed (use update inv in \<open>simp add: OwnerCache_Update_def\<close>)
next
  case (subscribe E owner h r)
  obtain c1 a where ex: "executeOnLockedOwnerSubject K E c owner (subscribe_fn E owner h) = (c1, a)" by fastforce
  have "oc_inv K c1" by (rule execute_view [OF K inv subscribe_quiet subscribe_fn_ok ex])
  then show ?thesis using subscribe ex closeFunc_view [OF K]
    by (auto simp: OwnerCache_Subscribe_def split: option.splits sum.splits)
next
  case (message p unm msg s r)
  moreover have "subject_ok s" using message inv Handle_ok by (metis oc_inv_def)
  ultimately show ?thesis using inv by (auto simp: oc_inv_def)
next
  case (get_devices E)
  then show ?thesis using inv
    by (simp add: query_inv [OF K inv] OwnerCache_GetDevices_def Let_def split: sum.splits)
next
  case (get_selected E ds)
  then show ?thesis using inv
    by (simp add: query_inv [OF K inv] OwnerCache_GetSelectedDevices_def Let_def split: sum.splits)
next
  case (owns E ds)
  then show ?thesis using inv
    by (simp add: query_inv [OF K inv] OwnerCache_OwnsDevices_def Let_def split: sum.splits)
qed (simp_all add: closeFunc_view [OF K inv] checkExpiration_view [OF K inv])

lemma oc_reachable_inv: "oc_reachable K c \<Longrightarrow> kit_map_ok K \<Longrightarrow> oc_inv K c"
proof (induction rule: oc_reachable.induct)
  case (new heap claim expiration)
  then show ?case by (simp add: oc_inv_def NewOwnerCache_def kit_map_Load_New)
qed (rule oc_step_inv)

section \<open>Properties\<close>

text \<open>C22. In every reachable cache, whatever calls and messages led to it, the device ids of each owner
  are strictly increasing, there are none before the owner is synchronized, no handler number is used
  twice, and no two owners share a subject.\<close>

theorem owner_cache_invariant:
  assumes "kit_map_ok K" "oc_reachable K c" "subject_of K c owner = Some s"
  shows "sorted_wrt (<) (os_devices s) \<and> (\<not> os_devicesSynced s \<longrightarrow> os_devices s = [])
    \<and> distinct (map fst (os_handlers s))
    \<and> (\<forall>o'. km_Load K (oc_owners c) o' = km_Load K (oc_owners c) owner \<longrightarrow> o' = owner)"
  using oc_inv_subject_ok [OF oc_reachable_inv [OF assms(2,1)] assms(3)] oc_reachable_inv [OF assms(2,1)] assms(3)
  by (auto simp: subject_ok_def oc_inv_def subject_of_def)

lemma synced_answers:
  assumes "kit_map_ok K" "oc_reachable K c" "oe_owner E = Inr owner"
    and "subject_of K c owner = Some s" "os_devicesSynced s"
  shows "snd (OwnerCache_OwnsDevices K E c ds) = Inr (set ds \<subseteq> set (os_devices s))
    \<and> snd (OwnerCache_GetSelectedDevices K E c ds) = Inr (filter (\<lambda>d. d \<in> set ds) (os_devices s))
    \<and> snd (OwnerCache_GetDevices K E c) = Inr (os_devices s)
    \<and> (\<forall>o'. o' \<noteq> owner \<longrightarrow> subject_of K (fst (OwnerCache_OwnsDevices K E c ds)) o' = subject_of K c o')"
proof -
  note inv = oc_reachable_inv [OF assms(2,1)]
  have so: "sorted_wrt (<) (os_devices s)"
    using oc_inv_subject_ok [OF inv assms(4)] by (simp add: subject_ok_def)
  note q = query_synced [OF assms(1) inv _ assms(4,5)]
  show ?thesis using assms(3) so
    by (simp add: OwnerCache_OwnsDevices_def OwnerCache_GetSelectedDevices_def OwnerCache_GetDevices_def Let_def
        q SortedSlice_IsSuperslice_def IsSubslice_iff MakeSortedSlice_sorted MakeSortedSlice_set
        SortedSlice_Intersection_def Intersection_loop_eq strict_sorted)
qed

text \<open>Once an owner is synchronized the cache answers without the identity store: it owns the devices
  asked for exactly if they are all in its slice, the selection is the part of the slice that was
  asked for, and the list of devices is the slice. No other owner is affected.\<close>

theorem owner_cache_answers:
  assumes "kit_map_ok K" "oc_reachable K c" "oe_owner E = Inr owner"
    and "subject_of K c owner = Some s" "os_devicesSynced s"
  shows "snd (OwnerCache_OwnsDevices K E c ds) = Inr (set ds \<subseteq> set (os_devices s))
    \<and> snd (OwnerCache_GetSelectedDevices K E c ds) = Inr (filter (\<lambda>d. d \<in> set ds) (os_devices s))
    \<and> snd (OwnerCache_GetDevices K E c) = Inr (os_devices s)
    \<and> (\<forall>o'. o' \<noteq> owner \<longrightarrow> subject_of K (fst (OwnerCache_OwnsDevices K E c ds)) o' = subject_of K c o')"
  using assms by (rule synced_answers)

text \<open>An update that succeeds leaves the owner with the devices the identity store sent, and reports
  the difference: the devices before together with those added, without those removed, are the
  devices after; what is added was not there and what is removed was. Other owners keep their subject.\<close>

theorem owner_cache_update:
  assumes "kit_map_ok K" "oc_reachable K c" "oe_owner E = Inr owner"
    and "OwnerCache_Update K E c = (c', Inr (added, removed))"
  shows "\<exists>ds s'. snd (getOwnerDevices (oe_client E)) = Inr ds
    \<and> subject_of K c' = (subject_of K c)(owner \<mapsto> s') \<and> os_devicesSynced s' \<and> set (os_devices s') = set ds
    \<and> (let old = set (os_devices (subject_or_new K E c owner)) in
        (old \<union> set added) - set removed = set ds \<and> set added \<inter> old = {} \<and> set removed \<subseteq> old)"
proof -
  note inv = oc_reachable_inv [OF assms(2,1)]
  have ex: "executeOnLockedOwnerSubject K E c owner (\<lambda>c s. syncDevicesLocked E c owner s) = (c', Inr (added, removed))"
    using assms(3,4) by (simp add: OwnerCache_Update_def)
  show ?thesis
  proof (rule execute_view [OF assms(1) inv sync_quiet syncDevicesLocked_ok ex])
    fix c1 c2 s'
    let ?old = "subject_or_new K E c owner"
    assume f: "syncDevicesLocked E c1 owner ?old = (c2, s', Inr (added, removed))"
      and v: "subject_of K c' = (subject_of K c)(owner \<mapsto> s')"
    obtain ds where ds: "snd (getOwnerDevices (oe_client E)) = Inr ds" "os_devicesSynced s'"
        "os_devices s' = MakeSortedSlice ds"
        "added = SortedSlice_Difference (MakeSortedSlice ds) (os_devices ?old)"
        "removed = SortedSlice_Difference (os_devices ?old) (MakeSortedSlice ds)"
      using syncDevicesLocked_cases(2) [OF f] by auto
    have "sorted_wrt (<) (os_devices ?old)" using subject_or_new_ok [OF inv] by (simp add: subject_ok_def)
    from sorted_slices.delta [OF this, of ds] show ?thesis
      using ds v by (auto simp: Let_def MakeSortedSlice_set)
  qed
qed

text \<open>The periodic check drops exactly the owners that have no handler and whose time is over. An
  owner with handlers is never dropped; when its time is over it loses its devices and has to be
  synchronized again, and its handlers and its subscription stay.\<close>

theorem owner_cache_expiration:
  assumes "kit_map_ok K" "oc_reachable K c"
  shows "subject_of K (checkExpiration K E c) owner =
    (case subject_of K c owner of
       None \<Rightarrow> None
     | Some s \<Rightarrow>
         if os_validUntil s < oe_clock E 0
         then if os_handlers s = [] then None else Some (s\<lparr>os_devices := [], os_devicesSynced := False\<rparr>)
         else Some s)"
  using checkExpiration_view [OF assms(1) oc_reachable_inv [OF assms(2,1)] refl, of E]
  by (auto simp: expired_def unsync_def split: option.splits)

text \<open>C23. \<open>Subscribe\<close> returns as long as the owner has fewer than \<open>2 ^ 64\<close> handlers: the search for a
  number ends, also when the counter wraps around. When the subscription succeeds the handler is in the
  table of its owner under a number that was free; when it fails the table is as before.\<close>

theorem owner_cache_subscribe:
  assumes "kit_map_ok K" "oc_reachable K c"
    and "length (os_handlers (subject_or_new K E c owner)) < 2 ^ 64"
  shows "\<exists>c' r. OwnerCache_Subscribe K E c owner (Some h) = Some (c', r)
    \<and> (\<exists>s. subject_of K c' owner = Some s \<and>
        (case r of
           Inl _ \<Rightarrow> os_handlers s = os_handlers (subject_or_new K E c owner)
         | Inr i \<Rightarrow> \<exists>n. i = Some n \<and> map_of (os_handlers (subject_or_new K E c owner)) n = None
             \<and> os_handlers s = (n, h) # os_handlers (subject_or_new K E c owner)))
    \<and> (\<forall>o'. o' \<noteq> owner \<longrightarrow> subject_of K c' o' = subject_of K c o')"
proof -
  note inv = oc_reachable_inv [OF assms(2,1)]
  obtain c0 a where ex: "executeOnLockedOwnerSubject K E c owner (subscribe_fn E owner (Some h)) = (c0, a)" by fastforce
  show ?thesis
  proof (rule execute_view [OF assms(1) inv subscribe_quiet subscribe_fn_ok ex])
    fix c1 c2 s'
    let ?s = "subject_or_new K E c owner"
    assume f: "subscribe_fn E owner (Some h) c1 ?s = (c2, s', a)" and i0: "oc_inv K c0"
      and v: "subject_of K c0 = (subject_of K c)(owner \<mapsto> s')"
    obtain n where n: "add_handler (os_handlers ?s) h (oc_handlerID c1) = Some ((n, h) # os_handlers ?s, n)"
      "map_of (os_handlers ?s) n = None" using add_handler_ends [OF assms(3)] by blast
    then obtain e where e: "os_handlers s' = (n, h) # os_handlers ?s" "a = Some (Some n, e)"
      using subscribe_fn_cases(3) [OF f] by auto
    show ?thesis
    proof (cases e)
      case (Inl err)
      have "filter (\<lambda>x. fst x \<noteq> n) (os_handlers ?s) = os_handlers ?s"
        using n(2) by (auto simp: filter_id_conv map_of_eq_None_iff)
      then have "os_handlers (close_subject (oc_expiration c0) (oe_clock E 3) n s') = os_handlers ?s"
        using e by (simp add: close_subject_def RemoveHandlerLocked_def Let_def)
      then show ?thesis using ex e Inl v closeFunc_view [OF assms(1) i0, of "oe_clock E 3" owner n]
        by (simp add: OwnerCache_Subscribe_def)
    next
      case (Inr u)
      then show ?thesis using ex e n v by (simp add: OwnerCache_Subscribe_def)
    qed
  qed
qed

lemma Handle_applies:
  assumes "subject_ok d" "unm msg = Inr e" "distinct (unregistered_ids e)"
  shows "\<exists>d'. ownerSubject_Handle unm d msg = Some (d', Inr (e, mset (map snd (os_handlers d))))
    \<and> subject_ok d' \<and> d' = d\<lparr>os_devices := os_devices d'\<rparr>
    \<and> set (os_devices d') = (if os_devicesSynced d
         then (set (os_devices d) \<union> set (registered_ids e)) - set (unregistered_ids e) else {})"
proof (cases "os_devicesSynced d")
  case True
  obtain t where "SortedSlice_Remove (SortedSlice_Insert (os_devices d) (registered_ids e)) (unregistered_ids e) = Some t"
    "sorted_wrt (<) t" "set t = (set (os_devices d) \<union> set (registered_ids e)) - set (unregistered_ids e)"
    using sorted_slices.add_remove [OF _ assms(3), of "os_devices d" "registered_ids e"] assms(1)
    by (auto simp: subject_ok_def)
  then show ?thesis using True assms(1,2) by (simp add: ownerSubject_Handle_def Let_def subject_ok_def)
next
  case False
  then show ?thesis using assms(1,2) by (simp add: ownerSubject_Handle_def subject_ok_def)
qed

text \<open>A registration message that reaches a synchronized subject adds the registered devices and takes
  away the unregistered ones, whatever their order, and calls every handler once with the event; a
  subject that is not synchronized keeps its devices. The ids to be unregistered must not repeat.\<close>

theorem owner_event_applied:
  assumes "subject_ok d" "unm msg = Inr e" "distinct (unregistered_ids e)"
  shows "\<exists>d'. ownerSubject_Handle unm d msg = Some (d', Inr (e, mset (map snd (os_handlers d))))
    \<and> subject_ok d' \<and> d' = d\<lparr>os_devices := os_devices d'\<rparr>
    \<and> set (os_devices d') = (if os_devicesSynced d
         then (set (os_devices d) \<union> set (registered_ids e)) - set (unregistered_ids e) else {})"
  using assms by (rule Handle_applies)

text \<open>An unregistration message that names the last device of the owner twice costs the owner another
  device, and makes the process panic when it is the only one.\<close>

theorem repeated_unregistration:
  assumes "subject_ok d" "os_devicesSynced d" "os_devices d = xs @ [x]"
    and "unm msg = Inr (Event_DevicesUnregistered u)" "du_DeviceIds u = [x, x]"
  shows "ownerSubject_Handle unm d msg =
    (if xs = [] then None
     else Some (d\<lparr>os_devices := butlast xs\<rparr>, Inr (Event_DevicesUnregistered u, mset (map snd (os_handlers d)))))"
proof -
  have s: "sorted_wrt (<) (xs @ [x])" using assms(1,3) by (simp add: subject_ok_def)
  have "SortedSlice_Remove (xs @ [x]) (replicate 2 x) =
      (if xs = [] then None else Some (take (length xs - 1) xs))"
    using Remove_last_loop [OF s, of 0 2] by (cases xs rule: rev_cases) (simp_all add: SortedSlice_Remove_def)
  moreover have "SortedSlice_Insert (xs @ [x]) [] = xs @ [x]" by simp
  ultimately show ?thesis using assms
    by (simp add: ownerSubject_Handle_def registered_ids_def unregistered_ids_def Let_def numeral_2_eq_2 butlast_conv_take)
qed

section \<open>Concrete runs\<close>

text \<open>An environment in which every call succeeds: the owner, the devices in the identity store, the time.\<close>

definition calm_env :: "string \<Rightarrow> string list \<Rightarrow> gotime \<Rightarrow> oc_env" where
  "calm_env owner ds now =
     \<lparr> oe_subscribe = (\<lambda>_. Inr 1), oe_unsubscribe = (\<lambda>_. None), oe_subject = id,
       oe_client = \<lparr> ic_GetDevices = Inr (), ic_Recv = map Inr ds, ic_CloseSend = None \<rparr>,
       oe_owner = Inr owner, oe_clock = (\<lambda>_. now) \<rparr>"

abbreviation run_start :: "((string \<times> nat) list, nat) OwnerCache" where
  "run_start \<equiv> NewOwnerCache alist_map (\<lambda>_. newOwnerSubject 0) ''sub'' 10"

abbreviation run_synced :: "((string \<times> nat) list, nat) OwnerCache" where
  "run_synced \<equiv> fst (OwnerCache_Update alist_map (calm_env ''me'' [''b'', ''a''] 100) run_start)"

lemmas run_defs = OwnerCache_Update_def executeOnLockedOwnerSubject_def syncDevicesLocked_def subscribeLocked_def
  getOwnerDevices_def updateDevicesLocked_def calm_env_def NewOwnerCache_def alist_map_def newOwnerSubject_def
  subject_of_def subject_or_new_def Let_def

lemma run_reachable: "oc_reachable alist_map run_start" "oc_reachable alist_map run_synced"
  by (auto intro: oc_reachable.intros oc_step.intros)

lemma MakeSortedSlice_ab [simp]: "MakeSortedSlice [''b'', ''a''] = [''a'', ''b'']"
  by (simp add: MakeSortedSlice_def append_new_def)

lemma run_subject:
  "subject_of alist_map run_synced ''me'' =
     Some \<lparr> os_handlers = [], os_subscription = Some 1, os_devices = [''a'', ''b''], os_validUntil = 110,
            os_devicesSynced = True \<rparr>"
  by (simp add: run_defs)

theorem owner_cache_invariant_witness:
  "sorted_wrt (<) (os_devices (the (subject_of alist_map run_synced ''me'')))"
  using owner_cache_invariant [OF alist_map_ok run_reachable(2) run_subject] by (simp add: run_subject)

theorem owner_cache_answers_witness:
  "snd (OwnerCache_OwnsDevices alist_map (calm_env ''me'' [] 105) run_synced [''b'', ''c'']) = Inr False"
  using owner_cache_answers [OF alist_map_ok run_reachable(2) _ run_subject, of "calm_env ''me'' [] 105" "[''b'', ''c'']"]
  by (simp add: calm_env_def)

theorem owner_cache_update_witness:
  "\<exists>ds s'. snd (getOwnerDevices (oe_client (calm_env ''me'' [''b'', ''a''] 100))) = Inr ds
    \<and> subject_of alist_map run_synced = (subject_of alist_map run_start)(''me'' \<mapsto> s')
    \<and> set (os_devices s') = set ds"
  using owner_cache_update [OF alist_map_ok run_reachable(1), of "calm_env ''me'' [''b'', ''a''] 100" "''me''"]
    prod.collapse [of "OwnerCache_Update alist_map (calm_env ''me'' [''b'', ''a''] 100) run_start"]
  by (fastforce simp: run_defs)

theorem owner_cache_expiration_witness:
  "subject_of alist_map (checkExpiration alist_map (calm_env ''me'' [] 200) run_synced) ''me'' = None"
  using owner_cache_expiration [OF alist_map_ok run_reachable(2), of "calm_env ''me'' [] 200" "''me''"]
  by (simp add: run_subject) (simp add: calm_env_def)

theorem owner_cache_subscribe_witness:
  "\<exists>c' r s. OwnerCache_Subscribe alist_map (calm_env ''me'' [] 105) run_synced ''me'' (Some 5) = Some (c', r)
     \<and> subject_of alist_map c' ''me'' = Some s"
  using owner_cache_subscribe [OF alist_map_ok run_reachable(2), of "calm_env ''me'' [] 105" "''me''" 5]
  by (fastforce simp: subject_or_new_def run_subject)

abbreviation two_devices :: "nat ownerSubject" where
  "two_devices \<equiv> \<lparr> os_handlers = [(1, 8)], os_subscription = Some 1, os_devices = [''a'', ''b''], os_validUntil = 110,
            os_devicesSynced = True \<rparr>"

abbreviation unregister :: "string list \<Rightarrow> is_Event" where
  "unregister ids \<equiv> Event_DevicesUnregistered \<lparr> du_Owner = ''me'', du_DeviceIds = ids, du_UserId = ''u'',
     du_Timestamp = 0, du_EventMetadata = None, du_OpenTelemetryCarrier = [] \<rparr>"

theorem owner_event_applied_witness:
  "\<exists>d'. ownerSubject_Handle (\<lambda>_. Inr (unregister [''b'', ''x''])) two_devices [] =
     Some (d', Inr (unregister [''b'', ''x''], {#8#})) \<and> set (os_devices d') = {''a''}"
  using owner_event_applied [of two_devices "\<lambda>_. Inr (unregister [''b'', ''x''])" "[]" "unregister [''b'', ''x'']"]
  by (fastforce simp: subject_ok_def registered_ids_def unregistered_ids_def)

theorem repeated_unregistration_witness:
  "ownerSubject_Handle (\<lambda>_. Inr (unregister [''b'', ''b''])) two_devices [] =
     Some (two_devices\<lparr>os_devices := []\<rparr>, Inr (unregister [''b'', ''b''], {#8#}))"
  using repeated_unregistration [of two_devices "[''a'']" "''b''" "\<lambda>_. Inr (unregister [''b'', ''b''])" "[]"]
  by (simp add: subject_ok_def)

end
