(* ===== verification/Event_Subjects.thy ===== *)
theory Event_Subjects
  imports Hub_Events Pkg_Strings
begin

text \<open>
  The subjects under which the hub publishes its events on NATS: \<^verbatim>\<open>identity-store/events\<close> and
  \<^verbatim>\<open>resource-aggregate/cqrs/utils\<close> with the templates, and the part of
  \<^verbatim>\<open>resource-aggregate/cqrs/eventbus/nats/publisher\<close> that chooses the subject of an event. A template
  is a string with holes; Go fills the holes by replacing text, visiting the map of values in any
  order (parameter \<open>ord\<close>). \<open>uuid.Parse\<close> is a parameter that gives the canonical form.
\<close>

section \<open>Text replacement\<close>

text \<open>\<open>strings.ReplaceAll(s, old, new)\<close> for a non-empty \<open>old\<close>.\<close>

function ReplaceAll :: "string \<Rightarrow> string \<Rightarrow> string \<Rightarrow> string" where
  "ReplaceAll s old new =
     (if s = [] \<or> old = [] then s
      else if take (length old) s = old then new @ ReplaceAll (drop (length old) s) old new
      else hd s # ReplaceAll (tl s) old new)"
  by pat_completeness auto

termination
  by (relation "measure (\<lambda>(s, old, new). length s)") (auto simp: Suc_le_eq)

declare ReplaceAll.simps [simp del]

text \<open>An option of \<open>ToSubject\<close> stores one value under its key.\<close>

type_synonym subject_opt = "string \<times> string"
type_synonym values_order = "subject_opt list \<Rightarrow> subject_opt list"

definition set_value :: "subject_opt list \<Rightarrow> subject_opt \<Rightarrow> subject_opt list" where
  "set_value values kv = kv # filter (\<lambda>e. fst e \<noteq> fst kv) values"

definition replace_value :: "string \<Rightarrow> subject_opt \<Rightarrow> string" where
  "replace_value template kv = ReplaceAll template (''{'' @ fst kv @ ''}'') (snd kv)"

definition ToSubject :: "values_order \<Rightarrow> string \<Rightarrow> subject_opt list \<Rightarrow> string" where
  "ToSubject ord template opts =
     (let values = foldl set_value [] opts in foldl replace_value template (ord values))"

section \<open>Templates\<close>

definition PlgdOwnersOwner :: string where
  "PlgdOwnersOwner = ''plgd'' @ ''.owners'' @ ''.{'' @ ''ownerId'' @ ''}''"

definition PlgdOwnersOwnerRegistrations :: string where
  "PlgdOwnersOwnerRegistrations = PlgdOwnersOwner @ ''.'' @ ''registrations''"

definition PlgdOwnersOwnerRegistrationsEvent :: string where
  "PlgdOwnersOwnerRegistrationsEvent = PlgdOwnersOwnerRegistrations @ ''.{'' @ ''eventType'' @ ''}''"

definition PlgdOwnersOwnerDevices :: string where
  "PlgdOwnersOwnerDevices = PlgdOwnersOwner @ ''.'' @ ''devices''"

definition PlgdOwnersOwnerDevicesDevice :: string where
  "PlgdOwnersOwnerDevicesDevice = PlgdOwnersOwnerDevices @ ''.{'' @ ''deviceId'' @ ''}''"

definition PlgdOwnersOwnerDevicesDeviceResourceLinks :: string where
  "PlgdOwnersOwnerDevicesDeviceResourceLinks = PlgdOwnersOwnerDevicesDevice @ ''.resource-links''"

definition PlgdOwnersOwnerDevicesDeviceResourceLinksEvent :: string where
  "PlgdOwnersOwnerDevicesDeviceResourceLinksEvent =
     PlgdOwnersOwnerDevicesDeviceResourceLinks @ ''.{'' @ ''eventType'' @ ''}''"

definition PlgdOwnersOwnerDevicesDeviceMetadata :: string where
  "PlgdOwnersOwnerDevicesDeviceMetadata = PlgdOwnersOwnerDevicesDevice @ ''.metadata''"

definition PlgdOwnersOwnerDevicesDeviceMetadataEvent :: string where
  "PlgdOwnersOwnerDevicesDeviceMetadataEvent =
     PlgdOwnersOwnerDevicesDeviceMetadata @ ''.{'' @ ''eventType'' @ ''}''"

definition PlgdOwnersOwnerDevicesDeviceResources :: string where
  "PlgdOwnersOwnerDevicesDeviceResources = PlgdOwnersOwnerDevicesDevice @ ''.resources''"

definition PlgdOwnersOwnerDevicesDeviceResourcesResource :: string where
  "PlgdOwnersOwnerDevicesDeviceResourcesResource =
     PlgdOwnersOwnerDevicesDeviceResources @ ''.{'' @ ''hrefId'' @ ''}''"

definition PlgdOwnersOwnerDevicesDeviceResourcesResourceEvent :: string where
  "PlgdOwnersOwnerDevicesDeviceResourcesResourceEvent =
     PlgdOwnersOwnerDevicesDeviceResourcesResource @ ''.{'' @ ''eventType'' @ ''}''"

definition PlgdOwnersOwnerDevicesDeviceResourcesResourceEventLeadResourceType :: string where
  "PlgdOwnersOwnerDevicesDeviceResourcesResourceEventLeadResourceType =
     PlgdOwnersOwnerDevicesDeviceResourcesResourceEvent @ ''.'' @ ''leadrt'' @ ''.{'' @ ''leadResourceType'' @ ''}''"

lemmas template_defs = PlgdOwnersOwner_def PlgdOwnersOwnerRegistrations_def PlgdOwnersOwnerRegistrationsEvent_def
  PlgdOwnersOwnerDevices_def PlgdOwnersOwnerDevicesDevice_def PlgdOwnersOwnerDevicesDeviceResourceLinks_def
  PlgdOwnersOwnerDevicesDeviceResourceLinksEvent_def PlgdOwnersOwnerDevicesDeviceMetadata_def
  PlgdOwnersOwnerDevicesDeviceMetadataEvent_def PlgdOwnersOwnerDevicesDeviceResources_def
  PlgdOwnersOwnerDevicesDeviceResourcesResource_def PlgdOwnersOwnerDevicesDeviceResourcesResourceEvent_def
  PlgdOwnersOwnerDevicesDeviceResourcesResourceEventLeadResourceType_def

section \<open>Options\<close>

type_synonym uuid_parse = "string \<Rightarrow> string option"

definition OwnerToUUID :: "uuid_pkg \<Rightarrow> uuid_parse \<Rightarrow> string \<Rightarrow> string" where
  "OwnerToUUID U parse owner =
     (case parse owner of
        Some u \<Rightarrow> if u \<noteq> uuid_Nil U then owner else uuid_NewSHA1 U owner
      | None \<Rightarrow> uuid_NewSHA1 U owner)"

definition WithOwner :: "uuid_pkg \<Rightarrow> uuid_parse \<Rightarrow> string \<Rightarrow> subject_opt" where
  "WithOwner U parse owner =
     (if owner = ''*'' then (''ownerId'', owner) else (''ownerId'', OwnerToUUID U parse owner))"

definition WithEventType :: "string \<Rightarrow> subject_opt" where
  "WithEventType eventType = (''eventType'', eventType)"

definition HrefToID :: "uuid_pkg \<Rightarrow> string \<Rightarrow> string" where
  "HrefToID U href = uuid_NewSHA1 U href"

definition WithHrefId :: "string \<Rightarrow> subject_opt" where
  "WithHrefId hrefId = (''hrefId'', hrefId)"

definition WithDeviceID :: "string \<Rightarrow> subject_opt" where
  "WithDeviceID deviceID = (''deviceId'', deviceID)"

definition WithLeadResourceType :: "string \<Rightarrow> subject_opt" where
  "WithLeadResourceType leadResourceType = (''leadResourceType'', leadResourceType)"

lemmas opt_defs = WithOwner_def WithEventType_def WithHrefId_def WithDeviceID_def WithLeadResourceType_def

definition GetSubjectHrefID :: "uuid_pkg \<Rightarrow> string \<Rightarrow> string" where
  "GetSubjectHrefID U href = (if href = '''' \<or> href = ''*'' then ''*'' else HrefToID U href)"

text \<open>The parameters every subject depends on.\<close>

record subject_env =
  se_uuid :: uuid_pkg
  se_parse :: uuid_parse
  se_order :: values_order

section \<open>Subjects\<close>

definition GetRegistrationSubject :: "subject_env \<Rightarrow> string \<Rightarrow> string" where
  "GetRegistrationSubject V owner =
     ToSubject (se_order V) (PlgdOwnersOwnerRegistrations @ ''.>'') [WithOwner (se_uuid V) (se_parse V) owner]"

definition GetDevicesRegisteredSubject :: "subject_env \<Rightarrow> string \<Rightarrow> string" where
  "GetDevicesRegisteredSubject V owner =
     ToSubject (se_order V) PlgdOwnersOwnerRegistrationsEvent
       [WithOwner (se_uuid V) (se_parse V) owner, WithEventType ''devicesregistered'']"

definition GetDevicesUnregisteredSubject :: "subject_env \<Rightarrow> string \<Rightarrow> string" where
  "GetDevicesUnregisteredSubject V owner =
     ToSubject (se_order V) PlgdOwnersOwnerRegistrationsEvent
       [WithOwner (se_uuid V) (se_parse V) owner, WithEventType ''devicesunregistered'']"

definition GetDeviceSubject :: "subject_env \<Rightarrow> string \<Rightarrow> string \<Rightarrow> string list" where
  "GetDeviceSubject V owner deviceID =
     [ToSubject (se_order V) PlgdOwnersOwnerDevicesDevice
        [WithOwner (se_uuid V) (se_parse V) owner, WithDeviceID deviceID] @ ''.>'']"

definition GetDeviceMetadataEventSubject :: "subject_env \<Rightarrow> string \<Rightarrow> string \<Rightarrow> string \<Rightarrow> string list" where
  "GetDeviceMetadataEventSubject V owner deviceID eventType =
     [ToSubject (se_order V) PlgdOwnersOwnerDevicesDeviceMetadataEvent
        [WithOwner (se_uuid V) (se_parse V) owner, WithDeviceID deviceID, WithEventType eventType]]"

definition GetResourceEventSubjects ::
    "subject_env \<Rightarrow> string \<Rightarrow> ResourceId option \<Rightarrow> string \<Rightarrow> bool \<Rightarrow> string list" where
  "GetResourceEventSubjects V owner resourceID eventType leadResourceTypeEnabled =
     (let subject = ToSubject (se_order V) PlgdOwnersOwnerDevicesDeviceResourcesResourceEvent
        [WithOwner (se_uuid V) (se_parse V) owner, WithDeviceID (GetDeviceId resourceID), WithEventType eventType,
         WithHrefId (GetSubjectHrefID (se_uuid V) (GetHref resourceID))]
      in if \<not> leadResourceTypeEnabled then [subject] else [subject @ ''.>''])"

section \<open>The publisher\<close>

datatype LeadResourceTypeFilter =
    LeadResourceTypeFilter_None | LeadResourceTypeFilter_First | LeadResourceTypeFilter_Last

text \<open>The regular expressions are parameters: predicates on strings; \<open>None\<close> is a nil slice.\<close>

record leadResourceType =
  lrt_filter :: LeadResourceTypeFilter
  lrt_regexFilter :: "(string \<Rightarrow> bool) list option"
  lrt_useUUID :: bool

definition matchType :: "string \<Rightarrow> (string \<Rightarrow> bool) list \<Rightarrow> bool" where
  "matchType t fs = list_ex (\<lambda>f. f t) fs"

text \<open>Only called with at least one type.\<close>

definition getLeadResourceTypeByFilter :: "leadResourceType \<Rightarrow> string list \<Rightarrow> string" where
  "getLeadResourceTypeByFilter l types =
     (case (case lrt_regexFilter l of None \<Rightarrow> None | Some fs \<Rightarrow> List.find (\<lambda>t. matchType t fs) types) of
        Some t \<Rightarrow> t
      | None \<Rightarrow>
          (case lrt_filter l of
             LeadResourceTypeFilter_First \<Rightarrow> types ! 0
           | LeadResourceTypeFilter_Last \<Rightarrow> types ! (length types - 1)
           | LeadResourceTypeFilter_None \<Rightarrow> ''''))"

definition replaceSpecialCharacters :: "string \<Rightarrow> string" where
  "replaceSpecialCharacters s =
     ReplaceAll (ReplaceAll (ReplaceAll s ''*'' ''_'') ''>'' ''_'') ''$'' ''_''"

definition ResourceTypeToUUID :: "uuid_pkg \<Rightarrow> string \<Rightarrow> string" where
  "ResourceTypeToUUID U resourceType = uuid_NewSHA1 U resourceType"

definition GetLeadResourceType :: "uuid_pkg \<Rightarrow> leadResourceType option \<Rightarrow> string list \<Rightarrow> string" where
  "GetLeadResourceType U l types =
     (case l of
        None \<Rightarrow> ''''
      | Some l \<Rightarrow>
          if length types = 0 then ''''
          else let leadResourceType = replaceSpecialCharacters (getLeadResourceTypeByFilter l types)
               in if lrt_useUUID l \<and> leadResourceType \<noteq> '''' then ResourceTypeToUUID U leadResourceType
                  else leadResourceType)"

definition getPublishResourceEventSubject ::
    "subject_env \<Rightarrow> leadResourceType option \<Rightarrow> string \<Rightarrow> ResourceId option \<Rightarrow> Event \<Rightarrow> string" where
  "getPublishResourceEventSubject V p owner resourceID event =
     (let opts = [WithOwner (se_uuid V) (se_parse V) owner, WithDeviceID (ev_GroupID event),
                  WithHrefId (HrefToID (se_uuid V) (GetHref resourceID)), WithEventType (ev_EventType event)]
      in if p = None then ToSubject (se_order V) PlgdOwnersOwnerDevicesDeviceResourcesResourceEvent opts
         else let lrt = GetLeadResourceType (se_uuid V) p (ev_Types event)
              in if lrt \<noteq> ''''
                 then ToSubject (se_order V) PlgdOwnersOwnerDevicesDeviceResourcesResourceEventLeadResourceType
                        (opts @ [WithLeadResourceType lrt])
                 else ToSubject (se_order V)
                        (PlgdOwnersOwnerDevicesDeviceResourcesResourceEvent @ ''.'' @ ''leadrt'') opts)"

text \<open>The events with a method \<open>GetResourceId\<close>.\<close>

fun event_ResourceId :: "any_event \<Rightarrow> ResourceId option option" where
  "event_ResourceId (E_ResourceChanged e) = Some (rch_ResourceId e)"
| "event_ResourceId (E_ResourceUpdatePending e) = Some (rup_ResourceId e)"
| "event_ResourceId (E_ResourceUpdated e) = Some (rud_ResourceId e)"
| "event_ResourceId (E_ResourceRetrievePending e) = Some (rrp_ResourceId e)"
| "event_ResourceId (E_ResourceRetrieved e) = Some (rrd_ResourceId e)"
| "event_ResourceId (E_ResourceDeletePending e) = Some (rdp_ResourceId e)"
| "event_ResourceId (E_ResourceDeleted e) = Some (rdd_ResourceId e)"
| "event_ResourceId (E_ResourceCreatePending e) = Some (rcp_ResourceId e)"
| "event_ResourceId (E_ResourceCreated e) = Some (rcd_ResourceId e)"
| "event_ResourceId (E_ResourceStateSnapshotTaken e) = Some (rs_ResourceId e)"
| "event_ResourceId _ = None"

definition GetPublishSubject ::
    "subject_env \<Rightarrow> leadResourceType option \<Rightarrow> string \<Rightarrow> any_event \<Rightarrow> string list" where
  "GetPublishSubject V p owner ev =
     (let event = as_Event (se_uuid V) ev;
          opts = [WithOwner (se_uuid V) (se_parse V) owner, WithDeviceID (ev_GroupID event),
                  WithEventType (ev_EventType event)]
      in if ev_EventType event \<in> {''resourcelinkspublished'', ''resourcelinksunpublished'', ''resourcelinkssnapshottaken''}
         then [ToSubject (se_order V) PlgdOwnersOwnerDevicesDeviceResourceLinksEvent opts]
         else if ev_EventType event \<in> {''devicemetadataupdatepending'', ''devicemetadataupdated'', ''devicemetadatasnapshottaken''}
         then [ToSubject (se_order V) PlgdOwnersOwnerDevicesDeviceMetadataEvent opts]
         else case event_ResourceId ev of
                Some resourceID \<Rightarrow> [getPublishResourceEventSubject V p owner resourceID event]
              | None \<Rightarrow> [])"

end
