(* ===== verification/Event_Subjects_Properties.thy ===== *)
theory Event_Subjects_Properties
  imports Event_Subjects
begin

text \<open>
  A subject is a list of tokens joined by dots, and the templates are lists of literal tokens and
  holes. Filling the holes by text replacement gives the same subject in every order, provided the
  values have no braces: each hole becomes its value (\<open>ToSubject_dots\<close>).
\<close>

section \<open>Tokens\<close>

fun dots :: "string list \<Rightarrow> string" where
  "dots [] = ''''"
| "dots [t] = t"
| "dots (t # u # ts) = t @ ''.'' @ dots (u # ts)"

fun tokens :: "string \<Rightarrow> string list" where
  "tokens [] = [[]]"
| "tokens (c # s) =
     (if c = CHR ''.'' then [] # tokens s
      else case tokens s of [] \<Rightarrow> [[c]] | t # ts \<Rightarrow> (c # t) # ts)"

lemma tokens_not_Nil [simp]: "tokens s \<noteq> []"
  by (induction s) (auto split: list.splits)

lemma tokens_append_dot:
  "CHR ''.'' \<notin> set t \<Longrightarrow> tokens (t @ CHR ''.'' # s) = t # tokens s"
  by (induction t) (auto split: list.splits)

lemma tokens_plain: "CHR ''.'' \<notin> set t \<Longrightarrow> tokens t = [t]"
  by (induction t) (auto split: list.splits)

lemma tokens_dots:
  "ts \<noteq> [] \<Longrightarrow> (\<And>t. t \<in> set ts \<Longrightarrow> CHR ''.'' \<notin> set t) \<Longrightarrow> tokens (dots ts) = ts"
  by (induction ts rule: dots.induct) (simp_all add: tokens_append_dot tokens_plain)

lemma dots_append: "ts \<noteq> [] \<Longrightarrow> us \<noteq> [] \<Longrightarrow> dots (ts @ us) = dots ts @ ''.'' @ dots us"
proof (induction ts rule: dots.induct)
  case (2 t)
  then show ?case by (cases us) auto
qed auto

text \<open>Matching of a subscription against a subject, as NATS documents it: \<open>*\<close> stands for one token and
  \<open>>\<close> at the end for one or more.\<close>

fun wildcard_match :: "string list \<Rightarrow> string list \<Rightarrow> bool" where
  "wildcard_match [] ts \<longleftrightarrow> ts = []"
| "wildcard_match (p # ps) [] \<longleftrightarrow> False"
| "wildcard_match (p # ps) (t # ts) \<longleftrightarrow>
     (if p = ''>'' \<and> ps = [] then True
      else (p = ''*'' \<or> p = t) \<and> wildcard_match ps ts)"

definition subject_matches :: "string \<Rightarrow> string \<Rightarrow> bool" where
  "subject_matches pattern subject = wildcard_match (tokens pattern) (tokens subject)"

section \<open>Filling the holes\<close>

definition no_braces :: "string \<Rightarrow> bool" where
  "no_braces s \<longleftrightarrow> CHR ''{'' \<notin> set s \<and> CHR ''}'' \<notin> set s"

definition hole :: "string \<Rightarrow> string" where
  "hole k = ''{'' @ k @ ''}''"

definition template_token :: "string \<Rightarrow> bool" where
  "template_token t \<longleftrightarrow> no_braces t \<or> (\<exists>k. t = hole k \<and> no_braces k)"

definition fill :: "(string \<rightharpoonup> string) \<Rightarrow> string \<Rightarrow> string" where
  "fill m t = (if no_braces t then t else case m (butlast (tl t)) of Some v \<Rightarrow> v | None \<Rightarrow> t)"

lemma fill_hole [simp]: "fill m (hole k) = (case m k of Some v \<Rightarrow> v | None \<Rightarrow> hole k)"
  by (cases "m k") (simp_all add: fill_def hole_def no_braces_def)

lemma fill_plain [simp]: "no_braces t \<Longrightarrow> fill m t = t"
  by (simp add: fill_def)

lemma ReplaceAll_Nil [simp]: "ReplaceAll [] old new = []"
  by (simp add: ReplaceAll.simps)

lemma ReplaceAll_skip:
  "CHR ''{'' \<notin> set s \<Longrightarrow> ReplaceAll (s @ u) (hole k) v = s @ ReplaceAll u (hole k) v"
proof (induction s)
  case (Cons c s)
  then have "ReplaceAll ((c # s) @ u) (hole k) v = c # ReplaceAll (s @ u) (hole k) v"
    by (subst ReplaceAll.simps) (auto simp: hole_def)
  then show ?case using Cons by simp
qed simp

lemma ReplaceAll_hole: "ReplaceAll (hole k @ u) (hole k) v = v @ ReplaceAll u (hole k) v"
  by (subst ReplaceAll.simps) (simp add: hole_def)

lemma hole_prefix:
  assumes "no_braces j" "no_braces k" "take (length (hole k)) (hole j @ u) = hole k"
  shows "j = k"
proof -
  obtain w where "hole j @ u = hole k @ w" by (metis append_take_drop_id assms(3))
  then have "j @ CHR ''}'' # u = k @ CHR ''}'' # w" by (simp add: hole_def)
  moreover have "CHR ''}'' \<notin> set j" "CHR ''}'' \<notin> set k" using assms(1,2) by (simp_all add: no_braces_def)
  ultimately show ?thesis by (auto simp: append_eq_append_conv2 append_eq_Cons_conv Cons_eq_append_conv)
qed

lemma ReplaceAll_other:
  assumes "no_braces j" "no_braces k" "j \<noteq> k"
  shows "ReplaceAll (hole j @ u) (hole k) v = hole j @ ReplaceAll u (hole k) v"
proof -
  have "ReplaceAll (hole j @ u) (hole k) v = CHR ''{'' # ReplaceAll ((j @ ''}'') @ u) (hole k) v"
    using hole_prefix [OF assms(1,2)] assms(3) by (subst ReplaceAll.simps) (auto simp: hole_def)
  also have "\<dots> = hole j @ ReplaceAll u (hole k) v"
    using assms(1) by (subst ReplaceAll_skip) (auto simp: no_braces_def hole_def)
  finally show ?thesis .
qed

lemma ReplaceAll_token:
  assumes "template_token t" "no_braces k"
  shows "ReplaceAll (t @ u) (hole k) v = fill [k \<mapsto> v] t @ ReplaceAll u (hole k) v"
  using assms ReplaceAll_skip [of t] ReplaceAll_hole [of k] ReplaceAll_other
  by (auto simp: template_token_def no_braces_def fill_def hole_def [symmetric]) (auto simp: hole_def)

lemma ReplaceAll_dots:
  assumes "no_braces k"
  shows "(\<And>t. t \<in> set ts \<Longrightarrow> template_token t) \<Longrightarrow>
    ReplaceAll (dots ts) (hole k) v = dots (map (fill [k \<mapsto> v]) ts)"
proof (induction ts rule: dots.induct)
  case (2 t)
  then show ?case using ReplaceAll_token [OF _ assms, of t "[]" v] by (simp add: fun_upd_def)
next
  case (3 t u ts)
  have "ReplaceAll (t @ ''.'' @ dots (u # ts)) (hole k) v =
      fill [k \<mapsto> v] t @ ReplaceAll (''.'' @ dots (u # ts)) (hole k) v"
    using ReplaceAll_token [OF _ assms] 3(2) by (metis list.set_intros(1))
  also have "ReplaceAll (''.'' @ dots (u # ts)) (hole k) v = ''.'' @ ReplaceAll (dots (u # ts)) (hole k) v"
    by (rule ReplaceAll_skip) simp
  finally show ?case using 3 by simp
qed simp

text \<open>All options at once.\<close>

definition opts_ok :: "subject_opt list \<Rightarrow> bool" where
  "opts_ok kvs \<longleftrightarrow> distinct (map fst kvs) \<and> (\<forall>(k, v) \<in> set kvs. no_braces k \<and> no_braces v)"

lemma fill_template_token:
  "template_token t \<Longrightarrow> no_braces v \<Longrightarrow> template_token (fill [k \<mapsto> v] t)"
  by (auto simp: template_token_def)

lemma replace_values_dots:
  "opts_ok kvs \<Longrightarrow> (\<And>t. t \<in> set ts \<Longrightarrow> template_token t) \<Longrightarrow>
   foldl replace_value (dots ts) kvs = dots (map (fill (map_of kvs)) ts)"
proof (induction kvs arbitrary: ts)
  case Nil
  have "fill Map.empty t = t" for t by (simp add: fill_def)
  then show ?case by (simp add: map_idI)
next
  case (Cons kv kvs)
  obtain k v where kv: "kv = (k, v)" by force
  have k: "no_braces k" "no_braces v" "opts_ok kvs" "k \<notin> fst ` set kvs"
    using Cons.prems(1) kv by (auto simp: opts_ok_def)
  have "fill (map_of kvs) (fill [k \<mapsto> v] t) = fill (map_of (kv # kvs)) t" if t: "t \<in> set ts" for t
  proof -
    consider "no_braces t" | j where "t = hole j" "no_braces j"
      using Cons.prems(2) [OF t] unfolding template_token_def by blast
    then show ?thesis
    proof cases
      case 2
      then show ?thesis using k kv by (cases "j = k") simp_all
    qed simp
  qed
  then have m: "map (fill (map_of kvs)) (map (fill [k \<mapsto> v]) ts) = map (fill (map_of (kv # kvs))) ts" by simp
  have "foldl replace_value (dots ts) (kv # kvs) = foldl replace_value (dots (map (fill [k \<mapsto> v]) ts)) kvs"
    using ReplaceAll_dots [OF k(1) Cons.prems(2)] kv by (simp add: replace_value_def hole_def)
  also have "\<dots> = dots (map (fill (map_of kvs)) (map (fill [k \<mapsto> v]) ts))"
    using Cons.prems(2) k by (intro Cons.IH) (auto intro: fill_template_token)
  finally show ?case unfolding m .
qed

definition order_ok :: "values_order \<Rightarrow> bool" where
  "order_ok ord \<longleftrightarrow> (\<forall>kvs. mset (ord kvs) = mset kvs)"

lemma set_value_fold:
  "distinct (map fst (vs @ kvs)) \<Longrightarrow> foldl set_value vs kvs = rev kvs @ vs"
proof (induction kvs arbitrary: vs)
  case (Cons kv kvs)
  have "e \<in> set vs \<Longrightarrow> fst e \<noteq> fst kv" for e using Cons.prems by (auto intro: rev_image_eqI)
  then have "set_value vs kv = kv # vs" by (simp add: set_value_def filter_id_conv)
  moreover have "distinct (map fst ((kv # vs) @ kvs))" using Cons.prems by simp
  ultimately show ?case using Cons.IH [of "kv # vs"] by simp
qed simp

lemma opts_ok_perm: "mset kvs' = mset kvs \<Longrightarrow> opts_ok kvs \<Longrightarrow> opts_ok kvs' \<and> map_of kvs' = map_of kvs"
proof -
  assume p: "mset kvs' = mset kvs" and o: "opts_ok kvs"
  have s: "set kvs' = set kvs" using p by (metis set_mset_mset)
  have "mset (map fst kvs') = mset (map fst kvs)" using p by simp
  then have d: "distinct (map fst kvs')" using o mset_eq_imp_distinct_iff [of "map fst kvs'"] unfolding opts_ok_def by blast
  have "map_of kvs' = map_of kvs"
    using map_of_eqI [of kvs' kvs] map_of_inject_set [of kvs' kvs] s d o by (simp add: opts_ok_def)
  then show ?thesis using o s d by (simp add: opts_ok_def)
qed

lemma ToSubject_dots:
  assumes "order_ok ord" "opts_ok opts" "\<And>t. t \<in> set ts \<Longrightarrow> template_token t"
  shows "ToSubject ord (dots ts) opts = dots (map (fill (map_of opts)) ts)"
proof -
  have "foldl set_value [] opts = rev opts"
    using set_value_fold [of "[]" opts] assms(2) by (simp add: opts_ok_def)
  moreover have "mset (ord (rev opts)) = mset opts" using assms(1) by (simp add: order_ok_def)
  ultimately show ?thesis
    using replace_values_dots [of "ord (rev opts)", OF _ assms(3)] opts_ok_perm [of "ord (rev opts)" opts] assms(2)
    unfolding ToSubject_def Let_def by (simp only:)
qed

end
