(* ===== verification/Event_Subscription.thy ===== *)
theory Event_Subscription
  imports Event_Subjects Owner_Cache
begin

text \<open>
  Subscriptions to events in the gRPC gateway: the bit masks of \<^verbatim>\<open>grpc-gateway/subscription/filterBitmask.go\<close>,
  the choice of NATS subjects in \<^verbatim>\<open>convertToSubjects.go\<close>, and the filters of a subscription with the
  decision which events it forwards in \<^verbatim>\<open>subscription.go\<close>. UUIDs are their canonical strings, Go maps
  keyed by them association lists without repeated keys; the order of visiting a map is a parameter.
\<close>

unbundle bit_operations_syntax

section \<open>Bit masks\<close>

type_synonym FilterBitmask = u64

definition FilterBitmaskResourceCreatePending :: FilterBitmask where "FilterBitmaskResourceCreatePending = 1"
definition FilterBitmaskResourceCreated :: FilterBitmask where "FilterBitmaskResourceCreated = push_bit 1 1"
definition FilterBitmaskResourceRetrievePending :: FilterBitmask where "FilterBitmaskResourceRetrievePending = push_bit 2 1"
definition FilterBitmaskResourceRetrieved :: FilterBitmask where "FilterBitmaskResourceRetrieved = push_bit 3 1"
definition FilterBitmaskResourceUpdatePending :: FilterBitmask where "FilterBitmaskResourceUpdatePending = push_bit 4 1"
definition FilterBitmaskResourceUpdated :: FilterBitmask where "FilterBitmaskResourceUpdated = push_bit 5 1"
definition FilterBitmaskResourceDeletePending :: FilterBitmask where "FilterBitmaskResourceDeletePending = push_bit 6 1"
definition FilterBitmaskResourceDeleted :: FilterBitmask where "FilterBitmaskResourceDeleted = push_bit 7 1"
definition FilterBitmaskDeviceMetadataUpdatePending :: FilterBitmask where "FilterBitmaskDeviceMetadataUpdatePending = push_bit 8 1"
definition FilterBitmaskDeviceMetadataUpdated :: FilterBitmask where "FilterBitmaskDeviceMetadataUpdated = push_bit 9 1"
definition FilterBitmaskDeviceRegistered :: FilterBitmask where "FilterBitmaskDeviceRegistered = push_bit 10 1"
definition FilterBitmaskDeviceUnregistered :: FilterBitmask where "FilterBitmaskDeviceUnregistered = push_bit 11 1"
definition FilterBitmaskResourceChanged :: FilterBitmask where "FilterBitmaskResourceChanged = push_bit 12 1"
definition FilterBitmaskResourcesPublished :: FilterBitmask where "FilterBitmaskResourcesPublished = push_bit 13 1"
definition FilterBitmaskResourcesUnpublished :: FilterBitmask where "FilterBitmaskResourcesUnpublished = push_bit 14 1"
definition FilterBitmaskMax :: FilterBitmask where "FilterBitmaskMax = 0xffffffff"

lemmas bit_defs = FilterBitmaskResourceCreatePending_def FilterBitmaskResourceCreated_def
  FilterBitmaskResourceRetrievePending_def FilterBitmaskResourceRetrieved_def FilterBitmaskResourceUpdatePending_def
  FilterBitmaskResourceUpdated_def FilterBitmaskResourceDeletePending_def FilterBitmaskResourceDeleted_def
  FilterBitmaskDeviceMetadataUpdatePending_def FilterBitmaskDeviceMetadataUpdated_def
  FilterBitmaskDeviceRegistered_def FilterBitmaskDeviceUnregistered_def FilterBitmaskResourceChanged_def
  FilterBitmaskResourcesPublished_def FilterBitmaskResourcesUnpublished_def FilterBitmaskMax_def

definition IsFilteredBit :: "FilterBitmask \<Rightarrow> FilterBitmask \<Rightarrow> bool" where
  "IsFilteredBit filteredEventTypes b \<longleftrightarrow> (filteredEventTypes AND b) \<noteq> 0"

text \<open>The enums of the protocol; an unknown number is \<open>_other\<close>, which no map of the code contains.\<close>

datatype PendingCommand =
    RESOURCE_CREATE | RESOURCE_RETRIEVE | RESOURCE_UPDATE | RESOURCE_DELETE | DEVICE_METADATA_UPDATE
  | PendingCommand_other

definition pendingCommandToBitmask :: "(PendingCommand \<times> FilterBitmask) list" where
  "pendingCommandToBitmask =
     [(RESOURCE_CREATE, FilterBitmaskResourceCreatePending), (RESOURCE_RETRIEVE, FilterBitmaskResourceRetrievePending),
      (RESOURCE_UPDATE, FilterBitmaskResourceUpdatePending), (RESOURCE_DELETE, FilterBitmaskResourceDeletePending),
      (DEVICE_METADATA_UPDATE, FilterBitmaskDeviceMetadataUpdatePending)]"

definition FilterPendingCommandToBitmask :: "PendingCommand \<Rightarrow> FilterBitmask" where
  "FilterPendingCommandToBitmask f = (case map_of pendingCommandToBitmask f of Some b \<Rightarrow> b | None \<Rightarrow> 0)"

definition FilterPendingsCommandsToBitmask :: "PendingCommand list \<Rightarrow> FilterBitmask" where
  "FilterPendingsCommandsToBitmask commandFilter =
     (if length commandFilter = 0 then foldl (\<lambda>bitmask e. bitmask OR snd e) 0 pendingCommandToBitmask
      else foldl (\<lambda>bitmask f. bitmask OR FilterPendingCommandToBitmask f) 0 commandFilter)"

definition bitmaskTopendingCommands :: "(FilterBitmask \<times> PendingCommand) list" where
  "bitmaskTopendingCommands =
     [(FilterBitmaskResourceCreatePending, RESOURCE_CREATE), (FilterBitmaskResourceRetrievePending, RESOURCE_RETRIEVE),
      (FilterBitmaskResourceUpdatePending, RESOURCE_UPDATE), (FilterBitmaskResourceDeletePending, RESOURCE_DELETE),
      (FilterBitmaskDeviceMetadataUpdatePending, DEVICE_METADATA_UPDATE)]"

definition BitmaskToFilterPendingsCommands ::
    "((FilterBitmask \<times> PendingCommand) list \<Rightarrow> (FilterBitmask \<times> PendingCommand) list) \<Rightarrow> FilterBitmask \<Rightarrow> PendingCommand list" where
  "BitmaskToFilterPendingsCommands ord bitmask =
     (if bitmask = 0 then []
      else map snd (filter (\<lambda>(b, _). \<not> (bitmask AND b) = 0) (ord bitmaskTopendingCommands)))"

datatype SubEvent =
    SE_RESOURCE_CREATE_PENDING | SE_RESOURCE_CREATED | SE_RESOURCE_RETRIEVE_PENDING | SE_RESOURCE_RETRIEVED
  | SE_RESOURCE_UPDATE_PENDING | SE_RESOURCE_UPDATED | SE_RESOURCE_DELETE_PENDING | SE_RESOURCE_DELETED
  | SE_DEVICE_METADATA_UPDATE_PENDING | SE_DEVICE_METADATA_UPDATED | SE_REGISTERED | SE_UNREGISTERED
  | SE_RESOURCE_PUBLISHED | SE_RESOURCE_UNPUBLISHED | SE_RESOURCE_CHANGED | SE_other

fun EventFilterToBitmask :: "SubEvent \<Rightarrow> FilterBitmask" where
  "EventFilterToBitmask SE_RESOURCE_CREATE_PENDING = FilterBitmaskResourceCreatePending"
| "EventFilterToBitmask SE_RESOURCE_CREATED = FilterBitmaskResourceCreated"
| "EventFilterToBitmask SE_RESOURCE_RETRIEVE_PENDING = FilterBitmaskResourceRetrievePending"
| "EventFilterToBitmask SE_RESOURCE_RETRIEVED = FilterBitmaskResourceRetrieved"
| "EventFilterToBitmask SE_RESOURCE_UPDATE_PENDING = FilterBitmaskResourceUpdatePending"
| "EventFilterToBitmask SE_RESOURCE_UPDATED = FilterBitmaskResourceUpdated"
| "EventFilterToBitmask SE_RESOURCE_DELETE_PENDING = FilterBitmaskResourceDeletePending"
| "EventFilterToBitmask SE_RESOURCE_DELETED = FilterBitmaskResourceDeleted"
| "EventFilterToBitmask SE_DEVICE_METADATA_UPDATE_PENDING = FilterBitmaskDeviceMetadataUpdatePending"
| "EventFilterToBitmask SE_DEVICE_METADATA_UPDATED = FilterBitmaskDeviceMetadataUpdated"
| "EventFilterToBitmask SE_REGISTERED = FilterBitmaskDeviceRegistered"
| "EventFilterToBitmask SE_UNREGISTERED = FilterBitmaskDeviceUnregistered"
| "EventFilterToBitmask SE_RESOURCE_PUBLISHED = FilterBitmaskResourcesPublished"
| "EventFilterToBitmask SE_RESOURCE_UNPUBLISHED = FilterBitmaskResourcesUnpublished"
| "EventFilterToBitmask SE_RESOURCE_CHANGED = FilterBitmaskResourceChanged"
| "EventFilterToBitmask SE_other = 0"

definition EventsFilterToBitmask :: "SubEvent list \<Rightarrow> FilterBitmask" where
  "EventsFilterToBitmask commandFilter =
     (if length commandFilter = 0 then FilterBitmaskMax
      else foldl (\<lambda>bitmask f. bitmask OR EventFilterToBitmask f) 0 commandFilter)"

section \<open>Subjects of a subscription\<close>

definition FilterBitmaskRegistrations :: FilterBitmask where
  "FilterBitmaskRegistrations = FilterBitmaskDeviceRegistered OR FilterBitmaskDeviceUnregistered"

definition FilterBitmaskDeviceMetadata :: FilterBitmask where
  "FilterBitmaskDeviceMetadata = FilterBitmaskDeviceMetadataUpdatePending OR FilterBitmaskDeviceMetadataUpdated"

definition FilterBitmaskDeviceResourceLinks :: FilterBitmask where
  "FilterBitmaskDeviceResourceLinks = FilterBitmaskResourcesPublished OR FilterBitmaskResourcesUnpublished"

definition FilterBitmaskDeviceDeviceResourcesResource :: FilterBitmask where
  "FilterBitmaskDeviceDeviceResourcesResource =
     FilterBitmaskResourceChanged OR
     FilterBitmaskResourceCreatePending OR FilterBitmaskResourceCreated OR
     FilterBitmaskResourceDeletePending OR FilterBitmaskResourceDeleted OR
     FilterBitmaskResourceRetrievePending OR FilterBitmaskResourceRetrieved OR
     FilterBitmaskResourceUpdatePending OR FilterBitmaskResourceUpdated"

definition FilterBitmaskDevices :: FilterBitmask where
  "FilterBitmaskDevices =
     FilterBitmaskDeviceMetadata OR FilterBitmaskDeviceResourceLinks OR FilterBitmaskDeviceDeviceResourcesResource"

record leadResourceTypeFilter =
  lf_enabled :: bool
  lf_filter :: "string list"

definition makeLeadResourceTypeFilter :: "bool \<Rightarrow> string list \<Rightarrow> leadResourceTypeFilter" where
  "makeLeadResourceTypeFilter enabled flt =
     \<lparr> lf_enabled = enabled, lf_filter = (if enabled then flt else []) \<rparr>"

type_synonym resource_filters = "(string \<times> ResourceId) list"

record subjectFilters =
  sf_resourceFilters :: resource_filters
  sf_leadResourceTypeFilter :: leadResourceTypeFilter

definition bitmaskToSubjectsTemplate :: "values_order \<Rightarrow> (FilterBitmask \<times> string) list" where
  "bitmaskToSubjectsTemplate ord =
     [(FilterBitmaskMax, PlgdOwnersOwner @ ''.>''),
      (FilterBitmaskRegistrations, PlgdOwnersOwnerRegistrations @ ''.>''),
      (FilterBitmaskDeviceRegistered, ToSubject ord PlgdOwnersOwnerRegistrationsEvent [WithEventType ''devicesregistered'']),
      (FilterBitmaskDeviceUnregistered, ToSubject ord PlgdOwnersOwnerRegistrationsEvent [WithEventType ''devicesunregistered'']),
      (FilterBitmaskDevices, PlgdOwnersOwnerDevices @ ''.>''),
      (FilterBitmaskDeviceMetadata, PlgdOwnersOwnerDevicesDeviceMetadata @ ''.>''),
      (FilterBitmaskDeviceMetadataUpdatePending,
         ToSubject ord PlgdOwnersOwnerDevicesDeviceMetadataEvent [WithEventType ''devicemetadataupdatepending'']),
      (FilterBitmaskDeviceMetadataUpdated,
         ToSubject ord PlgdOwnersOwnerDevicesDeviceMetadataEvent [WithEventType ''devicemetadataupdated'']),
      (FilterBitmaskDeviceResourceLinks, PlgdOwnersOwnerDevicesDeviceResourceLinks @ ''.>''),
      (FilterBitmaskResourcesPublished,
         ToSubject ord PlgdOwnersOwnerDevicesDeviceResourceLinksEvent [WithEventType ''resourcelinkspublished'']),
      (FilterBitmaskResourcesUnpublished,
         ToSubject ord PlgdOwnersOwnerDevicesDeviceResourceLinksEvent [WithEventType ''resourcelinksunpublished''])]"

definition subjectsForLeadResourceType :: "values_order \<Rightarrow> string \<Rightarrow> string list \<Rightarrow> string list" where
  "subjectsForLeadResourceType ord template leadRTFilter =
     map (\<lambda>leadRT. ToSubject ord template [WithLeadResourceType leadRT]) leadRTFilter"

definition getSubjectsForEventType :: "values_order \<Rightarrow> string \<Rightarrow> leadResourceTypeFilter \<Rightarrow> string list" where
  "getSubjectsForEventType ord eventType l =
     (if \<not> lf_enabled l
      then [ToSubject ord PlgdOwnersOwnerDevicesDeviceResourcesResourceEvent [WithEventType eventType]]
      else if length (lf_filter l) = 0
      then [ToSubject ord PlgdOwnersOwnerDevicesDeviceResourcesResourceEvent [WithEventType eventType] @ ''.>'']
      else let template = ToSubject ord PlgdOwnersOwnerDevicesDeviceResourcesResourceEventLeadResourceType
                            [WithEventType eventType]
           in subjectsForLeadResourceType ord template (lf_filter l))"

definition getSubjectsForResources :: "values_order \<Rightarrow> leadResourceTypeFilter \<Rightarrow> string list" where
  "getSubjectsForResources ord l =
     (if \<not> lf_enabled l \<or> length (lf_filter l) = 0
      then [PlgdOwnersOwnerDevicesDeviceResourcesResource @ ''.>'']
      else let template = ToSubject ord PlgdOwnersOwnerDevicesDeviceResourcesResourceEventLeadResourceType
                            [WithEventType ''*'']
           in subjectsForLeadResourceType ord template (lf_filter l))"

definition bitmaskToResourceSubjectsTemplate ::
    "values_order \<Rightarrow> (FilterBitmask \<times> (leadResourceTypeFilter \<Rightarrow> string list)) list" where
  "bitmaskToResourceSubjectsTemplate ord =
     [(FilterBitmaskDeviceDeviceResourcesResource, getSubjectsForResources ord),
      (FilterBitmaskResourceChanged, getSubjectsForEventType ord ''resourcechanged''),
      (FilterBitmaskResourceCreatePending, getSubjectsForEventType ord ''resourcecreatepending''),
      (FilterBitmaskResourceCreated, getSubjectsForEventType ord ''resourcecreated''),
      (FilterBitmaskResourceDeletePending, getSubjectsForEventType ord ''resourcedeletepending''),
      (FilterBitmaskResourceDeleted, getSubjectsForEventType ord ''resourcedeleted''),
      (FilterBitmaskResourceRetrievePending, getSubjectsForEventType ord ''resourceretrievepending''),
      (FilterBitmaskResourceRetrieved, getSubjectsForEventType ord ''resourceretrieved''),
      (FilterBitmaskResourceUpdatePending, getSubjectsForEventType ord ''resourceupdatepending''),
      (FilterBitmaskResourceUpdated, getSubjectsForEventType ord ''resourceupdated'')]"

text \<open>The loops over the two tables: a row whose bits are all wanted gives its subjects and uses up its bits.\<close>

fun pick_templates :: "(FilterBitmask \<times> string list) list \<Rightarrow> FilterBitmask \<Rightarrow> string list \<times> FilterBitmask" where
  "pick_templates [] bitmask = ([], bitmask)"
| "pick_templates ((b, subjects) # rows) bitmask =
     (if (b AND bitmask) = b
      then case pick_templates rows (bitmask AND NOT b) of (ts, rest) \<Rightarrow> (subjects @ ts, rest)
      else pick_templates rows bitmask)"

definition convertTemplateToSubjects :: "subject_env \<Rightarrow> string \<Rightarrow> subjectFilters \<Rightarrow> string \<Rightarrow> string list" where
  "convertTemplateToSubjects V owner sf rawTemplate =
     (if length (sf_resourceFilters sf) = 0
      then [ToSubject (se_order V) rawTemplate
              [WithOwner (se_uuid V) (se_parse V) owner, WithDeviceID ''*'', WithHrefId ''*'']]
      else map (\<lambda>(_, v).
             let deviceID = (if rid_DeviceId v = '''' then ''*'' else rid_DeviceId v);
                 hrefID = GetSubjectHrefID (se_uuid V) (rid_Href v)
             in ToSubject (se_order V) rawTemplate
                  [WithOwner (se_uuid V) (se_parse V) owner, WithDeviceID deviceID, WithHrefId hrefID])
           (sf_resourceFilters sf))"

text \<open>The result is the set of subjects; the code lists the keys of a map.\<close>

definition raw_templates :: "subject_env \<Rightarrow> subjectFilters \<Rightarrow> FilterBitmask \<Rightarrow> string list" where
  "raw_templates V filters bitmask =
     (case pick_templates (map (apsnd (\<lambda>s. [s])) (bitmaskToSubjectsTemplate (se_order V))) bitmask of
        (ts, bitmask) \<Rightarrow>
          ts @ fst (pick_templates
            (map (apsnd (\<lambda>f. f (sf_leadResourceTypeFilter filters))) (bitmaskToResourceSubjectsTemplate (se_order V))) bitmask))"

definition ConvertToSubjects :: "subject_env \<Rightarrow> string \<Rightarrow> subjectFilters \<Rightarrow> FilterBitmask \<Rightarrow> string set" where
  "ConvertToSubjects V owner filters bitmask =
     set (concat (map (convertTemplateToSubjects V owner filters) (raw_templates V filters bitmask)))"

section \<open>The request\<close>

record ResourceIdFilter =
  rif_ResourceId :: "ResourceId option"
  rif_Etag :: "bytes list"

record CreateSubscription =
  cs_EventFilter :: "SubEvent list"
  cs_DeviceIdFilter :: "string list"
  cs_HttpResourceIdFilter :: "string list"
  cs_HrefFilter :: "string list"
  cs_ResourceIdFilter :: "ResourceIdFilter list"
  cs_LeadResourceTypeFilter :: "string list"

text \<open>\<open>strings.Cut\<close> at the first occurrence of a character.\<close>

definition go_Cut :: "string \<Rightarrow> char \<Rightarrow> string \<times> string \<times> bool" where
  "go_Cut s c =
     (let a = takeWhile (\<lambda>x. x \<noteq> c) s; b = dropWhile (\<lambda>x. x \<noteq> c) s
      in if b = [] then (s, [], False) else (a, tl b, True))"

lemma go_Cut_shorter: "s \<noteq> [] \<Longrightarrow> go_Cut s c = (a, b, f) \<Longrightarrow> length b < length s"
proof -
  assume s: "s \<noteq> []" and c: "go_Cut s c = (a, b, f)"
  have "length (dropWhile (\<lambda>x. x \<noteq> c) s) \<le> length s" by (rule length_dropWhile_le)
  then show ?thesis using s c by (cases "dropWhile (\<lambda>x. x \<noteq> c) s") (auto simp: go_Cut_def Let_def)
qed

text \<open>\<open>parseQuery\<close>: the values by key, and whether a semicolon was met.\<close>

function parseQuery :: "(string \<times> string) list \<Rightarrow> string \<Rightarrow> bool \<Rightarrow> (string \<times> string) list \<times> bool" where
  "parseQuery m query err =
     (if query = '''' then (m, err)
      else case go_Cut query CHR ''&'' of (key, query', _) \<Rightarrow>
        if CHR '';'' \<in> set key then parseQuery m query' True
        else if key = '''' then parseQuery m query' err
        else case go_Cut key CHR ''='' of (key, val, _) \<Rightarrow>
          if key = '''' then parseQuery m query' err
          else parseQuery (m @ [(key, val)]) query' err)"
  by pat_completeness auto

termination
  by (relation "measure (\<lambda>(m, query, err). length query)") (auto dest!: go_Cut_shorter [OF _ sym])

text \<open>The base64 decoder is a parameter.\<close>

definition resourceIdFilterFromString :: "(string \<Rightarrow> bytes option) \<Rightarrow> string \<Rightarrow> ResourceIdFilter option" where
  "resourceIdFilterFromString base64 v0 =
     (if length v0 = 0 then None
      else let v = (if hd v0 = CHR ''/'' then tl v0 else v0) in
        case split_slash v of
          None \<Rightarrow> Some \<lparr> rif_ResourceId = Some \<lparr> rid_DeviceId = v, rid_Href = '''' \<rparr>, rif_Etag = [] \<rparr>
        | Some (deviceID, href) \<Rightarrow>
            (case go_Cut href CHR ''?'' of (path, query, found) \<Rightarrow>
               let rid = Some \<lparr> rid_DeviceId = deviceID, rid_Href = CHR ''/'' # path \<rparr> in
               if \<not> found then Some \<lparr> rif_ResourceId = rid, rif_Etag = [] \<rparr>
               else case parseQuery [] query False of (values, err) \<Rightarrow>
                 if err then Some \<lparr> rif_ResourceId = rid, rif_Etag = [] \<rparr>
                 else Some \<lparr> rif_ResourceId = rid,
                             rif_Etag = List.map_filter (\<lambda>(k, v). if k = ''etag'' then base64 v else None) values \<rparr>))"

definition ResourceIdFilterFromString :: "(string \<Rightarrow> bytes option) \<Rightarrow> string list \<Rightarrow> ResourceIdFilter list" where
  "ResourceIdFilterFromString base64 flt = List.map_filter (resourceIdFilterFromString base64) flt"

section \<open>Filters of a subscription\<close>

fun toFilters :: "ResourceIdFilter list \<Rightarrow> string list \<times> string list \<times> string list" where
  "toFilters [] = ([], [], [])"
| "toFilters (r # rs) =
     (case toFilters rs of (ds, hs, rids) \<Rightarrow>
        case rif_ResourceId r of
          None \<Rightarrow> (ds, hs, rids)
        | Some v \<Rightarrow>
            if rid_DeviceId v = ''*'' \<and> rid_Href v = ''*'' then (ds, hs, rids)
            else if rid_DeviceId v = ''*'' then (ds, rid_Href v # hs, rids)
            else if rid_Href v = ''*'' then (rid_DeviceId v # ds, hs, rids)
            else (ds, hs, ResourceId_ToString (Some v) # rids))"

definition normalizeFilters ::
    "CreateSubscription \<Rightarrow> string list \<times> string list \<times> string list \<times> FilterBitmask" where
  "normalizeFilters req =
     (let bitmask = EventsFilterToBitmask (cs_EventFilter req) in
      case toFilters (cs_ResourceIdFilter req) of (ds, hs, rids) \<Rightarrow>
        let ds = ds @ filter (\<lambda>d. d \<noteq> ''*'') (cs_DeviceIdFilter req);
            hs = hs @ filter (\<lambda>h. h \<noteq> ''*'') (cs_HrefFilter req)
        in (snd (strings_Unique ds), snd (strings_Unique hs), snd (strings_Unique rids), bitmask))"

text \<open>A write to the map of filters.\<close>

definition put_filter :: "string \<Rightarrow> ResourceId \<Rightarrow> resource_filters \<Rightarrow> resource_filters" where
  "put_filter k v m = (k, v) # filter (\<lambda>e. fst e \<noteq> k) m"

definition addHrefFilters :: "uuid_pkg \<Rightarrow> string list \<Rightarrow> resource_filters \<Rightarrow> resource_filters" where
  "addHrefFilters U filterSlice m =
     fold (\<lambda>h. put_filter (HrefToID U h) (NewResourceID ''*'' h)) filterSlice m"

definition addDeviceFilters :: "uuid_pkg \<Rightarrow> string list \<Rightarrow> resource_filters \<Rightarrow> resource_filters" where
  "addDeviceFilters U filterSlice m =
     fold (\<lambda>d. put_filter (HrefToID U (d @ ''/*'')) (NewResourceID d ''*'')) filterSlice m"

fun addResourceIdFilters :: "uuid_pkg \<Rightarrow> ResourceIdFilter list \<Rightarrow> resource_filters \<Rightarrow> resource_filters" where
  "addResourceIdFilters U [] m = m"
| "addResourceIdFilters U (r # rs) m =
     (case rif_ResourceId r of
        None \<Rightarrow> addResourceIdFilters U rs m
      | Some v \<Rightarrow>
          if map_of m (HrefToID U (rid_Href v)) \<noteq> None then addResourceIdFilters U rs m
          else if map_of m (HrefToID U (rid_DeviceId v @ ''/*'')) \<noteq> None then addResourceIdFilters U rs m
          else addResourceIdFilters U rs (put_filter (ResourceId_ToUUID U (Some v)) v m))"

definition getLeadResourceTypeFilter :: "CreateSubscription \<Rightarrow> bool \<Rightarrow> leadResourceTypeFilter" where
  "getLeadResourceTypeFilter req leadRTFilterEnabled =
     (if \<not> leadRTFilterEnabled then makeLeadResourceTypeFilter False []
      else makeLeadResourceTypeFilter True
        (if ''>'' \<in> set (cs_LeadResourceTypeFilter req) then [''>'']
         else snd (strings_Unique (cs_LeadResourceTypeFilter req))))"

definition getFilters :: "uuid_pkg \<Rightarrow> CreateSubscription \<Rightarrow> bool \<Rightarrow> subjectFilters \<times> FilterBitmask" where
  "getFilters U req leadRTFilterEnabled =
     (case normalizeFilters req of (ds, hs, rids, bitmask) \<Rightarrow>
        let lead = getLeadResourceTypeFilter req leadRTFilterEnabled;
            result = (\<lambda>m. (\<lparr> sf_resourceFilters = m, sf_leadResourceTypeFilter = lead \<rparr>, bitmask))
        in if length ds = 0 \<and> length hs = 0 \<and> length rids = 0 then result []
           else if length (cs_ResourceIdFilter req) = 0 \<and> length ds = 0 then result (addHrefFilters U hs [])
           else if length (cs_ResourceIdFilter req) = 0 \<and> length hs = 0 then result (addDeviceFilters U ds [])
           else if length ds = 0 then
             result (addResourceIdFilters U (cs_ResourceIdFilter req)
               (if length hs \<noteq> 0 then addHrefFilters U hs [] else []))
           else if length hs = 0 then
             result (addResourceIdFilters U (cs_ResourceIdFilter req) (addDeviceFilters U ds []))
           else
             result (addResourceIdFilters U (cs_ResourceIdFilter req)
               (fold (\<lambda>(d, h). put_filter (ResourceId_ToUUID U (Some (NewResourceID d h))) (NewResourceID d h))
                  (List.product ds hs) [])))"

section \<open>The subscription\<close>

text \<open>The sender and the close function are outside; a subscription is the filters and its identification.\<close>

record Sub =
  sub_filter :: FilterBitmask
  sub_id :: string
  sub_correlationID :: string
  sub_init :: subjectFilters
  sub_filteredDeviceIDs :: "string set"
  sub_filteredHrefIDs :: "string set"
  sub_filteredResourceIDs :: "string set"

definition subscription_New ::
    "uuid_pkg \<Rightarrow> (string \<Rightarrow> bytes option) \<Rightarrow> string \<Rightarrow> string \<Rightarrow> bool \<Rightarrow> CreateSubscription \<Rightarrow> Sub" where
  "subscription_New U base64 newId correlationID leadRTEnabled req =
     (let req = req\<lparr>cs_ResourceIdFilter := cs_ResourceIdFilter req @
                     ResourceIdFilterFromString base64 (cs_HttpResourceIdFilter req)\<rparr>
      in case getFilters U req leadRTEnabled of (filters, bitmask) \<Rightarrow>
        \<lparr> sub_filter = bitmask, sub_id = newId, sub_correlationID = correlationID, sub_init = filters,
          sub_filteredDeviceIDs = {}, sub_filteredHrefIDs = {}, sub_filteredResourceIDs = {} \<rparr>)"

definition errInvalidDeviceId :: "string \<Rightarrow> error" where
  "errInvalidDeviceId d = Errorf ''invalid deviceId('%v'): %w'' [d]"

text \<open>\<open>setFilters\<close>: the subscription, and the error or whether to go on.\<close>

definition setFilters :: "uuid_pkg \<Rightarrow> uuid_parse \<Rightarrow> Sub \<Rightarrow> ResourceId \<Rightarrow> Sub \<times> bool res" where
  "setFilters U parse s flt =
     (if rid_DeviceId flt = ''*'' \<and> rid_Href flt = ''*'' then
        (s\<lparr>sub_filteredHrefIDs := {}, sub_filteredDeviceIDs := {}, sub_filteredResourceIDs := {}\<rparr>, Inr False)
      else if rid_DeviceId flt \<noteq> ''*'' \<and> rid_Href flt \<noteq> ''*'' then
        (case parse (rid_DeviceId flt) of
           None \<Rightarrow> (s, Inl (errInvalidDeviceId (rid_DeviceId flt)))
         | Some d \<Rightarrow>
             (s\<lparr>sub_filteredResourceIDs := insert (ResourceId_ToUUID U (Some flt)) (sub_filteredResourceIDs s),
                sub_filteredDeviceIDs := insert d (sub_filteredDeviceIDs s)\<rparr>, Inr True))
      else
        let s = (if rid_Href flt \<noteq> ''*''
                 then s\<lparr>sub_filteredHrefIDs := insert (HrefToID U (rid_Href flt)) (sub_filteredHrefIDs s)\<rparr> else s)
        in if rid_DeviceId flt \<noteq> ''*'' then
             case parse (rid_DeviceId flt) of
               None \<Rightarrow> (s, Inl (errInvalidDeviceId (rid_DeviceId flt)))
             | Some d \<Rightarrow> (s\<lparr>sub_filteredDeviceIDs := insert d (sub_filteredDeviceIDs s)\<rparr>, Inr True)
           else (s, Inr True))"

fun init_filters :: "uuid_pkg \<Rightarrow> uuid_parse \<Rightarrow> Sub \<Rightarrow> ResourceId list \<Rightarrow> Sub \<times> unit res" where
  "init_filters U parse s [] = (s, Inr ())"
| "init_filters U parse s (flt # rest) =
     (case setFilters U parse s flt of
        (s, Inl err) \<Rightarrow> (s, Inl err)
      | (s, Inr wantContinue) \<Rightarrow> if \<not> wantContinue then (s, Inr ()) else init_filters U parse s rest)"

definition isFilteredDevice :: "uuid_parse \<Rightarrow> string set \<Rightarrow> string \<Rightarrow> bool" where
  "isFilteredDevice parse filteredDeviceIDs deviceID =
     (if filteredDeviceIDs = {} then True
      else case parse deviceID of Some v \<Rightarrow> v \<in> filteredDeviceIDs | None \<Rightarrow> False)"

definition isFilteredResourceIDs :: "uuid_pkg \<Rightarrow> string set \<Rightarrow> string set \<Rightarrow> ResourceId option \<Rightarrow> bool" where
  "isFilteredResourceIDs U filteredResourceIDs filteredHrefs resourceID =
     (if filteredHrefs = {} \<and> filteredResourceIDs = {} then True
      else if resourceID = None then False
      else HrefToID U (GetHref resourceID) \<in> filteredHrefs
         \<or> ResourceId_ToUUID U resourceID \<in> filteredResourceIDs)"

text \<open>The event of the gRPC API with its \<open>oneof\<close>.\<close>

datatype pb_Event =
    Event_DeviceRegistered "string list" "is_EventMetadata option" carrier
  | Event_DeviceUnregistered "string list" "is_EventMetadata option" carrier
  | Event_ResourcePublished ResourceLinksPublished
  | Event_ResourceUnpublished ResourceLinksUnpublished
  | Event_ResourceChanged ResourceChanged
  | Event_ResourceUpdatePending ResourceUpdatePending
  | Event_ResourceUpdated ResourceUpdated
  | Event_ResourceRetrievePending ResourceRetrievePending
  | Event_ResourceRetrieved ResourceRetrieved
  | Event_ResourceDeletePending ResourceDeletePending
  | Event_ResourceDeleted ResourceDeleted
  | Event_ResourceCreatePending ResourceCreatePending
  | Event_ResourceCreated ResourceCreated
  | Event_DeviceMetadataUpdatePending DeviceMetadataUpdatePending
  | Event_DeviceMetadataUpdated DeviceMetadataUpdated
  | Event_OperationProcessed
  | Event_SubscriptionCanceled

text \<open>The test that the nine resource events share: \<open>GroupID\<close> is the device of the resource id.\<close>

definition resource_filtered :: "uuid_pkg \<Rightarrow> uuid_parse \<Rightarrow> Sub \<Rightarrow> ResourceId option \<Rightarrow> bool res" where
  "resource_filtered U parse s rid =
     Inr (isFilteredDevice parse (sub_filteredDeviceIDs s) (GetDeviceId rid)
        \<and> isFilteredResourceIDs U (sub_filteredResourceIDs s) (sub_filteredHrefIDs s) rid)"

fun isFilteredEventByType :: "uuid_pkg \<Rightarrow> uuid_parse \<Rightarrow> Sub \<Rightarrow> pb_Event \<Rightarrow> bool res" where
  "isFilteredEventByType U parse s (Event_DeviceRegistered _ _ _) = Inr True"
| "isFilteredEventByType U parse s (Event_DeviceUnregistered _ _ _) = Inr True"
| "isFilteredEventByType U parse s (Event_ResourcePublished ev) =
     Inr (isFilteredDevice parse (sub_filteredDeviceIDs s) (rlp_DeviceId ev))"
| "isFilteredEventByType U parse s (Event_ResourceUnpublished ev) =
     Inr (isFilteredDevice parse (sub_filteredDeviceIDs s) (rlu_DeviceId ev))"
| "isFilteredEventByType U parse s (Event_ResourceChanged ev) = resource_filtered U parse s (rch_ResourceId ev)"
| "isFilteredEventByType U parse s (Event_ResourceUpdatePending ev) = resource_filtered U parse s (rup_ResourceId ev)"
| "isFilteredEventByType U parse s (Event_ResourceUpdated ev) = resource_filtered U parse s (rud_ResourceId ev)"
| "isFilteredEventByType U parse s (Event_ResourceRetrievePending ev) = resource_filtered U parse s (rrp_ResourceId ev)"
| "isFilteredEventByType U parse s (Event_ResourceRetrieved ev) = resource_filtered U parse s (rrd_ResourceId ev)"
| "isFilteredEventByType U parse s (Event_ResourceDeletePending ev) = resource_filtered U parse s (rdp_ResourceId ev)"
| "isFilteredEventByType U parse s (Event_ResourceDeleted ev) = resource_filtered U parse s (rdd_ResourceId ev)"
| "isFilteredEventByType U parse s (Event_ResourceCreatePending ev) = resource_filtered U parse s (rcp_ResourceId ev)"
| "isFilteredEventByType U parse s (Event_ResourceCreated ev) = resource_filtered U parse s (rcd_ResourceId ev)"
| "isFilteredEventByType U parse s (Event_DeviceMetadataUpdatePending ev) =
     Inr (isFilteredDevice parse (sub_filteredDeviceIDs s) (dup_DeviceId ev))"
| "isFilteredEventByType U parse s (Event_DeviceMetadataUpdated ev) =
     Inr (isFilteredDevice parse (sub_filteredDeviceIDs s) (dmu_DeviceId ev))"
| "isFilteredEventByType U parse s _ = Inl (Errorf ''unknown event type('%T')'' [])"

definition isFilteredEvent ::
    "uuid_pkg \<Rightarrow> uuid_parse \<Rightarrow> Sub \<Rightarrow> pb_Event option \<Rightarrow> FilterBitmask \<Rightarrow> bool res" where
  "isFilteredEvent U parse s e eventType =
     (case e of
        None \<Rightarrow> Inl (Errorf ''invalid event'' [])
      | Some e \<Rightarrow>
          if \<not> IsFilteredBit (sub_filter s) eventType then Inr False
          else isFilteredEventByType U parse s e)"

text \<open>\<open>ProcessEvent\<close>: the result, and what was given to the sender (subscription id, correlation id, event).\<close>

definition ProcessEvent ::
    "uuid_pkg \<Rightarrow> uuid_parse \<Rightarrow> (string \<times> string \<times> pb_Event \<Rightarrow> error option) \<Rightarrow> Sub \<Rightarrow> pb_Event option \<Rightarrow> FilterBitmask
     \<Rightarrow> (string \<times> string \<times> pb_Event) list \<times> unit res" where
  "ProcessEvent U parse send s e eventType =
     (case isFilteredEvent U parse s e eventType of
        Inl err \<Rightarrow> ([], Inl (Wrapf ''correlationId: %v, subscriptionId: %v: cannot process event ('%v')'' err))
      | Inr ok \<Rightarrow>
          (case e of
             None \<Rightarrow> ([], Inr ())
           | Some ev \<Rightarrow>
               if \<not> ok then ([], Inr ())
               else let msg = (sub_id s, sub_correlationID s, ev) in
                 case send msg of
                   Some err \<Rightarrow> ([msg], Inl (Wrapf ''correlationId: %v, subscriptionId: %v: cannot send event ('%v')'' err))
                 | None \<Rightarrow> ([msg], Inr ())))"

end
