(* ===== verification/Subscription_Filters.thy ===== *)
theory Subscription_Filters
  imports Event_Subscription Pkg_Strings_Properties
begin

text \<open>
  What the filters of a subscription let through. \<open>init_filters\<close> turns the map of filters of a request
  into three sets, in the order in which the map is visited; the theorems below say which events pass,
  for every such order: exactly the requested ones when a request filters by devices and hrefs, or by
  resource ids, and fewer than the documentation promises when it mixes both. The round trip of the
  masks of pending commands closes the theory.
\<close>

section \<open>The sets of a subscription\<close>

abbreviation any_device :: "ResourceId \<Rightarrow> bool" where "any_device f \<equiv> rid_DeviceId f = ''*''"
abbreviation any_href :: "ResourceId \<Rightarrow> bool" where "any_href f \<equiv> rid_Href f = ''*''"

text \<open>The canonical form of a UUID is parsed to itself.\<close>

definition canonical :: "uuid_parse \<Rightarrow> string \<Rightarrow> bool" where
  "canonical parse d \<longleftrightarrow> parse d = Some d \<and> d \<noteq> '''' \<and> d \<noteq> ''*'' \<and> CHR ''/'' \<notin> set d"

definition devices_of :: "ResourceId set \<Rightarrow> string set" where
  "devices_of F = {rid_DeviceId f | f. f \<in> F \<and> \<not> any_device f}"

definition hrefs_of :: "uuid_pkg \<Rightarrow> ResourceId set \<Rightarrow> string set" where
  "hrefs_of U F = {HrefToID U (rid_Href f) | f. f \<in> F \<and> any_device f}"

definition resources_of :: "uuid_pkg \<Rightarrow> ResourceId set \<Rightarrow> string set" where
  "resources_of U F = {ResourceId_ToUUID U (Some f) | f. f \<in> F \<and> \<not> any_device f \<and> \<not> any_href f}"

lemma init_filters_sets:
  assumes "\<And>f. f \<in> set fs \<Longrightarrow> (any_device f \<and> \<not> any_href f) \<or> parse (rid_DeviceId f) = Some (rid_DeviceId f) \<and> \<not> any_device f"
  shows "init_filters U parse s fs =
    (s\<lparr>sub_filteredDeviceIDs := sub_filteredDeviceIDs s \<union> devices_of (set fs),
       sub_filteredHrefIDs := sub_filteredHrefIDs s \<union> hrefs_of U (set fs),
       sub_filteredResourceIDs := sub_filteredResourceIDs s \<union> resources_of U (set fs)\<rparr>, Inr ())"
  using assms
proof (induction fs arbitrary: s)
  case Nil
  then show ?case by (simp add: devices_of_def hrefs_of_def resources_of_def)
next
  case (Cons f fs)
  have ins: "devices_of (set (f # fs)) = (if any_device f then {} else {rid_DeviceId f}) \<union> devices_of (set fs)"
    "hrefs_of U (set (f # fs)) = (if any_device f then {HrefToID U (rid_Href f)} else {}) \<union> hrefs_of U (set fs)"
    "resources_of U (set (f # fs)) =
       (if \<not> any_device f \<and> \<not> any_href f then {ResourceId_ToUUID U (Some f)} else {}) \<union> resources_of U (set fs)"
    by (auto simp: devices_of_def hrefs_of_def resources_of_def)
  have f: "(any_device f \<and> \<not> any_href f) \<or> parse (rid_DeviceId f) = Some (rid_DeviceId f) \<and> \<not> any_device f"
    using Cons.prems by simp
  have fs: "\<And>s. init_filters U parse s fs =
    (s\<lparr>sub_filteredDeviceIDs := sub_filteredDeviceIDs s \<union> devices_of (set fs),
       sub_filteredHrefIDs := sub_filteredHrefIDs s \<union> hrefs_of U (set fs),
       sub_filteredResourceIDs := sub_filteredResourceIDs s \<union> resources_of U (set fs)\<rparr>, Inr ())"
    using Cons by simp
  show ?case unfolding ins using f by (auto simp: setFilters_def fs Let_def)
qed

lemma fold_put_filter:
  "inj_on key (set xs) \<Longrightarrow>
   set (fold (\<lambda>x. put_filter (key x) (val x)) xs m) =
     (\<lambda>x. (key x, val x)) ` set xs \<union> {e \<in> set m. fst e \<notin> key ` set xs}"
proof (induction xs arbitrary: m)
  case (Cons x xs)
  have "key x \<in> key ` set xs \<Longrightarrow> x \<in> set xs" using Cons.prems by (auto simp: inj_on_def)
  then show ?case using Cons by (auto simp: put_filter_def)
qed simp

lemma fold_put_values:
  "inj_on key (set xs) \<Longrightarrow> snd ` set (fold (\<lambda>x. put_filter (key x) (val x)) xs []) = val ` set xs"
  by (simp add: fold_put_filter image_image)

lemma strings_Unique_set [simp]: "set (snd (strings_Unique s)) = set s"
  by (simp add: strings_Unique_def Let_def)

lemma strings_Unique_Nil [simp]: "snd (strings_Unique s) = [] \<longleftrightarrow> s = []"
  by (metis set_empty strings_Unique_set)

section \<open>The specification\<close>

text \<open>The device of an event and, for an event of a resource, its href; registrations pass every filter.\<close>

abbreviation of_rid :: "ResourceId option \<Rightarrow> (string \<times> string option) option" where
  "of_rid rid \<equiv> Some (GetDeviceId rid, Some (GetHref rid))"

fun pb_target :: "pb_Event \<Rightarrow> (string \<times> string option) option" where
  "pb_target (Event_ResourcePublished ev) = Some (rlp_DeviceId ev, None)"
| "pb_target (Event_ResourceUnpublished ev) = Some (rlu_DeviceId ev, None)"
| "pb_target (Event_ResourceChanged ev) = of_rid (rch_ResourceId ev)"
| "pb_target (Event_ResourceUpdatePending ev) = of_rid (rup_ResourceId ev)"
| "pb_target (Event_ResourceUpdated ev) = of_rid (rud_ResourceId ev)"
| "pb_target (Event_ResourceRetrievePending ev) = of_rid (rrp_ResourceId ev)"
| "pb_target (Event_ResourceRetrieved ev) = of_rid (rrd_ResourceId ev)"
| "pb_target (Event_ResourceDeletePending ev) = of_rid (rdp_ResourceId ev)"
| "pb_target (Event_ResourceDeleted ev) = of_rid (rdd_ResourceId ev)"
| "pb_target (Event_ResourceCreatePending ev) = of_rid (rcp_ResourceId ev)"
| "pb_target (Event_ResourceCreated ev) = of_rid (rcd_ResourceId ev)"
| "pb_target (Event_DeviceMetadataUpdatePending ev) = Some (dup_DeviceId ev, None)"
| "pb_target (Event_DeviceMetadataUpdated ev) = Some (dmu_DeviceId ev, None)"
| "pb_target _ = None"

text \<open>An event of the hub: its device is a canonical UUID, the href of a resource starts with a slash.\<close>

abbreviation href_path :: "string \<Rightarrow> bool" where "href_path h \<equiv> \<exists>r. h = CHR ''/'' # r"

definition target_ok :: "uuid_parse \<Rightarrow> pb_Event \<Rightarrow> bool" where
  "target_ok parse ev \<longleftrightarrow> ev \<noteq> Event_OperationProcessed \<and> ev \<noteq> Event_SubscriptionCanceled \<and>
     (case pb_target ev of
        None \<Rightarrow> True
      | Some (d, h) \<Rightarrow> canonical parse d \<and> (case h of None \<Rightarrow> True | Some h \<Rightarrow> href_path h))"

definition target_ids :: "uuid_pkg \<Rightarrow> string \<Rightarrow> string \<Rightarrow> string \<times> string" where
  "target_ids U d h = (HrefToID U h, uuid_NewSHA1 U (d @ h))"

text \<open>What the sets of a subscription decide about an event of a device and a resource.\<close>

definition passes :: "uuid_pkg \<Rightarrow> Sub \<Rightarrow> (string \<times> string option) option \<Rightarrow> bool" where
  "passes U s t \<longleftrightarrow>
     (case t of None \<Rightarrow> True | Some (d, h) \<Rightarrow>
        (sub_filteredDeviceIDs s = {} \<or> d \<in> sub_filteredDeviceIDs s) \<and>
        (case h of None \<Rightarrow> True | Some h \<Rightarrow>
           sub_filteredHrefIDs s = {} \<and> sub_filteredResourceIDs s = {} \<or>
           HrefToID U h \<in> sub_filteredHrefIDs s \<or> uuid_NewSHA1 U (d @ h) \<in> sub_filteredResourceIDs s))"

lemma resource_filtered_passes:
  assumes "canonical parse (GetDeviceId rid)" "href_path (GetHref rid)"
  shows "resource_filtered U parse s rid = Inr (passes U s (of_rid rid))"
  using assms unfolding resource_filtered_def passes_def
  by (auto simp: canonical_def isFilteredDevice_def isFilteredResourceIDs_def ResourceId_ToUUID_def)

lemma isFilteredEventByType_passes:
  assumes "target_ok parse ev"
  shows "isFilteredEventByType U parse s ev = Inr (passes U s (pb_target ev))"
proof -
  note res = resource_filtered_passes [of parse _ U s]
  have dev: "canonical parse d \<Longrightarrow> isFilteredDevice parse D d \<longleftrightarrow> D = {} \<or> d \<in> D" for D d
    by (simp add: canonical_def isFilteredDevice_def)
  show ?thesis using assms
    by (cases ev) (simp_all add: target_ok_def res dev, simp_all add: passes_def)
qed

text \<open>A subscription forwards an event exactly when the mask has its bit and its sets let it pass.\<close>

lemma ProcessEvent_sends:
  assumes "target_ok parse ev"
  shows "fst (ProcessEvent U parse send s (Some ev) b) =
    (if IsFilteredBit (sub_filter s) b \<and> passes U s (pb_target ev) then [(sub_id s, sub_correlationID s, ev)] else [])"
  unfolding ProcessEvent_def isFilteredEvent_def using isFilteredEventByType_passes [OF assms, of U s]
  by (auto simp: Let_def split: option.splits)

text \<open>What a request for devices and hrefs asks for; a wildcard in a list is passed over.\<close>

definition wanted_target :: "string set \<Rightarrow> string set \<Rightarrow> (string \<times> string option) option \<Rightarrow> bool" where
  "wanted_target D H t \<longleftrightarrow>
     (case t of None \<Rightarrow> True | Some (d, h) \<Rightarrow>
        (D = {} \<or> d \<in> D) \<and> (case h of None \<Rightarrow> True | Some h \<Rightarrow> H = {} \<or> h \<in> H))"

text \<open>No two of the names that the filters and the events have are mapped to one UUID.\<close>

definition names_of :: "string set \<Rightarrow> string set \<Rightarrow> string set" where
  "names_of D H = H \<union> (\<lambda>(d, h). d @ h) ` (D \<times> insert ''/*'' H)"

definition no_collision :: "uuid_pkg \<Rightarrow> string set \<Rightarrow> bool" where
  "no_collision U S \<longleftrightarrow> inj_on (uuid_NewSHA1 U) S"

lemma no_collisionD: "no_collision U S \<Longrightarrow> uuid_NewSHA1 U x = uuid_NewSHA1 U y \<Longrightarrow> x \<in> S \<Longrightarrow> y \<in> S \<Longrightarrow> x = y"
  by (simp add: no_collision_def inj_on_def)

lemma split_at_slash:
  assumes "CHR ''/'' \<notin> set d" "CHR ''/'' \<notin> set d'" "href_path h" "href_path h'" "d @ h = d' @ h'"
  shows "d = d' \<and> h = h'"
proof -
  have t: "takeWhile (\<lambda>c. c \<noteq> CHR ''/'') (a @ b) = a" if a: "CHR ''/'' \<notin> set a" and b: "href_path b" for a b
  proof -
    obtain r where r: "b = CHR ''/'' # r" using b by blast
    show ?thesis unfolding r by (subst takeWhile_append2) (use a in auto)
  qed
  have "d = d'" using t [OF assms(1,3)] t [OF assms(2,4)] unfolding assms(5) by (rule trans [OF sym])
  then show ?thesis using assms(5) by simp
qed


section \<open>Devices and hrefs\<close>

text \<open>A request that filters by devices and hrefs only, and what it lists besides wildcards.\<close>

abbreviation no_resource_filter :: "CreateSubscription \<Rightarrow> bool" where
  "no_resource_filter req \<equiv> cs_ResourceIdFilter req = [] \<and> cs_HttpResourceIdFilter req = []"

definition req_devices :: "CreateSubscription \<Rightarrow> string set" where
  "req_devices req = set (cs_DeviceIdFilter req) - {''*''}"

definition req_hrefs :: "CreateSubscription \<Rightarrow> string set" where
  "req_hrefs req = set (cs_HrefFilter req) - {''*''}"

text \<open>The filters of such a request: pairs of a device and an href, a wildcard where nothing is listed.\<close>

definition pairs_of :: "string set \<Rightarrow> string set \<Rightarrow> ResourceId set" where
  "pairs_of D H =
     (if D = {} \<and> H = {} then {}
      else (\<lambda>(d, h). NewResourceID d h) ` ((if D = {} then {''*''} else D) \<times> (if H = {} then {''*''} else H)))"

lemma subscription_fields:
  "sub_filter (subscription_New U base64 i c lead req) = EventsFilterToBitmask (cs_EventFilter req)"
  "sub_id (subscription_New U base64 i c lead req) = i"
  "sub_correlationID (subscription_New U base64 i c lead req) = c"
  "sub_filteredDeviceIDs (subscription_New U base64 i c lead req) = {}"
  "sub_filteredHrefIDs (subscription_New U base64 i c lead req) = {}"
  "sub_filteredResourceIDs (subscription_New U base64 i c lead req) = {}"
  by (auto simp: subscription_New_def getFilters_def normalizeFilters_def Let_def split: prod.splits)

lemma normalized:
  assumes "no_resource_filter req"
  shows "\<exists>ds hs. normalizeFilters req = (ds, hs, [], EventsFilterToBitmask (cs_EventFilter req))
    \<and> set ds = req_devices req \<and> set hs = req_hrefs req"
proof -
  have e: "snd (strings_Unique []) = []" by (simp add: strings_Unique_def)
  have "set (filter (\<lambda>d. d \<noteq> ''*'') xs) = set xs - {''*''}" for xs by auto
  then show ?thesis using assms e by (simp add: normalizeFilters_def req_devices_def req_hrefs_def Let_def)
qed

lemma filters_of_request:
  assumes "no_resource_filter req" "no_collision U (names_of (req_devices req) (req_hrefs req))"
    and "\<And>d. d \<in> req_devices req \<Longrightarrow> CHR ''/'' \<notin> set d" "\<And>h. h \<in> req_hrefs req \<Longrightarrow> href_path h"
  shows "snd ` set (sf_resourceFilters (sub_init (subscription_New U base64 i c lead req))) =
    pairs_of (req_devices req) (req_hrefs req)"
proof -
  let ?D = "req_devices req" and ?H = "req_hrefs req"
  obtain ds hs where n: "normalizeFilters req = (ds, hs, [], EventsFilterToBitmask (cs_EventFilter req))"
    and ds: "set ds = ?D" and hs: "set hs = ?H" using normalized [OF assms(1)] by blast
  have req: "req\<lparr>cs_ResourceIdFilter := cs_ResourceIdFilter req @ ResourceIdFilterFromString base64 (cs_HttpResourceIdFilter req)\<rparr> = req"
    using assms(1) by (simp add: ResourceIdFilterFromString_def map_filter_def)
  have inj: "inj_on (uuid_NewSHA1 U) S" if "S \<subseteq> names_of ?D ?H" for S
    using assms(2) that by (auto simp: no_collision_def intro: inj_on_subset)
  have h: "inj_on (HrefToID U) (set hs)" using inj [of "set hs"] hs by (auto simp: HrefToID_def names_of_def inj_on_def)
  have d: "inj_on (\<lambda>d. HrefToID U (d @ ''/*'')) (set ds)"
    using inj [of "(\<lambda>d. d @ ''/*'') ` set ds"] ds by (auto simp: HrefToID_def names_of_def inj_on_def)
  have p: "inj_on (\<lambda>(d, h). ResourceId_ToUUID U (Some (NewResourceID d h))) (set (List.product ds hs))"
  proof (rule inj_onI, clarsimp)
    fix d h d' h' assume "d \<in> set ds" "h \<in> set hs" "d' \<in> set ds" "h' \<in> set hs"
      and u: "ResourceId_ToUUID U (Some (NewResourceID d h)) = ResourceId_ToUUID U (Some (NewResourceID d' h'))"
    then have mem: "d \<in> ?D" "h \<in> ?H" "d' \<in> ?D" "h' \<in> ?H" using ds hs by auto
    then have "uuid_NewSHA1 U (d @ h) = uuid_NewSHA1 U (d' @ h')"
      using u assms(4) [of h] assms(4) [of h'] by (auto simp: ResourceId_ToUUID_def NewResourceID_def)
    moreover have "d @ h \<in> names_of ?D ?H" "d' @ h' \<in> names_of ?D ?H" using mem by (auto simp: names_of_def)
    ultimately have "d @ h = d' @ h'" by (rule no_collisionD [OF assms(2)])
    then show "d = d' \<and> h = h'" using mem assms(3,4) by (intro split_at_slash)
  qed
  have "snd ` set (fold (\<lambda>(d, h). put_filter (ResourceId_ToUUID U (Some (NewResourceID d h))) (NewResourceID d h)) (List.product ds hs) []) =
      (\<lambda>(d, h). NewResourceID d h) ` (?D \<times> ?H)"
    using fold_put_values [OF p, of "\<lambda>(d, h). NewResourceID d h"] ds hs by (simp add: case_prod_unfold)
  moreover have "snd ` set (addHrefFilters U hs []) = NewResourceID ''*'' ` ?H"
    using fold_put_values [OF h, of "NewResourceID ''*''"] hs by (simp add: addHrefFilters_def)
  moreover have "snd ` set (addDeviceFilters U ds []) = (\<lambda>d. NewResourceID d ''*'') ` ?D"
    using fold_put_values [OF d, of "\<lambda>d. NewResourceID d ''*''"] ds by (simp add: addDeviceFilters_def)
  moreover have "ds = [] \<longleftrightarrow> ?D = {}" "hs = [] \<longleftrightarrow> ?H = {}" using ds hs by auto
  ultimately show ?thesis using n assms(1) ds hs unfolding subscription_New_def req
    by (auto simp: getFilters_def Let_def pairs_of_def image_iff)
qed


lemma sets_of_pairs:
  assumes "''*'' \<notin> D" "''*'' \<notin> H"
  shows "devices_of (pairs_of D H) = D"
    "hrefs_of U (pairs_of D H) = (if D = {} then HrefToID U ` H else {})"
    "resources_of U (pairs_of D H) =
       (if D = {} \<or> H = {} then {} else (\<lambda>(d, h). ResourceId_ToUUID U (Some (NewResourceID d h))) ` (D \<times> H))"
proof -
  have n: "rid_DeviceId (NewResourceID d h) = d" "rid_Href (NewResourceID d h) = h" for d h
    by (simp_all add: NewResourceID_def)
  show "devices_of (pairs_of D H) = D" using assms by (force simp: devices_of_def pairs_of_def n image_iff)
  show "hrefs_of U (pairs_of D H) = (if D = {} then HrefToID U ` H else {})"
    using assms by (auto simp: hrefs_of_def pairs_of_def n image_iff) (metis n)
  show "resources_of U (pairs_of D H) =
       (if D = {} \<or> H = {} then {} else (\<lambda>(d, h). ResourceId_ToUUID U (Some (NewResourceID d h))) ` (D \<times> H))"
    using assms by (auto simp: resources_of_def pairs_of_def n image_iff) (metis n)+
qed

definition event_names :: "(string \<times> string option) option \<Rightarrow> string set" where
  "event_names t = (case t of Some (d, Some h) \<Rightarrow> {h, d @ h} | _ \<Rightarrow> {})"

text \<open>The sets of such a request decide what was asked for.\<close>

lemma passes_pairs:
  assumes D: "\<And>d. d \<in> D \<Longrightarrow> canonical parse d" and H: "\<And>h. h \<in> H \<Longrightarrow> href_path h"
    and c: "no_collision U (names_of D H \<union> event_names (pb_target ev))" and t: "target_ok parse ev"
    and s: "sub_filteredDeviceIDs s = devices_of (pairs_of D H)" "sub_filteredHrefIDs s = hrefs_of U (pairs_of D H)"
      "sub_filteredResourceIDs s = resources_of U (pairs_of D H)"
  shows "passes U s (pb_target ev) \<longleftrightarrow> wanted_target D H (pb_target ev)"
proof (cases "pb_target ev")
  case (Some dh)
  obtain d ho where dh: "dh = (d, ho)" by (cases dh)
  have star: "''*'' \<notin> D" "''*'' \<notin> H" using D [of "''*''"] H [of "''*''"] by (auto simp: canonical_def)
  have sets: "sub_filteredDeviceIDs s = D" "sub_filteredHrefIDs s = (if D = {} then HrefToID U ` H else {})"
    "sub_filteredResourceIDs s =
       (if D = {} \<or> H = {} then {} else (\<lambda>(d, h). ResourceId_ToUUID U (Some (NewResourceID d h))) ` (D \<times> H))"
    using sets_of_pairs [OF star] unfolding s by simp_all
  show ?thesis
  proof (cases ho)
    case None
    then show ?thesis using Some dh sets(1) by (simp add: passes_def wanted_target_def)
  next
    case h: (Some h)
    have dc: "canonical parse d" "href_path h" using t Some dh h by (simp_all add: target_ok_def)
    have names: "event_names (pb_target ev) = {h, d @ h}" using Some dh h by (simp add: event_names_def)
    have "HrefToID U h \<in> HrefToID U ` H \<longleftrightarrow> h \<in> H"
      using no_collisionD [OF c, of h] names unfolding HrefToID_def names_of_def by blast
    moreover have "uuid_NewSHA1 U (d @ h) \<in> (\<lambda>(d, h). ResourceId_ToUUID U (Some (NewResourceID d h))) ` (D \<times> H)
        \<longleftrightarrow> d \<in> D \<and> h \<in> H"
    proof
      assume "uuid_NewSHA1 U (d @ h) \<in> (\<lambda>(d, h). ResourceId_ToUUID U (Some (NewResourceID d h))) ` (D \<times> H)"
      then obtain d' h' where dh': "d' \<in> D" "h' \<in> H"
        "uuid_NewSHA1 U (d @ h) = ResourceId_ToUUID U (Some (NewResourceID d' h'))" by auto
      then have "uuid_NewSHA1 U (d @ h) = uuid_NewSHA1 U (d' @ h')"
        using H [of h'] by (auto simp: ResourceId_ToUUID_def NewResourceID_def)
      then have "d @ h = d' @ h'"
      proof (rule no_collisionD [OF c])
        show "d @ h \<in> names_of D H \<union> event_names (pb_target ev)" by (simp add: names)
        show "d' @ h' \<in> names_of D H \<union> event_names (pb_target ev)" using dh'(1,2) by (auto simp: names_of_def)
      qed
      moreover have "CHR ''/'' \<notin> set d" "CHR ''/'' \<notin> set d'" using dc(1) D [OF dh'(1)] by (simp_all add: canonical_def)
      ultimately have "d = d' \<and> h = h'" using dc(2) H [OF dh'(2)] by (intro split_at_slash)
      then show "d \<in> D \<and> h \<in> H" using dh' by simp
    next
      assume "d \<in> D \<and> h \<in> H"
      then show "uuid_NewSHA1 U (d @ h) \<in> (\<lambda>(d, h). ResourceId_ToUUID U (Some (NewResourceID d h))) ` (D \<times> H)"
        using dc(2) by (force simp: ResourceId_ToUUID_def NewResourceID_def)
    qed
    ultimately show ?thesis using Some dh h sets by (auto simp: passes_def wanted_target_def)
  qed
qed (simp add: passes_def wanted_target_def)

lemma device_href_sends:
  assumes "no_resource_filter req" "\<And>d. d \<in> req_devices req \<Longrightarrow> canonical parse d"
    and "\<And>h. h \<in> req_hrefs req \<Longrightarrow> href_path h" "target_ok parse ev"
    and "no_collision U (names_of (req_devices req) (req_hrefs req) \<union> event_names (pb_target ev))"
    and "mset fs = mset (map snd (sf_resourceFilters (sub_init (subscription_New U base64 i c lead req))))"
  shows "\<exists>s. init_filters U parse (subscription_New U base64 i c lead req) fs = (s, Inr ()) \<and>
    fst (ProcessEvent U parse send s (Some ev) b) =
      (if IsFilteredBit (EventsFilterToBitmask (cs_EventFilter req)) b
          \<and> wanted_target (req_devices req) (req_hrefs req) (pb_target ev)
       then [(i, c, ev)] else [])"
proof -
  let ?D = "req_devices req" and ?H = "req_hrefs req" and ?n = "subscription_New U base64 i c lead req"
  have sl: "CHR ''/'' \<notin> set d" if "d \<in> ?D" for d using assms(2) that by (auto simp: canonical_def)
  have "no_collision U (names_of ?D ?H)" using assms(5) by (simp add: no_collision_def inj_on_Un)
  then have "set fs = pairs_of ?D ?H"
    using filters_of_request [OF assms(1) _ sl assms(3)] mset_eq_setD [OF assms(6)] by simp
  moreover have "(any_device f \<and> \<not> any_href f) \<or> parse (rid_DeviceId f) = Some (rid_DeviceId f) \<and> \<not> any_device f"
    if "f \<in> pairs_of ?D ?H" for f
    using that assms(2,3) by (force simp: pairs_of_def NewResourceID_def canonical_def split: if_splits)
  ultimately obtain s where s: "init_filters U parse ?n fs = (s, Inr ())"
    "s = ?n\<lparr>sub_filteredDeviceIDs := devices_of (pairs_of ?D ?H), sub_filteredHrefIDs := hrefs_of U (pairs_of ?D ?H),
            sub_filteredResourceIDs := resources_of U (pairs_of ?D ?H)\<rparr>"
    using init_filters_sets [of fs parse U ?n] by (simp add: subscription_fields)
  then have "passes U s (pb_target ev) \<longleftrightarrow> wanted_target ?D ?H (pb_target ev)"
    by (intro passes_pairs [OF assms(2,3,5,4)]) simp_all
  then show ?thesis using s ProcessEvent_sends [OF assms(4), of U send s b] by (simp add: subscription_fields)
qed



definition sample_uuid :: uuid_pkg where
  "sample_uuid = \<lparr> uuid_NewSHA1 = id, uuid_Nil = '''', uuid_Parse_ok = \<lambda>_. True \<rparr>"

definition sample_request :: CreateSubscription where
  "sample_request = \<lparr> cs_EventFilter = [SE_RESOURCE_CHANGED], cs_DeviceIdFilter = [''d1'', ''d2''],
     cs_HttpResourceIdFilter = [], cs_HrefFilter = [''/a''], cs_ResourceIdFilter = [], cs_LeadResourceTypeFilter = [] \<rparr>"

definition sample_change :: "string \<Rightarrow> string \<Rightarrow> pb_Event" where
  "sample_change d h = Event_ResourceChanged \<lparr> rch_ResourceId = Some (NewResourceID d h),
     rch_Content = None, rch_Status = Status_OK, rch_AuditContext = None, rch_EventMetadata = None,
     rch_Etag = [], rch_ResourceTypes = [], rch_OpenTelemetryCarrier = [] \<rparr>"

lemma no_collision_sample [simp]: "no_collision sample_uuid S"
  by (simp add: no_collision_def sample_uuid_def)

lemma sample_request_sets: "req_devices sample_request = {''d1'', ''d2''}" "req_hrefs sample_request = {''/a''}"
  by (auto simp: sample_request_def req_devices_def req_hrefs_def)

lemma sample_target:
  "pb_target (sample_change d h) = Some (d, Some h)"
  "canonical Some d \<Longrightarrow> href_path h \<Longrightarrow> target_ok Some (sample_change d h)"
  by (simp_all add: sample_change_def NewResourceID_def target_ok_def)



section \<open>Devices and resource ids\<close>

text \<open>The resource ids that a request lists.\<close>

definition req_resources :: "CreateSubscription \<Rightarrow> ResourceId set" where
  "req_resources req = {v. \<exists>r \<in> set (cs_ResourceIdFilter req). rif_ResourceId r = Some v}"

definition exact_rid :: "uuid_parse \<Rightarrow> ResourceId \<Rightarrow> bool" where
  "exact_rid parse v \<longleftrightarrow> canonical parse (rid_DeviceId v) \<and> href_path (rid_Href v) \<and> rid_Href v \<noteq> ''/*''"

abbreviation rid_name :: "ResourceId \<Rightarrow> string" where
  "rid_name v \<equiv> rid_DeviceId v @ rid_Href v"

text \<open>The map of filters: an entry for each device and one for each resource id of another device.\<close>

definition device_entries :: "uuid_pkg \<Rightarrow> string set \<Rightarrow> (string \<times> ResourceId) set" where
  "device_entries U D = (\<lambda>d. (uuid_NewSHA1 U (d @ ''/*''), NewResourceID d ''*'')) ` D"

definition resource_entries :: "uuid_pkg \<Rightarrow> ResourceId set \<Rightarrow> (string \<times> ResourceId) set" where
  "resource_entries U R = (\<lambda>v. (uuid_NewSHA1 U (rid_name v), v)) ` R"

definition rid_names :: "string set \<Rightarrow> ResourceId set \<Rightarrow> string set" where
  "rid_names D R = (\<lambda>d. d @ ''/*'') ` (D \<union> rid_DeviceId ` R) \<union> rid_Href ` R \<union> rid_name ` R"

lemma rid_name_inj:
  assumes "exact_rid parse v" "exact_rid parse w" "rid_name v = rid_name w" shows "v = w"
  using split_at_slash [of "rid_DeviceId v" "rid_DeviceId w" "rid_Href v" "rid_Href w"] assms
  by (simp add: exact_rid_def canonical_def)

lemma name_not_path: "canonical parse d \<Longrightarrow> href_path h \<Longrightarrow> href_path h' \<Longrightarrow> h \<noteq> d @ h'"
  by (cases d) (auto simp: canonical_def)

lemma device_name_inj:
  assumes "exact_rid parse v" "canonical parse d" shows "rid_name v \<noteq> d @ ''/*''"
  using split_at_slash [of "rid_DeviceId v" d "rid_Href v" "''/*''"] assms
  by (auto simp: exact_rid_def canonical_def)

lemma addResourceIdFilters_set:
  assumes "no_collision U (rid_names D R)" "\<And>d. d \<in> D \<Longrightarrow> canonical parse d" "\<And>v. v \<in> R \<Longrightarrow> exact_rid parse v"
  shows "\<lbrakk> set m = device_entries U D \<union> resource_entries U R0; R0 \<subseteq> R;
      \<And>r v. r \<in> set rs \<Longrightarrow> rif_ResourceId r = Some v \<Longrightarrow> v \<in> R \<rbrakk> \<Longrightarrow>
    set (addResourceIdFilters U rs m) = device_entries U D \<union>
      resource_entries U (R0 \<union> {v. (\<exists>r \<in> set rs. rif_ResourceId r = Some v) \<and> rid_DeviceId v \<notin> D})"
proof (induction rs arbitrary: m R0)
  case (Cons r rs)
  have rs: "\<And>r v. r \<in> set rs \<Longrightarrow> rif_ResourceId r = Some v \<Longrightarrow> v \<in> R" using Cons.prems(3) by (meson list.set_intros(2))
  show ?case
  proof (cases "rif_ResourceId r")
    case None
    then show ?thesis using Cons.IH [OF Cons.prems(1,2) rs] by simp
  next
    case (Some v)
    then have v: "v \<in> R" "exact_rid parse v" using Cons.prems(3) assms(3) by auto
    have eq: "uuid_NewSHA1 U x = uuid_NewSHA1 U y \<longleftrightarrow> x = y" if "x \<in> rid_names D R" "y \<in> rid_names D R" for x y
      using no_collisionD [OF assms(1)] that by blast
    have mem: "rid_Href w \<in> rid_names D R" "rid_name w \<in> rid_names D R" "rid_DeviceId w @ ''/*'' \<in> rid_names D R" if "w \<in> R" for w
      using that by (auto simp: rid_names_def)
    have memD: "d @ ''/*'' \<in> rid_names D R" if "d \<in> D" for d using that by (auto simp: rid_names_def)
    have keys: "fst ` set m = (\<lambda>d. uuid_NewSHA1 U (d @ ''/*'')) ` D \<union> (\<lambda>w. uuid_NewSHA1 U (rid_name w)) ` R0"
      unfolding Cons.prems(1) by (force simp: device_entries_def resource_entries_def)
    have hv: "href_path (rid_Href v)" using v(2) by (simp add: exact_rid_def)
    have "uuid_NewSHA1 U (rid_Href v) \<noteq> uuid_NewSHA1 U (d @ ''/*'')" if "d \<in> D" for d
      using eq [OF mem(1) [OF v(1)] memD [OF that]] name_not_path [OF assms(2) [OF that] hv, of "''/*''"] by simp
    moreover have "uuid_NewSHA1 U (rid_Href v) \<noteq> uuid_NewSHA1 U (rid_name w)" if "w \<in> R0" for w
    proof -
      have "w \<in> R" using that Cons.prems(2) by blast
      then show ?thesis using eq [OF mem(1) [OF v(1)] mem(2)]
          name_not_path [of parse "rid_DeviceId w" "rid_Href v" "rid_Href w"] assms(3) hv by (simp add: exact_rid_def)
    qed
    ultimately have "HrefToID U (rid_Href v) \<notin> fst ` set m" unfolding keys HrefToID_def by blast
    moreover have "HrefToID U (rid_DeviceId v @ ''/*'') \<in> fst ` set m \<longleftrightarrow> rid_DeviceId v \<in> D"
    proof -
      have "uuid_NewSHA1 U (rid_DeviceId v @ ''/*'') = uuid_NewSHA1 U (d @ ''/*'') \<longleftrightarrow> rid_DeviceId v = d" if "d \<in> D" for d
        using eq [OF mem(3) [OF v(1)] memD [OF that]] by simp
      moreover have "uuid_NewSHA1 U (rid_DeviceId v @ ''/*'') \<noteq> uuid_NewSHA1 U (rid_name w)" if "w \<in> R0" for w
      proof -
        have "w \<in> R" using that Cons.prems(2) by blast
        moreover have "canonical parse (rid_DeviceId v)" using v(2) by (simp add: exact_rid_def)
        ultimately show ?thesis using eq [OF mem(3) [OF v(1)] mem(2)] device_name_inj [OF assms(3)] by metis
      qed
      ultimately show ?thesis unfolding keys HrefToID_def by (auto simp: image_iff)
    qed
    ultimately have step: "addResourceIdFilters U (r # rs) m =
        (if rid_DeviceId v \<in> D then addResourceIdFilters U rs m
         else addResourceIdFilters U rs (put_filter (uuid_NewSHA1 U (rid_name v)) v m))"
    proof -
      assume "HrefToID U (rid_Href v) \<notin> fst ` set m"
        and "HrefToID U (rid_DeviceId v @ ''/*'') \<in> fst ` set m \<longleftrightarrow> rid_DeviceId v \<in> D"
      then have "map_of m (HrefToID U (rid_Href v)) = None"
        "map_of m (HrefToID U (rid_DeviceId v @ ''/*'')) = None \<longleftrightarrow> rid_DeviceId v \<notin> D"
        by (simp_all add: map_of_eq_None_iff)
      moreover have "ResourceId_ToUUID U (Some v) = uuid_NewSHA1 U (rid_name v)"
        using v(2) by (auto simp: ResourceId_ToUUID_def exact_rid_def)
      ultimately show ?thesis using Some by simp
    qed
    have "set (put_filter (uuid_NewSHA1 U (rid_name v)) v m) =
        device_entries U D \<union> resource_entries U (insert v R0)" if "rid_DeviceId v \<notin> D"
    proof -
      have "uuid_NewSHA1 U (d @ ''/*'') \<noteq> uuid_NewSHA1 U (rid_name v)" if "d \<in> D" for d
        using eq [OF memD [OF that] mem(2) [OF v(1)]] device_name_inj [OF v(2) assms(2) [OF that]] by simp
      moreover have "uuid_NewSHA1 U (rid_name w) = uuid_NewSHA1 U (rid_name v) \<longleftrightarrow> w = v" if "w \<in> R0" for w
        using eq [OF mem(2) mem(2) [OF v(1)], of w] rid_name_inj [OF assms(3) v(2), of w] that Cons.prems(2) by blast
      ultimately show ?thesis unfolding put_filter_def
        by (simp add: Cons.prems(1)) (auto simp: device_entries_def resource_entries_def)
    qed
    moreover have "R0 \<union> {v. (\<exists>r \<in> set (r # rs). rif_ResourceId r = Some v) \<and> rid_DeviceId v \<notin> D} =
        (if rid_DeviceId v \<in> D then R0 else insert v R0) \<union> {v. (\<exists>r \<in> set rs. rif_ResourceId r = Some v) \<and> rid_DeviceId v \<notin> D}"
      using Some by auto
    ultimately show ?thesis unfolding step
      using Cons.IH [OF Cons.prems(1,2) rs] Cons.IH [OF _ _ rs, of "put_filter (uuid_NewSHA1 U (rid_name v)) v m" "insert v R0"]
        Cons.prems(2) v(1)
      by simp
  qed
qed simp


lemma toFilters_exact:
  assumes "\<And>r v. r \<in> set rs \<Longrightarrow> rif_ResourceId r = Some v \<Longrightarrow> exact_rid parse v"
  shows "\<exists>rids. toFilters rs = ([], [], rids) \<and> (rids = [] \<longleftrightarrow> (\<forall>r \<in> set rs. rif_ResourceId r = None))"
  using assms
proof (induction rs)
  case (Cons r rs)
  then obtain rids where rids: "toFilters rs = ([], [], rids)" "rids = [] \<longleftrightarrow> (\<forall>r \<in> set rs. rif_ResourceId r = None)"
    by (metis list.set_intros(2))
  show ?case
  proof (cases "rif_ResourceId r")
    case (Some v)
    then have "rid_DeviceId v \<noteq> ''*''" "rid_Href v \<noteq> ''*''" using Cons.prems [of r v] by (auto simp: exact_rid_def canonical_def)
    then show ?thesis using rids Some by simp
  qed (use rids in simp)
qed simp

text \<open>The filters of a request with devices and exact resource ids.\<close>

lemma filters_of_resources:
  assumes "cs_HttpResourceIdFilter req = []" "req_hrefs req = {}"
    and D: "\<And>d. d \<in> req_devices req \<Longrightarrow> canonical parse d" and R: "\<And>v. v \<in> req_resources req \<Longrightarrow> exact_rid parse v"
    and c: "no_collision U (rid_names (req_devices req) (req_resources req))"
  shows "snd ` set (sf_resourceFilters (sub_init (subscription_New U base64 i c0 lead req))) =
    (\<lambda>d. NewResourceID d ''*'') ` req_devices req \<union> {v \<in> req_resources req. rid_DeviceId v \<notin> req_devices req}"
proof -
  let ?D = "req_devices req" and ?R = "req_resources req" and ?rs = "cs_ResourceIdFilter req"
  have req: "req\<lparr>cs_ResourceIdFilter := ?rs @ ResourceIdFilterFromString base64 (cs_HttpResourceIdFilter req)\<rparr> = req"
    using assms(1) by (simp add: ResourceIdFilterFromString_def map_filter_def)
  have rs: "\<And>r v. r \<in> set ?rs \<Longrightarrow> rif_ResourceId r = Some v \<Longrightarrow> v \<in> ?R" by (auto simp: req_resources_def)
  obtain rids where rids: "toFilters ?rs = ([], [], rids)" "rids = [] \<longleftrightarrow> (\<forall>r \<in> set ?rs. rif_ResourceId r = None)"
    using toFilters_exact [of ?rs parse] R rs by blast
  have ft: "set (filter (\<lambda>d. d \<noteq> ''*'') xs) = set xs - {''*''}" for xs by auto
  then have "filter (\<lambda>h. h \<noteq> ''*'') (cs_HrefFilter req) = []"
    using assms(2) unfolding req_hrefs_def by (metis set_empty)
  moreover have "snd (strings_Unique []) = []" by (simp add: strings_Unique_def)
  ultimately have "normalizeFilters req = (snd (strings_Unique (filter (\<lambda>d. d \<noteq> ''*'') (cs_DeviceIdFilter req))), [],
      snd (strings_Unique rids), EventsFilterToBitmask (cs_EventFilter req))"
    using rids(1) by (simp add: normalizeFilters_def Let_def)
  then obtain ds rids' where n: "normalizeFilters req = (ds, [], rids', EventsFilterToBitmask (cs_EventFilter req))"
    and ds: "set ds = ?D" and r': "rids' = [] \<longleftrightarrow> rids = []"
  proof (rule that)
    show "set (snd (strings_Unique (filter (\<lambda>d. d \<noteq> ''*'') (cs_DeviceIdFilter req)))) = ?D"
      unfolding strings_Unique_set ft req_devices_def ..
  qed (rule strings_Unique_Nil)
  have inj: "inj_on (\<lambda>d. HrefToID U (d @ ''/*'')) (set ds)"
  proof (rule inj_onI)
    fix x y assume "x \<in> set ds" "y \<in> set ds" and u: "HrefToID U (x @ ''/*'') = HrefToID U (y @ ''/*'')"
    then have "x @ ''/*'' \<in> rid_names ?D ?R" "y @ ''/*'' \<in> rid_names ?D ?R" unfolding ds rid_names_def by blast+
    then show "x = y" using no_collisionD [OF c u [unfolded HrefToID_def]] by simp
  qed
  have "set (addDeviceFilters U ds []) = device_entries U ?D \<union> resource_entries U {}"
    using fold_put_filter [OF inj, of "\<lambda>d. NewResourceID d ''*''" "[]"] ds
    by (simp add: addDeviceFilters_def device_entries_def resource_entries_def HrefToID_def)
  then have "set (addResourceIdFilters U ?rs (addDeviceFilters U ds [])) = device_entries U ?D \<union>
      resource_entries U {v. (\<exists>r \<in> set ?rs. rif_ResourceId r = Some v) \<and> rid_DeviceId v \<notin> ?D}"
    using addResourceIdFilters_set [OF c D R, of "addDeviceFilters U ds []" "{}" ?rs] rs by simp
  moreover have "{v. (\<exists>r \<in> set ?rs. rif_ResourceId r = Some v) \<and> rid_DeviceId v \<notin> ?D} = {v \<in> ?R. rid_DeviceId v \<notin> ?D}"
    by (auto simp: req_resources_def)
  ultimately have e: "snd ` set (addResourceIdFilters U ?rs (addDeviceFilters U ds [])) =
      (\<lambda>d. NewResourceID d ''*'') ` ?D \<union> {v \<in> ?R. rid_DeviceId v \<notin> ?D}"
    by (simp add: image_Un device_entries_def resource_entries_def image_image)
  have "rids' = [] \<longleftrightarrow> ?R = {}" using r' rids(2) by (auto simp: req_resources_def)
  moreover have "addDeviceFilters U [] [] = []" by (simp add: addDeviceFilters_def)
  ultimately show ?thesis using n ds e unfolding subscription_New_def req
    by (cases "?rs = []"; cases "ds = []") (auto simp: getFilters_def Let_def)
qed

text \<open>What reaches a subscriber that lists devices \<open>D\<close> and resource ids \<open>R\<close>.\<close>

definition forwarded_target :: "string set \<Rightarrow> ResourceId set \<Rightarrow> (string \<times> string option) option \<Rightarrow> bool" where
  "forwarded_target D R t \<longleftrightarrow>
     (case t of
        None \<Rightarrow> True
      | Some (d, None) \<Rightarrow> d \<in> D \<union> rid_DeviceId ` R
      | Some (d, Some h) \<Rightarrow>
          if rid_DeviceId ` R \<subseteq> D then d \<in> D else d \<notin> D \<and> NewResourceID d h \<in> R)"


lemma passes_resources:
  assumes "\<And>d. d \<in> D \<Longrightarrow> canonical parse d" "\<And>v. v \<in> R \<Longrightarrow> exact_rid parse v" "D \<union> rid_DeviceId ` R \<noteq> {}"
    and c: "no_collision U (rid_names D R \<union> event_names (pb_target ev))" and t: "target_ok parse ev"
    and F: "F = (\<lambda>d. NewResourceID d ''*'') ` D \<union> {v \<in> R. rid_DeviceId v \<notin> D}"
    and s: "sub_filteredDeviceIDs s = devices_of F" "sub_filteredHrefIDs s = hrefs_of U F"
      "sub_filteredResourceIDs s = resources_of U F"
  shows "passes U s (pb_target ev) \<longleftrightarrow> forwarded_target D R (pb_target ev)"
proof (cases "pb_target ev")
  case (Some dh)
  obtain d ho where dh: "dh = (d, ho)" by (cases dh)
  have star: "''*'' \<notin> D" "\<And>v. v \<in> R \<Longrightarrow> \<not> any_device v \<and> \<not> any_href v"
    using assms(1) [of "''*''"] assms(2) by (fastforce simp: canonical_def exact_rid_def)+
  have n: "rid_DeviceId (NewResourceID d h) = d" "rid_Href (NewResourceID d h) = h" for d h
    by (simp_all add: NewResourceID_def)
  have all: "\<not> any_device f" if "f \<in> F" for f
    using that star unfolding F by (elim UnE imageE) (auto simp only: n mem_Collect_eq)
  have "devices_of F = rid_DeviceId ` F" unfolding devices_of_def using all by blast
  also have "\<dots> = D \<union> rid_DeviceId ` R" unfolding F image_Un image_image n by blast
  finally have "devices_of F = D \<union> rid_DeviceId ` R" .
  moreover have "hrefs_of U F = {}" using all unfolding hrefs_of_def by blast
  moreover have "resources_of U F = (\<lambda>v. uuid_NewSHA1 U (rid_name v)) ` {v \<in> R. rid_DeviceId v \<notin> D}"
  proof -
    have "ResourceId_ToUUID U (Some v) = uuid_NewSHA1 U (rid_name v)" if "v \<in> R" for v
      using assms(2) [OF that] by (auto simp: exact_rid_def ResourceId_ToUUID_def)
    moreover have "{f \<in> F. \<not> any_href f} = {v \<in> R. rid_DeviceId v \<notin> D}" using star(2) unfolding F by (auto simp only: n)
    moreover have "resources_of U F = (\<lambda>f. ResourceId_ToUUID U (Some f)) ` {f \<in> F. \<not> any_href f}"
      unfolding resources_of_def using all by blast
    ultimately show ?thesis by (auto simp only: intro!: image_cong)
  qed
  ultimately have sets: "sub_filteredDeviceIDs s = D \<union> rid_DeviceId ` R" "sub_filteredHrefIDs s = {}"
    "sub_filteredResourceIDs s = (\<lambda>v. uuid_NewSHA1 U (rid_name v)) ` {v \<in> R. rid_DeviceId v \<notin> D}" using s by simp_all
  show ?thesis
  proof (cases ho)
    case None
    then show ?thesis using Some dh sets(1) assms(3) by (auto simp: passes_def forwarded_target_def)
  next
    case h: (Some h)
    have dc: "canonical parse d" "href_path h" using t Some dh h by (simp_all add: target_ok_def)
    have names: "event_names (pb_target ev) = {h, d @ h}" using Some dh h by (simp add: event_names_def)
    have eq: "uuid_NewSHA1 U (d @ h) = uuid_NewSHA1 U (rid_name v) \<longleftrightarrow> v = NewResourceID d h" if v: "v \<in> R" for v
    proof
      assume "uuid_NewSHA1 U (d @ h) = uuid_NewSHA1 U (rid_name v)"
      then have "d @ h = rid_name v"
        by (rule no_collisionD [OF c]) (use v in \<open>auto simp: names rid_names_def\<close>)
      moreover have "CHR ''/'' \<notin> set d" "CHR ''/'' \<notin> set (rid_DeviceId v)" "href_path (rid_Href v)"
        using dc(1) assms(2) [OF v] by (simp_all add: canonical_def exact_rid_def)
      ultimately have "d = rid_DeviceId v \<and> h = rid_Href v" using dc(2) by (intro split_at_slash)
      then show "v = NewResourceID d h" by (simp add: NewResourceID_def)
    qed (simp add: NewResourceID_def)
    have "uuid_NewSHA1 U (d @ h) \<in> sub_filteredResourceIDs s \<longleftrightarrow> d \<notin> D \<and> NewResourceID d h \<in> R"
      unfolding sets(3) using eq by (auto simp: image_iff n)
    moreover have "sub_filteredResourceIDs s = {} \<longleftrightarrow> rid_DeviceId ` R \<subseteq> D" unfolding sets(3) by auto
    moreover have "NewResourceID d h \<in> R \<Longrightarrow> d \<in> rid_DeviceId ` R" using n(1) [of d h] by (metis imageI)
    ultimately show ?thesis using Some dh h sets(1,2) assms(3)
      by (auto simp: passes_def forwarded_target_def)
  qed
qed (simp add: passes_def forwarded_target_def)

text \<open>A subscription that lists devices and resource ids, in whatever order its map of filters is
  visited: when it lists resource ids only, it forwards exactly the events of those resources. When it
  lists devices and at least one resource of another device, the events of those resources pass, but no
  event of a resource of the listed devices does, although the documentation promises the union.
  Events of a device itself (links and metadata) pass for all devices that are mentioned.\<close>

theorem device_and_resource_filters:
  assumes "cs_HttpResourceIdFilter req = []" "req_hrefs req = {}"
    and "\<And>d. d \<in> req_devices req \<Longrightarrow> canonical parse d" "\<And>v. v \<in> req_resources req \<Longrightarrow> exact_rid parse v"
    and "req_devices req \<union> rid_DeviceId ` req_resources req \<noteq> {}" "target_ok parse ev"
    and "no_collision U (rid_names (req_devices req) (req_resources req) \<union> event_names (pb_target ev))"
    and "mset fs = mset (map snd (sf_resourceFilters (sub_init (subscription_New U base64 i c lead req))))"
  shows "\<exists>s. init_filters U parse (subscription_New U base64 i c lead req) fs = (s, Inr ()) \<and>
    fst (ProcessEvent U parse send s (Some ev) b) =
      (if IsFilteredBit (EventsFilterToBitmask (cs_EventFilter req)) b
          \<and> forwarded_target (req_devices req) (req_resources req) (pb_target ev)
       then [(i, c, ev)] else [])"
proof -
  let ?D = "req_devices req" and ?R = "req_resources req" and ?n = "subscription_New U base64 i c lead req"
  let ?F = "(\<lambda>d. NewResourceID d ''*'') ` ?D \<union> {v \<in> ?R. rid_DeviceId v \<notin> ?D}"
  have "no_collision U (rid_names ?D ?R)" using assms(7) by (simp add: no_collision_def inj_on_Un)
  then have "set fs = ?F"
    using filters_of_resources [OF assms(1-4)] mset_eq_setD [OF assms(8)] by simp
  moreover have "(any_device f \<and> \<not> any_href f) \<or> parse (rid_DeviceId f) = Some (rid_DeviceId f) \<and> \<not> any_device f"
    if "f \<in> ?F" for f
    using that assms(3,4) by (auto simp: NewResourceID_def canonical_def exact_rid_def)
  ultimately obtain s where s: "init_filters U parse ?n fs = (s, Inr ())"
    "s = ?n\<lparr>sub_filteredDeviceIDs := devices_of ?F, sub_filteredHrefIDs := hrefs_of U ?F,
            sub_filteredResourceIDs := resources_of U ?F\<rparr>"
    using init_filters_sets [of fs parse U ?n] by (simp add: subscription_fields)
  then have "passes U s (pb_target ev) \<longleftrightarrow> forwarded_target ?D ?R (pb_target ev)"
    by (intro passes_resources [OF assms(3-5) assms(7,6) refl]) simp_all
  then show ?thesis using s ProcessEvent_sends [OF assms(6), of U send s b] by (simp add: subscription_fields)
qed


definition mixed_request :: CreateSubscription where
  "mixed_request = sample_request\<lparr>cs_DeviceIdFilter := [''d1''], cs_HrefFilter := [],
     cs_ResourceIdFilter := [\<lparr> rif_ResourceId = Some (NewResourceID ''d2'' ''/b''), rif_Etag = [] \<rparr>]\<rparr>"

lemma mixed_request_sets:
  "req_devices mixed_request = {''d1''}" "req_hrefs mixed_request = {}" "req_resources mixed_request = {NewResourceID ''d2'' ''/b''}"
  by (auto simp: mixed_request_def sample_request_def req_devices_def req_hrefs_def req_resources_def)

theorem device_and_resource_filters_witness:
  "\<exists>s. fst (init_filters sample_uuid Some (subscription_New sample_uuid (\<lambda>_. None) ''i'' ''c'' False mixed_request)
          (map snd (sf_resourceFilters (sub_init (subscription_New sample_uuid (\<lambda>_. None) ''i'' ''c'' False mixed_request))))) = s
    \<and> fst (ProcessEvent sample_uuid Some (\<lambda>_. None) s (Some (sample_change ''d1'' ''/a'')) FilterBitmaskResourceChanged) = []"
proof -
  let ?n = "subscription_New sample_uuid (\<lambda>_. None) ''i'' ''c'' False mixed_request"
  have "\<exists>s. init_filters sample_uuid Some ?n (map snd (sf_resourceFilters (sub_init ?n))) = (s, Inr ()) \<and>
    fst (ProcessEvent sample_uuid Some (\<lambda>_. None) s (Some (sample_change ''d1'' ''/a'')) FilterBitmaskResourceChanged) =
      (if IsFilteredBit (EventsFilterToBitmask (cs_EventFilter mixed_request)) FilterBitmaskResourceChanged
          \<and> forwarded_target (req_devices mixed_request) (req_resources mixed_request) (pb_target (sample_change ''d1'' ''/a''))
       then [(''i'', ''c'', sample_change ''d1'' ''/a'')] else [])"
    by (rule device_and_resource_filters)
      (simp_all add: mixed_request_sets sample_target canonical_def exact_rid_def NewResourceID_def,
       simp_all add: mixed_request_def sample_request_def)
  moreover have "\<not> forwarded_target {''d1''} {NewResourceID ''d2'' ''/b''} (Some (''d1'', Some ''/a''))"
    by (simp add: forwarded_target_def NewResourceID_def)
  ultimately show ?thesis by (auto simp: mixed_request_sets sample_target)
qed

section \<open>Masks of pending commands\<close>

lemma foldl_or_bit: "bit (foldl (\<lambda>m x. m OR f x) a xs) n \<longleftrightarrow> bit (a :: u64) n \<or> (\<exists>x \<in> set xs. bit (f x) n)"
  by (induction xs arbitrary: a) (auto simp: bit_simps)

fun pc_bit :: "PendingCommand \<Rightarrow> nat" where
  "pc_bit RESOURCE_CREATE = 0"
| "pc_bit RESOURCE_RETRIEVE = 2"
| "pc_bit RESOURCE_UPDATE = 4"
| "pc_bit RESOURCE_DELETE = 6"
| "pc_bit DEVICE_METADATA_UPDATE = 8"
| "pc_bit PendingCommand_other = 64"

lemma command_masks:
  "FilterPendingCommandToBitmask x = (if x = PendingCommand_other then 0 else 2 ^ pc_bit x)"
  "pendingCommandToBitmask = map (\<lambda>x. (x, 2 ^ pc_bit x))
     [RESOURCE_CREATE, RESOURCE_RETRIEVE, RESOURCE_UPDATE, RESOURCE_DELETE, DEVICE_METADATA_UPDATE]"
  "bitmaskTopendingCommands = map (\<lambda>x. (2 ^ pc_bit x, x))
     [RESOURCE_CREATE, RESOURCE_RETRIEVE, RESOURCE_UPDATE, RESOURCE_DELETE, DEVICE_METADATA_UPDATE]"
  by (cases x) (simp_all add: FilterPendingCommandToBitmask_def pendingCommandToBitmask_def bitmaskTopendingCommands_def
    bit_defs)

lemma pc_bit_iff: "x \<noteq> PendingCommand_other \<Longrightarrow> bit (2 ^ pc_bit y :: u64) (pc_bit x) \<longleftrightarrow> y = x"
  by (cases x; cases y) (simp_all add: bit_exp_iff)

definition commands_of :: "PendingCommand list \<Rightarrow> PendingCommand set" where
  "commands_of cmds = (if cmds = [] then UNIV else set cmds) - {PendingCommand_other}"

lemma UNIV_commands:
  "UNIV - {PendingCommand_other} = {RESOURCE_CREATE, RESOURCE_RETRIEVE, RESOURCE_UPDATE, RESOURCE_DELETE, DEVICE_METADATA_UPDATE}"
  using PendingCommand.exhaust by auto

lemma mask_bit:
  assumes "x \<noteq> PendingCommand_other"
  shows "bit (FilterPendingsCommandsToBitmask cmds) (pc_bit x) \<longleftrightarrow> x \<in> commands_of cmds"
proof (cases "cmds = []")
  case True
  have "bit (FilterPendingsCommandsToBitmask cmds) (pc_bit x) \<longleftrightarrow>
      (\<exists>e \<in> set pendingCommandToBitmask. bit (snd e) (pc_bit x))"
    using True by (simp add: FilterPendingsCommandsToBitmask_def foldl_or_bit [of snd])
  then show ?thesis using True assms unfolding commands_of_def command_masks(2)
    by (simp add: pc_bit_iff) (cases x; simp)
next
  case False
  then have "bit (FilterPendingsCommandsToBitmask cmds) (pc_bit x) \<longleftrightarrow>
      (\<exists>y \<in> set cmds. bit (FilterPendingCommandToBitmask y) (pc_bit x))"
    by (simp add: FilterPendingsCommandsToBitmask_def foldl_or_bit)
  then show ?thesis using False assms by (auto simp: commands_of_def command_masks(1) pc_bit_iff)
qed

text \<open>The mask made from a list of pending commands gives exactly the listed commands back, all five for
  an empty list, whatever the order in which the map of masks is visited; values that are no commands
  are dropped.\<close>

theorem pending_commands_mask_roundtrip:
  assumes "mset (ord bitmaskTopendingCommands) = mset bitmaskTopendingCommands"
  shows "set (BitmaskToFilterPendingsCommands ord (FilterPendingsCommandsToBitmask cmds)) = commands_of cmds"
proof -
  let ?m = "FilterPendingsCommandsToBitmask cmds"
  have "set (map snd (filter (\<lambda>(b, _). \<not> (?m AND b) = 0) (ord bitmaskTopendingCommands))) =
      snd ` {(b, x) \<in> set bitmaskTopendingCommands. \<not> (?m AND b) = 0}"
    using mset_eq_setD [OF assms] by auto
  also have "\<dots> = {x \<in> UNIV - {PendingCommand_other}. \<not> (?m AND 2 ^ pc_bit x) = 0}"
    unfolding command_masks(3) UNIV_commands by force
  also have "\<dots> = {x \<in> UNIV - {PendingCommand_other}. x \<in> commands_of cmds}"
    using mask_bit by (auto simp: and_exp_eq_0_iff_not_bit)
  also have "\<dots> = commands_of cmds" by (auto simp: commands_of_def)
  finally have "set (map snd (filter (\<lambda>(b, _). \<not> (?m AND b) = 0) (ord bitmaskTopendingCommands))) = commands_of cmds" .
  moreover have "commands_of cmds = {}" if "?m = 0"
  proof -
    have "x \<notin> commands_of cmds" for x
      using mask_bit [of x cmds] that by (cases "x = PendingCommand_other") (simp_all add: commands_of_def)
    then show ?thesis by (simp add: set_eq_iff)
  qed
  ultimately show ?thesis by (auto simp: BitmaskToFilterPendingsCommands_def)
qed

theorem pending_commands_mask_roundtrip_witness:
  "set (BitmaskToFilterPendingsCommands rev (FilterPendingsCommandsToBitmask [RESOURCE_UPDATE, PendingCommand_other])) =
     {RESOURCE_UPDATE}"
  using pending_commands_mask_roundtrip [of rev "[RESOURCE_UPDATE, PendingCommand_other]"] by (auto simp: commands_of_def)

end
