(* ===== verification/Subscriptions_Cache.thy ===== *)
theory Subscriptions_Cache
  imports Event_Subscription
begin

text \<open>
  The NATS subscriptions that the subscribers of the gRPC gateway share:
  \<^verbatim>\<open>grpc-gateway/subscription/subscriptionsCache.go\<close>, and \<open>Init\<close> and \<open>Close\<close> of a subscription
  (\<^verbatim>\<open>subscription.go\<close>). The cache has one object per subject, a pointer in the synchronized map with
  the senders of its subscribers and the NATS subscription. A message runs through the handler of its
  subscription: it is decoded, turned into an event of the gRPC API and given to every sender.

  Parameters: the NATS connection (\<open>nats_conn\<close>), the decoders of messages, the senders, and the orders
  in which maps are visited. \<open>errFunc\<close> appends to the list of reported errors.
\<close>

section \<open>Objects behind the synchronized map\<close>

record ('m, 'o) table =
  tb_map :: 'm
  tb_heap :: "nat \<Rightarrow> 'o"
  tb_next :: nat

definition tb_LoadOrStore :: "('m, 's) kit_sync_map \<Rightarrow> 'o \<Rightarrow> ('m, 'o) table \<Rightarrow> string \<Rightarrow> ('m, 'o) table \<times> nat" where
  "tb_LoadOrStore K new t k =
     (case km_LoadOrStoreWithFunc K (tb_map t) k (tb_next t) of (m, p, loaded) \<Rightarrow>
        (if loaded then t\<lparr>tb_map := m\<rparr>
         else t\<lparr>tb_map := m, tb_next := tb_next t + 1, tb_heap := (tb_heap t)(p := new)\<rparr>, p))"

section \<open>The NATS connection\<close>

text \<open>
  \<open>Subscribe\<close> gives the subscription of a pattern, whose messages go to the object behind a pointer;
  \<open>nc_live\<close> are the subscriptions of the connection with their pattern and object.
\<close>

record 'w nats_conn =
  nc_Subscribe :: "'w \<Rightarrow> string \<Rightarrow> nat \<Rightarrow> 'w \<times> nat res"
  nc_Unsubscribe :: "'w \<Rightarrow> nat \<Rightarrow> 'w \<times> error option"
  nc_live :: "'w \<Rightarrow> nat \<Rightarrow> (string \<times> nat) option"

definition nats_ok :: "'w nats_conn \<Rightarrow> bool" where
  "nats_ok N \<longleftrightarrow>
     (\<forall>w subject p w' r. nc_Subscribe N w subject p = (w', r) \<longrightarrow>
        (case r of
           Inl _ \<Rightarrow> nc_live N w' = nc_live N w
         | Inr h \<Rightarrow> nc_live N w h = None \<and> nc_live N w' = (nc_live N w)(h \<mapsto> (subject, p))))
   \<and> (\<forall>w h w' e. nc_Unsubscribe N w h = (w', e) \<longrightarrow>
        nc_live N w' = (if e = None then (nc_live N w)(h := None) else nc_live N w))"

section \<open>Events of the API\<close>

definition registrationEventToGrpcEvent :: "is_Event \<Rightarrow> (pb_Event \<times> FilterBitmask) option" where
  "registrationEventToGrpcEvent e =
     (case e of
        Event_DevicesRegistered r \<Rightarrow>
          Some (Event_DeviceRegistered (dr_DeviceIds r) (dr_EventMetadata r) (dr_OpenTelemetryCarrier r),
                FilterBitmaskDeviceRegistered)
      | Event_DevicesUnregistered r \<Rightarrow>
          Some (Event_DeviceUnregistered (du_DeviceIds r) (du_EventMetadata r) (du_OpenTelemetryCarrier r),
                FilterBitmaskDeviceUnregistered)
      | Event_none \<Rightarrow> None)"

text \<open>
  The message of the event bus with its type and data, and the decoders: of a registration event, of
  the envelope, and of the data as a message of a given event type.
\<close>

record eventbus_Event =
  eb_EventType :: string
  eb_Data :: bytes

record nats_codec =
  nd_registration :: "bytes \<Rightarrow> is_Event res"
  nd_envelope :: "bytes \<Rightarrow> eventbus_Event res"
  nd_event :: "string \<Rightarrow> bytes \<Rightarrow> any_event res"

text \<open>\<open>utils.Unmarshal\<close> of the data into a message of the type that \<open>sel\<close> selects.\<close>

definition conv_event ::
    "nats_codec \<Rightarrow> string \<Rightarrow> (any_event \<Rightarrow> 'a option) \<Rightarrow> ('a \<Rightarrow> pb_Event) \<Rightarrow> FilterBitmask \<Rightarrow> eventbus_Event
     \<Rightarrow> (pb_Event \<times> FilterBitmask) res" where
  "conv_event C t sel mk b ev =
     (case nd_event C t (eb_Data ev) of
        Inl err \<Rightarrow> Inl (Wrapf ''failed to unmarshal event %v: %w'' err)
      | Inr e \<Rightarrow>
          (case sel e of
             Some x \<Rightarrow> Inr (mk x, b)
           | None \<Rightarrow> Inl (Errorf ''failed to unmarshal event %v: %w'' [eb_EventType ev])))"

definition convResourcesPublished :: "nats_codec \<Rightarrow> eventbus_Event \<Rightarrow> (pb_Event \<times> FilterBitmask) res" where
  "convResourcesPublished C =
     conv_event C ''resourcelinkspublished'' sel_ResourceLinksPublished Event_ResourcePublished FilterBitmaskResourcesPublished"

definition convResourcesUnpublished :: "nats_codec \<Rightarrow> eventbus_Event \<Rightarrow> (pb_Event \<times> FilterBitmask) res" where
  "convResourcesUnpublished C =
     conv_event C ''resourcelinksunpublished'' sel_ResourceLinksUnpublished Event_ResourceUnpublished FilterBitmaskResourcesUnpublished"

definition convResourceChanged :: "nats_codec \<Rightarrow> eventbus_Event \<Rightarrow> (pb_Event \<times> FilterBitmask) res" where
  "convResourceChanged C =
     conv_event C ''resourcechanged'' sel_ResourceChanged Event_ResourceChanged FilterBitmaskResourceChanged"

definition convResourceUpdatePending :: "nats_codec \<Rightarrow> eventbus_Event \<Rightarrow> (pb_Event \<times> FilterBitmask) res" where
  "convResourceUpdatePending C =
     conv_event C ''resourceupdatepending'' sel_ResourceUpdatePending Event_ResourceUpdatePending FilterBitmaskResourceUpdatePending"

definition convResourceUpdated :: "nats_codec \<Rightarrow> eventbus_Event \<Rightarrow> (pb_Event \<times> FilterBitmask) res" where
  "convResourceUpdated C =
     conv_event C ''resourceupdated'' sel_ResourceUpdated Event_ResourceUpdated FilterBitmaskResourceUpdated"

definition convResourceRetrievePending :: "nats_codec \<Rightarrow> eventbus_Event \<Rightarrow> (pb_Event \<times> FilterBitmask) res" where
  "convResourceRetrievePending C =
     conv_event C ''resourceretrievepending'' sel_ResourceRetrievePending Event_ResourceRetrievePending FilterBitmaskResourceRetrievePending"

definition convResourceRetrieved :: "nats_codec \<Rightarrow> eventbus_Event \<Rightarrow> (pb_Event \<times> FilterBitmask) res" where
  "convResourceRetrieved C =
     conv_event C ''resourceretrieved'' sel_ResourceRetrieved Event_ResourceRetrieved FilterBitmaskResourceRetrieved"

definition convResourceDeletePending :: "nats_codec \<Rightarrow> eventbus_Event \<Rightarrow> (pb_Event \<times> FilterBitmask) res" where
  "convResourceDeletePending C =
     conv_event C ''resourcedeletepending'' sel_ResourceDeletePending Event_ResourceDeletePending FilterBitmaskResourceDeletePending"

definition convResourceDeleted :: "nats_codec \<Rightarrow> eventbus_Event \<Rightarrow> (pb_Event \<times> FilterBitmask) res" where
  "convResourceDeleted C =
     conv_event C ''resourcedeleted'' sel_ResourceDeleted Event_ResourceDeleted FilterBitmaskResourceDeleted"

definition convResourceCreatePending :: "nats_codec \<Rightarrow> eventbus_Event \<Rightarrow> (pb_Event \<times> FilterBitmask) res" where
  "convResourceCreatePending C =
     conv_event C ''resourcecreatepending'' sel_ResourceCreatePending Event_ResourceCreatePending FilterBitmaskResourceCreatePending"

definition convResourceCreated :: "nats_codec \<Rightarrow> eventbus_Event \<Rightarrow> (pb_Event \<times> FilterBitmask) res" where
  "convResourceCreated C =
     conv_event C ''resourcecreated'' sel_ResourceCreated Event_ResourceCreated FilterBitmaskResourceCreated"

definition convDeviceMetadataUpdatePending :: "nats_codec \<Rightarrow> eventbus_Event \<Rightarrow> (pb_Event \<times> FilterBitmask) res" where
  "convDeviceMetadataUpdatePending C =
     conv_event C ''devicemetadataupdatepending'' sel_DeviceMetadataUpdatePending Event_DeviceMetadataUpdatePending FilterBitmaskDeviceMetadataUpdatePending"

definition convDeviceMetadataUpdated :: "nats_codec \<Rightarrow> eventbus_Event \<Rightarrow> (pb_Event \<times> FilterBitmask) res" where
  "convDeviceMetadataUpdated C =
     conv_event C ''devicemetadataupdated'' sel_DeviceMetadataUpdated Event_DeviceMetadataUpdated FilterBitmaskDeviceMetadataUpdated"

definition devicesEventToGrpcPb ::
    "nats_codec \<Rightarrow> (string \<times> (eventbus_Event \<Rightarrow> (pb_Event \<times> FilterBitmask) res)) list" where
  "devicesEventToGrpcPb C =
     [(''resourcecreatepending'', convResourceCreatePending C),
      (''resourcecreated'', convResourceCreated C),
      (''resourceretrievepending'', convResourceRetrievePending C),
      (''resourceretrieved'', convResourceRetrieved C),
      (''resourceupdatepending'', convResourceUpdatePending C),
      (''resourceupdated'', convResourceUpdated C),
      (''resourcedeletepending'', convResourceDeletePending C),
      (''resourcedeleted'', convResourceDeleted C),
      (''devicemetadataupdatepending'', convDeviceMetadataUpdatePending C),
      (''devicemetadataupdated'', convDeviceMetadataUpdated C),
      (''resourcechanged'', convResourceChanged C),
      (''resourcelinkspublished'', convResourcesPublished C),
      (''resourcelinksunpublished'', convResourcesUnpublished C)]"

section \<open>Senders of a subject\<close>

record 'h eventSubject =
  es_senders :: "'h handlers"
  es_subscription :: "nat option"

definition newEventSubject :: "'h eventSubject" where
  "newEventSubject = \<lparr> es_senders = [], es_subscription = None \<rparr>"

text \<open>Go visits the map of senders in any order.\<close>

definition copySenders :: "('h handlers \<Rightarrow> 'h handlers) \<Rightarrow> 'h eventSubject \<Rightarrow> 'h list" where
  "copySenders ord d = map snd (ord (es_senders d))"

text \<open>The calls that are made, and the collected errors.\<close>

definition sendToSenders ::
    "('h \<Rightarrow> pb_Event \<Rightarrow> FilterBitmask \<Rightarrow> error option) \<Rightarrow> pb_Event \<Rightarrow> FilterBitmask \<Rightarrow> 'h list
     \<Rightarrow> ('h \<times> pb_Event \<times> FilterBitmask) list \<times> error option" where
  "sendToSenders send ev b senders =
     (let errors = List.map_filter (\<lambda>h. send h ev b) senders
      in (map (\<lambda>h. (h, ev, b)) senders, if errors = [] then None else Some (Multierror errors)))"

record 'h send_env =
  sn_codec :: nats_codec
  sn_order :: "'h handlers \<Rightarrow> 'h handlers"
  sn_send :: "'h \<Rightarrow> pb_Event \<Rightarrow> FilterBitmask \<Rightarrow> error option"

definition handleRegistrationsEvent ::
    "'h send_env \<Rightarrow> 'h eventSubject \<Rightarrow> bytes \<Rightarrow> ('h \<times> pb_Event \<times> FilterBitmask) list \<times> error option" where
  "handleRegistrationsEvent S d data =
     (case nd_registration (sn_codec S) data of
        Inl err \<Rightarrow> ([], Some err)
      | Inr e \<Rightarrow>
          (case registrationEventToGrpcEvent e of
             None \<Rightarrow> ([], Some (Errorf ''unhandled registrations event type('%T')'' []))
           | Some (ev, b) \<Rightarrow> sendToSenders (sn_send S) ev b (copySenders (sn_order S) d)))"

definition handleDevicesEvent ::
    "'h send_env \<Rightarrow> 'h eventSubject \<Rightarrow> bytes \<Rightarrow> ('h \<times> pb_Event \<times> FilterBitmask) list \<times> error option" where
  "handleDevicesEvent S d data =
     (case nd_envelope (sn_codec S) data of
        Inl err \<Rightarrow> ([], Some err)
      | Inr e \<Rightarrow>
          (case map_of (devicesEventToGrpcPb (sn_codec S)) (eb_EventType e) of
             None \<Rightarrow> ([], Some (Errorf ''unhandled event type('%v')'' [eb_EventType e]))
           | Some h \<Rightarrow>
               (case h e of
                  Inl err \<Rightarrow> ([], Some err)
                | Inr (ev, b) \<Rightarrow> sendToSenders (sn_send S) ev b (copySenders (sn_order S) d))))"

text \<open>\<open>strings.Contains\<close>.\<close>

fun go_Contains :: "string \<Rightarrow> string \<Rightarrow> bool" where
  "go_Contains s sub \<longleftrightarrow> take (length sub) s = sub \<or> (case s of [] \<Rightarrow> False | _ # cs \<Rightarrow> go_Contains cs sub)"

definition handleEvent ::
    "'h send_env \<Rightarrow> 'h eventSubject \<Rightarrow> string \<Rightarrow> bytes \<Rightarrow> ('h \<times> pb_Event \<times> FilterBitmask) list \<times> error option" where
  "handleEvent S d subject data =
     (if go_Contains subject ''.registrations'' then handleRegistrationsEvent S d data
      else if go_Contains subject ''.devices'' then handleDevicesEvent S d data
      else ([], Some (Errorf ''cannot process event from unknown subject(%v)'' [subject])))"

section \<open>The cache\<close>

record ('m, 'w, 'h) SubscriptionsCache =
  sc_subjects :: "('m, 'h eventSubject) table"
  sc_conn :: 'w
  sc_handlerID :: u64
  sc_errors :: "error list"

type_synonym 'h sc_replace = "(nat \<Rightarrow> 'h eventSubject) \<times> nat option"

definition NewSubscriptionsCache ::
    "('m, 'h sc_replace) kit_sync_map \<Rightarrow> (nat \<Rightarrow> 'h eventSubject) \<Rightarrow> 'w \<Rightarrow> ('m, 'w, 'h) SubscriptionsCache" where
  "NewSubscriptionsCache K heap conn =
     \<lparr> sc_subjects = \<lparr> tb_map = km_NewMap K, tb_heap = heap, tb_next = 0 \<rparr>, sc_conn = conn,
       sc_handlerID = 0, sc_errors = [] \<rparr>"

text \<open>The function that the close function of a handler gives to \<open>ReplaceWithFunc\<close>.\<close>

definition sc_close_fn :: "u64 \<Rightarrow> nat option \<Rightarrow> 'h sc_replace \<Rightarrow> 'h sc_replace \<times> nat option" where
  "sc_close_fn i oldValue hs =
     (case oldValue of
        None \<Rightarrow> (hs, None)
      | Some p \<Rightarrow>
          (let s = (fst hs p)\<lparr>es_senders := RemoveHandlerLocked (es_senders (fst hs p)) i\<rparr>;
               heap = (fst hs)(p := s)
           in if length (es_senders s) = 0 then ((heap, es_subscription s), None) else ((heap, snd hs), Some p)))"

definition sc_unsubscribe ::
    "'w nats_conn \<Rightarrow> nat option \<Rightarrow> ('m, 'w, 'h) SubscriptionsCache \<Rightarrow> ('m, 'w, 'h) SubscriptionsCache" where
  "sc_unsubscribe N sub c =
     (case sub of
        None \<Rightarrow> c
      | Some h \<Rightarrow>
          (case nc_Unsubscribe N (sc_conn c) h of
             (w, None) \<Rightarrow> c\<lparr>sc_conn := w\<rparr>
           | (w, Some err) \<Rightarrow>
               c\<lparr>sc_conn := w, sc_errors := sc_errors c @ [Wrapf ''cannot unsubscribe from subject('%v'): %w'' err]\<rparr>))"

definition sc_closeFunc ::
    "('m, 'h sc_replace) kit_sync_map \<Rightarrow> 'w nats_conn \<Rightarrow> ('m, 'w, 'h) SubscriptionsCache \<Rightarrow> string \<Rightarrow> u64
     \<Rightarrow> ('m, 'w, 'h) SubscriptionsCache" where
  "sc_closeFunc K N c subject i =
     (case km_ReplaceWithFunc K (tb_map (sc_subjects c)) subject (sc_close_fn i) (tb_heap (sc_subjects c), None)
      of (m, heap, sub) \<Rightarrow>
        sc_unsubscribe N sub (c\<lparr>sc_subjects := (sc_subjects c)\<lparr>tb_map := m, tb_heap := heap\<rparr>\<rparr>))"

definition executeOnLockedeventSubject ::
    "('m, 'h sc_replace) kit_sync_map \<Rightarrow> ('m, 'w, 'h) SubscriptionsCache \<Rightarrow> string
     \<Rightarrow> (('m, 'w, 'h) SubscriptionsCache \<Rightarrow> nat \<Rightarrow> 'h eventSubject \<Rightarrow> ('m, 'w, 'h) SubscriptionsCache \<times> 'h eventSubject \<times> 'a)
     \<Rightarrow> ('m, 'w, 'h) SubscriptionsCache \<times> 'a" where
  "executeOnLockedeventSubject K c subject fn =
     (case tb_LoadOrStore K newEventSubject (sc_subjects c) subject of (t, p) \<Rightarrow>
        case fn (c\<lparr>sc_subjects := t\<rparr>) p (tb_heap t p) of (c, s, r) \<Rightarrow>
          (c\<lparr>sc_subjects := (sc_subjects c)\<lparr>tb_heap := (tb_heap (sc_subjects c))(p := s)\<rparr>\<rparr>, r))"

definition sc_subscribeLocked ::
    "'w nats_conn \<Rightarrow> string \<Rightarrow> ('m, 'w, 'h) SubscriptionsCache \<Rightarrow> nat \<Rightarrow> 'h eventSubject
     \<Rightarrow> ('m, 'w, 'h) SubscriptionsCache \<times> 'h eventSubject \<times> unit res" where
  "sc_subscribeLocked N subject c p s =
     (if es_subscription s = None then
        case nc_Subscribe N (sc_conn c) subject p of
          (w, Inl err) \<Rightarrow> (c\<lparr>sc_conn := w\<rparr>, s, Inl err)
        | (w, Inr sub) \<Rightarrow> (c\<lparr>sc_conn := w\<rparr>, s\<lparr>es_subscription := Some sub\<rparr>, Inr ())
      else (c, s, Inr ()))"

definition sc_subscribe_fn ::
    "'w nats_conn \<Rightarrow> string \<Rightarrow> 'h option \<Rightarrow> ('m, 'w, 'h) SubscriptionsCache \<Rightarrow> nat \<Rightarrow> 'h eventSubject
     \<Rightarrow> ('m, 'w, 'h) SubscriptionsCache \<times> 'h eventSubject \<times> (u64 option \<times> unit res) option" where
  "sc_subscribe_fn N subject onEvent c p s =
     (let added = (case onEvent of
                     None \<Rightarrow> Some (c, s, None)
                   | Some h \<Rightarrow>
                       map_option (\<lambda>(hs, i). (c\<lparr>sc_handlerID := i\<rparr>, s\<lparr>es_senders := hs\<rparr>, Some i))
                         (add_handler (es_senders s) h (sc_handlerID c)))
      in case added of
           None \<Rightarrow> (c, s, None)
         | Some (c, s, i) \<Rightarrow>
             (case sc_subscribeLocked N subject c p s of (c, s, r) \<Rightarrow> (c, s, Some (i, r))))"

text \<open>\<open>None\<close> if the search for a handler number never ends; else the error or the number of the handler.\<close>

definition SubscriptionsCache_Subscribe ::
    "('m, 'h sc_replace) kit_sync_map \<Rightarrow> 'w nats_conn \<Rightarrow> ('m, 'w, 'h) SubscriptionsCache \<Rightarrow> string \<Rightarrow> 'h option
     \<Rightarrow> (('m, 'w, 'h) SubscriptionsCache \<times> u64 option res) option" where
  "SubscriptionsCache_Subscribe K N c subject onEvent =
     (case executeOnLockedeventSubject K c subject (sc_subscribe_fn N subject onEvent) of
        (c, None) \<Rightarrow> None
      | (c, Some (i, Inl err)) \<Rightarrow>
          Some (case i of None \<Rightarrow> c | Some i \<Rightarrow> sc_closeFunc K N c subject i, Inl err)
      | (c, Some (i, Inr _)) \<Rightarrow> Some (c, Inr i))"

text \<open>A message that a NATS subscription delivers to the object of its closure.\<close>

definition sc_deliver ::
    "'h send_env \<Rightarrow> ('m, 'w, 'h) SubscriptionsCache \<Rightarrow> nat \<Rightarrow> string \<Rightarrow> bytes
     \<Rightarrow> ('m, 'w, 'h) SubscriptionsCache \<times> ('h \<times> pb_Event \<times> FilterBitmask) list" where
  "sc_deliver S c p subject data =
     (case handleEvent S (tb_heap (sc_subjects c) p) subject data of
        (calls, None) \<Rightarrow> (c, calls)
      | (calls, Some err) \<Rightarrow> (c\<lparr>sc_errors := sc_errors c @ [err]\<rparr>, calls))"

section \<open>Init and Close of a subscription\<close>

text \<open>\<open>fn.FuncList\<close>: the close functions run in reverse order. A close function is its subject and number.\<close>

definition close_all ::
    "('m, 'h sc_replace) kit_sync_map \<Rightarrow> 'w nats_conn \<Rightarrow> (string \<times> u64 option) list
     \<Rightarrow> ('m, 'w, 'h) SubscriptionsCache \<Rightarrow> ('m, 'w, 'h) SubscriptionsCache" where
  "close_all K N closes c =
     fold (\<lambda>(subject, i) c. case i of None \<Rightarrow> c | Some i \<Rightarrow> sc_closeFunc K N c subject i) (rev closes) c"

fun subscribe_all ::
    "('m, 'h sc_replace) kit_sync_map \<Rightarrow> 'w nats_conn \<Rightarrow> 'h \<Rightarrow> (string \<times> u64 option) list \<Rightarrow> string list
     \<Rightarrow> ('m, 'w, 'h) SubscriptionsCache \<Rightarrow> (('m, 'w, 'h) SubscriptionsCache \<times> (string \<times> u64 option) list res) option" where
  "subscribe_all K N h closes [] c = Some (c, Inr closes)"
| "subscribe_all K N h closes (subject # subjects) c =
     (case SubscriptionsCache_Subscribe K N c subject (Some h) of
        None \<Rightarrow> None
      | Some (c, Inl err) \<Rightarrow> Some (close_all K N closes c, Inl err)
      | Some (c, Inr i) \<Rightarrow> subscribe_all K N h (closes @ [(subject, i)]) subjects c)"

text \<open>
  \<open>Init\<close>: the filters visited as \<open>fs\<close>, the subjects as \<open>subjects\<close>, which lists \<open>ConvertToSubjects\<close>; the
  subscription itself is the handler.
\<close>

definition Sub_Init ::
    "('m, Sub sc_replace) kit_sync_map \<Rightarrow> 'w nats_conn \<Rightarrow> subject_env \<Rightarrow> (string set \<Rightarrow> string list)
     \<Rightarrow> (resource_filters \<Rightarrow> ResourceId list) \<Rightarrow> string \<Rightarrow> Sub \<Rightarrow> ('m, 'w, Sub) SubscriptionsCache
     \<Rightarrow> (('m, 'w, Sub) SubscriptionsCache \<times> Sub \<times> (string \<times> u64 option) list res) option" where
  "Sub_Init K N V list_subjects list_filters owner s c =
     (case init_filters (se_uuid V) (se_parse V) s (list_filters (sf_resourceFilters (sub_init s))) of
        (s, Inl err) \<Rightarrow> Some (c, s, Inl err)
      | (s, Inr _) \<Rightarrow>
          map_option (\<lambda>(c, r). (c, s, r))
            (subscribe_all K N s [] (list_subjects (ConvertToSubjects V owner (sub_init s) (sub_filter s))) c))"

text \<open>\<open>Close\<close> with the flag \<open>closed\<close> and the function that \<open>Init\<close> stored.\<close>

definition Sub_Close ::
    "('m, 'h sc_replace) kit_sync_map \<Rightarrow> 'w nats_conn \<Rightarrow> bool \<times> (string \<times> u64 option) list \<Rightarrow> ('m, 'w, 'h) SubscriptionsCache
     \<Rightarrow> (bool \<times> (string \<times> u64 option) list) \<times> ('m, 'w, 'h) SubscriptionsCache" where
  "Sub_Close K N s c = (if fst s then (s, c) else ((True, snd s), close_all K N (snd s) c))"

end
