(* ===== verification/Subscriptions_Cache_Properties.thy ===== *)
theory Subscriptions_Cache_Properties
  imports Subscriptions_Cache
begin

text \<open>
  The cache of NATS subscriptions implements a table of senders by subject (\<open>senders_of\<close>): subscribing
  adds a sender under a fresh number, closing takes it away, and the connection has exactly one
  subscription for each subject that has senders.
\<close>

section \<open>Tables behind the synchronized map\<close>

definition tb_view :: "('m, 's) kit_sync_map \<Rightarrow> ('m, 'o) table \<Rightarrow> string \<Rightarrow> 'o option" where
  "tb_view K t k = map_option (tb_heap t) (km_Load K (tb_map t) k)"

definition tb_inv :: "('m, 's) kit_sync_map \<Rightarrow> ('m, 'o) table \<Rightarrow> bool" where
  "tb_inv K t \<longleftrightarrow>
     (\<forall>k p. km_Load K (tb_map t) k = Some p \<longrightarrow>
        p < tb_next t \<and> (\<forall>k'. km_Load K (tb_map t) k' = Some p \<longrightarrow> k' = k))"

lemma map_option_upd_fresh: "(\<And>q. x = Some q \<Longrightarrow> q \<noteq> p) \<Longrightarrow> map_option (h(p := v)) x = map_option h x"
  by (cases x) auto

lemma tb_LoadOrStore_view:
  assumes "kit_map_ok K" "tb_inv K t" "tb_LoadOrStore K new t k = (t', p)"
  shows "tb_inv K t'" "km_Load K (tb_map t') = (km_Load K (tb_map t))(k \<mapsto> p)"
    "tb_heap t' p = (case tb_view K t k of Some s \<Rightarrow> s | None \<Rightarrow> new)"
    "\<And>k'. k' \<noteq> k \<Longrightarrow> tb_view K t' k' = tb_view K t k'"
    "km_Load K (tb_map t) k = None \<or> km_Load K (tb_map t) k = Some p"
proof -
  obtain m loaded where l: "km_LoadOrStoreWithFunc K (tb_map t) k (tb_next t) = (m, p, loaded)"
    and t': "t' = (if loaded then t\<lparr>tb_map := m\<rparr>
         else t\<lparr>tb_map := m, tb_next := tb_next t + 1, tb_heap := (tb_heap t)(p := new)\<rparr>)"
    using assms(3) by (auto simp: tb_LoadOrStore_def split: prod.splits)
  note km = kit_map_LoadOrStore [OF assms(1) l]
  have "tb_inv K t' \<and> km_Load K (tb_map t') = (km_Load K (tb_map t))(k \<mapsto> p)
    \<and> tb_heap t' p = (case tb_view K t k of Some s \<Rightarrow> s | None \<Rightarrow> new)
    \<and> (\<forall>k'. k' \<noteq> k \<longrightarrow> tb_view K t' k' = tb_view K t k')
    \<and> (km_Load K (tb_map t) k = None \<or> km_Load K (tb_map t) k = Some p)"
  proof (cases "km_Load K (tb_map t) k")
    case None
    have fresh: "q \<noteq> tb_next t" if "km_Load K (tb_map t) k' = Some q" for k' q
      using that assms(2) by (auto simp: tb_inv_def)
    have "tb_view K t' k' = tb_view K t k'" if "k' \<noteq> k" for k'
      using None km fresh that by (auto simp: t' tb_view_def intro: map_option_upd_fresh)
    then show ?thesis using None km assms(2) fresh by (auto simp: t' tb_inv_def tb_view_def less_Suc_eq)
  next
    case (Some q)
    then have "(km_Load K (tb_map t))(k \<mapsto> p) = km_Load K (tb_map t)" using km by auto
    then show ?thesis using Some km assms(2) by (auto simp: t' tb_inv_def tb_view_def)
  qed
  then show "tb_inv K t'" "km_Load K (tb_map t') = (km_Load K (tb_map t))(k \<mapsto> p)"
    "tb_heap t' p = (case tb_view K t k of Some s \<Rightarrow> s | None \<Rightarrow> new)"
    "\<And>k'. k' \<noteq> k \<Longrightarrow> tb_view K t' k' = tb_view K t k'"
    "km_Load K (tb_map t) k = None \<or> km_Load K (tb_map t) k = Some p" by blast+
qed

lemma tb_write:
  assumes "tb_inv K t" "km_Load K (tb_map t) k = Some p"
  shows "tb_inv K (t\<lparr>tb_heap := (tb_heap t)(p := s)\<rparr>)"
    "tb_view K (t\<lparr>tb_heap := (tb_heap t)(p := s)\<rparr>) = (tb_view K t)(k \<mapsto> s)"
proof -
  show "tb_inv K (t\<lparr>tb_heap := (tb_heap t)(p := s)\<rparr>)" using assms(1) by (simp add: tb_inv_def)
  have "q \<noteq> p" if "km_Load K (tb_map t) k' = Some q" "k' \<noteq> k" for k' q
    using that assms unfolding tb_inv_def by metis
  then have "tb_view K (t\<lparr>tb_heap := (tb_heap t)(p := s)\<rparr>) k' = ((tb_view K t)(k \<mapsto> s)) k'" for k'
    using assms(2) by (cases "k' = k") (auto simp: tb_view_def intro: map_option_upd_fresh)
  then show "tb_view K (t\<lparr>tb_heap := (tb_heap t)(p := s)\<rparr>) = (tb_view K t)(k \<mapsto> s)" by blast
qed

section \<open>The invariant of the cache\<close>

abbreviation sc_load :: "('m, 'h sc_replace) kit_sync_map \<Rightarrow> ('m, 'w, 'h) SubscriptionsCache \<Rightarrow> string \<Rightarrow> nat option" where
  "sc_load K c \<equiv> km_Load K (tb_map (sc_subjects c))"

abbreviation sc_view :: "('m, 'h sc_replace) kit_sync_map \<Rightarrow> ('m, 'w, 'h) SubscriptionsCache \<Rightarrow> string \<Rightarrow> 'h eventSubject option" where
  "sc_view K c \<equiv> tb_view K (sc_subjects c)"

abbreviation sc_live :: "'w nats_conn \<Rightarrow> ('m, 'w, 'h) SubscriptionsCache \<Rightarrow> nat \<Rightarrow> (string \<times> nat) option" where
  "sc_live N c \<equiv> nc_live N (sc_conn c)"

text \<open>Every object in the table has senders and its own subscription, and there are no other subscriptions.\<close>

definition sc_inv :: "('m, 'h sc_replace) kit_sync_map \<Rightarrow> 'w nats_conn \<Rightarrow> ('m, 'w, 'h) SubscriptionsCache \<Rightarrow> bool" where
  "sc_inv K N c \<longleftrightarrow> tb_inv K (sc_subjects c)
   \<and> (\<forall>k s. sc_view K c k = Some s \<longrightarrow> es_senders s \<noteq> [] \<and> distinct (map fst (es_senders s)))
   \<and> (\<forall>h k p. sc_live N c h = Some (k, p) \<longleftrightarrow>
        sc_load K c k = Some p \<and> es_subscription (tb_heap (sc_subjects c) p) = Some h)
   \<and> (\<forall>k s. sc_view K c k = Some s \<longrightarrow> es_subscription s \<noteq> None)"

definition senders_of :: "('m, 'h sc_replace) kit_sync_map \<Rightarrow> ('m, 'w, 'h) SubscriptionsCache \<Rightarrow> string \<Rightarrow> 'h handlers" where
  "senders_of K c k = (case sc_view K c k of None \<Rightarrow> [] | Some s \<Rightarrow> es_senders s)"

lemma sc_view_load: "sc_load K c k = Some p \<Longrightarrow> sc_view K c k = Some (tb_heap (sc_subjects c) p)"
  by (simp add: tb_view_def)

lemma sc_inv_new:
  assumes "kit_map_ok K" "nc_live N conn = Map.empty" shows "sc_inv K N (NewSubscriptionsCache K heap conn)"
  using assms by (simp add: sc_inv_def NewSubscriptionsCache_def tb_inv_def tb_view_def kit_map_Load_New)

text \<open>Unsubscribing never fails on a subscription of the connection.\<close>

definition nats_reliable :: "'w nats_conn \<Rightarrow> bool" where
  "nats_reliable N \<longleftrightarrow> nats_ok N \<and> (\<forall>w h. nc_live N w h \<noteq> None \<longrightarrow> snd (nc_Unsubscribe N w h) = None)"

section \<open>Closing a handler\<close>

definition drop_sender :: "u64 \<Rightarrow> 'h eventSubject \<Rightarrow> 'h eventSubject" where
  "drop_sender i s = s\<lparr>es_senders := RemoveHandlerLocked (es_senders s) i\<rparr>"

lemma drop_sender_simps [simp]:
  "es_senders (drop_sender i s) = RemoveHandlerLocked (es_senders s) i" "es_subscription (drop_sender i s) = es_subscription s"
  by (simp_all add: drop_sender_def)

lemma sc_unsubscribe_simps [simp]:
  "sc_subjects (sc_unsubscribe N sub c) = sc_subjects c"
  "sc_conn (sc_unsubscribe N sub c) = (case sub of None \<Rightarrow> sc_conn c | Some h \<Rightarrow> fst (nc_Unsubscribe N (sc_conn c) h))"
  by (simp_all add: sc_unsubscribe_def split: option.split prod.split)

text \<open>The effect on the map, the heap and the connection.\<close>

lemma sc_closeFunc_effect:
  assumes "kit_map_ok K" "sc_load K c k = lk"
  shows "sc_load K (sc_closeFunc K N c k i) =
      (case lk of None \<Rightarrow> sc_load K c
       | Some p \<Rightarrow> if RemoveHandlerLocked (es_senders (tb_heap (sc_subjects c) p)) i = [] then (sc_load K c)(k := None) else sc_load K c)"
    "tb_heap (sc_subjects (sc_closeFunc K N c k i)) =
      (case lk of None \<Rightarrow> tb_heap (sc_subjects c)
       | Some p \<Rightarrow> (tb_heap (sc_subjects c))(p := drop_sender i (tb_heap (sc_subjects c) p)))"
    "tb_next (sc_subjects (sc_closeFunc K N c k i)) = tb_next (sc_subjects c)"
    "sc_conn (sc_closeFunc K N c k i) =
      (case lk of None \<Rightarrow> sc_conn c
       | Some p \<Rightarrow> (let s = tb_heap (sc_subjects c) p in
           if RemoveHandlerLocked (es_senders s) i = []
           then (case es_subscription s of None \<Rightarrow> sc_conn c | Some h \<Rightarrow> fst (nc_Unsubscribe N (sc_conn c) h))
           else sc_conn c))"
proof -
  let ?h = "tb_heap (sc_subjects c)"
  obtain m hs where r: "km_ReplaceWithFunc K (tb_map (sc_subjects c)) k (sc_close_fn i) (?h, None) = (m, hs)"
    by (metis surj_pair)
  obtain s1 r1 where f: "sc_close_fn i lk (?h, None) = (s1, r1)" by (metis surj_pair)
  have e: "hs = s1" "km_Load K m = (sc_load K c)(k := r1)"
    using kit_map_Replace [OF assms(1) r] f assms(2) by auto
  have c': "sc_closeFunc K N c k i = sc_unsubscribe N (snd s1) (c\<lparr>sc_subjects := (sc_subjects c)\<lparr>tb_map := m, tb_heap := fst s1\<rparr>\<rparr>)"
    using r e(1) by (simp add: sc_closeFunc_def case_prod_unfold)
  have "sc_load K (sc_closeFunc K N c k i) = (sc_load K c)(k := r1)" using c' e(2) by simp
  then show "sc_load K (sc_closeFunc K N c k i) =
      (case lk of None \<Rightarrow> sc_load K c
       | Some p \<Rightarrow> if RemoveHandlerLocked (es_senders (tb_heap (sc_subjects c) p)) i = [] then (sc_load K c)(k := None) else sc_load K c)"
    using f assms(2) by (auto simp: sc_close_fn_def Let_def drop_sender_def split: option.splits if_splits)
  show "tb_heap (sc_subjects (sc_closeFunc K N c k i)) =
      (case lk of None \<Rightarrow> tb_heap (sc_subjects c)
       | Some p \<Rightarrow> (tb_heap (sc_subjects c))(p := drop_sender i (tb_heap (sc_subjects c) p)))"
    using f c' by (auto simp: sc_close_fn_def Let_def drop_sender_def split: option.splits if_splits)
  show "tb_next (sc_subjects (sc_closeFunc K N c k i)) = tb_next (sc_subjects c)" using c' by simp
  show "sc_conn (sc_closeFunc K N c k i) =
      (case lk of None \<Rightarrow> sc_conn c
       | Some p \<Rightarrow> (let s = tb_heap (sc_subjects c) p in
           if RemoveHandlerLocked (es_senders s) i = []
           then (case es_subscription s of None \<Rightarrow> sc_conn c | Some h \<Rightarrow> fst (nc_Unsubscribe N (sc_conn c) h))
           else sc_conn c))"
    using f c' by (auto simp: sc_close_fn_def Let_def split: option.splits if_splits)
qed

lemma nats_reliable_unsubscribe:
  assumes "nats_reliable N" "nc_live N w h \<noteq> None"
  shows "nc_live N (fst (nc_Unsubscribe N w h)) = (nc_live N w)(h := None)"
proof -
  obtain w' e where u: "nc_Unsubscribe N w h = (w', e)" by (metis surj_pair)
  have "e = None" using assms u unfolding nats_reliable_def by (metis snd_conv)
  moreover have "nc_live N w' = (if e = None then (nc_live N w)(h := None) else nc_live N w)"
    using assms(1) u unfolding nats_reliable_def nats_ok_def by blast
  ultimately show ?thesis using u by simp
qed

lemma RemoveHandler_Nil [simp]: "RemoveHandlerLocked [] i = []"
  by (simp add: RemoveHandlerLocked_def)

lemma sc_closeFunc_view:
  assumes K: "kit_map_ok K" and N: "nats_reliable N" and inv: "sc_inv K N c"
  shows "sc_inv K N (sc_closeFunc K N c k i)"
    and "senders_of K (sc_closeFunc K N c k i) = (senders_of K c)(k := RemoveHandlerLocked (senders_of K c k) i)"
proof -
  let ?c = "sc_closeFunc K N c k i"
  have tb: "tb_inv K (sc_subjects c)" using inv by (simp add: sc_inv_def)
  have "sc_inv K N ?c \<and> senders_of K ?c = (senders_of K c)(k := RemoveHandlerLocked (senders_of K c k) i)"
  proof (cases "sc_load K c k")
    case None
    note e = sc_closeFunc_effect [OF K None, of N i]
    have "sc_view K ?c = sc_view K c" by (rule ext) (simp add: tb_view_def e)
    moreover have "senders_of K c k = []" using None by (simp add: senders_of_def tb_view_def)
    ultimately show ?thesis using e inv by (auto simp: sc_inv_def tb_inv_def senders_of_def fun_eq_iff)
  next
    case (Some p)
    note e = sc_closeFunc_effect [OF K Some, of N i, simplified]
    let ?s = "tb_heap (sc_subjects c) p"
    have vk: "sc_view K c k = Some ?s" using Some by (rule sc_view_load)
    have other: "q \<noteq> p" if "sc_load K c k' = Some q" "k' \<noteq> k" for k' q
      using that Some tb unfolding tb_inv_def by metis
    have view: "sc_view K ?c k' = (if k' = k then (if RemoveHandlerLocked (es_senders ?s) i = [] then None else Some (drop_sender i ?s))
        else sc_view K c k')" for k'
      using e(1,2) Some other [of k'] by (auto simp: tb_view_def intro: map_option_upd_fresh)
    have tb': "tb_inv K (sc_subjects ?c)" using e(1,3) tb by (auto simp: tb_inv_def)
    have senders: "senders_of K ?c = (senders_of K c)(k := RemoveHandlerLocked (senders_of K c k) i)"
      using view vk by (auto simp: senders_of_def fun_eq_iff)
    obtain h where h: "es_subscription ?s = Some h" using inv vk unfolding sc_inv_def by blast
    then have live: "sc_live N c h = Some (k, p)" using inv Some unfolding sc_inv_def by blast
    have l: "sc_live N c h' = Some (k', p') \<longleftrightarrow>
        sc_load K c k' = Some p' \<and> es_subscription (tb_heap (sc_subjects c) p') = Some h'" for h' k' p'
      using inv unfolding sc_inv_def by blast
    have sub: "es_subscription (tb_heap (sc_subjects ?c) q) = es_subscription (tb_heap (sc_subjects c) q)" for q
      using e(2) by simp
    have live': "sc_live N ?c = (if RemoveHandlerLocked (es_senders ?s) i = [] then (sc_live N c)(h := None) else sc_live N c)"
      using e(4) h nats_reliable_unsubscribe [OF N, of "sc_conn c" h] live by (simp add: Let_def)
    have "sc_live N ?c h' = Some (k', p') \<longleftrightarrow>
        sc_load K ?c k' = Some p' \<and> es_subscription (tb_heap (sc_subjects ?c) p') = Some h'" for h' k' p'
      using l [of h' k' p'] l [of h' k p] Some h live e(1) other [of k' p'] unfolding live' sub by auto
    moreover have "es_senders s \<noteq> [] \<and> distinct (map fst (es_senders s)) \<and> es_subscription s \<noteq> None"
      if "sc_view K ?c k' = Some s" for k' s
      using that inv view [of k'] vk unfolding sc_inv_def
      by (auto simp: RemoveHandler_distinct split: if_splits)
    ultimately show ?thesis using tb' senders unfolding sc_inv_def by blast
  qed
  then show "sc_inv K N ?c" "senders_of K ?c = (senders_of K c)(k := RemoveHandlerLocked (senders_of K c k) i)" by blast+
qed


section \<open>Subscribing\<close>

text \<open>The cache after the body of \<open>Subscribe\<close>, with the object \<open>s\<close> behind the pointer \<open>p\<close>.\<close>

definition put_subject ::
    "('m, 'h eventSubject) table \<Rightarrow> nat \<Rightarrow> 'h eventSubject \<Rightarrow> u64 \<Rightarrow> 'w \<Rightarrow> ('m, 'w, 'h) SubscriptionsCache \<Rightarrow> ('m, 'w, 'h) SubscriptionsCache" where
  "put_subject t p s i w c =
     c\<lparr>sc_subjects := t\<lparr>tb_heap := (tb_heap t)(p := s)\<rparr>, sc_handlerID := i, sc_conn := w\<rparr>"

lemma put_subject_simps [simp]:
  "sc_subjects (put_subject t p s i w c) = t\<lparr>tb_heap := (tb_heap t)(p := s)\<rparr>" "sc_conn (put_subject t p s i w c) = w"
  by (simp_all add: put_subject_def)

lemma Subscribe_body:
  assumes "tb_LoadOrStore K newEventSubject (sc_subjects c) k = (t, p)"
    and "add_handler (es_senders (tb_heap t p)) h (sc_handlerID c) = Some (hs, i)"
  shows "executeOnLockedeventSubject K c k (sc_subscribe_fn N k (Some h)) =
    (let s = tb_heap t p in
     if es_subscription s = None then
       case nc_Subscribe N (sc_conn c) k p of
         (w, Inl err) \<Rightarrow> (put_subject t p (s\<lparr>es_senders := hs\<rparr>) i w c, Some (Some i, Inl err))
       | (w, Inr sub) \<Rightarrow>
           (put_subject t p (s\<lparr>es_senders := hs, es_subscription := Some sub\<rparr>) i w c, Some (Some i, Inr ()))
     else (put_subject t p (s\<lparr>es_senders := hs\<rparr>) i (sc_conn c) c, Some (Some i, Inr ())))"
  using assms by (simp add: executeOnLockedeventSubject_def sc_subscribe_fn_def sc_subscribeLocked_def put_subject_def Let_def
      split: prod.split sum.split)

lemma put_subject_view:
  assumes "kit_map_ok K" "tb_inv K (sc_subjects c)" "tb_LoadOrStore K new (sc_subjects c) k = (t, p)"
  shows "tb_inv K (sc_subjects (put_subject t p s i w c))" "sc_view K (put_subject t p s i w c) = (sc_view K c)(k \<mapsto> s)"
    "sc_load K (put_subject t p s i w c) = (sc_load K c)(k \<mapsto> p)"
proof -
  note l = tb_LoadOrStore_view [OF assms]
  have k: "km_Load K (tb_map t) k = Some p" using l(2) by simp
  show "tb_inv K (sc_subjects (put_subject t p s i w c))" using tb_write(1) [OF l(1) k] by simp
  have "(tb_view K t)(k \<mapsto> s) = (sc_view K c)(k \<mapsto> s)" using l(4) by auto
  then show "sc_view K (put_subject t p s i w c) = (sc_view K c)(k \<mapsto> s)" using tb_write(2) [OF l(1) k] by simp
  show "sc_load K (put_subject t p s i w c) = (sc_load K c)(k \<mapsto> p)" using l(2) by simp
qed

lemma senders_put: "sc_view K c' = (sc_view K c)(k \<mapsto> s) \<Longrightarrow> senders_of K c' = (senders_of K c)(k := es_senders s)"
  by (auto simp: senders_of_def fun_eq_iff)

lemma put_subject_inv:
  assumes K: "kit_map_ok K" and inv: "sc_inv K N c" and l: "tb_LoadOrStore K new (sc_subjects c) k = (t, p)"
    and s: "es_senders s \<noteq> []" "distinct (map fst (es_senders s))" "es_subscription s = Some sub"
    and w: "nc_live N w = (sc_live N c)(sub \<mapsto> (k, p))" "sc_live N c sub = None \<or> sc_live N c sub = Some (k, p)"
    and only: "\<And>h. sc_live N c h = Some (k, p) \<Longrightarrow> h = sub"
  shows "sc_inv K N (put_subject t p s i w c)"
proof -
  let ?c = "put_subject t p s i w c"
  have tb: "tb_inv K (sc_subjects c)" using inv by (simp add: sc_inv_def)
  note v = put_subject_view [OF K tb l, of s i w]
  note ll = tb_LoadOrStore_view [OF K tb l]
  have iff: "sc_live N c h' = Some (k', p') \<longleftrightarrow>
      sc_load K c k' = Some p' \<and> es_subscription (tb_heap (sc_subjects c) p') = Some h'" for h' k' p'
    using inv unfolding sc_inv_def by blast
  have "sc_live N ?c h' = Some (k', p') \<longleftrightarrow>
      sc_load K ?c k' = Some p' \<and> es_subscription (tb_heap (sc_subjects ?c) p') = Some h'" for h' k' p'
  proof (cases "k' = k")
    case True
    then show ?thesis using v(3) s(3) w only [of h'] iff [of h' k p'] ll(5) by (auto split: if_splits)
  next
    case False
    have p': "p' \<noteq> p" if "sc_load K c k' = Some p'"
      using that False ll(1,2) unfolding tb_inv_def by (metis fun_upd_apply)
    have "tb_heap t p' = tb_heap (sc_subjects c) p'" if "sc_load K c k' = Some p'"
      using ll(2) ll(4) [OF False] that False by (simp add: tb_view_def)
    then show ?thesis using False v(3) w iff [of h' k' p'] iff [of sub k' p'] p' by auto
  qed
  moreover have "es_senders s' \<noteq> [] \<and> distinct (map fst (es_senders s')) \<and> es_subscription s' \<noteq> None"
    if "sc_view K ?c k' = Some s'" for k' s'
    using that inv s v(2) unfolding sc_inv_def by (auto split: if_splits)
  ultimately show ?thesis using v(1) unfolding sc_inv_def by blast
qed


text \<open>A subscription that fails is undone by the close function of its handler.\<close>

lemma failed_subscribe:
  assumes K: "kit_map_ok K" and inv: "sc_inv K N c" and l: "tb_LoadOrStore K new (sc_subjects c) k = (t, p)"
    and none: "sc_load K c k = None" and s: "es_senders s = [(i, h)]" "es_subscription s = None"
    and w: "nc_live N w = sc_live N c"
  shows "sc_inv K N (sc_closeFunc K N (put_subject t p s i w c) k i)"
    "senders_of K (sc_closeFunc K N (put_subject t p s i w c) k i) = senders_of K c"
proof -
  let ?c1 = "put_subject t p s i w c" and ?c = "sc_closeFunc K N (put_subject t p s i w c) k i"
  have tb: "tb_inv K (sc_subjects c)" using inv by (simp add: sc_inv_def)
  note v = put_subject_view [OF K tb l, of s i w]
  note ll = tb_LoadOrStore_view [OF K tb l]
  have lk: "sc_load K ?c1 k = Some p" using v(3) by simp
  have hp: "tb_heap (sc_subjects ?c1) p = s" by simp
  note e = sc_closeFunc_effect [OF K lk, of N i, simplified hp]
  have rm: "RemoveHandlerLocked (es_senders s) i = []" using s(1) by (simp add: RemoveHandlerLocked_def)
  have load: "sc_load K ?c = sc_load K c" using e(1) rm v(3) none by (auto simp: fun_eq_iff)
  have fresh: "q \<noteq> p" if "sc_load K c k' = Some q" for k' q
  proof -
    have "k' \<noteq> k" using that none by auto
    then show ?thesis using that ll(1,2) unfolding tb_inv_def by (metis fun_upd_apply)
  qed
  have heap: "tb_heap (sc_subjects ?c) q = tb_heap (sc_subjects c) q" if "sc_load K c k' = Some q" for k' q
  proof -
    have "k' \<noteq> k" using that none by auto
    then have "tb_heap t q = tb_heap (sc_subjects c) q" using ll(2) ll(4) [of k'] that by (simp add: tb_view_def)
    then show ?thesis using e(2) fresh [OF that] by simp
  qed
  have view: "sc_view K ?c k' = sc_view K c k'" for k'
    using load heap [of k'] by (cases "sc_load K c k'") (simp_all add: tb_view_def)
  have "tb_next (sc_subjects c) \<le> tb_next t" using l none kit_map_LoadOrStore [OF K]
    by (auto simp: tb_LoadOrStore_def split: prod.splits)
  then have tb': "tb_inv K (sc_subjects ?c)" using tb load e(3) unfolding tb_inv_def by (auto intro: less_le_trans)
  have live: "sc_live N ?c = sc_live N c" using e(4) rm s(2) w by simp
  show "senders_of K ?c = senders_of K c" using view by (simp add: senders_of_def fun_eq_iff)
  show "sc_inv K N ?c" using inv tb' load live view heap unfolding sc_inv_def by (metis (no_types, lifting))
qed

lemma nats_Subscribe:
  assumes "nats_reliable N" "nc_Subscribe N w k p = (w', r)"
  shows "case r of Inl _ \<Rightarrow> nc_live N w' = nc_live N w
    | Inr h \<Rightarrow> nc_live N w h = None \<and> nc_live N w' = (nc_live N w)(h \<mapsto> (k, p))"
  using assms unfolding nats_reliable_def nats_ok_def by blast

lemma Subscribe_view:
  assumes K: "kit_map_ok K" and N: "nats_reliable N" and inv: "sc_inv K N c" and len: "length (senders_of K c k) < 2 ^ 64"
  obtains c' r where "SubscriptionsCache_Subscribe K N c k (Some h) = Some (c', r)" "sc_inv K N c'"
    "case r of Inl _ \<Rightarrow> senders_of K c' = senders_of K c
     | Inr n \<Rightarrow> \<exists>i. n = Some i \<and> map_of (senders_of K c k) i = None
         \<and> senders_of K c' = (senders_of K c)(k := (i, h) # senders_of K c k)"
proof -
  obtain t p where l: "tb_LoadOrStore K newEventSubject (sc_subjects c) k = (t, p)" by (metis surj_pair)
  have tb: "tb_inv K (sc_subjects c)" using inv by (simp add: sc_inv_def)
  note v = put_subject_view [OF K tb l]
  note ll = tb_LoadOrStore_view [OF K tb l]
  let ?s = "tb_heap t p"
  have sd: "es_senders ?s = senders_of K c k"
    using ll(3) by (simp add: senders_of_def newEventSubject_def split: option.split)
  obtain i where a: "add_handler (es_senders ?s) h (sc_handlerID c) = Some ((i, h) # es_senders ?s, i)"
    and i: "map_of (senders_of K c k) i = None"
    using add_handler_ends [of "es_senders ?s" h "sc_handlerID c"] len sd by auto
  note b = Subscribe_body [OF l a, of N]
  have dist: "distinct (map fst (senders_of K c k))"
    using inv unfolding sc_inv_def by (auto simp: senders_of_def split: option.split)
  have new: "distinct (map fst ((i, h) # senders_of K c k))" using dist i by (simp add: map_of_eq_None_iff)
  show thesis
  proof (cases "sc_load K c k")
    case None
    then have view: "sc_view K c k = None" by (simp add: tb_view_def)
    then have s: "?s = newEventSubject" "senders_of K c k = []" using ll(3) by (simp_all add: senders_of_def)
    have nolive: "sc_live N c h' \<noteq> Some (k, p')" for h' p' using inv None unfolding sc_inv_def by force
    obtain w r where n: "nc_Subscribe N (sc_conn c) k p = (w, r)" by (metis surj_pair)
    note nl = nats_Subscribe [OF N n]
    show thesis
    proof (cases r)
      case (Inl err)
      let ?s1 = "?s\<lparr>es_senders := (i, h) # es_senders ?s\<rparr>"
      have "SubscriptionsCache_Subscribe K N c k (Some h) =
          Some (sc_closeFunc K N (put_subject t p ?s1 i w c) k i, Inl err)"
        using b n Inl s(1) by (simp add: SubscriptionsCache_Subscribe_def newEventSubject_def)
      moreover have "es_senders ?s1 = [(i, h)]" "es_subscription ?s1 = None" using s(1) by (simp_all add: newEventSubject_def)
      ultimately show ?thesis using failed_subscribe [OF K inv l None] nl Inl by (intro that) auto
    next
      case (Inr sub)
      let ?s1 = "?s\<lparr>es_senders := (i, h) # es_senders ?s, es_subscription := Some sub\<rparr>"
      have "SubscriptionsCache_Subscribe K N c k (Some h) = Some (put_subject t p ?s1 i w c, Inr (Some i))"
        using b n Inr s(1) by (simp add: SubscriptionsCache_Subscribe_def newEventSubject_def)
      moreover have "sc_inv K N (put_subject t p ?s1 i w c)"
        using nl Inr nolive new sd by (intro put_subject_inv [OF K inv l, where sub = sub]) auto
      ultimately show ?thesis using senders_put [OF v(2)] i sd by (intro that) auto
    qed
  next
    case (Some p0)
    then have p: "p0 = p" using ll(5) by simp
    have view: "sc_view K c k = Some ?s" using Some p ll(3) by (simp add: tb_view_def)
    then obtain sub where sub: "es_subscription ?s = Some sub" using inv unfolding sc_inv_def by blast
    have hs: "tb_heap (sc_subjects c) p = ?s" using view Some p by (simp add: tb_view_def)
    have live: "sc_live N c h' = Some (k, p) \<longleftrightarrow> h' = sub" for h'
      using inv Some p sub hs unfolding sc_inv_def by (metis option.inject)
    let ?s1 = "?s\<lparr>es_senders := (i, h) # es_senders ?s\<rparr>"
    have "SubscriptionsCache_Subscribe K N c k (Some h) = Some (put_subject t p ?s1 i (sc_conn c) c, Inr (Some i))"
      using b sub by (simp add: SubscriptionsCache_Subscribe_def Let_def)
    moreover have "sc_inv K N (put_subject t p ?s1 i (sc_conn c) c)"
      using sub live new sd by (intro put_subject_inv [OF K inv l, where sub = sub]) (auto simp: fun_upd_idem)
    ultimately show ?thesis using senders_put [OF v(2)] i sd by (intro that) auto
  qed
qed


section \<open>Many subjects\<close>

definition senders_close :: "(string \<times> u64 option) list \<Rightarrow> (string \<Rightarrow> 'h handlers) \<Rightarrow> string \<Rightarrow> 'h handlers" where
  "senders_close closes f =
     fold (\<lambda>(k, i) f. case i of None \<Rightarrow> f | Some i \<Rightarrow> f(k := RemoveHandlerLocked (f k) i)) (rev closes) f"

lemma close_snoc:
  "senders_close (closes @ [(k, i)]) f =
     senders_close closes (case i of None \<Rightarrow> f | Some i \<Rightarrow> f(k := RemoveHandlerLocked (f k) i))"
  "close_all K N (closes @ [(k, i)]) c =
     close_all K N closes (case i of None \<Rightarrow> c | Some i \<Rightarrow> sc_closeFunc K N c k i)"
  by (simp_all add: senders_close_def close_all_def)

lemma close_all_view:
  assumes "kit_map_ok K" "nats_reliable N"
  shows "sc_inv K N c \<Longrightarrow> sc_inv K N (close_all K N closes c)
    \<and> senders_of K (close_all K N closes c) = senders_close closes (senders_of K c)"
proof (induction closes arbitrary: c rule: rev_induct)
  case (snoc x closes)
  obtain k i where x: "x = (k, i)" by (cases x)
  show ?case
  proof (cases i)
    case None
    then show ?thesis using snoc by (simp add: x close_snoc)
  next
    case (Some j)
    note v = sc_closeFunc_view [OF assms snoc.prems, of k j]
    show ?thesis unfolding x Some close_snoc option.case(2) by (rule snoc.IH [OF v(1), unfolded v(2)])
  qed
qed (simp add: close_all_def senders_close_def)

lemma RemoveHandler_fresh: "map_of hs i = None \<Longrightarrow> RemoveHandlerLocked ((i, h) # hs) i = hs"
  unfolding RemoveHandlerLocked_def map_of_eq_None_iff by (auto intro: filter_True)

lemma senders_close_add:
  assumes "map_of (f k) i = None"
  shows "senders_close (closes @ [(k, Some i)]) (f(k := (i, h) # f k)) = senders_close closes f"
  using RemoveHandler_fresh [OF assms, of h] by (simp add: close_snoc)

lemma subscribe_all_view:
  assumes K: "kit_map_ok K" and N: "nats_reliable N"
  shows "\<lbrakk> sc_inv K N c; \<And>k. length (senders_of K c k) + length subjects < 2 ^ 64 \<rbrakk> \<Longrightarrow>
    \<exists>c' r. subscribe_all K N h closes subjects c = Some (c', r) \<and> sc_inv K N c' \<and>
      (case r of
         Inl _ \<Rightarrow> senders_of K c' = senders_close closes (senders_of K c)
       | Inr closes' \<Rightarrow> senders_close closes' (senders_of K c') = senders_close closes (senders_of K c)
           \<and> (\<forall>k \<in> set subjects. \<exists>i. (i, h) \<in> set (senders_of K c' k))
           \<and> (\<forall>k. set (senders_of K c k) \<subseteq> set (senders_of K c' k)))"
proof (induction subjects arbitrary: c closes)
  case (Cons k subjects)
  have "length (senders_of K c k) < 2 ^ 64" using Cons.prems(2) [of k] by simp
  then obtain c1 r where s: "SubscriptionsCache_Subscribe K N c k (Some h) = Some (c1, r)" and inv1: "sc_inv K N c1"
    and r: "case r of Inl _ \<Rightarrow> senders_of K c1 = senders_of K c
     | Inr n \<Rightarrow> \<exists>i. n = Some i \<and> map_of (senders_of K c k) i = None
         \<and> senders_of K c1 = (senders_of K c)(k := (i, h) # senders_of K c k)"
    by (rule Subscribe_view [OF K N Cons.prems(1)])
  show ?case
  proof (cases r)
    case (Inl err)
    then show ?thesis using s r close_all_view [OF K N inv1, of closes] by simp
  next
    case (Inr n)
    then obtain i where n: "n = Some i" and i: "map_of (senders_of K c k) i = None"
      and f: "senders_of K c1 = (senders_of K c)(k := (i, h) # senders_of K c k)" using r by auto
    have "length (senders_of K c1 k') + length subjects < 2 ^ 64" for k'
      using Cons.prems(2) [of k'] by (cases "k' = k") (simp_all add: f)
    from Cons.IH [OF inv1 this, of "closes @ [(k, Some i)]"]
    obtain c' r' where c': "subscribe_all K N h (closes @ [(k, Some i)]) subjects c1 = Some (c', r')" "sc_inv K N c'"
      and r': "case r' of
         Inl _ \<Rightarrow> senders_of K c' = senders_close closes (senders_of K c)
       | Inr closes' \<Rightarrow> senders_close closes' (senders_of K c') = senders_close closes (senders_of K c)
           \<and> (\<forall>k \<in> set subjects. \<exists>i. (i, h) \<in> set (senders_of K c' k))
           \<and> (\<forall>k. set (senders_of K c1 k) \<subseteq> set (senders_of K c' k))"
      unfolding f senders_close_add [of "senders_of K c" k i, OF i] by blast
    have a: "subscribe_all K N h closes (k # subjects) c = Some (c', r')" using s Inr n c'(1) by simp
    show ?thesis
    proof (cases r')
      case (Inr closes')
      then have up: "\<forall>k. set (senders_of K c1 k) \<subseteq> set (senders_of K c' k)" using r' by simp
      have "(i, h) \<in> set (senders_of K c1 k)" using f by simp
      then have "(i, h) \<in> set (senders_of K c' k)" using up by blast
      moreover have "set (senders_of K c k') \<subseteq> set (senders_of K c' k')" for k'
        using up [rule_format, of k'] f by (cases "k' = k") auto
      ultimately show ?thesis using a c'(2) r' Inr by auto
    qed (use a c'(2) r' in auto)
  qed
qed simp


lemma setFilters_frame: "setFilters U parse s f = (s', r) \<Longrightarrow> sub_init s' = sub_init s \<and> sub_filter s' = sub_filter s
    \<and> sub_id s' = sub_id s \<and> sub_correlationID s' = sub_correlationID s"
  by (auto simp: setFilters_def Let_def split: if_splits option.splits)

lemma init_filters_frame: "init_filters U parse s fs = (s', r) \<Longrightarrow> sub_init s' = sub_init s \<and> sub_filter s' = sub_filter s
    \<and> sub_id s' = sub_id s \<and> sub_correlationID s' = sub_correlationID s"
proof (induction U parse s fs rule: init_filters.induct)
  case (2 U parse s flt rest)
  then show ?case using setFilters_frame [of U parse s flt]
    by (force split: prod.splits sum.splits if_splits)
qed simp

section \<open>Histories\<close>

inductive sc_reachable :: "('m, 'h sc_replace) kit_sync_map \<Rightarrow> 'w nats_conn \<Rightarrow> ('m, 'w, 'h) SubscriptionsCache \<Rightarrow> bool"
  for K N where
  new: "nc_live N conn = Map.empty \<Longrightarrow> sc_reachable K N (NewSubscriptionsCache K heap conn)"
| subscribe: "sc_reachable K N c \<Longrightarrow> length (senders_of K c k) < 2 ^ 64 \<Longrightarrow>
    SubscriptionsCache_Subscribe K N c k (Some h) = Some (c', r) \<Longrightarrow> sc_reachable K N c'"
| close: "sc_reachable K N c \<Longrightarrow> sc_reachable K N (sc_closeFunc K N c k i)"
| message: "sc_reachable K N c \<Longrightarrow> sc_deliver S c p subject data = (c', calls) \<Longrightarrow> sc_reachable K N c'"

lemma sc_deliver_frame:
  "sc_deliver S c p subject data = (c', calls) \<Longrightarrow> sc_subjects c' = sc_subjects c \<and> sc_conn c' = sc_conn c"
  by (auto simp: sc_deliver_def split: prod.splits option.splits)

lemma sc_reachable_inv: "sc_reachable K N c \<Longrightarrow> kit_map_ok K \<Longrightarrow> nats_reliable N \<Longrightarrow> sc_inv K N c"
proof (induction rule: sc_reachable.induct)
  case (new conn heap)
  then show ?case by (intro sc_inv_new)
next
  case (subscribe c k h c' r)
  then have inv: "sc_inv K N c" by blast
  obtain c1 r1 where "SubscriptionsCache_Subscribe K N c k (Some h) = Some (c1, r1)" "sc_inv K N c1"
    by (rule Subscribe_view [OF subscribe.prems inv subscribe.hyps(2)])
  then show ?case using subscribe.hyps(3) by simp
next
  case (close c k i)
  then show ?case by (simp add: sc_closeFunc_view(1))
next
  case (message c S p subject data c' calls)
  then have "sc_inv K N c" "sc_subjects c' = sc_subjects c" "sc_conn c' = sc_conn c"
    using sc_deliver_frame by blast+
  then show ?case by (simp add: sc_inv_def)
qed

section \<open>Properties\<close>


text \<open>\<open>Init\<close> and \<open>Close\<close> on the table of senders.\<close>

lemma Sub_Init_view:
  assumes "kit_map_ok K" "nats_reliable N" "sc_inv K N c"
    and "\<And>k. length (senders_of K c k) + length (list_subjects (ConvertToSubjects V owner (sub_init s) (sub_filter s))) < 2 ^ 64"
  shows "\<exists>c' s' r. Sub_Init K N V list_subjects list_filters owner s c = Some (c', s', r) \<and> sc_inv K N c' \<and>
    (\<exists>ri. init_filters (se_uuid V) (se_parse V) s (list_filters (sf_resourceFilters (sub_init s))) = (s', ri)) \<and>
    (case r of
       Inl _ \<Rightarrow> senders_of K c' = senders_of K c
     | Inr closes \<Rightarrow>
         (\<forall>k \<in> set (list_subjects (ConvertToSubjects V owner (sub_init s) (sub_filter s))).
            \<exists>i. (i, s') \<in> set (senders_of K c' k))
       \<and> (\<forall>k. set (senders_of K c k) \<subseteq> set (senders_of K c' k))
       \<and> (case Sub_Close K N (False, closes) c' of (cl, c'') \<Rightarrow>
            senders_of K c'' = senders_of K c \<and> Sub_Close K N cl c'' = (cl, c'')))"
proof -
  note inv = assms(3)
  obtain s' ri where i: "init_filters (se_uuid V) (se_parse V) s (list_filters (sf_resourceFilters (sub_init s))) = (s', ri)"
    by (metis surj_pair)
  have same: "sub_init s' = sub_init s" "sub_filter s' = sub_filter s" using init_filters_frame [OF i] by simp_all
  show ?thesis
  proof (cases ri)
    case (Inl err)
    then show ?thesis using i inv by (simp add: Sub_Init_def)
  next
    case (Inr u)
    let ?subjects = "list_subjects (ConvertToSubjects V owner (sub_init s) (sub_filter s))"
    obtain c' r where c': "subscribe_all K N s' [] ?subjects c = Some (c', r)" "sc_inv K N c'"
      and r: "case r of
         Inl _ \<Rightarrow> senders_of K c' = senders_close [] (senders_of K c)
       | Inr closes' \<Rightarrow> senders_close closes' (senders_of K c') = senders_close [] (senders_of K c)
           \<and> (\<forall>k \<in> set ?subjects. \<exists>i. (i, s') \<in> set (senders_of K c' k))
           \<and> (\<forall>k. set (senders_of K c k) \<subseteq> set (senders_of K c' k))"
      using subscribe_all_view [OF assms(1,2) inv assms(4), of s' "[]"] by blast
    have "Sub_Init K N V list_subjects list_filters owner s c = Some (c', s', r)"
      using i Inr c'(1) same by (simp add: Sub_Init_def)
    moreover have "senders_close [] (senders_of K c) = senders_of K c" by (simp add: senders_close_def)
    ultimately show ?thesis using i r c'(2) close_all_view [OF assms(1,2) c'(2)]
      by (auto simp: Sub_Close_def split: sum.splits)
  qed
qed

text \<open>C27. \<open>Init\<close> of a subscription returns, and it is atomic: when it fails, no sender is left behind; when it
  succeeds, the subscription is a sender of each of its subjects, all senders that were there are still
  there, and \<open>Close\<close> restores the table of senders. A second \<open>Close\<close> does nothing.\<close>

theorem subscription_init_close:
  assumes "kit_map_ok K" "nats_reliable N" "sc_reachable K N c"
    and "\<And>k. length (senders_of K c k) + length (list_subjects (ConvertToSubjects V owner (sub_init s) (sub_filter s))) < 2 ^ 64"
  shows "\<exists>c' s' r. Sub_Init K N V list_subjects list_filters owner s c = Some (c', s', r) \<and>
    (case r of
       Inl _ \<Rightarrow> senders_of K c' = senders_of K c
     | Inr closes \<Rightarrow>
         (\<forall>k \<in> set (list_subjects (ConvertToSubjects V owner (sub_init s) (sub_filter s))).
            \<exists>i. (i, s') \<in> set (senders_of K c' k))
       \<and> (\<forall>k. set (senders_of K c k) \<subseteq> set (senders_of K c' k))
       \<and> (case Sub_Close K N (False, closes) c' of (cl, c'') \<Rightarrow>
            senders_of K c'' = senders_of K c \<and> Sub_Close K N cl c'' = (cl, c'')))"
  using Sub_Init_view [where V = V and owner = owner and s = s and list_subjects = list_subjects and list_filters = list_filters,
      OF assms(1,2) sc_reachable_inv [OF assms(3,1,2)] assms(4)] by blast


section \<open>An instance of the NATS connection\<close>

definition list_nats :: "(nat \<times> string \<times> nat) list nats_conn" where
  "list_nats = \<lparr> nc_Subscribe = (\<lambda>w subject p. let h = Suc (foldr max (map fst w) 0) in ((h, subject, p) # w, Inr h)),
     nc_Unsubscribe = (\<lambda>w h. (filter (\<lambda>e. fst e \<noteq> h) w, None)), nc_live = map_of \<rparr>"

lemma list_nats_reliable: "nats_reliable list_nats"
proof -
  have le: "x \<in> set xs \<Longrightarrow> x \<le> foldr max xs 0" for x :: nat and xs by (induction xs) (auto simp: le_max_iff_disj)
  have "map_of w (Suc (foldr max (map fst w) 0)) = None" for w :: "(nat \<times> string \<times> nat) list"
    using le [of "Suc (foldr max (map fst w) 0)" "map fst w"] by (auto simp: map_of_eq_None_iff)
  then show ?thesis
    by (auto simp: nats_reliable_def nats_ok_def list_nats_def Let_def map_of_filter_ne split: sum.splits)
qed

definition sample_cache0 :: "((string \<times> nat) list, (nat \<times> string \<times> nat) list, nat) SubscriptionsCache" where
  "sample_cache0 = NewSubscriptionsCache alist_map (\<lambda>_. newEventSubject) []"

definition sample_cache :: "((string \<times> nat) list, (nat \<times> string \<times> nat) list, nat) SubscriptionsCache" where
  "sample_cache = fst (the (SubscriptionsCache_Subscribe alist_map list_nats sample_cache0 ''x'' (Some 7)))"

lemma sample_cache0_reachable: "sc_reachable alist_map list_nats sample_cache0"
  unfolding sample_cache0_def by (rule sc_reachable.new) (simp add: list_nats_def)

lemma sample_cache0_senders: "senders_of alist_map sample_cache0 k = []"
  by (simp add: sample_cache0_def NewSubscriptionsCache_def senders_of_def tb_view_def alist_map_def)

lemma sample_cache_reachable: "sc_reachable alist_map list_nats sample_cache"
proof -
  obtain c' r where "SubscriptionsCache_Subscribe alist_map list_nats sample_cache0 ''x'' (Some 7) = Some (c', r)"
    by (rule Subscribe_view [OF alist_map_ok list_nats_reliable
          sc_reachable_inv [OF sample_cache0_reachable alist_map_ok list_nats_reliable], of "''x''" 7])
      (simp_all add: sample_cache0_senders)
  then show ?thesis unfolding sample_cache_def
    using sc_reachable.subscribe [OF sample_cache0_reachable, of "''x''" 7] by (simp add: sample_cache0_senders)
qed


end
