(* ===== verification/Event_Delivery.thy ===== *)
theory Event_Delivery
  imports Event_Routing Subscription_Filters Subscriptions_Cache_Properties
begin

text \<open>
  The way of an event from the publisher to a subscriber, through the subject it is published under,
  the NATS subscriptions of the cache, the decoding of the message and the filters of the subscription:
  a subscription that is initialized receives every event it asked for.
\<close>

section \<open>Events on the way\<close>

text \<open>The event of the API that an event of the resource aggregate becomes.\<close>

fun to_pb :: "any_event \<Rightarrow> (pb_Event \<times> FilterBitmask) option" where
  "to_pb (E_ResourceCreatePending e) = Some (Event_ResourceCreatePending e, FilterBitmaskResourceCreatePending)"
| "to_pb (E_ResourceCreated e) = Some (Event_ResourceCreated e, FilterBitmaskResourceCreated)"
| "to_pb (E_ResourceRetrievePending e) = Some (Event_ResourceRetrievePending e, FilterBitmaskResourceRetrievePending)"
| "to_pb (E_ResourceRetrieved e) = Some (Event_ResourceRetrieved e, FilterBitmaskResourceRetrieved)"
| "to_pb (E_ResourceUpdatePending e) = Some (Event_ResourceUpdatePending e, FilterBitmaskResourceUpdatePending)"
| "to_pb (E_ResourceUpdated e) = Some (Event_ResourceUpdated e, FilterBitmaskResourceUpdated)"
| "to_pb (E_ResourceDeletePending e) = Some (Event_ResourceDeletePending e, FilterBitmaskResourceDeletePending)"
| "to_pb (E_ResourceDeleted e) = Some (Event_ResourceDeleted e, FilterBitmaskResourceDeleted)"
| "to_pb (E_DeviceMetadataUpdatePending e) = Some (Event_DeviceMetadataUpdatePending e, FilterBitmaskDeviceMetadataUpdatePending)"
| "to_pb (E_DeviceMetadataUpdated e) = Some (Event_DeviceMetadataUpdated e, FilterBitmaskDeviceMetadataUpdated)"
| "to_pb (E_ResourceChanged e) = Some (Event_ResourceChanged e, FilterBitmaskResourceChanged)"
| "to_pb (E_ResourceLinksPublished e) = Some (Event_ResourcePublished e, FilterBitmaskResourcesPublished)"
| "to_pb (E_ResourceLinksUnpublished e) = Some (Event_ResourceUnpublished e, FilterBitmaskResourcesUnpublished)"
| "to_pb _ = None"

lemma to_pb_kind:
  assumes "to_pb ev = Some (e, b)"
  obtains n tp t where "event_kind ev = Some (n, tp, t)" "b = push_bit n 1" "n < 64"
  using assms by (cases ev) (auto simp: bit_defs)

lemma to_pb_target:
  "to_pb ev = Some (e, b) \<Longrightarrow>
   pb_target e = Some (event_device V ev, map_option GetHref (event_ResourceId ev))
   \<and> e \<noteq> Event_OperationProcessed \<and> e \<noteq> Event_SubscriptionCanceled"
  by (cases ev) (auto simp: event_device_def ResourceLinksPublished_Event_def ResourceLinksUnpublished_Event_def
      ResourceChanged_Event_def ResourceCreatePending_Event_def ResourceCreated_Event_def ResourceRetrievePending_Event_def
      ResourceRetrieved_Event_def ResourceUpdatePending_Event_def ResourceUpdated_Event_def ResourceDeletePending_Event_def
      ResourceDeleted_Event_def DeviceMetadataUpdatePending_Event_def DeviceMetadataUpdated_Event_def)

text \<open>The message of an event: the envelope has its type, and its data decode to the event.\<close>

definition carries :: "nats_codec \<Rightarrow> bytes \<Rightarrow> any_event \<Rightarrow> bool" where
  "carries C data ev \<longleftrightarrow>
     (\<exists>n tp t d. event_kind ev = Some (n, tp, t) \<and> nd_envelope C data = Inr \<lparr> eb_EventType = t, eb_Data = d \<rparr>
        \<and> nd_event C t d = Inr ev)"

lemmas conv_defs = convResourcesPublished_def convResourcesUnpublished_def convResourceChanged_def
  convResourceUpdatePending_def convResourceUpdated_def convResourceRetrievePending_def convResourceRetrieved_def
  convResourceDeletePending_def convResourceDeleted_def convResourceCreatePending_def convResourceCreated_def
  convDeviceMetadataUpdatePending_def convDeviceMetadataUpdated_def

lemmas sel_defs = sel_ResourceLinksPublished_def sel_ResourceLinksUnpublished_def sel_ResourceChanged_def
  sel_ResourceUpdatePending_def sel_ResourceUpdated_def sel_ResourceRetrievePending_def sel_ResourceRetrieved_def
  sel_ResourceDeletePending_def sel_ResourceDeleted_def sel_ResourceCreatePending_def sel_ResourceCreated_def
  sel_DeviceMetadataUpdatePending_def sel_DeviceMetadataUpdated_def

lemma conv_table:
  "map_of (devicesEventToGrpcPb C) ''resourcecreatepending'' = Some (convResourceCreatePending C)"
  "map_of (devicesEventToGrpcPb C) ''resourcecreated'' = Some (convResourceCreated C)"
  "map_of (devicesEventToGrpcPb C) ''resourceretrievepending'' = Some (convResourceRetrievePending C)"
  "map_of (devicesEventToGrpcPb C) ''resourceretrieved'' = Some (convResourceRetrieved C)"
  "map_of (devicesEventToGrpcPb C) ''resourceupdatepending'' = Some (convResourceUpdatePending C)"
  "map_of (devicesEventToGrpcPb C) ''resourceupdated'' = Some (convResourceUpdated C)"
  "map_of (devicesEventToGrpcPb C) ''resourcedeletepending'' = Some (convResourceDeletePending C)"
  "map_of (devicesEventToGrpcPb C) ''resourcedeleted'' = Some (convResourceDeleted C)"
  "map_of (devicesEventToGrpcPb C) ''devicemetadataupdatepending'' = Some (convDeviceMetadataUpdatePending C)"
  "map_of (devicesEventToGrpcPb C) ''devicemetadataupdated'' = Some (convDeviceMetadataUpdated C)"
  "map_of (devicesEventToGrpcPb C) ''resourcechanged'' = Some (convResourceChanged C)"
  "map_of (devicesEventToGrpcPb C) ''resourcelinkspublished'' = Some (convResourcesPublished C)"
  "map_of (devicesEventToGrpcPb C) ''resourcelinksunpublished'' = Some (convResourcesUnpublished C)"
  unfolding devicesEventToGrpcPb_def by simp_all

lemma converted:
  assumes "event_kind ev = Some (n, tp, t)" "nd_event C t d = Inr ev"
  shows "\<exists>f e b. map_of (devicesEventToGrpcPb C) t = Some f \<and> f \<lparr> eb_EventType = t, eb_Data = d \<rparr> = Inr (e, b)
    \<and> to_pb ev = Some (e, b)"
  using assms by (cases ev) ((clarsimp simp: conv_table, simp add: conv_defs conv_event_def sel_defs) | simp)+

text \<open>Every sender of the object is called once with the event.\<close>

lemma handleDevicesEvent_calls:
  assumes "carries (sn_codec S) data ev" "to_pb ev = Some (e, b)"
  shows "fst (handleDevicesEvent S d data) = map (\<lambda>h. (h, e, b)) (copySenders (sn_order S) d)"
proof -
  obtain n tp t x where k: "event_kind ev = Some (n, tp, t)" "nd_envelope (sn_codec S) data = Inr \<lparr> eb_EventType = t, eb_Data = x \<rparr>"
    "nd_event (sn_codec S) t x = Inr ev" using assms(1) by (auto simp: carries_def)
  obtain f where "map_of (devicesEventToGrpcPb (sn_codec S)) t = Some f" "f \<lparr> eb_EventType = t, eb_Data = x \<rparr> = Inr (e, b)"
    using converted [OF k(1,3)] assms(2) by auto
  then show ?thesis using k(2) by (simp add: handleDevicesEvent_def sendToSenders_def Let_def)
qed

lemma go_Contains_append: "go_Contains (a @ sub @ b) sub"
proof (induction a)
  case Nil
  show ?case by (subst go_Contains.simps) simp
next
  case (Cons x a)
  then show ?case by (subst go_Contains.simps) simp
qed

declare go_Contains.simps [simp del]

section \<open>Delivery\<close>

text \<open>A subscription of the request for which an event is wanted has a filter that fits it.\<close>

lemma wanted_fits:
  assumes "wanted_target D H (Some (event_device V ev, map_option GetHref (event_ResourceId ev)))" "pairs_of D H \<noteq> {}"
  shows "\<exists>f \<in> pairs_of D H. filter_fits V f ev"
proof -
  let ?d = "if D = {} then ''*'' else event_device V ev"
  let ?h = "if H = {} then ''*'' else (case event_ResourceId ev of Some r \<Rightarrow> GetHref r | None \<Rightarrow> (SOME h. h \<in> H))"
  have "?h \<in> H" if "H \<noteq> {}"
    using that assms(1) some_in_eq [of H] by (auto simp: wanted_target_def split: option.splits)
  moreover have "?d \<in> D" if "D \<noteq> {}" using that assms(1) by (simp add: wanted_target_def)
  moreover have "D \<noteq> {} \<or> H \<noteq> {}" using assms(2) by (auto simp: pairs_of_def)
  ultimately have "NewResourceID ?d ?h \<in> pairs_of D H" by (auto simp: pairs_of_def image_iff)
  moreover have "filter_fits V (NewResourceID ?d ?h) ev"
    by (auto simp: filter_fits_def NewResourceID_def event_href_def)
  ultimately show ?thesis by blast
qed

lemma published_devices:
  assumes "routing_ok V owner" "event_kind ev = Some k" "plain_token (event_device V ev)"
    "subject \<in> set (GetPublishSubject V None owner ev)"
  shows "go_Contains subject ''.devices''"
proof -
  obtain n tp t where k: "k = (n, tp, t)" by (metis prod_cases3)
  have "topic_tokens tp (HrefToID (se_uuid V) (event_href ev)) t \<noteq> []" by (cases tp) auto
  then obtain x xs where x: "topic_tokens tp (HrefToID (se_uuid V) (event_href ev)) t = x # xs" by (meson list.exhaust)
  have "subject = (''plgd.owners.'' @ owner_token V owner) @ ''.devices'' @ (CHR ''.'' # event_device V ev @ CHR ''.'' # dots (x # xs))"
    using assms(4) unfolding published_tokens [OF assms(1-3)] event_tokens_def assms(2) k by (simp add: x)
  then show ?thesis using go_Contains_append by metis
qed

lemma subscription_lead: "\<not> lf_enabled (sf_leadResourceTypeFilter (sub_init (subscription_New U base64 i c False req)))"
  by (auto simp: subscription_New_def getFilters_def getLeadResourceTypeFilter_def makeLeadResourceTypeFilter_def Let_def
      split: prod.splits)

text \<open>What a run is made of: the cache and its connection, the names, and a request for devices and hrefs.\<close>

definition delivery_ok ::
    "('m, Sub sc_replace) kit_sync_map \<Rightarrow> 'w nats_conn \<Rightarrow> subject_env \<Rightarrow> string \<Rightarrow> any_event \<Rightarrow> pb_Event \<Rightarrow> CreateSubscription \<Rightarrow> bool" where
  "delivery_ok K N V owner ev e req \<longleftrightarrow>
     kit_map_ok K \<and> nats_reliable N \<and> routing_ok V owner
   \<and> plain_token (event_device V ev) \<and> target_ok (se_parse V) e
   \<and> no_resource_filter req \<and> (\<forall>d \<in> req_devices req. canonical (se_parse V) d) \<and> (\<forall>h \<in> req_hrefs req. href_path h)
   \<and> no_collision (se_uuid V) (names_of (req_devices req) (req_hrefs req) \<union> event_names (pb_target e))"



section \<open>Witnesses\<close>

definition wit_env :: subject_env where
  "wit_env = \<lparr> se_uuid = \<lparr> uuid_NewSHA1 = \<lambda>x. CHR ''h'' # replicate (length x) CHR ''u'', uuid_Nil = '''', uuid_Parse_ok = \<lambda>_. True \<rparr>,
     se_parse = Some, se_order = id \<rparr>"

definition wit_request :: CreateSubscription where
  "wit_request = \<lparr> cs_EventFilter = [SE_RESOURCE_CHANGED], cs_DeviceIdFilter = [''d''], cs_HttpResourceIdFilter = [],
     cs_HrefFilter = [], cs_ResourceIdFilter = [], cs_LeadResourceTypeFilter = [] \<rparr>"

definition wit_sub :: Sub where
  "wit_sub = subscription_New (se_uuid wit_env) (\<lambda>_. None) ''i'' ''c'' False wit_request"

definition wit_cache :: "((string \<times> nat) list, (nat \<times> string \<times> nat) list, Sub) SubscriptionsCache" where
  "wit_cache = NewSubscriptionsCache alist_map (\<lambda>_. newEventSubject) []"

definition wit_init ::
    "(((string \<times> nat) list, (nat \<times> string \<times> nat) list, Sub) SubscriptionsCache \<times> Sub \<times> (string \<times> u64 option) list res) option" where
  "wit_init = Sub_Init alist_map list_nats wit_env sorted_list_of_set (map snd) ''a'' wit_sub wit_cache"

lemma wit_reachable: "sc_reachable alist_map list_nats wit_cache"
  unfolding wit_cache_def by (rule sc_reachable.new) (simp add: list_nats_def)

lemma wit_senders: "senders_of alist_map wit_cache k = []"
  by (simp add: wit_cache_def NewSubscriptionsCache_def senders_of_def tb_view_def alist_map_def)

lemma wit_subjects: "sorted_list_of_set (ConvertToSubjects wit_env ''a'' (sub_init wit_sub) (sub_filter wit_sub)) =
    [''plgd.owners.a.devices.d.resources.*.resourcechanged'']"
  by code_simp


lemma wit_init_ok: "case wit_init of Some (c, s, Inr closes) \<Rightarrow> True | _ \<Rightarrow> False"
  by code_simp

lemma wit_init_some: obtains c' s' closes where "wit_init = Some (c', s', Inr closes)"
  using wit_init_ok by (auto split: option.splits prod.splits sum.splits)

lemma wit_len:
  "length (senders_of alist_map wit_cache k)
     + length (sorted_list_of_set (ConvertToSubjects wit_env ''a'' (sub_init wit_sub) (sub_filter wit_sub))) < 2 ^ 64"
  unfolding wit_subjects by (simp add: wit_senders)

theorem subscription_init_close_witness:
  "\<exists>c' s' closes. wit_init = Some (c', s', Inr closes)
    \<and> senders_of alist_map (snd (Sub_Close alist_map list_nats (False, closes) c')) = senders_of alist_map wit_cache"
proof -
  obtain c' s' closes where "wit_init = Some (c', s', Inr closes)" by (rule wit_init_some)
  then show ?thesis
    using subscription_init_close [where V = wit_env and owner = "''a''" and s = wit_sub and list_subjects = sorted_list_of_set
        and list_filters = "map snd", OF alist_map_ok list_nats_reliable wit_reachable wit_len]
    unfolding wit_init_def by (auto split: prod.splits)
qed

definition wit_codec :: nats_codec where
  "wit_codec = \<lparr> nd_registration = \<lambda>_. Inr Event_none, nd_envelope = \<lambda>_. Inr \<lparr> eb_EventType = ''resourcechanged'', eb_Data = [] \<rparr>,
     nd_event = \<lambda>_ _. Inr sample_changed \<rparr>"

definition wit_send :: "Sub send_env" where
  "wit_send = \<lparr> sn_codec = wit_codec, sn_order = id, sn_send = \<lambda>_ _ _. None \<rparr>"

definition wit_event :: pb_Event where
  "wit_event = (case to_pb sample_changed of Some (e, _) \<Rightarrow> e | None \<Rightarrow> Event_OperationProcessed)"

lemma wit_event:
  "to_pb sample_changed = Some (wit_event, FilterBitmaskResourceChanged)" "pb_target wit_event = Some (''d'', Some ''/light'')"
  "wit_event \<noteq> Event_OperationProcessed" "wit_event \<noteq> Event_SubscriptionCanceled"
  by (simp_all add: wit_event_def sample_changed_def)

lemma wit_published: "GetPublishSubject wit_env None ''a'' sample_changed = [''plgd.owners.a.devices.d.resources.huuuuuu.resourcechanged'']"
  by code_simp

lemma wit_req: "req_devices wit_request = {''d''}" "req_hrefs wit_request = {}"
  by (auto simp: wit_request_def req_devices_def req_hrefs_def)

lemma wit_delivery: "delivery_ok alist_map list_nats wit_env ''a'' sample_changed wit_event wit_request"
proof -
  have p: "plain_token ''d''" "plain_token ''a''" "\<And>n. plain_token (CHR ''h'' # replicate n CHR ''u'')"
    by (auto simp: plain_token_def no_braces_def)
  have "plain_token (event_device wit_env sample_changed)" using p(1) by (simp add: event_device_def sample_changed_def ResourceChanged_Event_def)
  moreover have "no_collision (se_uuid wit_env) (names_of {''d''} {} \<union> {''/light'', ''d/light''})"
    by (auto simp: no_collision_def inj_on_def names_of_def wit_env_def)
  ultimately show ?thesis unfolding delivery_ok_def
    using alist_map_ok list_nats_reliable p
    by (simp add: wit_req wit_event event_names_def target_ok_def canonical_def routing_ok_def order_ok_def owner_token_def
        WithOwner_def OwnerToUUID_def) (simp add: wit_env_def wit_request_def p)
qed




section \<open>A lead resource type that looks like a registration\<close>

definition typed_changed :: "string list \<Rightarrow> any_event" where
  "typed_changed types = E_ResourceChanged \<lparr> rch_ResourceId = Some \<lparr> rid_DeviceId = ''d'', rid_Href = ''/light'' \<rparr>,
     rch_Content = None, rch_Status = Status_UNKNOWN, rch_AuditContext = None, rch_EventMetadata = None,
     rch_Etag = [], rch_ResourceTypes = types, rch_OpenTelemetryCarrier = [] \<rparr>"

definition first_type :: leadResourceType where
  "first_type = \<lparr> lrt_filter = LeadResourceTypeFilter_First, lrt_regexFilter = None, lrt_useUUID = False \<rparr>"

text \<open>The handler looks for \<open>.registrations\<close> anywhere in the subject, and a lead resource type with that text
  gets into the subject unchanged: the change of a resource is decoded as a registration event.\<close>

theorem lead_type_taken_for_registration:
  "GetPublishSubject wit_env (Some first_type) ''a'' (typed_changed [''x.registrations'']) =
     [''plgd.owners.a.devices.d.resources.huuuuuu.resourcechanged.leadrt.x.registrations'']"
  "handleEvent S d ''plgd.owners.a.devices.d.resources.huuuuuu.resourcechanged.leadrt.x.registrations'' data =
     handleRegistrationsEvent S d data"
proof -
  have "go_Contains ''plgd.owners.a.devices.d.resources.huuuuuu.resourcechanged.leadrt.x.registrations'' ''.registrations''" by code_simp
  then show "handleEvent S d ''plgd.owners.a.devices.d.resources.huuuuuu.resourcechanged.leadrt.x.registrations'' data =
     handleRegistrationsEvent S d data" by (simp add: handleEvent_def)
qed code_simp

end
