(* ===== verification/Token_Claims.thy ===== *)
theory Token_Claims
  imports Owner_Cache "HOL-Library.Sublist"
begin

text \<open>
  The claims of access tokens, \<^verbatim>\<open>pkg/security/jwt/claims.go\<close> and \<^verbatim>\<open>scopeClaims.go\<close>, and the helpers of
  \<^verbatim>\<open>pkg/net/grpc\<close> that read the token, the owner and the subject of a request. The parser of tokens and
  the extraction of the bearer token from the metadata are parameters; regular expressions are their
  text and the set of strings they match, and \<open>regexp.MustCompile(regexp.QuoteMeta(s))\<close> matches the
  strings that contain \<open>s\<close>.
\<close>

section \<open>Claims\<close>

record go_regexp =
  rx_String :: string
  rx_MatchString :: "string \<Rightarrow> bool"

text \<open>A claim is a value of the JSON object, or the required scopes the hub puts beside them.\<close>

datatype claim_value =
    Claim go_value
  | Claim_regexps "go_regexp list"

type_synonym jwt_Claims = "string \<rightharpoonup> claim_value"

definition claim_go :: "claim_value \<Rightarrow> go_value" where
  "claim_go v = (case v of Claim g \<Rightarrow> g | Claim_regexps _ \<Rightarrow> V_other)"

definition ErrMissingToken :: error where "ErrMissingToken = Errorf ''missing token'' []"
definition ErrMissingClaims :: error where "ErrMissingClaims = Errorf ''missing claims'' []"
definition ErrMissingID :: error where "ErrMissingID = Errorf ''missing jti'' []"
definition jwt_ErrInvalidType :: error where "jwt_ErrInvalidType = Errorf ''invalid type for claim'' []"
definition ErrOwnerClaimInvalid :: error where "ErrOwnerClaimInvalid = Errorf ''owner claim is invalid'' []"
definition ErrMissingRequiredScopes :: error where
  "ErrMissingRequiredScopes = Errorf ''required scopes not found'' []"

text \<open>Reading a missing key of a Go map of interfaces gives nil.\<close>

definition parseClaimStrings :: "jwt_Claims \<Rightarrow> string \<Rightarrow> string list res" where
  "parseClaimStrings c claim =
     strings_ToSlice (case c claim of None \<Rightarrow> V_nil | Some v \<Rightarrow> claim_go v)"

definition parseString :: "jwt_Claims \<Rightarrow> string \<Rightarrow> string res" where
  "parseString c claim =
     (case c claim of
        None \<Rightarrow> Inr ''''
      | Some cc \<Rightarrow>
          (case strings_ToString (claim_go cc) of
             (s, ok) \<Rightarrow> if \<not> ok then Inl (Wrapf (claim @ '' is invalid'') jwt_ErrInvalidType) else Inr s))"

definition GetAudience :: "jwt_Claims \<Rightarrow> string list res" where
  "GetAudience c = parseClaimStrings c ''aud''"

text \<open>\<open>strings.Split\<close> at a single character.\<close>

fun strings_SplitChar :: "char \<Rightarrow> string \<Rightarrow> string list" where
  "strings_SplitChar c [] = [[]]"
| "strings_SplitChar c (x # xs) =
     (if x = c then [] # strings_SplitChar c xs
      else case strings_SplitChar c xs of [] \<Rightarrow> [[x]] | t # ts \<Rightarrow> (x # t) # ts)"

definition GetScope :: "jwt_Claims \<Rightarrow> string list res" where
  "GetScope c =
     (case parseClaimStrings c ''scope'' of
        Inl err \<Rightarrow> Inl err
      | Inr s \<Rightarrow> if length s = 1 then Inr (strings_SplitChar CHR '' '' (s ! 0)) else Inr s)"

definition Claims_GetID :: "jwt_Claims \<Rightarrow> string res" where
  "Claims_GetID c = parseString c ''jti''"

definition GetEmail :: "jwt_Claims \<Rightarrow> string res" where
  "GetEmail c = parseString c ''email''"

definition GetClientID :: "jwt_Claims \<Rightarrow> string res" where
  "GetClientID c = parseString c ''client_id''"

definition GetName :: "jwt_Claims \<Rightarrow> string res" where
  "GetName c = parseString c ''name''"

definition Claims_GetOwner :: "jwt_Claims \<Rightarrow> string \<Rightarrow> string res" where
  "Claims_GetOwner c ownerClaim = parseString c ownerClaim"

definition Claims_GetDeviceID :: "jwt_Claims \<Rightarrow> string \<Rightarrow> string res" where
  "Claims_GetDeviceID c deviceIDClaim = parseString c deviceIDClaim"

definition ValidateOwnerClaim :: "jwt_Claims \<Rightarrow> string \<Rightarrow> string \<Rightarrow> unit res" where
  "ValidateOwnerClaim c ownerClaim userID =
     (case c ownerClaim of
        None \<Rightarrow> Inl (Wrapf ''owner claim '%v' is not present'' ErrOwnerClaimInvalid)
      | Some v \<Rightarrow>
          (case claim_go v of
             V_string owner \<Rightarrow>
               if owner \<noteq> userID
               then Inl (Wrapf ''owner identifier from the token '%v' doesn't match userID '%v' from the device'' ErrOwnerClaimInvalid)
               else Inr ()
           | _ \<Rightarrow> Inl (Wrapf (''owner claim '%v' is present, but it has an invalid type '%T'' @ [CHR 0x27]) ErrOwnerClaimInvalid)))"

text \<open>
  \<open>getID\<close>: the hub's own claims have a method \<open>GetID\<close> for which a missing claim is the empty string;
  for the claims of the library the claim has to be a string.
\<close>

definition getID_Claims :: "jwt_Claims \<Rightarrow> string res" where
  "getID_Claims c = (case Claims_GetID c of Inl _ \<Rightarrow> Inl ErrMissingID | Inr i \<Rightarrow> Inr i)"

definition getID_MapClaims :: "jwt_Claims \<Rightarrow> string res" where
  "getID_MapClaims c =
     (case c ''jti'' of
        None \<Rightarrow> Inl ErrMissingID
      | Some v \<Rightarrow> (case claim_go v of V_string i \<Rightarrow> Inr i | _ \<Rightarrow> Inl ErrMissingID))"

section \<open>Required scopes\<close>

definition meta_chars :: string where
  "meta_chars = CHR 0x5C # ''.+*?()|[]{}^$''"

fun QuoteMeta :: "string \<Rightarrow> string" where
  "QuoteMeta [] = []"
| "QuoteMeta (c # s) = (if c \<in> set meta_chars then [CHR 0x5C, c] else [c]) @ QuoteMeta s"

definition quoted_regexp :: "string \<Rightarrow> go_regexp" where
  "quoted_regexp s = \<lparr> rx_String = QuoteMeta s, rx_MatchString = (\<lambda>x. sublist s x) \<rparr>"

definition PlgdRequiredScope :: string where
  "PlgdRequiredScope = ''plgd:required:scope''"

definition NewRegexpScopeClaims :: "go_regexp list \<Rightarrow> jwt_Claims" where
  "NewRegexpScopeClaims scope = Map.empty(PlgdRequiredScope \<mapsto> Claim_regexps scope)"

definition NewScopeClaims :: "string list \<Rightarrow> jwt_Claims" where
  "NewScopeClaims scope = NewRegexpScopeClaims (map quoted_regexp scope)"

text \<open>Decoding the payload of a token into the claims adds its entries to the map.\<close>

definition decode_claims :: "jwt_Claims \<Rightarrow> jwt_Claims \<Rightarrow> jwt_Claims" where
  "decode_claims c payload = c ++ payload"

text \<open>The map \<open>notMatched\<close> is the set of its keys.\<close>

fun match_required :: "go_regexp list \<Rightarrow> string \<Rightarrow> string set \<Rightarrow> string set" where
  "match_required [] scope notMatched = notMatched"
| "match_required (r # rs) scope notMatched =
     match_required rs scope (if rx_MatchString r scope then notMatched - {rx_String r} else notMatched)"

definition ScopeClaims_Validate :: "jwt_Claims \<Rightarrow> unit res" where
  "ScopeClaims_Validate v =
     (case v PlgdRequiredScope of
        None \<Rightarrow> Inl (Wrapf ''plgd:required:scope missing'' ErrMissingRequiredScopes)
      | Some (Claim V_nil) \<Rightarrow> Inr ()
      | Some (Claim _) \<Rightarrow> Inl (Wrapf ''plgd:required:scope invalid'' ErrMissingRequiredScopes)
      | Some (Claim_regexps requiredScopes) \<Rightarrow>
          if length requiredScopes = 0 then Inr ()
          else
            let notMatched = set (map rx_String requiredScopes)
            in case GetScope v of
                 Inl err \<Rightarrow> Inl err
               | Inr scopes \<Rightarrow>
                   (let notMatched = foldl (\<lambda>m scope. match_required requiredScopes scope m) notMatched scopes
                    in if notMatched = {} then Inr ()
                       else Inl (Wrapf ''%+v missing'' ErrMissingRequiredScopes)))"

section \<open>The token of a request\<close>

text \<open>
  The parameters of a call: \<open>auth.AuthFromMD\<close> for the scheme \<open>bearer\<close>, \<open>ParseUnverified\<close> and the getter
  of the subject of the library's claims.
\<close>

record auth_env =
  ae_AuthFromMD :: "string res"
  ae_ParseToken :: "string \<Rightarrow> jwt_Claims res"
  ae_GetSubject :: "jwt_Claims \<Rightarrow> string res"

definition TokenFromMD :: "auth_env \<Rightarrow> string res" where
  "TokenFromMD A = ae_AuthFromMD A"

definition ParseOwnerFromJwtToken :: "auth_env \<Rightarrow> string \<Rightarrow> string \<Rightarrow> string res" where
  "ParseOwnerFromJwtToken A ownerClaim rawJwtToken =
     (case ae_ParseToken A rawJwtToken of
        Inl err \<Rightarrow> Inl err
      | Inr claims \<Rightarrow>
          (case Claims_GetOwner claims ownerClaim of
             Inl err \<Rightarrow> Inl err
           | Inr owner \<Rightarrow>
               if owner = '''' then Inl (Errorf ''claim '%v' was not found'' [ownerClaim]) else Inr owner))"

definition OwnerFromTokenMD :: "auth_env \<Rightarrow> string \<Rightarrow> string res" where
  "OwnerFromTokenMD A ownerClaim =
     (case TokenFromMD A of
        Inl err \<Rightarrow> Inl err
      | Inr accessToken \<Rightarrow>
          (case ParseOwnerFromJwtToken A ownerClaim accessToken of
             Inl err \<Rightarrow> Inl (ForwardFromError InvalidArgument err)
           | Inr owner \<Rightarrow> Inr owner))"

definition SubjectFromTokenMD :: "auth_env \<Rightarrow> string res" where
  "SubjectFromTokenMD A =
     (case TokenFromMD A of
        Inl err \<Rightarrow> Inl (ForwardFromError InvalidArgument err)
      | Inr token \<Rightarrow>
          (case ae_ParseToken A token of
             Inl err \<Rightarrow> Inl (ForwardFromError InvalidArgument err)
           | Inr claims \<Rightarrow>
               (case ae_GetSubject A claims of
                  Inl err \<Rightarrow> Inl (ForwardFromError InvalidArgument err)
                | Inr subject \<Rightarrow>
                    if subject = '''' then Inl (GrpcStatus InvalidArgument ''invalid subject in token'' [])
                    else Inr subject)))"

text \<open>\<open>parseTokenMD\<close> of the identity store: the owner and the subject of the token.\<close>

definition parseTokenMD :: "auth_env \<Rightarrow> string \<Rightarrow> (string \<times> string) res" where
  "parseTokenMD A ownerClaim =
     (case TokenFromMD A of
        Inl err \<Rightarrow> Inl (ForwardFromError InvalidArgument err)
      | Inr token \<Rightarrow>
          (case ae_ParseToken A token of
             Inl err \<Rightarrow> Inl (ForwardFromError InvalidArgument err)
           | Inr claims \<Rightarrow>
               (case Claims_GetOwner claims ownerClaim of
                  Inl err \<Rightarrow> Inl (ForwardFromError InvalidArgument err)
                | Inr owner \<Rightarrow>
                    if owner = '''' then Inl (GrpcStatus InvalidArgument ''claim '%v' was not found'' [ownerClaim])
                    else
                      (case ae_GetSubject A claims of
                         Inl err \<Rightarrow> Inl (ForwardFromError InvalidArgument err)
                       | Inr subject \<Rightarrow>
                           if subject = '''' then Inl (GrpcStatus InvalidArgument ''claim '%v' was not found'' [''sub''])
                           else Inr (owner, subject)))))"

end
