(* ===== verification/Pkg_Uri.thy ===== *)
theory Pkg_Uri
  imports Hub_Prelude "HOL-Library.Sublist"
begin

text \<open>
  Canonical form of URIs and hrefs, \<^verbatim>\<open>pkg/net/http/uri/canonicalHref.go\<close>: runs of slashes after the
  scheme become one slash, trailing slashes go, and an href starts with exactly one slash. Issuers of
  tokens are compared in this form.
\<close>

section \<open>Definitions\<close>

text \<open>\<open>strings.SplitN(uri, "://", 2)\<close>: the parts around the first separator, if there is one.\<close>

fun split_scheme :: "string \<Rightarrow> (string \<times> string) option" where
  "split_scheme [] = None"
| "split_scheme (c # s) =
     (if take 3 (c # s) = ''://'' then Some ([], drop 3 (c # s))
      else map_option (\<lambda>(a, b). (c # a, b)) (split_scheme s))"

text \<open>Replacing every match of \<open>\/+\<close> by a slash.\<close>

fun collapse_slashes :: "string \<Rightarrow> string" where
  "collapse_slashes (x # y # s) =
     (if x = CHR ''/'' \<and> y = CHR ''/'' then collapse_slashes (y # s) else x # collapse_slashes (y # s))"
| "collapse_slashes s = s"

definition TrimLeft_slash :: "string \<Rightarrow> string" where
  "TrimLeft_slash s = dropWhile (\<lambda>c. c = CHR ''/'') s"

definition TrimRight_slash :: "string \<Rightarrow> string" where
  "TrimRight_slash s = rev (dropWhile (\<lambda>c. c = CHR ''/'') (rev s))"

definition CanonicalURI :: "string \<Rightarrow> string" where
  "CanonicalURI uri =
     (case split_scheme uri of
        Some (c0, c1) \<Rightarrow> (c0 @ ''://'') @ TrimRight_slash (collapse_slashes c1)
      | None \<Rightarrow> [] @ TrimRight_slash (collapse_slashes uri))"

definition CanonicalHref :: "string \<Rightarrow> string" where
  "CanonicalHref href = ''/'' @ TrimLeft_slash (CanonicalURI href)"

section \<open>Slashes\<close>

text \<open>No two slashes in a row.\<close>

fun no_runs :: "string \<Rightarrow> bool" where
  "no_runs (x # y # s) \<longleftrightarrow> \<not> (x = CHR ''/'' \<and> y = CHR ''/'') \<and> no_runs (y # s)"
| "no_runs s \<longleftrightarrow> True"

lemma collapse_slashes_hd: "s \<noteq> [] \<Longrightarrow> \<exists>t. collapse_slashes s = hd s # t"
  by (induction s rule: collapse_slashes.induct) auto

lemma no_runs_Cons: "no_runs (x # s) \<longleftrightarrow> no_runs s \<and> \<not> (x = CHR ''/'' \<and> s \<noteq> [] \<and> hd s = CHR ''/'')"
  by (cases s) auto

lemma no_runs_collapse: "no_runs (collapse_slashes s)"
proof (induction s rule: collapse_slashes.induct)
  case (1 x y s)
  then show ?case using collapse_slashes_hd [of "y # s"] by (auto simp: no_runs_Cons)
qed simp_all

lemma collapse_id: "no_runs s \<Longrightarrow> collapse_slashes s = s"
  by (induction s rule: collapse_slashes.induct) auto

lemma no_runs_append: "no_runs (a @ b) \<Longrightarrow> no_runs a \<and> no_runs b"
proof (induction a)
  case (Cons x a)
  then show ?case by (cases a) (auto simp: no_runs_Cons)
qed simp

lemma TrimRight_split: "TrimRight_slash s @ rev (takeWhile (\<lambda>c. c = CHR ''/'') (rev s)) = s"
  unfolding TrimRight_slash_def rev_append [symmetric] takeWhile_dropWhile_id by simp

lemma no_runs_TrimRight:
  assumes "no_runs s"
  shows "no_runs (TrimRight_slash s)"
proof -
  have "no_runs (TrimRight_slash s @ rev (takeWhile (\<lambda>c. c = CHR ''/'') (rev s)))"
    using assms unfolding TrimRight_split .
  then show ?thesis by (rule no_runs_append [THEN conjunct1])
qed

lemma TrimRight_idem [simp]: "TrimRight_slash (TrimRight_slash s) = TrimRight_slash s"
  by (simp add: TrimRight_slash_def dropWhile_idem comp_def)

lemma tail_canonical: "TrimRight_slash (collapse_slashes (TrimRight_slash (collapse_slashes s))) = TrimRight_slash (collapse_slashes s)"
  by (simp add: collapse_id no_runs_TrimRight no_runs_collapse)

section \<open>Schemes\<close>

lemma split_scheme_Some: "split_scheme s = Some (a, b) \<Longrightarrow> s = a @ ''://'' @ b"
proof (induction s arbitrary: a)
  case (Cons c s)
  show ?case
  proof (cases "take 3 (c # s) = ''://''")
    case True
    then show ?thesis using Cons.prems append_take_drop_id [of 3 "c # s"] by auto
  next
    case False
    then show ?thesis using Cons by auto
  qed
qed simp

text \<open>The text after the separator does not move the first separator.\<close>

lemma split_scheme_tail: "split_scheme (a @ ''://'' @ b) = Some (a, b) \<Longrightarrow> split_scheme (a @ ''://'' @ b') = Some (a, b')"
proof (induction a)
  case (Cons c a)
  have t: "take 3 (c # a @ ''://'' @ b) = take 3 (c # a @ ''://'' @ b')"
    by (cases a; cases "tl a") auto
  show ?case using Cons t by (auto split: if_splits)
qed simp

lemma separator_has_run:
  "take 3 (c # s) = ''://'' \<Longrightarrow> \<not> no_runs (c # s)"
  by (cases s; cases "tl s") auto

lemma no_runs_no_scheme: "no_runs s \<Longrightarrow> split_scheme s = None"
proof (induction s)
  case (Cons c s)
  then show ?case using separator_has_run [of c s] by (auto simp: no_runs_Cons)
qed simp

lemma CanonicalURI_None: "split_scheme uri = None \<Longrightarrow> CanonicalURI uri = TrimRight_slash (collapse_slashes uri)"
  by (simp only: CanonicalURI_def option.case append_Nil)

lemma CanonicalURI_Some:
  "split_scheme uri = Some (a, b) \<Longrightarrow> CanonicalURI uri = a @ ''://'' @ TrimRight_slash (collapse_slashes b)"
  by (simp only: CanonicalURI_def option.case prod.case append_assoc)

lemma CanonicalURI_idem: "CanonicalURI (CanonicalURI uri) = CanonicalURI uri"
proof (cases "split_scheme uri")
  case None
  have n: "no_runs (TrimRight_slash (collapse_slashes uri))"
    by (rule no_runs_TrimRight [OF no_runs_collapse])
  show ?thesis
    unfolding CanonicalURI_None [OF None] CanonicalURI_None [OF no_runs_no_scheme [OF n]] by (rule tail_canonical)
next
  case (Some p)
  obtain a b where p: "split_scheme uri = Some (a, b)" using Some by (cases p) simp
  have "split_scheme (a @ ''://'' @ b) = Some (a, b)"
    using p unfolding split_scheme_Some [OF p] .
  from CanonicalURI_Some [OF split_scheme_tail [OF this, of "TrimRight_slash (collapse_slashes b)"]]
  show ?thesis unfolding CanonicalURI_Some [OF p] tail_canonical .
qed

end
