(* ===== verification/Token_Cache.thy ===== *)
theory Token_Cache
  imports Token_Claims Pkg_Uri
begin

text \<open>
  Verification of access tokens, \<^verbatim>\<open>pkg/security/jwt\<close>: the future of \<^verbatim>\<open>pkg/sync/task/future\<close>, the cache of
  verdicts on tokens (\<^verbatim>\<open>tokenCache.go\<close>), the caches of signing keys (\<^verbatim>\<open>jwk.go\<close>, \<^verbatim>\<open>multiJwk.go\<close>) and the
  validator that combines them (\<^verbatim>\<open>validator.go\<close>).

  \<open>VerifyTrust\<close> is called by many goroutines at once. A call is a thread whose program counter stands
  between two critical sections of the code: each section under the mutex of an issuer's cache, the
  wait on a future and the request to the issuer are single steps of \<open>vt_step\<close>, and steps of different
  threads interleave freely. Parameters: \<open>uuid.Parse\<close>, the answers of the issuers (a relation, since
  an issuer may answer the same question differently over time) and the JWT library.
\<close>

section \<open>Futures\<close>

record 'v Future =
  fut_value :: "'v option"
  fut_err :: "error option"
  fut_ready :: bool
  fut_blockSet :: bool

definition future_New :: "'v Future" where
  "future_New = \<lparr> fut_value = None, fut_err = None, fut_ready = False, fut_blockSet = False \<rparr>"

definition future_set :: "'v Future \<Rightarrow> 'v option \<Rightarrow> error option \<Rightarrow> 'v Future" where
  "future_set f value err =
     (if fut_blockSet f then f
      else f\<lparr>fut_blockSet := True, fut_value := value, fut_err := err, fut_ready := True\<rparr>)"

text \<open>\<open>Get\<close> when the future is ready, or the context is done (\<open>ctxErr\<close>); \<open>None\<close> while it blocks.\<close>

definition future_Get :: "'v Future \<Rightarrow> error option \<Rightarrow> ('v option \<times> error option) option" where
  "future_Get f ctxErr =
     (if fut_ready f then Some (fut_value f, fut_err f)
      else case ctxErr of Some err \<Rightarrow> Some (None, Some err) | None \<Rightarrow> None)"

section \<open>Records of tokens\<close>

text \<open>The answer of an issuer: \<open>pb.Token\<close>, as far as it is read.\<close>

record pb_Token =
  tk_Blacklisted :: "bool option"
  tk_Expiration :: i64

definition tk_Flag :: "pb_Token \<Rightarrow> bool" where
  "tk_Flag t = nil_or False id (tk_Blacklisted t)"

record tokenRecord =
  tr_blacklisted :: bool
  tr_validUntil :: gotime

definition tokenRecord_IsExpired :: "tokenRecord \<Rightarrow> gotime \<Rightarrow> bool" where
  "tokenRecord_IsExpired t now =
     (let value = tr_validUntil t in if IsZero value then False else now > value)"

definition getValidUntil :: "int \<Rightarrow> gotime \<Rightarrow> pb_Token \<Rightarrow> gotime" where
  "getValidUntil exp now token =
     (if tk_Flag token then
        let expiration = tk_Expiration token
        in if expiration = 0 then zero_time else expiration * 1000000000
      else if exp = 0 then zero_time
      else now + exp)"

definition newTokenRecord :: "int \<Rightarrow> gotime \<Rightarrow> pb_Token \<Rightarrow> tokenRecord" where
  "newTokenRecord exp now token =
     \<lparr> tr_blacklisted = tk_Flag token, tr_validUntil = getValidUntil exp now token \<rparr>"

text \<open>\<open>tokenOrFuture\<close>: a record, or the address of a future in the heap. The callback \<open>onExpire\<close> of a record
  only writes to the log and is left out.\<close>

datatype tokenOrFuture = TF_token tokenRecord | TF_future nat

type_synonym token_map = "string \<rightharpoonup> tokenOrFuture"

section \<open>Operations of the cache of an issuer\<close>

text \<open>
  \<open>getValidTokenRecordOrFuture\<close>, with the address of the future that is made if one is needed: the
  tokens after it, what is returned, and whether the caller got the function that sets the future.
\<close>

definition getValidTokenRecordOrFuture ::
    "token_map \<Rightarrow> gotime \<Rightarrow> nat \<Rightarrow> string \<Rightarrow> token_map \<times> tokenOrFuture \<times> bool" where
  "getValidTokenRecordOrFuture tokens now new tokenID =
     (case tokens tokenID of
        None \<Rightarrow> (tokens(tokenID \<mapsto> TF_future new), TF_future new, True)
      | Some tf \<Rightarrow>
          (if (case tf of TF_token tr \<Rightarrow> tokenRecord_IsExpired tr now | TF_future _ \<Rightarrow> False)
           then (tokens(tokenID \<mapsto> TF_future new), TF_future new, True)
           else (tokens, tf, False)))"

definition removeTokenRecord :: "token_map \<Rightarrow> string \<Rightarrow> token_map" where
  "removeTokenRecord tokens tokenID = tokens(tokenID := None)"

definition setTokenRecord :: "token_map \<Rightarrow> string \<Rightarrow> tokenRecord \<Rightarrow> token_map" where
  "setTokenRecord tokens tokenUUID tr = tokens(tokenUUID \<mapsto> TF_token tr)"

definition checkExpirations :: "token_map \<Rightarrow> gotime \<Rightarrow> token_map" where
  "checkExpirations tokens now =
     (\<lambda>tokenID. case tokens tokenID of
        Some (TF_token tr) \<Rightarrow> if tokenRecord_IsExpired tr now then None else Some (TF_token tr)
      | other \<Rightarrow> other)"

section \<open>The cache and its callers\<close>

text \<open>
  A call of \<open>VerifyTrust\<close>: not started; started; waiting for the future of another call; asking the
  issuer; with the failed or the successful answer stored but the future not yet set; returned. A
  thread keeps the issuer, the token id and the time at which it looked into the cache.
\<close>

datatype vt_pc =
    VT_idle
  | VT_called string string jwt_Claims
  | VT_wait string string gotime nat
  | VT_request string string string string gotime nat
  | VT_failed string string gotime nat error
  | VT_stored string string gotime nat tokenRecord
  | VT_unverified string "unit res"
  | VT_done string string gotime "unit res"

record TokenCache =
  tc_expiration :: int
  tc_cache :: "string \<rightharpoonup> token_map"
  tc_futures :: "nat \<Rightarrow> tokenRecord Future"
  tc_next :: nat
  tc_now :: gotime
  tc_threads :: "nat \<Rightarrow> vt_pc"
  tc_answers :: "(gotime \<times> string \<times> string \<times> pb_Token) list"

definition NewTokenCache :: "string set \<Rightarrow> int \<Rightarrow> gotime \<Rightarrow> TokenCache" where
  "NewTokenCache clients expiration now =
     \<lparr> tc_expiration = expiration, tc_cache = (\<lambda>issuer. if issuer \<in> clients then Some Map.empty else None),
       tc_futures = (\<lambda>_. future_New), tc_next = 0, tc_now = now, tc_threads = (\<lambda>_. VT_idle),
       tc_answers = [] \<rparr>"

definition ErrBlackListedToken :: error where
  "ErrBlackListedToken = Errorf ''token is blacklisted'' []"

definition verdict :: "tokenRecord \<Rightarrow> unit res" where
  "verdict tr = (if tr_blacklisted tr then Inl ErrBlackListedToken else Inr ())"

text \<open>\<open>getTokenUUID\<close>, with \<open>getID\<close> of the claims at hand and \<open>uuid.Parse\<close>.\<close>

record token_env =
  te_getID :: "jwt_Claims \<Rightarrow> string res"
  te_uuid_Parse :: "string \<Rightarrow> string res"
  te_answer :: "string \<Rightarrow> string \<Rightarrow> string \<Rightarrow> pb_Token res \<Rightarrow> bool"

definition getTokenUUID :: "token_env \<Rightarrow> jwt_Claims \<Rightarrow> (string \<times> string) res" where
  "getTokenUUID E tokenClaims =
     (case te_getID E tokenClaims of
        Inl err \<Rightarrow> Inl err
      | Inr tokenID \<Rightarrow>
          (case te_uuid_Parse E tokenID of
             Inl err \<Rightarrow> Inl err
           | Inr tokenUUID \<Rightarrow> Inr (tokenID, tokenUUID)))"

definition set_thread :: "TokenCache \<Rightarrow> nat \<Rightarrow> vt_pc \<Rightarrow> TokenCache" where
  "set_thread c i pc = c\<lparr>tc_threads := (tc_threads c)(i := pc)\<rparr>"

definition set_tokens :: "TokenCache \<Rightarrow> string \<Rightarrow> token_map \<Rightarrow> TokenCache" where
  "set_tokens c issuer tokens = c\<lparr>tc_cache := (tc_cache c)(issuer \<mapsto> tokens)\<rparr>"

text \<open>
  \<open>VerifyTrust\<close> up to the point where it waits or asks: the issuer, the id of the token, and the
  critical section that looks into the cache.
\<close>

definition VerifyTrust_lookup ::
    "token_env \<Rightarrow> TokenCache \<Rightarrow> nat \<Rightarrow> string \<Rightarrow> string \<Rightarrow> jwt_Claims \<Rightarrow> TokenCache" where
  "VerifyTrust_lookup E c i issuer token tokenClaims =
     (case tc_cache c issuer of
        None \<Rightarrow> set_thread c i (VT_unverified issuer (Inr ()))
      | Some tokens \<Rightarrow>
          (case getTokenUUID E tokenClaims of
             Inl err \<Rightarrow> set_thread c i (VT_unverified issuer (Inl err))
           | Inr (tokenID, tokenUUID) \<Rightarrow>
               (case getValidTokenRecordOrFuture tokens (tc_now c) (tc_next c) tokenUUID of
                  (tokens, TF_future f, True) \<Rightarrow>
                    set_thread
                      ((set_tokens c issuer tokens)\<lparr>tc_futures := (tc_futures c)(f := future_New), tc_next := tc_next c + 1\<rparr>)
                      i (VT_request issuer token tokenID tokenUUID (tc_now c) f)
                | (tokens, TF_future f, False) \<Rightarrow> set_thread c i (VT_wait issuer tokenUUID (tc_now c) f)
                | (tokens, TF_token tr, _) \<Rightarrow> set_thread c i (VT_done issuer tokenUUID (tc_now c) (verdict tr)))))"

text \<open>
  The wait on the future of another call; \<open>None\<close> while it blocks. The last case, a future that is set to
  neither a record nor an error, is a failing type assertion in the code; it does not arise (lemma
  \<open>wait_enabled\<close>).
\<close>

definition VerifyTrust_wait ::
    "TokenCache \<Rightarrow> nat \<Rightarrow> error option \<Rightarrow> string \<Rightarrow> string \<Rightarrow> gotime \<Rightarrow> nat \<Rightarrow> TokenCache option" where
  "VerifyTrust_wait c i ctxErr issuer tokenUUID t f =
     (case future_Get (tc_futures c f) ctxErr of
        None \<Rightarrow> None
      | Some (_, Some err) \<Rightarrow> Some (set_thread c i (VT_done issuer tokenUUID t (Inl err)))
      | Some (Some tv, None) \<Rightarrow> Some (set_thread c i (VT_done issuer tokenUUID t (verdict tv)))
      | Some (None, None) \<Rightarrow> None)"

text \<open>
  After the answer of the issuer: the first critical section of
  \<open>removeTokenRecordAndSetErrorOnFuture\<close> or \<open>setTokenRecordAndWaitingFuture\<close>.
\<close>

definition VerifyTrust_answer ::
    "TokenCache \<Rightarrow> nat \<Rightarrow> pb_Token res \<Rightarrow> string \<Rightarrow> string \<Rightarrow> gotime \<Rightarrow> nat \<Rightarrow> TokenCache" where
  "VerifyTrust_answer c i resp issuer tokenUUID t f =
     (case resp of
        Inl err \<Rightarrow>
          set_thread (set_tokens c issuer (removeTokenRecord (the (tc_cache c issuer)) tokenUUID)) i
            (VT_failed issuer tokenUUID t f err)
      | Inr respToken \<Rightarrow>
          (let tr = newTokenRecord (tc_expiration c) (tc_now c) respToken in
           set_thread
             ((set_tokens c issuer (setTokenRecord (the (tc_cache c issuer)) tokenUUID tr))
                \<lparr>tc_answers := (tc_now c, issuer, tokenUUID, respToken) # tc_answers c\<rparr>) i
             (VT_stored issuer tokenUUID t f tr)))"

text \<open>The call of the function that sets the future, and the return.\<close>

definition set_future :: "TokenCache \<Rightarrow> nat \<Rightarrow> tokenRecord option \<Rightarrow> error option \<Rightarrow> TokenCache" where
  "set_future c f value err = c\<lparr>tc_futures := (tc_futures c)(f := future_set (tc_futures c f) value err)\<rparr>"

definition CheckExpirations :: "TokenCache \<Rightarrow> gotime \<Rightarrow> TokenCache" where
  "CheckExpirations c now = c\<lparr>tc_cache := (\<lambda>issuer. map_option (\<lambda>ic. checkExpirations ic now) (tc_cache c issuer))\<rparr>"

inductive vt_step :: "token_env \<Rightarrow> TokenCache \<Rightarrow> TokenCache \<Rightarrow> bool" for E where
  vt_call: "tc_threads c i = VT_idle \<Longrightarrow> vt_step E c (set_thread c i (VT_called issuer token claims))"
| vt_lookup: "tc_threads c i = VT_called issuer token claims \<Longrightarrow>
     vt_step E c (VerifyTrust_lookup E c i issuer token claims)"
| vt_wait: "tc_threads c i = VT_wait issuer tokenUUID t f \<Longrightarrow>
     VerifyTrust_wait c i ctxErr issuer tokenUUID t f = Some c' \<Longrightarrow> vt_step E c c'"
| vt_answer: "tc_threads c i = VT_request issuer token tokenID tokenUUID t f \<Longrightarrow>
     te_answer E issuer token tokenID resp \<Longrightarrow>
     vt_step E c (VerifyTrust_answer c i resp issuer tokenUUID t f)"
| vt_failed: "tc_threads c i = VT_failed issuer tokenUUID t f err \<Longrightarrow>
     vt_step E c (set_thread (set_future c f None (Some err)) i (VT_done issuer tokenUUID t (Inl err)))"
| vt_stored: "tc_threads c i = VT_stored issuer tokenUUID t f tr \<Longrightarrow>
     vt_step E c (set_thread (set_future c f (Some tr) None) i (VT_done issuer tokenUUID t (verdict tr)))"
| vt_expire: "vt_step E c (CheckExpirations c now)"
| vt_time: "tc_now c \<le> now \<Longrightarrow> vt_step E c (c\<lparr>tc_now := now\<rparr>)"

inductive vt_reachable :: "token_env \<Rightarrow> int \<Rightarrow> TokenCache \<Rightarrow> bool" for E expiration where
  vt_init: "0 \<le> now \<Longrightarrow> vt_reachable E expiration (NewTokenCache clients expiration now)"
| vt_next: "vt_reachable E expiration c \<Longrightarrow> vt_step E c c' \<Longrightarrow> vt_reachable E expiration c'"

section \<open>Keys\<close>

text \<open>
  The keys of an issuer by key id, each with its algorithm; \<open>jwk.Fetch\<close> is the parameter \<open>fetch\<close>, the
  conversion of a key \<open>raw\<close>. The token is its header and its method.
\<close>

record 'k KeyCache =
  kc_keys :: "(string \<rightharpoonup> 'k \<times> string) option"

record jwt_Token =
  jt_kid :: "go_value option"
  jt_Alg :: string
  jt_Claims :: "jwt_Claims option"

definition LookupKey :: "'k KeyCache \<Rightarrow> jwt_Token \<Rightarrow> 'k res" where
  "LookupKey c token =
     (case jt_kid token of
        Some (V_string i) \<Rightarrow>
          (case kc_keys c of
             None \<Rightarrow> Inl (Errorf ''empty JWK cache'' [])
           | Some keys \<Rightarrow>
               (case keys i of
                  Some (key, alg) \<Rightarrow>
                    if alg = jt_Alg token then Inr key else Inl (Errorf ''could not find JWK'' [])
                | None \<Rightarrow> Inl (Errorf ''could not find JWK'' [])))
      | _ \<Rightarrow> Inl (Errorf ''missing key id in token'' []))"

definition GetKey :: "('k \<Rightarrow> 'r res) \<Rightarrow> 'k KeyCache \<Rightarrow> jwt_Token \<Rightarrow> 'r res" where
  "GetKey raw c token = (case LookupKey c token of Inl err \<Rightarrow> Inl err | Inr key \<Rightarrow> raw key)"

definition FetchKeysWithContext :: "(string \<rightharpoonup> 'k \<times> string) res \<Rightarrow> 'k KeyCache \<Rightarrow> 'k KeyCache \<times> unit res" where
  "FetchKeysWithContext fetch c =
     (case fetch of
        Inl err \<Rightarrow> (c, Inl (Wrapf ''could not fetch JWK'' err))
      | Inr keys \<Rightarrow> (c\<lparr>kc_keys := Some keys\<rparr>, Inr ()))"

definition KeyCache_GetOrFetchKey ::
    "('k \<Rightarrow> 'r res) \<Rightarrow> (string \<rightharpoonup> 'k \<times> string) res \<Rightarrow> 'k KeyCache \<Rightarrow> jwt_Token \<Rightarrow> 'k KeyCache \<times> 'r res" where
  "KeyCache_GetOrFetchKey raw fetch c token =
     (case GetKey raw c token of
        Inr k \<Rightarrow> (c, Inr k)
      | Inl _ \<Rightarrow>
          (case FetchKeysWithContext fetch c of
             (c, Inl err) \<Rightarrow> (c, Inl err)
           | (c, Inr _) \<Rightarrow> (c, GetKey raw c token)))"

text \<open>The caches of all issuers, by their canonical URI without one trailing slash.\<close>

definition TrimSuffix_slash :: "string \<Rightarrow> string" where
  "TrimSuffix_slash s = (if s \<noteq> [] \<and> last s = CHR ''/'' then butlast s else s)"

definition MultiKeyCache_Add :: "(string \<rightharpoonup> 'k KeyCache) \<Rightarrow> string \<Rightarrow> (string \<rightharpoonup> 'k KeyCache)" where
  "MultiKeyCache_Add m authority = m(TrimSuffix_slash authority \<mapsto> \<lparr> kc_keys = None \<rparr>)"

definition getIssuer :: "(jwt_Claims \<Rightarrow> string res) \<Rightarrow> jwt_Token \<Rightarrow> string res" where
  "getIssuer GetIssuer token =
     (case jt_Claims token of
        None \<Rightarrow> Inl ErrMissingClaims
      | Some claims \<Rightarrow>
          (case GetIssuer claims of
             Inl _ \<Rightarrow> Inl (Errorf ''missing issuer'' [])
           | Inr issuer \<Rightarrow> Inr (CanonicalURI issuer)))"

definition MultiKeyCache_GetOrFetchKey ::
    "(jwt_Claims \<Rightarrow> string res) \<Rightarrow> ('k \<Rightarrow> 'r res) \<Rightarrow> (string \<Rightarrow> (string \<rightharpoonup> 'k \<times> string) res)
     \<Rightarrow> (string \<rightharpoonup> 'k KeyCache) \<Rightarrow> jwt_Token \<Rightarrow> (string \<rightharpoonup> 'k KeyCache) \<times> 'r res" where
  "MultiKeyCache_GetOrFetchKey GetIssuer raw fetch m token =
     (case getIssuer GetIssuer token of
        Inl err \<Rightarrow> (m, Inl err)
      | Inr issuer \<Rightarrow>
          (case m issuer of
             None \<Rightarrow> (m, Inl (Errorf ''unknown issuer %v'' [issuer]))
           | Some kc \<Rightarrow>
               (case KeyCache_GetOrFetchKey raw (fetch issuer) kc token of
                  (kc, r) \<Rightarrow> (m(issuer \<mapsto> kc), r))))"

section \<open>The validator\<close>

text \<open>
  \<open>trust\<close> is the result of \<open>VerifyTrust\<close> for an issuer, a token and claims; it is absent when the
  validator was made without verification of trust. \<open>parse\<close> is \<open>jwt.ParseWithClaims\<close> with the key
  cache: it checks the signature and validates the claims, or fails.
\<close>

definition checkTrust ::
    "(jwt_Claims \<Rightarrow> string res) \<Rightarrow> (string \<Rightarrow> string \<Rightarrow> jwt_Claims \<Rightarrow> unit res) \<Rightarrow> string \<Rightarrow> jwt_Claims \<Rightarrow> unit res" where
  "checkTrust GetIssuer trust token claims =
     (case GetIssuer claims of
        Inl err \<Rightarrow> Inl err
      | Inr issuer \<Rightarrow> trust (CanonicalURI issuer) token claims)"

definition Validator_ParseWithClaims ::
    "(jwt_Claims \<Rightarrow> string res) \<Rightarrow> (string \<Rightarrow> string \<Rightarrow> jwt_Claims \<Rightarrow> unit res) option
     \<Rightarrow> (string \<Rightarrow> jwt_Claims res) \<Rightarrow> string \<Rightarrow> jwt_Claims res" where
  "Validator_ParseWithClaims GetIssuer trust parse token =
     (if token = '''' then Inl ErrMissingToken
      else case parse token of
          Inl err \<Rightarrow> Inl (Wrapf ''could not parse token'' err)
        | Inr claims \<Rightarrow>
            (case trust of
               None \<Rightarrow> Inr claims
             | Some tr \<Rightarrow>
                 (case checkTrust GetIssuer tr token claims of
                    Inl err \<Rightarrow> Inl (Wrapf ''could not verify token trust'' err)
                  | Inr _ \<Rightarrow> Inr claims)))"

end
