(* ===== verification/Token_Claims_Properties.thy ===== *)
theory Token_Claims_Properties
  imports Token_Claims
begin

text \<open>
  What the check of required scopes decides, and what the owner and the subject read from a token are.
\<close>

section \<open>Quoting\<close>

lemma QuoteMeta_inj: "QuoteMeta s = QuoteMeta t \<Longrightarrow> s = t"
proof (induction s arbitrary: t)
  case Nil
  then show ?case by (cases t) (auto split: if_splits)
next
  case (Cons c s)
  obtain d u where t: "t = d # u"
    using Cons.prems by (cases t) (auto split: if_splits)
  have b: "CHR 0x5C \<in> set meta_chars" by (simp add: meta_chars_def)
  have "c = d" using Cons.prems b by (auto simp: t split: if_splits)
  moreover have "QuoteMeta s = QuoteMeta u" using Cons.prems b by (auto simp: t split: if_splits)
  ultimately show ?case using Cons.IH by (simp add: t)
qed

section \<open>Matching\<close>

lemma match_required_eq:
  "match_required rs scope m = m - {rx_String r | r. r \<in> set rs \<and> rx_MatchString r scope}"
  by (induction rs arbitrary: m) auto

lemma match_all_required:
  "foldl (\<lambda>m scope. match_required rs scope m) m scopes
     = m - {rx_String r | r scope. r \<in> set rs \<and> scope \<in> set scopes \<and> rx_MatchString r scope}"
  by (induction scopes arbitrary: m) (auto simp: match_required_eq)

text \<open>Regular expressions with the same text match the same strings.\<close>

definition rx_consistent :: "go_regexp list \<Rightarrow> bool" where
  "rx_consistent rs \<longleftrightarrow> (\<forall>r\<in>set rs. \<forall>r'\<in>set rs. rx_String r = rx_String r' \<longrightarrow> rx_MatchString r = rx_MatchString r')"

lemma quoted_consistent: "rx_consistent (map quoted_regexp scope)"
  by (auto simp: rx_consistent_def quoted_regexp_def dest: QuoteMeta_inj)

lemma all_matched_iff:
  assumes "rx_consistent rs"
  shows "foldl (\<lambda>m scope. match_required rs scope m) (set (map rx_String rs)) scopes = {}
         \<longleftrightarrow> (\<forall>r\<in>set rs. \<exists>scope\<in>set scopes. rx_MatchString r scope)" (is "?L \<longleftrightarrow> ?R")
proof
  assume ?L
  show ?R
  proof
    fix r assume r: "r \<in> set rs"
    then have "rx_String r \<in> {rx_String r | r scope. r \<in> set rs \<and> scope \<in> set scopes \<and> rx_MatchString r scope}"
      using \<open>?L\<close> unfolding match_all_required by auto
    then obtain r' scope where r': "r' \<in> set rs" "rx_String r = rx_String r'"
      and m: "scope \<in> set scopes" "rx_MatchString r' scope" by blast
    have "rx_MatchString r = rx_MatchString r'" using assms r r' unfolding rx_consistent_def by blast
    then show "\<exists>scope\<in>set scopes. rx_MatchString r scope" using m by auto
  qed
next
  assume ?R
  then have "set (map rx_String rs)
      \<subseteq> {rx_String r | r scope. r \<in> set rs \<and> scope \<in> set scopes \<and> rx_MatchString r scope}"
    unfolding set_map by blast
  then show ?L unfolding match_all_required by blast
qed

lemma scope_key_ne: "''scope'' \<noteq> PlgdRequiredScope"
  by (simp add: PlgdRequiredScope_def)

lemma decoded_lookup:
  assumes "payload PlgdRequiredScope = None"
  shows "decode_claims (NewRegexpScopeClaims rs) payload PlgdRequiredScope = Some (Claim_regexps rs)"
    and "GetScope (decode_claims (NewRegexpScopeClaims rs) payload) = GetScope payload"
  using assms scope_key_ne
  by (simp_all add: decode_claims_def NewRegexpScopeClaims_def GetScope_def parseClaimStrings_def map_add_def
      split: option.splits)

lemma regexp_scopes_checked:
  assumes "payload PlgdRequiredScope = None" and "rx_consistent rs"
  shows "ScopeClaims_Validate (decode_claims (NewRegexpScopeClaims rs) payload) = Inr () \<longleftrightarrow>
     rs = [] \<or> (\<exists>scopes. GetScope payload = Inr scopes \<and>
                  (\<forall>r\<in>set rs. \<exists>scope\<in>set scopes. rx_MatchString r scope))"
proof (cases "GetScope payload")
  case (Inl err)
  then show ?thesis
    by (simp add: ScopeClaims_Validate_def decoded_lookup [where payload = payload, OF assms(1)] Let_def)
next
  case (Inr scopes)
  then show ?thesis
    by (simp del: set_map add: ScopeClaims_Validate_def decoded_lookup [where payload = payload, OF assms(1)] Let_def
        all_matched_iff [OF assms(2)])
qed

section \<open>Properties\<close>

text \<open>For a token that does not itself carry the claim \<open>plgd:required:scope\<close>, the check of required
  scopes accepts exactly if nothing is required, or the claim \<open>scope\<close> is readable and every required
  scope is part of some scope of the token.
\<close>

theorem required_scopes_checked:
  assumes "payload PlgdRequiredScope = None"
  shows "ScopeClaims_Validate (decode_claims (NewScopeClaims required) payload) = Inr () \<longleftrightarrow>
     required = [] \<or> (\<exists>scopes. GetScope payload = Inr scopes \<and>
                        (\<forall>s\<in>set required. \<exists>scope\<in>set scopes. sublist s scope))"
  unfolding NewScopeClaims_def regexp_scopes_checked [where payload = payload, OF assms quoted_consistent]
  by (simp add: quoted_regexp_def)

definition ex_payload :: jwt_Claims where
  "ex_payload = [''scope'' \<mapsto> Claim (V_string ''openid r:deviceinformation'')]"

theorem required_scopes_checked_witness:
  "ScopeClaims_Validate (decode_claims (NewScopeClaims [''r:device'', ''openid'']) ex_payload) = Inr ()"
proof -
  have "ex_payload PlgdRequiredScope = None" by (simp add: ex_payload_def PlgdRequiredScope_def)
  note iff = required_scopes_checked [where payload = ex_payload and required = "[''r:device'', ''openid'']", OF this]
  have "GetScope ex_payload = Inr [''openid'', ''r:deviceinformation'']"
    by (simp add: ex_payload_def GetScope_def parseClaimStrings_def claim_go_def strings_ToSlice_def)
  moreover have "sublist ''r:device'' ''r:deviceinformation''" "sublist ''openid'' ''openid''" by code_simp+
  ultimately show ?thesis unfolding iff by auto
qed

text \<open>A token whose payload has a null claim \<open>plgd:required:scope\<close> passes the check of required scopes
  whatever is required and whatever scopes it has.
\<close>

theorem required_scopes_overridden:
  assumes "payload PlgdRequiredScope = Some (Claim V_nil)"
  shows "ScopeClaims_Validate (decode_claims (NewScopeClaims required) payload) = Inr ()"
  using assms by (simp add: ScopeClaims_Validate_def decode_claims_def map_add_def)

theorem required_scopes_overridden_witness:
  "ScopeClaims_Validate (decode_claims (NewScopeClaims [''admin'']) [PlgdRequiredScope \<mapsto> Claim V_nil]) = Inr ()"
  by (rule required_scopes_overridden) simp

section \<open>Owner and subject\<close>

lemma parseString_Inr:
  "parseString c claim = Inr s \<longleftrightarrow> (c claim = None \<and> s = '''') \<or> (\<exists>v. c claim = Some v \<and> claim_go v = V_string s)"
  by (auto simp: parseString_def strings_ToString_def split: option.splits go_value.splits if_splits)

lemma parseTokenMD_owner:
  assumes "parseTokenMD A ownerClaim = Inr (owner, user)"
  shows "OwnerFromTokenMD A ownerClaim = Inr owner" and "SubjectFromTokenMD A = Inr user"
    and "owner \<noteq> ''''" and "user \<noteq> ''''"
  using assms
  by (auto simp: parseTokenMD_def OwnerFromTokenMD_def SubjectFromTokenMD_def ParseOwnerFromJwtToken_def
      split: sum.splits if_splits)

lemma ValidateOwnerClaim_iff:
  "ValidateOwnerClaim c ownerClaim user = Inr () \<longleftrightarrow>
     (\<exists>v. c ownerClaim = Some v \<and> claim_go v = V_string user)"
  by (auto simp: ValidateOwnerClaim_def split: option.splits go_value.splits if_splits)

text \<open>The owner check of a device agrees with the owner the other services read from the same token.\<close>

lemma ValidateOwnerClaim_GetOwner:
  "user \<noteq> '''' \<Longrightarrow> ValidateOwnerClaim c ownerClaim user = Inr () \<longleftrightarrow> Claims_GetOwner c ownerClaim = Inr user"
  by (auto simp: ValidateOwnerClaim_iff Claims_GetOwner_def parseString_Inr)

lemma getID_agree:
  "c ''jti'' \<noteq> None \<Longrightarrow> getID_Claims c = getID_MapClaims c"
  by (auto simp: getID_Claims_def getID_MapClaims_def Claims_GetID_def parseString_def strings_ToString_def
      split: option.splits go_value.splits)

lemma getID_missing:
  assumes "c ''jti'' = None"
  shows "getID_Claims c = Inr ''''" and "getID_MapClaims c = Inl ErrMissingID"
  using assms by (simp_all add: getID_Claims_def getID_MapClaims_def Claims_GetID_def parseString_def)

end
