(* ===== verification/Token_Cache_Properties.thy ===== *)
theory Token_Cache_Properties
  imports Token_Cache Token_Claims_Properties
begin

text \<open>
  The verification of tokens by many callers at once: an invariant of all interleavings, from which
  follow that an issuer is asked by one caller at a time, that no caller waits for a future nobody
  sets, and that acceptance rests on an answer of the issuer that is recent enough.
\<close>

section \<open>The invariant\<close>

definition entry :: "TokenCache \<Rightarrow> string \<Rightarrow> string \<Rightarrow> tokenOrFuture option" where
  "entry c issuer u = (case tc_cache c issuer of None \<Rightarrow> None | Some tokens \<Rightarrow> tokens u)"

text \<open>The thread asks the issuer; it has the duty to set a future.\<close>

definition asks :: "vt_pc \<Rightarrow> string \<Rightarrow> string \<Rightarrow> nat \<Rightarrow> bool" where
  "asks pc issuer u f \<longleftrightarrow> (\<exists>token tokenID t. pc = VT_request issuer token tokenID u t f)"

definition leads :: "vt_pc \<Rightarrow> string \<Rightarrow> string \<Rightarrow> nat \<Rightarrow> bool" where
  "leads pc issuer u f \<longleftrightarrow>
     asks pc issuer u f \<or> (\<exists>t err. pc = VT_failed issuer u t f err) \<or> (\<exists>t tr. pc = VT_stored issuer u t f tr)"

text \<open>The record is made from an answer of the issuer that came at \<open>t\<close> or later.\<close>

definition fresh :: "TokenCache \<Rightarrow> string \<Rightarrow> string \<Rightarrow> gotime \<Rightarrow> tokenRecord \<Rightarrow> bool" where
  "fresh c issuer u t tr \<longleftrightarrow>
     (\<exists>t0 resp. (t0, issuer, u, resp) \<in> set (tc_answers c) \<and> t \<le> t0 \<and> tr = newTokenRecord (tc_expiration c) t0 resp)"

definition accepted :: "TokenCache \<Rightarrow> string \<Rightarrow> string \<Rightarrow> gotime \<Rightarrow> bool" where
  "accepted c issuer u t \<longleftrightarrow>
     (\<exists>t0 resp. (t0, issuer, u, resp) \<in> set (tc_answers c) \<and> \<not> tk_Flag resp \<and>
        (0 < tc_expiration c \<longrightarrow> t \<le> t0 + tc_expiration c))"

definition lead_ok :: "TokenCache \<Rightarrow> string \<Rightarrow> nat \<Rightarrow> bool" where
  "lead_ok c issuer f \<longleftrightarrow> f < tc_next c \<and> \<not> fut_ready (tc_futures c f) \<and> \<not> fut_blockSet (tc_futures c f) \<and>
     tc_cache c issuer \<noteq> None"

definition set_ok :: "TokenCache \<Rightarrow> string \<Rightarrow> string \<Rightarrow> gotime \<Rightarrow> nat \<Rightarrow> bool" where
  "set_ok c issuer u t f \<longleftrightarrow> fut_ready (tc_futures c f) \<and>
     (fut_err (tc_futures c f) = None \<longrightarrow> (\<exists>tr. fut_value (tc_futures c f) = Some tr \<and> fresh c issuer u t tr))"

definition led :: "TokenCache \<Rightarrow> string \<Rightarrow> string \<Rightarrow> gotime \<Rightarrow> nat \<Rightarrow> bool" where
  "led c issuer u t f \<longleftrightarrow> (\<exists>j. leads (tc_threads c j) issuer u f \<and>
     (\<forall>t' tr. tc_threads c j = VT_stored issuer u t' f tr \<longrightarrow> fresh c issuer u t tr))"

fun pc_ok :: "TokenCache \<Rightarrow> vt_pc \<Rightarrow> bool" where
  "pc_ok c (VT_wait issuer u t f) \<longleftrightarrow> f < tc_next c \<and> t \<le> tc_now c \<and> (set_ok c issuer u t f \<or> led c issuer u t f)"
| "pc_ok c (VT_request issuer token tokenID u t f) \<longleftrightarrow> t \<le> tc_now c \<and> lead_ok c issuer f"
| "pc_ok c (VT_failed issuer u t f err) \<longleftrightarrow> lead_ok c issuer f"
| "pc_ok c (VT_stored issuer u t f tr) \<longleftrightarrow> lead_ok c issuer f \<and> fresh c issuer u t tr"
| "pc_ok c (VT_done issuer u t r) \<longleftrightarrow> (r = Inr () \<longrightarrow> accepted c issuer u t)"
| "pc_ok c _ \<longleftrightarrow> True"

definition entries_ok :: "TokenCache \<Rightarrow> bool" where
  "entries_ok c \<longleftrightarrow>
     (\<forall>issuer u f. entry c issuer u = Some (TF_future f) \<longleftrightarrow> (\<exists>i. asks (tc_threads c i) issuer u f)) \<and>
     (\<forall>issuer u tr. entry c issuer u = Some (TF_token tr) \<longrightarrow> fresh c issuer u 0 tr)"

definition one_leader :: "TokenCache \<Rightarrow> bool" where
  "one_leader c \<longleftrightarrow>
     (\<forall>i j issuer u f issuer' u'. leads (tc_threads c i) issuer u f \<longrightarrow> leads (tc_threads c j) issuer' u' f \<longrightarrow> i = j)"

definition times_ok :: "TokenCache \<Rightarrow> bool" where
  "times_ok c \<longleftrightarrow> 0 \<le> tc_now c \<and> (\<forall>(t0, a) \<in> set (tc_answers c). 0 \<le> t0 \<and> t0 \<le> tc_now c)"

definition vt_inv :: "TokenCache \<Rightarrow> bool" where
  "vt_inv c \<longleftrightarrow> times_ok c \<and> entries_ok c \<and> one_leader c \<and> (\<forall>i. pc_ok c (tc_threads c i))"

lemma vt_invD:
  assumes "vt_inv c"
  shows "times_ok c" and "one_leader c" and "pc_ok c (tc_threads c i)"
    and "entry c issuer u = Some (TF_future f) \<longleftrightarrow> (\<exists>i. asks (tc_threads c i) issuer u f)"
    and "entry c issuer u = Some (TF_token tr) \<Longrightarrow> fresh c issuer u 0 tr"
  using assms unfolding vt_inv_def entries_ok_def by blast+

lemma vt_init_inv: "0 \<le> now \<Longrightarrow> vt_inv (NewTokenCache clients expiration now)"
  by (auto simp: vt_inv_def times_ok_def entries_ok_def one_leader_def NewTokenCache_def entry_def asks_def leads_def
      split: if_splits)

section \<open>Steps\<close>

lemma set_thread_simps [simp]:
  "tc_cache (set_thread c i pc) = tc_cache c" "tc_futures (set_thread c i pc) = tc_futures c"
  "tc_next (set_thread c i pc) = tc_next c" "tc_now (set_thread c i pc) = tc_now c"
  "tc_answers (set_thread c i pc) = tc_answers c" "tc_expiration (set_thread c i pc) = tc_expiration c"
  "tc_threads (set_thread c i pc) = (tc_threads c)(i := pc)"
  by (simp_all add: set_thread_def)

lemma set_tokens_simps [simp]:
  "tc_threads (set_tokens c issuer m) = tc_threads c" "tc_futures (set_tokens c issuer m) = tc_futures c"
  "tc_next (set_tokens c issuer m) = tc_next c" "tc_now (set_tokens c issuer m) = tc_now c"
  "tc_answers (set_tokens c issuer m) = tc_answers c" "tc_expiration (set_tokens c issuer m) = tc_expiration c"
  "tc_cache (set_tokens c issuer m) = (tc_cache c)(issuer \<mapsto> m)"
  by (simp_all add: set_tokens_def)

text \<open>What a state keeps of the facts about another: more answers, the same expiration.\<close>

definition keeps :: "TokenCache \<Rightarrow> TokenCache \<Rightarrow> bool" where
  "keeps c c' \<longleftrightarrow> set (tc_answers c) \<subseteq> set (tc_answers c') \<and> tc_expiration c' = tc_expiration c"

lemma fresh_keeps: "keeps c c' \<Longrightarrow> fresh c issuer u t tr \<Longrightarrow> fresh c' issuer u t tr"
  by (auto simp: keeps_def fresh_def)

lemma accepted_keeps: "keeps c c' \<Longrightarrow> accepted c issuer u t \<Longrightarrow> accepted c' issuer u t"
  by (auto simp: keeps_def accepted_def)

lemma fresh_le: "fresh c issuer u t tr \<Longrightarrow> t' \<le> t \<Longrightarrow> fresh c issuer u t' tr"
  unfolding fresh_def by force

lemma asks_leads: "asks pc issuer u f \<Longrightarrow> leads pc issuer u f"
  by (simp add: leads_def)

lemma leads_fun:
  assumes "leads pc issuer u f" and "leads pc issuer' u' f'"
  shows "issuer' = issuer \<and> u' = u \<and> f' = f"
  using assms unfolding leads_def asks_def by auto

lemma pc_ok_leads: "pc_ok c pc \<Longrightarrow> leads pc issuer u f \<Longrightarrow> lead_ok c issuer f"
  unfolding leads_def asks_def by auto

text \<open>
  The general step of a thread that does not set its future: the facts about the other threads carry
  over when the futures in use are the same and the duty of the thread is kept.
\<close>

lemma led_step:
  assumes "led c issuer u t f" and "t \<le> tc_now c" and "keeps c c'"
    and th: "tc_threads c' = (tc_threads c)(i := new)"
    and kept: "\<And>issuer u f. leads (tc_threads c i) issuer u f \<Longrightarrow> leads new issuer u f"
    and stored: "\<And>issuer u f t t' tr. leads (tc_threads c i) issuer u f \<Longrightarrow> new = VT_stored issuer u t' f tr \<Longrightarrow>
      t \<le> tc_now c \<Longrightarrow> fresh c' issuer u t tr"
  shows "led c' issuer u t f"
proof -
  obtain j where j: "leads (tc_threads c j) issuer u f"
    and fr: "\<And>t' tr. tc_threads c j = VT_stored issuer u t' f tr \<Longrightarrow> fresh c issuer u t tr"
    using assms(1) unfolding led_def by blast
  show ?thesis
  proof (cases "j = i")
    case True
    then have l: "leads (tc_threads c i) issuer u f" using j by simp
    then have "\<forall>t' tr. tc_threads c' i = VT_stored issuer u t' f tr \<longrightarrow> fresh c' issuer u t tr"
      using stored [OF l _ assms(2)] by (simp add: th)
    moreover have "leads (tc_threads c' i) issuer u f" using kept [OF l] by (simp add: th)
    ultimately show ?thesis unfolding led_def by blast
  next
    case False
    then have "tc_threads c' j = tc_threads c j" by (simp add: th)
    then show ?thesis using j fr fresh_keeps [OF assms(3)] unfolding led_def by metis
  qed
qed

lemma pc_ok_step:
  assumes "pc_ok c pc" and k: "keeps c c'"
    and n: "tc_next c \<le> tc_next c'" and now: "tc_now c \<le> tc_now c'"
    and fut: "\<And>f. f < tc_next c \<Longrightarrow> tc_futures c' f = tc_futures c f"
    and cache: "\<And>issuer. tc_cache c issuer \<noteq> None \<Longrightarrow> tc_cache c' issuer \<noteq> None"
    and led: "\<And>issuer u t f. led c issuer u t f \<Longrightarrow> t \<le> tc_now c \<Longrightarrow> led c' issuer u t f"
  shows "pc_ok c' pc"
proof -
  have lead: "lead_ok c' issuer f" if "lead_ok c issuer f" for issuer f
    using that fut cache n unfolding lead_ok_def by fastforce
  have set: "set_ok c' issuer u t f" if "set_ok c issuer u t f" "f < tc_next c" for issuer u t f
    using that fut fresh_keeps [OF k] unfolding set_ok_def by force
  show ?thesis
  proof (cases pc)
    case (VT_wait issuer u t f)
    then show ?thesis using assms(1) set led n now by (auto intro: le_trans)
  qed (use assms(1) lead n now fresh_keeps [OF k] accepted_keeps [OF k] in \<open>auto\<close>)
qed

lemma thread_step:
  assumes inv: "vt_inv c" and k: "keeps c c'"
    and th: "tc_threads c' = (tc_threads c)(i := new)"
    and n: "tc_next c \<le> tc_next c'" and now: "tc_now c \<le> tc_now c'"
    and fut: "\<And>f. f < tc_next c \<Longrightarrow> tc_futures c' f = tc_futures c f"
    and cache: "\<And>issuer. tc_cache c issuer \<noteq> None \<Longrightarrow> tc_cache c' issuer \<noteq> None"
    and times: "times_ok c'" and entries: "entries_ok c'" and ok: "pc_ok c' new"
    and kept: "\<And>issuer u f. leads (tc_threads c i) issuer u f \<Longrightarrow> leads new issuer u f"
    and stored: "\<And>issuer u f t t' tr. leads (tc_threads c i) issuer u f \<Longrightarrow> new = VT_stored issuer u t' f tr \<Longrightarrow>
      t \<le> tc_now c \<Longrightarrow> fresh c' issuer u t tr"
    and fresh_lead: "\<And>issuer u f. leads new issuer u f \<Longrightarrow> leads (tc_threads c i) issuer u f \<or> tc_next c \<le> f"
  shows "vt_inv c'"
proof -
  note led' = led_step [OF _ _ k th kept stored]
  have old: "pc_ok c' (tc_threads c j)" for j
    by (rule pc_ok_step [OF vt_invD(3) [OF inv] k n now fut cache led'])
  have all: "\<forall>j. pc_ok c' (tc_threads c' j)" using old ok by (simp add: th)
  have unique: "leads (tc_threads c j) a b f \<Longrightarrow> leads (tc_threads c l) a' b' f \<Longrightarrow> j = l" for j l a b f a' b'
    using vt_invD(2) [OF inv] unfolding one_leader_def by blast
  have small: "f < tc_next c" if "leads (tc_threads c j) a b f" for j a b f
    using pc_ok_leads [OF vt_invD(3) [OF inv] that] by (simp add: lead_ok_def)
  have one: "one_leader c'"
    unfolding one_leader_def
  proof (intro allI impI)
    fix j l a b f a' b'
    assume j: "leads (tc_threads c' j) a b f" and l: "leads (tc_threads c' l) a' b' f"
    consider "j = i" "l = i" | "j = i" "l \<noteq> i" | "j \<noteq> i" "l = i" | "j \<noteq> i" "l \<noteq> i" by blast
    then show "j = l"
    proof cases
      case 2
      have l2: "leads (tc_threads c l) a' b' f" and j2: "leads new a b f" using j l 2 by (simp_all add: th)
      from fresh_lead [OF j2] show ?thesis
      proof
        assume "leads (tc_threads c i) a b f"
        from unique [OF this l2] 2 show ?thesis by simp
      qed (use small [OF l2] in simp)
    next
      case 3
      have j2: "leads (tc_threads c j) a b f" and l2: "leads new a' b' f" using j l 3 by (simp_all add: th)
      from fresh_lead [OF l2] show ?thesis
      proof
        assume "leads (tc_threads c i) a' b' f"
        from unique [OF this j2] 3 show ?thesis by simp
      qed (use small [OF j2] in simp)
    next
      case 4
      then show ?thesis using j l unique by (simp add: th)
    qed simp
  qed
  show ?thesis unfolding vt_inv_def using times entries one all by blast
qed

lemma keeps_refl [simp]: "keeps c (set_thread c' i pc) = keeps c c'" "keeps c c"
  by (simp_all add: keeps_def)

lemma set_thread_quiet [simp]:
  "fresh (set_thread c i pc) = fresh c" "accepted (set_thread c i pc) = accepted c"
  "entry (set_thread c i pc) = entry c" "times_ok (set_thread c i pc) = times_ok c"
  by (simp_all add: fresh_def accepted_def entry_def times_ok_def fun_eq_iff)

lemma asks_upd:
  assumes "\<And>f. asks (tc_threads c i) issuer u f = asks pc issuer u f"
  shows "(\<exists>j. asks (((tc_threads c)(i := pc)) j) issuer u f) \<longleftrightarrow> (\<exists>j. asks (tc_threads c j) issuer u f)"
  using assms by (metis fun_upd_apply)

definition idle :: "vt_pc \<Rightarrow> bool" where
  "idle pc \<longleftrightarrow> (\<forall>issuer u f. \<not> leads pc issuer u f)"

lemma idle_asks: "idle pc \<Longrightarrow> \<not> asks pc issuer u f"
  by (simp add: idle_def leads_def)

lemma idle_simps [simp]:
  "idle VT_idle" "idle (VT_called a b cl)" "idle (VT_wait a b t f)" "idle (VT_unverified a r)" "idle (VT_done a b t r)"
  by (simp_all add: idle_def leads_def asks_def)

lemma quiet_step:
  assumes inv: "vt_inv c" and old: "idle (tc_threads c i)" and new: "idle new" and ok: "pc_ok (set_thread c i new) new"
  shows "vt_inv (set_thread c i new)"
proof (rule thread_step [where i = i and new = new, OF inv])
  show "entries_ok (set_thread c i new)"
    using vt_invD(4,5) [OF inv] asks_upd [where c = c and i = i and pc = new] idle_asks [OF old] idle_asks [OF new]
    by (simp add: entries_ok_def)
  show "times_ok (set_thread c i new)" using vt_invD(1) [OF inv] by simp
qed (use ok old new in \<open>auto simp: idle_def\<close>)

lemma verdict_accepts: "verdict tr = Inr () \<longleftrightarrow> \<not> tr_blacklisted tr"
  by (simp add: verdict_def)

lemma fresh_accepts:
  assumes f: "fresh c issuer u t0 tr" and v: "verdict tr = Inr ()" and times: "times_ok c"
    and t: "t \<le> t0 \<or> \<not> tokenRecord_IsExpired tr t"
  shows "accepted c issuer u t"
proof -
  obtain t1 resp where r: "(t1, issuer, u, resp) \<in> set (tc_answers c)" "t0 \<le> t1"
    and tr: "tr = newTokenRecord (tc_expiration c) t1 resp"
    using f unfolding fresh_def by blast
  have flag: "\<not> tk_Flag resp" using v by (simp add: verdict_accepts tr newTokenRecord_def)
  have pos: "0 \<le> t1" using times r(1) unfolding times_ok_def by fastforce
  have "t \<le> t1 + tc_expiration c" if "0 < tc_expiration c"
    using t r(2) that flag pos
    by (auto simp: tr tokenRecord_IsExpired_def newTokenRecord_def getValidUntil_def IsZero_def zero_time_def Let_def)
  then show ?thesis using r(1) flag unfolding accepted_def by blast
qed

section \<open>Every step keeps the invariant\<close>

lemma lookup_cases:
  assumes "c' = VerifyTrust_lookup E c i issuer token claims"
  obtains (unverified) r where "c' = set_thread c i (VT_unverified issuer r)"
  | (waits) u f where "entry c issuer u = Some (TF_future f)" "c' = set_thread c i (VT_wait issuer u (tc_now c) f)"
  | (cached) u tr where "entry c issuer u = Some (TF_token tr)" "\<not> tokenRecord_IsExpired tr (tc_now c)"
      "c' = set_thread c i (VT_done issuer u (tc_now c) (verdict tr))"
  | (asking) tokens tokenID u where "tc_cache c issuer = Some tokens" "\<And>f. tokens u \<noteq> Some (TF_future f)"
      "c' = set_thread ((set_tokens c issuer (tokens(u \<mapsto> TF_future (tc_next c))))
              \<lparr>tc_futures := (tc_futures c)(tc_next c := future_New), tc_next := tc_next c + 1\<rparr>)
            i (VT_request issuer token tokenID u (tc_now c) (tc_next c))"
      "getTokenUUID E claims = Inr (tokenID, u)"
proof (cases "tc_cache c issuer")
  case None
  then show ?thesis using assms unverified by (simp add: VerifyTrust_lookup_def)
next
  case (Some tokens)
  show ?thesis
  proof (cases "getTokenUUID E claims")
    case (Inl err)
    then show ?thesis using assms unverified Some by (simp add: VerifyTrust_lookup_def)
  next
    case (Inr p)
    obtain tokenID u where p: "p = (tokenID, u)" by (cases p)
    have c': "c' = (case getValidTokenRecordOrFuture tokens (tc_now c) (tc_next c) u of
                  (tokens, TF_future f, True) \<Rightarrow>
                    set_thread
                      ((set_tokens c issuer tokens)\<lparr>tc_futures := (tc_futures c)(f := future_New), tc_next := tc_next c + 1\<rparr>)
                      i (VT_request issuer token tokenID u (tc_now c) f)
                | (tokens, TF_future f, False) \<Rightarrow> set_thread c i (VT_wait issuer u (tc_now c) f)
                | (tokens, TF_token tr, _) \<Rightarrow> set_thread c i (VT_done issuer u (tc_now c) (verdict tr)))"
      using assms Some Inr by (simp add: VerifyTrust_lookup_def p)
    consider (none) "tokens u = None" | (future) f where "tokens u = Some (TF_future f)"
      | (expired) tr where "tokens u = Some (TF_token tr)" "tokenRecord_IsExpired tr (tc_now c)"
      | (valid) tr where "tokens u = Some (TF_token tr)" "\<not> tokenRecord_IsExpired tr (tc_now c)"
      by (metis option.exhaust tokenOrFuture.exhaust)
    then show ?thesis
    proof cases
      case none
      then show ?thesis using Some c' Inr p by (intro asking) (auto simp: getValidTokenRecordOrFuture_def)
    next
      case future
      then show ?thesis using Some c' by (intro waits) (auto simp: getValidTokenRecordOrFuture_def entry_def)
    next
      case expired
      then show ?thesis using Some c' Inr p by (intro asking) (auto simp: getValidTokenRecordOrFuture_def)
    next
      case valid
      then show ?thesis using Some c' by (intro cached) (auto simp: getValidTokenRecordOrFuture_def entry_def)
    qed
  qed
qed

lemma entry_upd:
  assumes "tc_cache c issuer = Some tokens"
    and "tc_cache c' = (tc_cache c)(issuer \<mapsto> tokens(u := x))"
  shows "entry c' a b = (if a = issuer \<and> b = u then x else entry c a b)"
  using assms by (auto simp: entry_def)

lemma asking_inv:
  assumes inv: "vt_inv c" and old: "idle (tc_threads c i)" and m: "tc_cache c issuer = Some tokens"
    and free: "\<And>f. tokens u \<noteq> Some (TF_future f)"
  shows "vt_inv (set_thread ((set_tokens c issuer (tokens(u \<mapsto> TF_future (tc_next c))))
              \<lparr>tc_futures := (tc_futures c)(tc_next c := future_New), tc_next := tc_next c + 1\<rparr>)
            i (VT_request issuer token tokenID u (tc_now c) (tc_next c)))" (is "vt_inv ?c")
proof (rule thread_step [where i = i and new = "VT_request issuer token tokenID u (tc_now c) (tc_next c)", OF inv])
  let ?new = "VT_request issuer token tokenID u (tc_now c) (tc_next c)"
  have e: "entry ?c a b = (if a = issuer \<and> b = u then Some (TF_future (tc_next c)) else entry c a b)" for a b
    by (rule entry_upd [OF m]) simp
  have none: "\<not> asks (tc_threads c j) issuer u f" for j f
    using vt_invD(4) [OF inv, of issuer u f] m free by (auto simp: entry_def)
  have a: "asks (tc_threads ?c j) a b f \<longleftrightarrow> (if j = i then a = issuer \<and> b = u \<and> f = tc_next c else asks (tc_threads c j) a b f)"
    for j a b f by (auto simp: asks_def)
  have "entry ?c x y = Some (TF_future f) \<longleftrightarrow> (\<exists>j. asks (tc_threads ?c j) x y f)" for x y f
  proof (cases "x = issuer \<and> y = u")
    case True
    then show ?thesis unfolding e a using none by auto
  next
    case False
    have "(\<exists>j. asks (tc_threads ?c j) x y f) \<longleftrightarrow> (\<exists>j. asks (tc_threads c j) x y f)"
      unfolding a using False idle_asks [OF old] by metis
    moreover have "entry ?c x y = entry c x y" unfolding e by (rule if_not_P [OF False])
    ultimately show ?thesis using vt_invD(4) [OF inv, of x y f] by (simp only:)
  qed
  moreover have "fresh ?c x y 0 tr" if "entry ?c x y = Some (TF_token tr)" for x y tr
    using that vt_invD(5) [OF inv, of x y tr] unfolding e by (auto simp: fresh_def split: if_splits)
  ultimately show "entries_ok ?c" unfolding entries_ok_def by blast
  show "times_ok ?c" using vt_invD(1) [OF inv] by (simp add: times_ok_def)
qed (use old m in \<open>auto simp: idle_def keeps_def lead_ok_def future_New_def leads_def asks_def\<close>)

lemma lookup_inv:
  assumes inv: "vt_inv c" and th: "tc_threads c i = VT_called issuer token claims"
  shows "vt_inv (VerifyTrust_lookup E c i issuer token claims)"
proof -
  have old: "idle (tc_threads c i)" by (simp add: th)
  from refl [of "VerifyTrust_lookup E c i issuer token claims"] show ?thesis
  proof (cases rule: lookup_cases)
    case (unverified r)
    show ?thesis unfolding unverified by (rule quiet_step [OF inv old]) simp_all
  next
    case (waits u f)
    then obtain j where j: "asks (tc_threads c j) issuer u f" using vt_invD(4) [OF inv] by blast
    then have ji: "j \<noteq> i" using th by (auto simp: asks_def)
    have "led (set_thread c i (VT_wait issuer u (tc_now c) f)) issuer u (tc_now c) f"
      unfolding led_def using j ji by (intro exI [of _ j]) (auto simp: leads_def asks_def)
    moreover have "f < tc_next c"
      using pc_ok_leads [OF vt_invD(3) [OF inv] asks_leads [OF j]] by (simp add: lead_ok_def)
    ultimately show ?thesis unfolding waits by (intro quiet_step [OF inv old]) simp_all
  next
    case (cached u tr)
    have "accepted c issuer u (tc_now c)" if "verdict tr = Inr ()"
      using vt_invD(5) [OF inv cached(1)] that vt_invD(1) [OF inv] cached(2) by (rule fresh_accepts [OF _ _ _ disjI2])
    then show ?thesis unfolding cached(3) by (intro quiet_step [OF inv old]) simp_all
  next
    case (asking tokens tokenID u)
    show ?thesis unfolding asking(3) by (rule asking_inv [OF inv old asking(1,2)])
  qed
qed

lemma wait_inv:
  assumes inv: "vt_inv c" and th: "tc_threads c i = VT_wait issuer u t f"
    and step: "VerifyTrust_wait c i ctxErr issuer u t f = Some c'"
  shows "vt_inv c'"
proof -
  have old: "idle (tc_threads c i)" by (simp add: th)
  obtain r where c': "c' = set_thread c i (VT_done issuer u t r)"
    and r: "(\<exists>err. r = Inl err) \<or> (\<exists>tv. fut_ready (tc_futures c f) \<and> fut_value (tc_futures c f) = Some tv \<and>
              fut_err (tc_futures c f) = None \<and> r = verdict tv)"
    using step by (auto simp: VerifyTrust_wait_def future_Get_def split: if_splits option.splits)
  have "accepted c issuer u t" if ok: "r = Inr ()"
  proof -
    obtain tv where tv: "fut_ready (tc_futures c f)" "fut_value (tc_futures c f) = Some tv"
      "fut_err (tc_futures c f) = None" "verdict tv = Inr ()"
      using r ok by auto
    have "\<not> led c issuer u t f"
    proof
      assume "led c issuer u t f"
      then obtain j where "leads (tc_threads c j) issuer u f" unfolding led_def by blast
      from pc_ok_leads [OF vt_invD(3) [OF inv] this] show False using tv(1) by (simp add: lead_ok_def)
    qed
    then have "set_ok c issuer u t f" using vt_invD(3) [OF inv, of i] by (simp add: th)
    then have "fresh c issuer u t tv" using tv unfolding set_ok_def by simp
    from fresh_accepts [OF this tv(4) vt_invD(1) [OF inv]] show ?thesis by simp
  qed
  then show ?thesis unfolding c' by (intro quiet_step [OF inv old]) simp_all
qed

lemma answer_entries:
  assumes inv: "vt_inv c" and th: "tc_threads c i = VT_request issuer token tokenID u t f"
    and m: "tc_cache c' = (tc_cache c)(issuer \<mapsto> (the (tc_cache c issuer))(u := x))"
    and ths: "tc_threads c' = (tc_threads c)(i := new)" and quiet: "\<And>a b g. \<not> asks new a b g"
    and k: "keeps c c'" and x: "\<And>g. x \<noteq> Some (TF_future g)" "\<And>tr. x = Some (TF_token tr) \<Longrightarrow> fresh c' issuer u 0 tr"
  shows "entries_ok c'"
proof -
  have lead: "lead_ok c issuer f" using vt_invD(3) [OF inv, of i] by (simp add: th)
  then obtain tokens where tokens: "tc_cache c issuer = Some tokens" unfolding lead_ok_def by blast
  have e: "entry c' a b = (if a = issuer \<and> b = u then x else entry c a b)" for a b
    using m by (intro entry_upd [OF tokens]) (simp add: tokens)
  have me: "asks (tc_threads c i) issuer u f" using th by (auto simp: asks_def)
  have mine: "j = i" if "asks (tc_threads c j) issuer u g" for j g
  proof -
    have "entry c issuer u = Some (TF_future f)" "entry c issuer u = Some (TF_future g)"
      using vt_invD(4) [OF inv] me that by blast+
    then have "leads (tc_threads c j) issuer u f" using asks_leads [OF that] by simp
    then show ?thesis using vt_invD(2) [OF inv] asks_leads [OF me] unfolding one_leader_def by blast
  qed
  have "entry c' a b = Some (TF_future g) \<longleftrightarrow> (\<exists>j. asks (tc_threads c' j) a b g)" for a b g
  proof (cases "a = issuer \<and> b = u")
    case True
    have "\<not> asks (tc_threads c' j) issuer u g" for j
      using mine [of j g] quiet by (auto simp: ths)
    then show ?thesis using True x(1) by (auto simp: e)
  next
    case False
    have "\<not> asks (tc_threads c i) a b g" using False by (auto simp: th asks_def)
    then have "(\<exists>j. asks (tc_threads c' j) a b g) \<longleftrightarrow> (\<exists>j. asks (tc_threads c j) a b g)"
      unfolding ths using quiet by (metis fun_upd_apply)
    moreover have "entry c' a b = entry c a b" unfolding e by (rule if_not_P [OF False])
    ultimately show ?thesis using vt_invD(4) [OF inv, of a b g] by (simp only:)
  qed
  moreover have "fresh c' a b 0 tr" if "entry c' a b = Some (TF_token tr)" for a b tr
    using that x(2) vt_invD(5) [OF inv] fresh_keeps [OF k] unfolding e by (auto split: if_splits)
  ultimately show ?thesis unfolding entries_ok_def by blast
qed

lemma answer_inv:
  assumes inv: "vt_inv c" and th: "tc_threads c i = VT_request issuer token tokenID u t f"
  shows "vt_inv (VerifyTrust_answer c i resp issuer u t f)"
proof (cases resp)
  case (Inl err)
  let ?c = "set_thread (set_tokens c issuer (removeTokenRecord (the (tc_cache c issuer)) u)) i (VT_failed issuer u t f err)"
  have k: "keeps c ?c" by (simp add: keeps_def)
  have lead: "lead_ok c issuer f" using vt_invD(3) [OF inv, of i] by (simp add: th)
  have "vt_inv ?c"
  proof (rule thread_step [where i = i and new = "VT_failed issuer u t f err", OF inv k])
    show "entries_ok ?c"
      by (rule answer_entries [where x = None and new = "VT_failed issuer u t f err", OF inv th _ _ _ k]) (simp_all add: removeTokenRecord_def asks_def)
    show "times_ok ?c" using vt_invD(1) [OF inv] by (simp add: times_ok_def)
  qed (use lead in \<open>auto simp: th lead_ok_def leads_def asks_def\<close>)
  then show ?thesis by (simp add: VerifyTrust_answer_def Inl)
next
  case (Inr tok)
  let ?tr = "newTokenRecord (tc_expiration c) (tc_now c) tok"
  let ?c = "set_thread ((set_tokens c issuer (setTokenRecord (the (tc_cache c issuer)) u ?tr))
      \<lparr>tc_answers := (tc_now c, issuer, u, tok) # tc_answers c\<rparr>) i (VT_stored issuer u t f ?tr)"
  have k: "keeps c ?c" by (auto simp: keeps_def)
  have ok: "t \<le> tc_now c" "lead_ok c issuer f" using vt_invD(3) [OF inv, of i] by (simp_all add: th)
  have now: "0 \<le> tc_now c" using vt_invD(1) [OF inv] by (simp add: times_ok_def)
  have new: "fresh ?c issuer u t' ?tr" if "t' \<le> tc_now c" for t'
    unfolding fresh_def using that by auto
  have "vt_inv ?c"
  proof (rule thread_step [where i = i and new = "VT_stored issuer u t f ?tr", OF inv k])
    show "entries_ok ?c"
      by (rule answer_entries [where x = "Some (TF_token ?tr)" and new = "VT_stored issuer u t f ?tr", OF inv th _ _ _ k])
        (use new now in \<open>simp_all add: setTokenRecord_def asks_def\<close>)
    show "times_ok ?c" using vt_invD(1) [OF inv] by (simp add: times_ok_def)
    show "pc_ok ?c (VT_stored issuer u t f ?tr)" using new ok by (simp add: lead_ok_def)
    show "fresh ?c a b t1 tr'"
      if "leads (tc_threads c i) a b g" "VT_stored issuer u t f ?tr = VT_stored a b t' g tr'" "t1 \<le> tc_now c"
      for a b g t1 t' tr' using that new by simp
  qed (auto simp: th leads_def asks_def)
  then show ?thesis by (simp add: VerifyTrust_answer_def Inr Let_def)
qed

text \<open>Setting the future: the thread ends its duty and the threads that wait for it can go on.\<close>

lemma set_future_simps [simp]:
  "tc_threads (set_future c f v e) = tc_threads c" "tc_cache (set_future c f v e) = tc_cache c"
  "tc_next (set_future c f v e) = tc_next c" "tc_now (set_future c f v e) = tc_now c"
  "tc_answers (set_future c f v e) = tc_answers c" "tc_expiration (set_future c f v e) = tc_expiration c"
  by (simp_all add: set_future_def)

lemma set_future_quiet [simp]:
  "fresh (set_future c f v e) = fresh c" "accepted (set_future c f v e) = accepted c"
  "entry (set_future c f v e) = entry c" "times_ok (set_future c f v e) = times_ok c"
  by (simp_all add: fresh_def accepted_def entry_def times_ok_def fun_eq_iff)

lemma set_inv:
  assumes inv: "vt_inv c" and lead: "leads (tc_threads c i) issuer u f" and noask: "\<And>a b g. \<not> asks (tc_threads c i) a b g"
    and ve: "e \<noteq> None \<or> (\<exists>t tr. v = Some tr \<and> tc_threads c i = VT_stored issuer u t f tr)"
    and r: "r = Inr () \<Longrightarrow> accepted c issuer u t"
  shows "vt_inv (set_thread (set_future c f v e) i (VT_done issuer u t r))" (is "vt_inv ?c")
proof -
  have ok: "lead_ok c issuer f" by (rule pc_ok_leads [OF vt_invD(3) [OF inv] lead])
  have unique: "leads (tc_threads c j) a b f \<Longrightarrow> j = i" for j a b
    using vt_invD(2) [OF inv] lead unfolding one_leader_def by blast
  have ready: "fut_ready (tc_futures ?c f)" "fut_value (tc_futures ?c f) = v" "fut_err (tc_futures ?c f) = e"
    using ok by (simp_all add: set_future_def future_set_def lead_ok_def)
  have other: "tc_futures ?c g = tc_futures c g" if "g \<noteq> f" for g
    using that by (simp add: set_future_def)
  have ths: "tc_threads ?c = (tc_threads c)(i := VT_done issuer u t r)" by simp
  have waiter: "set_ok ?c a b t1 g \<or> led ?c a b t1 g" if w: "set_ok c a b t1 g \<or> led c a b t1 g" for a b t1 g
    using w
  proof
    assume "set_ok c a b t1 g"
    then have "set_ok ?c a b t1 g" using ok other by (cases "g = f") (auto simp: set_ok_def lead_ok_def)
    then show ?thesis ..
  next
    assume "led c a b t1 g"
    then obtain j where j: "leads (tc_threads c j) a b g"
      and fr: "\<And>t' tr. tc_threads c j = VT_stored a b t' g tr \<Longrightarrow> fresh c a b t1 tr"
      unfolding led_def by blast
    show ?thesis
    proof (cases "j = i")
      case True
      then have same: "a = issuer" "b = u" "g = f" using leads_fun [OF lead, of a b g] j by simp_all
      have "\<exists>tr. v = Some tr \<and> fresh c a b t1 tr" if "e = None"
        using ve that fr True same by auto
      then have "set_ok ?c a b t1 g" unfolding set_ok_def same ready using ready(1) by simp
      then show ?thesis ..
    next
      case False
      then have "tc_threads ?c j = tc_threads c j" by simp
      then have "led ?c a b t1 g" using j fr unfolding led_def by (metis set_future_quiet(1) set_thread_quiet(1))
      then show ?thesis ..
    qed
  qed
  have lead': "lead_ok ?c a g" if "lead_ok c a g" "leads (tc_threads c j) a b g" "j \<noteq> i" for a b g j
    using that unique other by (cases "g = f") (auto simp: lead_ok_def)
  have "pc_ok ?c (tc_threads ?c j)" for j
  proof (cases "j = i")
    case True
    then show ?thesis using r by simp
  next
    case False
    have "pc_ok c (tc_threads c j)" by (rule vt_invD(3) [OF inv])
    then show ?thesis using False lead' [of _ _ j] waiter
      by (cases "tc_threads c j") (auto simp: leads_def asks_def)
  qed
  moreover have "one_leader ?c"
    using vt_invD(2) [OF inv] unfolding one_leader_def ths by (auto simp: leads_def asks_def)
  moreover have "entries_ok ?c"
  proof -
    have "(\<exists>j. asks (tc_threads ?c j) a b g) \<longleftrightarrow> (\<exists>j. asks (tc_threads c j) a b g)" for a b g
      unfolding ths by (rule asks_upd) (use noask in \<open>simp add: asks_def\<close>)
    then show ?thesis using vt_invD(4,5) [OF inv] unfolding entries_ok_def by simp
  qed
  moreover have "times_ok ?c" using vt_invD(1) [OF inv] by simp
  ultimately show ?thesis unfolding vt_inv_def by blast
qed

lemma entry_expire:
  "entry (CheckExpirations c now) issuer u =
     (case entry c issuer u of Some (TF_token tr) \<Rightarrow> if tokenRecord_IsExpired tr now then None else Some (TF_token tr) | e \<Rightarrow> e)"
  by (simp add: entry_def CheckExpirations_def checkExpirations_def split: option.splits)

text \<open>A step that leaves the threads and the futures alone.\<close>

lemma background_step:
  assumes inv: "vt_inv c" and same: "tc_threads c' = tc_threads c" "tc_futures c' = tc_futures c" "tc_next c' = tc_next c"
    "tc_answers c' = tc_answers c" "tc_expiration c' = tc_expiration c" and now: "tc_now c \<le> tc_now c'"
    and cache: "\<And>issuer. tc_cache c issuer \<noteq> None \<Longrightarrow> tc_cache c' issuer \<noteq> None"
    and fut: "\<And>a b f. entry c' a b = Some (TF_future f) \<longleftrightarrow> entry c a b = Some (TF_future f)"
    and tok: "\<And>a b tr. entry c' a b = Some (TF_token tr) \<Longrightarrow> entry c a b = Some (TF_token tr)"
  shows "vt_inv c'"
proof -
  have k: "keeps c c'" by (simp add: keeps_def same)
  have fr: "fresh c' = fresh c" by (simp add: fresh_def fun_eq_iff same)
  have "led c' a b t f" if "led c a b t f" for a b t f using that by (simp add: led_def fr same)
  then have "pc_ok c' (tc_threads c' j)" for j
    unfolding same(1) using same now cache by (intro pc_ok_step [OF vt_invD(3) [OF inv] k]) simp_all
  moreover have "one_leader c'" using vt_invD(2) [OF inv] by (simp add: one_leader_def same)
  moreover have "entries_ok c'" using vt_invD(4,5) [OF inv] tok by (simp add: entries_ok_def fut same fr)
  moreover have "times_ok c'" using vt_invD(1) [OF inv] now by (fastforce simp: times_ok_def same)
  ultimately show ?thesis unfolding vt_inv_def by blast
qed

lemma vt_step_inv: "vt_step E c c' \<Longrightarrow> vt_inv c \<Longrightarrow> vt_inv c'"
proof (induction rule: vt_step.induct)
  case (vt_call c i issuer token claims)
  then show ?case by (intro quiet_step) simp_all
next
  case (vt_lookup c i issuer token claims)
  then show ?case by (intro lookup_inv)
next
  case (vt_wait c i issuer u t f ctxErr c')
  show ?case by (rule wait_inv [OF vt_wait(3,1,2)])
next
  case (vt_answer c i issuer token tokenID u t f resp)
  then show ?case by (intro answer_inv)
next
  case (vt_failed c i issuer u t f err)
  then show ?case by (intro set_inv) (auto simp: leads_def asks_def)
next
  case (vt_stored c i issuer u t f tr)
  have "fresh c issuer u t tr" using vt_invD(3) [OF vt_stored(2), of i] by (simp add: vt_stored(1))
  then have "accepted c issuer u t" if "verdict tr = Inr ()"
    using fresh_accepts [of c issuer u t tr t] that vt_invD(1) [OF vt_stored(2)] by simp
  then show ?case using vt_stored by (intro set_inv) (auto simp: leads_def asks_def)
next
  case (vt_expire c now)
  show ?case
  proof (rule background_step [OF vt_expire])
    show "entry (CheckExpirations c now) a b = Some (TF_future f) \<longleftrightarrow> entry c a b = Some (TF_future f)" for a b f
      unfolding entry_expire by (auto split: option.splits tokenOrFuture.splits)
    show "entry (CheckExpirations c now) a b = Some (TF_token tr) \<Longrightarrow> entry c a b = Some (TF_token tr)" for a b tr
      unfolding entry_expire by (auto split: option.splits tokenOrFuture.splits if_splits)
  qed (simp_all add: CheckExpirations_def)
next
  case (vt_time c now)
  then show ?case by (intro background_step [OF vt_time(2)]) (auto simp: entry_def)
qed

lemma vt_reachable_inv: "vt_reachable E expiration c \<Longrightarrow> vt_inv c \<and> tc_expiration c = expiration"
proof (induction rule: vt_reachable.induct)
  case (vt_init now clients)
  then show ?case using vt_init_inv by (simp add: NewTokenCache_def)
next
  case (vt_next c c')
  have "tc_expiration c' = tc_expiration c"
    using vt_next(2)
    by (cases rule: vt_step.cases)
      (auto simp: VerifyTrust_lookup_def VerifyTrust_wait_def VerifyTrust_answer_def CheckExpirations_def Let_def
        split: option.splits sum.splits prod.splits tokenOrFuture.splits bool.splits)
  then show ?case using vt_next vt_step_inv by metis
qed

text \<open>The answers are those the issuer gives about the id of the token.\<close>

definition answers_real :: "token_env \<Rightarrow> TokenCache \<Rightarrow> bool" where
  "answers_real E c \<longleftrightarrow>
     (\<forall>i issuer token tokenID u t f. tc_threads c i = VT_request issuer token tokenID u t f \<longrightarrow> te_uuid_Parse E tokenID = Inr u) \<and>
     (\<forall>(t0, issuer, u, resp) \<in> set (tc_answers c). \<exists>token tokenID.
        te_uuid_Parse E tokenID = Inr u \<and> te_answer E issuer token tokenID (Inr resp))"

lemma answers_real_thread:
  assumes "answers_real E c" and "\<And>a b d e t f. pc \<noteq> VT_request a b d e t f"
    and "tc_threads c' = (tc_threads c)(i := pc)" and "tc_answers c' = tc_answers c"
  shows "answers_real E c'"
  using assms unfolding answers_real_def by simp

lemma answers_real_lookup:
  assumes "answers_real E c"
  shows "answers_real E (VerifyTrust_lookup E c i issuer token claims)"
proof -
  from refl [of "VerifyTrust_lookup E c i issuer token claims"] show ?thesis
  proof (cases rule: lookup_cases)
    case (asking tokens tokenID u)
    have "te_uuid_Parse E tokenID = Inr u"
      using asking(4) by (auto simp: getTokenUUID_def split: sum.splits)
    then show ?thesis unfolding asking(3) using assms by (simp add: answers_real_def)
  qed (use assms in \<open>simp_all add: answers_real_def\<close>)
qed

lemma answers_real_answer:
  assumes real: "answers_real E c" and th: "tc_threads c i = VT_request issuer token tokenID u t f"
    and ans: "te_answer E issuer token tokenID resp"
  shows "answers_real E (VerifyTrust_answer c i resp issuer u t f)"
proof (cases resp)
  case (Inl err)
  show ?thesis
    by (rule answers_real_thread [OF real, where pc = "VT_failed issuer u t f err" and i = i])
      (simp_all add: VerifyTrust_answer_def Inl)
next
  case (Inr tok)
  have "te_uuid_Parse E tokenID = Inr u" using real th unfolding answers_real_def by blast
  then have "\<exists>token tokenID. te_uuid_Parse E tokenID = Inr u \<and> te_answer E issuer token tokenID (Inr tok)"
    using ans unfolding Inr by blast
  then show ?thesis using real unfolding answers_real_def by (simp add: VerifyTrust_answer_def Inr Let_def)
qed

lemma answers_real_step: "vt_step E c c' \<Longrightarrow> answers_real E c \<Longrightarrow> answers_real E c'"
proof (induction rule: vt_step.induct)
  case (vt_lookup c i issuer token claims)
  then show ?case by (intro answers_real_lookup)
next
  case (vt_wait c i issuer u t f ctxErr c')
  obtain r where c': "c' = set_thread c i (VT_done issuer u t r)"
    using vt_wait(2) by (auto simp: VerifyTrust_wait_def split: option.splits)
  show ?case by (rule answers_real_thread [OF vt_wait(3), where pc = "VT_done issuer u t r" and i = i]) (simp_all add: c')
next
  case (vt_answer c i issuer token tokenID u t f resp)
  then show ?case by (intro answers_real_answer)
qed (simp_all add: answers_real_def CheckExpirations_def)

lemma answers_real_reachable: "vt_reachable E expiration c \<Longrightarrow> answers_real E c"
  by (induction rule: vt_reachable.induct) (simp add: answers_real_def NewTokenCache_def, rule answers_real_step)

section \<open>Progress\<close>

lemma wait_enabled:
  assumes "set_ok c issuer u t f"
  shows "\<exists>r. VerifyTrust_wait c i ctxErr issuer u t f = Some (set_thread c i (VT_done issuer u t r))"
  using assms unfolding set_ok_def
  by (cases "fut_err (tc_futures c f)") (auto simp: VerifyTrust_wait_def future_Get_def split: option.splits)

text \<open>The thread with the duty sets the future in its next step, or after the answer of the issuer.\<close>

lemma waits_set_ok:
  assumes "vt_inv c" and "tc_threads c i = VT_wait issuer u t f" and "fut_ready (tc_futures c f)"
  shows "set_ok c issuer u t f"
proof -
  have "\<not> led c issuer u t f"
  proof
    assume "led c issuer u t f"
    then obtain j where "leads (tc_threads c j) issuer u f" unfolding led_def by blast
    from pc_ok_leads [OF vt_invD(3) [OF assms(1)] this] show False using assms(3) by (simp add: lead_ok_def)
  qed
  then show ?thesis using vt_invD(3) [OF assms(1), of i] by (simp add: assms(2))
qed

lemma set_releases:
  assumes inv: "vt_inv c" and w: "tc_threads c i = VT_wait issuer u t f"
    and j: "tc_threads c j = VT_failed issuer u t' f err \<or> tc_threads c j = VT_stored issuer u t' f tr"
  shows "\<exists>c'. vt_step E c c' \<and> tc_threads c' i = VT_wait issuer u t f \<and> fut_ready (tc_futures c' f)"
proof -
  have ij: "j \<noteq> i" using w j by auto
  have ok: "lead_ok c issuer f" using vt_invD(3) [OF inv, of j] j by auto
  have set: "fut_ready (tc_futures (set_thread (set_future c f v e) j pc) f)" for v e pc
    using ok by (simp add: set_future_def future_set_def lead_ok_def)
  have keep: "tc_threads (set_thread (set_future c f v e) j pc) i = VT_wait issuer u t f" for v e pc
    using ij w by simp
  from j show ?thesis
  proof
    assume "tc_threads c j = VT_failed issuer u t' f err"
    from vt_step.vt_failed [OF this] show ?thesis using set keep by blast
  next
    assume "tc_threads c j = VT_stored issuer u t' f tr"
    from vt_step.vt_stored [OF this] show ?thesis using set keep by blast
  qed
qed

lemma waiter_released:
  assumes inv: "vt_inv c" and w: "tc_threads c i = VT_wait issuer u t f"
    and answers: "\<And>token tokenID. \<exists>resp. te_answer E issuer token tokenID resp"
  shows "\<exists>c'. (vt_step E)\<^sup>*\<^sup>* c c' \<and> tc_threads c' i = VT_wait issuer u t f \<and> fut_ready (tc_futures c' f)"
proof (cases "fut_ready (tc_futures c f)")
  case True
  then show ?thesis using w by blast
next
  case False
  then have "led c issuer u t f" using vt_invD(3) [OF inv, of i] by (simp add: w set_ok_def)
  then obtain j where j: "leads (tc_threads c j) issuer u f" unfolding led_def by blast
  show ?thesis
  proof (cases "asks (tc_threads c j) issuer u f")
    case False
    then obtain t' err tr where "tc_threads c j = VT_failed issuer u t' f err \<or> tc_threads c j = VT_stored issuer u t' f tr"
      using j unfolding leads_def by blast
    from set_releases [OF inv w this] show ?thesis by blast
  next
    case True
    then obtain token tokenID t' where a: "tc_threads c j = VT_request issuer token tokenID u t' f"
      unfolding asks_def by blast
    obtain resp where resp: "te_answer E issuer token tokenID resp" using answers by blast
    let ?c = "VerifyTrust_answer c j resp issuer u t' f"
    have step: "vt_step E c ?c" by (rule vt_step.vt_answer [OF a resp])
    have "j \<noteq> i" using a w by auto
    then have w': "tc_threads ?c i = VT_wait issuer u t f"
      using w by (simp add: VerifyTrust_answer_def Let_def split: sum.splits)
    have "\<exists>err tr. tc_threads ?c j = VT_failed issuer u t' f err \<or> tc_threads ?c j = VT_stored issuer u t' f tr"
      by (cases resp) (simp_all add: VerifyTrust_answer_def Let_def)
    then obtain err tr where "tc_threads ?c j = VT_failed issuer u t' f err \<or> tc_threads ?c j = VT_stored issuer u t' f tr"
      by blast
    from set_releases [OF vt_step_inv [OF step inv] w' this, of E] step show ?thesis
      by (meson converse_rtranclp_into_rtranclp r_into_rtranclp)
  qed
qed

section \<open>Properties\<close>


text \<open>
  C33. At every moment at most one call asks an issuer about a token: two threads that are both waiting
  for the answer of the same issuer about the same UUID are the same thread.
\<close>

theorem token_asked_once:
  assumes "vt_reachable E expiration c"
    and "tc_threads c i = VT_request issuer token tokenID u t f"
    and "tc_threads c j = VT_request issuer token' tokenID' u t' f'"
  shows "i = j"
proof -
  have inv: "vt_inv c" using vt_reachable_inv [OF assms(1)] by simp
  have a: "asks (tc_threads c i) issuer u f" and b: "asks (tc_threads c j) issuer u f'"
    using assms(2,3) by (auto simp: asks_def)
  have "entry c issuer u = Some (TF_future f)" "entry c issuer u = Some (TF_future f')"
    using vt_invD(4) [OF inv] a b by blast+
  then have "leads (tc_threads c j) issuer u f" using asks_leads [OF b] by simp
  then show ?thesis using vt_invD(2) [OF inv] asks_leads [OF a] unfolding one_leader_def by blast
qed

text \<open>
  C34. No call is stuck: as long as the issuer answers, from every reachable state in which a call
  waits for the future of another call, steps of the cache lead to a state where the wait returns,
  with the verdict or the error, whether or not the context of the caller is done.
\<close>

theorem token_waiter_returns:
  assumes "vt_reachable E expiration c" and "tc_threads c i = VT_wait issuer u t f"
    and "\<And>token tokenID. \<exists>resp. te_answer E issuer token tokenID resp"
  shows "\<exists>c' r. (vt_step E)\<^sup>*\<^sup>* c c' \<and>
     VerifyTrust_wait c' i None issuer u t f = Some (set_thread c' i (VT_done issuer u t r))"
proof -
  have inv: "vt_inv c" using vt_reachable_inv [OF assms(1)] by simp
  obtain c' where c': "(vt_step E)\<^sup>*\<^sup>* c c'" "tc_threads c' i = VT_wait issuer u t f" "fut_ready (tc_futures c' f)"
    using waiter_released [OF inv assms(2,3)] by blast
  have "vt_inv c'" using c'(1) inv by (induction rule: rtranclp_induct) (auto intro: vt_step_inv)
  from wait_enabled [OF waits_set_ok [OF this c'(2,3)]] c'(1) show ?thesis by blast
qed

section \<open>Keys\<close>

text \<open>
  A key the cache holds is used without asking the issuer; otherwise the keys are fetched once and the
  answer is that of the new keys, which replace the old ones.
\<close>

lemma key_lookup:
  "KeyCache_GetOrFetchKey raw fetch kc token = (kc', Inr k) \<longleftrightarrow>
     (GetKey raw kc token = Inr k \<and> kc' = kc) \<or>
     (\<exists>e keys. GetKey raw kc token = Inl e \<and> fetch = Inr keys \<and> kc' = kc\<lparr>kc_keys := Some keys\<rparr> \<and>
        GetKey raw (kc\<lparr>kc_keys := Some keys\<rparr>) token = Inr k)"
  by (auto simp: KeyCache_GetOrFetchKey_def FetchKeysWithContext_def split: sum.splits)

lemma key_algorithm:
  assumes "LookupKey kc token = Inr k"
  shows "\<exists>kid keys. jt_kid token = Some (V_string kid) \<and> kc_keys kc = Some keys \<and> keys kid = Some (k, jt_Alg token)"
  using assms by (auto simp: LookupKey_def split: option.splits go_value.splits if_splits)

text \<open>Issuers are filed and looked up under the same name, provided the filed URI is canonical.\<close>

lemma issuer_lookup:
  assumes "CanonicalURI a = CanonicalURI b" and "CanonicalURI a = [] \<or> last (CanonicalURI a) \<noteq> CHR ''/''"
  shows "MultiKeyCache_Add m (CanonicalURI a) (CanonicalURI b) \<noteq> None"
  using assms by (auto simp: MultiKeyCache_Add_def TrimSuffix_slash_def)

section \<open>A run\<close>

definition run_env :: token_env where
  "run_env = \<lparr> te_getID = (\<lambda>_. Inr ''id''), te_uuid_Parse = Inr,
     te_answer = (\<lambda>_ _ _ r. r = Inr \<lparr> tk_Blacklisted = Some False, tk_Expiration = 0 \<rparr>) \<rparr>"

definition run_0 :: TokenCache where
  "run_0 = NewTokenCache {''iss''} 30 0"

definition run_1 :: TokenCache where
  "run_1 = VerifyTrust_lookup run_env (set_thread run_0 0 (VT_called ''iss'' ''tok'' Map.empty)) 0 ''iss'' ''tok'' Map.empty"

definition run_2 :: TokenCache where
  "run_2 = VerifyTrust_lookup run_env (set_thread run_1 (Suc 0) (VT_called ''iss'' ''tok'' Map.empty)) (Suc 0) ''iss'' ''tok'' Map.empty"

definition run_3 :: TokenCache where
  "run_3 = VerifyTrust_answer run_2 0 (Inr \<lparr> tk_Blacklisted = Some False, tk_Expiration = 0 \<rparr>) ''iss'' ''id'' 0 0"

definition run_4 :: TokenCache where
  "run_4 = set_thread (set_future run_3 0 (Some \<lparr> tr_blacklisted = False, tr_validUntil = 30 \<rparr>) None) 0
     (VT_done ''iss'' ''id'' 0 (verdict \<lparr> tr_blacklisted = False, tr_validUntil = 30 \<rparr>))"

lemmas lookup_defs = VerifyTrust_lookup_def getTokenUUID_def getValidTokenRecordOrFuture_def NewTokenCache_def set_tokens_def
  set_thread_def run_env_def

lemma run_1_eq:
  "tc_threads run_1 0 = VT_request ''iss'' ''tok'' ''id'' ''id'' 0 0" "tc_threads run_1 (Suc 0) = VT_idle"
  "tc_cache run_1 ''iss'' = Some [''id'' \<mapsto> TF_future 0]" "tc_now run_1 = 0" "tc_next run_1 = 1" "tc_expiration run_1 = 30"
  by (simp_all add: run_1_def run_0_def lookup_defs)

lemma run_2_eq:
  "tc_threads run_2 0 = VT_request ''iss'' ''tok'' ''id'' ''id'' 0 0" "tc_threads run_2 (Suc 0) = VT_wait ''iss'' ''id'' 0 0"
  "tc_expiration run_2 = 30" "tc_now run_2 = 0"
  using run_1_eq unfolding run_2_def by (simp_all add: VerifyTrust_lookup_def getTokenUUID_def getValidTokenRecordOrFuture_def run_env_def)

lemma run_3_eq:
  "tc_threads run_3 0 = VT_stored ''iss'' ''id'' 0 0 \<lparr> tr_blacklisted = False, tr_validUntil = 30 \<rparr>"
  using run_2_eq by (simp add: run_3_def VerifyTrust_answer_def newTokenRecord_def getValidUntil_def tk_Flag_def Let_def)

lemma vt_run_reachable:
  "vt_reachable run_env 30 run_2" "vt_reachable run_env 30 run_4"
proof -
  have 0: "vt_reachable run_env 30 run_0" unfolding run_0_def by (rule vt_init) simp
  have "tc_threads run_0 0 = VT_idle" by (simp add: run_0_def NewTokenCache_def)
  from vt_next [OF 0 vt_call [OF this]]
  have 1: "vt_reachable run_env 30 run_1" unfolding run_1_def by (rule vt_next) (rule vt_lookup, simp)
  from vt_next [OF 1 vt_call [OF run_1_eq(2)]]
  show 2: "vt_reachable run_env 30 run_2" unfolding run_2_def by (rule vt_next) (rule vt_lookup, simp)
  have "vt_step run_env run_2 run_3"
    unfolding run_3_def by (rule vt_answer [OF run_2_eq(1)]) (simp add: run_env_def)
  from vt_next [OF vt_next [OF 2 this] vt_stored [OF run_3_eq]]
  show "vt_reachable run_env 30 run_4" unfolding run_4_def .
qed


theorem token_asked_once_witness: "(0::nat) = 0 \<and> tc_threads run_2 0 = VT_request ''iss'' ''tok'' ''id'' ''id'' 0 0"
  using token_asked_once [OF vt_run_reachable(1) run_2_eq(1) run_2_eq(1)] run_2_eq(1) by simp

theorem token_waiter_returns_witness:
  "\<exists>c' r. (vt_step run_env)\<^sup>*\<^sup>* run_2 c' \<and>
     VerifyTrust_wait c' (Suc 0) None ''iss'' ''id'' 0 0 = Some (set_thread c' (Suc 0) (VT_done ''iss'' ''id'' 0 r))"
  by (rule token_waiter_returns [OF vt_run_reachable(1) run_2_eq(2)]) (simp add: run_env_def)

end
