(* ===== verification/Identity_Store.thy ===== *)
theory Identity_Store
  imports Token_Claims Event_Subjects
begin

text \<open>
  The identity store: who owns which device. \<^verbatim>\<open>identity-store/persistence\<close> is the interface of the
  storage with its implementations on Cassandra (\<^verbatim>\<open>cqldb/persist.go\<close>) and MongoDB
  (\<^verbatim>\<open>mongodb/persist.go\<close>); \<^verbatim>\<open>identity-store/service\<close> adds, deletes and lists devices on top of it and
  publishes what changed.

  Several instances of the service work on the same database. The parameter \<open>others\<close> is what the other
  instances do to the database before each operation of a request, numbered in order.
\<close>

section \<open>The interface of the storage\<close>

record AuthorizedDevice =
  ad_DeviceID :: string
  ad_Owner :: string

text \<open>
  An iterator: its error before the first element, the elements \<open>Next\<close> yields, and its error after
  \<open>Close\<close>.
\<close>

record dev_iterator =
  it_Err :: "error option"
  it_devices :: "AuthorizedDevice list"
  it_closedErr :: "error option"

record 'db PersistenceTx =
  px_Retrieve :: "'db \<Rightarrow> string \<Rightarrow> string \<Rightarrow> AuthorizedDevice option res"
  px_RetrieveByDevice :: "'db \<Rightarrow> string \<Rightarrow> AuthorizedDevice option res"
  px_RetrieveByOwner :: "'db \<Rightarrow> string \<Rightarrow> dev_iterator"
  px_Persist :: "'db \<Rightarrow> AuthorizedDevice \<Rightarrow> 'db \<times> unit res"
  px_Delete :: "'db \<Rightarrow> string \<Rightarrow> string \<Rightarrow> 'db \<times> unit res"

section \<open>Cassandra\<close>

text \<open>
  The session of the driver takes the text of a statement. \<open>Scan\<close> gives the columns owner and device id
  of the row (\<open>None\<close> is \<open>ErrNotFound\<close>), \<open>Iter\<close> the rows and the error of closing, \<open>ScanCAS\<close> whether the
  statement was applied and, if not, the device id and owner of the existing row.
\<close>

record 'db cql_conn =
  cn_Scan :: "'db \<Rightarrow> string \<Rightarrow> (string \<times> string) option res"
  cn_Iter :: "'db \<Rightarrow> string \<Rightarrow> (string \<times> string) list \<times> error option"
  cn_ScanCAS :: "'db \<Rightarrow> string \<Rightarrow> 'db \<times> (bool \<times> string \<times> string) res"

definition is_ownerKey :: string where "is_ownerKey = ''ownerkey''"
definition is_deviceIDKey :: string where "is_deviceIDKey = ''deviceid''"

definition quote :: string where "quote = [CHR 0x27]"

definition select_text :: "string \<Rightarrow> string \<Rightarrow> string" where
  "select_text table whereCondition =
     ''SELECT '' @ is_ownerKey @ '','' @ is_deviceIDKey @ '' FROM '' @ table @ '' WHERE '' @ whereCondition"

definition retrieve_cond :: "string \<Rightarrow> string \<Rightarrow> string" where
  "retrieve_cond deviceID owner =
     is_deviceIDKey @ ''='' @ deviceID @ '' AND '' @ is_ownerKey @ ''='' @ quote @ owner @ quote @ '' ALLOW FILTERING''"

definition by_device_cond :: "string \<Rightarrow> string" where
  "by_device_cond deviceID = is_deviceIDKey @ ''='' @ deviceID"

definition by_owner_cond :: "string \<Rightarrow> string" where
  "by_owner_cond owner = is_ownerKey @ ''='' @ quote @ owner @ quote"

definition insert_text :: "string \<Rightarrow> string \<Rightarrow> string \<Rightarrow> string" where
  "insert_text table deviceID owner =
     ''INSERT INTO '' @ table @ '' ('' @ is_ownerKey @ '','' @ is_deviceIDKey @ '') VALUES ('' @ quote @ owner @ quote @ '',''
     @ deviceID @ '')'' @ '' IF NOT EXISTS''"

definition delete_text :: "string \<Rightarrow> string \<Rightarrow> string \<Rightarrow> string" where
  "delete_text table deviceID owner =
     ''DELETE FROM '' @ table @ '' WHERE '' @ is_deviceIDKey @ ''='' @ deviceID @ '' IF '' @ is_ownerKey @ ''='' @ quote
     @ owner @ quote"

definition cql_retrieveDeviceByQuery :: "'db cql_conn \<Rightarrow> string \<Rightarrow> 'db \<Rightarrow> string \<Rightarrow> AuthorizedDevice option res" where
  "cql_retrieveDeviceByQuery N table db whereCondition =
     (case cn_Scan N db (select_text table whereCondition) of
        Inl err \<Rightarrow> Inl err
      | Inr None \<Rightarrow> Inr None
      | Inr (Some (owner, deviceID)) \<Rightarrow> Inr (Some \<lparr> ad_DeviceID = deviceID, ad_Owner = owner \<rparr>))"

definition cql_Retrieve :: "'db cql_conn \<Rightarrow> string \<Rightarrow> 'db \<Rightarrow> string \<Rightarrow> string \<Rightarrow> AuthorizedDevice option res" where
  "cql_Retrieve N table db deviceID owner = cql_retrieveDeviceByQuery N table db (retrieve_cond deviceID owner)"

definition cql_RetrieveByDevice :: "'db cql_conn \<Rightarrow> string \<Rightarrow> 'db \<Rightarrow> string \<Rightarrow> AuthorizedDevice option res" where
  "cql_RetrieveByDevice N table db deviceID = cql_retrieveDeviceByQuery N table db (by_device_cond deviceID)"

definition cql_RetrieveByOwner :: "'db cql_conn \<Rightarrow> string \<Rightarrow> 'db \<Rightarrow> string \<Rightarrow> dev_iterator" where
  "cql_RetrieveByOwner N table db owner =
     (case cn_Iter N db (select_text table (by_owner_cond owner)) of
        (rows, closeErr) \<Rightarrow>
          \<lparr> it_Err = None, it_devices = map (\<lambda>(o', d). \<lparr> ad_DeviceID = d, ad_Owner = o' \<rparr>) rows,
            it_closedErr = closeErr \<rparr>)"

definition cql_Persist :: "'db cql_conn \<Rightarrow> string \<Rightarrow> 'db \<Rightarrow> AuthorizedDevice \<Rightarrow> 'db \<times> unit res" where
  "cql_Persist N table db d =
     (case cn_ScanCAS N db (insert_text table (ad_DeviceID d) (ad_Owner d)) of
        (db, Inl err) \<Rightarrow> (db, Inl err)
      | (db, Inr (applied, upd_DeviceID, upd_Owner)) \<Rightarrow>
          (db, if \<not> applied then
                 if ad_Owner d = upd_Owner then Inr ()
                 else Inl (Errorf ''device %v already exists'' [upd_DeviceID])
               else Inr ()))"

definition cql_Delete :: "'db cql_conn \<Rightarrow> string \<Rightarrow> 'db \<Rightarrow> string \<Rightarrow> string \<Rightarrow> 'db \<times> unit res" where
  "cql_Delete N table db deviceID owner =
     (case cn_ScanCAS N db (delete_text table deviceID owner) of
        (db, Inl err) \<Rightarrow> (db, Inl err)
      | (db, Inr (applied, _)) \<Rightarrow>
          (db, if \<not> applied then Inl (Errorf ''device %v is not found'' [deviceID]) else Inr ()))"

definition cql_tx :: "'db cql_conn \<Rightarrow> string \<Rightarrow> 'db PersistenceTx" where
  "cql_tx N table =
     \<lparr> px_Retrieve = cql_Retrieve N table, px_RetrieveByDevice = cql_RetrieveByDevice N table,
       px_RetrieveByOwner = cql_RetrieveByOwner N table, px_Persist = cql_Persist N table,
       px_Delete = cql_Delete N table \<rparr>"

section \<open>MongoDB\<close>

text \<open>
  The collection of the driver: \<open>Find\<close> with a filter on the id and on the owner gives a cursor, with
  the results of \<open>Decode\<close> for its documents and its error once they are read; \<open>UpdateOne\<close> with the
  option \<open>upsert\<close> has a filter on the id only; \<open>DeleteOne\<close> gives the number of deleted documents. All of
  them are called with the context of the request and not with that of the session, so they act on
  the collection at once, whether or not the transaction is committed. \<open>ErrNilDocument\<close>, which the
  driver returns for a nil filter, does not occur here.
\<close>

record mongo_cursor =
  cur_docs :: "(string \<times> string) res list"
  cur_Err :: "error option"

record 'db mongo_devices =
  md_Find :: "'db \<Rightarrow> string option \<Rightarrow> string option \<Rightarrow> mongo_cursor res"
  md_UpsertOne :: "'db \<Rightarrow> string \<Rightarrow> string \<times> string \<Rightarrow> 'db \<times> unit res"
  md_DeleteOne :: "'db \<Rightarrow> string \<Rightarrow> string \<Rightarrow> 'db \<times> nat res"

text \<open>The session: the error of starting it with its transaction, and of committing.\<close>

record mongo_session =
  ms_err :: "error option"
  ms_CommitTransaction :: "error option"

fun cursor_devices :: "(string \<times> string) res list \<Rightarrow> AuthorizedDevice list" where
  "cursor_devices (Inr (d, o') # docs) = \<lparr> ad_DeviceID = d, ad_Owner = o' \<rparr> # cursor_devices docs"
| "cursor_devices _ = []"

text \<open>The common end of both lookups: one \<open>Next\<close>, then \<open>Err\<close>.\<close>

definition cursor_first :: "mongo_cursor \<Rightarrow> AuthorizedDevice option res" where
  "cursor_first cur =
     (case cur_docs cur of
        [] \<Rightarrow> (case cur_Err cur of Some err \<Rightarrow> Inl err | None \<Rightarrow> Inr None)
      | Inl _ # _ \<Rightarrow> Inr None
      | Inr (d, o') # _ \<Rightarrow> Inr (Some \<lparr> ad_DeviceID = d, ad_Owner = o' \<rparr>))"

definition mongo_Retrieve ::
    "'db mongo_devices \<Rightarrow> mongo_session \<Rightarrow> 'db \<Rightarrow> string \<Rightarrow> string \<Rightarrow> AuthorizedDevice option res" where
  "mongo_Retrieve M p db deviceID userID =
     (case ms_err p of
        Some err \<Rightarrow> Inl err
      | None \<Rightarrow>
          (case md_Find M db (Some deviceID) (Some userID) of
             Inl err \<Rightarrow> Inl err
           | Inr iter \<Rightarrow> cursor_first iter))"

definition mongo_RetrieveByDevice ::
    "'db mongo_devices \<Rightarrow> mongo_session \<Rightarrow> 'db \<Rightarrow> string \<Rightarrow> AuthorizedDevice option res" where
  "mongo_RetrieveByDevice M p db deviceID =
     (case ms_err p of
        Some err \<Rightarrow> Inl err
      | None \<Rightarrow>
          (case md_Find M db (Some deviceID) None of
             Inl err \<Rightarrow> Inl err
           | Inr iter \<Rightarrow> cursor_first iter))"

definition mongo_RetrieveByOwner :: "'db mongo_devices \<Rightarrow> mongo_session \<Rightarrow> 'db \<Rightarrow> string \<Rightarrow> dev_iterator" where
  "mongo_RetrieveByOwner M p db owner =
     (case ms_err p of
        Some err \<Rightarrow> \<lparr> it_Err = Some err, it_devices = [], it_closedErr = Some err \<rparr>
      | None \<Rightarrow>
          (case md_Find M db None (Some owner) of
             Inl err \<Rightarrow>
               (let e = Wrapf ''cannot load all devices subscription'' err
                in \<lparr> it_Err = Some e, it_devices = [], it_closedErr = Some e \<rparr>)
           | Inr iter \<Rightarrow>
               \<lparr> it_Err = None, it_devices = cursor_devices (cur_docs iter), it_closedErr = cur_Err iter \<rparr>))"

definition makeRecord :: "AuthorizedDevice \<Rightarrow> string \<times> string" where
  "makeRecord d = (ad_DeviceID d, ad_Owner d)"

definition commit :: "mongo_session \<Rightarrow> unit res" where
  "commit p = (case ms_CommitTransaction p of
                 Some err \<Rightarrow> Inl (Wrapf ''cannot commit transaction'' err) | None \<Rightarrow> Inr ())"

definition mongo_Persist ::
    "'db mongo_devices \<Rightarrow> mongo_session \<Rightarrow> 'db \<Rightarrow> AuthorizedDevice \<Rightarrow> 'db \<times> unit res" where
  "mongo_Persist M p db d =
     (case ms_err p of
        Some err \<Rightarrow> (db, Inl err)
      | None \<Rightarrow>
          (case md_UpsertOne M db (ad_DeviceID d) (makeRecord d) of
             (db, Inl err) \<Rightarrow> (db, Inl err)
           | (db, Inr _) \<Rightarrow> (db, commit p)))"

definition mongo_Delete ::
    "'db mongo_devices \<Rightarrow> mongo_session \<Rightarrow> 'db \<Rightarrow> string \<Rightarrow> string \<Rightarrow> 'db \<times> unit res" where
  "mongo_Delete M p db deviceID userID =
     (case ms_err p of
        Some err \<Rightarrow> (db, Inl err)
      | None \<Rightarrow>
          (case md_DeleteOne M db deviceID userID of
             (db, Inl err) \<Rightarrow> (db, Inl err)
           | (db, Inr n) \<Rightarrow> if n = 0 then (db, Inl (Errorf ''not found'' [])) else (db, commit p)))"

definition mongo_tx :: "'db mongo_devices \<Rightarrow> mongo_session \<Rightarrow> 'db PersistenceTx" where
  "mongo_tx M p =
     \<lparr> px_Retrieve = mongo_Retrieve M p, px_RetrieveByDevice = mongo_RetrieveByDevice M p,
       px_RetrieveByOwner = mongo_RetrieveByOwner M p, px_Persist = mongo_Persist M p,
       px_Delete = mongo_Delete M p \<rparr>"

section \<open>Publishing\<close>

text \<open>
  The parameters of the service: the subjects, \<open>utils.Marshal\<close>, the connection of the publisher, the
  clock, the trace of the context, and the claim and hub of the configuration. A message counts as
  sent when \<open>PublishData\<close> took it. Errors of publishing are only logged.
\<close>

record is_service =
  sv_subjects :: subject_env
  sv_Marshal :: "is_Event \<Rightarrow> bytes res"
  sv_PublishData :: "string \<Rightarrow> bytes \<Rightarrow> error option"
  sv_Flush :: "error option"
  sv_now :: gotime
  sv_carrier :: carrier
  sv_ownerClaim :: string
  sv_hubID :: string

type_synonym sent = "(string \<times> bytes) list"

definition publishEvent :: "is_service \<Rightarrow> sent \<Rightarrow> string \<Rightarrow> is_Event \<Rightarrow> sent \<times> error option" where
  "publishEvent S out subject event =
     (case sv_Marshal S event of
        Inl err \<Rightarrow> (out, Some err)
      | Inr data \<Rightarrow>
          (case sv_PublishData S subject data of
             Some err \<Rightarrow> (out, Some err)
           | None \<Rightarrow> (out @ [(subject, data)], sv_Flush S)))"

definition publishDevicesRegistered :: "is_service \<Rightarrow> sent \<Rightarrow> string \<Rightarrow> string \<Rightarrow> string \<Rightarrow> string list \<Rightarrow> sent" where
  "publishDevicesRegistered S out owner userID hubID deviceID =
     (let v = Event_DevicesRegistered
                \<lparr> dr_Owner = owner, dr_DeviceIds = deviceID, dr_UserId = userID,
                  dr_Timestamp = pkgTime_UnixNano (sv_now S), dr_EventMetadata = Some \<lparr> ism_HubId = hubID \<rparr>,
                  dr_OpenTelemetryCarrier = sv_carrier S \<rparr>
      in fst (publishEvent S out (GetDevicesRegisteredSubject (sv_subjects S) owner) v))"

definition publishDevicesUnregistered :: "is_service \<Rightarrow> sent \<Rightarrow> string \<Rightarrow> string \<Rightarrow> string \<Rightarrow> string list \<Rightarrow> sent" where
  "publishDevicesUnregistered S out owner userID hubID deviceIDs =
     (let v = Event_DevicesUnregistered
                \<lparr> du_Owner = owner, du_DeviceIds = deviceIDs, du_UserId = userID,
                  du_Timestamp = pkgTime_UnixNano (sv_now S), du_EventMetadata = Some \<lparr> ism_HubId = hubID \<rparr>,
                  du_OpenTelemetryCarrier = sv_carrier S \<rparr>
      in fst (publishEvent S out (GetDevicesUnregisteredSubject (sv_subjects S) owner) v))"

section \<open>Adding a device\<close>

definition AddDevice ::
    "'db PersistenceTx \<Rightarrow> auth_env \<Rightarrow> is_service \<Rightarrow> (nat \<Rightarrow> 'db \<Rightarrow> 'db) \<Rightarrow> 'db \<Rightarrow> sent \<Rightarrow> string
     \<Rightarrow> 'db \<times> sent \<times> unit res" where
  "AddDevice P A S others db out deviceID =
     (case parseTokenMD A (sv_ownerClaim S) of
        Inl err \<Rightarrow> (db, out, Inl (GrpcStatus InvalidArgument ''cannot add device: %v'' []))
      | Inr (owner, userID) \<Rightarrow>
          if deviceID = '''' then
            (db, out, Inl (GrpcStatus InvalidArgument ''cannot add device: invalid DeviceId'' []))
          else
            let db = others 0 db
            in (case px_RetrieveByDevice P db deviceID of
                  Inl err \<Rightarrow> (db, out, Inl (GrpcStatus Internal ''cannot add device %v: %v'' [deviceID]))
                | Inr (Some dev) \<Rightarrow>
                    if ad_Owner dev = owner then (db, out, Inr ())
                    else (db, out, Inl (GrpcStatus Unauthenticated
                           ''cannot add device: device %v is owned by another user'' [ad_DeviceID dev]))
                | Inr None \<Rightarrow>
                    (case px_Persist P (others 1 db) \<lparr> ad_DeviceID = deviceID, ad_Owner = owner \<rparr> of
                       (db, Inl err) \<Rightarrow> (db, out, Inl (GrpcStatus Internal ''cannot add device up: %v'' []))
                     | (db, Inr _) \<Rightarrow>
                         (db, publishDevicesRegistered S out owner userID (sv_hubID S) [deviceID], Inr ()))))"

section \<open>Deleting devices\<close>

text \<open>
  \<open>getUniqueDeviceIds\<close>: the set of the ids without the empty one, as a slice in the order \<open>ord\<close> in
  which Go visits the map.
\<close>

definition getUniqueDeviceIds :: "(string list \<Rightarrow> string list) \<Rightarrow> string list \<Rightarrow> string list" where
  "getUniqueDeviceIds ord deviceIds = ord (filter (\<lambda>d. d \<noteq> '''') (remdups deviceIds))"

definition tx_getOwnerDevices :: "'db PersistenceTx \<Rightarrow> 'db \<Rightarrow> string \<Rightarrow> string list res" where
  "tx_getOwnerDevices P db owner =
     (let it = px_RetrieveByOwner P db owner in
      case it_Err it of
        Some err \<Rightarrow> Inl (Wrapf ''failed to obtain owned devices'' err)
      | None \<Rightarrow> Inr (map ad_DeviceID (it_devices it)))"

definition getDeviceIDs ::
    "(string list \<Rightarrow> string list) \<Rightarrow> 'db PersistenceTx \<Rightarrow> 'db \<Rightarrow> string list \<Rightarrow> string \<Rightarrow> string list res" where
  "getDeviceIDs ord P db request owner =
     (if length request = 0 then
        case tx_getOwnerDevices P db owner of
          Inl err \<Rightarrow> Inl (GrpcStatus InvalidArgument ''cannot delete devices: %v'' [])
        | Inr deviceIds \<Rightarrow> Inr deviceIds
      else
        let deviceIds = getUniqueDeviceIds ord request
        in if length deviceIds = 0
           then Inl (GrpcStatus InvalidArgument ''cannot delete devices: invalid DeviceIds'' [])
           else Inr deviceIds)"

definition is_deleteDevice ::
    "'db PersistenceTx \<Rightarrow> (nat \<Rightarrow> 'db \<Rightarrow> 'db) \<Rightarrow> 'db \<Rightarrow> string \<Rightarrow> string \<Rightarrow> 'db \<times> bool res" where
  "is_deleteDevice P others db deviceId owner =
     (let db = others 0 db in
      case px_Retrieve P db deviceId owner of
        Inl err \<Rightarrow> (db, Inl (GrpcStatus Internal ''cannot delete device('%v'): %v'' [deviceId]))
      | Inr None \<Rightarrow> (db, Inr False)
      | Inr (Some _) \<Rightarrow>
          (case px_Delete P (others 1 db) deviceId owner of
             (db, Inl err) \<Rightarrow> (db, Inl (GrpcStatus NotFound ''cannot delete device('%v'): %v'' [deviceId]))
           | (db, Inr _) \<Rightarrow> (db, Inr True)))"

fun delete_loop ::
    "'db PersistenceTx \<Rightarrow> (nat \<Rightarrow> 'db \<Rightarrow> 'db) \<Rightarrow> 'db \<Rightarrow> string list \<Rightarrow> string \<Rightarrow> string list
     \<Rightarrow> 'db \<times> string list res" where
  "delete_loop P others db [] owner deleted = (db, Inr deleted)"
| "delete_loop P others db (deviceID # ids) owner deleted =
     (case is_deleteDevice P others db deviceID owner of
        (db, Inl err) \<Rightarrow> (db, Inl err)
      | (db, Inr ok) \<Rightarrow>
          delete_loop P (\<lambda>n. others (n + 2)) db ids owner (if \<not> ok then deleted else deleted @ [deviceID]))"

definition DeleteDevices ::
    "(string list \<Rightarrow> string list) \<Rightarrow> 'db PersistenceTx \<Rightarrow> auth_env \<Rightarrow> is_service \<Rightarrow> (nat \<Rightarrow> 'db \<Rightarrow> 'db) \<Rightarrow> 'db \<Rightarrow> sent
     \<Rightarrow> string list \<Rightarrow> 'db \<times> sent \<times> string list res" where
  "DeleteDevices ord P A S others db out request =
     (case parseTokenMD A (sv_ownerClaim S) of
        Inl err \<Rightarrow> (db, out, Inl (ForwardFromError InvalidArgument (Wrapf ''cannot delete devices'' err)))
      | Inr (owner, userID) \<Rightarrow>
          let db = others 0 db
          in (case getDeviceIDs ord P db request owner of
                Inl err \<Rightarrow> (db, out, Inl err)
              | Inr deviceIDs \<Rightarrow>
                  if length deviceIDs = 0 then (db, out, Inr [])
                  else
                    (case delete_loop P (\<lambda>n. others (n + 1)) db deviceIDs owner [] of
                       (db, Inl err) \<Rightarrow> (db, out, Inl err)
                     | (db, Inr deletedDeviceIDs) \<Rightarrow>
                         (db, publishDevicesUnregistered S out owner userID (sv_hubID S) deletedDeviceIDs,
                          Inr deletedDeviceIDs))))"

section \<open>Listing devices\<close>

definition hasMatchDeviceID :: "string \<Rightarrow> string set \<Rightarrow> bool" where
  "hasMatchDeviceID deviceID deviceIDFilter =
     (if deviceIDFilter = {} then True else if deviceID \<in> deviceIDFilter then True else False)"

fun send_loop :: "(string \<Rightarrow> error option) \<Rightarrow> string list \<Rightarrow> string list \<times> unit res" where
  "send_loop Send [] = ([], Inr ())"
| "send_loop Send (deviceID # ids) =
     (case Send deviceID of
        Some err \<Rightarrow> ([], Inl (GrpcStatus (status_code err) ''cannot get user devices: %v'' []))
      | None \<Rightarrow> apfst ((#) deviceID) (send_loop Send ids))"

definition sendDevices :: "string list \<Rightarrow> (string \<Rightarrow> error option) \<Rightarrow> dev_iterator \<Rightarrow> string list \<times> unit res" where
  "sendDevices deviceIdFilter Send it =
     (let ids = filter (\<lambda>d. hasMatchDeviceID d (set deviceIdFilter)) (map ad_DeviceID (it_devices it))
      in case it_closedErr it of
           Some err \<Rightarrow> ([], Inl (GrpcStatus Internal ''cannot get user devices: %v'' []))
         | None \<Rightarrow> send_loop Send ids)"

definition is_GetDevices ::
    "'db PersistenceTx \<Rightarrow> auth_env \<Rightarrow> is_service \<Rightarrow> 'db \<Rightarrow> string list \<Rightarrow> (string \<Rightarrow> error option)
     \<Rightarrow> string list \<times> unit res" where
  "is_GetDevices P A S db deviceIdFilter Send =
     (case OwnerFromTokenMD A (sv_ownerClaim S) of
        Inl err \<Rightarrow> ([], Inl (ForwardFromError InvalidArgument err))
      | Inr owner \<Rightarrow> sendDevices deviceIdFilter Send (px_RetrieveByOwner P db owner))"

end
