(* ===== verification/Identity_Store_Properties.thy ===== *)
theory Identity_Store_Properties
  imports Identity_Store Token_Claims_Properties
begin

text \<open>
  The contract of the storage of devices as a locale, with the stronger one of a storage that never
  gives a device to a second owner; the implementations on MongoDB and on Cassandra as their
  instances; and what the service promises on top of them, also when other instances of the service
  change the database between its operations.
\<close>

section \<open>The contracts\<close>

text \<open>
  \<open>owner_of\<close> is the table: the owner of each device. Operations may fail at any time; a write that
  fails may have been done. \<open>good_id\<close> and \<open>good_owner\<close> are the arguments the implementation is made for.
\<close>

locale device_registry =
  fixes P :: "'db PersistenceTx" and owner_of :: "'db \<Rightarrow> string \<rightharpoonup> string"
    and good_id good_owner :: "string \<Rightarrow> bool"
  assumes Retrieve: "good_id d \<Longrightarrow> good_owner u \<Longrightarrow> px_Retrieve P db d u = Inr x \<Longrightarrow>
      x = (if owner_of db d = Some u then Some \<lparr> ad_DeviceID = d, ad_Owner = u \<rparr> else None)"
    and RetrieveByDevice: "good_id d \<Longrightarrow> px_RetrieveByDevice P db d = Inr x \<Longrightarrow>
      x = map_option (\<lambda>u. \<lparr> ad_DeviceID = d, ad_Owner = u \<rparr>) (owner_of db d)"
    and RetrieveByOwner: "good_owner u \<Longrightarrow> px_RetrieveByOwner P db u = it \<Longrightarrow> it_Err it = None \<Longrightarrow> it_closedErr it = None \<Longrightarrow>
      distinct (map ad_DeviceID (it_devices it)) \<and> set (map ad_DeviceID (it_devices it)) = {d. owner_of db d = Some u}"
    and owned_good: "owner_of db d = Some u \<Longrightarrow> good_id d"
    and Persist: "good_id d \<Longrightarrow> good_owner u \<Longrightarrow> px_Persist P db \<lparr> ad_DeviceID = d, ad_Owner = u \<rparr> = (db', r) \<Longrightarrow>
      (r = Inr () \<longrightarrow> owner_of db' = (owner_of db)(d \<mapsto> u)) \<and>
      (owner_of db' = owner_of db \<or> owner_of db' = (owner_of db)(d \<mapsto> u))"
    and Delete: "good_id d \<Longrightarrow> good_owner u \<Longrightarrow> px_Delete P db d u = (db', r) \<Longrightarrow>
      (r = Inr () \<longrightarrow> owner_of db d = Some u \<and> owner_of db' = (owner_of db)(d := None)) \<and>
      (owner_of db' = owner_of db \<or> owner_of db d = Some u \<and> owner_of db' = (owner_of db)(d := None))"

locale exclusive_registry = device_registry +
  assumes Persist_exclusive: "good_id d \<Longrightarrow> good_owner u \<Longrightarrow>
      px_Persist P db \<lparr> ad_DeviceID = d, ad_Owner = u \<rparr> = (db', r) \<Longrightarrow> owner_of db d = Some v \<Longrightarrow> v \<noteq> u \<Longrightarrow>
      owner_of db' = owner_of db \<and> is_err r"

section \<open>What the service promises\<close>

context device_registry
begin

text \<open>One device: only a device of the caller goes, and the answer says whether it went.\<close>

lemma deleteDevice_effect:
  assumes "good_id d" and "good_owner u" and "is_deleteDevice P others db d u = (db', r)"
  shows "\<exists>db0. (db0 = others 0 db \<or> db0 = others 1 (others 0 db)) \<and>
     (owner_of db' = owner_of db0 \<and> r \<noteq> Inr True \<or>
      owner_of db0 d = Some u \<and> owner_of db' = (owner_of db0)(d := None) \<and> r \<noteq> Inr False)"
proof (cases "px_Retrieve P (others 0 db) d u")
  case (Inl err)
  then have "db' = others 0 db" "is_err r" using assms(3) by (auto simp: is_deleteDevice_def)
  then show ?thesis by (intro exI [of _ "others 0 db"]) (cases r; simp)
next
  case (Inr x)
  show ?thesis
  proof (cases x)
    case None
    then have "db' = others 0 db" "r = Inr False" using assms(3) Inr by (auto simp: is_deleteDevice_def)
    then show ?thesis by (intro exI [of _ "others 0 db"]) simp
  next
    case (Some dev)
    obtain db1 r1 where del: "px_Delete P (others 1 (others 0 db)) d u = (db1, r1)" by fastforce
    have res: "db' = db1" "r = Inr True \<and> r1 = Inr () \<or> is_err r \<and> is_err r1"
      using assms(3) Inr Some del by (auto simp: is_deleteDevice_def is_err_def Let_def split: sum.splits)
    from Delete [OF assms(1,2) del] res show ?thesis
      by (intro exI [of _ "others 1 (others 0 db)"]) (auto simp: is_err_def split: sum.splits)
  qed
qed

lemma deleteDevice_alone:
  assumes "good_id d" and "good_owner u" and "is_deleteDevice P (\<lambda>_ x. x) db d u = (db', Inr ok)"
  shows "ok = (owner_of db d = Some u) \<and> owner_of db' = (if ok then (owner_of db)(d := None) else owner_of db)"
proof (cases "px_Retrieve P db d u")
  case (Inl err)
  then show ?thesis using assms(3) by (simp add: is_deleteDevice_def)
next
  case (Inr x)
  have x: "x = (if owner_of db d = Some u then Some \<lparr> ad_DeviceID = d, ad_Owner = u \<rparr> else None)"
    by (rule Retrieve [OF assms(1,2) Inr])
  obtain db1 r1 where del: "px_Delete P db d u = (db1, r1)" by fastforce
  show ?thesis
    using assms(3) Inr x Delete [OF assms(1,2) del] del
    by (auto simp: is_deleteDevice_def Let_def split: if_splits sum.splits)
qed

lemma delete_loop_alone:
  assumes "distinct ids" and "\<forall>d\<in>set ids. good_id d" and "good_owner u"
    and "delete_loop P (\<lambda>_ x. x) db ids u deleted = (db', Inr deleted')"
  shows "deleted' = deleted @ filter (\<lambda>d. owner_of db d = Some u) ids \<and>
     owner_of db' = (\<lambda>d. if d \<in> set ids \<and> owner_of db d = Some u then None else owner_of db d)"
  using assms
proof (induction ids arbitrary: db deleted)
  case (Cons d ids)
  obtain db1 r1 where del: "is_deleteDevice P (\<lambda>_ x. x) db d u = (db1, r1)" by fastforce
  then obtain ok where r1: "r1 = Inr ok" using Cons.prems(4) by (cases r1) simp_all
  have one: "ok = (owner_of db d = Some u)" "owner_of db1 = (if ok then (owner_of db)(d := None) else owner_of db)"
    using deleteDevice_alone [OF _ Cons.prems(3), of d db db1 ok] Cons.prems(2) del r1 by simp_all
  have rest: "delete_loop P (\<lambda>_ x. x) db1 ids u (if \<not> ok then deleted else deleted @ [d]) = (db', Inr deleted')"
    using Cons.prems(4) del r1 by simp
  have same: "owner_of db1 e = owner_of db e" if "e \<in> set ids" for e
    using Cons.prems(1) that one(2) by auto
  have f: "filter (\<lambda>e. owner_of db1 e = Some u) ids = filter (\<lambda>e. owner_of db e = Some u) ids"
    using same by (intro filter_cong) simp_all
  have "deleted' = (if \<not> ok then deleted else deleted @ [d]) @ filter (\<lambda>e. owner_of db e = Some u) ids"
    and "owner_of db' = (\<lambda>e. if e \<in> set ids \<and> owner_of db1 e = Some u then None else owner_of db1 e)"
    using Cons.IH [OF _ _ Cons.prems(3) rest] Cons.prems(1,2) f by simp_all
  then show ?case using one by (auto simp: fun_eq_iff)
qed simp

text \<open>
  A request to delete devices that nobody disturbs: a successful answer lists exactly the requested
  devices of the caller (all of them for an empty request), which are gone, and nothing else changed.
\<close>

lemma DeleteDevices_alone:
  assumes perm: "\<And>xs. mset (ord xs) = mset xs"
    and token: "parseTokenMD A (sv_ownerClaim S) = Inr (u, user)" and u: "good_owner u"
    and ids: "\<forall>d\<in>set request. good_id d"
    and read: "it_closedErr (px_RetrieveByOwner P db u) = None"
    and run: "DeleteDevices ord P A S (\<lambda>_ x. x) db out request = (db', out', Inr deleted)"
  shows "distinct deleted \<and>
     set deleted = {d. owner_of db d = Some u \<and> (request = [] \<or> d \<in> set request \<and> d \<noteq> '''')} \<and>
     owner_of db' = (\<lambda>d. if d \<in> set deleted then None else owner_of db d) \<and>
     (deleted \<noteq> [] \<longrightarrow> out' = publishDevicesUnregistered S out u user (sv_hubID S) deleted)"
proof -
  obtain deviceIDs where got: "getDeviceIDs ord P db request u = Inr deviceIDs"
    using run token by (auto simp: DeleteDevices_def Let_def split: sum.splits)
  have listed: "distinct deviceIDs \<and> (\<forall>d\<in>set deviceIDs. good_id d) \<and>
     {d \<in> set deviceIDs. owner_of db d = Some u} = {d. owner_of db d = Some u \<and> (request = [] \<or> d \<in> set request \<and> d \<noteq> '''')}"
  proof (cases "request = []")
    case True
    let ?it = "px_RetrieveByOwner P db u"
    have e: "it_Err ?it = None" and d: "deviceIDs = map ad_DeviceID (it_devices ?it)"
      using got True by (auto simp: getDeviceIDs_def tx_getOwnerDevices_def Let_def split: option.splits sum.splits)
    from RetrieveByOwner [OF u refl e read] owned_good show ?thesis using True by (auto simp: d)
  next
    case False
    have d: "deviceIDs = ord (filter (\<lambda>d. d \<noteq> '''') (remdups request))"
      using got False by (auto simp: getDeviceIDs_def getUniqueDeviceIds_def Let_def split: if_splits)
    have "set deviceIDs = {d \<in> set request. d \<noteq> ''''}"
      unfolding d mset_eq_setD [OF perm] by auto
    moreover have "distinct deviceIDs"
      unfolding d mset_eq_imp_distinct_iff [OF perm] by simp
    ultimately show ?thesis using False ids by auto
  qed
  show ?thesis
  proof (cases "deviceIDs = []")
    case True
    then have "deleted = []" "db' = db" using run token got by (auto simp: DeleteDevices_def Let_def)
    then show ?thesis using listed True by auto
  next
    case False
    obtain r where loop: "delete_loop P (\<lambda>_ x. x) db deviceIDs u [] = (db', r)" "r = Inr deleted"
      "out' = publishDevicesUnregistered S out u user (sv_hubID S) deleted"
      using run token got False by (auto simp: DeleteDevices_def Let_def split: prod.splits sum.splits)
    have del: "deleted = filter (\<lambda>d. owner_of db d = Some u) deviceIDs"
      and o': "owner_of db' = (\<lambda>d. if d \<in> set deviceIDs \<and> owner_of db d = Some u then None else owner_of db d)"
      using delete_loop_alone [OF _ _ u, of deviceIDs db "[]" db' deleted] listed loop by simp_all
    have set: "set deleted = {d \<in> set deviceIDs. owner_of db d = Some u}" by (auto simp: del)
    have "owner_of db' = (\<lambda>d. if d \<in> set deleted then None else owner_of db d)"
      unfolding o' set by (simp add: fun_eq_iff)
    moreover have "distinct deleted" using listed by (simp add: del)
    ultimately show ?thesis using listed loop(3) unfolding set by blast
  qed
qed

text \<open>Listing devices.\<close>

lemma send_loop_ok: "send_loop Send ids = (sent, Inr ()) \<Longrightarrow> sent = ids"
  by (induction ids arbitrary: sent) (auto split: option.splits prod.splits simp: apfst_def map_prod_def)

lemma GetDevices_exact:
  assumes token: "OwnerFromTokenMD A (sv_ownerClaim S) = Inr u" and u: "good_owner u"
    and start: "it_Err (px_RetrieveByOwner P db u) = None"
    and run: "is_GetDevices P A S db deviceIdFilter Send = (sent, Inr ())"
  shows "distinct sent \<and> set sent = {d. owner_of db d = Some u \<and> (deviceIdFilter = [] \<or> d \<in> set deviceIdFilter)}"
proof -
  let ?it = "px_RetrieveByOwner P db u"
  have c: "it_closedErr ?it = None"
    and s: "send_loop Send (filter (\<lambda>d. hasMatchDeviceID d (set deviceIdFilter)) (map ad_DeviceID (it_devices ?it))) = (sent, Inr ())"
    using run token by (auto simp: is_GetDevices_def sendDevices_def Let_def split: option.splits)
  from RetrieveByOwner [OF u refl start c] show ?thesis
    unfolding send_loop_ok [OF s] by (auto simp: hasMatchDeviceID_def)
qed

text \<open>Adding a device nobody disturbs.\<close>

lemma AddDevice_alone:
  assumes token: "parseTokenMD A (sv_ownerClaim S) = Inr (u, user)" and g: "good_owner u" "good_id d"
    and run: "AddDevice P A S (\<lambda>_ x. x) db out d = (db', out', r)"
  shows "(r = Inr () \<longrightarrow> owner_of db' = (owner_of db)(d \<mapsto> u) \<and> owner_of db d \<in> {None, Some u} \<and>
       (owner_of db d = None \<longrightarrow> out' = publishDevicesRegistered S out u user (sv_hubID S) [d])) \<and>
     (owner_of db d \<noteq> None \<longrightarrow> owner_of db' = owner_of db \<and> out' = out)"
proof (cases "px_RetrieveByDevice P db d")
  case (Inl err)
  then show ?thesis using run token by (auto simp: AddDevice_def Let_def split: if_splits)
next
  case (Inr x)
  have x: "x = map_option (\<lambda>u. \<lparr> ad_DeviceID = d, ad_Owner = u \<rparr>) (owner_of db d)"
    by (rule RetrieveByDevice [OF g(2) Inr])
  obtain db1 r1 where p: "px_Persist P db \<lparr> ad_DeviceID = d, ad_Owner = u \<rparr> = (db1, r1)" by fastforce
  show ?thesis
  proof (cases "owner_of db d")
    case None
    then show ?thesis using run token Inr x p Persist [OF g(2,1) p]
      by (auto simp: AddDevice_def Let_def split: if_splits sum.splits)
  next
    case (Some v)
    then show ?thesis using run token Inr x
      by (auto simp: AddDevice_def Let_def fun_upd_idem split: if_splits)
  qed
qed

end

text \<open>With an exclusive storage, whatever the other instances do, a device keeps its owner.\<close>

context exclusive_registry
begin

lemma AddDevice_exclusive:
  assumes token: "parseTokenMD A (sv_ownerClaim S) = Inr (u, user)" and g: "good_owner u" "good_id d"
    and run: "AddDevice P A S others db out d = (db', out', r)"
  shows "\<exists>db0. db0 \<in> {db, others 0 db, others 1 (others 0 db)} \<and> owner_of db0 \<subseteq>\<^sub>m owner_of db' \<and>
     (r = Inr () \<longrightarrow> owner_of db' = (owner_of db0)(d \<mapsto> u))"
proof (cases "d = ''''")
  case True
  then show ?thesis using run token by (auto simp: AddDevice_def intro: exI [of _ db])
next
  case False
  show ?thesis
  proof (cases "px_RetrieveByDevice P (others 0 db) d")
    case (Inl err)
    then show ?thesis using run token False by (auto simp: AddDevice_def Let_def)
  next
    case (Inr x)
    have x: "x = map_option (\<lambda>u. \<lparr> ad_DeviceID = d, ad_Owner = u \<rparr>) (owner_of (others 0 db) d)"
      by (rule RetrieveByDevice [OF g(2) Inr])
    show ?thesis
    proof (cases "owner_of (others 0 db) d")
      case (Some v)
      then show ?thesis using run token False Inr x
        by (intro exI [of _ "others 0 db"]) (auto simp: AddDevice_def Let_def fun_upd_idem split: if_splits)
    next
      case None
      let ?db = "others 1 (others 0 db)"
      obtain db1 r1 where p: "px_Persist P ?db \<lparr> ad_DeviceID = d, ad_Owner = u \<rparr> = (db1, r1)" by fastforce
      have res: "db' = db1" "r = Inr () \<longleftrightarrow> r1 = Inr ()"
        using run token False Inr x None p by (auto simp: AddDevice_def Let_def split: sum.splits)
      have le: "owner_of ?db \<subseteq>\<^sub>m owner_of db1"
      proof (cases "owner_of ?db d = None \<or> owner_of ?db d = Some u")
        case True
        then show ?thesis using Persist [OF g(2,1) p] by (auto simp: map_le_def)
      next
        case False
        then obtain v where "owner_of ?db d = Some v" "v \<noteq> u" by auto
        from Persist_exclusive [OF g(2,1) p this] show ?thesis by simp
      qed
      then show ?thesis using res Persist [OF g(2,1) p] by (intro exI [of _ ?db]) auto
    qed
  qed
qed

end

end
