(* ===== verification/Identity_Backends.thy ===== *)
theory Identity_Backends
  imports Identity_Store_Properties
begin

text \<open>
  The storages of the identity store as instances of its contracts. The documented behaviour of the
  drivers is a locale of its own for each database; MongoDB gives a storage of devices, Cassandra an
  exclusive one, because its insertion is conditional.
\<close>

section \<open>MongoDB\<close>

text \<open>
  A query returns documents that match, all of them unless the cursor reports an error. A write that
  fails may have been done.
\<close>

definition matching :: "(string \<rightharpoonup> string) \<Rightarrow> string option \<Rightarrow> string option \<Rightarrow> (string \<times> string) set" where
  "matching t dq oq = {(d, u). t d = Some u \<and> (dq = None \<or> dq = Some d) \<and> (oq = None \<or> oq = Some u)}"

locale mongo_collection =
  fixes M :: "'db mongo_devices" and tbl :: "'db \<Rightarrow> string \<rightharpoonup> string"
  assumes Find: "md_Find M db dq oq = Inr cur \<Longrightarrow>
      \<exists>rows. cur_docs cur = map Inr rows \<and> distinct (map fst rows) \<and> set rows \<subseteq> matching (tbl db) dq oq \<and>
        (cur_Err cur = None \<longrightarrow> set rows = matching (tbl db) dq oq)"
    and Upsert: "md_UpsertOne M db d (d, u) = (db', r) \<Longrightarrow>
      (r = Inr () \<longrightarrow> tbl db' = (tbl db)(d \<mapsto> u)) \<and> (tbl db' = tbl db \<or> tbl db' = (tbl db)(d \<mapsto> u))"
    and DeleteOne: "md_DeleteOne M db d u = (db', n) \<Longrightarrow>
      (n = Inr 0 \<longrightarrow> tbl db' = tbl db) \<and>
      (\<forall>k. n = Inr (Suc k) \<longrightarrow> tbl db d = Some u \<and> tbl db' = (tbl db)(d := None)) \<and>
      (tbl db' = tbl db \<or> tbl db d = Some u \<and> tbl db' = (tbl db)(d := None))"
begin

lemma cursor_rows: "cursor_devices (map Inr rows) = map (\<lambda>(d, u). \<lparr> ad_DeviceID = d, ad_Owner = u \<rparr>) rows"
  by (induction rows) auto

lemma first_row:
  assumes "md_Find M db (Some d) oq = Inr cur" and "cursor_first cur = Inr x"
  shows "x = (case tbl db d of Some u \<Rightarrow> if oq \<in> {None, Some u} then Some \<lparr> ad_DeviceID = d, ad_Owner = u \<rparr> else None
              | None \<Rightarrow> None)"
proof -
  obtain rows where rows: "cur_docs cur = map Inr rows"
    and sub: "set rows \<subseteq> matching (tbl db) (Some d) oq"
    and all: "cur_Err cur = None \<longrightarrow> set rows = matching (tbl db) (Some d) oq"
    using Find [OF assms(1)] by (elim exE conjE) (rule that)
  have sound: "tbl db e = Some u \<and> e = d \<and> oq \<in> {None, Some u}" if "(e, u) \<in> set rows" for e u
    using subsetD [OF sub that] by (auto simp: matching_def)
  have complete: "(d, u) \<in> set rows" if "cur_Err cur = None" "tbl db d = Some u" "oq \<in> {None, Some u}" for u
    using all that by (auto simp: matching_def)
  show ?thesis
  proof (cases rows)
    case Nil
    then have "x = None" "cur_Err cur = None"
      using assms(2) rows by (auto simp: cursor_first_def split: option.splits)
    then show ?thesis using complete Nil by (auto split: option.splits)
  next
    case (Cons r rs)
    obtain e u where r: "r = (e, u)" by (cases r)
    have "(e, u) \<in> set rows" by (simp add: Cons r)
    from sound [OF this] have "tbl db e = Some u" "e = d" "oq \<in> {None, Some u}" by auto
    moreover have "x = Some \<lparr> ad_DeviceID = e, ad_Owner = u \<rparr>"
      using assms(2) rows by (simp add: cursor_first_def Cons r)
    ultimately show ?thesis by simp
  qed
qed

lemma owner_rows:
  assumes "md_Find M db None (Some u) = Inr cur" and "cur_Err cur = None"
  shows "distinct (map ad_DeviceID (cursor_devices (cur_docs cur)))"
    and "set (map ad_DeviceID (cursor_devices (cur_docs cur))) = {d. tbl db d = Some u}"
proof -
  obtain rows where rows: "cur_docs cur = map Inr rows" "distinct (map fst rows)"
    and all: "cur_Err cur = None \<longrightarrow> set rows = matching (tbl db) None (Some u)"
    using Find [OF assms(1)] by (elim exE conjE) (rule that)
  have ids: "map ad_DeviceID (cursor_devices (cur_docs cur)) = map fst rows"
    by (simp add: rows(1) cursor_rows case_prod_unfold comp_def)
  show "distinct (map ad_DeviceID (cursor_devices (cur_docs cur)))" unfolding ids by (rule rows(2))
  show "set (map ad_DeviceID (cursor_devices (cur_docs cur))) = {d. tbl db d = Some u}"
  proof -
    have "set (map fst rows) = fst ` matching (tbl db) None (Some u)" using all assms(2) by simp
    also have "\<dots> = {d. tbl db d = Some u}" by (auto simp: matching_def image_iff)
    finally show ?thesis unfolding ids .
  qed
qed

end

locale mongo_identities = mongo_collection +
  fixes p :: mongo_session

sublocale mongo_identities \<subseteq> device_registry "mongo_tx M p" tbl "\<lambda>_. True" "\<lambda>_. True"
proof
  fix d u db x
  assume "px_Retrieve (mongo_tx M p) db d u = Inr x"
  then obtain cur where c: "md_Find M db (Some d) (Some u) = Inr cur" "cursor_first cur = Inr x"
    by (auto simp: mongo_tx_def mongo_Retrieve_def split: option.splits sum.splits)
  from first_row [OF this] show "x = (if tbl db d = Some u then Some \<lparr> ad_DeviceID = d, ad_Owner = u \<rparr> else None)"
    by (auto split: option.splits)
next
  fix d db x
  assume "px_RetrieveByDevice (mongo_tx M p) db d = Inr x"
  then obtain cur where c: "md_Find M db (Some d) None = Inr cur" "cursor_first cur = Inr x"
    by (auto simp: mongo_tx_def mongo_RetrieveByDevice_def split: option.splits sum.splits)
  from first_row [OF this] show "x = map_option (\<lambda>u. \<lparr> ad_DeviceID = d, ad_Owner = u \<rparr>) (tbl db d)"
    by (auto split: option.splits)
next
  fix u db it
  assume it: "px_RetrieveByOwner (mongo_tx M p) db u = it" "it_Err it = None" "it_closedErr it = None"
  then obtain cur where c: "md_Find M db None (Some u) = Inr cur"
    and i: "it = \<lparr> it_Err = None, it_devices = cursor_devices (cur_docs cur), it_closedErr = cur_Err cur \<rparr>"
    by (auto simp: mongo_tx_def mongo_RetrieveByOwner_def Let_def split: option.splits sum.splits)
  from owner_rows [OF c] it(3)
  show "distinct (map ad_DeviceID (it_devices it)) \<and> set (map ad_DeviceID (it_devices it)) = {d. tbl db d = Some u}"
    by (simp add: i)
next
  fix d u db db' r
  assume p: "px_Persist (mongo_tx M p) db \<lparr> ad_DeviceID = d, ad_Owner = u \<rparr> = (db', r)"
  obtain db1 r1 where w: "md_UpsertOne M db d (d, u) = (db1, r1)" by fastforce
  have "db' = db \<and> is_err r \<or> db' = db1 \<and> (r = Inr () \<longrightarrow> r1 = Inr ())"
    using p w by (auto simp: mongo_tx_def mongo_Persist_def makeRecord_def is_err_def split: option.splits sum.splits)
  then show "(r = Inr () \<longrightarrow> tbl db' = (tbl db)(d \<mapsto> u)) \<and> (tbl db' = tbl db \<or> tbl db' = (tbl db)(d \<mapsto> u))"
    using Upsert [OF w] by (cases r) auto
next
  fix d u db db' r
  assume p: "px_Delete (mongo_tx M p) db d u = (db', r)"
  obtain db1 n where w: "md_DeleteOne M db d u = (db1, n)" by fastforce
  have "db' = db \<and> is_err r \<or> db' = db1 \<and> (r = Inr () \<longrightarrow> (\<exists>k. n = Inr (Suc k)))"
    using p w
    by (auto simp: mongo_tx_def mongo_Delete_def is_err_def gr0_conv_Suc split: option.splits sum.splits if_splits)
  then show "(r = Inr () \<longrightarrow> tbl db d = Some u \<and> tbl db' = (tbl db)(d := None)) \<and>
      (tbl db' = tbl db \<or> tbl db d = Some u \<and> tbl db' = (tbl db)(d := None))"
    using DeleteOne [OF w] by (cases r) auto
qed simp

section \<open>Cassandra\<close>

text \<open>
  What a session does with the statements the code assembles, for device ids in the text form of UUIDs
  and owners without a quote. A conditional statement that fails with an error may have been applied.
\<close>

definition unquoted :: "string \<Rightarrow> bool" where
  "unquoted u \<longleftrightarrow> CHR 0x27 \<notin> set u"

locale cql_identities =
  fixes N :: "'db cql_conn" and table :: string and tbl :: "'db \<Rightarrow> string \<rightharpoonup> string" and is_uuid :: "string \<Rightarrow> bool"
  assumes ids: "tbl db d = Some u \<Longrightarrow> is_uuid d"
    and Scan_both: "is_uuid d \<Longrightarrow> unquoted u \<Longrightarrow> cn_Scan N db (select_text table (retrieve_cond d u)) = Inr x \<Longrightarrow>
      x = (if tbl db d = Some u then Some (u, d) else None)"
    and Scan_device: "is_uuid d \<Longrightarrow> cn_Scan N db (select_text table (by_device_cond d)) = Inr x \<Longrightarrow>
      x = map_option (\<lambda>u. (u, d)) (tbl db d)"
    and Iter: "unquoted u \<Longrightarrow> cn_Iter N db (select_text table (by_owner_cond u)) = (rows, None) \<Longrightarrow>
      distinct (map snd rows) \<and> set (map snd rows) = {d. tbl db d = Some u}"
    and Insert: "is_uuid d \<Longrightarrow> unquoted u \<Longrightarrow> cn_ScanCAS N db (insert_text table d u) = (db', r) \<Longrightarrow>
      (case r of
         Inl _ \<Rightarrow> tbl db' = tbl db \<or> tbl db d = None \<and> tbl db' = (tbl db)(d \<mapsto> u)
       | Inr (applied, d', v) \<Rightarrow> if applied then tbl db d = None \<and> tbl db' = (tbl db)(d \<mapsto> u)
                                  else tbl db d = Some v \<and> tbl db' = tbl db)"
    and Remove: "is_uuid d \<Longrightarrow> unquoted u \<Longrightarrow> cn_ScanCAS N db (delete_text table d u) = (db', r) \<Longrightarrow>
      (case r of
         Inl _ \<Rightarrow> tbl db' = tbl db \<or> tbl db d = Some u \<and> tbl db' = (tbl db)(d := None)
       | Inr (applied, d', v) \<Rightarrow> if applied then tbl db d = Some u \<and> tbl db' = (tbl db)(d := None)
                                  else tbl db d \<noteq> Some u \<and> tbl db' = tbl db)"

sublocale cql_identities \<subseteq> exclusive_registry "cql_tx N table" tbl is_uuid unquoted
proof
  show "is_uuid d" if "tbl db d = Some u" for d db u using that by (rule ids)
next
  fix d u db x
  assume g: "is_uuid d" "unquoted u" and "px_Retrieve (cql_tx N table) db d u = Inr x"
  then obtain y where y: "cn_Scan N db (select_text table (retrieve_cond d u)) = Inr y"
    and x: "x = map_option (\<lambda>(v, e). \<lparr> ad_DeviceID = e, ad_Owner = v \<rparr>) y"
    by (auto simp: cql_tx_def cql_Retrieve_def cql_retrieveDeviceByQuery_def split: option.splits sum.splits)
  from Scan_both [OF g y] show "x = (if tbl db d = Some u then Some \<lparr> ad_DeviceID = d, ad_Owner = u \<rparr> else None)"
    by (simp add: x)
next
  fix d db x
  assume g: "is_uuid d" and "px_RetrieveByDevice (cql_tx N table) db d = Inr x"
  then obtain y where y: "cn_Scan N db (select_text table (by_device_cond d)) = Inr y"
    and x: "x = map_option (\<lambda>(v, e). \<lparr> ad_DeviceID = e, ad_Owner = v \<rparr>) y"
    by (auto simp: cql_tx_def cql_RetrieveByDevice_def cql_retrieveDeviceByQuery_def split: option.splits sum.splits)
  from Scan_device [OF g y] show "x = map_option (\<lambda>u. \<lparr> ad_DeviceID = d, ad_Owner = u \<rparr>) (tbl db d)"
    by (cases "tbl db d") (simp_all add: x)
next
  fix u db it
  assume g: "unquoted u" and it: "px_RetrieveByOwner (cql_tx N table) db u = it" "it_closedErr it = None"
  obtain rows e where c: "cn_Iter N db (select_text table (by_owner_cond u)) = (rows, e)" by fastforce
  have "e = None" and m: "map ad_DeviceID (it_devices it) = map snd rows"
    using it by (auto simp: cql_tx_def cql_RetrieveByOwner_def c comp_def case_prod_unfold)
  from Iter [OF g c [unfolded this(1)]]
  show "distinct (map ad_DeviceID (it_devices it)) \<and> set (map ad_DeviceID (it_devices it)) = {d. tbl db d = Some u}"
    unfolding m .
next
  fix d u db db' r
  assume g: "is_uuid d" "unquoted u" and p: "px_Persist (cql_tx N table) db \<lparr> ad_DeviceID = d, ad_Owner = u \<rparr> = (db', r)"
  obtain db1 r1 where w: "cn_ScanCAS N db (insert_text table d u) = (db1, r1)" by fastforce
  note law = Insert [OF g w]
  show "(r = Inr () \<longrightarrow> tbl db' = (tbl db)(d \<mapsto> u)) \<and> (tbl db' = tbl db \<or> tbl db' = (tbl db)(d \<mapsto> u))"
    using p w law
    by (auto simp: cql_tx_def cql_Persist_def fun_upd_idem split: sum.splits prod.splits if_splits)
  show "tbl db' = tbl db \<and> is_err r" if "tbl db d = Some v" "v \<noteq> u" for v
    using p w law that by (auto simp: cql_tx_def cql_Persist_def split: sum.splits prod.splits if_splits)
next
  fix d u db db' r
  assume g: "is_uuid d" "unquoted u" and p: "px_Delete (cql_tx N table) db d u = (db', r)"
  obtain db1 r1 where w: "cn_ScanCAS N db (delete_text table d u) = (db1, r1)" by fastforce
  show "(r = Inr () \<longrightarrow> tbl db d = Some u \<and> tbl db' = (tbl db)(d := None)) \<and>
      (tbl db' = tbl db \<or> tbl db d = Some u \<and> tbl db' = (tbl db)(d := None))"
    using p w Remove [OF g w]
    by (auto simp: cql_tx_def cql_Delete_def split: sum.splits prod.splits if_splits)
qed

text \<open>The facts of the contracts, for the databases.\<close>

context cql_identities
begin

lemmas cql_AddDevice_exclusive = AddDevice_exclusive
lemmas cql_AddDevice_alone = AddDevice_alone
lemmas cql_DeleteDevices_alone = DeleteDevices_alone
lemmas cql_GetDevices_exact = GetDevices_exact

end

context mongo_identities
begin

lemmas mongo_RetrieveByDevice_row = RetrieveByDevice
lemmas mongo_Persist_row = Persist

end

section \<open>Databases in memory\<close>

text \<open>A collection and a session that satisfy the assumptions; the latter reads the statements.\<close>

type_synonym mem_db = "(string \<times> string) list"

definition mem_devices :: "mem_db mongo_devices" where
  "mem_devices =
     \<lparr> md_Find = (\<lambda>db dq oq. Inr \<lparr> cur_docs = map Inr (filter (\<lambda>(d, u). map_of db d = Some u \<and> (dq = None \<or> dq = Some d) \<and>
           (oq = None \<or> oq = Some u)) (remdups (map (\<lambda>d. (d, the (map_of db d))) (remdups (map fst db))))), cur_Err = None \<rparr>),
       md_UpsertOne = (\<lambda>db d (_, u). ((d, u) # db, Inr ())),
       md_DeleteOne = (\<lambda>db d u. if map_of db d = Some u then (filter (\<lambda>e. fst e \<noteq> d) db, Inr 1) else (db, Inr 0)) \<rparr>"

definition calm_session :: mongo_session where
  "calm_session = \<lparr> ms_err = None, ms_CommitTransaction = None \<rparr>"

lemma map_of_filter_other: "map_of (filter (\<lambda>e. fst e \<noteq> d) db) = (map_of db)(d := None)"
  by (induction db) auto

interpretation mem_mongo: mongo_identities mem_devices map_of calm_session
proof
  fix db :: mem_db and dq oq cur
  let ?rows = "filter (\<lambda>(d, u). map_of db d = Some u \<and> (dq = None \<or> dq = Some d) \<and> (oq = None \<or> oq = Some u))
     (remdups (map (\<lambda>d. (d, the (map_of db d))) (remdups (map fst db))))"
  assume "md_Find mem_devices db dq oq = Inr cur"
  then have cur: "cur = \<lparr> cur_docs = map Inr ?rows, cur_Err = None \<rparr>" by (simp add: mem_devices_def)
  have inj: "inj_on fst (set ?rows)" by (auto simp: inj_on_def)
  have "distinct ?rows" by simp
  then have "distinct (map fst ?rows)" using inj by (simp only: distinct_map)
  moreover have "set ?rows = matching (map_of db) dq oq"
    by (auto simp: matching_def image_iff) (metis fst_conv map_of_SomeD option.sel)+
  ultimately show "\<exists>rows. cur_docs cur = map Inr rows \<and> distinct (map fst rows) \<and> set rows \<subseteq> matching (map_of db) dq oq \<and>
      (cur_Err cur = None \<longrightarrow> set rows = matching (map_of db) dq oq)"
    by (intro exI [of _ ?rows]) (simp add: cur)
qed (auto simp: mem_devices_def map_of_filter_other split: if_splits)

text \<open>A session that reads the statements the code assembles, for the table \<open>devices\<close>.\<close>

definition hex_char :: "char \<Rightarrow> bool" where
  "hex_char c \<longleftrightarrow> c \<in> set ''0123456789abcdef-''"

definition hex_id :: "string \<Rightarrow> bool" where
  "hex_id d \<longleftrightarrow> (\<forall>c\<in>set d. hex_char c)"

definition strip :: "string \<Rightarrow> string \<Rightarrow> string option" where
  "strip p s = (if take (length p) s = p then Some (drop (length p) s) else None)"

lemma strip_append [simp]: "strip p (p @ s) = Some s"
  by (simp add: strip_def)

definition take_id :: "string \<Rightarrow> string" where
  "take_id s = takeWhile hex_char s"

definition take_text :: "string \<Rightarrow> string" where
  "take_text s = takeWhile (\<lambda>c. c \<noteq> CHR 0x27) s"

lemma take_id_append: "hex_id d \<Longrightarrow> rest = [] \<or> \<not> hex_char (hd rest) \<Longrightarrow> take_id (d @ rest) = d"
  by (cases rest) (auto simp: take_id_def hex_id_def takeWhile_append)

lemma take_text_quote: "unquoted u \<Longrightarrow> take_text (u @ quote @ rest) = u"
  by (auto simp: take_text_def unquoted_def quote_def takeWhile_append)

definition mem_tbl :: "mem_db \<Rightarrow> string \<rightharpoonup> string" where
  "mem_tbl db d = (if hex_id d then map_of db d else None)"

definition mem_select :: string where
  "mem_select = select_text ''devices'' (is_deviceIDKey @ ''='')"

definition mem_and :: string where
  "mem_and = '' AND '' @ is_ownerKey @ ''='' @ quote"

definition mem_insert :: string where
  "mem_insert = ''INSERT INTO '' @ ''devices'' @ '' ('' @ is_ownerKey @ '','' @ is_deviceIDKey @ '') VALUES ('' @ quote"

definition mem_delete :: string where
  "mem_delete = ''DELETE FROM '' @ ''devices'' @ '' WHERE '' @ is_deviceIDKey @ ''=''"

definition mem_Scan :: "mem_db \<Rightarrow> string \<Rightarrow> (string \<times> string) option res" where
  "mem_Scan db txt =
     (case strip mem_select txt of
        None \<Rightarrow> Inl (Errorf ''syntax error'' [])
      | Some s \<Rightarrow>
          (let d = take_id s in
           case strip mem_and (drop (length d) s) of
             None \<Rightarrow> Inr (map_option (\<lambda>u. (u, d)) (mem_tbl db d))
           | Some s \<Rightarrow> (let u = take_text s in Inr (if mem_tbl db d = Some u then Some (u, d) else None))))"

definition mem_Iter :: "mem_db \<Rightarrow> string \<Rightarrow> (string \<times> string) list \<times> error option" where
  "mem_Iter db txt =
     (case strip (select_text ''devices'' (is_ownerKey @ ''='' @ quote)) txt of
        None \<Rightarrow> ([], Some (Errorf ''syntax error'' []))
      | Some s \<Rightarrow>
          (let u = take_text s
           in (map (\<lambda>d. (u, d)) (filter (\<lambda>d. mem_tbl db d = Some u) (remdups (map fst db))), None)))"

definition mem_ScanCAS :: "mem_db \<Rightarrow> string \<Rightarrow> mem_db \<times> (bool \<times> string \<times> string) res" where
  "mem_ScanCAS db txt =
     (case strip mem_insert txt of
        Some s \<Rightarrow>
          (let u = take_text s; d = take_id (drop (length u + 2) s)
           in case mem_tbl db d of
                None \<Rightarrow> ((d, u) # db, Inr (True, '''', ''''))
              | Some v \<Rightarrow> (db, Inr (False, d, v)))
      | None \<Rightarrow>
          (case strip mem_delete txt of
             None \<Rightarrow> (db, Inl (Errorf ''syntax error'' []))
           | Some s \<Rightarrow>
               (let d = take_id s; u = take_text (drop (length d + length ('' IF '' @ is_ownerKey @ ''='' @ quote)) s)
                in if mem_tbl db d = Some u then (filter (\<lambda>e. fst e \<noteq> d) db, Inr (True, '''', ''''))
                   else (db, Inr (False, '''', '''')))))"

definition mem_conn :: "mem_db cql_conn" where
  "mem_conn = \<lparr> cn_Scan = mem_Scan, cn_Iter = mem_Iter, cn_ScanCAS = mem_ScanCAS \<rparr>"

lemma not_hex: "\<not> hex_char CHR '' ''" "\<not> hex_char CHR '')''"
  by (simp_all add: hex_char_def)

lemma mem_Scan_both:
  assumes "hex_id d" and "unquoted u"
  shows "mem_Scan db (select_text ''devices'' (retrieve_cond d u)) = Inr (if mem_tbl db d = Some u then Some (u, d) else None)"
proof -
  have t: "select_text ''devices'' (retrieve_cond d u) = mem_select @ d @ mem_and @ u @ quote @ '' ALLOW FILTERING''"
    by (simp add: select_text_def retrieve_cond_def mem_select_def mem_and_def)
  have d: "take_id (d @ mem_and @ r) = d" for r
    using assms(1) by (intro take_id_append) (simp_all add: mem_and_def not_hex)
  show ?thesis
    unfolding mem_Scan_def t strip_append by (simp add: d take_text_quote [OF assms(2)] Let_def)
qed

lemma mem_Scan_device:
  assumes "hex_id d"
  shows "mem_Scan db (select_text ''devices'' (by_device_cond d)) = Inr (map_option (\<lambda>u. (u, d)) (mem_tbl db d))"
proof -
  have t: "select_text ''devices'' (by_device_cond d) = mem_select @ d"
    by (simp add: select_text_def by_device_cond_def mem_select_def)
  have d: "take_id d = d" using take_id_append [OF assms, of "[]"] by simp
  have "strip mem_and [] = None" by (simp add: strip_def mem_and_def)
  then show ?thesis unfolding mem_Scan_def t strip_append by (simp add: d Let_def)
qed

lemma mem_Iter_owner:
  assumes "unquoted u"
  shows "mem_Iter db (select_text ''devices'' (by_owner_cond u)) =
     (map (\<lambda>d. (u, d)) (filter (\<lambda>d. mem_tbl db d = Some u) (remdups (map fst db))), None)"
proof -
  have t: "select_text ''devices'' (by_owner_cond u) = select_text ''devices'' (is_ownerKey @ ''='' @ quote) @ u @ quote @ []"
    by (simp add: select_text_def by_owner_cond_def)
  show ?thesis unfolding mem_Iter_def t strip_append by (simp only: option.case take_text_quote [OF assms] Let_def)
qed

lemma mem_CAS_insert:
  assumes "hex_id d" and "unquoted u"
  shows "mem_ScanCAS db (insert_text ''devices'' d u) =
     (case mem_tbl db d of None \<Rightarrow> ((d, u) # db, Inr (True, '''', '''')) | Some v \<Rightarrow> (db, Inr (False, d, v)))"
proof -
  have t: "insert_text ''devices'' d u = mem_insert @ u @ quote @ '','' @ d @ '') IF NOT EXISTS''"
    by (simp add: insert_text_def mem_insert_def)
  have d: "take_id (d @ '') IF NOT EXISTS'') = d"
    using assms(1) by (intro take_id_append) (simp_all add: not_hex)
  have "drop (length u + 2) (u @ quote @ '','' @ d @ '') IF NOT EXISTS'') = d @ '') IF NOT EXISTS''"
    by (simp add: quote_def)
  then show ?thesis
    unfolding mem_ScanCAS_def t strip_append
    by (simp only: option.case take_text_quote [OF assms(2)] Let_def d)
qed

lemma mem_CAS_delete:
  assumes "hex_id d" and "unquoted u"
  shows "mem_ScanCAS db (delete_text ''devices'' d u) =
     (if mem_tbl db d = Some u then (filter (\<lambda>e. fst e \<noteq> d) db, Inr (True, '''', '''')) else (db, Inr (False, '''', '''')))"
proof -
  let ?if = "'' IF '' @ is_ownerKey @ ''='' @ quote"
  have t: "delete_text ''devices'' d u = mem_delete @ d @ ?if @ u @ quote @ []"
    by (simp add: delete_text_def mem_delete_def)
  have n: "strip mem_insert (mem_delete @ s) = None" for s
    by (simp add: strip_def mem_insert_def mem_delete_def)
  have d: "take_id (d @ ?if @ u @ quote @ []) = d"
    using assms(1) by (intro take_id_append) (simp_all add: not_hex)
  have "drop (length d + length ?if) (d @ ?if @ u @ quote @ []) = u @ quote @ []"
    by (simp add: is_ownerKey_def quote_def)
  then show ?thesis
    unfolding mem_ScanCAS_def t n strip_append
    by (simp only: option.case d Let_def take_text_quote [OF assms(2)])
qed

interpretation mem_cql: cql_identities mem_conn "''devices''" mem_tbl hex_id
proof
  show "hex_id d" if "mem_tbl db d = Some u" for db d u using that by (simp add: mem_tbl_def split: if_splits)
  show "x = (if mem_tbl db d = Some u then Some (u, d) else None)"
    if "hex_id d" "unquoted u" "cn_Scan mem_conn db (select_text ''devices'' (retrieve_cond d u)) = Inr x" for d u db x
    using that by (simp add: mem_conn_def mem_Scan_both)
  show "x = map_option (\<lambda>u. (u, d)) (mem_tbl db d)"
    if "hex_id d" "cn_Scan mem_conn db (select_text ''devices'' (by_device_cond d)) = Inr x" for d db x
    using that by (simp add: mem_conn_def mem_Scan_device)
  show "distinct (map snd rows) \<and> set (map snd rows) = {d. mem_tbl db d = Some u}"
    if "unquoted u" "cn_Iter mem_conn db (select_text ''devices'' (by_owner_cond u)) = (rows, None)" for u db rows
  proof -
    have rows: "map snd rows = filter (\<lambda>d. mem_tbl db d = Some u) (remdups (map fst db))"
      using that by (auto simp: mem_conn_def mem_Iter_owner comp_def)
    show ?thesis unfolding rows by (auto simp: mem_tbl_def split: if_splits) (metis domI dom_map_of_conv_image_fst)
  qed
next
  fix d u and db db' :: mem_db and r
  assume "hex_id d" "unquoted u" "cn_ScanCAS mem_conn db (insert_text ''devices'' d u) = (db', r)"
  then show "case r of
         Inl _ \<Rightarrow> mem_tbl db' = mem_tbl db \<or> mem_tbl db d = None \<and> mem_tbl db' = (mem_tbl db)(d \<mapsto> u)
       | Inr (applied, d', v) \<Rightarrow> if applied then mem_tbl db d = None \<and> mem_tbl db' = (mem_tbl db)(d \<mapsto> u)
                                  else mem_tbl db d = Some v \<and> mem_tbl db' = mem_tbl db"
    by (cases "mem_tbl db d") (auto simp: mem_conn_def mem_CAS_insert mem_tbl_def fun_eq_iff)
next
  fix d u and db db' :: mem_db and r
  assume "hex_id d" "unquoted u" "cn_ScanCAS mem_conn db (delete_text ''devices'' d u) = (db', r)"
  then show "case r of
         Inl _ \<Rightarrow> mem_tbl db' = mem_tbl db \<or> mem_tbl db d = Some u \<and> mem_tbl db' = (mem_tbl db)(d := None)
       | Inr (applied, d', v) \<Rightarrow> if applied then mem_tbl db d = Some u \<and> mem_tbl db' = (mem_tbl db)(d := None)
                                  else mem_tbl db d \<noteq> Some u \<and> mem_tbl db' = mem_tbl db"
    by (auto simp: mem_conn_def mem_CAS_delete mem_tbl_def fun_eq_iff map_of_filter_other split: if_splits)
qed

section \<open>Properties of the service\<close>


text \<open>A caller with a token of the owner \<open>u\<close>, and a service whose messages are sent.\<close>

definition token_of :: "string \<Rightarrow> auth_env" where
  "token_of u = \<lparr> ae_AuthFromMD = Inr ''token'', ae_ParseToken = (\<lambda>_. Inr [''sub'' \<mapsto> Claim (V_string u)]), ae_GetSubject = (\<lambda>_. Inr u) \<rparr>"

definition calm_service :: "subject_env \<Rightarrow> is_service" where
  "calm_service V = \<lparr> sv_subjects = V, sv_Marshal = (\<lambda>_. Inr []), sv_PublishData = (\<lambda>_ _. None), sv_Flush = None,
     sv_now = 0, sv_carrier = [], sv_ownerClaim = ''sub'', sv_hubID = ''hub'' \<rparr>"

lemma token_of_owner: "u \<noteq> '''' \<Longrightarrow> parseTokenMD (token_of u) (sv_ownerClaim (calm_service V)) = Inr (u, u)"
  by (simp add: parseTokenMD_def TokenFromMD_def token_of_def calm_service_def Claims_GetOwner_def parseString_def claim_go_def
      strings_ToString_def)

text \<open>Ann registers the device while the request of Bob runs.\<close>

definition ann_first :: "nat \<Rightarrow> mem_db \<Rightarrow> mem_db" where
  "ann_first n db = (if n = 1 then (''a1'', ''ann'') # db else db)"


text \<open>On MongoDB the check and the write of \<open>AddDevice\<close> are not one: if another instance registers the
  device for \<open>v\<close> between them, a successful request takes the device away from \<open>v\<close>.
\<close>

theorem mongo_add_device_takes_over:
  assumes "mongo_collection M tbl"
    and "parseTokenMD A (sv_ownerClaim S) = Inr (u, user)" and "u \<noteq> v"
    and "tbl (others 0 db) d = None" and "tbl (others 1 (others 0 db)) d = Some v"
    and "AddDevice (mongo_tx M p) A S others db out d = (db', out', Inr ())"
  shows "tbl db' d = Some u"
proof -
  have mi: "mongo_identities M tbl" using assms(1) by (simp add: mongo_identities_def)
  obtain x where x: "px_RetrieveByDevice (mongo_tx M p) (others 0 db) d = Inr x" and d: "d \<noteq> ''''"
    using assms(2,6) by (auto simp: AddDevice_def Let_def split: sum.splits if_splits)
  have none: "x = None" using mongo_identities.mongo_RetrieveByDevice_row [OF mi _ x] assms(4) by simp
  obtain r where p: "px_Persist (mongo_tx M p) (others 1 (others 0 db)) \<lparr> ad_DeviceID = d, ad_Owner = u \<rparr> = (db', r)"
    "r = Inr ()"
    using assms(2,6) x none d by (auto simp: AddDevice_def Let_def split: sum.splits prod.splits)
  from mongo_identities.mongo_Persist_row [OF mi _ _ p(1)] p(2) show ?thesis by simp
qed

theorem mongo_add_device_takes_over_witness:
  "map_of (fst (AddDevice (mongo_tx mem_devices calm_session) (token_of ''bob'') (calm_service V) ann_first [] [] ''a1'')) ''a1''
     = Some ''bob''"
proof -
  have t: "parseTokenMD (token_of ''bob'') (sv_ownerClaim (calm_service V)) = Inr (''bob'', ''bob'')" by (simp add: token_of_owner)
  obtain db' out' where run: "AddDevice (mongo_tx mem_devices calm_session) (token_of ''bob'') (calm_service V) ann_first [] [] ''a1''
      = (db', out', Inr ())"
    by (simp add: AddDevice_def t mongo_tx_def mongo_RetrieveByDevice_def mongo_Persist_def calm_session_def mem_devices_def
        ann_first_def cursor_first_def makeRecord_def commit_def)
  have "map_of db' ''a1'' = Some ''bob''"
    by (rule mongo_add_device_takes_over [OF mem_mongo.mongo_collection_axioms t _ _ _ run, where v = "''ann''"])
      (simp_all add: ann_first_def)
  then show ?thesis by (simp add: run)
qed

text \<open>
  The statements are plain text: for a device id that ends in a comment, the condition on the owner is
  part of the comment, and what is left is the unconditional deletion of the row.
\<close>

theorem delete_text_comment:
  "delete_text table (d @ '' --'') owner =
     (''DELETE FROM '' @ table @ '' WHERE deviceid='' @ d) @ '' -- IF ownerkey='' @ quote @ owner @ quote"
  by (simp add: delete_text_def is_deviceIDKey_def is_ownerKey_def)

end
