(* ===== verification/Device_Ownership.thy ===== *)
theory Device_Ownership
  imports Identity_Backends Event_Routing Owner_Cache_Properties
begin

text \<open>
  The identity store and the owner caches of the other services together: what the service writes to
  its table and what it publishes keep a synchronized cache equal to the table.
\<close>

section \<open>The subjects of registrations\<close>

lemma registration_subject:
  assumes "routing_ok V u"
  shows "GetRegistrationSubject V u = dots [''plgd'', ''owners'', owner_token V u, ''registrations'', ''>'']"
    and "GetDevicesRegisteredSubject V u = dots [''plgd'', ''owners'', owner_token V u, ''registrations'', ''devicesregistered'']"
    and "GetDevicesUnregisteredSubject V u = dots [''plgd'', ''owners'', owner_token V u, ''registrations'', ''devicesunregistered'']"
proof -
  have b: "order_ok (se_order V)" "no_braces (owner_token V u)"
    using assms by (simp_all add: routing_ok_def plain_token_def)
  have n: "no_braces ''devicesregistered''" "no_braces ''devicesunregistered''" by (simp_all add: no_braces_def)
  show "GetRegistrationSubject V u = dots [''plgd'', ''owners'', owner_token V u, ''registrations'', ''>'']"
    unfolding GetRegistrationSubject_def template_dots using b
    by (subst fill_subject) (auto simp del: dots.simps)
  show "GetDevicesRegisteredSubject V u = dots [''plgd'', ''owners'', owner_token V u, ''registrations'', ''devicesregistered'']"
    unfolding GetDevicesRegisteredSubject_def template_dots WithEventType_def using b n
    by (subst fill_subject) (auto simp del: dots.simps)
  show "GetDevicesUnregisteredSubject V u = dots [''plgd'', ''owners'', owner_token V u, ''registrations'', ''devicesunregistered'']"
    unfolding GetDevicesUnregisteredSubject_def template_dots WithEventType_def using b n
    by (subst fill_subject) (auto simp del: dots.simps)
qed

lemma registrations_received:
  assumes "routing_ok V u"
  shows "subject_matches (GetRegistrationSubject V u) (GetDevicesRegisteredSubject V u)"
    and "subject_matches (GetRegistrationSubject V u) (GetDevicesUnregisteredSubject V u)"
  unfolding registration_subject [OF assms] using assms
  by (intro subject_matches_dots; auto simp: routing_ok_def plain_token_def)+

section \<open>Publishing\<close>

text \<open>The events the service publishes; the connection takes them, and what is marshaled can be read again.\<close>

definition registered_event :: "is_service \<Rightarrow> string \<Rightarrow> string \<Rightarrow> string list \<Rightarrow> is_Event" where
  "registered_event S u user ds = Event_DevicesRegistered
     \<lparr> dr_Owner = u, dr_DeviceIds = ds, dr_UserId = user, dr_Timestamp = pkgTime_UnixNano (sv_now S),
       dr_EventMetadata = Some \<lparr> ism_HubId = sv_hubID S \<rparr>, dr_OpenTelemetryCarrier = sv_carrier S \<rparr>"

definition unregistered_event :: "is_service \<Rightarrow> string \<Rightarrow> string \<Rightarrow> string list \<Rightarrow> is_Event" where
  "unregistered_event S u user ds = Event_DevicesUnregistered
     \<lparr> du_Owner = u, du_DeviceIds = ds, du_UserId = user, du_Timestamp = pkgTime_UnixNano (sv_now S),
       du_EventMetadata = Some \<lparr> ism_HubId = sv_hubID S \<rparr>, du_OpenTelemetryCarrier = sv_carrier S \<rparr>"

lemma event_ids [simp]:
  "registered_ids (registered_event S u user ds) = ds" "unregistered_ids (registered_event S u user ds) = []"
  "registered_ids (unregistered_event S u user ds) = []" "unregistered_ids (unregistered_event S u user ds) = ds"
  by (simp_all add: registered_event_def unregistered_event_def registered_ids_def unregistered_ids_def)

definition publishes :: "is_service \<Rightarrow> (bytes \<Rightarrow> is_Event res) \<Rightarrow> is_Event \<Rightarrow> bool" where
  "publishes S unm e \<longleftrightarrow> (\<exists>b. sv_Marshal S e = Inr b \<and> unm b = Inr e \<and> (\<forall>subject. sv_PublishData S subject b = None))"

lemma publishEvent_sent:
  assumes "publishes S unm e"
  shows "\<exists>b. fst (publishEvent S out subject e) = out @ [(subject, b)] \<and> unm b = Inr e"
proof -
  obtain b where "sv_Marshal S e = Inr b" "unm b = Inr e" "sv_PublishData S subject b = None"
    using assms unfolding publishes_def by blast
  then show ?thesis by (intro exI [of _ b]) (simp add: publishEvent_def)
qed

lemma registered_sent:
  "publishDevicesRegistered S out u user (sv_hubID S) ds
     = fst (publishEvent S out (GetDevicesRegisteredSubject (sv_subjects S) u) (registered_event S u user ds))"
  "publishDevicesUnregistered S out u user (sv_hubID S) ds
     = fst (publishEvent S out (GetDevicesUnregisteredSubject (sv_subjects S) u) (unregistered_event S u user ds))"
  by (simp_all add: publishDevicesRegistered_def publishDevicesUnregistered_def registered_event_def unregistered_event_def)

section \<open>The cache and the table\<close>

definition mirrors :: "'h ownerSubject \<Rightarrow> (string \<rightharpoonup> string) \<Rightarrow> string \<Rightarrow> bool" where
  "mirrors s t u \<longleftrightarrow> subject_ok s \<and> os_devicesSynced s \<and> set (os_devices s) = {d. t d = Some u}"

text \<open>A message on the subject the cache subscribes to, after which the cache mirrors the table.\<close>

definition brings_up_to_date ::
    "is_service \<Rightarrow> (bytes \<Rightarrow> is_Event res) \<Rightarrow> 'h ownerSubject \<Rightarrow> (string \<rightharpoonup> string) \<Rightarrow> string \<Rightarrow> string \<times> bytes \<Rightarrow> bool" where
  "brings_up_to_date S unm s t u m \<longleftrightarrow>
     subject_matches (GetRegistrationSubject (sv_subjects S) u) (fst m) \<and>
     (\<exists>s' h. ownerSubject_Handle unm s (snd m) = Some (s', Inr h) \<and> mirrors s' t u)"

lemma handled_mirror:
  assumes "mirrors s t u" and "unm b = Inr e" and "distinct (unregistered_ids e)"
    and "{d. t' d = Some u} = ({d. t d = Some u} \<union> set (registered_ids e)) - set (unregistered_ids e)"
  shows "\<exists>s' h. ownerSubject_Handle unm s b = Some (s', Inr h) \<and> mirrors s' t' u"
proof -
  have ok: "subject_ok s" "os_devicesSynced s" "set (os_devices s) = {d. t d = Some u}"
    using assms(1) by (simp_all add: mirrors_def)
  obtain s' where s': "ownerSubject_Handle unm s b = Some (s', Inr (e, mset (map snd (os_handlers s))))" "subject_ok s'"
    "s' = s\<lparr>os_devices := os_devices s'\<rparr>"
    "set (os_devices s') = (set (os_devices s) \<union> set (registered_ids e)) - set (unregistered_ids e)"
    using Handle_applies [where unm = unm and msg = b, OF ok(1) assms(2,3)] ok(2) by auto
  have "os_devicesSynced s'" using ok(2) by (subst s'(3)) simp
  then have "mirrors s' t' u" using s'(2,4) ok(3) assms(4) by (simp add: mirrors_def)
  then show ?thesis using s'(1) by blast
qed



section \<open>A run\<close>

abbreviation run_service :: is_service where
  "run_service \<equiv> calm_service sample_env"

definition empty_subject :: "unit ownerSubject" where
  "empty_subject = (newOwnerSubject 0)\<lparr>os_devicesSynced := True\<rparr>"

definition bob_subject :: "unit ownerSubject" where
  "bob_subject = empty_subject\<lparr>os_devices := [''a1'']\<rparr>"

lemma run_good: "hex_id ''a1''" "unquoted ''bob''"
  by (simp_all add: unquoted_def hex_id_def hex_char_def)

lemma run_routing: "routing_ok (sv_subjects run_service) ''bob''"
  by (simp add: calm_service_def sample_env_def routing_ok_def order_ok_def plain_token_def no_braces_def owner_token_def
      WithOwner_def OwnerToUUID_def)

lemma run_publishes: "publishes run_service (\<lambda>_. Inr e) e"
  by (simp add: publishes_def calm_service_def)

lemma run_mirrors:
  "mirrors empty_subject (mem_tbl []) ''bob''" "mirrors bob_subject (mem_tbl [(''a1'', ''bob'')]) ''bob''"
  using run_good by (auto simp: mirrors_def empty_subject_def bob_subject_def newOwnerSubject_def subject_ok_def mem_tbl_def)

lemma run_add:
  "\<exists>out'. AddDevice (cql_tx mem_conn ''devices'') (token_of ''bob'') run_service (\<lambda>_ x. x) [] [] ''a1''
     = ([(''a1'', ''bob'')], out', Inr ())"
  using run_good
  by (simp add: AddDevice_def token_of_owner cql_tx_def cql_RetrieveByDevice_def cql_retrieveDeviceByQuery_def cql_Persist_def
      mem_conn_def mem_Scan_device mem_CAS_insert mem_tbl_def)

lemma run_delete:
  "\<exists>out'. DeleteDevices id (cql_tx mem_conn ''devices'') (token_of ''bob'') run_service (\<lambda>_ x. x) [(''a1'', ''bob'')] [] []
     = ([], out', Inr [''a1''])"
  using run_good
  by (simp add: DeleteDevices_def token_of_owner cql_tx_def cql_RetrieveByOwner_def cql_Retrieve_def cql_retrieveDeviceByQuery_def
      cql_Delete_def mem_conn_def mem_Iter_owner mem_Scan_both mem_CAS_delete mem_tbl_def getDeviceIDs_def tx_getOwnerDevices_def
      is_deleteDevice_def)



end
