(* ===== verification/RA_Aggregate.thy ===== *)
theory RA_Aggregate
  imports Aggregate Resource_State Resource_Links Device_Metadata Service_Metadata Event_Subjects Token_Claims
begin

text \<open>
  The aggregates of the resource aggregate service and the checks of its requests:
  \<^verbatim>\<open>resource-aggregate/service/aggregate.go\<close>, \<^verbatim>\<open>utils.go\<close> and the methods of \<open>Aggregate\<close> in the files of
  the handlers. The models of resources, links and device metadata are made aggregate models here, and
  a command runs in the retry loop of \<open>Aggregate\<close>. The links of a device are loaded beside the state of
  a resource, which reaches them through a pointer.
\<close>

section \<open>Surroundings\<close>

text \<open>
  \<open>ra_env\<close> is the request handler with the context of one request: its configuration, the event store, and the
  library parameters of the models. \<open>ra_run\<close> is what happens around one command of the request: the
  answers of the owner cache, the clock, other writers, the end of the context and the order in which a map is
  visited.
\<close>

record ('st, 'v) ra_env =
  ra_auth :: auth_env
  ra_OwnerClaim :: string
  ra_HubID :: string
  ra_DefaultCommandTimeToLive :: i64
  ra_ConcurrencyExceptionMaxRetry :: int
  ra_subjects :: subject_env
  ra_leadResourceType :: "leadResourceType option"
  ra_codec :: "'v codec_pkg"
  ra_kit :: kit_strings
  ra_links_order :: map_order
  ra_eventstore :: "'st EventStore"
  ra_RemoveUpToVersion :: "'st \<Rightarrow> VersionQuery list \<Rightarrow> 'st \<times> unit res"
  ra_Delete :: "'st \<Rightarrow> string list \<Rightarrow> 'st \<times> unit res"

abbreviation ra_uuid :: "('st, 'v) ra_env \<Rightarrow> uuid_pkg" where
  "ra_uuid R \<equiv> se_uuid (ra_subjects R)"

record 'st ra_run =
  rx_getOwnerDevices :: "string \<Rightarrow> string list \<Rightarrow> string list res"
  rx_now :: gotime
  rx_now_load :: "nat \<Rightarrow> gotime"
  rx_now_snapshot :: "nat \<Rightarrow> gotime"
  rx_command :: "nat \<Rightarrow> command_env"
  rx_others :: "nat \<Rightarrow> 'st \<Rightarrow> 'st"
  rx_canceled :: "nat \<Rightarrow> bool"
  rx_cleanOrder :: "(string \<times> any_event) list \<Rightarrow> (string \<times> any_event) list"

text \<open>\<open>grpc.ForwardErrorf\<close> with one error among its arguments.\<close>

definition ForwardErrorf :: "code \<Rightarrow> string \<Rightarrow> error \<Rightarrow> error" where
  "ForwardErrorf c formatter err = GrpcStatus (case error_code err of Some c' \<Rightarrow> c' | None \<Rightarrow> c) formatter []"

section \<open>The models\<close>

text \<open>
  The objects of a \<open>resourceStateModel\<close>: the model of the aggregate is the state of the resource with its pointer to
  the links, or the links themselves when the request names the resource of the links.
\<close>

datatype resourceStateModel =
    RM_State ResourceStateSnapshotTakenForCommand
  | RM_Links ResourceLinksSnapshotTakenForCommand

definition newResourceStateModel :: "string \<Rightarrow> string \<Rightarrow> string \<Rightarrow> resourceStateModel" where
  "newResourceStateModel userID owner hubID =
     (let resourceLinks = NewResourceLinksSnapshotTakenForCommand userID owner hubID
      in RM_State (NewResourceStateSnapshotTakenForCommand userID owner hubID (Some (rlc_snap resourceLinks))))"

definition model_links :: "resourceStateModel \<Rightarrow> ResourceLinksSnapshotTaken option" where
  "model_links m = (case m of RM_State c \<Rightarrow> rsc_resourceLinks c | RM_Links l \<Rightarrow> Some (rlc_snap l))"

definition isPublished :: "resourceStateModel \<Rightarrow> ResourceId option \<Rightarrow> bool" where
  "isPublished m resourceID =
     (case model_links m of
        None \<Rightarrow> False
      | Some links \<Rightarrow>
          (case rls_Resources links of
             None \<Rightarrow> False
           | Some resources \<Rightarrow> map_of resources (GetHref resourceID) \<noteq> None))"

definition links_of_state :: "ResourceStateSnapshotTakenForCommand \<Rightarrow> ResourceLinksSnapshotTakenForCommand" where
  "links_of_state c =
     \<lparr>rlc_userID = rsc_userID c, rlc_owner = rsc_owner c, rlc_hubID = rsc_hubID c,
      rlc_snap = (case rsc_resourceLinks c of None \<Rightarrow> NewResourceLinksSnapshotTaken | Some l \<Rightarrow> l)\<rparr>"

definition resourceStateModel_model ::
    "uuid_pkg \<Rightarrow> resourceStateModel \<Rightarrow> string \<Rightarrow> string \<Rightarrow> resourceStateModel res" where
  "resourceStateModel_model U cell groupID aggregateID =
     (let resID = NewResourceID groupID ResourceLinksHref in
      case cell of
        RM_State c \<Rightarrow>
          Inr (if aggregateID = ResourceId_ToUUID U (Some resID) then RM_Links (links_of_state c) else RM_State c)
      | RM_Links l \<Rightarrow> Inr (RM_Links l))"

definition resource_model ::
    "('st, 'v) ra_env \<Rightarrow> 'st ra_run \<Rightarrow> (resourceStateModel, rs_command) AggregateModel" where
  "resource_model R X =
     \<lparr>mod_step = (\<lambda>n m e. case m of
         RM_State c \<Rightarrow> (case handleByEvent (rx_now_load X n) (rsc_snap c) e of (d, r) \<Rightarrow> (RM_State (c\<lparr>rsc_snap := d\<rparr>), r))
       | RM_Links l \<Rightarrow> (case ResourceLinks_handleByEvent (ra_links_order R) (rlc_snap l) e of
                          (d, r) \<Rightarrow> (RM_Links (l\<lparr>rlc_snap := d\<rparr>), r))),
      mod_HandleCommand = (\<lambda>k m cmd v. case m of
         RM_State c \<Rightarrow> (case ResourceState_HandleCommand (ra_codec R) (ra_kit R) (rx_command X k) c cmd v of
                          (c', r) \<Rightarrow> (RM_State c', cmd, r))
       | RM_Links l \<Rightarrow> (case ResourceLinks_HandleCommand (ra_links_order R) (rx_command X k) l (UnknownLinksCommand []) v of
                          (l', r) \<Rightarrow> (RM_Links l', cmd, r))),
      mod_TakeSnapshot = (\<lambda>k m v. case m of
         RM_State c \<Rightarrow> Some (E_ResourceStateSnapshotTaken (ResourceState_TakeSnapshot (rx_now_snapshot X k) (rsc_snap c) v))
       | RM_Links l \<Rightarrow> Some (E_ResourceLinksSnapshotTaken (ResourceLinks_TakeSnapshot (rx_now_snapshot X k) (rlc_snap l) v))),
      mod_sees = (\<lambda>_ additional m. case (m, additional) of
         (RM_State c, RM_Links l) \<Rightarrow> RM_State (c\<lparr>rsc_resourceLinks := Some (rlc_snap l)\<rparr>)
       | _ \<Rightarrow> m)\<rparr>"

definition NewResourceLinksFactoryModel ::
    "string \<Rightarrow> string \<Rightarrow> string \<Rightarrow> ResourceLinksSnapshotTakenForCommand \<Rightarrow> string \<Rightarrow> string
     \<Rightarrow> ResourceLinksSnapshotTakenForCommand res" where
  "NewResourceLinksFactoryModel userID owner hubID = (\<lambda>_ _ _. Inr (NewResourceLinksSnapshotTakenForCommand userID owner hubID))"

definition links_model ::
    "('st, 'v) ra_env \<Rightarrow> 'st ra_run \<Rightarrow> (ResourceLinksSnapshotTakenForCommand, links_command) AggregateModel" where
  "links_model R X =
     \<lparr>mod_step = (\<lambda>n l e. case ResourceLinks_handleByEvent (ra_links_order R) (rlc_snap l) e of
         (d, r) \<Rightarrow> (l\<lparr>rlc_snap := d\<rparr>, r)),
      mod_HandleCommand = (\<lambda>k l cmd v. case ResourceLinks_HandleCommand (ra_links_order R) (rx_command X k) l cmd v of
         (l', r) \<Rightarrow> (l', cmd, r)),
      mod_TakeSnapshot = (\<lambda>k l v.
         Some (E_ResourceLinksSnapshotTaken (ResourceLinks_TakeSnapshot (rx_now_snapshot X k) (rlc_snap l) v))),
      mod_sees = (\<lambda>_ _ l. l)\<rparr>"

definition NewDeviceMetadataFactoryModel ::
    "string \<Rightarrow> string \<Rightarrow> string \<Rightarrow> DeviceMetadataSnapshotTakenForCommand \<Rightarrow> string \<Rightarrow> string
     \<Rightarrow> DeviceMetadataSnapshotTakenForCommand res" where
  "NewDeviceMetadataFactoryModel userID owner hubID = (\<lambda>_ _ _. Inr (NewDeviceMetadataSnapshotTakenForCommand userID owner hubID))"

definition device_model ::
    "('st, 'v) ra_env \<Rightarrow> 'st ra_run \<Rightarrow> (DeviceMetadataSnapshotTakenForCommand, dm_command) AggregateModel" where
  "device_model R X =
     \<lparr>mod_step = (\<lambda>n c e. case DeviceMetadata_handleByEvent (rx_now_load X n) (dmc_snap c) e of (d, r) \<Rightarrow> (c\<lparr>dmc_snap := d\<rparr>, r)),
      mod_HandleCommand = (\<lambda>k c cmd v. DeviceMetadata_HandleCommand (ra_kit R) (rx_command X k) c cmd v),
      mod_TakeSnapshot = (\<lambda>k c v.
         Some (E_DeviceMetadataSnapshotTaken (DeviceMetadata_TakeSnapshot (rx_now_snapshot X k) (dmc_snap c) v))),
      mod_sees = (\<lambda>_ _ c. c)\<rparr>"

section \<open>The aggregate of a request\<close>

text \<open>The aggregate of the event sourcing library with the methods of its model and the object its factory holds.\<close>

record ('m, 'cmd, 'st) ServiceAggregate =
  sa_ag :: "('m, 'st, int) Aggregate"
  sa_model :: "('m, 'cmd) AggregateModel"
  sa_cell :: 'm

definition NewResourceAggregate ::
    "('st, 'v) ra_env \<Rightarrow> 'st ra_run \<Rightarrow> ResourceId option \<Rightarrow> ('m \<Rightarrow> string \<Rightarrow> string \<Rightarrow> 'm res) \<Rightarrow> ('m, 'cmd) AggregateModel
     \<Rightarrow> 'm \<Rightarrow> bool \<Rightarrow> ('m, 'cmd, 'st) ServiceAggregate res" where
  "NewResourceAggregate R X resourceID factoryModel M cell addLinkedResources =
     (let addLink = (if addLinkedResources
             then [\<lparr>adm_GroupID = GetDeviceId resourceID,
                    adm_AggregateID = ResourceId_ToUUID (ra_uuid R) (Some (NewResourceID (GetDeviceId resourceID) ResourceLinksHref))\<rparr>]
             else [])
      in case NewAggregate (GetDeviceId resourceID) (ResourceId_ToUUID (ra_uuid R) resourceID)
                (Some (NewDefaultRetryFunc (rx_now X) (ra_ConcurrencyExceptionMaxRetry R))) (Some (ra_eventstore R))
                factoryModel addLink of
           Inl err \<Rightarrow> Inl (Wrapf ''cannot create aggregate for resource'' err)
         | Inr cqrsAg \<Rightarrow> Inr \<lparr>sa_ag = cqrsAg, sa_model = M, sa_cell = cell\<rparr>)"

definition RA_NewAggregate ::
    "('st, 'v) ra_env \<Rightarrow> 'st ra_run \<Rightarrow> ResourceId option \<Rightarrow> ('m \<Rightarrow> string \<Rightarrow> string \<Rightarrow> 'm res) \<Rightarrow> ('m, 'cmd) AggregateModel
     \<Rightarrow> 'm \<Rightarrow> ('m, 'cmd, 'st) ServiceAggregate res" where
  "RA_NewAggregate R X resourceID factoryModel M cell = NewResourceAggregate R X resourceID factoryModel M cell False"

abbreviation sa_DeviceID :: "('m, 'cmd, 'st) ServiceAggregate \<Rightarrow> string" where
  "sa_DeviceID a \<equiv> ag_groupID (sa_ag a)"

abbreviation sa_ResourceID :: "('m, 'cmd, 'st) ServiceAggregate \<Rightarrow> string" where
  "sa_ResourceID a \<equiv> ag_aggregateID (sa_ag a)"

text \<open>The latest of the events of each aggregate; failures of the removal are logged only.\<close>

definition latest_event :: "uuid_pkg \<Rightarrow> (string \<times> any_event) list \<Rightarrow> any_event \<Rightarrow> (string \<times> any_event) list" where
  "latest_event U cleanUp event =
     (let id = ev_AggregateID (as_Event U event) in
      case map_of cleanUp id of
        None \<Rightarrow> AList.update id event cleanUp
      | Some e \<Rightarrow> if ev_Version (as_Event U e) < ev_Version (as_Event U event) then AList.update id event cleanUp else cleanUp)"

definition cleanUpToSnapshot :: "('st, 'v) ra_env \<Rightarrow> 'st ra_run \<Rightarrow> 'st \<Rightarrow> any_event list \<Rightarrow> 'st" where
  "cleanUpToSnapshot R X st events =
     (let U = ra_uuid R; cleanUp = foldl (latest_event U) [] events in
      foldl (\<lambda>st (_, event). fst (ra_RemoveUpToVersion R st
               [\<lparr>vq_GroupID = ev_GroupID (as_Event U event), vq_AggregateID = ev_AggregateID (as_Event U event),
                 vq_Version = ev_Version (as_Event U event)\<rparr>])) st (rx_cleanOrder X cleanUp))"

type_synonym ('m, 'st) run_result = "('st \<times> 'm \<times> any_event list res) option"

definition RA_HandleCommand ::
    "('st, 'v) ra_env \<Rightarrow> 'st ra_run \<Rightarrow> ('m, 'cmd, 'st) ServiceAggregate \<Rightarrow> 'cmd \<Rightarrow> 'st \<Rightarrow> ('m, 'st) run_result" where
  "RA_HandleCommand R X a cmd st =
     (case HandleCommand_model (sa_ag a) (sa_model a) (rx_others X) (rx_canceled X) 0 st (sa_cell a) cmd of
        None \<Rightarrow> None
      | Some (st', m, Inl err) \<Rightarrow> Some (st', m, Inl err)
      | Some (st', m, Inr events) \<Rightarrow> Some (cleanUpToSnapshot R X st' events, m, Inr events))"

section \<open>Checks of requests\<close>

definition errInvalidDeviceID :: error where
  "errInvalidDeviceID = GrpcStatus InvalidArgument ''invalid DeviceId'' []"
definition errInvalidContent :: error where
  "errInvalidContent = GrpcStatus InvalidArgument ''invalid Content'' []"
definition errInvalidCorrelationID :: error where
  "errInvalidCorrelationID = GrpcStatus InvalidArgument ''invalid CorrelationId'' []"
definition errInvalidResourceIdDeviceID :: error where
  "errInvalidResourceIdDeviceID = GrpcStatus InvalidArgument ''invalid ResourceId.DeviceId'' []"
definition errInvalidResourceIdHref :: error where
  "errInvalidResourceIdHref = GrpcStatus InvalidArgument ''invalid ResourceId.Href'' []"

definition checkTimeToLive :: "i64 \<Rightarrow> unit res" where
  "checkTimeToLive timeToLive =
     (if timeToLive \<noteq> 0 \<and> timeToLive < 100000000
      then Inl (GrpcStatus InvalidArgument ''timeToLive(`%v`) is less than 100ms'' [])
      else Inr ())"

definition checkTimeToLiveForDefault :: "i64 \<Rightarrow> i64 \<Rightarrow> i64" where
  "checkTimeToLiveForDefault defaultTimeToLive reqTimeToLive =
     (if defaultTimeToLive = 0 then reqTimeToLive
      else if reqTimeToLive \<noteq> 0 then reqTimeToLive
      else defaultTimeToLive)"

fun validate_links :: "Resource list \<Rightarrow> unit res" where
  "validate_links [] = Inr ()"
| "validate_links (res # rs) =
     (if length (res_Href res) \<le> 1 \<or> take 1 (res_Href res) \<noteq> ''/''
      then Inl (GrpcStatus InvalidArgument ''invalid resource href'' [])
      else if res_DeviceId res = '''' then Inl (GrpcStatus InvalidArgument ''invalid device id'' [])
      else validate_links rs)"

definition validatePublish :: "PublishResourceLinksRequest \<Rightarrow> unit res" where
  "validatePublish request =
     (if length (plr_Resources request) = 0
      then Inl (GrpcStatus InvalidArgument ''empty publish is not accepted'' [])
      else case validate_links (plr_Resources request) of
        Inl err \<Rightarrow> Inl err
      | Inr _ \<Rightarrow> if plr_DeviceId request = '''' then Inl errInvalidDeviceID else Inr ())"

definition validateUnpublish :: "UnpublishResourceLinksRequest \<Rightarrow> unit res" where
  "validateUnpublish request =
     (if ulr_DeviceId request = '''' then Inl errInvalidDeviceID
      else if \<exists>href\<in>set (ulr_Hrefs request). href = '''' then Inl (GrpcStatus InvalidArgument ''invalid resource id'' [])
      else Inr ())"

definition validateNotifyContentChanged :: "NotifyResourceChangedRequest \<Rightarrow> unit res" where
  "validateNotifyContentChanged request =
     (if nrq_Content request = None then Inl errInvalidContent
      else if GetDeviceId (nrq_ResourceId request) = '''' then Inl errInvalidResourceIdDeviceID
      else if GetHref (nrq_ResourceId request) = '''' then Inl errInvalidResourceIdHref
      else Inr ())"

definition validateUpdateResourceContent :: "UpdateResourceRequest \<Rightarrow> unit res" where
  "validateUpdateResourceContent request =
     (case checkTimeToLive (urq_TimeToLive request) of
        Inl err \<Rightarrow> Inl err
      | Inr _ \<Rightarrow>
          if urq_Content request = None then Inl errInvalidContent
          else if GetDeviceId (urq_ResourceId request) = '''' then Inl errInvalidResourceIdDeviceID
          else if GetHref (urq_ResourceId request) = '''' then Inl errInvalidResourceIdHref
          else if urq_CorrelationId request = '''' then Inl errInvalidCorrelationID
          else Inr ())"

definition validateRetrieveResource :: "RetrieveResourceRequest \<Rightarrow> unit res" where
  "validateRetrieveResource request =
     (case checkTimeToLive (rrq_TimeToLive request) of
        Inl err \<Rightarrow> Inl err
      | Inr _ \<Rightarrow>
          if GetDeviceId (rrq_ResourceId request) = '''' then Inl errInvalidResourceIdDeviceID
          else if GetHref (rrq_ResourceId request) = '''' then Inl errInvalidResourceIdHref
          else if rrq_CorrelationId request = '''' then Inl errInvalidCorrelationID
          else Inr ())"

text \<open>The checks of the confirmations of updates, retrieves and creations are the same.\<close>

definition validate_confirmation :: "'a ConfirmRequest_scheme \<Rightarrow> unit res" where
  "validate_confirmation request =
     (if cfm_Content request = None then Inl errInvalidContent
      else if GetDeviceId (cfm_ResourceId request) = '''' then Inl errInvalidResourceIdDeviceID
      else if GetHref (cfm_ResourceId request) = '''' then Inl errInvalidResourceIdHref
      else if cfm_CorrelationId request = '''' then Inl errInvalidCorrelationID
      else Inr ())"

definition validateConfirmResourceUpdate :: "ConfirmRequest \<Rightarrow> unit res" where
  "validateConfirmResourceUpdate request = validate_confirmation request"

definition validateConfirmResourceRetrieve :: "ConfirmResourceRetrieveRequest \<Rightarrow> unit res" where
  "validateConfirmResourceRetrieve request = validate_confirmation request"

definition validateDeleteResource :: "DeleteResourceRequest \<Rightarrow> unit res" where
  "validateDeleteResource request =
     (case checkTimeToLive (drq_TimeToLive request) of
        Inl err \<Rightarrow> Inl err
      | Inr _ \<Rightarrow>
          if GetDeviceId (drq_ResourceId request) = '''' then Inl errInvalidResourceIdDeviceID
          else if GetHref (drq_ResourceId request) = '''' then Inl errInvalidResourceIdHref
          else if drq_CorrelationId request = '''' then Inl errInvalidCorrelationID
          else Inr ())"

text \<open>Content data is nil when it is empty: that is how it arrives on the wire.\<close>

definition validateCreateResource :: "CreateResourceRequest \<Rightarrow> unit res" where
  "validateCreateResource request =
     (case checkTimeToLive (crq_TimeToLive request) of
        Inl err \<Rightarrow> Inl err
      | Inr _ \<Rightarrow>
          if GetDeviceId (crq_ResourceId request) = '''' then Inl errInvalidResourceIdDeviceID
          else if GetHref (crq_ResourceId request) = '''' then Inl errInvalidResourceIdHref
          else if crq_CorrelationId request = '''' then Inl errInvalidCorrelationID
          else if crq_Content request = None then Inl errInvalidContent
          else if GetData (crq_Content request) = [] then Inl (GrpcStatus InvalidArgument ''invalid Content.Data'' [])
          else Inr ())"

definition validateConfirmResourceCreate :: "ConfirmRequest \<Rightarrow> unit res" where
  "validateConfirmResourceCreate request = validate_confirmation request"

definition validateConfirmResourceDelete :: "ConfirmRequest \<Rightarrow> unit res" where
  "validateConfirmResourceDelete request =
     (if GetDeviceId (cfm_ResourceId request) = '''' then Inl errInvalidResourceIdDeviceID
      else if GetHref (cfm_ResourceId request) = '''' then Inl errInvalidResourceIdHref
      else if cfm_CorrelationId request = '''' then Inl errInvalidCorrelationID
      else Inr ())"

definition validateCancelResourceCommand :: "CancelPendingCommandsRequest \<Rightarrow> unit res" where
  "validateCancelResourceCommand request =
     (if GetDeviceId (cpc_ResourceId request) = '''' then Inl (GrpcStatus InvalidArgument ''invalid DeviceId'' [])
      else if GetHref (cpc_ResourceId request) = '''' then Inl (GrpcStatus InvalidArgument ''invalid Href'' [])
      else Inr ())"

definition validateUpdateDeviceMetadata :: "UpdateDeviceMetadataRequest \<Rightarrow> unit res" where
  "validateUpdateDeviceMetadata request =
     (case checkTimeToLive (udm_TimeToLive request) of
        Inl err \<Rightarrow> Inl err
      | Inr _ \<Rightarrow>
          if udm_DeviceId request = '''' then Inl (GrpcStatus InvalidArgument ''invalid DeviceId'' [])
          else case udm_Update request of
            Update_None \<Rightarrow> Inl (GrpcStatus InvalidArgument ''update type (%T) invalid'' [])
          | _ \<Rightarrow> Inr ())"

definition validateConfirmDeviceMetadataUpdate :: "ConfirmDeviceMetadataUpdateRequest \<Rightarrow> unit res" where
  "validateConfirmDeviceMetadataUpdate request =
     (if cdm_DeviceId request = '''' then Inl (GrpcStatus InvalidArgument ''invalid DeviceId'' [])
      else case cdm_Confirm request of
        Confirm_None \<Rightarrow> Inl (GrpcStatus InvalidArgument ''confirm has invalid type (%T)'' [])
      | _ \<Rightarrow> Inr ())"

definition validateCancelPendingMetadataUpdates :: "CancelPendingMetadataUpdatesRequest \<Rightarrow> unit res" where
  "validateCancelPendingMetadataUpdates request =
     (if cpm_DeviceId request = '''' then Inl (GrpcStatus InvalidArgument ''invalid DeviceId'' []) else Inr ())"

text \<open>The update of service metadata is a heartbeat or nothing.\<close>

definition validateUpdateServiceMetadata :: "UpdateServiceMetadataRequest \<Rightarrow> unit res" where
  "validateUpdateServiceMetadata request =
     (case usm_Heartbeat request of
        None \<Rightarrow> Inl (GrpcStatus InvalidArgument ''invalid update'' [])
      | Some heartbeat \<Rightarrow>
          if shb_ServiceId heartbeat = '''' then Inl (GrpcStatus InvalidArgument ''invalid heartbeat.serviceId'' [])
          else if shb_TimeToLive heartbeat < 1000000000
          then Inl (GrpcStatus InvalidArgument ''invalid heartbeat.timeToLive(%v): is less than 1s'' [])
          else Inr ())"

section \<open>The methods of the aggregate\<close>

text \<open>
  Every method checks its request, then runs it as a command; the error of either is wrapped, except that of a
  rejected cancellation.
\<close>

definition checked_command ::
    "unit res \<Rightarrow> (error \<Rightarrow> error) \<Rightarrow> (error \<Rightarrow> error) \<Rightarrow> 'm \<Rightarrow> 'st \<Rightarrow> ('m, 'st) run_result \<Rightarrow> ('m, 'st) run_result" where
  "checked_command check invalid unable cell st r =
     (case check of
        Inl err \<Rightarrow> Some (st, cell, Inl (invalid err))
      | Inr _ \<Rightarrow> (case r of Some (st', m, Inl err) \<Rightarrow> Some (st', m, Inl (unable err)) | _ \<Rightarrow> r))"

definition ag_PublishResourceLinks ::
    "('st, 'v) ra_env \<Rightarrow> 'st ra_run \<Rightarrow> (ResourceLinksSnapshotTakenForCommand, links_command, 'st) ServiceAggregate \<Rightarrow> PublishResourceLinksRequest \<Rightarrow> 'st
     \<Rightarrow> (ResourceLinksSnapshotTakenForCommand, 'st) run_result" where
  "ag_PublishResourceLinks R X a request st =
     checked_command (validatePublish request) (Wrapf ''invalid publish resource links command'')
       (Wrapf ''unable to process publish resource links command'') (sa_cell a) st
       (RA_HandleCommand R X a (PublishResourceLinks request) st)"

definition ag_UnpublishResourceLinks ::
    "('st, 'v) ra_env \<Rightarrow> 'st ra_run \<Rightarrow> (ResourceLinksSnapshotTakenForCommand, links_command, 'st) ServiceAggregate \<Rightarrow> UnpublishResourceLinksRequest \<Rightarrow> 'st
     \<Rightarrow> (ResourceLinksSnapshotTakenForCommand, 'st) run_result" where
  "ag_UnpublishResourceLinks R X a request st =
     checked_command (validateUnpublish request) (Wrapf ''invalid unpublish resource links command'')
       (Wrapf ''unable to process unpublish resource links command'') (sa_cell a) st
       (RA_HandleCommand R X a (UnpublishResourceLinks request) st)"

definition ag_NotifyResourceChanged ::
    "('st, 'v) ra_env \<Rightarrow> 'st ra_run \<Rightarrow> (resourceStateModel, rs_command, 'st) ServiceAggregate \<Rightarrow> NotifyResourceChangedRequest \<Rightarrow> 'st
     \<Rightarrow> (resourceStateModel, 'st) run_result" where
  "ag_NotifyResourceChanged R X a request st =
     checked_command (validateNotifyContentChanged request) (Wrapf ''invalid notify content changed command'')
       (Wrapf ''unable to process notify content changed command'') (sa_cell a) st
       (RA_HandleCommand R X a (NotifyResourceChanged request) st)"

definition ag_UpdateResource ::
    "('st, 'v) ra_env \<Rightarrow> 'st ra_run \<Rightarrow> (resourceStateModel, rs_command, 'st) ServiceAggregate \<Rightarrow> UpdateResourceRequest \<Rightarrow> 'st
     \<Rightarrow> (resourceStateModel, 'st) run_result" where
  "ag_UpdateResource R X a request st =
     checked_command (validateUpdateResourceContent request) (Wrapf ''invalid update resource content command'')
       (Wrapf ''unable to process update resource content command'') (sa_cell a) st
       (RA_HandleCommand R X a (UpdateResource request) st)"

definition ag_ConfirmResourceUpdate ::
    "('st, 'v) ra_env \<Rightarrow> 'st ra_run \<Rightarrow> (resourceStateModel, rs_command, 'st) ServiceAggregate \<Rightarrow> ConfirmRequest \<Rightarrow> 'st
     \<Rightarrow> (resourceStateModel, 'st) run_result" where
  "ag_ConfirmResourceUpdate R X a request st =
     checked_command (validateConfirmResourceUpdate request) (Wrapf ''invalid update resource content notification command'')
       (Wrapf ''unable to process update resource content notification command'') (sa_cell a) st
       (RA_HandleCommand R X a (ConfirmResourceUpdate request) st)"

definition ag_RetrieveResource ::
    "('st, 'v) ra_env \<Rightarrow> 'st ra_run \<Rightarrow> (resourceStateModel, rs_command, 'st) ServiceAggregate \<Rightarrow> RetrieveResourceRequest \<Rightarrow> 'st
     \<Rightarrow> (resourceStateModel, 'st) run_result" where
  "ag_RetrieveResource R X a request st =
     checked_command (validateRetrieveResource request) (Wrapf ''invalid retrieve resource content command'')
       (Wrapf ''unable to process retrieve resource content command'') (sa_cell a) st
       (RA_HandleCommand R X a (RetrieveResource request) st)"

definition ag_ConfirmResourceRetrieve ::
    "('st, 'v) ra_env \<Rightarrow> 'st ra_run \<Rightarrow> (resourceStateModel, rs_command, 'st) ServiceAggregate \<Rightarrow> ConfirmResourceRetrieveRequest \<Rightarrow> 'st
     \<Rightarrow> (resourceStateModel, 'st) run_result" where
  "ag_ConfirmResourceRetrieve R X a request st =
     checked_command (validateConfirmResourceRetrieve request) (Wrapf ''invalid retrieve resource content notification command'')
       (Wrapf ''unable to process retrieve resource content notification command'') (sa_cell a) st
       (RA_HandleCommand R X a (ConfirmResourceRetrieve request) st)"

definition ag_DeleteResource ::
    "('st, 'v) ra_env \<Rightarrow> 'st ra_run \<Rightarrow> (resourceStateModel, rs_command, 'st) ServiceAggregate \<Rightarrow> DeleteResourceRequest \<Rightarrow> 'st
     \<Rightarrow> (resourceStateModel, 'st) run_result" where
  "ag_DeleteResource R X a request st =
     checked_command (validateDeleteResource request) (Wrapf ''invalid delete resource content command'')
       (Wrapf ''unable to process delete resource content command'') (sa_cell a) st
       (RA_HandleCommand R X a (DeleteResource request) st)"

definition ag_ConfirmResourceDelete ::
    "('st, 'v) ra_env \<Rightarrow> 'st ra_run \<Rightarrow> (resourceStateModel, rs_command, 'st) ServiceAggregate \<Rightarrow> ConfirmRequest \<Rightarrow> 'st
     \<Rightarrow> (resourceStateModel, 'st) run_result" where
  "ag_ConfirmResourceDelete R X a request st =
     checked_command (validateConfirmResourceDelete request) (Wrapf ''invalid delete resource content notification command'')
       (Wrapf ''unable to process delete resource content notification command'') (sa_cell a) st
       (RA_HandleCommand R X a (ConfirmResourceDelete request) st)"

definition ag_CreateResource ::
    "('st, 'v) ra_env \<Rightarrow> 'st ra_run \<Rightarrow> (resourceStateModel, rs_command, 'st) ServiceAggregate \<Rightarrow> CreateResourceRequest \<Rightarrow> 'st
     \<Rightarrow> (resourceStateModel, 'st) run_result" where
  "ag_CreateResource R X a request st =
     checked_command (validateCreateResource request) (Wrapf ''invalid create resource content command'')
       (Wrapf ''unable to process create resource content command'') (sa_cell a) st
       (RA_HandleCommand R X a (CreateResource request) st)"

definition ag_ConfirmResourceCreate ::
    "('st, 'v) ra_env \<Rightarrow> 'st ra_run \<Rightarrow> (resourceStateModel, rs_command, 'st) ServiceAggregate \<Rightarrow> ConfirmRequest \<Rightarrow> 'st
     \<Rightarrow> (resourceStateModel, 'st) run_result" where
  "ag_ConfirmResourceCreate R X a request st =
     checked_command (validateConfirmResourceCreate request) (Wrapf ''invalid create resource content notification command'')
       (Wrapf ''unable to process create resource content notification command'') (sa_cell a) st
       (RA_HandleCommand R X a (ConfirmResourceCreate request) st)"

definition ag_CancelResourceCommand ::
    "('st, 'v) ra_env \<Rightarrow> 'st ra_run \<Rightarrow> (resourceStateModel, rs_command, 'st) ServiceAggregate \<Rightarrow> CancelPendingCommandsRequest \<Rightarrow> 'st
     \<Rightarrow> (resourceStateModel, 'st) run_result" where
  "ag_CancelResourceCommand R X a request st =
     checked_command (validateCancelResourceCommand request) (\<lambda>err. err)
       (Wrapf ''unable to process cancel resource command'') (sa_cell a) st
       (RA_HandleCommand R X a (CancelPending request) st)"

definition ag_UpdateDeviceMetadata ::
    "('st, 'v) ra_env \<Rightarrow> 'st ra_run \<Rightarrow> (DeviceMetadataSnapshotTakenForCommand, dm_command, 'st) ServiceAggregate \<Rightarrow> UpdateDeviceMetadataRequest \<Rightarrow> 'st
     \<Rightarrow> (DeviceMetadataSnapshotTakenForCommand, 'st) run_result" where
  "ag_UpdateDeviceMetadata R X a request st =
     checked_command (validateUpdateDeviceMetadata request) (Wrapf ''invalid update device metadata command'')
       (Wrapf ''unable to process update device metadata command command'') (sa_cell a) st
       (RA_HandleCommand R X a (UpdateDeviceMetadata request) st)"

definition ag_ConfirmDeviceMetadataUpdate ::
    "('st, 'v) ra_env \<Rightarrow> 'st ra_run \<Rightarrow> (DeviceMetadataSnapshotTakenForCommand, dm_command, 'st) ServiceAggregate \<Rightarrow> ConfirmDeviceMetadataUpdateRequest \<Rightarrow> 'st
     \<Rightarrow> (DeviceMetadataSnapshotTakenForCommand, 'st) run_result" where
  "ag_ConfirmDeviceMetadataUpdate R X a request st =
     checked_command (validateConfirmDeviceMetadataUpdate request) (Wrapf ''invalid update device metadata command'')
       (Wrapf ''unable to process confirm device metadata update command'') (sa_cell a) st
       (RA_HandleCommand R X a (ConfirmDeviceMetadata request) st)"

definition ag_CancelPendingMetadataUpdates ::
    "('st, 'v) ra_env \<Rightarrow> 'st ra_run \<Rightarrow> (DeviceMetadataSnapshotTakenForCommand, dm_command, 'st) ServiceAggregate \<Rightarrow> CancelPendingMetadataUpdatesRequest \<Rightarrow> 'st
     \<Rightarrow> (DeviceMetadataSnapshotTakenForCommand, 'st) run_result" where
  "ag_CancelPendingMetadataUpdates R X a request st =
     checked_command (validateCancelPendingMetadataUpdates request) (\<lambda>err. err)
       (Wrapf ''unable to process cancel resource command'') (sa_cell a) st
       (RA_HandleCommand R X a (CancelPendingMetadata request) st)"

end
