(* ===== verification/RA_Service.thy ===== *)
theory RA_Service
  imports RA_Aggregate
begin

text \<open>
  The gRPC handlers of the resource aggregate service: \<^verbatim>\<open>resource-aggregate/service/grpcApi.go\<close> and the
  files of the handlers for device metadata, cancellation, batches and deletion. A handler finds the user
  and owner in the token, asks the owner cache whether the owner has the device, runs the command on an aggregate
  and publishes its events. Its state is the event store and the list of messages handed to the publisher. A handler
  that does not return is \<open>None\<close>. Errors of publishing are logged only, so they do not show.
\<close>

section \<open>Publishing\<close>

record ra_message =
  pm_topics :: "string list"
  pm_groupID :: string
  pm_aggregateID :: string
  pm_event :: any_event

type_synonym 'st ra_state = "'st \<times> ra_message list"
type_synonym ('st, 'a) ra_result = "('st ra_state \<times> 'a res) option"

definition PublishEvents ::
    "('st, 'v) ra_env \<Rightarrow> string \<Rightarrow> string \<Rightarrow> string \<Rightarrow> any_event list \<Rightarrow> ra_message list \<Rightarrow> ra_message list" where
  "PublishEvents R owner deviceID resourceID events pub =
     pub @ map (\<lambda>event. \<lparr>pm_topics = GetPublishSubject (ra_subjects R) (ra_leadResourceType R) owner event,
                         pm_groupID = deviceID, pm_aggregateID = resourceID, pm_event = event\<rparr>) events"

section \<open>Access\<close>

definition isUserDevice :: "'st ra_run \<Rightarrow> string \<Rightarrow> string \<Rightarrow> bool res" where
  "isUserDevice X owner deviceID =
     (case rx_getOwnerDevices X owner [deviceID] of
        Inl err \<Rightarrow> Inl err
      | Inr deviceIds \<Rightarrow> Inr (length deviceIds = 1))"

definition validateAccessToDeviceWithOwner :: "'st ra_run \<Rightarrow> string \<Rightarrow> string \<Rightarrow> unit res" where
  "validateAccessToDeviceWithOwner X deviceID owner =
     (case isUserDevice X owner deviceID of
        Inl err \<Rightarrow> Inl (ForwardErrorf Internal ''cannot validate: %v'' err)
      | Inr ok \<Rightarrow> if \<not> ok then Inl (GrpcStatus PermissionDenied ''access denied'' []) else Inr ())"

definition validateAccessToDevice :: "('st, 'v) ra_env \<Rightarrow> 'st ra_run \<Rightarrow> string \<Rightarrow> (string \<times> string) res" where
  "validateAccessToDevice R X deviceID =
     (case SubjectFromTokenMD (ra_auth R) of
        Inl err \<Rightarrow> Inl (ForwardErrorf InvalidArgument ''invalid userID: %v'' err)
      | Inr userID \<Rightarrow>
          (case OwnerFromTokenMD (ra_auth R) (ra_OwnerClaim R) of
             Inl err \<Rightarrow> Inl (ForwardErrorf InvalidArgument ''invalid owner: %v'' err)
           | Inr owner \<Rightarrow>
               (case validateAccessToDeviceWithOwner X deviceID owner of
                  Inl err \<Rightarrow> Inl err
                | Inr _ \<Rightarrow> Inr (userID, owner))))"

definition getOwnedDevices :: "('st, 'v) ra_env \<Rightarrow> 'st ra_run \<Rightarrow> string list \<Rightarrow> (string \<times> string \<times> string list) res" where
  "getOwnedDevices R X deviceIDs =
     (case SubjectFromTokenMD (ra_auth R) of
        Inl err \<Rightarrow> Inl (ForwardErrorf InvalidArgument ''invalid userID: %v'' err)
      | Inr userID \<Rightarrow>
          (case OwnerFromTokenMD (ra_auth R) (ra_OwnerClaim R) of
             Inl err \<Rightarrow> Inl (ForwardErrorf InvalidArgument ''invalid owner: %v'' err)
           | Inr owner \<Rightarrow>
               (case rx_getOwnerDevices X owner deviceIDs of
                  Inl err \<Rightarrow> Inl (ForwardErrorf InvalidArgument ''cannot validate: %v'' err)
                | Inr ownedDevices \<Rightarrow> Inr (userID, owner, ownedDevices))))"

definition cannotValidateAccessError :: "error \<Rightarrow> error" where
  "cannotValidateAccessError err = ForwardErrorf Internal ''cannot validate user access: %v'' err"

text \<open>The rest of a handler runs for the user and the owner.\<close>

definition with_access ::
    "('st, 'v) ra_env \<Rightarrow> 'st ra_run \<Rightarrow> string \<Rightarrow> 'st ra_state \<Rightarrow> (string \<Rightarrow> string \<Rightarrow> ('st, 'a) ra_result) \<Rightarrow> ('st, 'a) ra_result" where
  "with_access R X deviceID s h =
     (case validateAccessToDevice R X deviceID of
        Inl err \<Rightarrow> Some (s, Inl (cannotValidateAccessError err))
      | Inr (userID, owner) \<Rightarrow> h userID owner)"

text \<open>An aggregate that cannot be made, and a command that fails, end a handler with an error.\<close>

definition with_aggregate ::
    "error + 'g \<Rightarrow> (error \<Rightarrow> error) \<Rightarrow> 'st ra_state \<Rightarrow> ('g \<Rightarrow> ('st, 'a) ra_result) \<Rightarrow> ('st, 'a) ra_result" where
  "with_aggregate ag f s h = (case ag of Inl err \<Rightarrow> Some (s, Inl (f err)) | Inr a \<Rightarrow> h a)"

definition with_events ::
    "('m, 'st) run_result \<Rightarrow> (error \<Rightarrow> error) \<Rightarrow> ra_message list
     \<Rightarrow> ('st \<Rightarrow> 'm \<Rightarrow> any_event list \<Rightarrow> 'st ra_state \<times> 'a res) \<Rightarrow> ('st, 'a) ra_result" where
  "with_events r f pub h =
     (case r of
        None \<Rightarrow> None
      | Some (st, m, Inl err) \<Rightarrow> Some ((st, pub), Inl (f err))
      | Some (st, m, Inr events) \<Rightarrow> Some (h st m events))"

section \<open>Responses\<close>

datatype ra_response =
    PublishResponse "AuditContext" "Resource list" string
  | UnpublishResponse "AuditContext" "string list" string
  | AuditResponse "AuditContext"
  | PendingResponse "AuditContext" i64
  | DeviceMetadataResponse "AuditContext" bool i64
  | CancelResponse "AuditContext" "string list"
  | DeleteDevicesResponse "AuditContext" "string list"

text \<open>The value a function finds at the first event it is defined for.\<close>

fun first_event :: "(any_event \<Rightarrow> 'a option) \<Rightarrow> any_event list \<Rightarrow> 'a option" where
  "first_event f [] = None"
| "first_event f (e # es) = (case f e of None \<Rightarrow> first_event f es | Some x \<Rightarrow> Some x)"

definition newPublishResourceLinksResponse :: "any_event list \<Rightarrow> string \<Rightarrow> AuditContext \<Rightarrow> ra_response" where
  "newPublishResourceLinksResponse events deviceID auditContext =
     (case first_event (\<lambda>e. case e of E_ResourceLinksPublished rlp \<Rightarrow> Some rlp | _ \<Rightarrow> None) events of
        Some rlp \<Rightarrow> PublishResponse auditContext (rlp_Resources rlp) deviceID
      | None \<Rightarrow> PublishResponse auditContext [] deviceID)"

definition newUnpublishResourceLinksResponse :: "any_event list \<Rightarrow> string \<Rightarrow> AuditContext \<Rightarrow> ra_response" where
  "newUnpublishResourceLinksResponse events deviceID auditContext =
     (case first_event (\<lambda>e. case e of E_ResourceLinksUnpublished rlu \<Rightarrow> Some rlu | _ \<Rightarrow> None) events of
        Some rlu \<Rightarrow> UnpublishResponse auditContext (rlu_Hrefs rlu) deviceID
      | None \<Rightarrow> UnpublishResponse auditContext [] deviceID)"

definition GetUnpublishedHrefs :: "ra_response \<Rightarrow> string list" where
  "GetUnpublishedHrefs resp = (case resp of UnpublishResponse _ hrefs _ \<Rightarrow> hrefs | _ \<Rightarrow> [])"

definition valid_until :: "(any_event \<Rightarrow> i64 option) \<Rightarrow> any_event list \<Rightarrow> i64" where
  "valid_until f events = (case first_event f events of None \<Rightarrow> 0 | Some t \<Rightarrow> t)"

section \<open>Commands on a resource\<close>

definition resource_aggregate ::
    "('st, 'v) ra_env \<Rightarrow> 'st ra_run \<Rightarrow> ResourceId option \<Rightarrow> string \<Rightarrow> string \<Rightarrow> bool
     \<Rightarrow> (resourceStateModel, rs_command, 'st) ServiceAggregate res" where
  "resource_aggregate R X resourceID userID owner addLinkedResources =
     NewResourceAggregate R X resourceID (resourceStateModel_model (ra_uuid R)) (resource_model R X)
       (newResourceStateModel userID owner (ra_HubID R)) addLinkedResources"

definition wantToPublish :: "resourceStateModel \<Rightarrow> bool \<Rightarrow> ResourceId option \<Rightarrow> bool" where
  "wantToPublish m force resourceID = (if \<not> force then True else isPublished m resourceID)"

definition notifyResourceChanged ::
    "('st, 'v) ra_env \<Rightarrow> 'st ra_run \<Rightarrow> NotifyResourceChangedRequest \<Rightarrow> string \<Rightarrow> string \<Rightarrow> 'st ra_state \<Rightarrow> ('st, unit) ra_result" where
  "notifyResourceChanged R X request userID owner s =
     with_aggregate (resource_aggregate R X (nrq_ResourceId request) userID owner (length (nrq_ResourceTypes request) = 0))
       (ForwardErrorf InvalidArgument ''cannot notify about resource content change: %v'') s (\<lambda>a.
     with_events (ag_NotifyResourceChanged R X a request (fst s))
       (ForwardErrorf Internal ''cannot notify about resource content change: %v'') (snd s)
       (\<lambda>st m events.
          ((st, PublishEvents R owner (sa_DeviceID a) (sa_ResourceID a) events (snd s)), Inr ())))"

definition rh_NotifyResourceChanged ::
    "('st, 'v) ra_env \<Rightarrow> 'st ra_run \<Rightarrow> NotifyResourceChangedRequest \<Rightarrow> 'st ra_state \<Rightarrow> ('st, ra_response) ra_result" where
  "rh_NotifyResourceChanged R X request s =
     with_access R X (GetDeviceId (nrq_ResourceId request)) s (\<lambda>userID owner.
     (case notifyResourceChanged R X request userID owner s of
        None \<Rightarrow> None
      | Some (s', Inl err) \<Rightarrow> Some (s', Inl err)
      | Some (s', Inr _) \<Rightarrow> Some (s', Inr (AuditResponse (NewAuditContext userID [] owner)))))"

definition rh_UpdateResource :: "('st, 'v) ra_env \<Rightarrow> 'st ra_run \<Rightarrow> UpdateResourceRequest \<Rightarrow> 'st ra_state \<Rightarrow> ('st, ra_response) ra_result" where
  "rh_UpdateResource R X req s =
     with_access R X (GetDeviceId (urq_ResourceId req)) s (\<lambda>userID owner.
       let request = req\<lparr>urq_TimeToLive := checkTimeToLiveForDefault (ra_DefaultCommandTimeToLive R) (urq_TimeToLive req)\<rparr> in
     with_aggregate (resource_aggregate R X (urq_ResourceId request) userID owner True)
       (ForwardErrorf InvalidArgument ''cannot update resource content: %v'') s (\<lambda>a.
     with_events (ag_UpdateResource R X a request (fst s)) (ForwardErrorf Internal ''cannot update resource content: %v'') (snd s)
       (\<lambda>st m events.
          ((st, if wantToPublish m (urq_Force request) (urq_ResourceId request)
                then PublishEvents R owner (sa_DeviceID a) (sa_ResourceID a) events (snd s)
                else snd s),
           Inr (PendingResponse (NewAuditContext userID (urq_CorrelationId request) owner)
                  (valid_until (\<lambda>e. case e of E_ResourceUpdatePending ev \<Rightarrow> Some (rup_ValidUntil ev) | _ \<Rightarrow> None) events))))))"

definition rh_ConfirmResourceUpdate :: "('st, 'v) ra_env \<Rightarrow> 'st ra_run \<Rightarrow> ConfirmRequest \<Rightarrow> 'st ra_state \<Rightarrow> ('st, ra_response) ra_result" where
  "rh_ConfirmResourceUpdate R X request s =
     with_access R X (GetDeviceId (cfm_ResourceId request)) s (\<lambda>userID owner.
     with_aggregate (resource_aggregate R X (cfm_ResourceId request) userID owner True)
       (ForwardErrorf InvalidArgument ''cannot confirm resource content update: %v'') s (\<lambda>a.
     with_events (ag_ConfirmResourceUpdate R X a request (fst s)) (ForwardErrorf Internal ''cannot confirm resource content update: %v'') (snd s)
       (\<lambda>st m events.
          ((st, PublishEvents R owner (sa_DeviceID a) (sa_ResourceID a) events (snd s)),
           Inr (AuditResponse (NewAuditContext userID (cfm_CorrelationId request) owner))))))"

definition rh_RetrieveResource :: "('st, 'v) ra_env \<Rightarrow> 'st ra_run \<Rightarrow> RetrieveResourceRequest \<Rightarrow> 'st ra_state \<Rightarrow> ('st, ra_response) ra_result" where
  "rh_RetrieveResource R X req s =
     with_access R X (GetDeviceId (rrq_ResourceId req)) s (\<lambda>userID owner.
       let request = req\<lparr>rrq_TimeToLive := checkTimeToLiveForDefault (ra_DefaultCommandTimeToLive R) (rrq_TimeToLive req)\<rparr> in
     with_aggregate (resource_aggregate R X (rrq_ResourceId request) userID owner True)
       (ForwardErrorf InvalidArgument ''cannot retrieve resource content: %v'') s (\<lambda>a.
     with_events (ag_RetrieveResource R X a request (fst s)) (ForwardErrorf Internal ''cannot retrieve resource content: %v'') (snd s)
       (\<lambda>st m events.
          ((st, PublishEvents R owner (sa_DeviceID a) (sa_ResourceID a) events (snd s)),
           Inr (PendingResponse (NewAuditContext userID (rrq_CorrelationId request) owner)
                  (valid_until (\<lambda>e. case e of E_ResourceRetrievePending ev \<Rightarrow> Some (rrp_ValidUntil ev) | _ \<Rightarrow> None) events))))))"

definition rh_ConfirmResourceRetrieve :: "('st, 'v) ra_env \<Rightarrow> 'st ra_run \<Rightarrow> ConfirmResourceRetrieveRequest \<Rightarrow> 'st ra_state \<Rightarrow> ('st, ra_response) ra_result" where
  "rh_ConfirmResourceRetrieve R X request s =
     with_access R X (GetDeviceId (cfm_ResourceId request)) s (\<lambda>userID owner.
     with_aggregate (resource_aggregate R X (cfm_ResourceId request) userID owner True)
       (ForwardErrorf InvalidArgument ''ccannot confirm resource content retrieve: %v'') s (\<lambda>a.
     with_events (ag_ConfirmResourceRetrieve R X a request (fst s)) (ForwardErrorf Internal ''cannot confirm resource content retrieve: %v'') (snd s)
       (\<lambda>st m events.
          ((st, PublishEvents R owner (sa_DeviceID a) (sa_ResourceID a) events (snd s)),
           Inr (AuditResponse (NewAuditContext userID (cfm_CorrelationId request) owner))))))"

definition rh_DeleteResource :: "('st, 'v) ra_env \<Rightarrow> 'st ra_run \<Rightarrow> DeleteResourceRequest \<Rightarrow> 'st ra_state \<Rightarrow> ('st, ra_response) ra_result" where
  "rh_DeleteResource R X req s =
     with_access R X (GetDeviceId (drq_ResourceId req)) s (\<lambda>userID owner.
       let request = req\<lparr>drq_TimeToLive := checkTimeToLiveForDefault (ra_DefaultCommandTimeToLive R) (drq_TimeToLive req)\<rparr> in
     with_aggregate (resource_aggregate R X (drq_ResourceId request) userID owner True)
       (ForwardErrorf InvalidArgument ''cannot delete resource: %v'') s (\<lambda>a.
     with_events (ag_DeleteResource R X a request (fst s)) (ForwardErrorf Internal ''cannot delete resource: %v'') (snd s)
       (\<lambda>st m events.
          ((st, if wantToPublish m (drq_Force request) (drq_ResourceId request)
                then PublishEvents R owner (sa_DeviceID a) (sa_ResourceID a) events (snd s)
                else snd s),
           Inr (PendingResponse (NewAuditContext userID (drq_CorrelationId request) owner)
                  (valid_until (\<lambda>e. case e of E_ResourceDeletePending ev \<Rightarrow> Some (rdp_ValidUntil ev) | _ \<Rightarrow> None) events))))))"

definition rh_ConfirmResourceDelete :: "('st, 'v) ra_env \<Rightarrow> 'st ra_run \<Rightarrow> ConfirmRequest \<Rightarrow> 'st ra_state \<Rightarrow> ('st, ra_response) ra_result" where
  "rh_ConfirmResourceDelete R X request s =
     with_access R X (GetDeviceId (cfm_ResourceId request)) s (\<lambda>userID owner.
     with_aggregate (resource_aggregate R X (cfm_ResourceId request) userID owner True)
       (ForwardErrorf InvalidArgument ''cannot confirm resource deletion: %v'') s (\<lambda>a.
     with_events (ag_ConfirmResourceDelete R X a request (fst s)) (ForwardErrorf Internal ''cannot confirm resource deletion: %v'') (snd s)
       (\<lambda>st m events.
          ((st, PublishEvents R owner (sa_DeviceID a) (sa_ResourceID a) events (snd s)),
           Inr (AuditResponse (NewAuditContext userID (cfm_CorrelationId request) owner))))))"

definition rh_CreateResource :: "('st, 'v) ra_env \<Rightarrow> 'st ra_run \<Rightarrow> CreateResourceRequest \<Rightarrow> 'st ra_state \<Rightarrow> ('st, ra_response) ra_result" where
  "rh_CreateResource R X req s =
     with_access R X (GetDeviceId (crq_ResourceId req)) s (\<lambda>userID owner.
       let request = req\<lparr>crq_TimeToLive := checkTimeToLiveForDefault (ra_DefaultCommandTimeToLive R) (crq_TimeToLive req)\<rparr> in
     with_aggregate (resource_aggregate R X (crq_ResourceId request) userID owner True)
       (ForwardErrorf InvalidArgument ''cannot create resource: %v'') s (\<lambda>a.
     with_events (ag_CreateResource R X a request (fst s)) (ForwardErrorf Internal ''cannot create resource: %v'') (snd s)
       (\<lambda>st m events.
          ((st, if wantToPublish m (crq_Force request) (crq_ResourceId request)
                then PublishEvents R owner (sa_DeviceID a) (sa_ResourceID a) events (snd s)
                else snd s),
           Inr (PendingResponse (NewAuditContext userID (crq_CorrelationId request) owner)
                  (valid_until (\<lambda>e. case e of E_ResourceCreatePending ev \<Rightarrow> Some (rcp_ValidUntil ev) | _ \<Rightarrow> None) events))))))"

definition rh_ConfirmResourceCreate :: "('st, 'v) ra_env \<Rightarrow> 'st ra_run \<Rightarrow> ConfirmRequest \<Rightarrow> 'st ra_state \<Rightarrow> ('st, ra_response) ra_result" where
  "rh_ConfirmResourceCreate R X request s =
     with_access R X (GetDeviceId (cfm_ResourceId request)) s (\<lambda>userID owner.
     with_aggregate (resource_aggregate R X (cfm_ResourceId request) userID owner True)
       (ForwardErrorf InvalidArgument ''cannot confirm resource creation: %v'') s (\<lambda>a.
     with_events (ag_ConfirmResourceCreate R X a request (fst s)) (ForwardErrorf Internal ''cannot confirm resource creation: %v'') (snd s)
       (\<lambda>st m events.
          ((st, PublishEvents R owner (sa_DeviceID a) (sa_ResourceID a) events (snd s)),
           Inr (AuditResponse (NewAuditContext userID (cfm_CorrelationId request) owner))))))"

definition cancelled_commands :: "any_event list \<Rightarrow> string list" where
  "cancelled_commands cancelEvents = concat (map (\<lambda>e. case e of
       E_ResourceCreated ev \<Rightarrow> [GetCorrelationId (rcd_AuditContext ev)]
     | E_ResourceUpdated ev \<Rightarrow> [GetCorrelationId (rud_AuditContext ev)]
     | E_ResourceRetrieved ev \<Rightarrow> [GetCorrelationId (rrd_AuditContext ev)]
     | E_ResourceDeleted ev \<Rightarrow> [GetCorrelationId (rdd_AuditContext ev)]
     | _ \<Rightarrow> []) cancelEvents)"

definition rh_CancelPendingCommands ::
    "('st, 'v) ra_env \<Rightarrow> 'st ra_run \<Rightarrow> CancelPendingCommandsRequest \<Rightarrow> 'st ra_state \<Rightarrow> ('st, ra_response) ra_result" where
  "rh_CancelPendingCommands R X request s =
     with_access R X (GetDeviceId (cpc_ResourceId request)) s (\<lambda>userID owner.
     with_aggregate (resource_aggregate R X (cpc_ResourceId request) userID owner False)
       (ForwardErrorf InvalidArgument ''cannot cancel resource('%v') command: %v'') s (\<lambda>a.
     with_events (ag_CancelResourceCommand R X a request (fst s))
       (ForwardErrorf InvalidArgument ''cannot cancel resource('%v') command: %v'') (snd s)
       (\<lambda>st m cancelEvents.
          ((st, PublishEvents R owner (sa_DeviceID a) (sa_ResourceID a) cancelEvents (snd s)),
           Inr (CancelResponse (NewAuditContext userID [] owner) (cancelled_commands cancelEvents))))))"

section \<open>Links\<close>

definition links_aggregate ::
    "('st, 'v) ra_env \<Rightarrow> 'st ra_run \<Rightarrow> string \<Rightarrow> string \<Rightarrow> string
     \<Rightarrow> (ResourceLinksSnapshotTakenForCommand, links_command, 'st) ServiceAggregate res" where
  "links_aggregate R X deviceID userID owner =
     RA_NewAggregate R X (Some (NewResourceID deviceID ResourceLinksHref)) (NewResourceLinksFactoryModel userID owner (ra_HubID R))
       (links_model R X) (NewResourceLinksSnapshotTakenForCommand userID owner (ra_HubID R))"

definition rh_PublishResourceLinks ::
    "('st, 'v) ra_env \<Rightarrow> 'st ra_run \<Rightarrow> PublishResourceLinksRequest \<Rightarrow> 'st ra_state \<Rightarrow> ('st, ra_response) ra_result" where
  "rh_PublishResourceLinks R X request s =
     with_access R X (plr_DeviceId request) s (\<lambda>userID owner.
     with_aggregate (links_aggregate R X (plr_DeviceId request) userID owner)
       (ForwardErrorf InvalidArgument ''cannot publish resource links: %v'') s (\<lambda>a.
     with_events (ag_PublishResourceLinks R X a request (fst s))
       (ForwardErrorf Internal ''cannot publish resource links: %v'') (snd s)
       (\<lambda>st m events.
          ((st, PublishEvents R owner (sa_DeviceID a) (sa_ResourceID a) events (snd s)),
           Inr (newPublishResourceLinksResponse events (sa_DeviceID a) (NewAuditContext userID [] owner))))))"

text \<open>The unpublishing proper, and the notifications that reset the content of the resources.\<close>

definition unpublish_links ::
    "('st, 'v) ra_env \<Rightarrow> 'st ra_run \<Rightarrow> UnpublishResourceLinksRequest \<Rightarrow> 'st ra_state \<Rightarrow> ('st, ra_response) ra_result" where
  "unpublish_links R X request s =
     with_access R X (ulr_DeviceId request) s (\<lambda>userID owner.
     with_aggregate (links_aggregate R X (ulr_DeviceId request) userID owner)
       (ForwardErrorf InvalidArgument ''cannot unpublish resource links: %v'') s (\<lambda>a.
     with_events (ag_UnpublishResourceLinks R X a request (fst s))
       (ForwardErrorf Internal ''cannot unpublish resource links: %v'') (snd s)
       (\<lambda>st m events.
          ((st, PublishEvents R owner (sa_DeviceID a) (sa_ResourceID a) events (snd s)),
           Inr (newUnpublishResourceLinksResponse events (sa_DeviceID a) (NewAuditContext userID [] owner))))))"

definition reset_content :: "string \<Rightarrow> string \<Rightarrow> CommandMetadata option \<Rightarrow> NotifyResourceChangedRequest" where
  "reset_content deviceID href cm =
     \<lparr>nrq_ResourceId = Some (NewResourceID deviceID href),
      nrq_Content = Some \<lparr>ct_Data = [], ct_ContentType = [], ct_CoapContentFormat = -1\<rparr>,
      nrq_CommandMetadata = cm, nrq_Status = Status_NOT_FOUND, nrq_Etag = [], nrq_ResourceTypes = []\<rparr>"

primrec reset_contents ::
    "('st, 'v) ra_env \<Rightarrow> (nat \<Rightarrow> 'st ra_run) \<Rightarrow> nat \<Rightarrow> string \<Rightarrow> CommandMetadata option \<Rightarrow> string list \<Rightarrow> 'st ra_state
     \<Rightarrow> 'st ra_state option" where
  "reset_contents R Xs n deviceID cm [] s = Some s"
| "reset_contents R Xs n deviceID cm (href # hrefs) s =
     (case rh_NotifyResourceChanged R (Xs n) (reset_content deviceID href cm) s of
        None \<Rightarrow> None
      | Some (s', _) \<Rightarrow> reset_contents R Xs (Suc n) deviceID cm hrefs s')"

definition rh_UnpublishResourceLinks ::
    "('st, 'v) ra_env \<Rightarrow> (nat \<Rightarrow> 'st ra_run) \<Rightarrow> UnpublishResourceLinksRequest \<Rightarrow> 'st ra_state \<Rightarrow> ('st, ra_response) ra_result" where
  "rh_UnpublishResourceLinks R Xs request s =
     (case unpublish_links R (Xs 0) request s of
        None \<Rightarrow> None
      | Some (s', Inl err) \<Rightarrow> Some (s', Inl err)
      | Some (s', Inr resp) \<Rightarrow>
          map_option (\<lambda>s''. (s'', Inr resp))
            (reset_contents R Xs 1 (ulr_DeviceId request) (ulr_CommandMetadata request) (GetUnpublishedHrefs resp) s'))"

section \<open>Batches of notifications\<close>

primrec batch_notify ::
    "('st, 'v) ra_env \<Rightarrow> (nat \<Rightarrow> 'st ra_run) \<Rightarrow> nat \<Rightarrow> string \<Rightarrow> string \<Rightarrow> NotifyResourceChangedRequest list \<Rightarrow> 'st ra_state
     \<Rightarrow> ('st ra_state \<times> error list) option" where
  "batch_notify R Xs n userID owner [] s = Some (s, [])"
| "batch_notify R Xs n userID owner (notify # batch) s =
     (let wrap = Wrapf ''cannot notify resource changed %v'' in
      case validateAccessToDeviceWithOwner (Xs n) (GetDeviceId (nrq_ResourceId notify)) owner of
        Inl err \<Rightarrow> map_option (map_prod id ((#) (wrap err))) (batch_notify R Xs (Suc n) userID owner batch s)
      | Inr _ \<Rightarrow>
          (case notifyResourceChanged R (Xs n) notify userID owner s of
             None \<Rightarrow> None
           | Some (s', Inl err) \<Rightarrow> map_option (map_prod id ((#) (wrap err))) (batch_notify R Xs (Suc n) userID owner batch s')
           | Some (s', Inr _) \<Rightarrow> batch_notify R Xs (Suc n) userID owner batch s'))"

definition rh_BatchNotifyResourceChanged ::
    "('st, 'v) ra_env \<Rightarrow> (nat \<Rightarrow> 'st ra_run) \<Rightarrow> NotifyResourceChangedRequest list \<Rightarrow> 'st ra_state \<Rightarrow> ('st, ra_response) ra_result" where
  "rh_BatchNotifyResourceChanged R Xs batch s =
     (case OwnerFromTokenMD (ra_auth R) (ra_OwnerClaim R) of
        Inl err \<Rightarrow> Some (s, Inl (ForwardErrorf InvalidArgument ''cannot process batch  notify resource changed: invalid owner: %v'' err))
      | Inr owner \<Rightarrow>
          (case SubjectFromTokenMD (ra_auth R) of
             Inl err \<Rightarrow> Some (s, Inl (ForwardErrorf InvalidArgument ''cannot process batch  notify resource changed: invalid userID: %v'' err))
           | Inr userID \<Rightarrow>
               (case batch_notify R Xs 0 userID owner batch s of
                  None \<Rightarrow> None
                | Some (s', errors) \<Rightarrow>
                    Some (s', if errors \<noteq> []
                              then Inl (ForwardErrorf InvalidArgument ''cannot process batch notify resource changed: %w'' (Multierror errors))
                              else Inr (AuditResponse (NewAuditContext userID [] owner))))))"

section \<open>Device metadata\<close>

definition device_aggregate ::
    "('st, 'v) ra_env \<Rightarrow> 'st ra_run \<Rightarrow> string \<Rightarrow> string \<Rightarrow> string
     \<Rightarrow> (DeviceMetadataSnapshotTakenForCommand, dm_command, 'st) ServiceAggregate res" where
  "device_aggregate R X deviceID userID owner =
     RA_NewAggregate R X (Some (NewResourceID deviceID StatusHref)) (NewDeviceMetadataFactoryModel userID owner (ra_HubID R))
       (device_model R X) (NewDeviceMetadataSnapshotTakenForCommand userID owner (ra_HubID R))"

definition updateDeviceMetadata ::
    "('st, 'v) ra_env \<Rightarrow> 'st ra_run \<Rightarrow> UpdateDeviceMetadataRequest \<Rightarrow> string \<Rightarrow> string \<Rightarrow> 'st ra_state \<Rightarrow> ('st, ra_response) ra_result" where
  "updateDeviceMetadata R X req userID owner s =
     (let request = req\<lparr>udm_TimeToLive := checkTimeToLiveForDefault (ra_DefaultCommandTimeToLive R) (udm_TimeToLive req)\<rparr> in
     with_aggregate (device_aggregate R X (udm_DeviceId request) userID owner)
       (ForwardErrorf InvalidArgument ''cannot update device('%v') metadata: %v'') s (\<lambda>a.
     with_events (ag_UpdateDeviceMetadata R X a request (fst s))
       (ForwardErrorf Internal ''cannot update device('%v') metadata: %v'') (snd s)
       (\<lambda>st latestSnapshot publishEvents.
          ((st, PublishEvents R owner (sa_DeviceID a) (sa_ResourceID a) publishEvents (snd s)),
           Inr (DeviceMetadataResponse (NewAuditContext userID [] owner)
                  (dmu_TwinEnabled (dm_updated (dmc_snap latestSnapshot)))
                  (valid_until (\<lambda>e. case e of E_DeviceMetadataUpdatePending ev \<Rightarrow> Some (dup_ValidUntil ev) | _ \<Rightarrow> None) publishEvents))))))"

definition rh_UpdateDeviceMetadata ::
    "('st, 'v) ra_env \<Rightarrow> 'st ra_run \<Rightarrow> UpdateDeviceMetadataRequest \<Rightarrow> 'st ra_state \<Rightarrow> ('st, ra_response) ra_result" where
  "rh_UpdateDeviceMetadata R X request s =
     with_access R X (udm_DeviceId request) s (\<lambda>userID owner. updateDeviceMetadata R X request userID owner s)"

definition rh_ConfirmDeviceMetadataUpdate ::
    "('st, 'v) ra_env \<Rightarrow> 'st ra_run \<Rightarrow> ConfirmDeviceMetadataUpdateRequest \<Rightarrow> 'st ra_state \<Rightarrow> ('st, ra_response) ra_result" where
  "rh_ConfirmDeviceMetadataUpdate R X request s =
     with_access R X (cdm_DeviceId request) s (\<lambda>userID owner.
     with_aggregate (device_aggregate R X (cdm_DeviceId request) userID owner)
       (ForwardErrorf InvalidArgument ''cannot confirm device('%v') metadata update: %v'') s (\<lambda>a.
     with_events (ag_ConfirmDeviceMetadataUpdate R X a request (fst s))
       (ForwardErrorf Internal ''cannot confirm device('%v') metadata update: %v'') (snd s)
       (\<lambda>st m events.
          ((st, PublishEvents R owner (sa_DeviceID a) (sa_ResourceID a) events (snd s)),
           Inr (AuditResponse (NewAuditContext userID [] owner))))))"

definition cancelled_updates :: "any_event list \<Rightarrow> string list" where
  "cancelled_updates cancelEvents = concat (map (\<lambda>e. case e of
       E_DeviceMetadataUpdated ev \<Rightarrow> [GetCorrelationId (dmu_AuditContext ev)]
     | _ \<Rightarrow> []) cancelEvents)"

definition rh_CancelPendingMetadataUpdates ::
    "('st, 'v) ra_env \<Rightarrow> 'st ra_run \<Rightarrow> CancelPendingMetadataUpdatesRequest \<Rightarrow> 'st ra_state \<Rightarrow> ('st, ra_response) ra_result" where
  "rh_CancelPendingMetadataUpdates R X request s =
     with_access R X (cpm_DeviceId request) s (\<lambda>userID owner.
     with_aggregate (device_aggregate R X (cpm_DeviceId request) userID owner)
       (ForwardErrorf InvalidArgument ''cannot cancel device ('%v') metadata updates: %v'') s (\<lambda>a.
     with_events (ag_CancelPendingMetadataUpdates R X a request (fst s))
       (ForwardErrorf InvalidArgument ''cannot cancel resource('%v') metadata updates: %v'') (snd s)
       (\<lambda>st m cancelEvents.
          ((st, PublishEvents R owner (sa_DeviceID a) (sa_ResourceID a) cancelEvents (snd s)),
           Inr (CancelResponse (NewAuditContext userID [] owner) (cancelled_updates cancelEvents))))))"

section \<open>Deletion of devices\<close>

definition getUniqueDeviceIdsFromDeleteRequest :: "kit_strings \<Rightarrow> string list \<Rightarrow> string list" where
  "getUniqueDeviceIdsFromDeleteRequest S deviceIds = kit_MakeSet S (filter (\<lambda>deviceID. deviceID \<noteq> []) deviceIds)"

definition rh_DeleteDevices ::
    "('st, 'v) ra_env \<Rightarrow> 'st ra_run \<Rightarrow> string list \<Rightarrow> 'st ra_state \<Rightarrow> ('st, ra_response) ra_result" where
  "rh_DeleteDevices R X request s =
     (let deviceIds = getUniqueDeviceIdsFromDeleteRequest (ra_kit R) request in
      case getOwnedDevices R X deviceIds of
        Inl err \<Rightarrow> Some (s, Inl (ForwardErrorf Internal ''cannot validate user access: %v'' err))
      | Inr (userID, owner, ownedDevices) \<Rightarrow>
          if length ownedDevices = 0
          then Some (s, Inr (DeleteDevicesResponse (NewAuditContext userID [] owner) []))
          else case ra_Delete R (fst s) ownedDevices of
            (st, Inl err) \<Rightarrow> Some ((st, snd s), Inl (ForwardErrorf Internal ''cannot delete devices: %v'' err))
          | (st, Inr _) \<Rightarrow> Some ((st, snd s), Inr (DeleteDevicesResponse (NewAuditContext userID [] owner) ownedDevices)))"

section \<open>The service\<close>

datatype ra_request =
    Req_PublishResourceLinks PublishResourceLinksRequest
  | Req_UnpublishResourceLinks UnpublishResourceLinksRequest
  | Req_NotifyResourceChanged NotifyResourceChangedRequest
  | Req_BatchNotifyResourceChanged "NotifyResourceChangedRequest list"
  | Req_UpdateResource UpdateResourceRequest
  | Req_ConfirmResourceUpdate ConfirmRequest
  | Req_RetrieveResource RetrieveResourceRequest
  | Req_ConfirmResourceRetrieve ConfirmResourceRetrieveRequest
  | Req_DeleteResource DeleteResourceRequest
  | Req_ConfirmResourceDelete ConfirmRequest
  | Req_CreateResource CreateResourceRequest
  | Req_ConfirmResourceCreate ConfirmRequest
  | Req_CancelPendingCommands CancelPendingCommandsRequest
  | Req_UpdateDeviceMetadata UpdateDeviceMetadataRequest
  | Req_ConfirmDeviceMetadataUpdate ConfirmDeviceMetadataUpdateRequest
  | Req_CancelPendingMetadataUpdates CancelPendingMetadataUpdatesRequest
  | Req_DeleteDevices "string list"

definition serve ::
    "('st, 'v) ra_env \<Rightarrow> (nat \<Rightarrow> 'st ra_run) \<Rightarrow> ra_request \<Rightarrow> 'st ra_state \<Rightarrow> ('st, ra_response) ra_result" where
  "serve R Xs req =
     (case req of
        Req_PublishResourceLinks r \<Rightarrow> rh_PublishResourceLinks R (Xs 0) r
      | Req_UnpublishResourceLinks r \<Rightarrow> rh_UnpublishResourceLinks R Xs r
      | Req_NotifyResourceChanged r \<Rightarrow> rh_NotifyResourceChanged R (Xs 0) r
      | Req_BatchNotifyResourceChanged r \<Rightarrow> rh_BatchNotifyResourceChanged R Xs r
      | Req_UpdateResource r \<Rightarrow> rh_UpdateResource R (Xs 0) r
      | Req_ConfirmResourceUpdate r \<Rightarrow> rh_ConfirmResourceUpdate R (Xs 0) r
      | Req_RetrieveResource r \<Rightarrow> rh_RetrieveResource R (Xs 0) r
      | Req_ConfirmResourceRetrieve r \<Rightarrow> rh_ConfirmResourceRetrieve R (Xs 0) r
      | Req_DeleteResource r \<Rightarrow> rh_DeleteResource R (Xs 0) r
      | Req_ConfirmResourceDelete r \<Rightarrow> rh_ConfirmResourceDelete R (Xs 0) r
      | Req_CreateResource r \<Rightarrow> rh_CreateResource R (Xs 0) r
      | Req_ConfirmResourceCreate r \<Rightarrow> rh_ConfirmResourceCreate R (Xs 0) r
      | Req_CancelPendingCommands r \<Rightarrow> rh_CancelPendingCommands R (Xs 0) r
      | Req_UpdateDeviceMetadata r \<Rightarrow> rh_UpdateDeviceMetadata R (Xs 0) r
      | Req_ConfirmDeviceMetadataUpdate r \<Rightarrow> rh_ConfirmDeviceMetadataUpdate R (Xs 0) r
      | Req_CancelPendingMetadataUpdates r \<Rightarrow> rh_CancelPendingMetadataUpdates R (Xs 0) r
      | Req_DeleteDevices r \<Rightarrow> rh_DeleteDevices R (Xs 0) r)"

end
