(* ===== verification/Aggregate_Invariants.thy ===== *)
theory Aggregate_Invariants
  imports Aggregate
begin

text \<open>
  Whatever is loaded and however often an attempt is repeated, the models of a projection and the events of a command
  keep what the model keeps: the contract \<open>model_invariant\<close> of a model and the facts about the loop of
  \<^verbatim>\<open>cqrs/aggregate/aggregate.go\<close> that follow from it.
\<close>

section \<open>Models of a projection\<close>

definition all_models :: "('m \<Rightarrow> bool) \<Rightarrow> 'm Projection \<Rightarrow> bool" where
  "all_models I p \<longleftrightarrow> (\<forall>g a am. lookup_model p g a = Some am \<longrightarrow> I (am_model am))"

lemma all_models_new: "all_models I NewProjection"
  by (simp add: all_models_def NewProjection_def lookup_model_def)

lemma lookup_stored_model:
  "lookup_model (store_model p am) g a =
     (if g = am_groupID am \<and> a = am_aggregateID am then Some am else lookup_model p g a)"
  by (auto simp: lookup_model_def store_model_def update_conv' split: option.splits)

lemma all_models_store: "all_models I p \<Longrightarrow> I (am_model am) \<Longrightarrow> all_models I (store_model p am)"
  by (auto simp: all_models_def lookup_stored_model)

lemma aggregateModel_Update_model: "aggregateModel_Update am e = (am', r) \<Longrightarrow> am_model am' = am_model am"
  by (auto simp: aggregateModel_Update_def split: if_splits)

lemma RewindIgnore_model: "RewindIgnore i = (i', ev) \<Longrightarrow> am_model (i_model i') = am_model (i_model i)"
proof (induction i rule: RewindIgnore.induct)
  case (1 i)
  show ?case
  proof (cases "src_events (i_iter i)")
    case Nil
    with "1.prems" show ?thesis by (auto simp: source_Next_def RewindIgnore.simps [of i])
  next
    case (Cons e es)
    then have nx: "source_Next (i_iter i) = (i_iter i\<lparr>src_events := es\<rparr>, Some e)" by (simp add: source_Next_def)
    obtain am ign rel where up: "aggregateModel_Update (i_model i) e = (am, ign, rel)" by (metis prod_cases3)
    show ?thesis
      using "1.prems" "1.IH" [OF nx [symmetric] refl _ up [symmetric] refl] aggregateModel_Update_model [OF up]
      by (auto simp: RewindIgnore.simps [of i] nx up split: if_splits)
  qed
qed

lemma iterator_Next_model: "iterator_Next i = (i', ev) \<Longrightarrow> am_model (i_model i') = am_model (i_model i)"
  by (auto simp: iterator_Next_def Let_def split: option.splits prod.splits if_splits
      dest!: aggregateModel_Update_model RewindIgnore_model RewindToSnapshot_frame RewindToNext_frame)

lemma finish_run_model: "am_model (i_model (finish_run i)) = am_model (i_model i)"
  by (auto simp: finish_run_def split: prod.splits option.splits dest!: iterator_Next_model RewindToNext_frame)

lemma model_Handle_model:
  assumes "\<And>n m e. I m \<Longrightarrow> I (fst (step n m e))"
  shows "I (am_model (i_model i)) \<Longrightarrow> model_Handle step n i = (n', i', r) \<Longrightarrow> I (am_model (i_model i'))"
  using assms
proof (induction step n i rule: model_Handle.induct)
  case (1 step n i)
  obtain i1 ev where nx: "iterator_Next i = (i1, ev)" by fastforce
  note m1 = iterator_Next_model [OF nx]
  show ?case
  proof (cases ev)
    case None
    with "1.prems" nx m1 show ?thesis by (auto simp: model_Handle.simps [of step n i])
  next
    case (Some e)
    obtain m r1 where st: "step n (am_model (i_model i1)) e = (m, r1)" by fastforce
    have m: "I m" using "1.prems"(3) [of "am_model (i_model i1)" n e] "1.prems"(1) m1 st by simp
    show ?thesis
    proof (cases "eu_EventType e = [] \<or> is_err r1")
      case True
      with "1.prems"(1,2) nx m1 Some st m show ?thesis
        by (auto simp: model_Handle.simps [of step n i] is_err_def split: if_splits sum.splits)
    next
      case False
      then obtain u where r1: "r1 = Inr u" by (cases r1) auto
      have "model_Handle step (Suc n) (i1\<lparr>i_model := (i_model i1)\<lparr>am_model := m\<rparr>\<rparr>) = (n', i', r)"
        using "1.prems"(2) nx Some st r1 False by (simp add: model_Handle.simps [of step n i] Let_def)
      with "1.IH" [OF nx [symmetric] Some _ st [symmetric] refl r1] False m "1.prems"(3) show ?thesis by simp
    qed
  qed
qed

lemma getModel_models:
  assumes "\<And>g a m. f g a = Inr m \<Longrightarrow> I m" and "all_models I p" and "getModel f p g a = (p1, r)"
  shows "all_models I p1 \<and> (\<forall>am. r = Inr am \<longrightarrow> I (am_model am))"
proof -
  let ?p1 = "if map_of (p_aggregateModels p) g = None then p\<lparr>p_aggregateModels := AList.update g [] (p_aggregateModels p)\<rparr> else p"
  have lk: "lookup_model ?p1 g' a' = lookup_model p g' a'" for g' a'
    by (auto simp: lookup_model_def update_conv' split: option.splits)
  then have p1: "all_models I ?p1" using assms(2) by (simp add: all_models_def)
  show ?thesis
  proof (cases "lookup_model p g a")
    case (Some am)
    with assms(3) lk have "p1 = ?p1 \<and> r = Inr am" by (simp add: getModel_def Let_def del: if_split split del: if_split)
    with p1 Some assms(2) show ?thesis by (auto simp: all_models_def)
  next
    case None
    then have lkn: "lookup_model ?p1 g a = None" using lk by simp
    show ?thesis
    proof (cases "f g a")
      case (Inl e)
      with lkn assms(3) have "p1 = ?p1 \<and> r = Inl (Wrapf ''cannot create model'' e)"
        by (simp add: getModel_def Let_def split del: if_split)
      with p1 show ?thesis by simp
    next
      case (Inr m)
      define am where "am = \<lparr>am_groupID = g, am_aggregateID = a, am_model = m, am_version = 0, am_hasSnapshot = False\<rparr>"
      with Inr lkn assms(3) have "p1 = store_model ?p1 am \<and> r = Inr am"
        by (simp add: getModel_def Let_def split del: if_split)
      with all_models_store [OF p1, of am] assms(1) [OF Inr] am_def show ?thesis by simp
    qed
  qed
qed

lemma handle_loop_models:
  assumes "\<And>n m e. I m \<Longrightarrow> I (fst (step n m e))" and "\<And>g a m. f g a = Inr m \<Longrightarrow> I m"
  shows "all_models I p \<Longrightarrow> handle_loop step f n p s ie qs = (n', p', r) \<Longrightarrow> all_models I p'"
  using assms
proof (induction step f n p s ie qs rule: handle_loop.induct)
  case (1 step f n p s ie qs)
  obtain p1 g where gm: "getModel f p (eu_GroupID ie) (eu_AggregateID ie) = (p1, g)" by fastforce
  note p1 = getModel_models [where I = I, OF "1.prems"(4) "1.prems"(1) gm]
  show ?case
  proof (cases g)
    case (Inl e)
    with gm p1 "1.prems"(2) show ?thesis by (simp add: handle_loop.simps [of step])
  next
    case (Inr am)
    obtain n1 i h where mh: "model_Handle step n (new_iterator s ie am) = (n1, i, h)" by (metis prod_cases3)
    have i: "I (am_model (i_model i))"
      using model_Handle_model [where I = I, OF "1.prems"(3) _ mh] p1 Inr by (simp add: new_iterator_def)
    show ?thesis
    proof (cases h)
      case (Inl e)
      with gm Inr mh "1.prems"(2) all_models_store [of I p1 "i_model i"] p1 i show ?thesis by (simp add: handle_loop.simps [of step])
    next
      case ok: (Inr u)
      have p2: "all_models I (store_model p1 (i_model (finish_run i)))"
        by (rule all_models_store) (use p1 i in \<open>simp_all add: finish_run_model\<close>)
      show ?thesis
      proof (cases "i_nextEventToProcess (finish_run i)")
        case None
        with gm Inr mh ok "1.prems"(2) p2 show ?thesis by (simp add: handle_loop.simps [of step] Let_def)
      next
        case (Some ie')
        with gm Inr mh ok "1.prems"(2)
        obtain qs' where qs': "qs' = qs @ (case i_reload (finish_run i) of None \<Rightarrow> [] | Some q \<Rightarrow> [q])"
          and next_run: "handle_loop step f n1 (store_model p1 (i_model (finish_run i))) (i_iter (finish_run i)) ie' qs' = (n', p', r)"
          by (simp add: handle_loop.simps [of step] Let_def)
        from "1.IH" [OF gm [symmetric] Inr mh [symmetric] refl ok refl qs' refl Some p2 next_run "1.prems"(3,4)]
        show ?thesis .
      qed
    qed
  qed
qed

lemma Project_models:
  assumes "\<And>n m e. I m \<Longrightarrow> I (fst (step n m e))" and "\<And>g a m. f g a = Inr m \<Longrightarrow> I m"
    and "all_models I p" and "Project load step f n p queries = ((n', p'), r)"
  shows "all_models I p'"
proof -
  let ?J = "\<lambda>np :: nat \<times> 'a Projection. all_models I (snd np)"
  have eh: "?J (fst (handler_of step f np s))" if "?J np" for np s
  proof -
    obtain n p where np: "np = (n, p)" by fastforce
    obtain n1 p1 r1 where ph: "projection_handle step f n p s = (n1, p1, r1)" by (metis prod_cases3)
    have "all_models I p1"
    proof (cases "src_events s")
      case Nil
      with ph that np show ?thesis by (simp add: projection_handle_def source_Next_def split: option.splits)
    next
      case (Cons e es)
      with ph have "handle_loop step f n p (s\<lparr>src_events := es\<rparr>) e [] = (n1, p1, r1)"
        by (simp add: projection_handle_def source_Next_def)
      with that np show ?thesis using handle_loop_models [where I = I, OF assms(1,2)] by fastforce
    qed
    with ph np show ?thesis by (simp add: handler_of_def Projection_Handle_def)
  qed
  have "?J np \<Longrightarrow> ?J (fst (loadEventsQuery (handler_of step f) np qs errs))" for np qs errs
  proof (induction "handler_of step f" np qs errs rule: loadEventsQuery.induct)
    case (4 np s closeErr qs errs)
    with eh [of np s] show ?case by (cases "handler_of step f np s") auto
  next
    case (5 np s closeErr qs errs)
    with eh [of np s] show ?case by (cases "handler_of step f np s") auto
  qed auto
  from this [of "(n, p)"] assms(3,4) show ?thesis
    by (auto simp: Project_def run_load_def split: sum.splits) (metis fst_conv snd_conv)
qed

section \<open>The contract\<close>

text \<open>
  \<open>mine\<close> holds of the models, \<open>cmd_ok\<close> of the command as the attempts leave it, and \<open>answer\<close> of the events a model
  answers such a command with.
\<close>

locale model_invariant =
  fixes M :: "('m, 'cmd) AggregateModel"
    and mine :: "'m \<Rightarrow> bool" and cmd_ok :: "'cmd \<Rightarrow> bool" and answer :: "any_event list \<Rightarrow> bool"
  assumes step_mine: "mine m \<Longrightarrow> mine (fst (mod_step M n m e))"
    and sees_mine: "mine m \<Longrightarrow> mine m' \<Longrightarrow> mine (mod_sees M a m' m)"
    and command_mine: "mine m \<Longrightarrow> cmd_ok cmd \<Longrightarrow> mod_HandleCommand M k m cmd v = (m', cmd', r) \<Longrightarrow> mine m' \<and> cmd_ok cmd'"
    and command_answer: "mine m \<Longrightarrow> cmd_ok cmd \<Longrightarrow> mod_HandleCommand M k m cmd v = (m', cmd', Inr evs) \<Longrightarrow> answer evs"
begin

lemma wrapper_step_mine: "mine (w_model w) \<Longrightarrow> mine (w_model (fst (wrapper_step (mod_step M) n w e)))"
  using step_mine [of "w_model w" n e]
  by (cases "mod_step M n (w_model w) e") (simp add: wrapper_step_def aggrIterator_Next_def Let_def)

lemma additional_mine:
  assumes "\<forall>g a m. f g a = Inr m \<longrightarrow> mine m"
  shows "additional_models f rs = Inr ms \<Longrightarrow> \<forall>(r, w)\<in>set ms. mine (w_model w)"
  using assms by (induction rs arbitrary: ms) (auto split: sum.splits)

lemma seen_mine:
  "mine (w_model w) \<Longrightarrow> \<forall>(r, x)\<in>set ms. mine (w_model (ld r x)) \<Longrightarrow>
     mine (w_model (foldl (\<lambda>w (r, x). w\<lparr>w_model := mod_sees M (adm_AggregateID r) (w_model (ld r x)) (w_model w)\<rparr>) w ms))"
proof (induction ms arbitrary: w)
  case (Cons rx ms)
  obtain r x where rx: "rx = (r, x)" by fastforce
  let ?w = "w\<lparr>w_model := mod_sees M (adm_AggregateID r) (w_model (ld r x)) (w_model w)\<rparr>"
  have "mine (w_model ?w)" using Cons.prems rx sees_mine by simp
  from Cons.IH [OF this] Cons.prems rx show ?case by simp
qed simp

lemma loaded_mine:
  assumes factory: "\<forall>g a m. ag_factoryModel ag cell g a = Inr m \<longrightarrow> mine m" and "NewAggregateModel ag M cell st = Inr w"
  shows "mine (w_model w)"
proof -
  obtain model ms where model: "ag_factoryModel ag cell (ag_groupID ag) (ag_aggregateID ag) = Inr model"
      and ms: "additional_models (ag_factoryModel ag cell) (ag_additionalModels ag) = Inr ms"
    using assms(2) by (auto simp: NewAggregateModel_def split: sum.splits)
  let ?w = "\<lparr>w_model = model, w_lastVersion = 0, w_loaded = False\<rparr>"
  let ?f = "\<lambda>(_ :: string) id. if id = ag_aggregateID ag then Inr ?w
      else case map_of (rev (map (\<lambda>(r, m). (adm_AggregateID r, m)) ms)) id of
        Some m \<Rightarrow> Inr m
      | None \<Rightarrow> Inl (Errorf ''cannot create aggregate model for %v %v : not found'' [ag_groupID ag, ag_aggregateID ag])"
  note ms_mine = additional_mine [OF factory ms]
  have w: "mine (w_model ?w)" using factory model by simp
  have f: "mine (w_model m)" if "?f g id = Inr m" for g id m
  proof (cases "id = ag_aggregateID ag")
    case True
    with that w show ?thesis by auto
  next
    case False
    with that obtain r where "(r, m) \<in> set ms"
      by (auto split: option.splits dest!: map_of_SomeD)
    with ms_mine show ?thesis by auto
  qed
  obtain n p where pr: "Project (es_LoadFromSnapshot (ag_store ag) st) (wrapper_step (mod_step M)) ?f 0 NewProjection
        (\<lparr>sq_GroupID = ag_groupID ag, sq_AggregateID = ag_aggregateID ag, sq_Types = []\<rparr> #
         map (\<lambda>(r, _). \<lparr>sq_GroupID = adm_GroupID r, sq_AggregateID = adm_AggregateID r, sq_Types = []\<rparr>) ms) = ((n, p), Inr ())"
      and w': "w = foldl (\<lambda>w (r, m). w\<lparr>w_model := mod_sees M (adm_AggregateID r)
                 (w_model (loaded_model p (adm_GroupID r) (adm_AggregateID r) m)) (w_model w)\<rparr>)
               (loaded_model p (ag_groupID ag) (ag_aggregateID ag) ?w) ms"
    using assms(2) model ms unfolding NewAggregateModel_def by (auto simp: Let_def split: sum.splits prod.splits)
  have p: "all_models (\<lambda>w. mine (w_model w)) p"
    by (rule Project_models [where I = "\<lambda>w. mine (w_model w)", OF wrapper_step_mine f all_models_new pr])
  have ld: "mine (w_model (loaded_model p g a x))" if "mine (w_model x)" for g a x
    using p that by (auto simp: loaded_model_def all_models_def split: option.splits)
  have "mine (w_model (loaded_model p (ag_groupID ag) (ag_aggregateID ag) ?w))" by (rule ld [OF w])
  moreover have "\<forall>(r, x)\<in>set ms. mine (w_model (loaded_model p (adm_GroupID r) (adm_AggregateID r) x))"
    using ms_mine ld by auto
  ultimately show ?thesis
    using seen_mine [of _ ms "\<lambda>r. loaded_model p (adm_GroupID r) (adm_AggregateID r)"] w' by simp
qed

lemma attempt_keeps:
  assumes "\<forall>g a m. ag_factoryModel ag cell g a = Inr m \<longrightarrow> mine m" and "mine cell" and "cmd_ok cmd"
    and "attempt ag M others k st cell cmd = (st', m, cmd', out)"
  shows "mine m \<and> cmd_ok cmd' \<and> (\<forall>evs. out = Some (Inr evs) \<longrightarrow> answer evs)"
proof (cases "NewAggregateModel ag M cell (others (2 * k) st)")
  case (Inl e)
  with assms show ?thesis by (auto simp: attempt_def)
next
  case (Inr w)
  note w = loaded_mine [OF assms(1) Inr]
  obtain m1 c1 r1 where hc: "mod_HandleCommand M k (w_model w) cmd (newVersion_of w) = (m1, c1, r1)" by (metis prod_cases3)
  note keeps = command_mine [OF w assms(3) hc]
  have ans: "r1 = Inr evs \<Longrightarrow> answer evs" for evs using command_answer [OF w assms(3)] hc by simp
  from assms(4) Inr hc have "m = m1 \<and> cmd' = c1 \<and> (\<forall>evs. out = Some (Inr evs) \<longrightarrow> r1 = Inr evs)"
    by (auto simp: attempt_def HandleCommandWithAggregateModelWrapper_def Let_def
        split: sum.splits prod.splits if_splits option.splits SaveStatus.splits)
  with keeps ans show ?thesis by auto
qed

text \<open>A command that succeeds leaves such a model and is answered with such events.\<close>

lemma run_keeps:
  assumes factory: "\<forall>cell g a m. mine cell \<longrightarrow> ag_factoryModel ag cell g a = Inr m \<longrightarrow> mine m"
    and "mine cell" and "cmd_ok cmd"
    and "HandleCommand_model ag M others canceled r st cell cmd = Some (st', m', Inr evs)"
  shows "mine m' \<and> answer evs"
proof -
  have "mine cell \<and> cmd_ok cmd \<longrightarrow> mine m' \<and> answer evs"
    using assms(4) unfolding HandleCommand_model_def
  proof (rule HandleCommand_attempts)
    fix k st cell cmd cmd'
    assume "attempt ag M others k st cell cmd = (st', m', cmd', Some (Inr evs))"
    then show "mine cell \<and> cmd_ok cmd \<longrightarrow> mine m' \<and> answer evs"
      using attempt_keeps [of ag cell cmd others k st st' m' cmd' "Some (Inr evs)"] factory by simp
  next
    fix k st cell cmd st1 m cmd'
    assume "attempt ag M others k st cell cmd = (st1, m, cmd', None)"
      and "mine m \<and> cmd_ok cmd' \<longrightarrow> mine m' \<and> answer evs"
    then show "mine cell \<and> cmd_ok cmd \<longrightarrow> mine m' \<and> answer evs"
      using attempt_keeps [of ag cell cmd others k st st1 m cmd' None] factory by simp
  qed
  with assms(2,3) show ?thesis by blast
qed

end

end
