(* ===== verification/RA_Identity.thy ===== *)
theory RA_Identity
  imports RA_Service Aggregate_Invariants
begin

text \<open>
  The identity of the caller in the events of a request: whatever was loaded from the store, and whatever the request
  says, the audit context of every event has the user and the owner of the token. The models of
  resources, links and devices interpret the contract \<open>model_invariant\<close> with it.
\<close>

section \<open>Audit contexts\<close>

fun audit_of :: "any_event \<Rightarrow> AuditContext option" where
  "audit_of (E_ResourceLinksPublished e) = rlp_AuditContext e"
| "audit_of (E_ResourceLinksUnpublished e) = rlu_AuditContext e"
| "audit_of (E_ResourceLinksSnapshotTaken e) = rls_AuditContext e"
| "audit_of (E_ResourceChanged e) = rch_AuditContext e"
| "audit_of (E_ResourceUpdatePending e) = rup_AuditContext e"
| "audit_of (E_ResourceUpdated e) = rud_AuditContext e"
| "audit_of (E_ResourceRetrievePending e) = rrp_AuditContext e"
| "audit_of (E_ResourceRetrieved e) = rrd_AuditContext e"
| "audit_of (E_ResourceDeletePending e) = rdp_AuditContext e"
| "audit_of (E_ResourceDeleted e) = rdd_AuditContext e"
| "audit_of (E_ResourceCreatePending e) = rcp_AuditContext e"
| "audit_of (E_ResourceCreated e) = rcd_AuditContext e"
| "audit_of (E_ResourceStateSnapshotTaken e) = rs_AuditContext e"
| "audit_of (E_DeviceMetadataUpdated e) = dmu_AuditContext e"
| "audit_of (E_DeviceMetadataUpdatePending e) = dup_AuditContext e"
| "audit_of (E_DeviceMetadataSnapshotTaken e) = dmu_AuditContext (dm_updated e)"
| "audit_of (E_ServiceMetadataUpdated e) = smu_AuditContext e"
| "audit_of (E_ServiceMetadataSnapshotTaken e) = nil_or None smu_AuditContext (sms_ServiceMetadataUpdated e)"

definition audited :: "string \<Rightarrow> string \<Rightarrow> any_event \<Rightarrow> bool" where
  "audited userID owner ev \<longleftrightarrow> (\<exists>correlationID. audit_of ev = Some (NewAuditContext userID correlationID owner))"

lemma cancel_loop_audited:
  assumes "\<And>n c cid v c' r. mine c \<Longrightarrow> confirm n c cid v = (c', r) \<Longrightarrow> mine c' \<and> (\<forall>evs. r = Inr evs \<longrightarrow> list_all Q evs)"
  shows "mine c \<Longrightarrow> list_all Q events \<Longrightarrow> cancel_loop pend cid skip confirm v k i arr c events = (c', evs) \<Longrightarrow>
     mine c' \<and> list_all Q evs"
proof (induction k arbitrary: i arr c events)
  case (Suc k)
  show ?case
  proof (cases "skip (cid (arr ! i))")
    case True
    with Suc show ?thesis by (simp add: Let_def)
  next
    case False
    obtain c1 r where cf: "confirm i c (cid (arr ! i)) (v + of_nat (length events)) = (c1, r)" by fastforce
    note step = assms [OF Suc.prems(1) cf]
    show ?thesis
    proof (cases r)
      case (Inl e)
      with Suc.IH [of c1 events "Suc i" "overlay (pend c1) arr"] Suc.prems step cf False show ?thesis by (simp add: Let_def)
    next
      case (Inr ev)
      with Suc.IH [of c1 "events @ ev" "Suc i" "overlay (pend c1) arr"] Suc.prems step cf False show ?thesis by (simp add: Let_def)
    qed
  qed
qed simp

lemma cancel_range_audited:
  assumes "\<And>n c cid v c' r. mine c \<Longrightarrow> confirm n c cid v = (c', r) \<Longrightarrow> mine c' \<and> (\<forall>evs. r = Inr evs \<longrightarrow> list_all Q evs)"
    and "mine c" and "cancel_range pend cid skip confirm v c = (c', evs)"
  shows "mine c' \<and> list_all Q evs"
  by (rule cancel_loop_audited [where mine = mine and Q = Q and confirm = confirm, OF assms(1,2) _ assms(3) [unfolded cancel_range_def]])
    simp_all

section \<open>Resources\<close>

definition state_of :: "string \<Rightarrow> string \<Rightarrow> ResourceStateSnapshotTakenForCommand \<Rightarrow> bool" where
  "state_of userID owner c \<longleftrightarrow> rsc_userID c = userID \<and> rsc_owner c = owner"

lemma state_of_snap [simp]: "state_of u w (c\<lparr>rsc_snap := e\<rparr>) = state_of u w c"
  by (simp add: state_of_def)

lemma on_snap_audited:
  assumes "on_snap c r ev = (c', out)" and "state_of u w c" and "audited u w ev"
  shows "state_of u w c' \<and> (\<forall>evs. out = Inr evs \<longrightarrow> list_all (audited u w) evs)"
  using assms by (auto simp: on_snap_def split: prod.splits sum.splits)

lemma command_ac_of: "state_of u w c \<Longrightarrow> command_ac c cid = NewAuditContext u cid w"
  by (simp add: state_of_def command_ac_def)

named_theorems audit_handlers

lemma error_audited: "(c, Inl e) = (c', out) \<Longrightarrow> state_of u w c \<Longrightarrow>
   state_of u w c' \<and> (\<forall>evs. out = Inr evs \<longrightarrow> list_all (audited u w) evs)"
  by auto

lemma confirms_audited [audit_handlers]:
  assumes "state_of u w c"
  shows "confirmResourceUpdateRequest env n c q v = (c', out) \<Longrightarrow> state_of u w c' \<and> (\<forall>evs. out = Inr evs \<longrightarrow> list_all (audited u w) evs)"
    and "confirmResourceRetrieveRequest env n c rq v = (c', out) \<Longrightarrow> state_of u w c' \<and> (\<forall>evs. out = Inr evs \<longrightarrow> list_all (audited u w) evs)"
    and "confirmResourceDeleteRequest env n c q v = (c', out) \<Longrightarrow> state_of u w c' \<and> (\<forall>evs. out = Inr evs \<longrightarrow> list_all (audited u w) evs)"
    and "confirmResourceCreateRequest env n c q v = (c', out) \<Longrightarrow> state_of u w c' \<and> (\<forall>evs. out = Inr evs \<longrightarrow> list_all (audited u w) evs)"
  unfolding confirmResourceUpdateRequest_def confirmResourceRetrieveRequest_def confirmResourceDeleteRequest_def
    confirmResourceCreateRequest_def
  using assms by (auto simp: Let_def audited_def command_ac_of [OF assms] split: option.splits dest!: on_snap_audited [where u = u and w = w, OF _ assms])

lemma requests_audited [audit_handlers]:
  assumes "state_of u w c"
  shows "handleNotifyResourceChangedRequest env c nq v = (c', out) \<Longrightarrow> state_of u w c' \<and> (\<forall>evs. out = Inr evs \<longrightarrow> list_all (audited u w) evs)"
    and "handleUpdateResourceRequest K env c uq v = (c', out) \<Longrightarrow> state_of u w c' \<and> (\<forall>evs. out = Inr evs \<longrightarrow> list_all (audited u w) evs)"
    and "handleRetrieveResourceRequest env c rq v = (c', out) \<Longrightarrow> state_of u w c' \<and> (\<forall>evs. out = Inr evs \<longrightarrow> list_all (audited u w) evs)"
    and "handleDeleteResourceRequest env c dq v = (c', out) \<Longrightarrow> state_of u w c' \<and> (\<forall>evs. out = Inr evs \<longrightarrow> list_all (audited u w) evs)"
    and "handleCreateResourceRequest K env c cq v = (c', out) \<Longrightarrow> state_of u w c' \<and> (\<forall>evs. out = Inr evs \<longrightarrow> list_all (audited u w) evs)"
  unfolding handleNotifyResourceChangedRequest_def handleUpdateResourceRequest_def handleRetrieveResourceRequest_def
    handleDeleteResourceRequest_def handleCreateResourceRequest_def
  using assms by (auto simp: Let_def audited_def command_ac_of [OF assms] split: option.splits sum.splits prod.splits bool.splits
      dest!: on_snap_audited [where u = u and w = w, OF _ assms])

lemma cancels_audited:
  assumes "state_of u w c"
  shows "cancelResourceCreatePendings S env off c q v = (c', evs) \<Longrightarrow> state_of u w c' \<and> list_all (audited u w) evs"
    and "cancelResourceUpdatePendings S env off c q v = (c', evs) \<Longrightarrow> state_of u w c' \<and> list_all (audited u w) evs"
    and "cancelResourceRetrievePendings S env off c q v = (c', evs) \<Longrightarrow> state_of u w c' \<and> list_all (audited u w) evs"
    and "cancelResourceDeletePendings S env off c q v = (c', evs) \<Longrightarrow> state_of u w c' \<and> list_all (audited u w) evs"
  unfolding cancelResourceCreatePendings_def cancelResourceUpdatePendings_def cancelResourceRetrievePendings_def
    cancelResourceDeletePendings_def
  by (erule cancel_range_audited [rotated 2], (erule audit_handlers, assumption), rule assms)+

lemma CancelPendingCommands_audited [audit_handlers]:
  assumes "state_of u w c" and "CancelPendingCommands S env c q v = (c', out)"
  shows "state_of u w c' \<and> (\<forall>evs. out = Inr evs \<longrightarrow> list_all (audited u w) evs)"
proof (cases "cpc_CommandMetadata q")
  case None
  with assms show ?thesis by (auto simp: CancelPendingCommands_def)
next
  case (Some cm)
  obtain c1 e1 where s1: "cancelResourceCreatePendings S env 0 c q v = (c1, e1)" by fastforce
  let ?n0 = "length (rsc_create_pendings c)"
  obtain c2 e2 where s2: "cancelResourceUpdatePendings S env ?n0 c1 q (v + of_nat (length e1)) = (c2, e2)" by fastforce
  let ?n1 = "?n0 + length (rsc_update_pendings c1)"
  obtain c3 e3 where s3: "cancelResourceRetrievePendings S env ?n1 c2 q (v + of_nat (length (e1 @ e2))) = (c3, e3)" by fastforce
  obtain c4 e4 where s4: "cancelResourceDeletePendings S env (?n1 + length (rsc_retrieve_pendings c2)) c3 q
      (v + of_nat (length (e1 @ e2 @ e3))) = (c4, e4)" by fastforce
  note a1 = cancels_audited(1) [OF assms(1) s1]
  note a2 = cancels_audited(2) [OF conjunct1 [OF a1] s2]
  note a3 = cancels_audited(3) [OF conjunct1 [OF a2] s3]
  note a4 = cancels_audited(4) [OF conjunct1 [OF a3] s4]
  show ?thesis
    using assms(2) Some s1 s2 s3 s4 a1 a2 a3 a4
    by (auto simp: CancelPendingCommands_def Let_def split: if_splits)
qed

lemma resource_command_audited:
  assumes "state_of u w c" and "ResourceState_HandleCommand K S env c cmd v = (c', out)"
  shows "state_of u w c' \<and> (\<forall>evs. out = Inr evs \<longrightarrow> list_all (audited u w) evs)"
proof (cases "validateCommandForNotExistingResource S (rsc_snap c) cmd")
  case False
  with assms show ?thesis by (auto simp: ResourceState_HandleCommand_def)
next
  case True
  with assms show ?thesis
    by (cases cmd) (auto simp: ResourceState_HandleCommand_def dest: audit_handlers)
qed

definition resource_of :: "string \<Rightarrow> string \<Rightarrow> resourceStateModel \<Rightarrow> bool" where
  "resource_of u w m \<longleftrightarrow>
     (case m of RM_State c \<Rightarrow> state_of u w c | RM_Links l \<Rightarrow> rlc_userID l = u \<and> rlc_owner l = w)"

interpretation resource_identity: model_invariant "resource_model R X" "resource_of u w" "\<lambda>_. True" "list_all (audited u w)"
proof (standard, goal_cases)
  case (1 m n e)
  then show ?case by (cases m) (auto simp: resource_model_def resource_of_def split: prod.splits)
next
  case (2 m m' a)
  then show ?case by (cases m; cases m') (auto simp: resource_model_def resource_of_def state_of_def)
next
  case (3 m cmd k v m' cmd' r)
  show ?case
  proof (cases m)
    case (RM_State c)
    obtain c' out where hc: "ResourceState_HandleCommand (ra_codec R) (ra_kit R) (rx_command X k) c cmd v = (c', out)" by fastforce
    from 3 RM_State have "state_of u w c" by (simp add: resource_of_def)
    from resource_command_audited [OF this hc] 3 RM_State hc show ?thesis by (auto simp: resource_model_def resource_of_def)
  qed (use 3 in \<open>auto simp: resource_model_def resource_of_def ResourceLinks_HandleCommand_def\<close>)
next
  case (4 m cmd k v m' cmd' evs)
  show ?case
  proof (cases m)
    case (RM_State c)
    obtain c' out where hc: "ResourceState_HandleCommand (ra_codec R) (ra_kit R) (rx_command X k) c cmd v = (c', out)" by fastforce
    from 4 RM_State have "state_of u w c" by (simp add: resource_of_def)
    from resource_command_audited [OF this hc] 4 RM_State hc show ?thesis by (auto simp: resource_model_def)
  qed (use 4 in \<open>auto simp: resource_model_def resource_of_def ResourceLinks_HandleCommand_def\<close>)
qed

section \<open>Links\<close>

definition links_of_caller :: "string \<Rightarrow> string \<Rightarrow> ResourceLinksSnapshotTakenForCommand \<Rightarrow> bool" where
  "links_of_caller u w l \<longleftrightarrow> rlc_userID l = u \<and> rlc_owner l = w"

lemma links_command_audited:
  assumes "links_of_caller u w l" and "ResourceLinks_HandleCommand ord env l cmd v = (l', out)"
  shows "links_of_caller u w l' \<and> (\<forall>evs. out = Inr evs \<longrightarrow> list_all (audited u w) evs)"
  using assms
  by (cases cmd) (auto simp: ResourceLinks_HandleCommand_def links_of_caller_def audited_def Let_def
      split: option.splits prod.splits if_splits)

interpretation links_identity: model_invariant "links_model R X" "links_of_caller u w" "\<lambda>_. True" "list_all (audited u w)"
proof (standard, goal_cases)
  case (1 m n e)
  then show ?case by (auto simp: links_model_def links_of_caller_def split: prod.splits)
next
  case (2 m m' a)
  then show ?case by (simp add: links_model_def)
next
  case (3 m cmd k v m' cmd' r)
  then show ?case by (auto simp: links_model_def split: prod.splits dest: links_command_audited)
next
  case (4 m cmd k v m' cmd' evs)
  then show ?case by (auto simp: links_model_def split: prod.splits dest: links_command_audited)
qed

section \<open>Device metadata\<close>

definition device_of :: "string \<Rightarrow> string \<Rightarrow> DeviceMetadataSnapshotTakenForCommand \<Rightarrow> bool" where
  "device_of u w c \<longleftrightarrow> dmc_userID c = u \<and> dmc_owner c = w"

definition of_request :: "dm_command \<Rightarrow> bool" where
  "of_request cmd \<longleftrightarrow> (case cmd of UpdateDeviceToOffline _ \<Rightarrow> False | _ \<Rightarrow> True)"

text \<open>Every outcome of a handler has the audit context it was given.\<close>

definition outcome_with :: "AuditContext \<Rightarrow> any_event list res \<Rightarrow> bool" where
  "outcome_with ac r \<longleftrightarrow> (\<forall>evs. r = Inr evs \<longrightarrow> (\<forall>ev\<in>set evs. audit_of ev = Some ac))"

lemma outcome_with_simps [simp]: "outcome_with ac (Inl e)" "outcome_with ac (Inr [])"
  by (simp_all add: outcome_with_def)

lemma emit_updated_outcome: "dmu_AuditContext ev = Some ac \<Longrightarrow> outcome_with ac (snd (emit_updated r ev))"
  by (auto simp: emit_updated_def outcome_with_def split: prod.splits sum.splits bool.splits)

lemma accept_pending_outcome: "outcome_with ac (snd (accept_pending env d uq upd em ac))"
  by (simp add: accept_pending_def Let_def outcome_with_def split: prod.splits sum.splits)

lemma connection_outcome: "outcome_with ac (snd (snd (updateDeviceConnection env d dev conn cm em ac)))"
  unfolding updateDeviceConnection_def Let_def
  by (simp add: case_prod_unfold emit_updated_outcome split: sum.splits)

lemma twin_outcome: "outcome_with ac (snd (snd (updateDeviceTwinSynchronization env d dev ts cm em ac)))"
  unfolding updateDeviceTwinSynchronization_def Let_def
  by (simp add: case_prod_unfold emit_updated_outcome split: sum.splits bool.splits)

lemma device_outcomes:
  "outcome_with ac (snd (cancelDeviceMetadataUpdate env d cq em ac))"
  "outcome_with ac (snd (updateTwinEnabled env d cq b em ac))"
  "outcome_with ac (snd (updateTwinForceSynchronization env d cq b em ac))"
  "outcome_with ac (snd (updateDeviceTwinEnabled env d uq b em ac))"
  "outcome_with ac (snd (updateDeviceTwinForceSynchronization env d uq b em ac))"
  unfolding cancelDeviceMetadataUpdate_def updateTwinEnabled_def updateTwinForceSynchronization_def
    updateDeviceTwinEnabled_def updateDeviceTwinForceSynchronization_def Let_def
  by (simp_all add: emit_updated_outcome accept_pending_outcome)

lemma outcome_audited: "outcome_with (NewAuditContext u cid w) r \<Longrightarrow> r = Inr evs \<Longrightarrow> list_all (audited u w) evs"
  by (auto simp: outcome_with_def audited_def list_all_iff)


lemma ConfirmDeviceMetadataUpdate_audited:
  assumes "device_of u w c" and "ConfirmDeviceMetadataUpdate env n c req v cancel = (c', out)"
  shows "device_of u w c' \<and> (\<forall>evs. out = Inr evs \<longrightarrow> list_all (audited u w) evs)"
proof -
  have "device_of u w c' \<and> outcome_with (NewAuditContext u (cdm_CorrelationId req) w) out"
    using assms
    by (auto simp: ConfirmDeviceMetadataUpdate_def on_device_def device_of_def Let_def device_outcomes
        split: option.splits if_splits Device_Confirm.splits)
  then show ?thesis by (auto intro: outcome_audited)
qed

lemma updateDeviceMetadataRequest_audited:
  assumes "device_of u w c" and "updateDeviceMetadataRequest env c req v = (c', req', out)"
  shows "device_of u w c' \<and> (\<forall>evs. out = Inr evs \<longrightarrow> list_all (audited u w) evs)"
proof -
  have "device_of u w c' \<and> outcome_with (NewAuditContext u (udm_CorrelationId req) w) out"
    using assms
    by (auto simp: updateDeviceMetadataRequest_def on_device_def device_of_def Let_def case_prod_unfold device_outcomes
        connection_outcome twin_outcome split: option.splits Device_Update.splits)
  then show ?thesis by (auto intro: outcome_audited)
qed

lemma device_command_audited:
  assumes "device_of u w c" and "of_request cmd" and "DeviceMetadata_HandleCommand S env c cmd v = (c', cmd', out)"
  shows "device_of u w c' \<and> of_request cmd' \<and> (\<forall>evs. out = Inr evs \<longrightarrow> list_all (audited u w) evs)"
proof (cases cmd)
  case (UpdateDeviceMetadata req)
  with assms updateDeviceMetadataRequest_audited [OF assms(1)] show ?thesis
    by (auto simp: DeviceMetadata_HandleCommand_def of_request_def split: prod.splits)
next
  case (ConfirmDeviceMetadata req)
  with assms ConfirmDeviceMetadataUpdate_audited [OF assms(1)] show ?thesis
    by (auto simp: DeviceMetadata_HandleCommand_def of_request_def split: prod.splits)
next
  case (CancelPendingMetadata req)
  obtain c1 out1 where cn: "CancelPendingMetadataUpdates S env c req v = (c1, out1)" by fastforce
  have "device_of u w c1 \<and> (\<forall>evs. out1 = Inr evs \<longrightarrow> list_all (audited u w) evs)"
  proof (cases "cpm_CommandMetadata req")
    case None
    with cn assms(1) show ?thesis by (auto simp: CancelPendingMetadataUpdates_def)
  next
    case (Some cm)
    obtain c2 evs where cr: "cancel_range dmc_pendings dup_cid (filtered_out S (cpm_CorrelationIdFilter req))
        (\<lambda>i c' cid v. ConfirmDeviceMetadataUpdate env i c' (cancel_metadata_request req cid) v True) v c = (c2, evs)" by fastforce
    have "device_of u w c2 \<and> list_all (audited u w) evs"
      by (rule cancel_range_audited [where mine = "device_of u w", OF _ assms(1) cr]) (rule ConfirmDeviceMetadataUpdate_audited)
    with cn cr Some show ?thesis by (auto simp: CancelPendingMetadataUpdates_def split: if_splits)
  qed
  with cn CancelPendingMetadata assms(2,3) show ?thesis
    by (auto simp: DeviceMetadata_HandleCommand_def of_request_def)
qed (use assms in \<open>auto simp: DeviceMetadata_HandleCommand_def of_request_def\<close>)

interpretation device_identity: model_invariant "device_model R X" "device_of u w" of_request "list_all (audited u w)"
proof (standard, goal_cases)
  case (1 m n e)
  then show ?case by (auto simp: device_model_def device_of_def split: prod.splits)
next
  case (2 m m' a)
  then show ?case by (simp add: device_model_def)
next
  case (3 m cmd k v m' cmd' r)
  then show ?case by (auto simp: device_model_def dest: device_command_audited)
next
  case (4 m cmd k v m' cmd' evs)
  then show ?case by (auto simp: device_model_def dest: device_command_audited)
qed

end
