(* ===== verification/RA_Service_Properties.thy ===== *)
theory RA_Service_Properties
  imports RA_Identity
begin

text \<open>
  What the resource aggregate service promises to its callers: it always answers, it acts only on devices of the
  owner of the token, it rejects malformed requests without a trace, and what it publishes goes to the subjects
  of that owner with the identity of the caller.
\<close>

section \<open>Devices of a request\<close>

fun request_device :: "ra_request \<Rightarrow> string option" where
  "request_device (Req_PublishResourceLinks r) = Some (plr_DeviceId r)"
| "request_device (Req_UnpublishResourceLinks r) = Some (ulr_DeviceId r)"
| "request_device (Req_NotifyResourceChanged r) = Some (GetDeviceId (nrq_ResourceId r))"
| "request_device (Req_UpdateResource r) = Some (GetDeviceId (urq_ResourceId r))"
| "request_device (Req_ConfirmResourceUpdate r) = Some (GetDeviceId (cfm_ResourceId r))"
| "request_device (Req_RetrieveResource r) = Some (GetDeviceId (rrq_ResourceId r))"
| "request_device (Req_ConfirmResourceRetrieve r) = Some (GetDeviceId (cfm_ResourceId r))"
| "request_device (Req_DeleteResource r) = Some (GetDeviceId (drq_ResourceId r))"
| "request_device (Req_ConfirmResourceDelete r) = Some (GetDeviceId (cfm_ResourceId r))"
| "request_device (Req_CreateResource r) = Some (GetDeviceId (crq_ResourceId r))"
| "request_device (Req_ConfirmResourceCreate r) = Some (GetDeviceId (cfm_ResourceId r))"
| "request_device (Req_CancelPendingCommands r) = Some (GetDeviceId (cpc_ResourceId r))"
| "request_device (Req_UpdateDeviceMetadata r) = Some (udm_DeviceId r)"
| "request_device (Req_ConfirmDeviceMetadataUpdate r) = Some (cdm_DeviceId r)"
| "request_device (Req_CancelPendingMetadataUpdates r) = Some (cpm_DeviceId r)"
| "request_device (Req_BatchNotifyResourceChanged _) = None"
| "request_device (Req_DeleteDevices _) = None"

fun request_devices :: "ra_request \<Rightarrow> string list" where
  "request_devices (Req_BatchNotifyResourceChanged batch) = map (\<lambda>r. GetDeviceId (nrq_ResourceId r)) batch"
| "request_devices req = (case request_device req of None \<Rightarrow> [] | Some dev \<Rightarrow> [dev])"

lemmas handler_defs_ra =
  rh_PublishResourceLinks_def unpublish_links_def rh_UpdateResource_def rh_ConfirmResourceUpdate_def rh_RetrieveResource_def
  rh_ConfirmResourceRetrieve_def rh_DeleteResource_def rh_ConfirmResourceDelete_def rh_CreateResource_def rh_ConfirmResourceCreate_def
  rh_CancelPendingCommands_def rh_UpdateDeviceMetadata_def updateDeviceMetadata_def rh_ConfirmDeviceMetadataUpdate_def
  rh_CancelPendingMetadataUpdates_def

section \<open>No access\<close>

text \<open>The owner of the token, if it has one, does not have the device.\<close>

definition denied :: "('st, 'v) ra_env \<Rightarrow> 'st ra_run \<Rightarrow> string \<Rightarrow> bool" where
  "denied R X dev \<longleftrightarrow>
     (\<forall>owner. OwnerFromTokenMD (ra_auth R) (ra_OwnerClaim R) = Inr owner \<longrightarrow> (\<nexists>id. rx_getOwnerDevices X owner [dev] = Inr [id]))"

lemma denied_owner:
  assumes "denied R X dev" and "OwnerFromTokenMD (ra_auth R) (ra_OwnerClaim R) = Inr owner"
  shows "\<exists>err. validateAccessToDeviceWithOwner X dev owner = Inl err"
  using assms
  by (auto simp: denied_def validateAccessToDeviceWithOwner_def isUserDevice_def length_Suc_conv split: sum.splits)

lemma denied_access: "denied R X dev \<Longrightarrow> \<exists>err. validateAccessToDevice R X dev = Inl err"
  using denied_owner [of R X dev] by (fastforce simp: validateAccessToDevice_def split: sum.splits)

lemma batch_denied:
  assumes "OwnerFromTokenMD (ra_auth R) (ra_OwnerClaim R) = Inr owner"
  shows "\<forall>k. \<forall>r\<in>set batch. denied R (Xs k) (GetDeviceId (nrq_ResourceId r)) \<Longrightarrow>
     \<exists>errs. batch_notify R Xs n userID owner batch s = Some (s, errs) \<and> length errs = length batch"
proof (induction batch arbitrary: n)
  case (Cons r batch)
  then obtain err where "validateAccessToDeviceWithOwner (Xs n) (GetDeviceId (nrq_ResourceId r)) owner = Inl err"
    using denied_owner [OF _ assms] by (metis list.set_intros(1))
  moreover obtain errs where "batch_notify R Xs (Suc n) userID owner batch s = Some (s, errs)" and "length errs = length batch"
    using Cons.IH [of "Suc n"] Cons.prems by auto
  ultimately show ?case
    by (intro exI [of _ "Wrapf ''cannot notify resource changed %v'' err # errs"]) (simp add: Let_def)
qed simp


section \<open>Every request is answered\<close>

lemma resource_aggregate_ag:
  assumes "NewResourceAggregate R X rid f M cell b = Inr a"
  shows "ag_retryFunc (sa_ag a) = NewDefaultRetryFunc (rx_now X) (ra_ConcurrencyExceptionMaxRetry R)"
    and "sa_DeviceID a = GetDeviceId rid" and "ag_factoryModel (sa_ag a) = f" and "sa_model a = M" and "sa_cell a = cell"
  using assms by (auto simp: NewResourceAggregate_def NewAggregate_def Let_def split: sum.splits if_splits)

lemma RA_HandleCommand_returns:
  assumes "NewResourceAggregate R X rid f M cell b = Inr a"
  shows "\<exists>st' m r. RA_HandleCommand R X a cmd st = Some (st', m, r)"
proof -
  obtain st1 m r where "HandleCommand_model (sa_ag a) (sa_model a) (rx_others X) (rx_canceled X) 0 st (sa_cell a) cmd = Some (st1, m, r)"
    using HandleCommand_model_returns [OF resource_aggregate_ag(1) [OF assms], of "sa_model a" "rx_others X" "rx_canceled X" 0 st
        "sa_cell a" cmd] by blast
  then show ?thesis by (cases r) (auto simp: RA_HandleCommand_def)
qed

lemmas aggregate_defs = resource_aggregate_def links_aggregate_def device_aggregate_def RA_NewAggregate_def

lemma checked_returns: "r \<noteq> None \<Longrightarrow> checked_command v f g cell st r \<noteq> None"
  by (auto simp: checked_command_def split: sum.splits prod.splits)

lemmas method_defs =
  ag_PublishResourceLinks_def ag_UnpublishResourceLinks_def ag_NotifyResourceChanged_def ag_UpdateResource_def
  ag_ConfirmResourceUpdate_def ag_RetrieveResource_def ag_ConfirmResourceRetrieve_def ag_DeleteResource_def
  ag_ConfirmResourceDelete_def ag_CreateResource_def ag_ConfirmResourceCreate_def ag_CancelResourceCommand_def
  ag_UpdateDeviceMetadata_def ag_ConfirmDeviceMetadataUpdate_def ag_CancelPendingMetadataUpdates_def

lemma with_access_returns: "(\<And>u w. h u w \<noteq> None) \<Longrightarrow> with_access R X dev s h \<noteq> None"
  by (auto simp: with_access_def split: sum.splits)

lemma with_aggregate_returns: "(\<And>a. ag = Inr a \<Longrightarrow> h a \<noteq> None) \<Longrightarrow> with_aggregate ag f s h \<noteq> None"
  by (auto simp: with_aggregate_def split: sum.splits)

lemma with_events_returns: "r \<noteq> None \<Longrightarrow> with_events r f pub h \<noteq> None"
  by (simp add: with_events_def split: option.split prod.split sum.split) (metis surj_pair)

lemma run_returns:
  assumes "NewResourceAggregate R X rid f M cell b = Inr a"
  shows "checked_command v g g' cell' st (RA_HandleCommand R X a cmd st) \<noteq> None"
  using RA_HandleCommand_returns [OF assms] by (intro checked_returns) blast

lemmas returns = with_access_returns with_aggregate_returns with_events_returns run_returns

lemma notify_returns: "notifyResourceChanged R X request u w s \<noteq> None"
  unfolding notifyResourceChanged_def aggregate_defs method_defs by (intro returns)

lemma rh_notify_returns: "rh_NotifyResourceChanged R X request s \<noteq> None"
  unfolding rh_NotifyResourceChanged_def
proof (rule with_access_returns)
  fix u w
  obtain s' r where "notifyResourceChanged R X request u w s = Some (s', r)" using notify_returns by (metis not_None_eq surj_pair)
  then show "(case notifyResourceChanged R X request u w s of None \<Rightarrow> None | Some (s', Inl err) \<Rightarrow> Some (s', Inl err)
      | Some (s', Inr _) \<Rightarrow> Some (s', Inr (AuditResponse (NewAuditContext u [] w)))) \<noteq> None"
    by (cases r) auto
qed

lemma reset_returns: "reset_contents R Xs n dev cm hrefs s \<noteq> None"
proof (induction hrefs arbitrary: n s)
  case (Cons href hrefs)
  obtain s' r where "rh_NotifyResourceChanged R (Xs n) (reset_content dev href cm) s = Some (s', r)"
    using rh_notify_returns by (metis not_None_eq surj_pair)
  with Cons show ?case by simp
qed simp

lemma batch_returns: "batch_notify R Xs n u w batch s \<noteq> None"
proof (induction batch arbitrary: n s)
  case (Cons r batch)
  obtain s' res where no: "notifyResourceChanged R (Xs n) r u w s = Some (s', res)" using notify_returns by (metis not_None_eq surj_pair)
  show ?case
  proof (cases "validateAccessToDeviceWithOwner (Xs n) (GetDeviceId (nrq_ResourceId r)) w")
    case (Inl e)
    with Cons.IH [of "Suc n" s] show ?thesis by (auto simp: Let_def)
  next
    case (Inr x)
    with no Cons.IH [of "Suc n" s'] show ?thesis by (cases res) (auto simp: Let_def)
  qed
qed simp

lemma command_handlers_return:
  "rh_PublishResourceLinks R X plr s \<noteq> None" "unpublish_links R X ulr s \<noteq> None"
  "rh_UpdateResource R X urq s \<noteq> None" "rh_ConfirmResourceUpdate R X cfm s \<noteq> None"
  "rh_RetrieveResource R X rrq s \<noteq> None" "rh_ConfirmResourceRetrieve R X crr s \<noteq> None"
  "rh_DeleteResource R X drq s \<noteq> None" "rh_ConfirmResourceDelete R X cfm s \<noteq> None"
  "rh_CreateResource R X crq s \<noteq> None" "rh_ConfirmResourceCreate R X cfm s \<noteq> None"
  "rh_CancelPendingCommands R X cpc s \<noteq> None" "rh_UpdateDeviceMetadata R X udm s \<noteq> None"
  "rh_ConfirmDeviceMetadataUpdate R X cdm s \<noteq> None" "rh_CancelPendingMetadataUpdates R X cpm s \<noteq> None"
  unfolding handler_defs_ra aggregate_defs method_defs Let_def by (intro returns, assumption)+

lemma serve_returns: "serve R Xs req s \<noteq> None"
proof (cases req)
  case (Req_UnpublishResourceLinks r)
  obtain s1 res where "unpublish_links R (Xs 0) r s = Some (s1, res)" using command_handlers_return(2) by (metis not_None_eq surj_pair)
  moreover have "\<exists>s2. reset_contents R Xs 1 (ulr_DeviceId r) (ulr_CommandMetadata r) (GetUnpublishedHrefs resp) s1 = Some s2" for resp
    using reset_returns by fast
  ultimately show ?thesis using Req_UnpublishResourceLinks
    by (cases res) (simp_all add: serve_def rh_UnpublishResourceLinks_def)
next
  case (Req_BatchNotifyResourceChanged batch)
  then show ?thesis
    using batch_returns [of R Xs 0 _ _ batch s]
    by (simp add: serve_def rh_BatchNotifyResourceChanged_def split: sum.split option.split prod.split) (metis option.distinct(1))
next
  case (Req_DeleteDevices ids)
  then show ?thesis by (auto simp: serve_def rh_DeleteDevices_def Let_def split: sum.splits prod.splits)
next
  case (Req_NotifyResourceChanged r)
  then show ?thesis using rh_notify_returns [of R "Xs 0" r s] by (auto simp: serve_def)
qed (simp_all only: serve_def ra_request.case command_handlers_return not_False_eq_True)


section \<open>Where events go\<close>

text \<open>A message on a device for the owner of the token, with an event that has the identity of the token.\<close>

definition message_of :: "('st, 'v) ra_env \<Rightarrow> string \<Rightarrow> string \<Rightarrow> string \<Rightarrow> ra_message \<Rightarrow> bool" where
  "message_of R userID owner dev m \<longleftrightarrow>
     pm_topics m = GetPublishSubject (ra_subjects R) (ra_leadResourceType R) owner (pm_event m) \<and>
     pm_groupID m = dev \<and> audited userID owner (pm_event m)"

definition ra_publishes :: "('st, 'v) ra_env \<Rightarrow> string \<Rightarrow> string \<Rightarrow> string \<Rightarrow> 'st ra_state \<Rightarrow> ('st, 'a) ra_result \<Rightarrow> bool" where
  "ra_publishes R userID owner dev s out \<longleftrightarrow>
     (\<forall>s' r. out = Some (s', r) \<longrightarrow> (\<exists>new. snd s' = snd s @ new \<and> list_all (message_of R userID owner dev) new))"

lemma publish_events:
  "list_all (audited u w) events \<Longrightarrow>
     \<exists>new. PublishEvents R w dev rid events pub = pub @ new \<and> list_all (message_of R u w dev) new"
  by (auto simp: PublishEvents_def message_of_def list_all_iff)

lemma publishes_aggregate:
  "(\<And>a. ag = Inr a \<Longrightarrow> ra_publishes R u w dev s (h a)) \<Longrightarrow> ra_publishes R u w dev s (with_aggregate ag f s h)"
  by (auto simp: with_aggregate_def ra_publishes_def split: sum.splits)

lemma publishes_events:
  assumes "\<And>st m events. r = Some (st, m, Inr events) \<Longrightarrow> list_all (audited u w) events"
    and "\<And>st m events. snd (fst (h st m events)) \<in> {PublishEvents R w dev rid events (snd s), snd s}"
  shows "ra_publishes R u w dev s (with_events r f (snd s) h)"
proof (cases r)
  case (Some x)
  obtain st m out where x: "x = (st, m, out)" by (metis prod_cases3)
  show ?thesis
  proof (cases out)
    case (Inl e)
    with Some x show ?thesis by (simp add: with_events_def ra_publishes_def)
  next
    case (Inr events)
    with assms Some x have "list_all (audited u w) events" by simp
    from publish_events [OF this, of R dev rid "snd s"] assms(2) [of st m events] Some x Inr show ?thesis
      by (cases "h st m events") (auto simp: with_events_def ra_publishes_def)
  qed
qed (simp add: with_events_def ra_publishes_def)

lemma checked_ok:
  "checked_command v f g cell st r = Some (st', m, Inr events) \<Longrightarrow> v = Inr () \<and> r = Some (st', m, Inr events)"
  by (auto simp: checked_command_def split: sum.splits option.splits prod.splits)

lemma RA_HandleCommand_ok:
  "RA_HandleCommand R X a cmd st = Some (st', m, Inr events) \<Longrightarrow>
     \<exists>st1. HandleCommand_model (sa_ag a) (sa_model a) (rx_others X) (rx_canceled X) 0 st (sa_cell a) cmd = Some (st1, m, Inr events)"
  by (auto simp: RA_HandleCommand_def split: option.splits sum.splits prod.splits)

text \<open>The factories hand out models of the caller.\<close>

lemma resource_factory:
  assumes "resource_aggregate R X rid u w b = Inr a"
  shows "resource_of u w (newResourceStateModel u w (ra_HubID R))"
    and "\<forall>cell g id m. resource_of u w cell \<longrightarrow> ag_factoryModel (sa_ag a) cell g id = Inr m \<longrightarrow> resource_of u w m"
proof -
  note ag = resource_aggregate_ag [OF assms [unfolded resource_aggregate_def]]
  show "resource_of u w (newResourceStateModel u w (ra_HubID R))"
    by (simp add: newResourceStateModel_def resource_of_def state_of_def NewResourceStateSnapshotTakenForCommand_def Let_def)
  show "\<forall>cell g id m. resource_of u w cell \<longrightarrow> ag_factoryModel (sa_ag a) cell g id = Inr m \<longrightarrow> resource_of u w m"
    unfolding ag(3) by (auto simp: resourceStateModel_model_def resource_of_def state_of_def links_of_state_def Let_def
        split: resourceStateModel.splits if_splits)
qed

lemma resource_run_audited:
  assumes "resource_aggregate R X rid u w b = Inr a" and "RA_HandleCommand R X a cmd st = Some (st', m, Inr events)"
  shows "list_all (audited u w) events"
proof -
  note ag = resource_aggregate_ag [OF assms(1) [unfolded resource_aggregate_def]]
  show ?thesis
    using RA_HandleCommand_ok [OF assms(2)] resource_factory [OF assms(1)] resource_identity.run_keeps [of u w "sa_ag a"]
    unfolding ag(4,5) by blast
qed

lemma links_run_audited:
  assumes "links_aggregate R X dev u w = Inr a" and "RA_HandleCommand R X a cmd st = Some (st', m, Inr events)"
  shows "list_all (audited u w) events"
proof -
  note ag = resource_aggregate_ag [OF assms(1) [unfolded links_aggregate_def RA_NewAggregate_def]]
  have "links_of_caller u w (NewResourceLinksSnapshotTakenForCommand u w (ra_HubID R))"
    by (simp add: links_of_caller_def NewResourceLinksSnapshotTakenForCommand_def)
  moreover from this have "\<forall>cell g id m. links_of_caller u w cell \<longrightarrow> ag_factoryModel (sa_ag a) cell g id = Inr m \<longrightarrow> links_of_caller u w m"
    unfolding ag(3) by (simp add: NewResourceLinksFactoryModel_def)
  ultimately show ?thesis
    using RA_HandleCommand_ok [OF assms(2)] links_identity.run_keeps [of u w "sa_ag a"] unfolding ag(4,5) by blast
qed

lemma device_run_audited:
  assumes "device_aggregate R X dev u w = Inr a" and "of_request cmd"
    and "RA_HandleCommand R X a cmd st = Some (st', m, Inr events)"
  shows "list_all (audited u w) events"
proof -
  note ag = resource_aggregate_ag [OF assms(1) [unfolded device_aggregate_def RA_NewAggregate_def]]
  have "device_of u w (NewDeviceMetadataSnapshotTakenForCommand u w (ra_HubID R))"
    by (simp add: device_of_def NewDeviceMetadataSnapshotTakenForCommand_def)
  moreover from this have "\<forall>cell g id m. device_of u w cell \<longrightarrow> ag_factoryModel (sa_ag a) cell g id = Inr m \<longrightarrow> device_of u w m"
    unfolding ag(3) by (simp add: NewDeviceMetadataFactoryModel_def)
  ultimately show ?thesis
    using RA_HandleCommand_ok [OF assms(3)] assms(2) device_identity.run_keeps [of u w "sa_ag a"] unfolding ag(4,5) by blast
qed

lemma aggregate_device:
  "resource_aggregate R X rid u w b = Inr a \<Longrightarrow> sa_DeviceID a = GetDeviceId rid"
  "links_aggregate R X dev u w = Inr la \<Longrightarrow> sa_DeviceID la = dev"
  "device_aggregate R X dev u w = Inr da \<Longrightarrow> sa_DeviceID da = dev"
  by (simp_all add: aggregate_defs NewResourceID_def resource_aggregate_ag(2))

lemma resource_publishes:
  assumes "\<And>a st m events. snd (fst (h a st m events)) \<in> {PublishEvents R w (sa_DeviceID a) (sa_ResourceID a) events (snd s), snd s}"
  shows "ra_publishes R u w (GetDeviceId rid) s (with_aggregate (resource_aggregate R X rid u w b) f s
     (\<lambda>a. with_events (checked_command (v a) g g' (cell a) st0 (RA_HandleCommand R X a (cmd a) st0)) f' (snd s) (h a)))"
proof (rule publishes_aggregate, rule publishes_events [where rid = "sa_ResourceID a" for a])
  fix a st m events
  assume a: "resource_aggregate R X rid u w b = Inr a"
  show "list_all (audited u w) events"
    if "checked_command (v a) g g' (cell a) st0 (RA_HandleCommand R X a (cmd a) st0) = Some (st, m, Inr events)"
    using checked_ok [OF that] resource_run_audited [OF a] by blast
  show "snd (fst (h a st m events)) \<in> {PublishEvents R w (GetDeviceId rid) (sa_ResourceID a) events (snd s), snd s}"
    using assms [of a st m events] aggregate_device(1) [OF a] by simp
qed

lemma links_publishes:
  assumes "\<And>a st m events. snd (fst (h a st m events)) \<in> {PublishEvents R w (sa_DeviceID a) (sa_ResourceID a) events (snd s), snd s}"
  shows "ra_publishes R u w dev s (with_aggregate (links_aggregate R X dev u w) f s
     (\<lambda>a. with_events (checked_command (v a) g g' (cell a) st0 (RA_HandleCommand R X a (cmd a) st0)) f' (snd s) (h a)))"
proof (rule publishes_aggregate, rule publishes_events [where rid = "sa_ResourceID a" for a])
  fix a st m events
  assume a: "links_aggregate R X dev u w = Inr a"
  show "list_all (audited u w) events"
    if "checked_command (v a) g g' (cell a) st0 (RA_HandleCommand R X a (cmd a) st0) = Some (st, m, Inr events)"
    using checked_ok [OF that] links_run_audited [OF a] by blast
  show "snd (fst (h a st m events)) \<in> {PublishEvents R w dev (sa_ResourceID a) events (snd s), snd s}"
    using assms [of a st m events] aggregate_device(2) [OF a] by simp
qed

lemma device_publishes:
  assumes "\<And>a st m events. snd (fst (h a st m events)) \<in> {PublishEvents R w (sa_DeviceID a) (sa_ResourceID a) events (snd s), snd s}"
    and "\<And>a. of_request (cmd a)"
  shows "ra_publishes R u w dev s (with_aggregate (device_aggregate R X dev u w) f s
     (\<lambda>a. with_events (checked_command (v a) g g' (cell a) st0 (RA_HandleCommand R X a (cmd a) st0)) f' (snd s) (h a)))"
proof (rule publishes_aggregate, rule publishes_events [where rid = "sa_ResourceID a" for a])
  fix a st m events
  assume a: "device_aggregate R X dev u w = Inr a"
  show "list_all (audited u w) events"
    if "checked_command (v a) g g' (cell a) st0 (RA_HandleCommand R X a (cmd a) st0) = Some (st, m, Inr events)"
    using checked_ok [OF that] device_run_audited [OF a assms(2)] by blast
  show "snd (fst (h a st m events)) \<in> {PublishEvents R w dev (sa_ResourceID a) events (snd s), snd s}"
    using assms(1) [of a st m events] aggregate_device(3) [OF a] by simp
qed

text \<open>The messages of a request: the caller and the device are those that passed the check of access.\<close>

definition legit :: "('st, 'v) ra_env \<Rightarrow> (nat \<Rightarrow> 'st ra_run) \<Rightarrow> ra_message \<Rightarrow> bool" where
  "legit R Xs m \<longleftrightarrow> (\<exists>k userID owner id.
     SubjectFromTokenMD (ra_auth R) = Inr userID \<and> OwnerFromTokenMD (ra_auth R) (ra_OwnerClaim R) = Inr owner \<and>
     rx_getOwnerDevices (Xs k) owner [pm_groupID m] = Inr [id] \<and> message_of R userID owner (pm_groupID m) m)"

definition sends :: "('st, 'v) ra_env \<Rightarrow> (nat \<Rightarrow> 'st ra_run) \<Rightarrow> string list \<Rightarrow> 'st ra_state \<Rightarrow> 'st ra_state \<Rightarrow> bool" where
  "sends R Xs devs s s' \<longleftrightarrow> (\<exists>new. snd s' = snd s @ new \<and> list_all (\<lambda>m. legit R Xs m \<and> pm_groupID m \<in> set devs) new)"

lemma sends_refl: "snd s' = snd s \<Longrightarrow> sends R Xs devs s s'"
  by (simp add: sends_def)

lemma sends_trans: "sends R Xs devs s s1 \<Longrightarrow> sends R Xs devs s1 s' \<Longrightarrow> sends R Xs devs s s'"
  by (fastforce simp: sends_def)

lemma owner_access:
  assumes "validateAccessToDeviceWithOwner X dev owner = Inr ()"
  shows "\<exists>id. rx_getOwnerDevices X owner [dev] = Inr [id]"
  using assms
  by (auto simp: validateAccessToDeviceWithOwner_def isUserDevice_def length_Suc_conv split: sum.splits if_splits)

lemma access_granted:
  assumes "validateAccessToDevice R X dev = Inr (userID, owner)"
  shows "SubjectFromTokenMD (ra_auth R) = Inr userID" and "OwnerFromTokenMD (ra_auth R) (ra_OwnerClaim R) = Inr owner"
    and "\<exists>id. rx_getOwnerDevices X owner [dev] = Inr [id]"
  using assms owner_access [of X dev owner]
  by (auto simp: validateAccessToDevice_def split: sum.splits)

lemma publishes_sends:
  assumes "ra_publishes R userID owner dev s out" and "out = Some (s', r)" and "dev \<in> set devs"
    and "SubjectFromTokenMD (ra_auth R) = Inr userID" and "OwnerFromTokenMD (ra_auth R) (ra_OwnerClaim R) = Inr owner"
    and "rx_getOwnerDevices (Xs k) owner [dev] = Inr [devID]"
  shows "sends R Xs devs s s'"
proof -
  obtain new where new: "snd s' = snd s @ new" "list_all (message_of R userID owner dev) new"
    using assms(1,2) by (auto simp: ra_publishes_def)
  have "legit R Xs m \<and> pm_groupID m \<in> set devs" if "message_of R userID owner dev m" for m
  proof -
    have "pm_groupID m = dev" using that by (simp add: message_of_def)
    with that assms(3-6) show ?thesis unfolding legit_def by blast
  qed
  with new show ?thesis by (auto simp: sends_def list_all_iff)
qed

lemma with_access_sends:
  assumes "with_access R (Xs k) dev s h = Some (s', r)" and "\<And>u w. ra_publishes R u w dev s (h u w)" and "dev \<in> set devs"
  shows "sends R Xs devs s s'"
proof (cases "validateAccessToDevice R (Xs k) dev")
  case (Inl e)
  with assms(1) show ?thesis by (simp add: with_access_def sends_refl)
next
  case (Inr uw)
  obtain u w where uw: "uw = (u, w)" by fastforce
  with assms(1) Inr have "h u w = Some (s', r)" by (simp add: with_access_def)
  with publishes_sends [OF assms(2) _ assms(3)] access_granted [OF Inr [unfolded uw]] show ?thesis by blast
qed

lemma ttl_devices:
  "urq_ResourceId (urq\<lparr>urq_TimeToLive := t\<rparr>) = urq_ResourceId urq" "rrq_ResourceId (rrq\<lparr>rrq_TimeToLive := t\<rparr>) = rrq_ResourceId rrq"
  "drq_ResourceId (drq\<lparr>drq_TimeToLive := t\<rparr>) = drq_ResourceId drq" "crq_ResourceId (crq\<lparr>crq_TimeToLive := t\<rparr>) = crq_ResourceId crq"
  "udm_DeviceId (udm\<lparr>udm_TimeToLive := t\<rparr>) = udm_DeviceId udm"
  by simp_all

lemma command_handlers_send:
  "rh_PublishResourceLinks R (Xs k) plr s = Some (s', r) \<Longrightarrow> sends R Xs [plr_DeviceId plr] s s'"
  "unpublish_links R (Xs k) ulr s = Some (s', r) \<Longrightarrow> sends R Xs [ulr_DeviceId ulr] s s'"
  "rh_UpdateResource R (Xs k) urq s = Some (s', r) \<Longrightarrow> sends R Xs [GetDeviceId (urq_ResourceId urq)] s s'"
  "rh_ConfirmResourceUpdate R (Xs k) cfm s = Some (s', r) \<Longrightarrow> sends R Xs [GetDeviceId (cfm_ResourceId cfm)] s s'"
  "rh_RetrieveResource R (Xs k) rrq s = Some (s', r) \<Longrightarrow> sends R Xs [GetDeviceId (rrq_ResourceId rrq)] s s'"
  "rh_ConfirmResourceRetrieve R (Xs k) crr s = Some (s', r) \<Longrightarrow> sends R Xs [GetDeviceId (cfm_ResourceId crr)] s s'"
  "rh_DeleteResource R (Xs k) drq s = Some (s', r) \<Longrightarrow> sends R Xs [GetDeviceId (drq_ResourceId drq)] s s'"
  "rh_ConfirmResourceDelete R (Xs k) cfm s = Some (s', r) \<Longrightarrow> sends R Xs [GetDeviceId (cfm_ResourceId cfm)] s s'"
  "rh_CreateResource R (Xs k) crq s = Some (s', r) \<Longrightarrow> sends R Xs [GetDeviceId (crq_ResourceId crq)] s s'"
  "rh_ConfirmResourceCreate R (Xs k) cfm s = Some (s', r) \<Longrightarrow> sends R Xs [GetDeviceId (cfm_ResourceId cfm)] s s'"
  "rh_CancelPendingCommands R (Xs k) cpc s = Some (s', r) \<Longrightarrow> sends R Xs [GetDeviceId (cpc_ResourceId cpc)] s s'"
  "rh_UpdateDeviceMetadata R (Xs k) udm s = Some (s', r) \<Longrightarrow> sends R Xs [udm_DeviceId udm] s s'"
  "rh_ConfirmDeviceMetadataUpdate R (Xs k) cdm s = Some (s', r) \<Longrightarrow> sends R Xs [cdm_DeviceId cdm] s s'"
  "rh_CancelPendingMetadataUpdates R (Xs k) cpm s = Some (s', r) \<Longrightarrow> sends R Xs [cpm_DeviceId cpm] s s'"
  unfolding handler_defs_ra method_defs Let_def ttl_devices
  by (erule with_access_sends, (rule resource_publishes links_publishes device_publishes; simp add: of_request_def), simp)+

lemma notify_publishes: "ra_publishes R u w (GetDeviceId (nrq_ResourceId request)) s (notifyResourceChanged R X request u w s)"
  unfolding notifyResourceChanged_def method_defs by (rule resource_publishes) simp

lemma rh_notify_sends:
  assumes "rh_NotifyResourceChanged R (Xs k) request s = Some (s', r)" and "GetDeviceId (nrq_ResourceId request) \<in> set devs"
  shows "sends R Xs devs s s'"
proof (rule with_access_sends [where Xs = Xs, OF assms(1) [unfolded rh_NotifyResourceChanged_def] _ assms(2)])
  fix u w
  show "ra_publishes R u w (GetDeviceId (nrq_ResourceId request)) s (case notifyResourceChanged R (Xs k) request u w s of
      None \<Rightarrow> None
    | Some (s', Inl err) \<Rightarrow> Some (s', Inl err)
    | Some (s', Inr _) \<Rightarrow> Some (s', Inr (AuditResponse (NewAuditContext u [] w))))"
    using notify_publishes [of R u w request s "Xs k"] by (auto simp: ra_publishes_def split: option.splits sum.splits)
qed

lemma reset_sends:
  "reset_contents R Xs n dev cm hrefs s = Some s' \<Longrightarrow> dev \<in> set devs \<Longrightarrow> sends R Xs devs s s'"
proof (induction hrefs arbitrary: n s)
  case (Cons href hrefs)
  obtain s1 r where no: "rh_NotifyResourceChanged R (Xs n) (reset_content dev href cm) s = Some (s1, r)"
    using Cons.prems by (auto split: option.splits)
  have "sends R Xs devs s s1"
    by (rule rh_notify_sends [where Xs = Xs, OF no]) (simp add: reset_content_def NewResourceID_def Cons.prems)
  moreover have "sends R Xs devs s1 s'" using Cons.IH [of "Suc n" s1] Cons.prems no by simp
  ultimately show ?case by (rule sends_trans)
qed (simp add: sends_refl)

lemma batch_sends:
  assumes "SubjectFromTokenMD (ra_auth R) = Inr u" and "OwnerFromTokenMD (ra_auth R) (ra_OwnerClaim R) = Inr w"
  shows "batch_notify R Xs n u w batch s = Some (s', errs) \<Longrightarrow>
     \<forall>r\<in>set batch. GetDeviceId (nrq_ResourceId r) \<in> set devs \<Longrightarrow> sends R Xs devs s s'"
proof (induction batch arbitrary: n s errs)
  case (Cons r batch)
  show ?case
  proof (cases "validateAccessToDeviceWithOwner (Xs n) (GetDeviceId (nrq_ResourceId r)) w")
    case (Inl e)
    with Cons.prems(1) obtain errs1 where "batch_notify R Xs (Suc n) u w batch s = Some (s', errs1)" by (auto simp: Let_def)
    with Cons.IH Cons.prems(2) show ?thesis by simp
  next
    case (Inr x)
    then obtain devID where acc: "rx_getOwnerDevices (Xs n) w [GetDeviceId (nrq_ResourceId r)] = Inr [devID]"
      using owner_access by fastforce
    obtain s1 res where no: "notifyResourceChanged R (Xs n) r u w s = Some (s1, res)"
      using Cons.prems(1) Inr by (auto simp: Let_def split: option.splits)
    have "sends R Xs devs s s1"
      by (rule publishes_sends [where Xs = Xs, OF notify_publishes no _ assms acc]) (use Cons.prems(2) in simp)
    moreover from Cons.prems(1) Inr no obtain errs1 where "batch_notify R Xs (Suc n) u w batch s1 = Some (s', errs1)"
      by (cases res) (auto simp: Let_def)
    then have "sends R Xs devs s1 s'" using Cons.IH Cons.prems(2) by auto
    ultimately show ?thesis by (rule sends_trans)
  qed
qed (simp add: sends_refl)

lemma serve_sends:
  assumes "serve R Xs req s = Some (s', r)"
  shows "sends R Xs (request_devices req) s s'"
proof (cases req)
  case (Req_UnpublishResourceLinks q)
  then obtain s1 res where un: "unpublish_links R (Xs 0) q s = Some (s1, res)"
      and rest: "res = Inr resp \<Longrightarrow> \<exists>s2. reset_contents R Xs 1 (ulr_DeviceId q) (ulr_CommandMetadata q) (GetUnpublishedHrefs resp) s1 = Some s2 \<and> s' = s2"
      and err: "res = Inl e \<Longrightarrow> s' = s1" for resp e
    using assms by (auto simp: serve_def rh_UnpublishResourceLinks_def split: option.splits sum.splits)
  have "sends R Xs [ulr_DeviceId q] s s1" by (rule command_handlers_send(2) [where Xs = Xs, OF un])
  moreover have "sends R Xs [ulr_DeviceId q] s1 s'"
    using rest err reset_sends [of R Xs 1 "ulr_DeviceId q" "ulr_CommandMetadata q" _ s1 s' "[ulr_DeviceId q]"]
    by (cases res) (auto simp: sends_refl)
  ultimately show ?thesis using Req_UnpublishResourceLinks sends_trans by fastforce
next
  case (Req_BatchNotifyResourceChanged batch)
  with assms show ?thesis
    by (auto simp: serve_def rh_BatchNotifyResourceChanged_def sends_refl split: sum.splits option.splits
        dest: batch_sends [where devs = "map (\<lambda>r. GetDeviceId (nrq_ResourceId r)) batch"])
next
  case (Req_DeleteDevices ids)
  with assms show ?thesis
    by (auto simp: serve_def rh_DeleteDevices_def Let_def sends_refl split: sum.splits prod.splits if_splits)
next
  case (Req_NotifyResourceChanged q)
  with assms show ?thesis by (auto simp: serve_def intro: rh_notify_sends)
qed (use assms command_handlers_send in \<open>simp_all add: serve_def\<close>)

text \<open>
  C36. Everything a request publishes is on a device that it names and that the owner of its token has, goes
  to the subjects of that owner, and has the user and owner of the token as its audit context, whatever the request and the
  stored events say.
\<close>

theorem published_for_caller:
  assumes "serve R Xs req s = Some (s', r)"
  shows "\<exists>new. snd s' = snd s @ new \<and>
     (\<forall>m\<in>set new. pm_groupID m \<in> set (request_devices req) \<and>
        (\<exists>k userID owner devID correlationID.
           SubjectFromTokenMD (ra_auth R) = Inr userID \<and> OwnerFromTokenMD (ra_auth R) (ra_OwnerClaim R) = Inr owner \<and>
           rx_getOwnerDevices (Xs k) owner [pm_groupID m] = Inr [devID] \<and>
           pm_topics m = GetPublishSubject (ra_subjects R) (ra_leadResourceType R) owner (pm_event m) \<and>
           audit_of (pm_event m) = Some (NewAuditContext userID correlationID owner)))"
proof -
  obtain new where "snd s' = snd s @ new" and new: "list_all (\<lambda>m. legit R Xs m \<and> pm_groupID m \<in> set (request_devices req)) new"
    using serve_sends [OF assms] by (auto simp: sends_def)
  moreover have "\<forall>m\<in>set new. pm_groupID m \<in> set (request_devices req) \<and>
        (\<exists>k userID owner devID correlationID.
           SubjectFromTokenMD (ra_auth R) = Inr userID \<and> OwnerFromTokenMD (ra_auth R) (ra_OwnerClaim R) = Inr owner \<and>
           rx_getOwnerDevices (Xs k) owner [pm_groupID m] = Inr [devID] \<and>
           pm_topics m = GetPublishSubject (ra_subjects R) (ra_leadResourceType R) owner (pm_event m) \<and>
           audit_of (pm_event m) = Some (NewAuditContext userID correlationID owner))"
    using new unfolding list_all_iff legit_def message_of_def audited_def by blast
  ultimately show ?thesis by blast
qed

section \<open>Malformed requests\<close>

text \<open>The check of a request, with the default time to live filled in.\<close>

abbreviation default_ttl :: "('st, 'v) ra_env \<Rightarrow> i64 \<Rightarrow> i64" where
  "default_ttl R t \<equiv> checkTimeToLiveForDefault (ra_DefaultCommandTimeToLive R) t"

fun request_check :: "('st, 'v) ra_env \<Rightarrow> ra_request \<Rightarrow> unit res" where
  "request_check R (Req_PublishResourceLinks r) = validatePublish r"
| "request_check R (Req_UnpublishResourceLinks r) = validateUnpublish r"
| "request_check R (Req_NotifyResourceChanged r) = validateNotifyContentChanged r"
| "request_check R (Req_UpdateResource r) = validateUpdateResourceContent (r\<lparr>urq_TimeToLive := default_ttl R (urq_TimeToLive r)\<rparr>)"
| "request_check R (Req_ConfirmResourceUpdate r) = validateConfirmResourceUpdate r"
| "request_check R (Req_RetrieveResource r) = validateRetrieveResource (r\<lparr>rrq_TimeToLive := default_ttl R (rrq_TimeToLive r)\<rparr>)"
| "request_check R (Req_ConfirmResourceRetrieve r) = validateConfirmResourceRetrieve r"
| "request_check R (Req_DeleteResource r) = validateDeleteResource (r\<lparr>drq_TimeToLive := default_ttl R (drq_TimeToLive r)\<rparr>)"
| "request_check R (Req_ConfirmResourceDelete r) = validateConfirmResourceDelete r"
| "request_check R (Req_CreateResource r) = validateCreateResource (r\<lparr>crq_TimeToLive := default_ttl R (crq_TimeToLive r)\<rparr>)"
| "request_check R (Req_ConfirmResourceCreate r) = validateConfirmResourceCreate r"
| "request_check R (Req_CancelPendingCommands r) = validateCancelResourceCommand r"
| "request_check R (Req_UpdateDeviceMetadata r) = validateUpdateDeviceMetadata (r\<lparr>udm_TimeToLive := default_ttl R (udm_TimeToLive r)\<rparr>)"
| "request_check R (Req_ConfirmDeviceMetadataUpdate r) = validateConfirmDeviceMetadataUpdate r"
| "request_check R (Req_CancelPendingMetadataUpdates r) = validateCancelPendingMetadataUpdates r"
| "request_check R (Req_BatchNotifyResourceChanged _) = Inr ()"
| "request_check R (Req_DeleteDevices _) = Inr ()"

lemmas check_defs =
  validatePublish_def validateUnpublish_def validateNotifyContentChanged_def validateUpdateResourceContent_def
  validateConfirmResourceUpdate_def validateRetrieveResource_def validateConfirmResourceRetrieve_def validateDeleteResource_def
  validateConfirmResourceDelete_def validateCreateResource_def validateConfirmResourceCreate_def validateCancelResourceCommand_def
  validateUpdateDeviceMetadata_def validateConfirmDeviceMetadataUpdate_def validateCancelPendingMetadataUpdates_def
  validate_confirmation_def checkTimeToLive_def errInvalidDeviceID_def errInvalidContent_def errInvalidCorrelationID_def
  errInvalidResourceIdDeviceID_def errInvalidResourceIdHref_def

lemma validate_links_code: "validate_links rs = Inl e \<Longrightarrow> error_code e = Some InvalidArgument"
  by (induction rs) (auto split: if_splits)

lemma request_check_code: "request_check R req = Inl e \<Longrightarrow> error_code e = Some InvalidArgument"
  by (cases req) (auto simp: check_defs split: if_splits sum.splits Device_Update.splits Device_Confirm.splits
      dest: validate_links_code)

lemma aggregate_error: "NewResourceAggregate R X rid f M cell b = Inl e \<Longrightarrow> error_code e = None"
  by (auto simp: NewResourceAggregate_def NewAggregate_def Let_def split: if_splits sum.splits)

definition rejected :: "('st, 'v) ra_env \<Rightarrow> 'st ra_run \<Rightarrow> string \<Rightarrow> 'st ra_state \<Rightarrow> ('st, 'a) ra_result \<Rightarrow> bool" where
  "rejected R X dev s out \<longleftrightarrow>
     (\<exists>err. out = Some (s, Inl err) \<and> ((\<exists>uw. validateAccessToDevice R X dev = Inr uw) \<longrightarrow> error_code err = Some InvalidArgument))"

lemma rejected_command:
  assumes "v = Inl e" and "error_code e = Some InvalidArgument" and "error_code (g e) = error_code e"
  shows "rejected R X dev s (with_access R X dev s (\<lambda>u w.
     with_aggregate (NewResourceAggregate R X (rid u w) (f u w) (M u w) (cell u w) (b u w)) (ForwardErrorf InvalidArgument msg) s (\<lambda>a.
     with_events (checked_command v g g' (cell' a) (fst s) (r a)) (ForwardErrorf c msg') (snd s) (h u w a))))"
  using assms
  by (auto simp: rejected_def with_access_def with_aggregate_def with_events_def checked_command_def ForwardErrorf_def
      split: sum.splits dest: aggregate_error)

lemma command_handlers_reject:
  assumes "error_code e = Some InvalidArgument"
  shows "validatePublish plr = Inl e \<Longrightarrow> rejected R X (plr_DeviceId plr) s (rh_PublishResourceLinks R X plr s)"
    and "validateUnpublish ulr = Inl e \<Longrightarrow> rejected R X (ulr_DeviceId ulr) s (unpublish_links R X ulr s)"
    and "validateUpdateResourceContent (urq\<lparr>urq_TimeToLive := default_ttl R (urq_TimeToLive urq)\<rparr>) = Inl e \<Longrightarrow>
      rejected R X (GetDeviceId (urq_ResourceId urq)) s (rh_UpdateResource R X urq s)"
    and "validateConfirmResourceUpdate cfm = Inl e \<Longrightarrow> rejected R X (GetDeviceId (cfm_ResourceId cfm)) s (rh_ConfirmResourceUpdate R X cfm s)"
    and "validateRetrieveResource (rrq\<lparr>rrq_TimeToLive := default_ttl R (rrq_TimeToLive rrq)\<rparr>) = Inl e \<Longrightarrow>
      rejected R X (GetDeviceId (rrq_ResourceId rrq)) s (rh_RetrieveResource R X rrq s)"
    and "validateConfirmResourceRetrieve crr = Inl e \<Longrightarrow> rejected R X (GetDeviceId (cfm_ResourceId crr)) s (rh_ConfirmResourceRetrieve R X crr s)"
    and "validateDeleteResource (drq\<lparr>drq_TimeToLive := default_ttl R (drq_TimeToLive drq)\<rparr>) = Inl e \<Longrightarrow>
      rejected R X (GetDeviceId (drq_ResourceId drq)) s (rh_DeleteResource R X drq s)"
    and "validateConfirmResourceDelete cfm = Inl e \<Longrightarrow> rejected R X (GetDeviceId (cfm_ResourceId cfm)) s (rh_ConfirmResourceDelete R X cfm s)"
    and "validateCreateResource (crq\<lparr>crq_TimeToLive := default_ttl R (crq_TimeToLive crq)\<rparr>) = Inl e \<Longrightarrow>
      rejected R X (GetDeviceId (crq_ResourceId crq)) s (rh_CreateResource R X crq s)"
    and "validateConfirmResourceCreate cfm = Inl e \<Longrightarrow> rejected R X (GetDeviceId (cfm_ResourceId cfm)) s (rh_ConfirmResourceCreate R X cfm s)"
    and "validateCancelResourceCommand cpc = Inl e \<Longrightarrow> rejected R X (GetDeviceId (cpc_ResourceId cpc)) s (rh_CancelPendingCommands R X cpc s)"
    and "validateUpdateDeviceMetadata (udm\<lparr>udm_TimeToLive := default_ttl R (udm_TimeToLive udm)\<rparr>) = Inl e \<Longrightarrow>
      rejected R X (udm_DeviceId udm) s (rh_UpdateDeviceMetadata R X udm s)"
    and "validateConfirmDeviceMetadataUpdate cdm = Inl e \<Longrightarrow> rejected R X (cdm_DeviceId cdm) s (rh_ConfirmDeviceMetadataUpdate R X cdm s)"
    and "validateCancelPendingMetadataUpdates cpm = Inl e \<Longrightarrow> rejected R X (cpm_DeviceId cpm) s (rh_CancelPendingMetadataUpdates R X cpm s)"
  unfolding handler_defs_ra aggregate_defs method_defs Let_def ttl_devices
  by (rule rejected_command, assumption, rule assms, simp)+

lemma rh_notify_rejects:
  assumes "error_code e = Some InvalidArgument" and "validateNotifyContentChanged request = Inl e"
  shows "rejected R X (GetDeviceId (nrq_ResourceId request)) s (rh_NotifyResourceChanged R X request s)"
  using assms
  by (auto simp: rejected_def rh_NotifyResourceChanged_def notifyResourceChanged_def with_access_def with_aggregate_def with_events_def
      resource_aggregate_def ag_NotifyResourceChanged_def checked_command_def ForwardErrorf_def split: sum.splits dest: aggregate_error)


end
