(* ===== verification/RA_Pending.thy ===== *)
theory RA_Pending
  imports RA_Service_Properties Resource_State_Properties
begin

text \<open>
  The four requests that leave a pending command on a resource, from the call to the published event, the
  deletion of devices, and a concrete service on which the properties of \<open>RA_Service_Properties\<close> are
  evaluated.
\<close>

section \<open>Pending commands\<close>

datatype pending_kind = Pending_Update | Pending_Retrieve | Pending_Delete | Pending_Create

fun pending_info :: "any_event \<Rightarrow> (pending_kind \<times> ResourceId option \<times> AuditContext option \<times> i64) option" where
  "pending_info (E_ResourceUpdatePending p) = Some (Pending_Update, rup_ResourceId p, rup_AuditContext p, rup_ValidUntil p)"
| "pending_info (E_ResourceRetrievePending p) = Some (Pending_Retrieve, rrp_ResourceId p, rrp_AuditContext p, rrp_ValidUntil p)"
| "pending_info (E_ResourceDeletePending p) = Some (Pending_Delete, rdp_ResourceId p, rdp_AuditContext p, rdp_ValidUntil p)"
| "pending_info (E_ResourceCreatePending p) = Some (Pending_Create, rcp_ResourceId p, rcp_AuditContext p, rcp_ValidUntil p)"
| "pending_info _ = None"

fun command_pending :: "rs_command \<Rightarrow> (pending_kind \<times> ResourceId option \<times> string \<times> i64) option" where
  "command_pending (UpdateResource q) = Some (Pending_Update, urq_ResourceId q, urq_CorrelationId q, urq_TimeToLive q)"
| "command_pending (RetrieveResource q) = Some (Pending_Retrieve, rrq_ResourceId q, rrq_CorrelationId q, rrq_TimeToLive q)"
| "command_pending (DeleteResource q) = Some (Pending_Delete, drq_ResourceId q, drq_CorrelationId q, drq_TimeToLive q)"
| "command_pending (CreateResource q) = Some (Pending_Create, crq_ResourceId q, crq_CorrelationId q, crq_TimeToLive q)"
| "command_pending _ = None"

definition pending_answer ::
    "'st ra_run \<Rightarrow> string \<Rightarrow> string \<Rightarrow> pending_kind \<times> ResourceId option \<times> string \<times> i64 \<Rightarrow> any_event list \<Rightarrow> bool" where
  "pending_answer X u w q evs \<longleftrightarrow> (case q of (kind, rid, cid, ttl) \<Rightarrow>
     (\<exists>ev k. evs = [ev] \<and>
        pending_info ev = Some (kind, rid, Some (NewAuditContext u cid w), timeToLive2ValidUntil (env_Now_ttl (rx_command X k)) ttl)))"

lemma pending_command:
  assumes "state_of u w c" and "command_pending cmd = Some q"
    and "ResourceState_HandleCommand K S (rx_command X k) c cmd v = (c', Inr evs)"
  shows "pending_answer X u w q evs"
  using assms
  by (cases cmd) (auto simp: ResourceState_HandleCommand_def handleUpdateResourceRequest_def handleRetrieveResourceRequest_def
      handleDeleteResourceRequest_def handleCreateResourceRequest_def on_snap_def Let_def pending_answer_def command_ac_of
      split: if_splits option.splits sum.splits prod.splits)

interpretation pending_commands: model_invariant "resource_model R X" "resource_of u w" "\<lambda>cmd. command_pending cmd = Some q"
  "pending_answer X u w q"
proof (standard, goal_cases)
  case (3 m cmd k v m' cmd' r)
  then have "cmd' = cmd" by (auto simp: resource_model_def split: resourceStateModel.splits prod.splits)
  with 3 resource_identity.command_mine [OF 3(1) TrueI 3(3)] show ?case by simp
next
  case (4 m cmd k v m' cmd' evs)
  show ?case
  proof (cases m)
    case (RM_State c)
    with 4 have "state_of u w c" by (simp add: resource_of_def)
    with 4 RM_State show ?thesis
      by (auto simp: resource_model_def split: prod.splits intro: pending_command)
  qed (use 4 in \<open>auto simp: resource_model_def ResourceLinks_HandleCommand_def\<close>)
qed (rule resource_identity.step_mine resource_identity.sees_mine; assumption)+

lemma pending_run:
  assumes "resource_aggregate R X rid u w b = Inr a" and "command_pending cmd = Some q"
    and "RA_HandleCommand R X a cmd st = Some (st', m, Inr events)"
  shows "pending_answer X u w q events"
proof -
  note ag = resource_aggregate_ag [OF assms(1) [unfolded resource_aggregate_def]]
  show ?thesis
    using RA_HandleCommand_ok [OF assms(3)] assms(2) resource_factory [OF assms(1)]
      pending_commands.run_keeps [of u w "sa_ag a" "sa_cell a" cmd] unfolding ag(4,5) by blast
qed

section \<open>From the request to the event\<close>

fun request_pending ::
    "('st, 'v) ra_env \<Rightarrow> ra_request \<Rightarrow> ((pending_kind \<times> ResourceId option \<times> string \<times> i64) \<times> bool) option" where
  "request_pending R (Req_UpdateResource q) =
     Some ((Pending_Update, urq_ResourceId q, urq_CorrelationId q, default_ttl R (urq_TimeToLive q)), urq_Force q)"
| "request_pending R (Req_RetrieveResource q) =
     Some ((Pending_Retrieve, rrq_ResourceId q, rrq_CorrelationId q, default_ttl R (rrq_TimeToLive q)), False)"
| "request_pending R (Req_DeleteResource q) =
     Some ((Pending_Delete, drq_ResourceId q, drq_CorrelationId q, default_ttl R (drq_TimeToLive q)), drq_Force q)"
| "request_pending R (Req_CreateResource q) =
     Some ((Pending_Create, crq_ResourceId q, crq_CorrelationId q, default_ttl R (crq_TimeToLive q)), crq_Force q)"
| "request_pending R _ = None"

definition accepted_as_pending ::
    "('st, 'v) ra_env \<Rightarrow> 'st ra_run \<Rightarrow> pending_kind \<times> ResourceId option \<times> string \<times> i64 \<Rightarrow> bool \<Rightarrow> 'st ra_state \<Rightarrow> 'st ra_state
     \<Rightarrow> ra_response \<Rightarrow> bool" where
  "accepted_as_pending R X q force s s' resp \<longleftrightarrow> (case q of (kind, rid, cid, ttl) \<Rightarrow>
     (\<exists>userID owner ev k validUntil.
        SubjectFromTokenMD (ra_auth R) = Inr userID \<and> OwnerFromTokenMD (ra_auth R) (ra_OwnerClaim R) = Inr owner \<and>
        pending_info ev = Some (kind, rid, Some (NewAuditContext userID cid owner), validUntil) \<and>
        validUntil = timeToLive2ValidUntil (env_Now_ttl (rx_command X k)) ttl \<and>
        resp = PendingResponse (NewAuditContext userID cid owner) validUntil \<and>
        (snd s' = PublishEvents R owner (GetDeviceId rid) (ResourceId_ToUUID (ra_uuid R) rid) [ev] (snd s) \<or> force \<and> snd s' = snd s)))"

lemma aggregate_ResourceID: "resource_aggregate R X rid u w b = Inr a \<Longrightarrow> sa_ResourceID a = ResourceId_ToUUID (ra_uuid R) rid"
  by (auto simp: resource_aggregate_def NewResourceAggregate_def NewAggregate_def Let_def split: sum.splits if_splits)

lemma pending_handler:
  assumes run: "with_access R X (GetDeviceId rid) s (\<lambda>u w.
      with_aggregate (resource_aggregate R X rid u w True) f s (\<lambda>a.
      with_events (checked_command v g g' (sa_cell a) (fst s) (RA_HandleCommand R X a cmd (fst s))) f' (snd s) (h u w a))) =
      Some (s', Inr resp)"
    and cmd: "command_pending cmd = Some (kind, rid, cid, ttl)"
    and h: "\<And>u w a st m events. h u w a st m events =
      ((st, if pub m then PublishEvents R w (sa_DeviceID a) (sa_ResourceID a) events (snd s) else snd s),
       Inr (PendingResponse (NewAuditContext u cid w) (valid_until vu events)))"
    and vu: "\<And>ev x y t. pending_info ev = Some (kind, x, y, t) \<Longrightarrow> vu ev = Some t"
    and pub: "\<And>m. force \<or> pub m"
  shows "accepted_as_pending R X (kind, rid, cid, ttl) force s s' resp \<and> v = Inr ()"
proof -
  obtain u w where acc: "validateAccessToDevice R X (GetDeviceId rid) = Inr (u, w)"
      and run1: "with_aggregate (resource_aggregate R X rid u w True) f s (\<lambda>a.
      with_events (checked_command v g g' (sa_cell a) (fst s) (RA_HandleCommand R X a cmd (fst s))) f' (snd s) (h u w a)) = Some (s', Inr resp)"
    using run by (auto simp: with_access_def split: sum.splits)
  then obtain a where ag: "resource_aggregate R X rid u w True = Inr a"
      and run2: "with_events (checked_command v g g' (sa_cell a) (fst s) (RA_HandleCommand R X a cmd (fst s))) f' (snd s) (h u w a) = Some (s', Inr resp)"
    by (auto simp: with_aggregate_def split: sum.splits)
  then obtain st m events where ok: "checked_command v g g' (sa_cell a) (fst s) (RA_HandleCommand R X a cmd (fst s)) = Some (st, m, Inr events)"
      and res: "h u w a st m events = (s', Inr resp)"
    by (auto simp: with_events_def split: option.splits sum.splits prod.splits)
  obtain ev k where ev: "events = [ev]" and info: "pending_info ev = Some (kind, rid, Some (NewAuditContext u cid w),
      timeToLive2ValidUntil (env_Now_ttl (rx_command X k)) ttl)"
    using pending_run [OF ag cmd conjunct2 [OF checked_ok [OF ok]]] by (auto simp: pending_answer_def)
  have "valid_until vu events = timeToLive2ValidUntil (env_Now_ttl (rx_command X k)) ttl"
    using vu [OF info] ev by (simp add: valid_until_def)
  with res have resp: "resp = PendingResponse (NewAuditContext u cid w) (timeToLive2ValidUntil (env_Now_ttl (rx_command X k)) ttl)"
      and "snd s' = (if pub m then PublishEvents R w (GetDeviceId rid) (ResourceId_ToUUID (ra_uuid R) rid) [ev] (snd s) else snd s)"
    unfolding h aggregate_device(1) [OF ag] aggregate_ResourceID [OF ag] ev by auto
  then have "snd s' = PublishEvents R w (GetDeviceId rid) (ResourceId_ToUUID (ra_uuid R) rid) [ev] (snd s) \<or> force \<and> snd s' = snd s"
    using pub [of m] by (simp split: if_splits)
  then have "accepted_as_pending R X (kind, rid, cid, ttl) force s s' resp"
    unfolding accepted_as_pending_def prod.case using access_granted(1,2) [OF acc] info resp by blast
  with checked_ok [OF ok] show ?thesis by blast
qed

lemma pending_kindD:
  assumes "pending_info ev = Some (kind, x, y, t)"
  shows "kind = Pending_Update \<Longrightarrow> (case ev of E_ResourceUpdatePending ev \<Rightarrow> Some (rup_ValidUntil ev) | _ \<Rightarrow> None) = Some t"
    and "kind = Pending_Retrieve \<Longrightarrow> (case ev of E_ResourceRetrievePending ev \<Rightarrow> Some (rrp_ValidUntil ev) | _ \<Rightarrow> None) = Some t"
    and "kind = Pending_Delete \<Longrightarrow> (case ev of E_ResourceDeletePending ev \<Rightarrow> Some (rdp_ValidUntil ev) | _ \<Rightarrow> None) = Some t"
    and "kind = Pending_Create \<Longrightarrow> (case ev of E_ResourceCreatePending ev \<Rightarrow> Some (rcp_ValidUntil ev) | _ \<Rightarrow> None) = Some t"
  using assms by (cases ev; simp)+

lemma pending_handlers:
  "rh_UpdateResource R X uq s = Some (s', Inr resp) \<Longrightarrow>
     accepted_as_pending R X (fst (the (request_pending R (Req_UpdateResource uq)))) (urq_Force uq) s s' resp \<and>
     request_check R (Req_UpdateResource uq) = Inr ()"
  "rh_RetrieveResource R X rq s = Some (s', Inr resp) \<Longrightarrow>
     accepted_as_pending R X (fst (the (request_pending R (Req_RetrieveResource rq)))) False s s' resp \<and>
     request_check R (Req_RetrieveResource rq) = Inr ()"
  "rh_DeleteResource R X dq s = Some (s', Inr resp) \<Longrightarrow>
     accepted_as_pending R X (fst (the (request_pending R (Req_DeleteResource dq)))) (drq_Force dq) s s' resp \<and>
     request_check R (Req_DeleteResource dq) = Inr ()"
  "rh_CreateResource R X cq s = Some (s', Inr resp) \<Longrightarrow>
     accepted_as_pending R X (fst (the (request_pending R (Req_CreateResource cq)))) (crq_Force cq) s s' resp \<and>
     request_check R (Req_CreateResource cq) = Inr ()"
  unfolding rh_UpdateResource_def rh_RetrieveResource_def rh_DeleteResource_def rh_CreateResource_def method_defs Let_def ttl_devices
    request_pending.simps request_check.simps option.sel fst_conv
     apply (erule pending_handler [where pub = "\<lambda>m. wantToPublish m (urq_Force uq) (urq_ResourceId uq)"
         and vu = "\<lambda>e. case e of E_ResourceUpdatePending ev \<Rightarrow> Some (rup_ValidUntil ev) | _ \<Rightarrow> None"]; simp add: wantToPublish_def pending_kindD)
    apply (erule pending_handler [where pub = "\<lambda>_. True"
        and vu = "\<lambda>e. case e of E_ResourceRetrievePending ev \<Rightarrow> Some (rrp_ValidUntil ev) | _ \<Rightarrow> None"]; simp add: wantToPublish_def pending_kindD)
   apply (erule pending_handler [where pub = "\<lambda>m. wantToPublish m (drq_Force dq) (drq_ResourceId dq)"
       and vu = "\<lambda>e. case e of E_ResourceDeletePending ev \<Rightarrow> Some (rdp_ValidUntil ev) | _ \<Rightarrow> None"]; simp add: wantToPublish_def pending_kindD)
  apply (erule pending_handler [where pub = "\<lambda>m. wantToPublish m (crq_Force cq) (crq_ResourceId cq)"
      and vu = "\<lambda>e. case e of E_ResourceCreatePending ev \<Rightarrow> Some (rcp_ValidUntil ev) | _ \<Rightarrow> None"]; simp add: wantToPublish_def pending_kindD)
  done


section \<open>Deletion\<close>

text \<open>A request to delete devices whose only device id is empty deletes all devices of the caller: the
  handler drops the id and asks for the devices of the owner with an empty filter.
\<close>

theorem delete_empty_id_deletes_all:
  assumes "kit_strings_ok (ra_kit R)" and "SubjectFromTokenMD (ra_auth R) = Inr userID"
    and "OwnerFromTokenMD (ra_auth R) (ra_OwnerClaim R) = Inr owner"
    and "rx_getOwnerDevices (Xs 0) owner [] = Inr owned" and "owned \<noteq> []" and "ra_Delete R st owned = (st', Inr ())"
  shows "serve R Xs (Req_DeleteDevices ['''']) (st, pub) = Some ((st', pub), Inr (DeleteDevicesResponse (NewAuditContext userID [] owner) owned))"
  using assms kit_strings_okD(1) [OF assms(1), of "[]"]
  by (simp add: serve_def rh_DeleteDevices_def getUniqueDeviceIdsFromDeleteRequest_def getOwnedDevices_def Let_def)

section \<open>A concrete service\<close>

text \<open>
  A store that keeps what is saved and loads the last snapshot, an owner with the device \<open>d\<close>, and no
  other writers.
\<close>

definition ex_store :: "any_event list EventStore" where
  "ex_store = \<lparr>es_Save = (\<lambda>st evs. (rev evs @ st, Inr Save_Ok)),
     es_LoadFromSnapshot = (\<lambda>st _. Inr (case st of [] \<Rightarrow> [] | e # _ \<Rightarrow> [Found (source_of [stored ex_uuid e]) None]))\<rparr>"

definition ex_service :: "(any_event list, bytes) ra_env" where
  "ex_service =
     \<lparr>ra_auth = \<lparr>ae_AuthFromMD = Inr ''t'', ae_ParseToken = (\<lambda>_. Inr [''own'' \<mapsto> Claim (V_string ''owner'')]), ae_GetSubject = (\<lambda>_. Inr ''user'')\<rparr>,
      ra_OwnerClaim = ''own'', ra_HubID = ''hub'', ra_DefaultCommandTimeToLive = 200000000,
      ra_ConcurrencyExceptionMaxRetry = 8, ra_subjects = \<lparr>se_uuid = ex_uuid, se_parse = (\<lambda>_. None), se_order = id\<rparr>,
      ra_leadResourceType = None, ra_codec = ex_codec, ra_kit = ex_kit, ra_links_order = id, ra_eventstore = ex_store,
      ra_RemoveUpToVersion = (\<lambda>st _. (st, Inr ())), ra_Delete = (\<lambda>st _. ([], Inr ()))\<rparr>"

definition ex_run :: "nat \<Rightarrow> any_event list ra_run" where
  "ex_run _ =
     \<lparr>rx_getOwnerDevices = (\<lambda>owner ids. Inr (if owner = ''owner'' \<and> (ids = [] \<or> ''d'' \<in> set ids) then [''d''] else [])),
      rx_now = 0, rx_now_load = (\<lambda>_. 0), rx_now_snapshot = (\<lambda>_. 0), rx_command = (\<lambda>_. ex_env), rx_others = (\<lambda>_. id),
      rx_canceled = (\<lambda>_. False), rx_cleanOrder = id\<rparr>"

definition ex_retrieve :: "string \<Rightarrow> string \<Rightarrow> RetrieveResourceRequest" where
  "ex_retrieve dev cid = \<lparr>rrq_ResourceId = Some \<lparr>rid_DeviceId = dev, rid_Href = ''/r''\<rparr>, rrq_CorrelationId = cid,
     rrq_ResourceInterface = [], rrq_TimeToLive = 0, rrq_CommandMetadata = Some ex_cm, rrq_Etag = []\<rparr>"

text \<open>The store after a first notification about the resource.\<close>

definition ex_stored :: "any_event list" where
  "ex_stored = [E_ResourceStateSnapshotTaken
     (NewResourceStateSnapshotTaken\<lparr>rs_ResourceId := Some ex_rid,
        rs_LatestResourceChange := Some
          \<lparr>rch_ResourceId = Some ex_rid, rch_Content = Some ex_content, rch_Status = Status_OK,
           rch_AuditContext = Some (NewAuditContext ''user'' [] ''owner''),
           rch_EventMetadata = Some (MakeEventMeta 1000 ''conn'' 1 0 ''hub''), rch_Etag = [], rch_ResourceTypes = [''t''],
           rch_OpenTelemetryCarrier = []\<rparr>,
        rs_EventMetadata := Some (MakeEventMeta 0 ''conn'' 1 0 ''hub''), rs_ResourceTypes := [''t'']\<rparr>)]"

definition ex_request :: ra_request where
  "ex_request = Req_RetrieveResource (ex_retrieve ''d'' ''cid'')"

lemma ex_answer:
  "case serve ex_service ex_run ex_request (ex_stored, []) of
     None \<Rightarrow> False
   | Some (s', Inl err) \<Rightarrow> False
   | Some (s', Inr resp) \<Rightarrow> resp = PendingResponse (NewAuditContext ''user'' ''cid'' ''owner'') 200001000 \<and> length (snd s') = 1"
  by code_simp

lemma answered:
  assumes "case r of None \<Rightarrow> False | Some (s', Inl err) \<Rightarrow> False | Some (s', Inr resp) \<Rightarrow> P s' resp"
  obtains s' resp where "r = Some (s', Inr resp)" and "P s' resp"
proof (cases r)
  case (Some x)
  obtain s' out where "x = (s', out)" by fastforce
  with assms Some that show thesis by (cases out) auto
qed (use assms in simp)

lemma ex_served:
  obtains s' where "serve ex_service ex_run ex_request (ex_stored, []) = Some (s', Inr (PendingResponse (NewAuditContext ''user'' ''cid'' ''owner'') 200001000))"
    and "length (snd s') = 1"
proof -
  obtain s' resp where "serve ex_service ex_run ex_request (ex_stored, []) = Some (s', Inr resp)"
      and "resp = PendingResponse (NewAuditContext ''user'' ''cid'' ''owner'') 200001000 \<and> length (snd s') = 1"
    by (rule answered [OF ex_answer])
  then show ?thesis by (intro that [of s']) (simp_all only:)
qed

lemma ex_pending: "request_pending ex_service ex_request = Some ((Pending_Retrieve, Some ex_rid, ''cid'', 200000000), False)"
  by (simp add: ex_request_def ex_retrieve_def ex_service_def checkTimeToLiveForDefault_def ex_rid_def)


theorem published_for_caller_witness:
  "\<exists>s' r new. serve ex_service ex_run ex_request (ex_stored, []) = Some (s', r) \<and> snd s' = snd (ex_stored, []) @ new \<and> length new = 1 \<and>
     (\<forall>m\<in>set new. pm_groupID m \<in> set (request_devices ex_request) \<and>
        (\<exists>k userID owner devID correlationID.
           SubjectFromTokenMD (ra_auth ex_service) = Inr userID \<and> OwnerFromTokenMD (ra_auth ex_service) (ra_OwnerClaim ex_service) = Inr owner \<and>
           rx_getOwnerDevices (ex_run k) owner [pm_groupID m] = Inr [devID] \<and>
           pm_topics m = GetPublishSubject (ra_subjects ex_service) (ra_leadResourceType ex_service) owner (pm_event m) \<and>
           audit_of (pm_event m) = Some (NewAuditContext userID correlationID owner)))"
proof -
  obtain s' where served: "serve ex_service ex_run ex_request (ex_stored, []) =
      Some (s', Inr (PendingResponse (NewAuditContext ''user'' ''cid'' ''owner'') 200001000))" and "length (snd s') = 1" by (rule ex_served)
  note len = \<open>length (snd s') = 1\<close>
  obtain new where new: "snd s' = snd (ex_stored, []) @ new"
      and legit: "\<forall>m\<in>set new. pm_groupID m \<in> set (request_devices ex_request) \<and>
        (\<exists>k userID owner devID correlationID.
           SubjectFromTokenMD (ra_auth ex_service) = Inr userID \<and> OwnerFromTokenMD (ra_auth ex_service) (ra_OwnerClaim ex_service) = Inr owner \<and>
           rx_getOwnerDevices (ex_run k) owner [pm_groupID m] = Inr [devID] \<and>
           pm_topics m = GetPublishSubject (ra_subjects ex_service) (ra_leadResourceType ex_service) owner (pm_event m) \<and>
           audit_of (pm_event m) = Some (NewAuditContext userID correlationID owner))"
    using published_for_caller [OF served] by (elim exE conjE)
  from new len have "length new = 1" by (simp only: snd_conv append_Nil)
  show ?thesis using served new \<open>length new = 1\<close> legit by blast
qed

lemma ex_tokens:
  "SubjectFromTokenMD (ra_auth ex_service) = Inr ''user''"
  "OwnerFromTokenMD (ra_auth ex_service) (ra_OwnerClaim ex_service) = Inr ''owner''"
  by (simp_all add: ex_service_def SubjectFromTokenMD_def OwnerFromTokenMD_def TokenFromMD_def ParseOwnerFromJwtToken_def
      Claims_GetOwner_def parseString_def claim_go_def strings_ToString_def)



theorem delete_empty_id_deletes_all_witness:
  "serve ex_service ex_run (Req_DeleteDevices ['''']) (ex_stored, []) =
     Some (([], []), Inr (DeleteDevicesResponse (NewAuditContext ''user'' [] ''owner'') [''d'']))"
  by (rule delete_empty_id_deletes_all [OF _ ex_tokens]) (simp_all add: ex_service_def ex_run_def ex_kit_ok)

end
