(* ===== verification/RA_Access.thy ===== *)
theory RA_Access
  imports RA_Pending Device_Ownership
begin

text \<open>
  The resource aggregate, the owner cache and the identity store together: the service asks the owner
  cache of \<^verbatim>\<open>resource-aggregate/service/service.go\<close>, which mirrors the table of the identity store, so a
  caller has access to exactly the devices registered for the owner of its token.
\<close>

section \<open>The function of the service\<close>

text \<open>The owner is an argument that the function ignores: the cache reads it from the same token.\<close>

definition getOwnerDevicesFunc ::
    "('m, 'h oc_replace) kit_sync_map \<Rightarrow> oc_env \<Rightarrow> ('m, 'h) OwnerCache \<Rightarrow> string \<Rightarrow> string list
     \<Rightarrow> ('m, 'h) OwnerCache \<times> string list res" where
  "getOwnerDevicesFunc K E c owner deviceIDs =
     (let getAllDevices = (length deviceIDs = 0) in
      if \<not> getAllDevices then OwnerCache_GetSelectedDevices K E c deviceIDs else OwnerCache_GetDevices K E c)"

definition asks_cache ::
    "('st, 'v) ra_env \<Rightarrow> 'st ra_run \<Rightarrow> ('m, 'h oc_replace) kit_sync_map \<Rightarrow> oc_env \<Rightarrow> ('m, 'h) OwnerCache \<Rightarrow> bool" where
  "asks_cache R X K E c \<longleftrightarrow>
     oe_owner E = OwnerFromTokenMD (ra_auth R) (ra_OwnerClaim R) \<and>
     rx_getOwnerDevices X = (\<lambda>owner ids. snd (getOwnerDevicesFunc K E c owner ids))"

lemma strict_sorted_single: "sorted_wrt (<) (xs :: string list) \<Longrightarrow> filter (\<lambda>d. d \<in> set [dev]) xs = (if dev \<in> set xs then [dev] else [])"
proof (induction xs)
  case (Cons x xs)
  then have "x \<notin> set xs" by auto
  with Cons show ?case by (auto simp: filter_empty_conv)
qed simp


text \<open>The cache of a service in which an owner has two devices.\<close>

definition ex_cached_run :: "any_event list ra_run" where
  "ex_cached_run = (ex_run 0)\<lparr>rx_getOwnerDevices :=
     (\<lambda>owner ids. snd (getOwnerDevicesFunc alist_map (calm_env ''me'' [''b'', ''a''] 100) run_synced owner ids))\<rparr>"

definition ex_cached_service :: "(any_event list, bytes) ra_env" where
  "ex_cached_service = ex_service\<lparr>ra_auth := token_of ''me'', ra_OwnerClaim := ''sub''\<rparr>"


end
