(* ===== verification/Spec2Isabelle.thy ===== *)
theory Spec2Isabelle
  imports Resource_State_Properties Resource_Links Device_Metadata_Properties Service_Concurrency
    Owner_Cache_Properties Event_Delivery Token_Cache_Properties Device_Ownership RA_Access
begin

text \<open>
  A verification development for the plgd hub, a cloud for OCF devices written in Go.

  \<^bold>\<open>The program.\<close> Commands on devices and their resources go to the resource aggregate
  (\<^verbatim>\<open>src/resource-aggregate\<close>). It loads the latest snapshot of an aggregate from an event store, lets
  the aggregate model turn the command into events, saves them under optimistic concurrency and
  publishes them on NATS. Projections (\<^verbatim>\<open>cqrs/eventstore/projection.go\<close>) rebuild models from the events.
  The identity store (\<^verbatim>\<open>src/identity-store\<close>) knows which owner has which devices and announces changes on
  NATS; its client keeps a cache by owner. The gRPC gateway (\<^verbatim>\<open>src/grpc-gateway\<close>) turns the filters of
  a subscription into NATS subjects and forwards the events that come in under them.

  \<^bold>\<open>Conventions.\<close> A Go struct is a record with a field prefix, a \<open>oneof\<close> or an enum a datatype, a pointer
  to a message an option, \<open>uint64\<close> and \<open>int64\<close> are 64-bit words where they are counted or compared, a
  Go \<open>error\<close> is a value of type \<open>error\<close>, and \<open>(T, error)\<close> is \<open>'a res\<close>, a sum with the error on the
  left. A method with a pointer receiver returns the new state. A Go map whose order of iteration
  matters is an association list visited in an order that is a parameter. Methods that hold a lock are
  one step. A panic, and a loop that may not end, is \<open>None\<close> of an option.

  \<^bold>\<open>Theories.\<close>
  \<^item> \<open>Hub_Prelude\<close>: Go base types, errors, lists; \<open>pkg/time\<close>. \<open>Hub_Commands\<close>, \<open>Hub_Events\<close>: the messages of
    \<^verbatim>\<open>resource-aggregate/commands\<close> and \<^verbatim>\<open>events\<close>, their helpers, clones and event interfaces.
  \<^item> \<open>Pending_Commands\<close>: what the aggregate models share, among it the locale \<open>pending_queue\<close> of a list of
    pending commands and the cancellation loop, which ranges over a slice it shrinks.
  \<^item> \<open>Resource_State\<close>, \<open>_Proofs\<close>, \<open>_Properties\<close>: \<^verbatim>\<open>events/resourceStateSnapshotTaken.go\<close>, all event and command
    handlers. Commands refine the replay of their events, live correlation ids are unique in all
    reachable states, cancellation, and which change notifications are recorded.
  \<^item> \<open>Resource_Links\<close>: \<^verbatim>\<open>events/resourceLinksSnapshotTaken.go\<close>, publishing and unpublishing by href or CRC-32
    instance id.
  \<^item> \<open>Device_Metadata\<close>, \<open>_Properties\<close>: \<^verbatim>\<open>events/deviceMetadataSnapshotTaken.go\<close> with the pointer to the twin
    synchronization that snapshot and event share: who may set a device offline, order of twin updates.
  \<^item> \<open>Service_Metadata\<close>, \<open>_Properties\<close>: \<^verbatim>\<open>events/serviceMetadataSnapshotTaken.go\<close>, heartbeats of services, as a
    refinement of maps from services to deadlines.
  \<^item> \<open>Event_Store\<close>: queries and the validation of a batch. \<open>Projection\<close>, \<open>_Properties\<close>: the projection with its
    pulling iterators refines the application of events one by one.
  \<^item> \<open>Aggregate\<close>, \<open>_Properties\<close>: the retry loop of \<^verbatim>\<open>cqrs/aggregate/aggregate.go\<close>, over the locale of an event
    store with snapshots; \<open>Cql_Store\<close>, \<open>_Properties\<close>: the Cassandra store is an instance of it;
    \<open>Service_Concurrency\<close>: the composition, heartbeats of concurrent services are serialized.
  \<^item> \<open>Pkg_Strings\<close>, \<open>_Properties\<close>: \<^verbatim>\<open>pkg/strings\<close>; sorted slices interpret the locale \<open>string_set\<close>.
  \<^item> \<open>Kit_Sync\<close>: the synchronized map of plgd-dev/kit as a parameter with laws, and the numbering of handlers.
    \<open>Owner_Cache\<close>, \<open>_Properties\<close>: \<^verbatim>\<open>identity-store/client/ownerCache.go\<close>, its invariant over all histories of
    calls and messages, its answers, updates and expiration.
  \<^item> \<open>Event_Subjects\<close>, \<open>_Properties\<close>: subject templates and the subject under which an event is published.
    \<open>Event_Subscription\<close>: masks, subjects and filters of a subscription. \<open>Event_Routing\<close>: owners are isolated
    from each other on NATS and every requested event reaches its subscription. \<open>Subscription_Filters\<close>:
    which events the filters of a subscription let through. \<open>Subscriptions_Cache\<close>, \<open>_Properties\<close>: the NATS
    subscriptions that subscribers share, without leaks, and \<open>Init\<close> and \<open>Close\<close> of a subscription.
    \<open>Event_Delivery\<close>: the composition, an event that was asked for gets from the publisher to the client.

  \<^item> \<open>Token_Claims\<close>, \<open>_Properties\<close>: claims of access tokens, required scopes, and the owner of a request
    (\<^verbatim>\<open>pkg/security/jwt\<close>, \<^verbatim>\<open>pkg/net/grpc\<close>). \<open>Pkg_Uri\<close>: canonical URIs, under which issuers are compared.
    \<open>Token_Cache\<close>, \<open>_Properties\<close>: verification of tokens by concurrent callers, an interleaving of threads
    over futures: one question at a time, no lost waiter, acceptance only on a recent answer.
  \<^item> \<open>Identity_Store\<close>, \<open>_Properties\<close>: \<^verbatim>\<open>identity-store\<close>, the service over the locale \<open>device_registry\<close> of a
    storage of devices. \<open>Identity_Backends\<close>: MongoDB is such a storage, Cassandra an exclusive one.
    \<open>Device_Ownership\<close>: the composition with the owner cache, which mirrors the table of the store.

  \<^bold>\<open>Parameters.\<close> Code outside the repository is an argument with laws as named hypotheses: \<open>uuid_pkg\<close> and
  \<open>uuid_parse\<close> (google/uuid), \<open>kit_strings\<close> and \<open>kit_sync_map\<close> (plgd-dev/kit), \<open>codec_pkg\<close> and \<open>event_codec\<close>
  (message decoding), \<open>cql_session\<close> and \<open>cql_conn\<close> (gocql), \<open>mongo_devices\<close> and \<open>mongo_session\<close> (MongoDB
  driver), \<open>auth_env\<close> and \<open>token_env\<close> (golang-jwt, gRPC metadata, issuers), the NATS connection and the gRPC client of the identity
  store in \<open>oc_env\<close>, the clock readings of \<open>command_env\<close> and \<open>service_env\<close>, and the orders in which maps are
  visited. Each has a concrete instance on which the witnesses evaluate.

  \<^bold>\<open>Loops.\<close> Loops over slices are structural recursion; searches and parsers have a \<open>termination\<close> proof by
  a measure. The search for a handler number and the retry loop of an aggregate are
  \<open>partial_function (option)\<close> or recursion on the tries left, and are proved to return.

  \<^bold>\<open>Not modelled.\<close> Transport and process code (CoAP, HTTP and gRPC servers, TLS, configuration, logging,
  command-line tools), generated protobuf code beyond the message types, the MongoDB stores except for one
  query, the web client, and the services on top of these parts: device provisioning, certificate
  authority, cloud-to-cloud connector and gateway, OAuth servers, snippet service, resource
  directory.
\<close>

end
